(* ===== verification/Prelude.thy ===== *)
theory Prelude
  imports Complex_Main
begin

text \<open>
  Shared vocabulary of the development: the outcome of a service call (an HTTP exception or a
  value), sequencing of fallible steps, loops over request lines, the text functions of the
  JavaScript standard library that the services use, and the rows of a database table as a
  list. Every theory of the library imports this one.

  Quantities, prices and meter readings are exact rationals (\<open>qty\<close>): the additions,
  subtractions and multiplications of the code are modelled exactly and binary rounding of a
  JavaScript \<open>number\<close> is not modelled. The tolerances of the code (\<open>1e-9\<close>, \<open>1e-6\<close>, \<open>0.01\<close>)
  are kept as written. Rows are identified by strings, as the UUIDs of the schema are.
\<close>

type_synonym qty = rat
type_synonym id = string

named_theorems res_simps \<open>equations of fallible steps\<close>
named_theorems row_simps \<open>equations of table look-ups after updates\<close>

section \<open>Outcomes of a service call\<close>

text \<open>
  The NestJS exceptions, with a short text naming the message, and the errors that the database
  client raises itself: an update of a row that does not exist, and a second row with the same
  unique key.
\<close>

datatype http_error =
    BadRequest string
  | NotFound string
  | Forbidden string
  | Conflict string
  | Unauthorized string
  | InternalError string
  | Locked string
  | ServiceUnavailable string
  | RecordNotFound
  | UniqueViolation

type_synonym 'a res = "http_error + 'a"

definition and_then :: "'a res \<Rightarrow> ('a \<Rightarrow> 'b res) \<Rightarrow> 'b res" where
  "and_then m f = (case m of Inl e \<Rightarrow> Inl e | Inr x \<Rightarrow> f x)"

lemma and_then_Inl [simp, res_simps]: "and_then (Inl e) f = Inl e"
  by (simp add: and_then_def)

lemma and_then_Inr [simp, res_simps]: "and_then (Inr x) f = f x"
  by (simp add: and_then_def)

lemma and_then_eq_Inl: "and_then m f = Inl e \<longleftrightarrow> m = Inl e \<or> (\<exists>x. m = Inr x \<and> f x = Inl e)"
  by (cases m) auto

lemma and_then_eq_Inr: "and_then m f = Inr y \<longleftrightarrow> (\<exists>x. m = Inr x \<and> f x = Inr y)"
  by (cases m) auto

lemma and_then_InrE:
  assumes "and_then m f = Inr y"
  obtains x where "m = Inr x" and "f x = Inr y"
  using assms by (auto simp: and_then_eq_Inr)

lemma and_then_cong [fundef_cong]:
  "m = m' \<Longrightarrow> (\<And>x. m' = Inr x \<Longrightarrow> f x = g x) \<Longrightarrow> and_then m f = and_then m' g"
  by (cases m') (auto simp: and_then_def)

text \<open>A \<open>for ... of\<close> loop whose body may throw: the first exception ends the loop.\<close>

fun for_each :: "('x \<Rightarrow> 's \<Rightarrow> 's res) \<Rightarrow> 'x list \<Rightarrow> 's \<Rightarrow> 's res" where
  "for_each f [] s = Inr s"
| "for_each f (x # xs) s = and_then (f x s) (for_each f xs)"

lemma for_each_append:
  "for_each f (xs @ ys) s = and_then (for_each f xs s) (for_each f ys)"
  by (induction xs arbitrary: s) (auto simp: and_then_def split: sum.splits)

lemma for_each_invariant:
  assumes "for_each f xs s = Inr s'" and "P s"
    and "\<And>x s s'. x \<in> set xs \<Longrightarrow> P s \<Longrightarrow> f x s = Inr s' \<Longrightarrow> P s'"
  shows "P s'"
  using assms
proof (induction xs arbitrary: s)
  case Nil
  then show ?case by simp
next
  case (Cons x xs)
  then obtain t where t: "f x s = Inr t" "for_each f xs t = Inr s'"
    by (auto simp: and_then_eq_Inr)
  have "P t" by (rule Cons.prems(3)[OF _ Cons.prems(2) t(1)]) simp
  then show ?case
    by (rule Cons.IH[OF t(2)]) (rule Cons.prems(3), auto)
qed

text \<open>The simulation rule of a loop: a relation that every turn extends, the loop extends.\<close>

lemma for_each_related:
  assumes "for_each f xs s = Inr s'"
    and refl: "\<And>s. R s s"
    and trans: "\<And>a b c. R a b \<Longrightarrow> R b c \<Longrightarrow> R a c"
    and step: "\<And>x s s'. x \<in> set xs \<Longrightarrow> f x s = Inr s' \<Longrightarrow> R s s'"
  shows "R s s'"
  using assms(1,4)
proof (induction xs arbitrary: s)
  case Nil
  then show ?case by (simp add: refl)
next
  case (Cons x xs)
  then obtain t where t: "f x s = Inr t" "for_each f xs t = Inr s'"
    by (auto simp: and_then_eq_Inr)
  have "R s t" by (rule Cons.prems(2)[OF _ t(1)]) simp
  moreover have "R t s'"
    by (rule Cons.IH[OF t(2)]) (rule Cons.prems(2), auto)
  ultimately show ?case by (rule trans)
qed

text \<open>
  The accounting rule of a loop: under an invariant of the loop, a measure that every turn changes
  by an amount known from the line changes by the sum of the amounts.
\<close>

lemma for_each_sum:
  fixes m :: "'s \<Rightarrow> qty"
  assumes "for_each f xs s = Inr s'" and "P s"
    and "\<And>x s s'. x \<in> set xs \<Longrightarrow> P s \<Longrightarrow> f x s = Inr s' \<Longrightarrow> P s' \<and> m s' = m s + d x"
  shows "P s' \<and> m s' = m s + sum_list (map d xs)"
  using assms
proof (induction xs arbitrary: s)
  case Nil
  then show ?case by simp
next
  case (Cons x xs)
  then obtain t where t: "f x s = Inr t" "for_each f xs t = Inr s'"
    by (auto simp: and_then_eq_Inr)
  have st: "P t \<and> m t = m s + d x"
    by (rule Cons.prems(3)[OF _ Cons.prems(2) t(1)]) simp
  then have "P s' \<and> m s' = m t + sum_list (map d xs)"
    by (intro Cons.IH[OF t(2)]) (use Cons.prems(3) in auto)
  with st show ?case by simp
qed

text \<open>A loop of checks without a state passes when every check passes.\<close>

lemma for_each_checks: "for_each f xs () = Inr () \<longleftrightarrow> (\<forall>x \<in> set xs. f x () = Inr ())"
  by (induction xs) (auto simp: and_then_eq_Inr)

section \<open>Texts\<close>

text \<open>
  \<open>String.prototype.trim\<close> on the white space of the Latin-1 range, \<open>toUpperCase\<close> on ASCII
  letters, \<open>toLowerCase\<close> on them, \<open>String(n)\<close> of a natural number and \<open>padStart\<close>.
\<close>

definition is_space :: "char \<Rightarrow> bool" where
  "is_space c = (of_char c \<in> {9, 10, 11, 12, 13, 32, 160 :: nat})"

definition trim :: "string \<Rightarrow> string" where
  "trim s = rev (dropWhile is_space (rev (dropWhile is_space s)))"

lemma dropWhile_idem: "dropWhile p (dropWhile p s) = dropWhile p s"
  by (induction s) auto

lemma dropWhile_rev_dropWhile:
  "dropWhile p (rev (dropWhile p (rev (dropWhile p s)))) = rev (dropWhile p (rev (dropWhile p s)))"
proof (cases "dropWhile p s")
  case (Cons c cs)
  then have "\<not> p c" by (metis hd_dropWhile list.discI list.sel(1))
  then have "dropWhile p (rev (c # cs)) = dropWhile p (rev cs) @ [c]"
    by (simp add: dropWhile_append dropWhile_eq_Nil_conv)
  then show ?thesis using Cons \<open>\<not> p c\<close> by simp
next
  case Nil
  show ?thesis unfolding Nil by simp
qed

lemma trim_idem [simp]: "trim (trim s) = trim s"
  by (simp add: trim_def dropWhile_rev_dropWhile dropWhile_idem)

definition upper_char :: "char \<Rightarrow> char" where
  "upper_char c = (let n = of_char c :: nat in
     if 97 \<le> n \<and> n \<le> 122 then char_of (n - 32) else c)"

definition to_upper :: "string \<Rightarrow> string" where
  "to_upper s = map upper_char s"

definition lower_char :: "char \<Rightarrow> char" where
  "lower_char c = (let n = of_char c :: nat in
     if 65 \<le> n \<and> n \<le> 90 then char_of (n + 32) else c)"

definition to_lower :: "string \<Rightarrow> string" where
  "to_lower s = map lower_char s"

fun nat_digits :: "nat \<Rightarrow> string" where
  "nat_digits n =
     (if n < 10 then [char_of (48 + n)] else nat_digits (n div 10) @ [char_of (48 + n mod 10)])"

declare nat_digits.simps [simp del]

definition pad_start :: "nat \<Rightarrow> char \<Rightarrow> string \<Rightarrow> string" where
  "pad_start w c s = replicate (w - length s) c @ s"

text \<open>The optional text field of a request: \<open>x?.trim()\<close>, then used as a condition.\<close>

definition trim_opt :: "string option \<Rightarrow> string" where
  "trim_opt s = (case s of None \<Rightarrow> [] | Some t \<Rightarrow> trim t)"

text \<open>The numeric value of a digit string; it reads back what \<open>pad_start\<close> and \<open>nat_digits\<close> print.\<close>

definition digits_value :: "string \<Rightarrow> nat" where
  "digits_value s = foldl (\<lambda>n c. 10 * n + (of_char c - 48)) 0 s"

lemma foldl_zeros:
  "foldl (\<lambda>n c. 10 * n + (of_char c - 48)) (0 :: nat) (replicate k (CHR ''0'')) = 0"
  by (induction k) simp_all

lemma digits_value_nat_digits: "digits_value (nat_digits n) = n"
proof (induction n rule: nat_digits.induct)
  case (1 n)
  show ?case
  proof (cases "n < 10")
    case True
    then show ?thesis by (subst nat_digits.simps) (simp add: digits_value_def)
  next
    case False
    with "1.IH" have IH: "digits_value (nat_digits (n div 10)) = n div 10" by simp
    have "n mod 10 < 10" by simp
    then have "(48 + n mod 10) mod 256 = 48 + n mod 10" by simp
    then have d: "(of_char (char_of (48 + n mod 10) :: char) :: nat) - 48 = n mod 10"
      by (simp only: of_char_of)
    from False have "digits_value (nat_digits n)
        = 10 * digits_value (nat_digits (n div 10))
          + (of_char (char_of (48 + n mod 10) :: char) - 48)"
      by (subst nat_digits.simps) (simp add: digits_value_def)
    also have "\<dots> = 10 * (n div 10) + n mod 10"
      by (simp only: IH d)
    also have "\<dots> = n" by simp
    finally show ?thesis .
  qed
qed

lemma digits_value_pad_start: "digits_value (pad_start w (CHR ''0'') s) = digits_value s"
  by (simp add: digits_value_def pad_start_def foldl_zeros)

text \<open>\<open>parseInt(s, 10)\<close>: blanks, an optional sign and the digits that follow; \<open>None\<close> is \<open>NaN\<close>.\<close>

definition is_digit :: "char \<Rightarrow> bool" where
  "is_digit c = (48 \<le> (of_char c :: nat) \<and> (of_char c :: nat) \<le> 57)"

definition parse_int :: "string \<Rightarrow> int option" where
  "parse_int s =
     (let t = dropWhile is_space s;
          digits = takeWhile is_digit (if t \<noteq> [] \<and> hd t \<in> {CHR ''-'', CHR ''+''} then tl t else t);
          n = int (digits_value digits)
      in if digits = [] then None
         else Some (if hd t = CHR ''-'' then - n else n))"

text \<open>\<open>x || null\<close> and \<open>x || 0\<close> of the JavaScript.\<close>

definition or_null :: "string option \<Rightarrow> string option" where
  "or_null x = (case x of None \<Rightarrow> None | Some s \<Rightarrow> if s = [] then None else Some s)"

definition or_zero :: "qty option \<Rightarrow> qty" where
  "or_zero x = (case x of None \<Rightarrow> 0 | Some q \<Rightarrow> q)"

text \<open>A field of a partial update: absent, it keeps the old value.\<close>

definition patched :: "'x option \<Rightarrow> 'x \<Rightarrow> 'x" where
  "patched new old = (case new of None \<Rightarrow> old | Some x \<Rightarrow> x)"

section \<open>Tables\<close>

text \<open>
  A table is the list of its rows, in the order of insertion. \<open>find_row\<close> is the client's
  \<open>findFirst\<close>/\<open>findUnique\<close>, \<open>update_rows\<close> its \<open>updateMany\<close>, \<open>upsert_row\<close> its \<open>upsert\<close>
  on a unique key, \<open>sum_rows\<close> the \<open>_sum\<close> of \<open>aggregate\<close>/\<open>groupBy\<close> (0 where the client
  returns null and the code writes \<open>?? 0\<close>).
\<close>

definition find_row :: "('r \<Rightarrow> bool) \<Rightarrow> 'r list \<Rightarrow> 'r option" where
  "find_row p rows = List.find p rows"

definition update_rows :: "('r \<Rightarrow> bool) \<Rightarrow> ('r \<Rightarrow> 'r) \<Rightarrow> 'r list \<Rightarrow> 'r list" where
  "update_rows p f rows = map (\<lambda>r. if p r then f r else r) rows"

definition upsert_row :: "('r \<Rightarrow> bool) \<Rightarrow> ('r \<Rightarrow> 'r) \<Rightarrow> 'r \<Rightarrow> 'r list \<Rightarrow> 'r list" where
  "upsert_row p f new rows =
     (if find_row p rows = None then rows @ [new] else update_rows p f rows)"

definition update_row :: "('r \<Rightarrow> bool) \<Rightarrow> ('r \<Rightarrow> 'r) \<Rightarrow> 'r list \<Rightarrow> 'r list res" where
  "update_row p f rows =
     (if find_row p rows = None then Inl RecordNotFound else Inr (update_rows p f rows))"

definition sum_rows :: "('r \<Rightarrow> bool) \<Rightarrow> ('r \<Rightarrow> qty) \<Rightarrow> 'r list \<Rightarrow> qty" where
  "sum_rows p f rows = sum_list (map f (filter p rows))"

text \<open>\<open>Math.round\<close>: halves go up.\<close>

definition js_round :: "qty \<Rightarrow> int" where
  "js_round q = \<lfloor>q + 1 / 2\<rfloor>"

lemma find_row_Nil [simp]: "find_row p [] = None"
  by (simp add: find_row_def)

lemma find_row_Cons [simp]:
  "find_row p (r # rows) = (if p r then Some r else find_row p rows)"
  by (simp add: find_row_def)

lemma find_row_append:
  "find_row p (xs @ ys) = (case find_row p xs of None \<Rightarrow> find_row p ys | Some r \<Rightarrow> Some r)"
  by (induction xs) auto

lemma find_row_None_iff: "find_row p rows = None \<longleftrightarrow> (\<forall>r \<in> set rows. \<not> p r)"
  by (induction rows) auto

lemma find_row_SomeD: "find_row p rows = Some r \<Longrightarrow> r \<in> set rows \<and> p r"
  by (induction rows) (auto split: if_splits)

lemma find_row_unique:
  "distinct (map key rows) \<Longrightarrow> x \<in> set rows \<Longrightarrow> find_row (\<lambda>r. key r = key x) rows = Some x"
  by (induction rows) (auto simp: image_iff)

lemma find_row_map:
  "find_row p (map f rows) = map_option f (find_row (\<lambda>x. p (f x)) rows)"
  by (induction rows) auto

lemma update_rows_Nil [simp]: "update_rows p f [] = []"
  by (simp add: update_rows_def)

lemma update_rows_Cons [simp]:
  "update_rows p f (r # rows) = (if p r then f r else r) # update_rows p f rows"
  by (simp add: update_rows_def)

lemma length_update_rows [simp]: "length (update_rows p f rows) = length rows"
  by (simp add: update_rows_def)

lemma update_rows_append:
  "update_rows p f (xs @ ys) = update_rows p f xs @ update_rows p f ys"
  by (simp add: update_rows_def)

lemma set_update_rows: "set (update_rows p f rows) = (\<lambda>r. if p r then f r else r) ` set rows"
  by (simp add: update_rows_def)

lemma find_row_update_rows:
  assumes "\<And>r. p r \<Longrightarrow> q (f r) = q r"
  shows "find_row q (update_rows p f rows) = map_option (\<lambda>r. if p r then f r else r) (find_row q rows)"
  by (induction rows) (auto simp: assms)

lemma find_row_update_same [row_simps]:
  assumes "\<And>r. p r \<Longrightarrow> p (f r)"
  shows "find_row p (update_rows p f rows) = map_option f (find_row p rows)"
  by (induction rows) (auto simp: assms)

lemma find_row_update_other [row_simps]:
  assumes "\<And>r. p r \<Longrightarrow> \<not> q r" and "\<And>r. p r \<Longrightarrow> \<not> q (f r)"
  shows "find_row q (update_rows p f rows) = find_row q rows"
  by (induction rows) (auto simp: assms)

lemma find_row_upsert_same:
  assumes "\<And>r. p r \<Longrightarrow> p (f r)" and "p new"
  shows "find_row p (upsert_row p f new rows) =
    Some (case find_row p rows of None \<Rightarrow> new | Some r \<Rightarrow> f r)"
  using assms
  by (auto simp: upsert_row_def find_row_append find_row_update_same split: option.splits)

lemma find_row_upsert_other:
  assumes "\<And>r. p r \<Longrightarrow> \<not> q r" and "\<And>r. p r \<Longrightarrow> \<not> q (f r)" and "\<not> q new"
  shows "find_row q (upsert_row p f new rows) = find_row q rows"
  using assms
  by (auto simp: upsert_row_def find_row_append find_row_update_other split: option.splits)

lemma sum_rows_Nil [simp]: "sum_rows p f [] = 0"
  by (simp add: sum_rows_def)

lemma sum_rows_Cons [simp]:
  "sum_rows p f (r # rows) = (if p r then f r else 0) + sum_rows p f rows"
  by (simp add: sum_rows_def)

lemma sum_rows_append [simp]: "sum_rows p f (xs @ ys) = sum_rows p f xs + sum_rows p f ys"
  by (simp add: sum_rows_def)

lemma sum_rows_update_rows:
  assumes "\<And>r. p r \<Longrightarrow> q (g r) = q r" and "\<And>r. p r \<Longrightarrow> f (g r) = f r"
  shows "sum_rows q f (update_rows p g rows) = sum_rows q f rows"
  by (induction rows) (auto simp: assms)

lemma sum_rows_update_outside:
  assumes "\<And>r. p r \<Longrightarrow> \<not> q r \<and> \<not> q (g r)"
  shows "sum_rows q f (update_rows p g rows) = sum_rows q f rows"
  by (induction rows) (auto simp: assms)

lemma sum_rows_cong:
  "(\<And>r. r \<in> set rows \<Longrightarrow> p r \<longleftrightarrow> q r) \<Longrightarrow> (\<And>r. r \<in> set rows \<Longrightarrow> q r \<Longrightarrow> f r = g r) \<Longrightarrow>
     sum_rows p f rows = sum_rows q g rows"
  by (induction rows) auto

lemma sum_rows_none: "(\<And>r. r \<in> set rows \<Longrightarrow> \<not> p r) \<Longrightarrow> sum_rows p f rows = 0"
  by (induction rows) auto

lemma sum_rows_zero: "(\<And>r. r \<in> set rows \<Longrightarrow> f r = 0) \<Longrightarrow> sum_rows p f rows = 0"
  by (induction rows) auto

lemma sum_rows_map: "sum_rows p f (map g rows) = sum_rows (\<lambda>x. p (g x)) (\<lambda>x. f (g x)) rows"
  by (induction rows) auto

lemma sum_rows_nonneg:
  "(\<And>r. r \<in> set rows \<Longrightarrow> p r \<Longrightarrow> 0 \<le> f r) \<Longrightarrow> 0 \<le> sum_rows p f rows"
  by (induction rows) auto

end
