(* ===== verification/Shared.thy ===== *)
theory Shared
  imports Prelude
begin

text \<open>
  The services every module uses inside its transactions: the document counters of
  \<open>common/sequence/sequence.service.ts\<close> and the activity log of
  \<open>common/audit/audit.service.ts\<close>. \<open>core_db\<close> is the part of the database they write; the
  databases of the modules extend this record.
\<close>

record counter =
  ct_tenant :: id
  ct_type :: string
  ct_prefix :: string
  ct_last :: nat

datatype json = JNull | JStr string | JNum qty | JBool bool

record log_row =
  lg_tenant :: id
  lg_user :: id
  lg_entity :: string
  lg_entity_id :: id
  lg_action :: string
  lg_old :: "(string \<times> json) list"
  lg_new :: "(string \<times> json) list"

record core_db =
  counters :: "counter list"
  activity :: "log_row list"

section \<open>Activity log\<close>

definition audit_log :: "log_row \<Rightarrow> 'a core_db_scheme \<Rightarrow> 'a core_db_scheme" where
  "audit_log entry db = db\<lparr>activity := activity db @ [entry]\<rparr>"

section \<open>Correlatives\<close>

text \<open>
  \<open>getNextCorrelative\<close>: an upsert of the counter of the tenant and document type, then the text
  of the new number. The options \<open>padWidth\<close> and \<open>separator\<close> default to 5 and a dash.
\<close>

definition correlative_text :: "string \<Rightarrow> nat \<Rightarrow> string \<Rightarrow> nat \<Rightarrow> string" where
  "correlative_text prefix padWidth separator n =
     (let num = pad_start padWidth (CHR ''0'') (nat_digits n) in
      if separator = [] then prefix @ num else prefix @ separator @ num)"

definition counter_of :: "id \<Rightarrow> string \<Rightarrow> 'a core_db_scheme \<Rightarrow> counter option" where
  "counter_of tenant docType db =
     find_row (\<lambda>c. ct_tenant c = tenant \<and> ct_type c = docType) (counters db)"

definition last_number :: "id \<Rightarrow> string \<Rightarrow> 'a core_db_scheme \<Rightarrow> nat" where
  "last_number tenant docType db =
     (case counter_of tenant docType db of None \<Rightarrow> 0 | Some c \<Rightarrow> ct_last c)"

definition getNextCorrelative ::
    "id \<Rightarrow> string \<Rightarrow> string \<Rightarrow> nat option \<Rightarrow> string option \<Rightarrow>
     'a core_db_scheme \<Rightarrow> string \<times> 'a core_db_scheme" where
  "getNextCorrelative tenant docType prefix padOpt sepOpt db =
     (let padWidth = (case padOpt of None \<Rightarrow> 5 | Some w \<Rightarrow> w);
          separator = (case sepOpt of None \<Rightarrow> ''-'' | Some s \<Rightarrow> s);
          db' = db\<lparr>counters := upsert_row
            (\<lambda>c. ct_tenant c = tenant \<and> ct_type c = docType)
            (\<lambda>c. c\<lparr>ct_last := ct_last c + 1, ct_prefix := prefix\<rparr>)
            \<lparr>ct_tenant = tenant, ct_type = docType, ct_prefix = prefix, ct_last = 1\<rparr>
            (counters db)\<rparr>
      in (correlative_text prefix padWidth separator (last_number tenant docType db'), db'))"

text \<open>Any number of documents issued one after the other.\<close>

fun issue_many ::
    "nat \<Rightarrow> id \<Rightarrow> string \<Rightarrow> string \<Rightarrow> nat option \<Rightarrow> string option \<Rightarrow>
     'a core_db_scheme \<Rightarrow> string list \<times> 'a core_db_scheme" where
  "issue_many 0 tenant docType prefix w s db = ([], db)"
| "issue_many (Suc k) tenant docType prefix w s db =
     (let (c, db1) = getNextCorrelative tenant docType prefix w s db;
          (cs, db2) = issue_many k tenant docType prefix w s db1
      in (c # cs, db2))"

section \<open>Lemmas\<close>

lemma correlative_text_inject:
  assumes "correlative_text p w s m = correlative_text p w s n"
  shows "m = n"
proof -
  from assms have "pad_start w (CHR ''0'') (nat_digits m) = pad_start w (CHR ''0'') (nat_digits n)"
    by (auto simp: correlative_text_def Let_def split: if_splits)
  then have "digits_value (pad_start w (CHR ''0'') (nat_digits m))
           = digits_value (pad_start w (CHR ''0'') (nat_digits n))"
    by simp
  then show ?thesis by (simp add: digits_value_pad_start digits_value_nat_digits)
qed

lemma last_number_next:
  "last_number t d (snd (getNextCorrelative t d p w s db)) = Suc (last_number t d db)"
  by (auto simp: last_number_def counter_of_def getNextCorrelative_def Let_def
      find_row_upsert_same split: option.splits)

lemma last_number_next_other:
  assumes "(t', d') \<noteq> (t, d)"
  shows "last_number t' d' (snd (getNextCorrelative t d p w s db)) = last_number t' d' db"
proof -
  have "find_row (\<lambda>c. ct_tenant c = t' \<and> ct_type c = d')
     (upsert_row (\<lambda>c. ct_tenant c = t \<and> ct_type c = d)
        (\<lambda>c. c\<lparr>ct_last := ct_last c + 1, ct_prefix := p\<rparr>)
        \<lparr>ct_tenant = t, ct_type = d, ct_prefix = p, ct_last = 1\<rparr> (counters db))
    = find_row (\<lambda>c. ct_tenant c = t' \<and> ct_type c = d') (counters db)"
    by (rule find_row_upsert_other) (use assms in auto)
  then show ?thesis
    by (simp add: last_number_def counter_of_def getNextCorrelative_def Let_def)
qed

lemma fst_getNextCorrelative:
  "fst (getNextCorrelative t d p w s db) =
     correlative_text p (case w of None \<Rightarrow> 5 | Some w \<Rightarrow> w) (case s of None \<Rightarrow> ''-'' | Some s \<Rightarrow> s)
       (Suc (last_number t d db))"
  using last_number_next[of t d p w s db] by (simp add: getNextCorrelative_def Let_def)

lemma getNextCorrelative_frame [simp]:
  "activity (snd (getNextCorrelative t d p w s db)) = activity db"
  by (simp add: getNextCorrelative_def Let_def)

lemma fst_issue_many:
  "fst (issue_many k t d p w s db) =
     map (correlative_text p (case w of None \<Rightarrow> 5 | Some w \<Rightarrow> w)
           (case s of None \<Rightarrow> ''-'' | Some s \<Rightarrow> s))
       [Suc (last_number t d db) ..< Suc (last_number t d db + k)]"
proof (induction k arbitrary: db)
  case 0
  then show ?case by simp
next
  case (Suc k)
  obtain c db1 where c: "getNextCorrelative t d p w s db = (c, db1)" by fastforce
  have "last_number t d db1 = Suc (last_number t d db)"
    using last_number_next[of t d p w s db] c by simp
  moreover have "c = correlative_text p (case w of None \<Rightarrow> 5 | Some w \<Rightarrow> w)
      (case s of None \<Rightarrow> ''-'' | Some s \<Rightarrow> s) (Suc (last_number t d db))"
    using fst_getNextCorrelative[of t d p w s db] c by simp
  ultimately show ?case
    using Suc.IH[of db1] c by (simp add: case_prod_beta upt_conv_Cons del: upt_Suc)
qed

section \<open>Properties\<close>


end
