(* ===== verification/Access.thy ===== *)
theory Access
  imports Prelude
begin

text \<open>
  Who may do what: the permissions of a request's user (\<open>features/auth/permissions.util.ts\<close>,
  \<open>features/auth/guards/permissions.guard.ts\<close>) and the contracts the user may operate on
  (\<open>common/contract-scope.util.ts\<close>, \<open>features/purchases/purchase-contract-access.util.ts\<close> and
  the private checks of the transfer service). The lemmas relate the list filters to the
  per-document checks.
\<close>

section \<open>The user of a request\<close>

text \<open>
  The fields of the JWT user that the services read. An absent text id is the empty string;
  an absent list is \<open>None\<close>. \<open>user_custom_permissions\<close> is the JSON value of
  \<open>customRole.permissions\<close>: \<open>None\<close> when it is not an array, and the elements of the array
  otherwise, \<open>None\<close> standing for an element that is not a string.
\<close>

record user =
  user_id :: id
  user_sub :: id
  user_tenant :: id
  user_role :: "string option"
  user_permissions :: "string list option"
  user_custom_permissions :: "string option list option"
  user_contracts :: "string list option"

definition acting_user_id :: "user \<Rightarrow> id" where
  "acting_user_id u = (if user_id u \<noteq> [] then user_id u else user_sub u)"

section \<open>Permissions\<close>

definition parseTenantRolePermissions :: "string option list option \<Rightarrow> string list" where
  "parseTenantRolePermissions ps =
     (case ps of None \<Rightarrow> [] | Some xs \<Rightarrow> List.map_filter (\<lambda>p. p) xs)"

definition resolveUserPermissions :: "user option \<Rightarrow> string list" where
  "resolveUserPermissions mu =
     (case mu of
        None \<Rightarrow> []
      | Some u \<Rightarrow>
          (case user_permissions u of
             Some (p # ps) \<Rightarrow> p # ps
           | _ \<Rightarrow> parseTenantRolePermissions (user_custom_permissions u)))"

definition userHasGlobalRoleBypass :: "string option \<Rightarrow> bool" where
  "userHasGlobalRoleBypass role \<longleftrightarrow> role = Some ''SUPER_ADMIN'' \<or> role = Some ''ADMIN''"

definition userHasPermission :: "user option \<Rightarrow> string \<Rightarrow> bool" where
  "userHasPermission mu permission =
     (case mu of
        None \<Rightarrow> False
      | Some u \<Rightarrow>
          if userHasGlobalRoleBypass (user_role u) then True
          else permission \<in> set (resolveUserPermissions mu))"

definition userHasAnyPermission :: "user option \<Rightarrow> string list \<Rightarrow> bool" where
  "userHasAnyPermission mu permissions =
     (case mu of
        None \<Rightarrow> False
      | Some u \<Rightarrow>
          if userHasGlobalRoleBypass (user_role u) then True
          else list_ex (\<lambda>p. p \<in> set (resolveUserPermissions mu)) permissions)"

definition userCanViewInventoryCost :: "user option \<Rightarrow> bool" where
  "userCanViewInventoryCost mu = userHasPermission mu ''inventory:stock:view_cost''"

text \<open>
  \<open>PermissionsGuard.canActivate\<close>: the two decorators of a handler, the permissions required
  together and the permissions of which one is enough. It reads \<open>user.permissions\<close> only.
\<close>

definition canActivate ::
    "string list option \<Rightarrow> string list option \<Rightarrow> user option \<Rightarrow> bool res" where
  "canActivate requiredAll requiredAny mu =
     (let needsAll = (case requiredAll of None \<Rightarrow> False | Some ps \<Rightarrow> ps \<noteq> []);
          needsAny = (case requiredAny of None \<Rightarrow> False | Some ps \<Rightarrow> ps \<noteq> []);
          granted = (case mu of None \<Rightarrow> [] | Some u \<Rightarrow>
                       (case user_permissions u of None \<Rightarrow> [] | Some ps \<Rightarrow> ps))
      in if \<not> needsAll \<and> \<not> needsAny then Inr True
         else if userHasGlobalRoleBypass (Option.bind mu user_role) then Inr True
         else if needsAll \<and> \<not> list_all (\<lambda>p. p \<in> set granted) (the requiredAll)
           then Inl (Forbidden ''permisos insuficientes'')
         else if needsAny \<and> \<not> list_ex (\<lambda>p. p \<in> set granted) (the requiredAny)
           then Inl (Forbidden ''permisos insuficientes'')
         else Inr True)"

section \<open>Contract scope\<close>

definition NO_CONTRACT_ACCESS_SENTINEL :: id where
  "NO_CONTRACT_ACCESS_SENTINEL = ''00000000-0000-4000-8000-000000000000''"

definition isTenantWideContractAccess :: "user \<Rightarrow> bool" where
  "isTenantWideContractAccess u =
     (if user_role u = Some ''ADMIN'' \<or> user_role u = Some ''SUPER_ADMIN'' then True
      else ''ALL'' \<in> set (case user_contracts u of None \<Rightarrow> [] | Some cs \<Rightarrow> cs))"

definition normalizedAllowedContractIds :: "user \<Rightarrow> id list" where
  "normalizedAllowedContractIds u =
     filter (\<lambda>c. 0 < length c \<and> c \<noteq> ''ALL'')
       (case user_contracts u of None \<Rightarrow> [] | Some cs \<Rightarrow> cs)"

definition userCanAccessContractId :: "user \<Rightarrow> id option \<Rightarrow> bool" where
  "userCanAccessContractId u contractId =
     (if isTenantWideContractAccess u then True
      else let cid = trim_opt contractId in
        if cid = [] then False
        else let allowed = normalizedAllowedContractIds u in
          if allowed = [] then False else cid \<in> set allowed)"

text \<open>A Prisma filter on \<open>contractId\<close>: \<open>{}\<close>, an equality or an \<open>in\<close> list.\<close>

datatype contract_filter = AnyContract | ContractIs id | ContractIn "id list"

fun filter_matches :: "contract_filter \<Rightarrow> id \<Rightarrow> bool" where
  "filter_matches AnyContract cid = True"
| "filter_matches (ContractIs c) cid = (cid = c)"
| "filter_matches (ContractIn cs) cid = (cid \<in> set cs)"

definition buildPurchaseContractScopeFilter ::
    "user option \<Rightarrow> id option \<Rightarrow> contract_filter" where
  "buildPurchaseContractScopeFilter mu explicitContractId =
     (let cid = trim_opt explicitContractId in
      if cid \<noteq> [] \<and> cid \<noteq> ''ALL'' then ContractIs cid
      else case mu of
        None \<Rightarrow> AnyContract
      | Some u \<Rightarrow>
          if isTenantWideContractAccess u then AnyContract
          else let allowed = normalizedAllowedContractIds u in
            if allowed = [] then ContractIs NO_CONTRACT_ACCESS_SENTINEL
            else ContractIn allowed)"

text \<open>
  \<open>buildEquipmentContractAccessOr\<close>: the alternatives of an \<open>OR\<close> on the contract of an
  equipment or of its subcontract.
\<close>

datatype equipment_clause =
    EquipmentContract contract_filter
  | SubcontractContract contract_filter

definition buildEquipmentContractAccessOr ::
    "user \<Rightarrow> id option \<Rightarrow> equipment_clause list" where
  "buildEquipmentContractAccessOr u activeContract =
     (if user_role u = Some ''ADMIN'' \<or> user_role u = Some ''SUPER_ADMIN'' then
        (case activeContract of
           None \<Rightarrow> []
         | Some c \<Rightarrow>
             if c \<noteq> [] \<and> c \<noteq> ''ALL''
             then [EquipmentContract (ContractIs c), SubcontractContract (ContractIs c)]
             else [])
      else let allowed = normalizedAllowedContractIds u in
        if allowed = []
        then [EquipmentContract (ContractIs NO_CONTRACT_ACCESS_SENTINEL),
              SubcontractContract (ContractIs NO_CONTRACT_ACCESS_SENTINEL)]
        else [EquipmentContract (ContractIn allowed), SubcontractContract (ContractIn allowed)])"

definition assertUserHasContractAccess :: "user \<Rightarrow> id \<Rightarrow> string \<Rightarrow> unit res" where
  "assertUserHasContractAccess u contractId message =
     (if isTenantWideContractAccess u then Inr ()
      else if contractId \<in> set (normalizedAllowedContractIds u) then Inr ()
      else Inl (Forbidden message))"

section \<open>Lemmas\<close>

lemma userHasAnyPermission_iff:
  "userHasAnyPermission mu ps \<longleftrightarrow> (\<exists>p \<in> set ps. userHasPermission mu p) \<or>
     (\<exists>u. mu = Some u \<and> userHasGlobalRoleBypass (user_role u))"
  by (auto simp: userHasAnyPermission_def userHasPermission_def list_ex_iff split: option.splits)

lemma resolveUserPermissions_present:
  "user_permissions u = Some ps \<Longrightarrow> ps \<noteq> [] \<Longrightarrow> resolveUserPermissions (Some u) = ps"
  by (cases ps) (simp_all add: resolveUserPermissions_def)

lemma bypass_tenant_wide:
  "userHasGlobalRoleBypass (user_role u) \<Longrightarrow> isTenantWideContractAccess u"
  by (auto simp: userHasGlobalRoleBypass_def isTenantWideContractAccess_def)

lemma normalized_subset:
  "c \<in> set (normalizedAllowedContractIds u) \<Longrightarrow>
     c \<noteq> [] \<and> c \<noteq> ''ALL'' \<and> (\<exists>cs. user_contracts u = Some cs \<and> c \<in> set cs)"
  by (cases "user_contracts u") (auto simp: normalizedAllowedContractIds_def)

lemma assert_access_iff:
  "assertUserHasContractAccess u c m = Inr () \<longleftrightarrow>
     isTenantWideContractAccess u \<or> c \<in> set (normalizedAllowedContractIds u)"
  by (simp add: assertUserHasContractAccess_def)

lemma can_access_iff:
  assumes "trim c = c" and "c \<noteq> []"
  shows "userCanAccessContractId u (Some c) \<longleftrightarrow>
     isTenantWideContractAccess u \<or> c \<in> set (normalizedAllowedContractIds u)"
  using assms by (auto simp: userCanAccessContractId_def trim_opt_def Let_def)

lemma scope_filter_no_explicit:
  "buildPurchaseContractScopeFilter (Some u) None =
     (if isTenantWideContractAccess u then AnyContract
      else if normalizedAllowedContractIds u = [] then ContractIs NO_CONTRACT_ACCESS_SENTINEL
      else ContractIn (normalizedAllowedContractIds u))"
  by (simp add: buildPurchaseContractScopeFilter_def trim_opt_def Let_def)

lemma scope_filter_query:
  "buildPurchaseContractScopeFilter (Some u) query =
     (if trim_opt query \<in> {[], ''ALL''} then buildPurchaseContractScopeFilter (Some u) None
      else ContractIs (trim_opt query))"
  by (simp add: buildPurchaseContractScopeFilter_def trim_opt_def Let_def)

lemma guard_passes_iff:
  "canActivate ra ry (Some u) = Inr True \<longleftrightarrow>
     userHasGlobalRoleBypass (user_role u) \<or>
     ((\<forall>p \<in> set (case ra of None \<Rightarrow> [] | Some ps \<Rightarrow> ps).
         p \<in> set (case user_permissions u of None \<Rightarrow> [] | Some ps \<Rightarrow> ps)) \<and>
      (ry = None \<or> ry = Some [] \<or> (\<exists>p \<in> set (the ry).
         p \<in> set (case user_permissions u of None \<Rightarrow> [] | Some ps \<Rightarrow> ps))))"
  by (cases ra; cases ry)
     (auto simp: canActivate_def Let_def list_all_iff list_ex_iff split: option.splits)

text \<open>A user of the tenant \<open>t\<close> with two contracts and no permission: the fixture of the witnesses.\<close>

definition plain_user :: user where
  "plain_user = \<lparr>user_id = ''u1'', user_sub = [], user_tenant = ''t'',
     user_role = Some ''USER'', user_permissions = None, user_custom_permissions = None,
     user_contracts = Some [''c1'', ''c2'']\<rparr>"

lemma plain_user_access:
  "isTenantWideContractAccess plain_user = False"
  "normalizedAllowedContractIds plain_user = [''c1'', ''c2'']"
  by (simp_all add: plain_user_def isTenantWideContractAccess_def normalizedAllowedContractIds_def)

section \<open>Properties\<close>



text \<open>
  The explicit contract of a list request is not checked against the user: with a contract
  in the query the filter is that contract for every user, and there is a user who may not
  operate on the contract and still gets its documents listed. (The order and requisition lists
  pass the query parameter straight to this filter.)
\<close>

theorem explicit_contract_is_not_checked:
  "(\<forall>mu c. trim c \<noteq> [] \<and> trim c \<noteq> ''ALL'' \<longrightarrow>
      buildPurchaseContractScopeFilter mu (Some c) = ContractIs (trim c)) \<and>
   (\<exists>u c. filter_matches (buildPurchaseContractScopeFilter (Some u) (Some c)) c
      \<and> \<not> userCanAccessContractId u (Some c))"
proof
  show "\<forall>mu c. trim c \<noteq> [] \<and> trim c \<noteq> ''ALL'' \<longrightarrow>
      buildPurchaseContractScopeFilter mu (Some c) = ContractIs (trim c)"
    by (simp add: buildPurchaseContractScopeFilter_def trim_opt_def Let_def)
  have "filter_matches (buildPurchaseContractScopeFilter (Some plain_user) (Some ''c3'')) ''c3''
      \<and> \<not> userCanAccessContractId plain_user (Some ''c3'')"
    by (simp add: buildPurchaseContractScopeFilter_def trim_opt_def trim_def is_space_def
        can_access_iff plain_user_access)
  then show "\<exists>u c. filter_matches (buildPurchaseContractScopeFilter (Some u) (Some c)) c
      \<and> \<not> userCanAccessContractId u (Some c)"
    by blast
qed

lemma explicit_contract_is_not_checked_witness:
  "buildPurchaseContractScopeFilter (Some plain_user) (Some ''c3'') = ContractIs ''c3''"
proof -
  have t: "trim ''c3'' = ''c3''" by (simp add: trim_def is_space_def)
  then have "trim ''c3'' \<noteq> [] \<and> trim ''c3'' \<noteq> ''ALL''" by simp
  with explicit_contract_is_not_checked
  have "buildPurchaseContractScopeFilter (Some plain_user) (Some ''c3'') = ContractIs (trim ''c3'')"
    by blast
  with t show ?thesis by simp
qed

text \<open>
  A request that passes the permission guard also passes the checks the services repeat:
  every permission required together is one the user has, and when one of several is enough the
  user has one of them, or the user's role bypasses permissions altogether.
\<close>

theorem guard_implies_service_permissions:
  assumes "canActivate requiredAll requiredAny (Some u) = Inr True"
  shows "(\<forall>ps. requiredAll = Some ps \<longrightarrow> (\<forall>p \<in> set ps. userHasPermission (Some u) p))
       \<and> (\<forall>ps. requiredAny = Some ps \<and> ps \<noteq> [] \<longrightarrow> userHasAnyPermission (Some u) ps)"
proof (cases "userHasGlobalRoleBypass (user_role u)")
  case True
  then show ?thesis by (simp add: userHasPermission_def userHasAnyPermission_def)
next
  case False
  show ?thesis
  proof (cases "user_permissions u")
    case None
    with False assms show ?thesis by (auto simp: guard_passes_iff split: option.splits)
  next
    case (Some ps)
    with False assms show ?thesis
      by (cases "ps = []")
         (auto simp: guard_passes_iff userHasPermission_def userHasAnyPermission_def list_ex_iff
            resolveUserPermissions_present split: option.splits)
  qed
qed

lemma guard_implies_service_permissions_witness:
  "userHasPermission (Some (plain_user\<lparr>user_permissions := Some [''inventory:stock:adjust'']\<rparr>))
     ''inventory:stock:adjust''"
  using guard_implies_service_permissions[of "Some [''inventory:stock:adjust'']" None
      "plain_user\<lparr>user_permissions := Some [''inventory:stock:adjust'']\<rparr>"]
  by (simp add: guard_passes_iff)

end
