(* ===== verification/Ledger.thy ===== *)
theory Ledger
  imports Prelude
begin

text \<open>
  The abstract specification of stock movements: a ledger with a balance per cell (warehouse and
  item) and a book of entries that only grows. An entry may be posted when it starts from the
  balance of its cell and ends at that balance plus its signed quantity. The services of the
  inventory refine it; the locales state what a service owes to the ledger and what follows.
\<close>

datatype tx_type =
    IN | OUT | ADJUST | RETURN | WORK_ORDER_RETURN | PURCHASE_RECEIPT | WORK_ORDER_ISSUE
  | TRANSFER_OUT | TRANSFER_IN

text \<open>The direction of a movement type: how its quantity changes the stock.\<close>

fun signed_qty :: "tx_type \<Rightarrow> qty \<Rightarrow> qty" where
  "signed_qty OUT q = - q"
| "signed_qty WORK_ORDER_ISSUE q = - q"
| "signed_qty TRANSFER_OUT q = - q"
| "signed_qty _ q = q"

type_synonym cell = "id \<times> id"

record entry =
  en_cell :: cell
  en_type :: tx_type
  en_qty :: qty
  en_prev :: qty
  en_new :: qty

record ledger =
  bal :: "cell \<Rightarrow> qty"
  book :: "entry list"

definition empty_ledger :: ledger where
  "empty_ledger = \<lparr>bal = (\<lambda>_. 0), book = []\<rparr>"

definition entry_delta :: "entry \<Rightarrow> qty" where
  "entry_delta e = signed_qty (en_type e) (en_qty e)"

definition post :: "entry \<Rightarrow> ledger \<Rightarrow> ledger option" where
  "post e L =
     (if en_prev e = bal L (en_cell e) \<and> en_new e = en_prev e + entry_delta e
      then Some \<lparr>bal = (bal L)(en_cell e := en_new e), book = book L @ [e]\<rparr>
      else None)"

fun post_all :: "entry list \<Rightarrow> ledger \<Rightarrow> ledger option" where
  "post_all [] L = Some L"
| "post_all (e # es) L = Option.bind (post e L) (post_all es)"

text \<open>
  A ledger is in order when the entries of every cell form a chain from 0 (each starts where the
  one before ended) that ends at the balance.
\<close>

fun run_chain :: "qty \<Rightarrow> entry list \<Rightarrow> qty option" where
  "run_chain p [] = Some p"
| "run_chain p (e # es) =
     (if en_prev e = p \<and> en_new e = p + entry_delta e then run_chain (en_new e) es else None)"

definition of_cell :: "cell \<Rightarrow> entry list \<Rightarrow> entry list" where
  "of_cell c es = filter (\<lambda>e. en_cell e = c) es"

definition ledger_ok :: "ledger \<Rightarrow> bool" where
  "ledger_ok L \<longleftrightarrow> (\<forall>c. run_chain 0 (of_cell c (book L)) = Some (bal L c))"

section \<open>Lemmas\<close>

lemma of_cell_simps [simp]:
  "of_cell c [] = []"
  "of_cell c (e # es) = (if en_cell e = c then e # of_cell c es else of_cell c es)"
  "of_cell c (es @ es') = of_cell c es @ of_cell c es'"
  by (simp_all add: of_cell_def)

lemma run_chain_append:
  "run_chain p (es @ es') = Option.bind (run_chain p es) (\<lambda>q. run_chain q es')"
  by (induction es arbitrary: p) auto

lemma run_chain_sum:
  "run_chain p es = Some q \<Longrightarrow> q = p + sum_list (map entry_delta es)"
proof (induction es arbitrary: p)
  case Nil
  then show ?case by simp
next
  case (Cons e es)
  then have "run_chain (en_new e) es = Some q" and e: "en_new e = p + entry_delta e"
    by (auto split: if_splits)
  then have "q = en_new e + sum_list (map entry_delta es)" by (intro Cons.IH)
  with e show ?case by simp
qed

lemma ledger_ok_empty: "ledger_ok empty_ledger"
  by (simp add: ledger_ok_def empty_ledger_def)

lemma ledger_ok_sum:
  "ledger_ok L \<Longrightarrow> bal L c = sum_list (map entry_delta (of_cell c (book L)))"
  unfolding ledger_ok_def by (drule spec[of _ c], drule run_chain_sum) simp

lemma post_Some_iff:
  "post e L = Some L' \<longleftrightarrow> en_prev e = bal L (en_cell e) \<and> en_new e = en_prev e + entry_delta e
     \<and> L' = \<lparr>bal = (bal L)(en_cell e := en_new e), book = book L @ [e]\<rparr>"
  by (auto simp: post_def)

lemma post_ok: "post e L = Some L' \<Longrightarrow> ledger_ok L \<Longrightarrow> ledger_ok L'"
  by (auto simp: post_Some_iff ledger_ok_def run_chain_append)

lemma post_all_append:
  "post_all (es @ es') L = Option.bind (post_all es L) (post_all es')"
  by (induction es arbitrary: L) (auto simp: bind_eq_None_conv split: bind_splits)

lemma post_all_trans:
  "post_all es L = Some L1 \<Longrightarrow> post_all es' L1 = Some L2 \<Longrightarrow> post_all (es @ es') L = Some L2"
  by (simp add: post_all_append)

lemma post_all_ok: "post_all es L = Some L' \<Longrightarrow> ledger_ok L \<Longrightarrow> ledger_ok L'"
  by (induction es arbitrary: L) (auto simp: bind_eq_Some_conv intro: post_ok)

lemma post_all_book: "post_all es L = Some L' \<Longrightarrow> book L' = book L @ es"
  by (induction es arbitrary: L) (auto simp: bind_eq_Some_conv post_Some_iff)

lemma post_all_bal:
  "post_all es L = Some L' \<Longrightarrow> bal L' c = bal L c + sum_list (map entry_delta (of_cell c es))"
  by (induction es arbitrary: L) (auto simp: bind_eq_Some_conv post_Some_iff algebra_simps)

section \<open>The contract of a service that moves stock\<close>

text \<open>
  \<open>stock_mover\<close>: every successful call of the service is a posting of some entries.
  \<open>exact_mover\<close>: a service whose entries are known before the call, from the request and the
  state it starts from.
\<close>

locale stock_mover =
  fixes step :: "'a \<Rightarrow> 'db \<Rightarrow> 'db res"
    and abs :: "'db \<Rightarrow> ledger"
  assumes posts: "step a db = Inr db' \<Longrightarrow> \<exists>es. post_all es (abs db) = Some (abs db')"
begin

lemma keeps_order: "step a db = Inr db' \<Longrightarrow> ledger_ok (abs db) \<Longrightarrow> ledger_ok (abs db')"
  by (meson posts post_all_ok)

lemma book_grows: "step a db = Inr db' \<Longrightarrow> \<exists>es. book (abs db') = book (abs db) @ es"
  by (meson posts post_all_book)

lemma many_posts:
  "for_each step as db = Inr db' \<Longrightarrow> \<exists>es. post_all es (abs db) = Some (abs db')"
proof (rule for_each_related[where R = "\<lambda>db db'. \<exists>es. post_all es (abs db) = Some (abs db')"])
  show "\<exists>es. post_all es (abs db) = Some (abs db)" for db
    by (rule exI[of _ "[]"]) simp
  show "\<exists>es. post_all es (abs db1) = Some (abs db3)"
    if "\<exists>es. post_all es (abs db1) = Some (abs db2)"
      and "\<exists>es. post_all es (abs db2) = Some (abs db3)" for db1 db2 db3
    using that post_all_trans by blast
qed (auto intro: posts)

lemma many_keep_order:
  "for_each step as db = Inr db' \<Longrightarrow> ledger_ok (abs db) \<Longrightarrow> ledger_ok (abs db')"
  by (meson many_posts post_all_ok)

end

locale exact_mover =
  fixes step :: "'a \<Rightarrow> 'db \<Rightarrow> 'db res"
    and abs :: "'db \<Rightarrow> ledger"
    and entries :: "'a \<Rightarrow> 'db \<Rightarrow> entry list"
  assumes posts_exactly: "step a db = Inr db' \<Longrightarrow> post_all (entries a db) (abs db) = Some (abs db')"
begin

lemma exact_balance:
  "step a db = Inr db' \<Longrightarrow>
     bal (abs db') c = bal (abs db) c + sum_list (map entry_delta (of_cell c (entries a db)))"
  by (rule post_all_bal[OF posts_exactly])

lemma exact_book: "step a db = Inr db' \<Longrightarrow> book (abs db') = book (abs db) @ entries a db"
  by (rule post_all_book[OF posts_exactly])

end

sublocale exact_mover \<subseteq> stock_mover step abs
  by unfold_locales (use posts_exactly in blast)

end
