(* ===== verification/Inventory.thy ===== *)
theory Inventory
  imports Shared Access Ledger
begin

text \<open>
  The inventory tables (\<open>backend/prisma/schema.prisma\<close>) and the utilities every stock movement
  uses: \<open>common/inventory/stock-quantity.util.ts\<close>, \<open>field-dispatch-outstanding.ts\<close>,
  \<open>fluid-dispatch-limits.util.ts\<close>, \<open>features/inventory-items/inventory-item-stock-policy.helper.ts\<close>
  and the regularisation flags of the stock service. \<open>inv_abs\<close> is the abstraction to the ledger.
\<close>

section \<open>Tables\<close>

record warehouse =
  wh_id :: id
  wh_tenant :: id
  wh_contract :: id
  wh_code :: string
  wh_active :: bool

record item =
  it_id :: id
  it_tenant :: id
  it_part_number :: "string option"
  it_inventory_code :: "string option"
  it_is_inventory :: bool
  it_uom_abbr :: string
  it_uom_decimals :: bool
  it_policy_wh :: "id option"
  it_policy_min :: "qty option"
  it_policy_max :: "qty option"

record item_stock =
  st_wh :: id
  st_item :: id
  st_qty :: qty
  st_cost :: "qty option"
  st_min :: qty
  st_max :: qty
  st_location :: "string option"

record inv_tx =
  tx_type :: tx_type
  tx_wh :: id
  tx_item :: id
  tx_user :: id
  tx_qty :: qty
  tx_prev :: qty
  tx_new :: qty
  tx_ref :: "id option"
  tx_ref_type :: "string option"
  tx_pending :: bool

record tenant_config =
  cfg_tenant :: id
  cfg_block_negative :: bool

datatype transfer_status = SHIPPED | COMPLETED | CANCELLED

record transfer_line =
  tl_item :: id
  tl_qty :: qty
  tl_cost :: qty

record transfer =
  tr_id :: id
  tr_tenant :: id
  tr_origin :: id
  tr_dest :: id
  tr_status :: transfer_status
  tr_by :: id
  tr_lines :: "transfer_line list"

record inv_db = core_db +
  warehouses :: "warehouse list"
  items :: "item list"
  stocks :: "item_stock list"
  txs :: "inv_tx list"
  configs :: "tenant_config list"
  transfers :: "transfer list"

abbreviation is_cell :: "id \<Rightarrow> id \<Rightarrow> item_stock \<Rightarrow> bool" where
  "is_cell w i s \<equiv> st_wh s = w \<and> st_item s = i"

abbreviation cell_tx :: "id \<Rightarrow> id \<Rightarrow> inv_tx \<Rightarrow> bool" where
  "cell_tx w i t \<equiv> tx_wh t = w \<and> tx_item t = i"

definition find_stock :: "id \<Rightarrow> id \<Rightarrow> 'a inv_db_scheme \<Rightarrow> item_stock option" where
  "find_stock w i db = find_row (is_cell w i) (stocks db)"

definition stock_qty :: "id \<Rightarrow> id \<Rightarrow> 'a inv_db_scheme \<Rightarrow> qty" where
  "stock_qty w i db = (case find_stock w i db of None \<Rightarrow> 0 | Some s \<Rightarrow> st_qty s)"

definition stock_cost :: "id \<Rightarrow> id \<Rightarrow> 'a inv_db_scheme \<Rightarrow> qty" where
  "stock_cost w i db = (case find_stock w i db of None \<Rightarrow> 0
     | Some s \<Rightarrow> (case st_cost s of None \<Rightarrow> 0 | Some c \<Rightarrow> c))"

text \<open>The row of the ledger that a stock transaction is.\<close>

definition entry_of :: "inv_tx \<Rightarrow> entry" where
  "entry_of t = \<lparr>en_cell = (tx_wh t, tx_item t), en_type = tx_type t, en_qty = tx_qty t,
     en_prev = tx_prev t, en_new = tx_new t\<rparr>"

definition inv_abs :: "'a inv_db_scheme \<Rightarrow> ledger" where
  "inv_abs db = \<lparr>bal = (\<lambda>(w, i). stock_qty w i db), book = map entry_of (txs db)\<rparr>"

section \<open>Quantities\<close>

definition STOCK_QTY_EPSILON :: qty where
  "STOCK_QTY_EPSILON = 1 / 1000000000"

definition addStockQty :: "qty \<Rightarrow> qty \<Rightarrow> qty" where
  "addStockQty previousQty delta = previousQty + delta"

definition subtractStockQty :: "qty \<Rightarrow> qty \<Rightarrow> qty" where
  "subtractStockQty previousQty deductQty = previousQty - deductQty"

definition isStockQtyNegative :: "qty \<Rightarrow> bool" where
  "isStockQtyNegative q \<longleftrightarrow> q < - STOCK_QTY_EPSILON"

definition wouldStockGoNegative :: "qty \<Rightarrow> qty \<Rightarrow> bool" where
  "wouldStockGoNegative previousQty deductQty \<longleftrightarrow>
     subtractStockQty previousQty deductQty < - STOCK_QTY_EPSILON"

definition exceedsAvailableStock :: "qty \<Rightarrow> qty \<Rightarrow> bool" where
  "exceedsAvailableStock available requested \<longleftrightarrow> available + STOCK_QTY_EPSILON < requested"

lemmas qty_defs = addStockQty_def subtractStockQty_def isStockQtyNegative_def
  wouldStockGoNegative_def exceedsAvailableStock_def

lemma epsilon_pos [simp]: "0 < STOCK_QTY_EPSILON"
  by (simp add: STOCK_QTY_EPSILON_def)

definition is_integer :: "qty \<Rightarrow> bool" where
  "is_integer q \<longleftrightarrow> of_int \<lfloor>q\<rfloor> = q"

definition largeFluidDispatchThreshold :: "string \<Rightarrow> bool \<Rightarrow> qty" where
  "largeFluidDispatchThreshold unitAbbr allowsDecimals =
     (if \<not> allowsDecimals then 50
      else let u = to_upper (trim unitAbbr) in
        if u = ''KG'' then 80
        else if u = ''LT'' \<or> u = ''LTS'' \<or> u = ''L'' then 100
        else 100)"

definition requiresLargeDispatchConfirmation :: "qty \<Rightarrow> string \<Rightarrow> bool \<Rightarrow> bool" where
  "requiresLargeDispatchConfirmation quantity unitAbbr allowsDecimals =
     (if quantity \<le> 0 then False
      else quantity > largeFluidDispatchThreshold unitAbbr allowsDecimals)"

definition assertQuantityAllowedForUom :: "qty \<Rightarrow> bool \<Rightarrow> unit res" where
  "assertQuantityAllowedForUom quantity allowsDecimals =
     (if \<not> allowsDecimals \<and> \<not> is_integer quantity
      then Inl (BadRequest ''la unidad no admite fracciones'') else Inr ())"

definition assertLargeDispatchConfirmed ::
    "qty \<Rightarrow> string \<Rightarrow> bool \<Rightarrow> bool option \<Rightarrow> unit res" where
  "assertLargeDispatchConfirmed quantity unitAbbr allowsDecimals confirmed =
     (if requiresLargeDispatchConfirmation quantity unitAbbr allowsDecimals \<and> confirmed \<noteq> Some True
      then Inl (BadRequest ''supera el umbral operativo'') else Inr ())"

section \<open>Movements in the field\<close>

definition FIELD_DISPATCH_REFERENCE_TYPE :: string where
  "FIELD_DISPATCH_REFERENCE_TYPE = ''FIELD_DISPATCH''"

definition FIELD_RETURN_REFERENCE_TYPE :: string where
  "FIELD_RETURN_REFERENCE_TYPE = ''FIELD_RETURN''"

definition tenant_warehouse :: "id \<Rightarrow> id \<Rightarrow> 'a inv_db_scheme \<Rightarrow> warehouse option" where
  "tenant_warehouse w tenant db =
     find_row (\<lambda>wh. wh_id wh = w \<and> wh_tenant wh = tenant) (warehouses db)"

definition field_dispatched :: "id \<Rightarrow> id \<Rightarrow> id \<Rightarrow> 'a inv_db_scheme \<Rightarrow> qty" where
  "field_dispatched tenant w i db =
     sum_rows (\<lambda>t. cell_tx w i t \<and> tx_type t = OUT
         \<and> tx_ref_type t = Some FIELD_DISPATCH_REFERENCE_TYPE
         \<and> tenant_warehouse w tenant db \<noteq> None) tx_qty (txs db)"

definition field_returned :: "id \<Rightarrow> id \<Rightarrow> id \<Rightarrow> 'a inv_db_scheme \<Rightarrow> qty" where
  "field_returned tenant w i db =
     sum_rows (\<lambda>t. cell_tx w i t \<and> tx_type t = IN
         \<and> tx_ref_type t = Some FIELD_RETURN_REFERENCE_TYPE
         \<and> tenant_warehouse w tenant db \<noteq> None) tx_qty (txs db)"

definition getFieldDispatchOutstandingForItem :: "id \<Rightarrow> id \<Rightarrow> id \<Rightarrow> 'a inv_db_scheme \<Rightarrow> qty" where
  "getFieldDispatchOutstandingForItem tenant w i db =
     field_dispatched tenant w i db - field_returned tenant w i db"

text \<open>
  The items of a warehouse with something left in the field, in the order of their first
  dispatch (the groups of a \<open>groupBy\<close> have no order of their own).
\<close>

definition listItemIdsWithFieldDispatchOutstanding :: "id \<Rightarrow> id \<Rightarrow> 'a inv_db_scheme \<Rightarrow> id list" where
  "listItemIdsWithFieldDispatchOutstanding tenant w db =
     filter (\<lambda>i. field_dispatched tenant w i db - field_returned tenant w i db > 1 / 1000000000)
       (remdups (map tx_item (filter (\<lambda>t. tx_wh t = w \<and> tx_type t = OUT
          \<and> tx_ref_type t = Some FIELD_DISPATCH_REFERENCE_TYPE
          \<and> tenant_warehouse w tenant db \<noteq> None) (txs db))))"

section \<open>Stock policy of an item\<close>

definition find_item :: "id \<Rightarrow> id \<Rightarrow> 'a inv_db_scheme \<Rightarrow> item option" where
  "find_item i tenant db = find_row (\<lambda>it. it_id it = i \<and> it_tenant it = tenant) (items db)"

definition getPolicyThresholdsForNewItemStockRow ::
    "id \<Rightarrow> id \<Rightarrow> id \<Rightarrow> 'a inv_db_scheme \<Rightarrow> qty \<times> qty" where
  "getPolicyThresholdsForNewItemStockRow tenant i w db =
     (case find_item i tenant db of
        None \<Rightarrow> (0, 0)
      | Some it \<Rightarrow>
          (case it_policy_wh it of
             None \<Rightarrow> (0, 0)
           | Some pw \<Rightarrow>
               if pw = [] \<or> pw \<noteq> w then (0, 0)
               else (case it_policy_min it of None \<Rightarrow> 0 | Some q \<Rightarrow> q,
                     case it_policy_max it of None \<Rightarrow> 0 | Some q \<Rightarrow> q)))"

definition clearItemStockPolicyIfMatchesWarehouse ::
    "id \<Rightarrow> id \<Rightarrow> id \<Rightarrow> 'a inv_db_scheme \<Rightarrow> 'a inv_db_scheme" where
  "clearItemStockPolicyIfMatchesWarehouse tenant i w db =
     db\<lparr>items := update_rows
       (\<lambda>it. it_id it = i \<and> it_tenant it = tenant \<and> it_policy_wh it = Some w)
       (\<lambda>it. it\<lparr>it_policy_wh := None, it_policy_min := None, it_policy_max := None\<rparr>) (items db)\<rparr>"

section \<open>Regularisation flags\<close>

definition clear_pending :: "id \<Rightarrow> id \<Rightarrow> 'a inv_db_scheme \<Rightarrow> 'a inv_db_scheme" where
  "clear_pending w i db =
     db\<lparr>txs := update_rows (\<lambda>t. cell_tx w i t \<and> tx_pending t)
                 (\<lambda>t. t\<lparr>tx_pending := False\<rparr>) (txs db)\<rparr>"

definition clearPendingRegularizationFlags ::
    "id \<Rightarrow> id \<Rightarrow> qty \<Rightarrow> 'a inv_db_scheme \<Rightarrow> 'a inv_db_scheme" where
  "clearPendingRegularizationFlags w i newQuantity db =
     (if isStockQtyNegative newQuantity then db else clear_pending w i db)"

definition has_pending :: "id \<Rightarrow> id \<Rightarrow> 'a inv_db_scheme \<Rightarrow> bool" where
  "has_pending w i db \<longleftrightarrow> list_ex (\<lambda>t. cell_tx w i t \<and> tx_pending t) (txs db)"

text \<open>
  The cells that \<open>getPendingCount\<close> counts for a tenant: a negative balance, or a transaction
  still marked as pending.
\<close>

definition getPendingCount :: "user \<Rightarrow> 'a inv_db_scheme \<Rightarrow> nat" where
  "getPendingCount u db =
     length (filter (\<lambda>s. tenant_warehouse (st_wh s) (user_tenant u) db \<noteq> None
        \<and> (st_qty s < 0 \<or> has_pending (st_wh s) (st_item s) db)) (stocks db))"

section \<open>Writing a cell and its transaction\<close>

text \<open>The upsert of an \<open>item_stocks\<close> row on its unique key and the insertion of a transaction.\<close>

definition upsert_stock ::
    "id \<Rightarrow> id \<Rightarrow> (item_stock \<Rightarrow> item_stock) \<Rightarrow> item_stock \<Rightarrow> 'a inv_db_scheme \<Rightarrow> 'a inv_db_scheme" where
  "upsert_stock w i f new db = db\<lparr>stocks := upsert_row (is_cell w i) f new (stocks db)\<rparr>"

definition add_tx :: "inv_tx \<Rightarrow> 'a inv_db_scheme \<Rightarrow> 'a inv_db_scheme" where
  "add_tx t db = db\<lparr>txs := txs db @ [t]\<rparr>"

section \<open>Lemmas\<close>

lemma stock_qty_cong: "stocks db' = stocks db \<Longrightarrow> stock_qty w i db' = stock_qty w i db"
  by (simp add: stock_qty_def find_stock_def)

lemma clear_policy_frame [simp]:
  "stocks (clearItemStockPolicyIfMatchesWarehouse t i w db) = stocks db"
  "txs (clearItemStockPolicyIfMatchesWarehouse t i w db) = txs db"
  "warehouses (clearItemStockPolicyIfMatchesWarehouse t i w db) = warehouses db"
  "configs (clearItemStockPolicyIfMatchesWarehouse t i w db) = configs db"
  "transfers (clearItemStockPolicyIfMatchesWarehouse t i w db) = transfers db"
  "counters (clearItemStockPolicyIfMatchesWarehouse t i w db) = counters db"
  "activity (clearItemStockPolicyIfMatchesWarehouse t i w db) = activity db"
  "inv_db.more (clearItemStockPolicyIfMatchesWarehouse t i w db) = inv_db.more db"
  by (simp_all add: clearItemStockPolicyIfMatchesWarehouse_def)

lemma clear_pending_frame [simp]:
  "stocks (clear_pending w i db) = stocks db"
  "items (clear_pending w i db) = items db"
  "warehouses (clear_pending w i db) = warehouses db"
  "configs (clear_pending w i db) = configs db"
  "transfers (clear_pending w i db) = transfers db"
  "inv_db.more (clear_pending w i db) = inv_db.more db"
  by (simp_all add: clear_pending_def)

lemma upsert_stock_frame [simp]:
  "txs (upsert_stock w i f new db) = txs db"
  "items (upsert_stock w i f new db) = items db"
  "warehouses (upsert_stock w i f new db) = warehouses db"
  "configs (upsert_stock w i f new db) = configs db"
  "transfers (upsert_stock w i f new db) = transfers db"
  "inv_db.more (upsert_stock w i f new db) = inv_db.more db"
  by (simp_all add: upsert_stock_def)

lemma add_tx_frame [simp]:
  "stocks (add_tx t db) = stocks db"
  "txs (add_tx t db) = txs db @ [t]"
  "items (add_tx t db) = items db"
  "warehouses (add_tx t db) = warehouses db"
  "configs (add_tx t db) = configs db"
  "transfers (add_tx t db) = transfers db"
  "inv_db.more (add_tx t db) = inv_db.more db"
  by (simp_all add: add_tx_def)

lemma entry_of_pending [simp]: "entry_of (t\<lparr>tx_pending := b\<rparr>) = entry_of t"
  by (simp add: entry_of_def)

lemma entries_update_pending [simp]:
  "map entry_of (update_rows p (\<lambda>t. t\<lparr>tx_pending := b\<rparr>) ts) = map entry_of ts"
  by (induction ts) auto

lemma bal_inv_abs [simp]: "bal (inv_abs db) (w, i) = stock_qty w i db"
  by (simp add: inv_abs_def)

lemma book_inv_abs [simp]: "book (inv_abs db) = map entry_of (txs db)"
  by (simp add: inv_abs_def)

lemma inv_abs_clear_pending [simp]: "inv_abs (clear_pending w i db) = inv_abs db"
  by (auto simp: inv_abs_def clear_pending_def stock_qty_def find_stock_def)

lemma inv_abs_clear_flags [simp]: "inv_abs (clearPendingRegularizationFlags w i q db) = inv_abs db"
  by (simp add: clearPendingRegularizationFlags_def)

lemma clear_flags_frame [simp]:
  "stocks (clearPendingRegularizationFlags w i q db) = stocks db"
  "items (clearPendingRegularizationFlags w i q db) = items db"
  "warehouses (clearPendingRegularizationFlags w i q db) = warehouses db"
  "configs (clearPendingRegularizationFlags w i q db) = configs db"
  "transfers (clearPendingRegularizationFlags w i q db) = transfers db"
  "inv_db.more (clearPendingRegularizationFlags w i q db) = inv_db.more db"
  by (simp_all add: clearPendingRegularizationFlags_def)

lemma inv_abs_clear_policy [simp]:
  "inv_abs (clearItemStockPolicyIfMatchesWarehouse t i w db) = inv_abs db"
  by (auto simp: inv_abs_def stock_qty_def find_stock_def)

lemma inv_abs_cong: "stocks db' = stocks db \<Longrightarrow> txs db' = txs db \<Longrightarrow> inv_abs db' = inv_abs db"
  for db :: "'a inv_db_scheme" and db' :: "'b inv_db_scheme"
  by (simp add: inv_abs_def stock_qty_def find_stock_def)

lemma has_pending_add_tx [simp]:
  "has_pending w i (add_tx t db) \<longleftrightarrow> has_pending w i db \<or> (cell_tx w i t \<and> tx_pending t)"
  by (auto simp: has_pending_def)

lemma has_pending_frame [simp]:
  "has_pending w i (upsert_stock w' i' f new db) = has_pending w i db"
  "has_pending w i (clearItemStockPolicyIfMatchesWarehouse t i' w' db) = has_pending w i db"
  by (simp_all add: has_pending_def)

lemma stock_qty_frame [simp]:
  "stock_qty w i (add_tx t db) = stock_qty w i db"
  "stock_qty w i (clearItemStockPolicyIfMatchesWarehouse t' i' w' db) = stock_qty w i db"
  "stock_qty w i (clear_pending w' i' db) = stock_qty w i db"
  "stock_qty w i (clearPendingRegularizationFlags w' i' q db) = stock_qty w i db"
  by (simp_all add: stock_qty_def find_stock_def)

lemma has_pending_cong: "txs db' = txs db \<Longrightarrow> has_pending w i db' = has_pending w i db"
  by (simp add: has_pending_def)

lemma has_pending_clear:
  "has_pending w' i' (clear_pending w i db) \<longleftrightarrow> has_pending w' i' db \<and> (w', i') \<noteq> (w, i)"
  by (auto simp: has_pending_def clear_pending_def list_ex_iff update_rows_def)

lemma stock_qty_upsert:
  assumes "\<And>s. is_cell w i s \<Longrightarrow> is_cell w i (f s)" and "is_cell w i new"
    and "\<And>s. is_cell w i s \<Longrightarrow> st_qty (f s) = q" and "st_qty new = q"
  shows "stock_qty w' i' (upsert_stock w i f new db) =
    (if (w', i') = (w, i) then q else stock_qty w' i' db)"
proof (cases "(w', i') = (w, i)")
  case True
  have "find_row (is_cell w i) (upsert_row (is_cell w i) f new (stocks db)) =
      Some (case find_row (is_cell w i) (stocks db) of None \<Rightarrow> new | Some s \<Rightarrow> f s)"
    by (rule find_row_upsert_same) (use assms in auto)
  with True assms show ?thesis
    by (auto simp: stock_qty_def find_stock_def upsert_stock_def split: option.splits
        dest: find_row_SomeD)
next
  case False
  have "find_row (is_cell w' i') (upsert_row (is_cell w i) f new (stocks db))
      = find_row (is_cell w' i') (stocks db)"
    by (rule find_row_upsert_other) (use assms False in auto)
  with False show ?thesis
    by (auto simp: stock_qty_def find_stock_def upsert_stock_def)
qed

text \<open>The same for an upsert that adds to the balance.\<close>

lemma stock_qty_upsert_add:
  assumes "\<And>s. is_cell w i s \<Longrightarrow> is_cell w i (f s)" and "is_cell w i new"
    and "\<And>s. st_qty (f s) = st_qty s + d" and "st_qty new = d"
  shows "stock_qty w' i' (upsert_stock w i f new db) =
    (if (w', i') = (w, i) then stock_qty w i db + d else stock_qty w' i' db)"
proof (cases "(w', i') = (w, i)")
  case True
  have "find_row (is_cell w i) (upsert_row (is_cell w i) f new (stocks db)) =
      Some (case find_row (is_cell w i) (stocks db) of None \<Rightarrow> new | Some s \<Rightarrow> f s)"
    by (rule find_row_upsert_same) (use assms in auto)
  with True assms show ?thesis
    by (auto simp: stock_qty_def find_stock_def upsert_stock_def split: option.splits)
next
  case False
  have "find_row (is_cell w' i') (upsert_row (is_cell w i) f new (stocks db))
      = find_row (is_cell w' i') (stocks db)"
    by (rule find_row_upsert_other) (use assms False in auto)
  with False show ?thesis
    by (auto simp: stock_qty_def find_stock_def upsert_stock_def)
qed

text \<open>The posting rule: a cell written to \<open>q\<close> with a transaction from its old balance to \<open>q\<close>.\<close>

lemma inv_abs_post:
  assumes "\<And>w' i'. stock_qty w' i' db' = (if (w', i') = (w, i) then tx_new t else stock_qty w' i' db)"
    and "map entry_of (txs db') = map entry_of (txs db) @ [entry_of t]"
    and "cell_tx w i t" and "tx_prev t = stock_qty w i db"
    and "tx_new t = tx_prev t + signed_qty (tx_type t) (tx_qty t)"
  shows "post_all [entry_of t] (inv_abs db) = Some (inv_abs db')"
proof -
  have "(bal (inv_abs db))((w, i) := tx_new t) = bal (inv_abs db')"
    using assms(1) by (auto simp: inv_abs_def fun_eq_iff)
  moreover have "book (inv_abs db') = book (inv_abs db) @ [entry_of t]"
    using assms(2) by simp
  ultimately have "inv_abs db' = \<lparr>bal = (bal (inv_abs db))((w, i) := tx_new t),
      book = book (inv_abs db) @ [entry_of t]\<rparr>"
    by simp
  with assms(3-5) show ?thesis
    by (simp add: post_def entry_delta_def entry_of_def)
qed

end
