(* ===== verification/Stock_Service.thy ===== *)
theory Stock_Service
  imports Inventory
begin

text \<open>
  \<open>features/inventory-stock/inventory-stock.service.ts\<close>: the stock movements
  (\<open>performTransaction\<close>, \<open>performReturn\<close>), the stock levels of a position and its read-outs.
  The rounding of the weighted average cost, \<open>parseFloat(x.toFixed(4))\<close> of the decimal library,
  is the parameter \<open>rnd4\<close>. Free-text notes are left out.
\<close>

section \<open>Requests\<close>

record transaction_dto =
  pd_wh :: id
  pd_item :: id
  pd_type :: tx_type
  pd_qty :: qty
  pd_cost :: "qty option"
  pd_ref :: "id option"
  pd_ref_type :: "string option"

record return_dto =
  rd_wh :: id
  rd_item :: id
  rd_qty :: qty
  rd_work_order :: id

record levels_dto =
  ld_min :: "qty option"
  ld_max :: "qty option"
  ld_location :: "string option option"

section \<open>Access\<close>

definition assertWarehouseContractAccess :: "user \<Rightarrow> warehouse \<Rightarrow> unit res" where
  "assertWarehouseContractAccess u w =
     (if \<not> userCanAccessContractId u (Some (wh_contract w))
      then Inl (Forbidden ''sin acceso al contrato de la bodega'') else Inr ())"

definition loadWarehouseForUser :: "id \<Rightarrow> user \<Rightarrow> 'a inv_db_scheme \<Rightarrow> warehouse res" where
  "loadWarehouseForUser w u db =
     (case tenant_warehouse w (user_tenant u) db of
        None \<Rightarrow> Inl (NotFound ''Bodega no encontrada'')
      | Some wh \<Rightarrow> and_then (assertWarehouseContractAccess u wh) (\<lambda>_. Inr wh))"

definition maskCostValue :: "user \<Rightarrow> qty option \<Rightarrow> qty option" where
  "maskCostValue u v = (if userCanViewInventoryCost (Some u) then v else None)"

section \<open>Negative stock\<close>

definition tenantBlocksNegativeStock :: "id \<Rightarrow> 'a inv_db_scheme \<Rightarrow> bool" where
  "tenantBlocksNegativeStock tenant db =
     (case find_row (\<lambda>c. cfg_tenant c = tenant) (configs db) of
        None \<Rightarrow> False | Some c \<Rightarrow> cfg_block_negative c)"

definition throwIfBlockedNegativeStock ::
    "id \<Rightarrow> qty \<Rightarrow> qty \<Rightarrow> 'a inv_db_scheme \<Rightarrow> unit res" where
  "throwIfBlockedNegativeStock tenant previousQty deductQty db =
     (if \<not> wouldStockGoNegative previousQty deductQty then Inr ()
      else if \<not> tenantBlocksNegativeStock tenant db then Inr ()
      else Inl (BadRequest ''Stock insuficiente''))"

section \<open>Stock movements\<close>

text \<open>The checks of \<open>performTransactionCore\<close> on the reference of a movement in the field.\<close>

definition check_field_reference ::
    "transaction_dto \<Rightarrow> user \<Rightarrow> 'a inv_db_scheme \<Rightarrow> unit res" where
  "check_field_reference dto u db =
     (let refType = trim_opt (pd_ref_type dto) in
      if refType = FIELD_DISPATCH_REFERENCE_TYPE \<and> pd_type dto \<noteq> OUT
        then Inl (BadRequest ''FIELD_DISPATCH solo aplica a salidas'')
      else if refType = FIELD_RETURN_REFERENCE_TYPE \<and> pd_type dto \<noteq> IN
        then Inl (BadRequest ''FIELD_RETURN solo aplica a entradas'')
      else if pd_type dto = IN \<and> refType = FIELD_RETURN_REFERENCE_TYPE then
        (let uc = or_zero (pd_cost dto) in
         if uc \<le> 0 then Inl (BadRequest ''el reingreso requiere costo unitario'')
         else if pd_qty dto > getFieldDispatchOutstandingForItem (user_tenant u) (pd_wh dto)
                   (pd_item dto) db + STOCK_QTY_EPSILON
           then Inl (BadRequest ''supera lo pendiente desde terreno'')
         else Inr ())
      else Inr ())"

text \<open>The weighted average cost of an entry.\<close>

definition entry_unit_cost :: "(qty \<Rightarrow> qty) \<Rightarrow> qty \<Rightarrow> qty \<Rightarrow> qty \<Rightarrow> qty option \<Rightarrow> qty" where
  "entry_unit_cost rnd4 previousQty previousCost quantity unitCost =
     (case unitCost of
        None \<Rightarrow> previousCost
      | Some rC \<Rightarrow>
          if rC > 0 then
            (let totalQty = previousQty + quantity in
             if totalQty = 0 then rC
             else rnd4 ((previousQty * previousCost + quantity * rC) / totalQty))
          else previousCost)"

text \<open>The new quantity, the new unit cost and the regularisation flag of a movement.\<close>

definition new_levels ::
    "(qty \<Rightarrow> qty) \<Rightarrow> transaction_dto \<Rightarrow> user \<Rightarrow> 'a inv_db_scheme \<Rightarrow> (qty \<times> qty \<times> bool) res" where
  "new_levels rnd4 dto u db =
     (let previousQty = stock_qty (pd_wh dto) (pd_item dto) db;
          previousCost = stock_cost (pd_wh dto) (pd_item dto) db
      in if pd_type dto = IN then
           Inr (addStockQty previousQty (pd_qty dto),
                entry_unit_cost rnd4 previousQty previousCost (pd_qty dto) (pd_cost dto), False)
         else if pd_type dto = OUT \<or> pd_type dto = WORK_ORDER_ISSUE then
           and_then (throwIfBlockedNegativeStock (user_tenant u) previousQty (pd_qty dto) db) (\<lambda>_.
             let newQty = subtractStockQty previousQty (pd_qty dto)
             in Inr (newQty, previousCost, isStockQtyNegative newQty))
         else if pd_type dto = ADJUST then
           (let newQty = addStockQty previousQty (pd_qty dto) in
            if isStockQtyNegative newQty then
              and_then (throwIfBlockedNegativeStock (user_tenant u) previousQty
                          (subtractStockQty previousQty newQty) db)
                (\<lambda>_. Inr (newQty, previousCost, True))
            else Inr (newQty, previousCost, False))
         else Inl (BadRequest ''Tipo de transaccion no soportado''))"

text \<open>The writes: position, policy of the item, transaction and regularisation flags.\<close>

definition write_movement ::
    "transaction_dto \<Rightarrow> user \<Rightarrow> qty \<times> qty \<times> bool \<Rightarrow> 'a inv_db_scheme \<Rightarrow> 'a inv_db_scheme" where
  "write_movement dto u levels db =
     (case levels of (newQty, newUnitCost, pending) \<Rightarrow>
       let w = pd_wh dto; i = pd_item dto;
           previousQty = stock_qty w i db;
           policy = (if find_stock w i db = None
              then getPolicyThresholdsForNewItemStockRow (user_tenant u) i w db else (0, 0));
           db1 = upsert_stock w i
             (\<lambda>s. s\<lparr>st_qty := newQty, st_cost := Some newUnitCost\<rparr>)
             \<lparr>st_wh = w, st_item = i, st_qty = newQty, st_cost = Some (or_zero (pd_cost dto)),
              st_min = fst policy, st_max = snd policy, st_location = None\<rparr> db;
           db2 = clearItemStockPolicyIfMatchesWarehouse (user_tenant u) i w db1;
           db3 = add_tx
             \<lparr>tx_type = pd_type dto, tx_wh = w, tx_item = i, tx_user = acting_user_id u,
              tx_qty = pd_qty dto, tx_prev = previousQty, tx_new = newQty,
              tx_ref = or_null (pd_ref dto), tx_ref_type = or_null (pd_ref_type dto),
              tx_pending = pending\<rparr> db2
       in clearPendingRegularizationFlags w i newQty db3)"

definition performTransactionCore ::
    "(qty \<Rightarrow> qty) \<Rightarrow> transaction_dto \<Rightarrow> user \<Rightarrow> 'a inv_db_scheme \<Rightarrow> 'a inv_db_scheme res" where
  "performTransactionCore rnd4 dto u db =
     (if acting_user_id u = [] then Inl (BadRequest ''No se pudo identificar al usuario'')
      else if pd_qty dto \<le> 0 \<and> pd_type dto \<noteq> ADJUST
        then Inl (BadRequest ''La cantidad debe ser mayor a cero'')
      else case tenant_warehouse (pd_wh dto) (user_tenant u) db of
        None \<Rightarrow> Inl (NotFound ''Bodega no valida'')
      | Some w \<Rightarrow>
          and_then (assertWarehouseContractAccess u w) (\<lambda>_.
          and_then (check_field_reference dto u db) (\<lambda>_.
          and_then (new_levels rnd4 dto u db) (\<lambda>levels.
            Inr (write_movement dto u levels db)))))"

text \<open>
  \<open>performTransaction\<close>: the same checks before the transaction is opened, then the core in a
  serializable transaction (an exception leaves the database as it was).
\<close>

definition performTransaction ::
    "(qty \<Rightarrow> qty) \<Rightarrow> transaction_dto \<Rightarrow> user \<Rightarrow> 'a inv_db_scheme \<Rightarrow> 'a inv_db_scheme res" where
  "performTransaction rnd4 dto u db =
     (if acting_user_id u = [] then Inl (BadRequest ''No se pudo identificar al usuario'')
      else if pd_qty dto \<le> 0 \<and> pd_type dto \<noteq> ADJUST
        then Inl (BadRequest ''La cantidad debe ser mayor a cero'')
      else performTransactionCore rnd4 dto u db)"

section \<open>Returns from a work order\<close>

definition wo_consumed :: "id \<Rightarrow> id \<Rightarrow> id \<Rightarrow> 'a inv_db_scheme \<Rightarrow> qty" where
  "wo_consumed w i wo db =
     sum_rows (\<lambda>t. cell_tx w i t \<and> tx_ref t = Some wo \<and> tx_ref_type t = Some ''WORK_ORDER''
        \<and> (tx_type t = OUT \<or> tx_type t = WORK_ORDER_ISSUE)) tx_qty (txs db)"

definition wo_returned :: "id \<Rightarrow> id \<Rightarrow> id \<Rightarrow> 'a inv_db_scheme \<Rightarrow> qty" where
  "wo_returned w i wo db =
     sum_rows (\<lambda>t. cell_tx w i t \<and> tx_ref t = Some wo \<and> tx_ref_type t = Some ''WORK_ORDER''
        \<and> (tx_type t = RETURN \<or> tx_type t = WORK_ORDER_RETURN)) tx_qty (txs db)"

definition write_return :: "return_dto \<Rightarrow> user \<Rightarrow> 'a inv_db_scheme \<Rightarrow> 'a inv_db_scheme" where
  "write_return dto u db =
     (let w = rd_wh dto; i = rd_item dto;
          previousQty = stock_qty w i db;
          newQty = previousQty + rd_qty dto;
          policy = (if find_stock w i db = None
             then getPolicyThresholdsForNewItemStockRow (user_tenant u) i w db else (0, 0));
          db1 = upsert_stock w i (\<lambda>s. s\<lparr>st_qty := newQty\<rparr>)
            \<lparr>st_wh = w, st_item = i, st_qty = newQty, st_cost = Some (stock_cost w i db),
             st_min = fst policy, st_max = snd policy, st_location = None\<rparr> db;
          db2 = clearItemStockPolicyIfMatchesWarehouse (user_tenant u) i w db1;
          db3 = add_tx
            \<lparr>tx_type = WORK_ORDER_RETURN, tx_wh = w, tx_item = i, tx_user = acting_user_id u,
             tx_qty = rd_qty dto, tx_prev = previousQty, tx_new = newQty,
             tx_ref = Some (rd_work_order dto), tx_ref_type = Some ''WORK_ORDER'',
             tx_pending = False\<rparr> db2
      in if newQty \<ge> 0 then clear_pending w i db3 else db3)"

definition performReturn :: "return_dto \<Rightarrow> user \<Rightarrow> 'a inv_db_scheme \<Rightarrow> 'a inv_db_scheme res" where
  "performReturn dto u db =
     (if rd_qty dto \<le> 0 then Inl (BadRequest ''La cantidad a devolver debe ser mayor a cero'')
      else if acting_user_id u = [] then Inl (BadRequest ''No se pudo identificar al usuario'')
      else if filter (\<lambda>t. cell_tx (rd_wh dto) (rd_item dto) t \<and> tx_ref t = Some (rd_work_order dto)
             \<and> tx_ref_type t = Some ''WORK_ORDER''
             \<and> (tx_type t = OUT \<or> tx_type t = WORK_ORDER_ISSUE)) (txs db) = []
        then Inl (BadRequest ''No se encontraron salidas de este item para la OT'')
      else if wo_returned (rd_wh dto) (rd_item dto) (rd_work_order dto) db + rd_qty dto
             > wo_consumed (rd_wh dto) (rd_item dto) (rd_work_order dto) db
        then Inl (BadRequest ''Devolucion excede el consumo original'')
      else Inr (write_return dto u db))"

section \<open>Stock levels of a position\<close>

definition location_value :: "string option option \<Rightarrow> string option option" where
  "location_value l =
     (case l of
        None \<Rightarrow> None
      | Some s \<Rightarrow> Some (let t = trim_opt s in if t = [] then None else Some (take 120 t)))"

definition updateStockLevels ::
    "id \<Rightarrow> id \<Rightarrow> levels_dto \<Rightarrow> user \<Rightarrow> 'a inv_db_scheme \<Rightarrow> 'a inv_db_scheme res" where
  "updateStockLevels w i dto u db =
     and_then (loadWarehouseForUser w u db) (\<lambda>_.
     if find_item i (user_tenant u) db = None then Inl (NotFound ''Articulo no encontrado'')
     else if ld_min dto = None \<and> ld_max dto = None \<and> ld_location dto = None
       then Inl (BadRequest ''Debe indicar stock minimo/maximo y/o ubicacion'')
     else if (case ld_min dto of None \<Rightarrow> False | Some q \<Rightarrow> q < 0)
       then Inl (BadRequest ''El stock minimo debe ser mayor o igual a cero'')
     else if (case ld_max dto of None \<Rightarrow> False | Some q \<Rightarrow> q < 0)
       then Inl (BadRequest ''El stock maximo debe ser mayor o igual a cero'')
     else
       let loc = location_value (ld_location dto);
           current = find_stock w i db;
           policy = (if current = None
              then getPolicyThresholdsForNewItemStockRow (user_tenant u) i w db else (0, 0));
           finalMin = (case ld_min dto of Some q \<Rightarrow> q
              | None \<Rightarrow> (case current of Some s \<Rightarrow> st_min s | None \<Rightarrow> fst policy));
           finalMax = (case ld_max dto of Some q \<Rightarrow> q
              | None \<Rightarrow> (case current of Some s \<Rightarrow> st_max s | None \<Rightarrow> snd policy))
       in if (ld_min dto \<noteq> None \<or> ld_max dto \<noteq> None) \<and> finalMax > 0 \<and> finalMax < finalMin
          then Inl (BadRequest ''El stock maximo no puede ser menor que el minimo'')
          else Inr (clearItemStockPolicyIfMatchesWarehouse (user_tenant u) i w
            (upsert_stock w i
              (\<lambda>s. s\<lparr>st_min := (case ld_min dto of Some q \<Rightarrow> q | None \<Rightarrow> st_min s),
                     st_max := (case ld_max dto of Some q \<Rightarrow> q | None \<Rightarrow> st_max s),
                     st_location := (case loc of Some l \<Rightarrow> l | None \<Rightarrow> st_location s)\<rparr>)
              \<lparr>st_wh = w, st_item = i, st_qty = stock_qty w i db,
               st_cost = Some (stock_cost w i db), st_min = finalMin, st_max = finalMax,
               st_location = (case loc of Some l \<Rightarrow> l | None \<Rightarrow> None)\<rparr> db)))"

section \<open>Read-outs\<close>

definition getStockPosition ::
    "id \<Rightarrow> id \<Rightarrow> user \<Rightarrow> 'a inv_db_scheme \<Rightarrow> (string option \<times> qty) res" where
  "getStockPosition w i u db =
     and_then (loadWarehouseForUser w u db) (\<lambda>_.
     if find_item i (user_tenant u) db = None then Inl (NotFound ''Articulo no encontrado'')
     else let loc = trim_opt (Option.bind (find_stock w i db) st_location)
       in Inr (if loc = [] then None else Some loc, stock_qty w i db))"

definition mapFieldDispatchOutstandingForWarehouse ::
    "id \<Rightarrow> id \<Rightarrow> 'a inv_db_scheme \<Rightarrow> (id \<times> qty) list" where
  "mapFieldDispatchOutstandingForWarehouse tenant w db =
     filter (\<lambda>(i, net). net > 1 / 1000000000)
       (map (\<lambda>i. (i, field_dispatched tenant w i db - field_returned tenant w i db))
         (remdups (map tx_item (filter (\<lambda>t. tx_wh t = w \<and> tx_type t = OUT
            \<and> tx_ref_type t = Some FIELD_DISPATCH_REFERENCE_TYPE
            \<and> tenant_warehouse w tenant db \<noteq> None) (txs db)))))"

text \<open>The response of a movement: the position with its cost masked, and the new transaction.\<close>

definition movement_response ::
    "user \<Rightarrow> transaction_dto \<Rightarrow> 'a inv_db_scheme \<Rightarrow> item_stock option \<times> inv_tx option" where
  "movement_response u dto db' =
     (map_option (\<lambda>s. s\<lparr>st_cost := maskCostValue u (st_cost s)\<rparr>) (find_stock (pd_wh dto) (pd_item dto) db'),
      find_row (cell_tx (pd_wh dto) (pd_item dto)) (rev (txs db')))"

section \<open>Lemmas\<close>

lemma assertWarehouse_Inr:
  "assertWarehouseContractAccess u w = Inr x \<longleftrightarrow> userCanAccessContractId u (Some (wh_contract w))"
  by (simp add: assertWarehouseContractAccess_def)

lemma throwIfBlocked_Inr:
  "throwIfBlockedNegativeStock t p d db = Inr x \<longleftrightarrow>
     \<not> (wouldStockGoNegative p d \<and> tenantBlocksNegativeStock t db)"
  by (simp add: throwIfBlockedNegativeStock_def)

text \<open>What the branch on the movement type computes, for every type it accepts.\<close>

lemma new_levels_Inr:
  assumes "new_levels rnd4 dto u db = Inr (q, c, pending)"
  shows "q = stock_qty (pd_wh dto) (pd_item dto) db + signed_qty (pd_type dto) (pd_qty dto)"
    and "pd_type dto \<in> {IN, OUT, WORK_ORDER_ISSUE, ADJUST}"
    and "pending \<longleftrightarrow> pd_type dto \<noteq> IN \<and> isStockQtyNegative q"
    and "tenantBlocksNegativeStock (user_tenant u) db \<Longrightarrow> pd_type dto \<noteq> IN \<Longrightarrow>
           \<not> isStockQtyNegative q"
  using assms
  by (auto simp: new_levels_def Let_def qty_defs and_then_eq_Inr throwIfBlocked_Inr
      split: if_splits)

lemma new_levels_cost:
  assumes "new_levels rnd4 dto u db = Inr (q, c, pending)"
  shows "c = (if pd_type dto = IN
      then entry_unit_cost rnd4 (stock_qty (pd_wh dto) (pd_item dto) db)
             (stock_cost (pd_wh dto) (pd_item dto) db) (pd_qty dto) (pd_cost dto)
      else stock_cost (pd_wh dto) (pd_item dto) db)"
  using assms
  by (auto simp: new_levels_def Let_def and_then_eq_Inr split: if_splits)

text \<open>A successful call: its guards held and the database was written.\<close>

lemma core_InrE:
  assumes "performTransactionCore rnd4 dto u db = Inr db'"
  obtains w q c pending where
    "acting_user_id u \<noteq> []" "0 < pd_qty dto \<or> pd_type dto = ADJUST"
    "tenant_warehouse (pd_wh dto) (user_tenant u) db = Some w"
    "userCanAccessContractId u (Some (wh_contract w))"
    "check_field_reference dto u db = Inr ()"
    "new_levels rnd4 dto u db = Inr (q, c, pending)"
    "db' = write_movement dto u (q, c, pending) db"
  using assms
  by (auto simp: performTransactionCore_def and_then_eq_Inr assertWarehouse_Inr
      split: if_splits option.splits)

lemma performTransaction_eq: "performTransaction rnd4 dto u db = performTransactionCore rnd4 dto u db"
  by (simp add: performTransaction_def performTransactionCore_def)

lemma write_movement_qty:
  "stock_qty w i (write_movement dto u (q, c, p) db) =
     (if (w, i) = (pd_wh dto, pd_item dto) then q else stock_qty w i db)"
  by (simp add: write_movement_def Let_def stock_qty_upsert)

lemma write_movement_entries:
  "map entry_of (txs (write_movement dto u (q, c, p) db)) =
     map entry_of (txs db) @ [\<lparr>en_cell = (pd_wh dto, pd_item dto), en_type = pd_type dto,
       en_qty = pd_qty dto, en_prev = stock_qty (pd_wh dto) (pd_item dto) db, en_new = q\<rparr>]"
  by (simp add: write_movement_def Let_def clearPendingRegularizationFlags_def clear_pending_def
      entry_of_def)

lemma write_movement_frame [simp]:
  "warehouses (write_movement dto u l db) = warehouses db"
  "configs (write_movement dto u l db) = configs db"
  "transfers (write_movement dto u l db) = transfers db"
  "inv_db.more (write_movement dto u l db) = inv_db.more db"
  by (simp_all add: write_movement_def Let_def split: prod.splits)

lemma write_movement_pending:
  "has_pending w i (write_movement dto u (q, c, p) db) \<longleftrightarrow>
     (if (w, i) = (pd_wh dto, pd_item dto)
      then isStockQtyNegative q \<and> (has_pending w i db \<or> p) else has_pending w i db)"
  by (auto simp: write_movement_def Let_def clearPendingRegularizationFlags_def has_pending_clear)

section \<open>The stock service refines the ledger\<close>

definition core_entry :: "transaction_dto \<Rightarrow> 'a inv_db_scheme \<Rightarrow> entry" where
  "core_entry dto db =
     (let p = stock_qty (pd_wh dto) (pd_item dto) db in
      \<lparr>en_cell = (pd_wh dto, pd_item dto), en_type = pd_type dto, en_qty = pd_qty dto,
       en_prev = p, en_new = p + signed_qty (pd_type dto) (pd_qty dto)\<rparr>)"

definition return_entry :: "return_dto \<Rightarrow> 'a inv_db_scheme \<Rightarrow> entry" where
  "return_entry dto db =
     (let p = stock_qty (rd_wh dto) (rd_item dto) db in
      \<lparr>en_cell = (rd_wh dto, rd_item dto), en_type = WORK_ORDER_RETURN, en_qty = rd_qty dto,
       en_prev = p, en_new = p + rd_qty dto\<rparr>)"

lemma core_posts:
  assumes "performTransactionCore rnd4 dto u db = Inr db'"
  shows "post_all [core_entry dto db] (inv_abs db) = Some (inv_abs db')"
proof -
  obtain w q c pending where l: "new_levels rnd4 dto u db = Inr (q, c, pending)"
    and db': "db' = write_movement dto u (q, c, pending) db"
    using assms by (rule core_InrE)
  have q: "q = stock_qty (pd_wh dto) (pd_item dto) db + signed_qty (pd_type dto) (pd_qty dto)"
    by (rule new_levels_Inr(1)[OF l])
  have "bal (inv_abs db') = (bal (inv_abs db))((pd_wh dto, pd_item dto) := q)"
    unfolding db' by (auto simp: inv_abs_def fun_eq_iff write_movement_qty)
  moreover have "book (inv_abs db') = book (inv_abs db) @ [core_entry dto db]"
    unfolding db' book_inv_abs write_movement_entries by (simp add: core_entry_def q Let_def)
  ultimately have "inv_abs db' = \<lparr>bal = (bal (inv_abs db))((pd_wh dto, pd_item dto) := q),
      book = book (inv_abs db) @ [core_entry dto db]\<rparr>"
    by simp
  then show ?thesis
    by (simp add: post_def core_entry_def entry_delta_def q Let_def)
qed

lemma performReturn_Inr:
  "performReturn dto u db = Inr db' \<longleftrightarrow>
     0 < rd_qty dto \<and> acting_user_id u \<noteq> []
     \<and> (\<exists>t \<in> set (txs db). cell_tx (rd_wh dto) (rd_item dto) t \<and> tx_ref t = Some (rd_work_order dto)
          \<and> tx_ref_type t = Some ''WORK_ORDER'' \<and> (tx_type t = OUT \<or> tx_type t = WORK_ORDER_ISSUE))
     \<and> wo_returned (rd_wh dto) (rd_item dto) (rd_work_order dto) db + rd_qty dto
         \<le> wo_consumed (rd_wh dto) (rd_item dto) (rd_work_order dto) db
     \<and> db' = write_return dto u db"
  by (auto simp: performReturn_def filter_empty_conv split: if_splits)

lemma write_return_qty:
  "stock_qty w i (write_return dto u db) =
     (if (w, i) = (rd_wh dto, rd_item dto) then stock_qty w i db + rd_qty dto else stock_qty w i db)"
  by (simp add: write_return_def Let_def stock_qty_upsert)

lemma write_return_entries:
  "map entry_of (txs (write_return dto u db)) = map entry_of (txs db) @ [return_entry dto db]"
  by (simp add: write_return_def Let_def clear_pending_def entry_of_def return_entry_def)

lemma write_return_pending:
  "has_pending w i (write_return dto u db) \<longleftrightarrow>
     has_pending w i db \<and>
     ((w, i) = (rd_wh dto, rd_item dto) \<longrightarrow> stock_qty w i db + rd_qty dto < 0)"
  by (auto simp: write_return_def Let_def has_pending_clear)

lemma write_return_frame [simp]:
  "warehouses (write_return dto u db) = warehouses db"
  "configs (write_return dto u db) = configs db"
  "transfers (write_return dto u db) = transfers db"
  "inv_db.more (write_return dto u db) = inv_db.more db"
  by (simp_all add: write_return_def Let_def)

lemma return_posts:
  assumes "performReturn dto u db = Inr db'"
  shows "post_all [return_entry dto db] (inv_abs db) = Some (inv_abs db')"
proof -
  have db': "db' = write_return dto u db" using assms by (simp add: performReturn_Inr)
  let ?q = "stock_qty (rd_wh dto) (rd_item dto) db + rd_qty dto"
  have "bal (inv_abs db') = (bal (inv_abs db))((rd_wh dto, rd_item dto) := ?q)"
    unfolding db' by (auto simp: inv_abs_def fun_eq_iff write_return_qty)
  moreover have "book (inv_abs db') = book (inv_abs db) @ [return_entry dto db]"
    unfolding db' book_inv_abs write_return_entries ..
  ultimately have "inv_abs db' = \<lparr>bal = (bal (inv_abs db))((rd_wh dto, rd_item dto) := ?q),
      book = book (inv_abs db) @ [return_entry dto db]\<rparr>"
    by simp
  then show ?thesis
    by (simp add: post_def return_entry_def entry_delta_def Let_def)
qed

lemma levels_post_nothing:
  assumes "updateStockLevels w i dto u db = Inr db'"
  shows "inv_abs db' = inv_abs db"
proof -
  obtain f new where db': "db' = clearItemStockPolicyIfMatchesWarehouse (user_tenant u) i w
      (upsert_stock w i f new db)"
    and f: "\<And>s. is_cell w i (f s) = is_cell w i s" "\<And>s. st_qty (f s) = st_qty s"
    and new: "is_cell w i new" "st_qty new = stock_qty w i db"
    using assms
    by (auto simp: updateStockLevels_def and_then_eq_Inr Let_def split: if_splits)
  have "stock_qty w' i' (upsert_stock w i f new db) = stock_qty w' i' db" for w' i'
  proof (cases "(w', i') = (w, i)")
    case True
    have "find_row (is_cell w i) (upsert_row (is_cell w i) f new (stocks db)) =
        Some (case find_row (is_cell w i) (stocks db) of None \<Rightarrow> new | Some s \<Rightarrow> f s)"
      by (rule find_row_upsert_same) (use f new in auto)
    with True f new show ?thesis
      by (auto simp: stock_qty_def find_stock_def upsert_stock_def split: option.splits)
  next
    case False
    have "find_row (is_cell w' i') (upsert_row (is_cell w i) f new (stocks db))
        = find_row (is_cell w' i') (stocks db)"
      by (rule find_row_upsert_other) (use f new False in auto)
    then show ?thesis by (auto simp: stock_qty_def find_stock_def upsert_stock_def)
  qed
  then show ?thesis unfolding db' by (simp add: inv_abs_def)
qed

interpretation movement: exact_mover
  "\<lambda>(rnd4, dto, u). performTransactionCore rnd4 dto u" inv_abs
  "\<lambda>(rnd4 :: qty \<Rightarrow> qty, dto, u :: user) db. [core_entry dto db]"
  by unfold_locales (auto intro: core_posts)

interpretation wo_return: exact_mover
  "\<lambda>(dto, u). performReturn dto u" inv_abs "\<lambda>(dto, u :: user) db. [return_entry dto db]"
  by unfold_locales (auto intro: return_posts)

interpretation levels: exact_mover
  "\<lambda>(w, i, dto, u). updateStockLevels w i dto u" inv_abs "\<lambda>_ _. []"
  by unfold_locales (auto dest: levels_post_nothing)

section \<open>Properties\<close>

text \<open>A small database for the witnesses: one warehouse, one item, ten units at cost 4.\<close>

definition small_db :: inv_db where
  "small_db = \<lparr>counters = [], activity = [],
     warehouses = [\<lparr>wh_id = ''w1'', wh_tenant = ''t'', wh_contract = ''c1'', wh_code = ''B1'', wh_active = True\<rparr>,
       \<lparr>wh_id = ''w2'', wh_tenant = ''t'', wh_contract = ''c2'', wh_code = ''B2'', wh_active = True\<rparr>],
     items = [\<lparr>it_id = ''i1'', it_tenant = ''t'', it_part_number = Some ''P1'',
       it_inventory_code = None, it_is_inventory = True, it_uom_abbr = ''UN'',
       it_uom_decimals = False, it_policy_wh = None, it_policy_min = None, it_policy_max = None\<rparr>],
     stocks = [\<lparr>st_wh = ''w1'', st_item = ''i1'', st_qty = 10, st_cost = Some 4, st_min = 0,
       st_max = 0, st_location = None\<rparr>],
     txs = [], configs = [\<lparr>cfg_tenant = ''t'', cfg_block_negative = True\<rparr>], transfers = []\<rparr>"

definition out_dto :: "qty \<Rightarrow> transaction_dto" where
  "out_dto q = \<lparr>pd_wh = ''w1'', pd_item = ''i1'', pd_type = OUT, pd_qty = q, pd_cost = None,
     pd_ref = None, pd_ref_type = None\<rparr>"

lemma plain_user_contracts:
  "userCanAccessContractId plain_user (Some ''c1'')"
  "userCanAccessContractId plain_user (Some ''c2'')"
  "\<not> userCanAccessContractId plain_user (Some ''c3'')"
  by (simp_all add: userCanAccessContractId_def plain_user_access trim_opt_def trim_def is_space_def)

lemma plain_user_simps [simp]:
  "acting_user_id plain_user = ''u1''" "user_tenant plain_user = ''t''"
  by (simp_all add: plain_user_def acting_user_id_def)

lemma small_db_simps [simp]:
  "tenant_warehouse ''w1'' ''t'' small_db =
     Some \<lparr>wh_id = ''w1'', wh_tenant = ''t'', wh_contract = ''c1'', wh_code = ''B1'', wh_active = True\<rparr>"
  "tenant_warehouse ''w2'' ''t'' small_db =
     Some \<lparr>wh_id = ''w2'', wh_tenant = ''t'', wh_contract = ''c2'', wh_code = ''B2'', wh_active = True\<rparr>"
  "stock_qty ''w1'' ''i1'' small_db = 10" "stock_cost ''w1'' ''i1'' small_db = 4"
  "stock_qty ''w2'' ''i1'' small_db = 0" "txs small_db = []"
  "tenantBlocksNegativeStock ''t'' small_db"
  by (simp_all add: small_db_def tenant_warehouse_def stock_qty_def stock_cost_def find_stock_def
      tenantBlocksNegativeStock_def)

lemma small_issue: "\<exists>db'. performTransaction rnd4 (out_dto 3) plain_user small_db = Inr db'"
  by (simp add: performTransaction_eq performTransactionCore_def out_dto_def
      plain_user_contracts assertWarehouseContractAccess_def check_field_reference_def trim_opt_def
      FIELD_DISPATCH_REFERENCE_TYPE_def FIELD_RETURN_REFERENCE_TYPE_def new_levels_def
      throwIfBlockedNegativeStock_def qty_defs STOCK_QTY_EPSILON_def)

text \<open>
  C5. What a successful stock movement does: the quantity of its cell changes by the signed
  quantity of its type (entries add, exits and work-order issues subtract, adjustments add their
  signed difference), every other cell keeps its quantity, and the book of transactions grows by
  exactly one entry, from the old quantity to the new one. It only happens in a warehouse of the
  user's own tenant, on a contract the user may operate on.
\<close>

theorem movement_outcome:
  assumes "performTransaction rnd4 dto u db = Inr db'"
  shows "stock_qty (pd_wh dto) (pd_item dto) db'
           = stock_qty (pd_wh dto) (pd_item dto) db + signed_qty (pd_type dto) (pd_qty dto)
    \<and> (\<forall>w i. (w, i) = (pd_wh dto, pd_item dto) \<or> stock_qty w i db' = stock_qty w i db)
    \<and> map entry_of (txs db') = map entry_of (txs db) @ [core_entry dto db]
    \<and> (\<exists>w. tenant_warehouse (pd_wh dto) (user_tenant u) db = Some w
          \<and> userCanAccessContractId u (Some (wh_contract w)))"
proof -
  have core: "performTransactionCore rnd4 dto u db = Inr db'"
    using assms by (simp only: performTransaction_eq)
  have step: "(\<lambda>(rnd4, dto, u). performTransactionCore rnd4 dto u) (rnd4, dto, u) db = Inr db'"
    using core by simp
  have d: "stock_qty w i db' = stock_qty w i db +
      (if (w, i) = (pd_wh dto, pd_item dto) then signed_qty (pd_type dto) (pd_qty dto) else 0)" for w i
    using movement.exact_balance[OF step, of "(w, i)"]
    by (auto simp: core_entry_def entry_delta_def Let_def)
  have b: "map entry_of (txs db') = map entry_of (txs db) @ [core_entry dto db]"
    using movement.exact_book[OF step] by simp
  obtain w where "tenant_warehouse (pd_wh dto) (user_tenant u) db = Some w"
    and "userCanAccessContractId u (Some (wh_contract w))"
    using core by (rule core_InrE)
  with d b show ?thesis by auto
qed

lemma movement_outcome_witness:
  "\<exists>db'. performTransaction (\<lambda>x. x) (out_dto 3) plain_user small_db = Inr db'
     \<and> stock_qty ''w1'' ''i1'' db' = 7"
proof -
  obtain db' where d: "performTransaction (\<lambda>x. x) (out_dto 3) plain_user small_db = Inr db'"
    using small_issue by blast
  with movement_outcome[OF d] show ?thesis by (simp add: out_dto_def)
qed

text \<open>
  C6. A tenant that blocks negative stock never gets a negative balance from a movement: a cell
  that was not below zero (beyond the tolerance) is not below zero afterwards, and an exit or
  work-order issue that passes the other checks is refused exactly when it would leave the
  balance below zero.
\<close>

theorem blocked_tenant_never_negative:
  assumes "tenantBlocksNegativeStock (user_tenant u) db"
  shows "(performTransaction rnd4 dto u db = Inr db' \<and> \<not> isStockQtyNegative (stock_qty w i db)
            \<longrightarrow> \<not> isStockQtyNegative (stock_qty w i db'))
    \<and> (pd_type dto \<in> {OUT, WORK_ORDER_ISSUE} \<and> 0 < pd_qty dto \<and> acting_user_id u \<noteq> []
        \<and> tenant_warehouse (pd_wh dto) (user_tenant u) db = Some wh
        \<and> userCanAccessContractId u (Some (wh_contract wh))
        \<and> check_field_reference dto u db = Inr ()
        \<longrightarrow> ((\<exists>e. performTransaction rnd4 dto u db = Inl e)
              \<longleftrightarrow> isStockQtyNegative (stock_qty (pd_wh dto) (pd_item dto) db - pd_qty dto)))"
proof (intro conjI impI)
  assume a: "performTransaction rnd4 dto u db = Inr db' \<and> \<not> isStockQtyNegative (stock_qty w i db)"
  then have core: "performTransactionCore rnd4 dto u db = Inr db'"
    by (simp only: performTransaction_eq)
  obtain q c p where q: "0 < pd_qty dto \<or> pd_type dto = ADJUST"
    and l: "new_levels rnd4 dto u db = Inr (q, c, p)" and db': "db' = write_movement dto u (q, c, p) db"
    using core by (rule core_InrE)
  show "\<not> isStockQtyNegative (stock_qty w i db')"
  proof (cases "(w, i) = (pd_wh dto, pd_item dto)")
    case True
    show ?thesis
    proof (cases "pd_type dto = IN")
      case True
      then show ?thesis
        using new_levels_Inr(1)[OF l] q a \<open>(w, i) = (pd_wh dto, pd_item dto)\<close>
        by (auto simp: db' write_movement_qty isStockQtyNegative_def)
    next
      case False
      then show ?thesis
        using new_levels_Inr(4)[OF l assms] True by (simp add: db' write_movement_qty)
    qed
  next
    case False
    with a show ?thesis by (auto simp: db' write_movement_qty)
  qed
next
  assume "pd_type dto \<in> {OUT, WORK_ORDER_ISSUE} \<and> 0 < pd_qty dto \<and> acting_user_id u \<noteq> []
        \<and> tenant_warehouse (pd_wh dto) (user_tenant u) db = Some wh
        \<and> userCanAccessContractId u (Some (wh_contract wh))
        \<and> check_field_reference dto u db = Inr ()"
  then show "(\<exists>e. performTransaction rnd4 dto u db = Inl e)
      \<longleftrightarrow> isStockQtyNegative (stock_qty (pd_wh dto) (pd_item dto) db - pd_qty dto)"
    using assms
    by (auto simp: performTransaction_eq performTransactionCore_def assertWarehouseContractAccess_def
        new_levels_def Let_def throwIfBlockedNegativeStock_def qty_defs)
qed

lemma blocked_tenant_never_negative_witness:
  "tenantBlocksNegativeStock ''t'' small_db
   \<and> (\<exists>e. performTransaction (\<lambda>x. x) (out_dto 11) plain_user small_db = Inl e)"
proof -
  have "check_field_reference (out_dto 11) plain_user small_db = Inr ()"
    by (simp add: check_field_reference_def out_dto_def trim_opt_def
        FIELD_DISPATCH_REFERENCE_TYPE_def FIELD_RETURN_REFERENCE_TYPE_def)
  then show ?thesis
    using blocked_tenant_never_negative[of plain_user small_db "\<lambda>x. x" "out_dto 11" small_db
        "''w1''" "''i1''" "\<lparr>wh_id = ''w1'', wh_tenant = ''t'', wh_contract = ''c1'', wh_code = ''B1'', wh_active = True\<rparr>"]
    by (simp add: out_dto_def plain_user_contracts isStockQtyNegative_def STOCK_QTY_EPSILON_def)
qed

text \<open>
  What the services rely on of \<open>parseFloat(x.toFixed(4))\<close>: the result is within half a unit of
  the fourth decimal of \<open>x\<close>.
\<close>

definition rounds4 :: "(qty \<Rightarrow> qty) \<Rightarrow> bool" where
  "rounds4 rnd4 \<longleftrightarrow> (\<forall>x. \<bar>rnd4 x - x\<bar> \<le> 1 / 20000)"

text \<open>Rounding half away from zero to four decimals, as the decimal library documents it.\<close>

definition half_up4 :: "qty \<Rightarrow> qty" where
  "half_up4 x = (if 0 \<le> x then of_int \<lfloor>x * 10000 + 1 / 2\<rfloor> / 10000
     else - (of_int \<lfloor>- x * 10000 + 1 / 2\<rfloor> / 10000))"

lemma rounds4_half_up4: "rounds4 half_up4"
proof -
  have r: "\<bar>of_int \<lfloor>y * 10000 + 1 / 2\<rfloor> / 10000 - y\<bar> \<le> 1 / 20000" for y :: qty
  proof -
    have "of_int \<lfloor>y * 10000 + 1 / 2\<rfloor> \<le> y * 10000 + 1 / 2" by (rule of_int_floor_le)
    moreover have "y * 10000 + 1 / 2 < of_int \<lfloor>y * 10000 + 1 / 2\<rfloor> + 1" by linarith
    ultimately show ?thesis by linarith
  qed
  show ?thesis unfolding rounds4_def half_up4_def
  proof
    fix x :: qty
    show "\<bar>(if 0 \<le> x then of_int \<lfloor>x * 10000 + 1 / 2\<rfloor> / 10000
       else - (of_int \<lfloor>- x * 10000 + 1 / 2\<rfloor> / 10000)) - x\<bar> \<le> 1 / 20000"
    proof (cases "0 \<le> x")
      case True
      then show ?thesis using r[of x] by simp
    next
      case False
      then have "(if 0 \<le> x then of_int \<lfloor>x * 10000 + 1 / 2\<rfloor> / 10000
        else - (of_int \<lfloor>- x * 10000 + 1 / 2\<rfloor> / 10000)) - x
        = - (of_int \<lfloor>- x * 10000 + 1 / 2\<rfloor> / 10000 - - x)"
        by simp
      then show ?thesis using r[of "- x"] by (simp only: abs_minus_cancel)
    qed
  qed
qed

lemma weighted_average_between:
  fixes p q a b :: qty
  assumes "0 \<le> p" and "0 < q"
  shows "min a b \<le> (p * a + q * b) / (p + q)" and "(p * a + q * b) / (p + q) \<le> max a b"
proof -
  have s: "0 < p + q" using assms by simp
  have "p * min a b + q * min a b \<le> p * a + q * b"
    using assms by (intro add_mono mult_left_mono) auto
  then show "min a b \<le> (p * a + q * b) / (p + q)"
    using s by (simp add: pos_le_divide_eq algebra_simps)
  have "p * a + q * b \<le> p * max a b + q * max a b"
    using assms by (intro add_mono mult_left_mono) auto
  then show "(p * a + q * b) / (p + q) \<le> max a b"
    using s by (simp add: pos_divide_le_eq algebra_simps)
qed

lemma weighted_average_beyond:
  fixes p q a b :: qty
  assumes "p < 0" and "0 < p + q"
  shows "a \<le> b \<Longrightarrow> b \<le> (p * a + q * b) / (p + q)"
    and "b \<le> a \<Longrightarrow> (p * a + q * b) / (p + q) \<le> b"
proof -
  show "b \<le> (p * a + q * b) / (p + q)" if "a \<le> b"
    using mult_left_mono_neg[of a b p] assms that by (simp add: pos_le_divide_eq algebra_simps)
  show "(p * a + q * b) / (p + q) \<le> b" if "b \<le> a"
    using mult_left_mono_neg[of b a p] assms that by (simp add: pos_divide_le_eq algebra_simps)
qed

text \<open>
  C7. The weighted average cost of an entry with a positive quantity and cost, under the documented
  rounding. The value of the stock after the entry is the old value plus the incoming value, up to
  half a unit of the fourth decimal per unit of stock, unless the entry ends at zero. Where the stock
  before was not negative, the new unit cost lies between the smaller and the larger of the two
  costs, up to that rounding. Where it was negative and the entry covers it, it does not: the new
  unit cost lies on the far side of the incoming cost, seen from the old one.
\<close>

theorem weighted_average_cost:
  assumes "rounds4 rnd4" and "0 < addQty" and "0 < addCost"
  shows "(prevQty + addQty \<noteq> 0 \<longrightarrow>
      \<bar>entry_unit_cost rnd4 prevQty prevCost addQty (Some addCost) * (prevQty + addQty)
         - (prevQty * prevCost + addQty * addCost)\<bar> \<le> \<bar>prevQty + addQty\<bar> / 20000)
    \<and> (0 \<le> prevQty \<longrightarrow>
         min prevCost addCost - 1 / 20000 \<le> entry_unit_cost rnd4 prevQty prevCost addQty (Some addCost)
       \<and> entry_unit_cost rnd4 prevQty prevCost addQty (Some addCost) \<le> max prevCost addCost + 1 / 20000)
    \<and> (prevQty < 0 \<and> 0 < prevQty + addQty \<longrightarrow>
         (prevCost \<le> addCost \<longrightarrow> addCost - 1 / 20000 \<le> entry_unit_cost rnd4 prevQty prevCost addQty (Some addCost))
       \<and> (addCost \<le> prevCost \<longrightarrow> entry_unit_cost rnd4 prevQty prevCost addQty (Some addCost) \<le> addCost + 1 / 20000))"
proof (intro conjI impI)
  let ?avg = "(prevQty * prevCost + addQty * addCost) / (prevQty + addQty)"
  let ?new = "entry_unit_cost rnd4 prevQty prevCost addQty (Some addCost)"
  have r: "\<bar>?new - ?avg\<bar> \<le> 1 / 20000" if "prevQty + addQty \<noteq> 0"
    using that assms(1,3) by (simp add: entry_unit_cost_def rounds4_def)
  show "\<bar>?new * (prevQty + addQty) - (prevQty * prevCost + addQty * addCost)\<bar> \<le> \<bar>prevQty + addQty\<bar> / 20000"
    if nz: "prevQty + addQty \<noteq> 0"
  proof -
    have "?new * (prevQty + addQty) - (prevQty * prevCost + addQty * addCost)
        = (?new - ?avg) * (prevQty + addQty)"
      using nz by (simp add: left_diff_distrib)
    then have "\<bar>?new * (prevQty + addQty) - (prevQty * prevCost + addQty * addCost)\<bar>
        = \<bar>?new - ?avg\<bar> * \<bar>prevQty + addQty\<bar>" by (simp add: abs_mult)
    also have "\<dots> \<le> 1 / 20000 * \<bar>prevQty + addQty\<bar>" using r[OF nz] by (intro mult_right_mono) auto
    finally show ?thesis by simp
  qed
  show "min prevCost addCost - 1 / 20000 \<le> ?new" "?new \<le> max prevCost addCost + 1 / 20000" if "0 \<le> prevQty"
    using weighted_average_between[OF that assms(2), of prevCost addCost] r that assms(2) by linarith+
  show "addCost - 1 / 20000 \<le> ?new" if "prevQty < 0 \<and> 0 < prevQty + addQty" "prevCost \<le> addCost"
    using weighted_average_beyond(1)[of prevQty addQty prevCost addCost] r that by linarith
  show "?new \<le> addCost + 1 / 20000" if "prevQty < 0 \<and> 0 < prevQty + addQty" "addCost \<le> prevCost"
    using weighted_average_beyond(2)[of prevQty addQty addCost prevCost] r that by linarith
qed

lemma weighted_average_cost_witness:
  "rounds4 half_up4 \<and> entry_unit_cost half_up4 10 4 5 (Some 7) \<le> 7 + 1 / 20000
   \<and> 100 - 1 / 20000 \<le> entry_unit_cost half_up4 (- 5) 10 6 (Some 100)"
  using weighted_average_cost[of half_up4 5 7 10 4] weighted_average_cost[of half_up4 6 100 "- 5" 10]
    rounds4_half_up4 by simp

text \<open>
  From a negative stock the weighted average leaves the range of the two costs: with five
  units missing at cost 10, an entry of six units at cost 100 sets the unit cost of the single
  unit left to 550, whatever rounding of four decimals is used.
\<close>

theorem weighted_average_from_negative_stock:
  assumes "rounds4 rnd4"
  shows "entry_unit_cost rnd4 (- 5) 10 6 (Some 100) > 5 * max 10 100"
proof -
  have "entry_unit_cost rnd4 (- 5) 10 6 (Some 100) = rnd4 550"
    by (simp add: entry_unit_cost_def)
  moreover have "\<bar>rnd4 550 - 550\<bar> \<le> 1 / 20000" using assms by (simp add: rounds4_def)
  moreover have "max 10 100 = (100 :: qty)" by simp
  ultimately show ?thesis by linarith
qed

lemma weighted_average_from_negative_stock_witness:
  "entry_unit_cost half_up4 (- 5) 10 6 (Some 100) > 500"
  using weighted_average_from_negative_stock[OF rounds4_half_up4] by simp

end
