(* ===== verification/Purchasing.thy ===== *)
theory Purchasing
  imports Stock_Service
begin

text \<open>
  The tables of the purchasing module (\<open>backend/prisma/schema.prisma\<close>) and the helpers its
  services share: \<open>features/purchases/po-receipt-eligible-statuses.ts\<close>,
  \<open>purchase-requisition-auto-close.util.ts\<close> (the link from an order to its requisition).
  The lines of an order or a receipt are kept inside it. \<open>po_quotation_requisition\<close> is the
  requisition of the order's quotation, when it has one.
\<close>

datatype po_status =
    PO_DRAFT | PO_PENDING_APPROVAL | PO_PARTIALLY_APPROVED | PO_APPROVED | PO_REJECTED
  | PO_SENT | PO_ORDERED | PO_SENT_TO_SUPPLIER | PO_PARTIALLY_RECEIVED | PO_RECEIVED
  | PO_CLOSED | PO_CANCELLED

datatype receipt_status = RC_PENDING | RC_PARTIAL | RC_COMPLETED

record order_item =
  oi_id :: id
  oi_description :: string
  oi_qty :: qty
  oi_unit_cost :: qty
  oi_inventory_item :: "id option"
  oi_source_quotation_item :: "id option"

record purchase_order =
  po_id :: id
  po_tenant :: id
  po_contract :: id
  po_subcontract :: "id option"
  po_correlative :: string
  po_status :: po_status
  po_total :: qty
  po_currency :: string
  po_required :: int
  po_notes :: "string option"
  po_requisition :: "id option"
  po_quotation :: "id option"
  po_quotation_requisition :: "id option"
  po_equipment :: "id option"
  po_work_order :: "id option"
  po_sent_at :: "int option"
  po_delivery :: "string option"
  po_payment_terms :: "string option"
  po_items :: "order_item list"

record receipt_item =
  ri_id :: id
  ri_order_item :: id
  ri_expected :: qty
  ri_received :: qty
  ri_confirmed :: qty
  ri_observations :: "string option"

record receipt =
  rc_id :: id
  rc_tenant :: id
  rc_order :: id
  rc_warehouse :: id
  rc_received_by :: id
  rc_correlative :: string
  rc_status :: receipt_status
  rc_items :: "receipt_item list"

datatype asset_cost_type = COST_PURCHASE | COST_WORK_ORDER | COST_LUBE_DISPATCH

record asset_cost =
  ac_tenant :: id
  ac_equipment :: id
  ac_amount :: qty
  ac_type :: asset_cost_type
  ac_order :: "id option"
  ac_receipt :: "id option"
  ac_work_order :: "id option"

text \<open>The signatures of the orders and the rules of who may sign (\<open>PurchaseOrderApproval\<close>, \<open>ApprovalPolicy\<close>).\<close>

datatype signature_integrity = SIG_VALID | SIG_COMPROMISED

record signature =
  sg_id :: id
  sg_order :: id
  sg_policy :: id
  sg_user :: id
  sg_level :: int
  sg_comment :: "string option"
  sg_hash :: string
  sg_hashed_status :: "po_status option"
  sg_integrity :: signature_integrity
  sg_at :: int

record approval_policy =
  pl_id :: id
  pl_settings :: id
  pl_tenant :: id
  pl_level :: int
  pl_description :: "string option"
  pl_min :: qty
  pl_users :: "id list"

record purchase_settings =
  ps_id :: id
  ps_tenant :: id
  ps_threshold :: qty
  ps_currency :: string
  ps_tolerance :: qty

text \<open>The requisitions and the quotations of the vendors, each with its lines.\<close>

datatype requisition_status =
    RQ_DRAFT | RQ_SUBMITTED | RQ_QUOTING | RQ_PENDING_APPROVAL | RQ_PARTIALLY_PURCHASED | RQ_APPROVED
  | RQ_REJECTED | RQ_CANCELLED | RQ_CLOSED

datatype quotation_status = QT_RECEIVED | QT_SELECTED | QT_PARTIALLY_SELECTED | QT_REJECTED

datatype requisition_priority = PR_LOW | PR_MEDIUM | PR_HIGH

record requisition_item =
  rl_id :: id
  rl_inventory_item :: "id option"
  rl_description :: string
  rl_part_number :: "string option"
  rl_notes :: "string option"
  rl_qty :: qty
  rl_unit :: string
  rl_estimated :: "qty option"
  rl_award :: "id option"

record requisition =
  rq_id :: id
  rq_tenant :: id
  rq_contract :: id
  rq_subcontract :: "id option"
  rq_correlative :: string
  rq_requested_by :: id
  rq_status :: requisition_status
  rq_description :: string
  rq_justification :: "string option"
  rq_equipment :: "id option"
  rq_work_order :: "id option"
  rq_priority :: requisition_priority
  rq_items :: "requisition_item list"

record quotation_item =
  qi_id :: id
  qi_line :: id
  qi_price :: qty
  qi_brand :: "string option"
  qi_notes :: "string option"

record quotation =
  qt_id :: id
  qt_tenant :: id
  qt_requisition :: id
  qt_vendor :: id
  qt_total :: qty
  qt_currency :: string
  qt_delivery_days :: "int option"
  qt_payment_days :: "int option"
  qt_valid_until :: "int option"
  qt_attachment :: "string option"
  qt_status :: quotation_status
  qt_winner :: bool
  qt_items :: "quotation_item list"

record purch_db = inv_db +
  orders :: "purchase_order list"
  receipts :: "receipt list"
  asset_costs :: "asset_cost list"
  signatures :: "signature list"
  approval_policies :: "approval_policy list"
  purchase_settings :: "purchase_settings list"
  requisitions :: "requisition list"
  quotations :: "quotation list"

definition PO_STATUSES_ALLOW_WAREHOUSE_RECEIPT :: "po_status list" where
  "PO_STATUSES_ALLOW_WAREHOUSE_RECEIPT =
     [PO_SENT, PO_ORDERED, PO_PARTIALLY_RECEIVED, PO_SENT_TO_SUPPLIER]"

definition requisitionIdFromPurchaseOrder :: "purchase_order option \<Rightarrow> id option" where
  "requisitionIdFromPurchaseOrder mpo =
     (case mpo of
        None \<Rightarrow> None
      | Some po \<Rightarrow>
          (case po_requisition po of Some r \<Rightarrow> Some r | None \<Rightarrow> po_quotation_requisition po))"

text \<open>The unique index on the receipt of an asset cost record.\<close>

definition create_asset_cost :: "asset_cost \<Rightarrow> 'a purch_db_scheme \<Rightarrow> 'a purch_db_scheme res" where
  "create_asset_cost c db =
     (if ac_receipt c \<noteq> None \<and> list_ex (\<lambda>x. ac_receipt x = ac_receipt c) (asset_costs db)
      then Inl UniqueViolation
      else Inr (db\<lparr>asset_costs := asset_costs db @ [c]\<rparr>))"

section \<open>Received quantities\<close>

definition receipt_received :: "id \<Rightarrow> receipt \<Rightarrow> qty" where
  "receipt_received oi r = sum_rows (\<lambda>it. ri_order_item it = oi) ri_received (rc_items r)"

text \<open>
  The \<open>groupBy\<close> on \<open>receipt_items\<close>: what is registered for an order line on the receipts of the
  order that satisfy a condition (any status of the receipt counts).
\<close>

definition received_on ::
    "(receipt \<Rightarrow> bool) \<Rightarrow> id \<Rightarrow> id \<Rightarrow> id \<Rightarrow> 'a purch_db_scheme \<Rightarrow> qty" where
  "received_on p tenant orderId oi db =
     sum_rows (\<lambda>r. rc_order r = orderId \<and> rc_tenant r = tenant \<and> p r) (receipt_received oi) (receipts db)"

abbreviation received_total :: "id \<Rightarrow> id \<Rightarrow> id \<Rightarrow> 'a purch_db_scheme \<Rightarrow> qty" where
  "received_total tenant orderId oi db \<equiv> received_on (\<lambda>r. True) tenant orderId oi db"

abbreviation received_elsewhere :: "id \<Rightarrow> id \<Rightarrow> id \<Rightarrow> id \<Rightarrow> 'a purch_db_scheme \<Rightarrow> qty" where
  "received_elsewhere receiptId tenant orderId oi db \<equiv>
     received_on (\<lambda>r. rc_id r \<noteq> receiptId) tenant orderId oi db"

definition find_order_item :: "id \<Rightarrow> id \<Rightarrow> 'a purch_db_scheme \<Rightarrow> order_item option" where
  "find_order_item orderId oi db =
     Option.bind (find_row (\<lambda>o'. po_id o' = orderId) (orders db))
       (\<lambda>o'. find_row (\<lambda>x. oi_id x = oi) (po_items o'))"

text \<open>The ordered quantity of a line, 0 where there is none (the foreign key excludes it).\<close>

definition ordered_qty :: "id \<Rightarrow> id \<Rightarrow> 'a purch_db_scheme \<Rightarrow> qty" where
  "ordered_qty orderId oi db =
     (case find_order_item orderId oi db of None \<Rightarrow> 0 | Some x \<Rightarrow> oi_qty x)"

definition set_receipt :: "id \<Rightarrow> (receipt \<Rightarrow> receipt) \<Rightarrow> 'a purch_db_scheme \<Rightarrow> 'a purch_db_scheme" where
  "set_receipt receiptId f db =
     db\<lparr>receipts := update_rows (\<lambda>r. rc_id r = receiptId) f (receipts db)\<rparr>"

definition set_order_status :: "id \<Rightarrow> po_status \<Rightarrow> 'a purch_db_scheme \<Rightarrow> 'a purch_db_scheme" where
  "set_order_status orderId st db =
     db\<lparr>orders := update_rows (\<lambda>o'. po_id o' = orderId) (\<lambda>o'. o'\<lparr>po_status := st\<rparr>) (orders db)\<rparr>"

lemma set_receipt_frame [simp]:
  "inv_db.truncate (set_receipt rid f db) = inv_db.truncate db"
  "stocks (set_receipt rid f db) = stocks db" "txs (set_receipt rid f db) = txs db"
  "warehouses (set_receipt rid f db) = warehouses db" "items (set_receipt rid f db) = items db"
  "configs (set_receipt rid f db) = configs db" "transfers (set_receipt rid f db) = transfers db"
  "orders (set_receipt rid f db) = orders db" "asset_costs (set_receipt rid f db) = asset_costs db"
  by (simp_all add: set_receipt_def inv_db.truncate_def)

lemma receipts_set_receipt:
  "receipts (set_receipt rid f db) = update_rows (\<lambda>r. rc_id r = rid) f (receipts db)"
  by (simp add: set_receipt_def)

lemma inv_abs_set_receipt [simp]: "inv_abs (set_receipt rid f db) = inv_abs db"
  by (rule inv_abs_cong) simp_all

lemma set_order_status_frame [simp]:
  "stocks (set_order_status oid st db) = stocks db" "txs (set_order_status oid st db) = txs db"
  "warehouses (set_order_status oid st db) = warehouses db"
  "items (set_order_status oid st db) = items db"
  "configs (set_order_status oid st db) = configs db"
  "transfers (set_order_status oid st db) = transfers db"
  "receipts (set_order_status oid st db) = receipts db"
  "asset_costs (set_order_status oid st db) = asset_costs db"
  by (simp_all add: set_order_status_def)

end
