(* ===== verification/Receipts.thy ===== *)
theory Receipts
  imports Purchasing
begin

text \<open>
  \<open>features/purchases/warehouse-receipts.service.ts\<close>: opening a receipt for an order, saving the
  received quantities and confirming them into stock in one or several passes. The service reads
  the receipt before it opens the confirming transaction: \<open>confirm_load\<close> is that read,
  \<open>confirm_tx\<close> the transaction on what was read, \<open>receipt_confirm\<close> one after the other. The
  automatic closing of the requisition that \<open>confirm\<close> starts without waiting for it is not part
  of these definitions.
\<close>

record receipt_line_dto =
  ud_id :: id
  ud_received :: qty
  ud_observations :: "string option"

section \<open>Reading a receipt\<close>

definition receipt_findById :: "id \<Rightarrow> id \<Rightarrow> 'a purch_db_scheme \<Rightarrow> receipt res" where
  "receipt_findById receiptId tenant db =
     (case find_row (\<lambda>r. rc_id r = receiptId \<and> rc_tenant r = tenant) (receipts db) of
        None \<Rightarrow> Inl (NotFound ''Recepcion no encontrada'')
      | Some r \<Rightarrow> Inr r)"

definition attachQuantityPendingOnPurchase ::
    "receipt \<Rightarrow> id \<Rightarrow> 'a purch_db_scheme \<Rightarrow> (id \<times> qty) list" where
  "attachQuantityPendingOnPurchase r tenant db =
     map (\<lambda>it. (ri_id it,
            max 0 (ordered_qty (rc_order r) (ri_order_item it) db
                   - received_elsewhere (rc_id r) tenant (rc_order r) (ri_order_item it) db)))
       (rc_items r)"

section \<open>Opening a receipt\<close>

definition receipt_create ::
    "id \<Rightarrow> id \<Rightarrow> user \<Rightarrow> id \<Rightarrow> (id \<Rightarrow> id) \<Rightarrow> 'a purch_db_scheme \<Rightarrow> 'a purch_db_scheme res" where
  "receipt_create orderId warehouseId u newId newItemId db =
     (let tenant = user_tenant u in
      case find_row (\<lambda>x. po_id x = orderId \<and> po_tenant x = tenant
              \<and> po_status x \<in> set PO_STATUSES_ALLOW_WAREHOUSE_RECEIPT) (orders db) of
        None \<Rightarrow> Inl (BadRequest ''OC no encontrada o no esta en estado valido para recepcion'')
      | Some order \<Rightarrow>
          if po_items order = [] then Inl (BadRequest ''La orden de compra no tiene lineas'')
          else if find_row (\<lambda>r. rc_order r = orderId \<and> rc_tenant r = tenant
                 \<and> rc_status r = RC_PENDING) (receipts db) \<noteq> None
            then Inl (BadRequest ''Esta OC ya tiene una recepcion en borrador abierta'')
          else and_then (assertUserHasContractAccess u (po_contract order)
                 ''No tiene acceso al contrato de esta orden de compra'') (\<lambda>_.
          case tenant_warehouse warehouseId tenant db of
            None \<Rightarrow> Inl (NotFound ''Bodega no encontrada'')
          | Some w \<Rightarrow>
              if wh_contract w \<noteq> po_contract order
              then Inl (BadRequest ''La bodega no pertenece al mismo contrato de la orden'')
              else
                let (correlative, db1) = getNextCorrelative tenant ''WR'' ''WR'' None None db;
                    line = (\<lambda>x. let already = received_total tenant orderId (oi_id x) db;
                                   pending = max 0 (oi_qty x - already)
                               in \<lparr>ri_id = newItemId (oi_id x), ri_order_item = oi_id x,
                                   ri_expected = pending, ri_received = 0, ri_confirmed = 0,
                                   ri_observations = None\<rparr>);
                    r = \<lparr>rc_id = newId, rc_tenant = tenant, rc_order = orderId,
                         rc_warehouse = warehouseId, rc_received_by = user_id u,
                         rc_correlative = correlative, rc_status = RC_PENDING,
                         rc_items = map line (po_items order)\<rparr>;
                    db2 = db1\<lparr>receipts := receipts db1 @ [r]\<rparr>
                in Inr (audit_log
                     \<lparr>lg_tenant = tenant, lg_user = user_id u, lg_entity = ''PURCHASE_ORDER'',
                      lg_entity_id = orderId, lg_action = ''UPDATE'', lg_old = [],
                      lg_new = [(''event'', JStr ''warehouse_receipt_opened''),
                        (''receiptCorrelative'', JStr correlative), (''receiptId'', JStr newId),
                        (''warehouseCode'', JStr (wh_code w))]\<rparr>
                     (audit_log
                       \<lparr>lg_tenant = tenant, lg_user = user_id u, lg_entity = ''WAREHOUSE_RECEIPT'',
                        lg_entity_id = newId, lg_action = ''CREATE'', lg_old = [],
                        lg_new = [(''event'', JStr ''warehouse_receipt_created''),
                          (''correlative'', JStr correlative),
                          (''purchaseOrderId'', JStr orderId)]\<rparr> db2))))"

section \<open>Saving quantities\<close>

definition incoming_qty :: "receipt_line_dto list \<Rightarrow> id \<Rightarrow> qty" where
  "incoming_qty dtos itemId =
     (case find_row (\<lambda>i. ud_id i = itemId) dtos of None \<Rightarrow> 0 | Some i \<Rightarrow> ud_received i)"

text \<open>The first loop of \<open>updateItems\<close>: check each line and add it up per order line.\<close>

definition collect_line ::
    "receipt_line_dto list \<Rightarrow> receipt_item \<Rightarrow> (id \<rightharpoonup> qty) \<Rightarrow> (id \<rightharpoonup> qty) res" where
  "collect_line dtos line m =
     (let incoming = incoming_qty dtos (ri_id line) in
      if incoming < 0 then Inl (BadRequest ''La cantidad recibida no puede ser negativa'')
      else if incoming < ri_confirmed line - 1 / 1000000000
        then Inl (BadRequest ''No se puede reducir la cantidad por debajo de lo ya confirmado'')
      else Inr (m(ri_order_item line \<mapsto>
             (case m (ri_order_item line) of None \<Rightarrow> 0 | Some q \<Rightarrow> q) + incoming)))"

definition check_pending_line ::
    "receipt \<Rightarrow> id \<Rightarrow> (id \<rightharpoonup> qty) \<Rightarrow> 'a purch_db_scheme \<Rightarrow> receipt_item \<Rightarrow> unit \<Rightarrow> unit res" where
  "check_pending_line r tenant m db line _ =
     (let pending = ordered_qty (rc_order r) (ri_order_item line) db
            - received_elsewhere (rc_id r) tenant (rc_order r) (ri_order_item line) db;
          incoming = (case m (ri_order_item line) of None \<Rightarrow> 0 | Some q \<Rightarrow> q)
      in if incoming - pending > 1 / 1000000000
         then Inl (BadRequest ''No se puede recibir mas de la cantidad pendiente'') else Inr ())"

definition save_line :: "receipt_line_dto list \<Rightarrow> receipt_item \<Rightarrow> receipt_item" where
  "save_line dtos it =
     (case find_row (\<lambda>i. ud_id i = ri_id it) dtos of
        None \<Rightarrow> it
      | Some i \<Rightarrow> it\<lparr>ri_received := ud_received i,
          ri_observations := (case ud_observations i of None \<Rightarrow> ri_observations it
             | Some t \<Rightarrow> Some t)\<rparr>)"

definition updateItems ::
    "id \<Rightarrow> receipt_line_dto list \<Rightarrow> user \<Rightarrow> 'a purch_db_scheme \<Rightarrow> 'a purch_db_scheme res" where
  "updateItems receiptId dtos u db =
     and_then (receipt_findById receiptId (user_tenant u) db) (\<lambda>r.
     if rc_status r = RC_COMPLETED
     then Inl (BadRequest ''Esta recepcion ya fue completamente confirmada'')
     else
       let targetIds = map ud_id dtos;
           lines = filter (\<lambda>it. ri_id it \<in> set targetIds) (rc_items r)
       in if length lines \<noteq> length targetIds
          then Inl (BadRequest ''Una o mas lineas no pertenecen al documento'')
          else and_then (for_each (collect_line dtos) lines Map.empty) (\<lambda>m.
               and_then (for_each (check_pending_line r (user_tenant u) m db) lines ()) (\<lambda>_.
               Inr (audit_log
                 \<lparr>lg_tenant = user_tenant u, lg_user = user_id u, lg_entity = ''WAREHOUSE_RECEIPT'',
                  lg_entity_id = receiptId, lg_action = ''UPDATE'', lg_old = [],
                  lg_new = [(''event'', JStr ''receipt_progress_saved''),
                    (''itemsWithQty'', JNum (of_nat (length (filter (\<lambda>i. ud_received i > 0) dtos)))),
                    (''totalItems'', JNum (of_nat (length dtos))),
                    (''totalQuantity'', JNum (sum_list (map ud_received dtos)))]\<rparr>
                 (set_receipt receiptId
                    (\<lambda>x. x\<lparr>rc_items := map (save_line dtos) (rc_items x)\<rparr>) db)))))"

section \<open>Confirming\<close>

definition calculateCPP :: "(qty \<Rightarrow> qty) \<Rightarrow> qty \<Rightarrow> qty \<Rightarrow> qty \<Rightarrow> qty \<Rightarrow> qty" where
  "calculateCPP rnd4 currentQty currentUnitCost receivedQty incomingUnitCost =
     (let totalQty = currentQty + receivedQty in
      if totalQty = 0 then rnd4 incomingUnitCost
      else rnd4 ((currentQty * currentUnitCost + receivedQty * incomingUnitCost) / totalQty))"

text \<open>The new quantity of a line, still to be moved to stock.\<close>

definition line_delta :: "receipt_item \<Rightarrow> qty" where
  "line_delta it = ri_received it - ri_confirmed it"

definition total_delta :: "receipt \<Rightarrow> qty" where
  "total_delta r = sum_list (map (\<lambda>it. max 0 (line_delta it)) (rc_items r))"

text \<open>The stock posting of a line: position, policy, transaction and regularisation flags.\<close>

definition post_receipt_line ::
    "(qty \<Rightarrow> qty) \<Rightarrow> user \<Rightarrow> id \<Rightarrow> id \<Rightarrow> id \<Rightarrow> qty \<Rightarrow> qty \<Rightarrow> 'a inv_db_scheme \<Rightarrow> 'a inv_db_scheme" where
  "post_receipt_line rnd4 u receiptId w i delta incomingCost db =
     (let previousStock = stock_qty w i db;
          newStock = previousStock + delta;
          newUnitCost = calculateCPP rnd4 previousStock (stock_cost w i db) delta incomingCost;
          policy = (if find_stock w i db = None
             then getPolicyThresholdsForNewItemStockRow (user_tenant u) i w db else (0, 0));
          db1 = upsert_stock w i
            (\<lambda>s. s\<lparr>st_qty := st_qty s + delta, st_cost := Some newUnitCost\<rparr>)
            \<lparr>st_wh = w, st_item = i, st_qty = delta, st_cost = Some incomingCost,
             st_min = fst policy, st_max = snd policy, st_location = None\<rparr> db;
          db2 = clearItemStockPolicyIfMatchesWarehouse (user_tenant u) i w db1;
          db3 = add_tx
            \<lparr>tx_type = PURCHASE_RECEIPT, tx_wh = w, tx_item = i, tx_user = user_id u,
             tx_qty = delta, tx_prev = previousStock, tx_new = newStock,
             tx_ref = Some receiptId, tx_ref_type = Some ''PURCHASE_RECEIPT'',
             tx_pending = False\<rparr> db2
      in clearPendingRegularizationFlags w i newStock db3)"

text \<open>Whether a catalogue item is kept in stock, or is direct expense.\<close>

definition tracked_item :: "'a inv_db_scheme \<Rightarrow> id \<Rightarrow> bool" where
  "tracked_item db i =
     (case find_row (\<lambda>x. it_id x = i) (items db) of None \<Rightarrow> False | Some x \<Rightarrow> it_is_inventory x)"

text \<open>
  What \<open>confirm\<close> reads before its transaction: the receipt, its order with the lines, and which
  catalogue items of the lines are kept in stock.
\<close>

type_synonym snapshot = "receipt \<times> purchase_order \<times> (id \<Rightarrow> bool)"

text \<open>How many lines were moved, skipped without a catalogue link, or direct expense.\<close>

record confirm_counts =
  cc_tracked :: nat
  cc_no_link :: nat
  cc_direct :: nat

definition set_confirmed :: "id \<Rightarrow> qty \<Rightarrow> 'a purch_db_scheme \<Rightarrow> 'a purch_db_scheme res" where
  "set_confirmed itemId q db =
     (if \<not> list_ex (\<lambda>r. list_ex (\<lambda>it. ri_id it = itemId) (rc_items r)) (receipts db)
      then Inl RecordNotFound
      else Inr (db\<lparr>receipts := map (\<lambda>r. r\<lparr>rc_items :=
             update_rows (\<lambda>it. ri_id it = itemId) (\<lambda>it. it\<lparr>ri_confirmed := q\<rparr>) (rc_items r)\<rparr>)
             (receipts db)\<rparr>))"

definition confirm_line ::
    "(qty \<Rightarrow> qty) \<Rightarrow> user \<Rightarrow> snapshot \<Rightarrow> (id \<Rightarrow> qty) \<Rightarrow> receipt_item \<Rightarrow>
     'a purch_db_scheme \<times> confirm_counts \<Rightarrow> ('a purch_db_scheme \<times> confirm_counts) res" where
  "confirm_line rnd4 u snap elsewhere it dbc =
     (case (snap, dbc) of ((r, order, tracked), (db, c)) \<Rightarrow>
      case find_row (\<lambda>x. oi_id x = ri_order_item it) (po_items order) of
        None \<Rightarrow> Inl RecordNotFound
      | Some oi \<Rightarrow>
          if ri_received it - (oi_qty oi - elsewhere (ri_order_item it)) > 1 / 1000000000
          then Inl (BadRequest ''No se puede recibir mas de la cantidad pendiente'')
          else and_then (set_confirmed (ri_id it) (ri_received it) db) (\<lambda>db1.
            let delta = line_delta it in
            if delta \<le> 1 / 1000000000 then Inr (db1, c)
            else case oi_inventory_item oi of
              None \<Rightarrow> Inr (db1, c\<lparr>cc_no_link := cc_no_link c + 1\<rparr>)
            | Some i \<Rightarrow>
                if \<not> tracked i
                then Inr (db1, c\<lparr>cc_direct := cc_direct c + 1\<rparr>)
                else Inr (post_receipt_line rnd4 u (rc_id r) (rc_warehouse r) i delta
                            (oi_unit_cost oi) db1, c\<lparr>cc_tracked := cc_tracked c + 1\<rparr>)))"

text \<open>The cost imputed to the equipment of the order: all the received quantity of the receipt.\<close>

definition imputed_cost :: "receipt \<Rightarrow> purchase_order \<Rightarrow> qty" where
  "imputed_cost r order =
     sum_list (map (\<lambda>it. if ri_received it \<le> 0 then 0
        else (case find_row (\<lambda>x. oi_id x = ri_order_item it) (po_items order) of
                None \<Rightarrow> 0 | Some oi \<Rightarrow> oi_unit_cost oi) * ri_received it) (rc_items r))"

definition all_complete :: "receipt \<Rightarrow> purchase_order \<Rightarrow> (id \<Rightarrow> qty) \<Rightarrow> bool" where
  "all_complete r order elsewhere =
     list_all (\<lambda>it. elsewhere (ri_order_item it) + ri_received it
        \<ge> (case find_row (\<lambda>x. oi_id x = ri_order_item it) (po_items order) of
             None \<Rightarrow> 0 | Some oi \<Rightarrow> oi_qty oi) - 1 / 1000000000) (rc_items r)"

definition confirm_load :: "id \<Rightarrow> user \<Rightarrow> 'a purch_db_scheme \<Rightarrow> snapshot res" where
  "confirm_load receiptId u db =
     and_then (receipt_findById receiptId (user_tenant u) db) (\<lambda>r.
     case find_row (\<lambda>x. po_id x = rc_order r) (orders db) of
       None \<Rightarrow> Inl RecordNotFound
     | Some order \<Rightarrow>
         and_then (assertUserHasContractAccess u (po_contract order)
             ''No tiene acceso al contrato de esta recepcion'') (\<lambda>_.
         if rc_status r = RC_COMPLETED
         then Inl (BadRequest ''Esta recepcion ya fue completamente confirmada'')
         else if total_delta r \<le> 0
         then Inl (BadRequest ''No hay cantidades nuevas para confirmar'')
         else Inr (r, order, tracked_item db)))"

definition confirm_tx ::
    "(qty \<Rightarrow> qty) \<Rightarrow> (qty \<Rightarrow> qty) \<Rightarrow> user \<Rightarrow> snapshot \<Rightarrow>
     'a purch_db_scheme \<Rightarrow> ('a purch_db_scheme \<times> confirm_counts) res" where
  "confirm_tx rnd4 rnd2 u snap db =
     (case snap of (r, order, tracked) \<Rightarrow>
      if find_row (\<lambda>w. wh_id w = rc_warehouse r \<and> wh_tenant w = user_tenant u \<and> wh_active w)
           (warehouses db) = None
      then Inl (BadRequest ''La bodega de recepcion no existe o esta inactiva'')
      else
        let elsewhere = (\<lambda>oi. received_elsewhere (rc_id r) (user_tenant u) (rc_order r) oi db) in
        and_then (for_each (confirm_line rnd4 u snap elsewhere) (rc_items r)
             (db, \<lparr>cc_tracked = 0, cc_no_link = 0, cc_direct = 0\<rparr>)) (\<lambda>(db1, counts).
        let complete = all_complete r order elsewhere;
            imputed = imputed_cost r order
        in and_then
          (case po_equipment order of
             None \<Rightarrow> Inr db1
           | Some e \<Rightarrow>
               if e \<noteq> [] \<and> imputed > 0
               then create_asset_cost \<lparr>ac_tenant = user_tenant u, ac_equipment = e,
                      ac_amount = rnd2 imputed, ac_type = COST_PURCHASE,
                      ac_order = Some (rc_order r), ac_receipt = Some (rc_id r), ac_work_order = None\<rparr> db1
               else Inr db1) (\<lambda>db2.
          Inr (set_order_status (rc_order r)
                 (if complete then PO_RECEIVED else PO_PARTIALLY_RECEIVED)
                 (set_receipt (rc_id r)
                    (\<lambda>x. x\<lparr>rc_status := (if complete then RC_COMPLETED else RC_PARTIAL)\<rparr>) db2),
               counts))))"

definition log_confirm ::
    "user \<Rightarrow> snapshot \<Rightarrow> confirm_counts \<Rightarrow> 'a purch_db_scheme \<Rightarrow> 'a purch_db_scheme" where
  "log_confirm u snap c db =
     (case snap of (r, order, tracked) \<Rightarrow>
      let complete = list_ex (\<lambda>x. rc_id x = rc_id r \<and> rc_status x = RC_COMPLETED) (receipts db) in
      audit_log
        \<lparr>lg_tenant = user_tenant u, lg_user = user_id u, lg_entity = ''PURCHASE_ORDER'',
         lg_entity_id = rc_order r, lg_action = ''STATUS_CHANGE'', lg_old = [],
         lg_new = [(''receiptCorrelative'', JStr (rc_correlative r)),
           (''event'', JStr ''warehouse_receipt_confirmed''),
           (''stockTrackedItems'', JNum (of_nat (cc_tracked c))),
           (''stockSkippedItems'', JNum (of_nat (cc_no_link c))),
           (''directExpenseItems'', JNum (of_nat (cc_direct c)))]\<rparr>
        (audit_log
          \<lparr>lg_tenant = user_tenant u, lg_user = user_id u, lg_entity = ''WAREHOUSE_RECEIPT'',
           lg_entity_id = rc_id r, lg_action = ''STATUS_CHANGE'', lg_old = [],
           lg_new = [(''event'', JStr (if complete then ''warehouse_receipt_completed''
               else ''warehouse_receipt_partial'')),
             (''stockTrackedArticles'', JNum (of_nat (cc_tracked c))),
             (''totalQuantityMoved'', JNum (total_delta r)),
             (''skippedItems'', JNum (of_nat (cc_no_link c + cc_direct c))),
             (''directExpenseItems'', JNum (of_nat (cc_direct c)))]\<rparr> db))"

definition receipt_confirm ::
    "(qty \<Rightarrow> qty) \<Rightarrow> (qty \<Rightarrow> qty) \<Rightarrow> id \<Rightarrow> user \<Rightarrow> 'a purch_db_scheme \<Rightarrow>
     ('a purch_db_scheme \<times> confirm_counts) res" where
  "receipt_confirm rnd4 rnd2 receiptId u db =
     and_then (confirm_load receiptId u db) (\<lambda>snap.
     and_then (confirm_tx rnd4 rnd2 u snap db) (\<lambda>(db1, counts).
       Inr (log_confirm u snap counts db1, counts)))"

section \<open>What posting a line does\<close>

lemma post_receipt_line_qty:
  "stock_qty w' i' (post_receipt_line rnd4 u rid w i delta c db) =
     (if (w', i') = (w, i) then stock_qty w i db + delta else stock_qty w' i' db)"
  by (simp add: post_receipt_line_def Let_def stock_qty_upsert_add)

lemma post_receipt_line_frame [simp]:
  "warehouses (post_receipt_line rnd4 u rid w i delta c db) = warehouses db"
  "configs (post_receipt_line rnd4 u rid w i delta c db) = configs db"
  "transfers (post_receipt_line rnd4 u rid w i delta c db) = transfers db"
  "inv_db.more (post_receipt_line rnd4 u rid w i delta c db) = inv_db.more db"
  by (simp_all add: post_receipt_line_def Let_def)

lemma post_receipt_line_purchases [simp]:
  fixes db :: "'a purch_db_scheme"
  shows "receipts (post_receipt_line rnd4 u rid w i delta c db) = receipts db"
    and "orders (post_receipt_line rnd4 u rid w i delta c db) = orders db"
    and "asset_costs (post_receipt_line rnd4 u rid w i delta c db) = asset_costs db"
  by (simp_all add: post_receipt_line_def Let_def upsert_stock_def add_tx_def clear_pending_def
      clearItemStockPolicyIfMatchesWarehouse_def clearPendingRegularizationFlags_def)

lemma post_receipt_line_entries:
  "map entry_of (txs (post_receipt_line rnd4 u rid w i delta c db)) = map entry_of (txs db) @
      [\<lparr>en_cell = (w, i), en_type = PURCHASE_RECEIPT, en_qty = delta,
        en_prev = stock_qty w i db, en_new = stock_qty w i db + delta\<rparr>]"
  by (simp add: post_receipt_line_def Let_def clearPendingRegularizationFlags_def clear_pending_def
      entry_of_def)

lemma post_receipt_line_posts:
  "post_all [\<lparr>en_cell = (w, i), en_type = PURCHASE_RECEIPT, en_qty = delta,
        en_prev = stock_qty w i db, en_new = stock_qty w i db + delta\<rparr>] (inv_abs db)
     = Some (inv_abs (post_receipt_line rnd4 u rid w i delta c db))"
proof -
  have "bal (inv_abs (post_receipt_line rnd4 u rid w i delta c db)) =
      (bal (inv_abs db))((w, i) := stock_qty w i db + delta)"
    by (auto simp: inv_abs_def fun_eq_iff post_receipt_line_qty)
  then have "inv_abs (post_receipt_line rnd4 u rid w i delta c db) =
      \<lparr>bal = (bal (inv_abs db))((w, i) := stock_qty w i db + delta),
       book = book (inv_abs db) @ [\<lparr>en_cell = (w, i), en_type = PURCHASE_RECEIPT, en_qty = delta,
        en_prev = stock_qty w i db, en_new = stock_qty w i db + delta\<rparr>]\<rparr>"
    by (simp add: ledger.equality post_receipt_line_entries)
  then show ?thesis by (simp add: post_def entry_delta_def)
qed

section \<open>What confirming a line does\<close>

text \<open>The catalogue item a line moves to stock, if it moves anything.\<close>

definition moved_item :: "snapshot \<Rightarrow> receipt_item \<Rightarrow> id option" where
  "moved_item snap it =
     (case snap of (r, order, tracked) \<Rightarrow>
      if line_delta it \<le> 1 / 1000000000 then None
      else Option.bind (find_row (\<lambda>x. oi_id x = ri_order_item it) (po_items order)) (\<lambda>oi.
           Option.bind (oi_inventory_item oi) (\<lambda>i. if tracked i then Some i else None)))"

text \<open>What the confirmation of a snapshot adds to the stock of an item.\<close>

definition posted_qty :: "snapshot \<Rightarrow> id \<Rightarrow> qty" where
  "posted_qty snap i =
     sum_list (map (\<lambda>it. if moved_item snap it = Some i then line_delta it else 0) (rc_items (fst snap)))"

lemma set_confirmed_InrD:
  assumes "set_confirmed k q db = Inr db'"
  shows "db' = db\<lparr>receipts := map (\<lambda>r. r\<lparr>rc_items :=
             update_rows (\<lambda>it. ri_id it = k) (\<lambda>it. it\<lparr>ri_confirmed := q\<rparr>) (rc_items r)\<rparr>) (receipts db)\<rparr>"
  using assms by (simp add: set_confirmed_def split: if_splits)

lemma set_confirmed_frame:
  assumes "set_confirmed k q db = Inr db'"
  shows "stocks db' = stocks db" and "txs db' = txs db" and "warehouses db' = warehouses db"
    and "orders db' = orders db" and "asset_costs db' = asset_costs db"
    and "inv_abs db' = inv_abs db" and "stock_qty w i db' = stock_qty w i db"
  using set_confirmed_InrD[OF assms] by (simp_all add: inv_abs_def stock_qty_def find_stock_def)

lemma confirm_line_InrE:
  assumes "confirm_line rnd4 u (r, order, tracked) elsewhere it s = Inr s'"
  obtains oi db1 where
    "find_row (\<lambda>x. oi_id x = ri_order_item it) (po_items order) = Some oi"
    "ri_received it - (oi_qty oi - elsewhere (ri_order_item it)) \<le> 1 / 1000000000"
    "set_confirmed (ri_id it) (ri_received it) (fst s) = Inr db1"
    "fst s' = (case moved_item (r, order, tracked) it of None \<Rightarrow> db1
       | Some i \<Rightarrow> post_receipt_line rnd4 u (rc_id r) (rc_warehouse r) i (line_delta it)
                     (oi_unit_cost oi) db1)"
proof -
  obtain oi where oi: "find_row (\<lambda>x. oi_id x = ri_order_item it) (po_items order) = Some oi"
    "ri_received it - (oi_qty oi - elsewhere (ri_order_item it)) \<le> 1 / 1000000000"
    using assms by (auto simp: confirm_line_def split: option.splits if_splits prod.splits)
  obtain db1 where db1: "set_confirmed (ri_id it) (ri_received it) (fst s) = Inr db1"
    using assms oi by (auto simp: confirm_line_def and_then_eq_Inr split: prod.splits)
  show ?thesis
    by (rule that[OF oi db1])
       (use assms oi db1 in \<open>auto simp: confirm_line_def moved_item_def Let_def
          split: prod.splits option.splits if_splits\<close>)
qed

lemma confirm_line_qty:
  assumes "confirm_line rnd4 u snap elsewhere it s = Inr s'"
  shows "stock_qty w i (fst s') = stock_qty w i (fst s)
     + (if w = rc_warehouse (fst snap) \<and> moved_item snap it = Some i then line_delta it else 0)"
proof -
  obtain r order tracked where snap: "snap = (r, order, tracked)" by (cases snap) auto
  show ?thesis
    using assms unfolding snap
    by (rule confirm_line_InrE)
       (auto simp: post_receipt_line_qty set_confirmed_frame split: option.splits)
qed

lemma confirm_line_posts:
  assumes "confirm_line rnd4 u snap elsewhere it s = Inr s'"
  shows "\<exists>es. post_all es (inv_abs (fst s)) = Some (inv_abs (fst s'))"
proof -
  obtain r order tracked where snap: "snap = (r, order, tracked)" by (cases snap) auto
  obtain oi :: order_item and db1 where d: "set_confirmed (ri_id it) (ri_received it) (fst s) = Inr db1"
    "fst s' = (case moved_item (r, order, tracked) it of None \<Rightarrow> db1
       | Some i \<Rightarrow> post_receipt_line rnd4 u (rc_id r) (rc_warehouse r) i (line_delta it)
                     (oi_unit_cost oi) db1)"
    using assms unfolding snap by (rule confirm_line_InrE) blast
  have "inv_abs db1 = inv_abs (fst s)" by (rule set_confirmed_frame(6)[OF d(1)])
  then show ?thesis
  proof (cases "moved_item (r, order, tracked) it")
    case None
    with d \<open>inv_abs db1 = _\<close> show ?thesis by (intro exI[of _ "[]"]) simp
  next
    case (Some i)
    with d(2) have "fst s' = post_receipt_line rnd4 u (rc_id r) (rc_warehouse r) i (line_delta it)
        (oi_unit_cost oi) db1" by simp
    with \<open>inv_abs db1 = _\<close> show ?thesis using post_receipt_line_posts by metis
  qed
qed

text \<open>
  The purchase side of a confirmed line: every receipt is what it was but for the confirmed
  quantities (\<open>unconfirmed\<close> forgets them), and the lines with the id of the confirmed one are
  confirmed up to what was received.
\<close>

definition unconfirmed :: "receipt \<Rightarrow> receipt" where
  "unconfirmed r = r\<lparr>rc_items := map (\<lambda>it. it\<lparr>ri_confirmed := 0\<rparr>) (rc_items r)\<rparr>"

definition all_lines :: "'a purch_db_scheme \<Rightarrow> receipt_item list" where
  "all_lines db = concat (map rc_items (receipts db))"

lemma unconfirmed_simps [simp]:
  "rc_id (unconfirmed r) = rc_id r" "rc_tenant (unconfirmed r) = rc_tenant r"
  "rc_order (unconfirmed r) = rc_order r" "rc_warehouse (unconfirmed r) = rc_warehouse r"
  "rc_status (unconfirmed r) = rc_status r"
  "map ri_id (rc_items (unconfirmed r)) = map ri_id (rc_items r)"
  by (simp_all add: unconfirmed_def)

lemma unconfirmed_items: "rc_items (unconfirmed r) = map (\<lambda>it. it\<lparr>ri_confirmed := 0\<rparr>) (rc_items r)"
  by (simp add: unconfirmed_def)

lemma set_confirmed_receipts:
  assumes "set_confirmed k q db = Inr db'"
  shows "map unconfirmed (receipts db') = map unconfirmed (receipts db)"
    and "all_lines db' = update_rows (\<lambda>it. ri_id it = k) (\<lambda>it. it\<lparr>ri_confirmed := q\<rparr>) (all_lines db)"
proof -
  have "unconfirmed (r\<lparr>rc_items := update_rows p (\<lambda>it. it\<lparr>ri_confirmed := q\<rparr>) (rc_items r)\<rparr>) = unconfirmed r"
    for p r by (simp add: unconfirmed_def update_rows_def)
  then show "map unconfirmed (receipts db') = map unconfirmed (receipts db)"
    using set_confirmed_InrD[OF assms] by simp
  show "all_lines db' = update_rows (\<lambda>it. ri_id it = k) (\<lambda>it. it\<lparr>ri_confirmed := q\<rparr>) (all_lines db)"
    using set_confirmed_InrD[OF assms] by (simp add: all_lines_def update_rows_def map_concat comp_def)
qed

lemma confirm_line_receipts:
  assumes "confirm_line rnd4 u snap elsewhere it s = Inr s'"
  shows "map unconfirmed (receipts (fst s')) = map unconfirmed (receipts (fst s))
    \<and> all_lines (fst s') = update_rows (\<lambda>x. ri_id x = ri_id it)
         (\<lambda>x. x\<lparr>ri_confirmed := ri_received it\<rparr>) (all_lines (fst s))
    \<and> orders (fst s') = orders (fst s) \<and> asset_costs (fst s') = asset_costs (fst s)"
proof -
  obtain r order tracked where snap: "snap = (r, order, tracked)" by (cases snap) auto
  obtain oi :: order_item and db1 where d: "set_confirmed (ri_id it) (ri_received it) (fst s) = Inr db1"
    "fst s' = (case moved_item (r, order, tracked) it of None \<Rightarrow> db1
       | Some i \<Rightarrow> post_receipt_line rnd4 u (rc_id r) (rc_warehouse r) i (line_delta it)
                     (oi_unit_cost oi) db1)"
    using assms unfolding snap by (rule confirm_line_InrE) blast
  from d(2) have same: "receipts (fst s') = receipts db1" "orders (fst s') = orders db1"
    "asset_costs (fst s') = asset_costs db1"
    by (simp_all split: option.splits)
  then have "all_lines (fst s') = all_lines db1" by (simp add: all_lines_def)
  with same set_confirmed_receipts[OF d(1)] set_confirmed_frame(4,5)[OF d(1)] show ?thesis by simp
qed

lemma confirm_lines_qty:
  assumes "for_each (confirm_line rnd4 u snap elsewhere) its s = Inr s'"
  shows "stock_qty w i (fst s') = stock_qty w i (fst s)
     + (if w = rc_warehouse (fst snap)
        then sum_list (map (\<lambda>it. if moved_item snap it = Some i then line_delta it else 0) its) else 0)"
proof -
  have "True \<and> stock_qty w i (fst s') = stock_qty w i (fst s) + sum_list (map (\<lambda>it.
      if w = rc_warehouse (fst snap) \<and> moved_item snap it = Some i then line_delta it else 0) its)"
    using assms
    by (rule for_each_sum[where m = "\<lambda>s. stock_qty w i (fst s)" and P = "\<lambda>_. True"])
       (simp_all add: confirm_line_qty)
  then show ?thesis by simp
qed

lemma confirm_lines_posts:
  assumes "for_each (confirm_line rnd4 u snap elsewhere) its s = Inr s'"
  shows "\<exists>es. post_all es (inv_abs (fst s)) = Some (inv_abs (fst s'))"
  using assms
proof (rule for_each_related[where R = "\<lambda>s s'. \<exists>es. post_all es (inv_abs (fst s)) = Some (inv_abs (fst s'))"])
  show "\<exists>es. post_all es (inv_abs (fst a)) = Some (inv_abs (fst a))" for a :: "'a purch_db_scheme \<times> confirm_counts"
    by (rule exI[of _ "[]"]) simp
qed (auto intro: confirm_line_posts post_all_trans)

lemma confirm_lines_receipts:
  assumes "for_each (confirm_line rnd4 u snap elsewhere) its s = Inr s'" and "distinct (map ri_id its)"
  shows "map unconfirmed (receipts (fst s')) = map unconfirmed (receipts (fst s))
    \<and> orders (fst s') = orders (fst s) \<and> asset_costs (fst s') = asset_costs (fst s)
    \<and> (\<forall>it \<in> set its. \<forall>x \<in> set (all_lines (fst s')). ri_id x = ri_id it \<longrightarrow> ri_confirmed x = ri_received it)
    \<and> (\<forall>x \<in> set (all_lines (fst s')). ri_id x \<notin> ri_id ` set its \<longrightarrow> x \<in> set (all_lines (fst s)))"
  using assms
proof (induction its arbitrary: s)
  case Nil
  then show ?case by simp
next
  case (Cons it its)
  then obtain t where t: "confirm_line rnd4 u snap elsewhere it s = Inr t"
    "for_each (confirm_line rnd4 u snap elsewhere) its t = Inr s'"
    by (auto simp: and_then_eq_Inr)
  note step = confirm_line_receipts[OF t(1)]
  have "distinct (map ri_id its)" using Cons.prems(2) by simp
  note rest = Cons.IH[OF t(2) this]
  have "ri_confirmed x = ri_received it" if x: "x \<in> set (all_lines (fst s'))" "ri_id x = ri_id it" for x
  proof -
    have "ri_id x \<notin> ri_id ` set its" using Cons.prems(2) x(2) by auto
    with rest x(1) have "x \<in> set (all_lines (fst t))" by blast
    with step x(2) show ?thesis by (auto simp: set_update_rows)
  qed
  moreover have "x \<in> set (all_lines (fst s))"
    if x: "x \<in> set (all_lines (fst s'))" "ri_id x \<notin> ri_id ` set (it # its)" for x
  proof -
    from rest x have "x \<in> set (all_lines (fst t))" by simp
    with step x(2) show ?thesis by (auto simp: set_update_rows split: if_splits)
  qed
  ultimately show ?case using step rest by auto
qed

section \<open>What the confirming transaction does\<close>

definition no_counts :: confirm_counts where
  "no_counts = \<lparr>cc_tracked = 0, cc_no_link = 0, cc_direct = 0\<rparr>"

text \<open>Whether the transaction records a cost on the equipment of the order.\<close>

definition imputes :: "snapshot \<Rightarrow> bool" where
  "imputes snap = (case snap of (r, order, tracked) \<Rightarrow>
     (case po_equipment order of None \<Rightarrow> False | Some e \<Rightarrow> e \<noteq> [] \<and> imputed_cost r order > 0))"

lemma create_asset_cost_InrD:
  "create_asset_cost c db = Inr db' \<Longrightarrow> db' = db\<lparr>asset_costs := asset_costs db @ [c]\<rparr>
     \<and> (ac_receipt c \<noteq> None \<longrightarrow> \<not> list_ex (\<lambda>x. ac_receipt x = ac_receipt c) (asset_costs db))"
  by (auto simp: create_asset_cost_def split: if_splits)

lemma confirm_tx_InrE:
  assumes "confirm_tx rnd4 rnd2 u (r, order, tracked) db = Inr (db', counts)"
  obtains db1 elsewhere where
    "for_each (confirm_line rnd4 u (r, order, tracked) elsewhere) (rc_items r) (db, no_counts)
       = Inr (db1, counts)"
    "inv_abs db' = inv_abs db1" "stocks db' = stocks db1" "txs db' = txs db1" "warehouses db' = warehouses db1"
    "transfers db' = transfers db1"
    "receipts db' = update_rows (\<lambda>x. rc_id x = rc_id r)
       (\<lambda>x. x\<lparr>rc_status := (if all_complete r order elsewhere then RC_COMPLETED else RC_PARTIAL)\<rparr>)
       (receipts db1)"
    "orders db' = update_rows (\<lambda>x. po_id x = rc_order r)
       (\<lambda>x. x\<lparr>po_status := (if all_complete r order elsewhere then PO_RECEIVED else PO_PARTIALLY_RECEIVED)\<rparr>)
       (orders db1)"
    "imputes (r, order, tracked) \<longrightarrow>
       \<not> list_ex (\<lambda>x. ac_receipt x = Some (rc_id r)) (asset_costs db1)
       \<and> list_ex (\<lambda>x. ac_receipt x = Some (rc_id r)) (asset_costs db')"
    "\<And>oi. elsewhere oi = received_elsewhere (rc_id r) (user_tenant u) (rc_order r) oi db"
proof -
  define elsewhere where
    "elsewhere = (\<lambda>oi. received_elsewhere (rc_id r) (user_tenant u) (rc_order r) oi db)"
  define cost where "cost = (\<lambda>db1. case po_equipment order of
             None \<Rightarrow> Inr db1
           | Some e \<Rightarrow>
               if e \<noteq> [] \<and> imputed_cost r order > 0
               then create_asset_cost \<lparr>ac_tenant = user_tenant u, ac_equipment = e,
                      ac_amount = rnd2 (imputed_cost r order), ac_type = COST_PURCHASE,
                      ac_order = Some (rc_order r), ac_receipt = Some (rc_id r), ac_work_order = None\<rparr> (db1 :: 'a purch_db_scheme)
               else Inr db1)"
  have "\<exists>db1 db2. for_each (confirm_line rnd4 u (r, order, tracked) elsewhere) (rc_items r) (db, no_counts)
         = Inr (db1, counts) \<and> cost db1 = Inr db2
      \<and> db' = set_order_status (rc_order r)
                 (if all_complete r order elsewhere then PO_RECEIVED else PO_PARTIALLY_RECEIVED)
                 (set_receipt (rc_id r) (\<lambda>x. x\<lparr>rc_status :=
                    (if all_complete r order elsewhere then RC_COMPLETED else RC_PARTIAL)\<rparr>) db2)"
    using assms
    by (auto simp: confirm_tx_def Let_def and_then_eq_Inr elsewhere_def cost_def no_counts_def
        split: if_splits prod.splits)
  then obtain db1 db2 where loop: "for_each (confirm_line rnd4 u (r, order, tracked) elsewhere)
        (rc_items r) (db, no_counts) = Inr (db1, counts)"
    and cost: "cost db1 = Inr db2"
    and db': "db' = set_order_status (rc_order r)
                 (if all_complete r order elsewhere then PO_RECEIVED else PO_PARTIALLY_RECEIVED)
                 (set_receipt (rc_id r) (\<lambda>x. x\<lparr>rc_status :=
                    (if all_complete r order elsewhere then RC_COMPLETED else RC_PARTIAL)\<rparr>) db2)"
    by blast
  have db2: "stocks db2 = stocks db1 \<and> txs db2 = txs db1 \<and> receipts db2 = receipts db1
      \<and> orders db2 = orders db1 \<and> warehouses db2 = warehouses db1 \<and> transfers db2 = transfers db1"
    using cost by (auto simp: cost_def split: option.splits if_splits dest: create_asset_cost_InrD)
  have fresh: "imputes (r, order, tracked) \<longrightarrow>
      \<not> list_ex (\<lambda>x. ac_receipt x = Some (rc_id r)) (asset_costs db1)
      \<and> list_ex (\<lambda>x. ac_receipt x = Some (rc_id r)) (asset_costs db')"
    using cost by (auto simp: db' cost_def imputes_def split: option.splits if_splits
        dest!: create_asset_cost_InrD)
  show ?thesis
  proof (rule that[OF loop _ _ _ _ _ _ _ fresh])
    show "inv_abs db' = inv_abs db1" by (rule inv_abs_cong) (simp_all add: db' db2)
    show "stocks db' = stocks db1" and "txs db' = txs db1" and "warehouses db' = warehouses db1"
      and "transfers db' = transfers db1"
      by (simp_all add: db' db2)
    show "receipts db' = update_rows (\<lambda>x. rc_id x = rc_id r)
       (\<lambda>x. x\<lparr>rc_status := (if all_complete r order elsewhere then RC_COMPLETED else RC_PARTIAL)\<rparr>)
       (receipts db1)"
      by (simp add: db' db2 set_receipt_def)
    show "orders db' = update_rows (\<lambda>x. po_id x = rc_order r)
       (\<lambda>x. x\<lparr>po_status := (if all_complete r order elsewhere then PO_RECEIVED else PO_PARTIALLY_RECEIVED)\<rparr>)
       (orders db1)"
      by (simp add: db' db2 set_order_status_def)
  qed (simp add: elsewhere_def)
qed

lemma confirm_tx_qty:
  assumes "confirm_tx rnd4 rnd2 u snap db = Inr (db', counts)"
  shows "stock_qty w i db' = stock_qty w i db
    + (if w = rc_warehouse (fst snap) then posted_qty snap i else 0)"
proof -
  obtain r order tracked where snap: "snap = (r, order, tracked)" by (cases snap) auto
  obtain db1 elsewhere where
    loop: "for_each (confirm_line rnd4 u (r, order, tracked) elsewhere) (rc_items r) (db, no_counts)
       = Inr (db1, counts)" and abs: "inv_abs db' = inv_abs db1"
    using assms unfolding snap by (rule confirm_tx_InrE) blast
  have "stock_qty w i db' = stock_qty w i db1" using abs by (metis bal_inv_abs)
  with confirm_lines_qty[OF loop, of w i] show ?thesis by (simp add: snap posted_qty_def)
qed

lemma confirm_tx_posts:
  assumes "confirm_tx rnd4 rnd2 u snap db = Inr (db', counts)"
  shows "\<exists>es. post_all es (inv_abs db) = Some (inv_abs db')"
proof -
  obtain r order tracked where snap: "snap = (r, order, tracked)" by (cases snap) auto
  obtain db1 elsewhere where
    loop: "for_each (confirm_line rnd4 u (r, order, tracked) elsewhere) (rc_items r) (db, no_counts)
       = Inr (db1, counts)" and abs: "inv_abs db' = inv_abs db1"
    using assms unfolding snap by (rule confirm_tx_InrE) blast
  from confirm_lines_posts[OF loop] abs show ?thesis by simp
qed

lemma confirm_lines_orders:
  assumes "for_each (confirm_line rnd4 u snap elsewhere) its s = Inr s'"
  shows "orders (fst s') = orders (fst s) \<and> asset_costs (fst s') = asset_costs (fst s)
    \<and> map unconfirmed (receipts (fst s')) = map unconfirmed (receipts (fst s))"
  using assms
  by (rule for_each_related[where R = "\<lambda>s s'. orders (fst s') = orders (fst s)
      \<and> asset_costs (fst s') = asset_costs (fst s)
      \<and> map unconfirmed (receipts (fst s')) = map unconfirmed (receipts (fst s))"])
     (auto dest: confirm_line_receipts)

lemma confirm_load_InrD:
  assumes "confirm_load rid u db = Inr (r, order, tracked)"
  shows "find_row (\<lambda>x. rc_id x = rid \<and> rc_tenant x = user_tenant u) (receipts db) = Some r
    \<and> rc_id r = rid \<and> r \<in> set (receipts db) \<and> rc_status r \<noteq> RC_COMPLETED \<and> total_delta r > 0
    \<and> find_row (\<lambda>x. po_id x = rc_order r) (orders db) = Some order \<and> tracked = tracked_item db"
proof -
  have f: "find_row (\<lambda>x. rc_id x = rid \<and> rc_tenant x = user_tenant u) (receipts db) = Some r"
    using assms
    by (auto simp: confirm_load_def receipt_findById_def and_then_eq_Inr split: option.splits if_splits)
  moreover have "r \<in> set (receipts db) \<and> rc_id r = rid" using find_row_SomeD[OF f] by blast
  ultimately show ?thesis
    using assms
    by (auto simp: confirm_load_def receipt_findById_def and_then_eq_Inr split: option.splits if_splits)
qed

lemma receipt_confirm_InrE:
  assumes "receipt_confirm rnd4 rnd2 rid u db = Inr (db', counts)"
  obtains snap db1 where "confirm_load rid u db = Inr snap"
    "confirm_tx rnd4 rnd2 u snap db = Inr (db1, counts)"
    "inv_abs db' = inv_abs db1" "receipts db' = receipts db1" "orders db' = orders db1"
    "asset_costs db' = asset_costs db1" "stocks db' = stocks db1" "txs db' = txs db1"
    "warehouses db' = warehouses db1" "transfers db' = transfers db1"
proof -
  have log: "stocks (log_confirm u snap c d) = stocks d \<and> txs (log_confirm u snap c d) = txs d
     \<and> warehouses (log_confirm u snap c d) = warehouses d \<and> transfers (log_confirm u snap c d) = transfers d
     \<and> inv_abs (log_confirm u snap c d) = inv_abs d \<and> receipts (log_confirm u snap c d) = receipts d
     \<and> orders (log_confirm u snap c d) = orders d \<and> asset_costs (log_confirm u snap c d) = asset_costs d"
    for snap c and d :: "'a purch_db_scheme"
    by (auto simp: log_confirm_def audit_log_def split: prod.splits intro!: inv_abs_cong)
  show ?thesis
    using assms that log
    by (auto simp: receipt_confirm_def and_then_eq_Inr split: prod.splits)
qed

lemma receipt_confirm_qty:
  assumes "receipt_confirm rnd4 rnd2 rid u db = Inr (db', c)" and "confirm_load rid u db = Inr snap"
  shows "stock_qty w i db' = stock_qty w i db + (if w = rc_warehouse (fst snap) then posted_qty snap i else 0)"
proof -
  obtain db1 where tx: "confirm_tx rnd4 rnd2 u snap db = Inr (db1, c)" and abs: "inv_abs db' = inv_abs db1"
    using assms(1) by (rule receipt_confirm_InrE) (use assms(2) in auto)
  have "stock_qty w i db' = stock_qty w i db1" using abs by (metis bal_inv_abs)
  then show ?thesis using confirm_tx_qty[OF tx, of w i] by simp
qed

interpretation receipt_posting: stock_mover
  "\<lambda>(rnd4, rnd2, rid, u) db. and_then (receipt_confirm rnd4 rnd2 rid u db) (\<lambda>(db', _). Inr db')" inv_abs
proof unfold_locales
  fix a :: "(qty \<Rightarrow> qty) \<times> (qty \<Rightarrow> qty) \<times> id \<times> user" and db db' :: "'a purch_db_scheme"
  assume *: "(case a of (rnd4, rnd2, rid, u) \<Rightarrow>
      \<lambda>db. and_then (receipt_confirm rnd4 rnd2 rid u db) (\<lambda>(db', _). Inr db')) db = Inr db'"
  obtain rnd4 rnd2 rid u where a: "a = (rnd4, rnd2, rid, u)" by (cases a) auto
  from * obtain counts where "receipt_confirm rnd4 rnd2 rid u db = Inr (db', counts)"
    by (auto simp: a and_then_eq_Inr split: prod.splits)
  then show "\<exists>es. post_all es (inv_abs db) = Some (inv_abs db')"
    by (rule receipt_confirm_InrE) (metis confirm_tx_posts)
qed

end
