(* ===== verification/Receipt_Properties.thy ===== *)
theory Receipt_Properties
  imports Receipts
begin

text \<open>
  The properties of the receipts of purchase orders: what a confirmation moves, that it is not
  repeated, the bound on what can be received for an order line, and two behaviours of the
  confirmation that its code does not exclude.
\<close>

section \<open>What can be received\<close>

text \<open>
  The keys of the purchase tables: receipts and orders have distinct ids, an order does not list a
  line twice, and a receipt has one line per order line, as \<open>receipt_create\<close> makes them.
\<close>

definition receipts_wf :: "'a purch_db_scheme \<Rightarrow> bool" where
  "receipts_wf db \<longleftrightarrow>
     distinct (map rc_id (receipts db)) \<and> distinct (map po_id (orders db))
     \<and> (\<forall>x \<in> set (orders db). distinct (map oi_id (po_items x)))
     \<and> (\<forall>r \<in> set (receipts db). distinct (map ri_order_item (rc_items r)))"

text \<open>No order line has received more than was ordered, up to the tolerance of the code.\<close>

definition within_orders :: "'a purch_db_scheme \<Rightarrow> bool" where
  "within_orders db \<longleftrightarrow> (\<forall>x \<in> set (orders db). \<forall>oi \<in> set (po_items x).
     received_total (po_tenant x) (po_id x) (oi_id oi) db \<le> oi_qty oi + 1 / 1000000000)"

lemma received_on_update:
  assumes "\<And>x. rc_id x = rid \<Longrightarrow> rc_order (f x) = rc_order x \<and> rc_tenant (f x) = rc_tenant x
      \<and> rc_id (f x) = rc_id x"
    and "receipts db' = update_rows (\<lambda>x. rc_id x = rid) f (receipts db)"
  shows "received_elsewhere rid t od oi db' = received_elsewhere rid t od oi db"
  unfolding received_on_def assms(2)
  by (rule sum_rows_update_outside) (simp add: assms(1))

lemma received_split:
  assumes "distinct (map rc_id rs)" and "r \<in> set rs"
  shows "sum_rows p g rs = (if p r then g r else 0) + sum_rows (\<lambda>x. p x \<and> rc_id x \<noteq> rc_id r) g rs"
  using assms
proof (induction rs)
  case Nil
  then show ?case by simp
next
  case (Cons a rs)
  show ?case
  proof (cases "a = r")
    case True
    with Cons.prems have "\<forall>x \<in> set rs. rc_id x \<noteq> rc_id r" by (force simp: image_iff)
    then have "sum_rows (\<lambda>x. p x \<and> rc_id x \<noteq> rc_id r) g rs = sum_rows p g rs"
      by (intro sum_rows_cong) auto
    with True show ?thesis by simp
  next
    case False
    with Cons.prems have "r \<in> set rs" and "rc_id a \<noteq> rc_id r" by auto
    with Cons show ?thesis by simp
  qed
qed

lemma received_total_split:
  assumes "distinct (map rc_id (receipts db))" and "r \<in> set (receipts db)"
    and "rc_tenant r = t" and "rc_order r = od"
  shows "received_total t od oi db = receipt_received oi r + received_elsewhere (rc_id r) t od oi db"
  using received_split[OF assms(1,2), of "\<lambda>r. rc_order r = od \<and> rc_tenant r = t" "receipt_received oi"]
    assms(3,4) by (simp add: received_on_def conj_assoc)

lemma received_total_other:
  assumes "\<And>x. rc_id x = rid \<Longrightarrow> x \<in> set (receipts db) \<Longrightarrow> \<not> (rc_order x = od \<and> rc_tenant x = t)"
  shows "received_total t od oi db = received_elsewhere rid t od oi db"
  unfolding received_on_def by (rule sum_rows_cong) (use assms in auto)

lemma sum_one_line:
  assumes "distinct (map ri_order_item its)" and "x \<in> set its"
    and "\<And>y. ri_order_item (g y) = ri_order_item y"
  shows "sum_rows (\<lambda>it. ri_order_item it = ri_order_item x) ri_received (map g its) = ri_received (g x)"
  using assms(1,2)
proof (induction its)
  case Nil
  then show ?case by simp
next
  case (Cons a its)
  show ?case
  proof (cases "a = x")
    case True
    with Cons.prems have "\<forall>y \<in> set its. ri_order_item y \<noteq> ri_order_item x" by (force simp: image_iff)
    then have "sum_rows (\<lambda>it. ri_order_item it = ri_order_item x) ri_received (map g its) = 0"
      unfolding sum_rows_map by (intro sum_rows_none) (simp add: assms(3))
    with True show ?thesis by (simp add: assms(3))
  next
    case False
    with Cons.prems have "x \<in> set its" and "ri_order_item a \<noteq> ri_order_item x" by auto
    with Cons show ?thesis by (simp add: assms(3))
  qed
qed

lemma save_line_order_item [simp]: "ri_order_item (save_line dtos it) = ri_order_item it"
  by (simp add: save_line_def split: option.splits)

lemma collect_lines:
  assumes "for_each (collect_line dtos) lines m = Inr m'" and "distinct (map ri_order_item lines)"
  shows "(\<forall>x \<in> set lines. m' (ri_order_item x) =
            Some ((case m (ri_order_item x) of None \<Rightarrow> 0 | Some q \<Rightarrow> q) + incoming_qty dtos (ri_id x)))
       \<and> (\<forall>oi. oi \<notin> ri_order_item ` set lines \<longrightarrow> m' oi = m oi)"
  using assms
proof (induction lines arbitrary: m)
  case Nil
  then show ?case by simp
next
  case (Cons a lines)
  then obtain m1 where a: "collect_line dtos a m = Inr m1" "for_each (collect_line dtos) lines m1 = Inr m'"
    by (auto simp: and_then_eq_Inr)
  have m1: "m1 = m(ri_order_item a \<mapsto> (case m (ri_order_item a) of None \<Rightarrow> 0 | Some q \<Rightarrow> q)
      + incoming_qty dtos (ri_id a))"
    using a(1) by (auto simp: collect_line_def Let_def split: if_splits)
  have d: "distinct (map ri_order_item lines)" "ri_order_item a \<notin> ri_order_item ` set lines"
    using Cons.prems(2) by auto
  note rest = Cons.IH[OF a(2) d(1)]
  have "m1 (ri_order_item x) = m (ri_order_item x)" if "x \<in> set lines" for x
    using d(2) that by (auto simp: m1 rev_image_eqI)
  with rest d(2) show ?case by (auto simp: m1)
qed

lemma updateItems_InrE:
  assumes "updateItems rid dtos u db = Inr db'"
  obtains r m where
    "find_row (\<lambda>x. rc_id x = rid \<and> rc_tenant x = user_tenant u) (receipts db) = Some r"
    "rc_status r \<noteq> RC_COMPLETED"
    "for_each (collect_line dtos) (filter (\<lambda>it. ri_id it \<in> set (map ud_id dtos)) (rc_items r)) Map.empty = Inr m"
    "for_each (check_pending_line r (user_tenant u) m db)
       (filter (\<lambda>it. ri_id it \<in> set (map ud_id dtos)) (rc_items r)) () = Inr ()"
    "receipts db' = update_rows (\<lambda>x. rc_id x = rid) (\<lambda>x. x\<lparr>rc_items := map (save_line dtos) (rc_items x)\<rparr>)
       (receipts db)"
    "orders db' = orders db" "stocks db' = stocks db" "txs db' = txs db" "asset_costs db' = asset_costs db"
proof -
  have "\<exists>r. find_row (\<lambda>x. rc_id x = rid \<and> rc_tenant x = user_tenant u) (receipts db) = Some r"
    using assms by (auto simp: updateItems_def receipt_findById_def and_then_eq_Inr split: option.splits)
  then obtain r where r: "find_row (\<lambda>x. rc_id x = rid \<and> rc_tenant x = user_tenant u) (receipts db) = Some r" ..
  show ?thesis
    using assms r that[OF r]
    by (auto simp: updateItems_def receipt_findById_def and_then_eq_Inr Let_def audit_log_def
        set_receipt_def split: if_splits)
qed

text \<open>After an update, a line of the receipt is what it was or at most what its order leaves open.\<close>

lemma updateItems_received:
  assumes "updateItems rid dtos u db = Inr db'" and "receipts_wf db"
  obtains r where "r \<in> set (receipts db)" "rc_id r = rid" "rc_tenant r = user_tenant u"
    "r\<lparr>rc_items := map (save_line dtos) (rc_items r)\<rparr> \<in> set (receipts db')"
    "\<And>oi. receipt_received oi (r\<lparr>rc_items := map (save_line dtos) (rc_items r)\<rparr>) = receipt_received oi r
      \<or> receipt_received oi (r\<lparr>rc_items := map (save_line dtos) (rc_items r)\<rparr>)
          \<le> ordered_qty (rc_order r) oi db - received_elsewhere rid (user_tenant u) (rc_order r) oi db
             + 1 / 1000000000"
proof -
  obtain r :: receipt and m where
    r: "find_row (\<lambda>x. rc_id x = rid \<and> rc_tenant x = user_tenant u) (receipts db) = Some r"
    and coll: "for_each (collect_line dtos) (filter (\<lambda>it. ri_id it \<in> set (map ud_id dtos)) (rc_items r))
        Map.empty = Inr m"
    and chk: "for_each (check_pending_line r (user_tenant u) m db)
       (filter (\<lambda>it. ri_id it \<in> set (map ud_id dtos)) (rc_items r)) () = Inr ()"
    and db': "receipts db' = update_rows (\<lambda>x. rc_id x = rid)
       (\<lambda>x. x\<lparr>rc_items := map (save_line dtos) (rc_items x)\<rparr>) (receipts db)"
    using assms(1) by (rule updateItems_InrE) blast
  have mem: "r \<in> set (receipts db)" "rc_id r = rid" "rc_tenant r = user_tenant u"
    using find_row_SomeD[OF r] by auto
  then have dist: "distinct (map ri_order_item (rc_items r))" using assms(2) by (simp add: receipts_wf_def)
  let ?r' = "r\<lparr>rc_items := map (save_line dtos) (rc_items r)\<rparr>"
  have "?r' \<in> set (receipts db')" using mem unfolding db' by (auto simp: set_update_rows image_iff)
  moreover have "receipt_received oi ?r' = receipt_received oi r
      \<or> receipt_received oi ?r' \<le> ordered_qty (rc_order r) oi db
           - received_elsewhere rid (user_tenant u) (rc_order r) oi db + 1 / 1000000000" for oi
  proof (cases "\<exists>x \<in> set (rc_items r). ri_order_item x = oi")
    case False
    then show ?thesis
      by (auto simp: receipt_received_def sum_rows_map sum_rows_none)
  next
    case True
    then obtain x where x: "x \<in> set (rc_items r)" "ri_order_item x = oi" by blast
    have new: "receipt_received oi ?r' = ri_received (save_line dtos x)"
      using sum_one_line[OF dist x(1), of "save_line dtos"] x(2) by (simp add: receipt_received_def)
    have old: "receipt_received oi r = ri_received x"
      using sum_one_line[OF dist x(1), of "\<lambda>y. y"] x(2) by (simp add: receipt_received_def)
    show ?thesis
    proof (cases "find_row (\<lambda>i. ud_id i = ri_id x) dtos")
      case None
      then have "save_line dtos x = x" by (simp add: save_line_def)
      with new old show ?thesis by simp
    next
      case (Some i)
      let ?lines = "filter (\<lambda>it. ri_id it \<in> set (map ud_id dtos)) (rc_items r)"
      have xl: "x \<in> set ?lines" using x(1) find_row_SomeD[OF Some] by force
      have "distinct (map ri_order_item ?lines)" using dist by (rule distinct_map_filter)
      from collect_lines[OF coll this] xl have m: "m oi = Some (incoming_qty dtos (ri_id x))"
        using x(2) by auto
      have q: "incoming_qty dtos (ri_id x) = ud_received i" using Some by (simp add: incoming_qty_def)
      from chk xl have "check_pending_line r (user_tenant u) m db x () = Inr ()"
        by (simp add: for_each_checks)
      then have "ud_received i - (ordered_qty (rc_order r) oi db
          - received_elsewhere rid (user_tenant u) (rc_order r) oi db) \<le> 1 / 1000000000"
        using x(2) m q mem(2) by (auto simp: check_pending_line_def Let_def split: if_splits)
      moreover have "receipt_received oi ?r' = ud_received i"
        using new Some by (simp add: save_line_def)
      ultimately show ?thesis by linarith
    qed
  qed
  ultimately show ?thesis using that mem by blast
qed

lemma ordered_qty_of_line:
  assumes "receipts_wf db" and "x \<in> set (orders db)" and "oi \<in> set (po_items x)"
  shows "ordered_qty (po_id x) (oi_id oi) db = oi_qty oi"
proof -
  have "find_row (\<lambda>o'. po_id o' = po_id x) (orders db) = Some x"
    using assms(1,2) by (intro find_row_unique) (auto simp: receipts_wf_def)
  moreover have "find_row (\<lambda>y. oi_id y = oi_id oi) (po_items x) = Some oi"
    using assms by (intro find_row_unique) (auto simp: receipts_wf_def)
  ultimately show ?thesis by (simp add: ordered_qty_def find_order_item_def)
qed

lemma updateItems_keeps:
  assumes "updateItems rid dtos u db = Inr db'" and "receipts_wf db"
  shows "receipts_wf db'" and "within_orders db \<Longrightarrow> within_orders db'"
proof -
  let ?f = "\<lambda>x. x\<lparr>rc_items := map (save_line dtos) (rc_items x)\<rparr>"
  have db': "receipts db' = update_rows (\<lambda>x. rc_id x = rid) ?f (receipts db)" "orders db' = orders db"
    using assms(1) by (rule updateItems_InrE, blast)+
  have ids: "map rc_id (receipts db') = map rc_id (receipts db)"
    unfolding db' by (simp add: update_rows_def)
  have "ri_order_item \<circ> save_line dtos = ri_order_item" by (simp add: fun_eq_iff)
  then have "distinct (map ri_order_item (rc_items x))" if "x \<in> set (receipts db')" for x
    using that assms(2) by (auto simp: db'(1) set_update_rows receipts_wf_def split: if_splits)
  with assms(2) ids show wf: "receipts_wf db'" by (simp add: receipts_wf_def db')
  assume within: "within_orders db"
  obtain r where r: "r \<in> set (receipts db)" "rc_id r = rid" "rc_tenant r = user_tenant u"
    "?f r \<in> set (receipts db')"
    and bound: "\<And>oi. receipt_received oi (?f r) = receipt_received oi r
      \<or> receipt_received oi (?f r) \<le> ordered_qty (rc_order r) oi db
          - received_elsewhere rid (user_tenant u) (rc_order r) oi db + 1 / 1000000000"
    using assms by (rule updateItems_received) blast
  have else_same: "received_elsewhere rid t od oi db' = received_elsewhere rid t od oi db" for t od oi
    by (rule received_on_update[OF _ db'(1)]) simp
  have d: "distinct (map rc_id (receipts db))" "distinct (map rc_id (receipts db'))"
    using assms(2) ids by (auto simp: receipts_wf_def)
  have "received_total (po_tenant x) (po_id x) (oi_id oi) db' \<le> oi_qty oi + 1 / 1000000000"
    if x: "x \<in> set (orders db)" and oi: "oi \<in> set (po_items x)" for x oi
  proof (cases "rc_order r = po_id x \<and> rc_tenant r = po_tenant x")
    case True
    have "received_total (po_tenant x) (po_id x) (oi_id oi) db'
        = receipt_received (oi_id oi) (?f r) + received_elsewhere rid (po_tenant x) (po_id x) (oi_id oi) db'"
      using received_total_split[OF d(2) r(4)] True r(2) by simp
    moreover have "received_total (po_tenant x) (po_id x) (oi_id oi) db
        = receipt_received (oi_id oi) r + received_elsewhere rid (po_tenant x) (po_id x) (oi_id oi) db"
      using received_total_split[OF d(1) r(1)] True r(2) by simp
    moreover have "received_total (po_tenant x) (po_id x) (oi_id oi) db \<le> oi_qty oi + 1 / 1000000000"
      using within x oi by (simp add: within_orders_def)
    moreover have "ordered_qty (po_id x) (oi_id oi) db = oi_qty oi"
      by (rule ordered_qty_of_line[OF assms(2) x oi])
    ultimately show ?thesis
      using bound[of "oi_id oi"] True r(3) else_same[of "po_tenant x" "po_id x" "oi_id oi"] by auto
  next
    case False
    have only: "y = r" if "rc_id y = rid" "y \<in> set (receipts db)" for y
      using d(1) r(1,2) that by (metis distinct_map inj_onD)
    have "received_total (po_tenant x) (po_id x) (oi_id oi) db
        = received_elsewhere rid (po_tenant x) (po_id x) (oi_id oi) db"
      by (rule received_total_other) (use only False in auto)
    moreover have "received_total (po_tenant x) (po_id x) (oi_id oi) db'
        = received_elsewhere rid (po_tenant x) (po_id x) (oi_id oi) db'"
    proof (rule received_total_other)
      fix y assume y: "rc_id y = rid" "y \<in> set (receipts db')"
      obtain z where z: "z \<in> set (receipts db)" "y = z \<or> y = ?f z"
        using y(2) by (auto simp: db'(1) set_update_rows)
      then have "rc_id z = rid" using y(1) by auto
      with only z(1) have "z = r" by blast
      with z(2) False show "\<not> (rc_order y = po_id x \<and> rc_tenant y = po_tenant x)" by auto
    qed
    moreover have "received_total (po_tenant x) (po_id x) (oi_id oi) db \<le> oi_qty oi + 1 / 1000000000"
      using within x oi by (simp add: within_orders_def)
    ultimately show ?thesis using else_same[of "po_tenant x" "po_id x" "oi_id oi"] by linarith
  qed
  then show "within_orders db'" by (simp add: within_orders_def db')
qed

text \<open>Opening a receipt registers nothing as received.\<close>

lemma receipt_create_InrE:
  assumes "receipt_create oid wid u newId newItem db = Inr db'"
  obtains x r where "x \<in> set (orders db)" "po_id x = oid" "po_tenant x = user_tenant u"
    "po_status x \<in> set PO_STATUSES_ALLOW_WAREHOUSE_RECEIPT" "po_items x \<noteq> []"
    "receipts db' = receipts db @ [r]" "orders db' = orders db" "stocks db' = stocks db"
    "txs db' = txs db" "rc_id r = newId" "rc_order r = oid" "rc_tenant r = user_tenant u"
    "rc_status r = RC_PENDING" "map ri_order_item (rc_items r) = map oi_id (po_items x)"
    "\<forall>it \<in> set (rc_items r). ri_received it = 0 \<and> ri_confirmed it = 0"
    "map ri_id (rc_items r) = map (\<lambda>y. newItem (oi_id y)) (po_items x)"
proof -
  have frame: "receipts (snd (getNextCorrelative t d p a b db)) = receipts db
     \<and> orders (snd (getNextCorrelative t d p a b db)) = orders db
     \<and> stocks (snd (getNextCorrelative t d p a b db)) = stocks db
     \<and> txs (snd (getNextCorrelative t d p a b db)) = txs db" for t d p a b
    by (simp add: getNextCorrelative_def Let_def)
  obtain x where x: "find_row (\<lambda>x. po_id x = oid \<and> po_tenant x = user_tenant u
      \<and> po_status x \<in> set PO_STATUSES_ALLOW_WAREHOUSE_RECEIPT) (orders db) = Some x"
    using assms by (auto simp: receipt_create_def Let_def split: option.splits)
  then have mem: "x \<in> set (orders db) \<and> po_id x = oid \<and> po_tenant x = user_tenant u
      \<and> po_status x \<in> set PO_STATUSES_ALLOW_WAREHOUSE_RECEIPT" by (blast dest: find_row_SomeD)
  show ?thesis
    using assms x mem frame[of "user_tenant u" "''WR''" "''WR''" None None]
    by (auto simp: receipt_create_def Let_def and_then_eq_Inr audit_log_def comp_def
        split: if_splits option.splits prod.splits intro!: that[of x])
qed

lemma receipt_create_keeps:
  assumes "receipt_create oid wid u newId newItem db = Inr db'" and "receipts_wf db"
    and "newId \<notin> rc_id ` set (receipts db)"
  shows "receipts_wf db'" and "within_orders db \<Longrightarrow> within_orders db'"
proof -
  obtain x and r :: receipt where x: "x \<in> set (orders db)" and db': "receipts db' = receipts db @ [r]" "orders db' = orders db"
    and r: "rc_id r = newId" "map ri_order_item (rc_items r) = map oi_id (po_items x)"
      "\<forall>it \<in> set (rc_items r). ri_received it = 0 \<and> ri_confirmed it = 0"
    using assms(1) by (rule receipt_create_InrE) blast
  show "receipts_wf db'" using assms(2,3) x r by (auto simp: receipts_wf_def db')
  have "receipt_received oi r = 0" for oi
    using r(3) by (simp add: receipt_received_def sum_rows_zero)
  then have "received_total t od oi db' = received_total t od oi db" for t od oi
    by (simp add: received_on_def db')
  then show "within_orders db \<Longrightarrow> within_orders db'" by (simp add: within_orders_def db')
qed

text \<open>Confirming changes no received quantity.\<close>

lemma received_on_unconfirmed:
  fixes db db' :: "'a purch_db_scheme"
  assumes "map unconfirmed (receipts db') = map unconfirmed (receipts db)"
  shows "received_total t od oi db' = received_total t od oi db"
proof -
  have u: "receipt_received oi (unconfirmed r) = receipt_received oi r" for r
    by (simp add: receipt_received_def unconfirmed_def sum_rows_map)
  have "received_total t od oi d = sum_rows (\<lambda>r. rc_order r = od \<and> rc_tenant r = t) (receipt_received oi)
      (map unconfirmed (receipts d))" for d :: "'a purch_db_scheme"
    by (simp add: received_on_def sum_rows_map u)
  with assms show ?thesis by simp
qed

lemma received_on_status:
  assumes "receipts db' = update_rows p (\<lambda>x. x\<lparr>rc_status := st\<rparr>) rs" and "receipts db1 = rs"
  shows "received_total t od oi db' = received_total t od oi db1"
proof -
  have "receipt_received oi (x\<lparr>rc_status := st\<rparr>) = receipt_received oi x" for x
    by (simp add: receipt_received_def)
  then show ?thesis unfolding received_on_def assms by (intro sum_rows_update_rows) auto
qed

lemma receipts_wf_unconfirmed:
  fixes db db' :: "'a purch_db_scheme"
  assumes "map unconfirmed (receipts db') = map unconfirmed (receipts db)" and "orders db' = orders db"
  shows "receipts_wf db' \<longleftrightarrow> receipts_wf db"
proof -
  have "map ri_order_item (rc_items (unconfirmed r)) = map ri_order_item (rc_items r)" for r
    by (simp add: unconfirmed_def)
  then have "receipts_wf d \<longleftrightarrow> distinct (map rc_id (map unconfirmed (receipts d)))
      \<and> distinct (map po_id (orders d)) \<and> (\<forall>x \<in> set (orders d). distinct (map oi_id (po_items x)))
      \<and> (\<forall>r \<in> set (map unconfirmed (receipts d)). distinct (map ri_order_item (rc_items r)))"
    for d :: "'a purch_db_scheme"
    by (simp add: receipts_wf_def comp_def)
  from this[of db] this[of db'] assms show ?thesis by (simp del: list.map_comp)
qed

text \<open>The lines of the receipts are numbered apart, as their primary key makes them.\<close>

definition lines_distinct :: "'a purch_db_scheme \<Rightarrow> bool" where
  "lines_distinct db \<longleftrightarrow> distinct (map ri_id (all_lines db))"

lemma lines_distinct_receipt:
  assumes "lines_distinct db" and "r \<in> set (receipts db)"
  shows "distinct (map ri_id (rc_items r))"
proof -
  from assms(2) obtain xs ys where "receipts db = xs @ r # ys" by (meson split_list)
  with assms(1) show ?thesis by (auto simp: lines_distinct_def all_lines_def)
qed

text \<open>What a confirmation leaves: the same receipts but for confirmed quantities and status.\<close>

lemma receipt_confirm_receipts:
  fixes db db' :: "'a purch_db_scheme"
  assumes "receipt_confirm rnd4 rnd2 rid u db = Inr (db', c)" and "lines_distinct db"
  obtains snap st pst and db1 :: "'a purch_db_scheme" where "confirm_load rid u db = Inr snap"
    "map unconfirmed (receipts db1) = map unconfirmed (receipts db)"
    "\<forall>it \<in> set (rc_items (fst snap)). \<forall>x \<in> set (all_lines db1). ri_id x = ri_id it \<longrightarrow> ri_confirmed x = ri_received it"
    "receipts db' = update_rows (\<lambda>x. rc_id x = rid) (\<lambda>x. x\<lparr>rc_status := st\<rparr>) (receipts db1)"
    "orders db' = update_rows (\<lambda>x. po_id x = rc_order (fst snap)) (\<lambda>x. x\<lparr>po_status := pst\<rparr>) (orders db)"
proof -
  obtain snap and db2 :: "'a purch_db_scheme" where l: "confirm_load rid u db = Inr snap"
    and tx: "confirm_tx rnd4 rnd2 u snap db = Inr (db2, c)" and same: "receipts db' = receipts db2" "orders db' = orders db2"
    using assms(1) by (rule receipt_confirm_InrE) blast
  obtain r order tracked where snap: "snap = (r, order, tracked)" by (cases snap) auto
  note load = confirm_load_InrD[OF l[unfolded snap]]
  obtain db1 elsewhere where
    loop: "for_each (confirm_line rnd4 u (r, order, tracked) elsewhere) (rc_items r) (db, no_counts) = Inr (db1, c)"
    and rc: "receipts db2 = update_rows (\<lambda>x. rc_id x = rc_id r)
       (\<lambda>x. x\<lparr>rc_status := (if all_complete r order elsewhere then RC_COMPLETED else RC_PARTIAL)\<rparr>)
       (receipts db1)"
    and ord: "orders db2 = update_rows (\<lambda>x. po_id x = rc_order r)
       (\<lambda>x. x\<lparr>po_status := (if all_complete r order elsewhere then PO_RECEIVED else PO_PARTIALLY_RECEIVED)\<rparr>)
       (orders db1)"
    using tx unfolding snap by (rule confirm_tx_InrE) blast
  have "distinct (map ri_id (rc_items r))" using lines_distinct_receipt[OF assms(2)] load by blast
  note lines = confirm_lines_receipts[OF loop this]
  show ?thesis
  proof (rule that[OF l])
    show "map unconfirmed (receipts db1) = map unconfirmed (receipts db)" using lines by simp
    show "\<forall>it \<in> set (rc_items (fst snap)). \<forall>x \<in> set (all_lines db1). ri_id x = ri_id it \<longrightarrow> ri_confirmed x = ri_received it"
      using lines by (simp add: snap)
    show "receipts db' = update_rows (\<lambda>x. rc_id x = rid)
       (\<lambda>x. x\<lparr>rc_status := (if all_complete r order elsewhere then RC_COMPLETED else RC_PARTIAL)\<rparr>)
       (receipts db1)" using rc same load by simp
    show "orders db' = update_rows (\<lambda>x. po_id x = rc_order (fst snap))
       (\<lambda>x. x\<lparr>po_status := (if all_complete r order elsewhere then PO_RECEIVED else PO_PARTIALLY_RECEIVED)\<rparr>)
       (orders db)" using ord same lines by (simp add: snap)
  qed
qed

lemma receipt_confirm_keeps:
  fixes db db' :: "'a purch_db_scheme"
  assumes "receipt_confirm rnd4 rnd2 rid u db = Inr (db', c)" and "receipts_wf db" and "lines_distinct db"
  shows "receipts_wf db'" and "lines_distinct db'" and "within_orders db \<Longrightarrow> within_orders db'"
proof -
  obtain snap :: snapshot and st pst and db1 :: "'a purch_db_scheme" where
    un: "map unconfirmed (receipts db1) = map unconfirmed (receipts db)"
    and db': "receipts db' = update_rows (\<lambda>x. rc_id x = rid) (\<lambda>x. x\<lparr>rc_status := st\<rparr>) (receipts db1)"
    and od: "orders db' = update_rows (\<lambda>x. po_id x = rc_order (fst snap)) (\<lambda>x. x\<lparr>po_status := pst\<rparr>) (orders db)"
    using assms(1,3) by (rule receipt_confirm_receipts) blast
  have total: "received_total t o' oi db' = received_total t o' oi db" for t o' oi
    using received_on_status[OF db' refl] received_on_unconfirmed[OF un] by metis
  have keys: "map rc_id (receipts db') = map rc_id (receipts db)"
    "map (map ri_order_item \<circ> rc_items) (receipts db') = map (map ri_order_item \<circ> rc_items) (receipts db)"
    "map (map ri_id \<circ> rc_items) (receipts db') = map (map ri_id \<circ> rc_items) (receipts db)"
  proof -
    have "map f (receipts db') = map f (receipts db)" if "\<And>x. f (unconfirmed x) = f x"
      and "\<And>x. f (x\<lparr>rc_status := st\<rparr>) = f x" for f :: "receipt \<Rightarrow> 'b"
    proof -
      have "map f (receipts db') = map f (receipts db1)"
        unfolding db' by (simp add: update_rows_def that(2))
      also have "\<dots> = map f (map unconfirmed (receipts db1))" by (simp add: that(1))
      also have "\<dots> = map f (receipts db)" unfolding un by (simp add: that(1))
      finally show ?thesis .
    qed
    note k = this
    show "map rc_id (receipts db') = map rc_id (receipts db)" by (rule k) simp_all
    show "map (map ri_order_item \<circ> rc_items) (receipts db') = map (map ri_order_item \<circ> rc_items) (receipts db)"
      by (rule k) (simp_all add: unconfirmed_def)
    show "map (map ri_id \<circ> rc_items) (receipts db') = map (map ri_id \<circ> rc_items) (receipts db)"
      by (rule k) (simp_all add: unconfirmed_def)
  qed
  have "(\<forall>r \<in> set (receipts d). distinct (map ri_order_item (rc_items r)))
      \<longleftrightarrow> (\<forall>l \<in> set (map (map ri_order_item \<circ> rc_items) (receipts d)). distinct l)"
    for d :: "'a purch_db_scheme" by simp
  then have "\<forall>r \<in> set (receipts db'). distinct (map ri_order_item (rc_items r))"
    using assms(2) keys(2) unfolding receipts_wf_def by metis
  moreover have "map po_id (orders db') = map po_id (orders db)" unfolding od by (simp add: update_rows_def)
  moreover have "\<forall>x \<in> set (orders db'). distinct (map oi_id (po_items x))"
    using assms(2) unfolding od by (auto simp: set_update_rows receipts_wf_def)
  ultimately show "receipts_wf db'" using assms(2) keys(1) by (simp add: receipts_wf_def)
  have "map ri_id (all_lines d) = concat (map (map ri_id \<circ> rc_items) (receipts d))"
    for d :: "'a purch_db_scheme" by (simp add: all_lines_def map_concat comp_def)
  then show "lines_distinct db'" using assms(3) keys(3) by (simp add: lines_distinct_def)
  show "within_orders db'" if "within_orders db"
    using that unfolding within_orders_def total od by (auto simp: set_update_rows)
qed

lemma updateItems_lines:
  assumes "updateItems rid dtos u db = Inr db'"
  shows "map ri_id (all_lines db') = map ri_id (all_lines db)"
proof -
  have "ri_id \<circ> save_line dtos = ri_id" by (auto simp: fun_eq_iff save_line_def split: option.splits)
  moreover have "receipts db' = update_rows (\<lambda>x. rc_id x = rid)
      (\<lambda>x. x\<lparr>rc_items := map (save_line dtos) (rc_items x)\<rparr>) (receipts db)"
    using assms by (rule updateItems_InrE) blast
  ultimately show ?thesis
    by (simp add: all_lines_def update_rows_def map_concat comp_def if_distrib cong: if_cong)
qed

lemma receipt_create_lines:
  assumes "receipt_create oid wid u newId newItem db = Inr db'" and "receipts_wf db"
    and "lines_distinct db" and "inj newItem" and "range newItem \<inter> ri_id ` set (all_lines db) = {}"
  shows "lines_distinct db'"
proof -
  obtain x and r :: receipt where x: "x \<in> set (orders db)"
    and db': "receipts db' = receipts db @ [r]"
    and ids: "map ri_id (rc_items r) = map (\<lambda>y. newItem (oi_id y)) (po_items x)"
    using assms(1) by (rule receipt_create_InrE) blast
  have "distinct (map oi_id (po_items x))" using assms(2) x by (simp add: receipts_wf_def)
  then have "distinct (map ri_id (rc_items r))"
    unfolding ids using assms(4) by (auto simp: distinct_map inj_on_def)
  moreover have "set (map ri_id (rc_items r)) \<subseteq> range newItem" unfolding ids by auto
  ultimately show ?thesis using assms(3,5) by (auto simp: lines_distinct_def all_lines_def db')
qed

section \<open>Reachable states\<close>

definition purchases_ok :: "'a purch_db_scheme \<Rightarrow> bool" where
  "purchases_ok db \<longleftrightarrow> receipts_wf db \<and> lines_distinct db \<and> within_orders db"

text \<open>
  The operations of the service, by any user; new rows get unused ids. The adjustments of
  \<open>inventory-adjustment\<close>, which also write receipts, are not among them.
\<close>

inductive receipt_step :: "'a purch_db_scheme \<Rightarrow> 'a purch_db_scheme \<Rightarrow> bool" where
  opened: "receipt_create oid wid u newId newItem db = Inr db' \<Longrightarrow> newId \<notin> rc_id ` set (receipts db) \<Longrightarrow>
    inj newItem \<Longrightarrow> range newItem \<inter> ri_id ` set (all_lines db) = {} \<Longrightarrow> receipt_step db db'"
| saved: "updateItems rid dtos u db = Inr db' \<Longrightarrow> receipt_step db db'"
| confirmed: "receipt_confirm rnd4 rnd2 rid u db = Inr (db', c) \<Longrightarrow> receipt_step db db'"

lemma receipt_step_keeps: "receipt_step db db' \<Longrightarrow> purchases_ok db \<Longrightarrow> purchases_ok db'"
proof (induction rule: receipt_step.induct)
  case (opened oid wid u newId newItem db db')
  then show ?case
    using receipt_create_keeps[OF opened.hyps(1)] receipt_create_lines[OF opened.hyps(1)]
    by (auto simp: purchases_ok_def)
next
  case (saved rid dtos u db db')
  then show ?case
    using updateItems_keeps[OF saved.hyps] updateItems_lines[OF saved.hyps]
    by (auto simp: purchases_ok_def lines_distinct_def)
next
  case (confirmed rnd4 rnd2 rid u db db' c)
  then show ?case
    using receipt_confirm_keeps[OF confirmed.hyps] by (auto simp: purchases_ok_def)
qed

text \<open>After a confirmation the receipt has nothing new.\<close>

lemma confirmed_nothing_new:
  fixes db db' :: "'a purch_db_scheme"
  assumes "receipt_confirm rnd4 rnd2 rid u db = Inr (db', c)" and "purchases_ok db"
    and "confirm_load rid u' db' = Inr (r2, o2, t2)"
  shows "total_delta r2 = 0"
proof -
  have lines: "lines_distinct db" using assms(2) by (simp add: purchases_ok_def)
  obtain snap :: snapshot and st pst and db1 :: "'a purch_db_scheme" where
    load: "confirm_load rid u db = Inr snap"
    and un: "map unconfirmed (receipts db1) = map unconfirmed (receipts db)"
    and conf: "\<forall>it \<in> set (rc_items (fst snap)). \<forall>x \<in> set (all_lines db1).
       ri_id x = ri_id it \<longrightarrow> ri_confirmed x = ri_received it"
    and db': "receipts db' = update_rows (\<lambda>x. rc_id x = rid) (\<lambda>x. x\<lparr>rc_status := st\<rparr>) (receipts db1)"
    using assms(1) lines by (rule receipt_confirm_receipts) blast
  obtain r order tracked where snap: "snap = (r, order, tracked)" by (cases snap) auto
  have r: "r \<in> set (receipts db)" "rc_id r = rid" using confirm_load_InrD[OF load[unfolded snap]] by auto
  have r2: "r2 \<in> set (receipts db')" "rc_id r2 = rid" using confirm_load_InrD[OF assms(3)] by auto
  then obtain r1 where r1': "r1 \<in> set (receipts db1)"
    "r2 = (if rc_id r1 = rid then r1\<lparr>rc_status := st\<rparr> else r1)"
    unfolding db' set_update_rows by blast
  have r1: "r1 \<in> set (receipts db1)" "rc_id r1 = rid" "rc_items r2 = rc_items r1"
    using r1' r2(2) by (simp_all split: if_splits)
  have "unconfirmed r1 \<in> set (map unconfirmed (receipts db))" using r1(1) unfolding un[symmetric] by simp
  then obtain r0 where r0: "r0 \<in> set (receipts db)" "unconfirmed r1 = unconfirmed r0" by auto
  have "rc_id r0 = rid" using r0(2) r1(2) by (metis unconfirmed_simps(1))
  then have "r0 = r" using r r0(1) assms(2) unfolding purchases_ok_def receipts_wf_def
    by (metis distinct_map inj_onD)
  then have items: "map (\<lambda>it. it\<lparr>ri_confirmed := 0\<rparr>) (rc_items r1) = map (\<lambda>it. it\<lparr>ri_confirmed := 0\<rparr>) (rc_items r)"
    using r0(2) by (metis (no_types, lifting) unconfirmed_items)
  have "line_delta x = 0" if x: "x \<in> set (rc_items r2)" for x
  proof -
    have "x\<lparr>ri_confirmed := 0\<rparr> \<in> set (map (\<lambda>it. it\<lparr>ri_confirmed := 0\<rparr>) (rc_items r))"
      using x r1(3) unfolding items[symmetric] by simp
    then obtain it where it: "it \<in> set (rc_items r)" "x\<lparr>ri_confirmed := 0\<rparr> = it\<lparr>ri_confirmed := 0\<rparr>" by auto
    have same: "ri_id x = ri_id it" "ri_received x = ri_received it"
      using arg_cong[OF it(2), of ri_id] arg_cong[OF it(2), of ri_received] by simp_all
    have "x \<in> set (all_lines db1)" using x r1 by (auto simp: all_lines_def)
    with conf it(1) same(1) have "ri_confirmed x = ri_received it" by (simp add: snap)
    with same(2) show ?thesis by (simp add: line_delta_def)
  qed
  then show ?thesis by (simp add: total_delta_def cong: map_cong)
qed

text \<open>The cost record a confirmation leaves.\<close>

lemma confirm_imputes:
  assumes "receipt_confirm rnd4 rnd2 rid u db = Inr (db', c)" and "confirm_load rid u db = Inr snap"
    and "imputes snap"
  shows "list_ex (\<lambda>x. ac_receipt x = Some rid) (asset_costs db')
    \<and> \<not> list_ex (\<lambda>x. ac_receipt x = Some rid) (asset_costs db)"
proof -
  obtain r order tracked where snap: "snap = (r, order, tracked)" by (cases snap) auto
  have rid: "rc_id r = rid" using confirm_load_InrD[OF assms(2)[unfolded snap]] by simp
  obtain db1 where tx: "confirm_tx rnd4 rnd2 u snap db = Inr (db1, c)" and same: "asset_costs db' = asset_costs db1"
    using assms(1) by (rule receipt_confirm_InrE) (use assms(2) in auto)
  obtain db2 elsewhere where
    loop: "for_each (confirm_line rnd4 u (r, order, tracked) elsewhere) (rc_items r) (db, no_counts) = Inr (db2, c)"
    and cost: "imputes (r, order, tracked) \<longrightarrow>
       \<not> list_ex (\<lambda>x. ac_receipt x = Some (rc_id r)) (asset_costs db2)
       \<and> list_ex (\<lambda>x. ac_receipt x = Some (rc_id r)) (asset_costs db1)"
    using tx unfolding snap by (rule confirm_tx_InrE) blast
  show ?thesis using cost confirm_lines_orders[OF loop] assms(3) same by (simp add: snap rid)
qed

section \<open>A small database\<close>

text \<open>An order of ten units at cost 5 and its receipt, in which four units are registered.\<close>

definition small_order :: "id option \<Rightarrow> purchase_order" where
  "small_order e = \<lparr>po_id = ''o1'', po_tenant = ''t'', po_contract = ''c1'', po_subcontract = None,
     po_correlative = ''OC-00001'', po_status = PO_SENT, po_total = 50, po_currency = ''CLP'', po_required = 2,
     po_notes = None, po_requisition = None, po_quotation = None, po_quotation_requisition = None,
     po_equipment = e, po_work_order = None, po_sent_at = Some 0, po_delivery = None, po_payment_terms = None,
     po_items = [\<lparr>oi_id = ''ol1'', oi_description = ''filtro'', oi_qty = 10, oi_unit_cost = 5,
       oi_inventory_item = Some ''i1'', oi_source_quotation_item = None\<rparr>]\<rparr>"

definition small_receipt :: receipt where
  "small_receipt = \<lparr>rc_id = ''r1'', rc_tenant = ''t'', rc_order = ''o1'', rc_warehouse = ''w1'',
     rc_received_by = ''u1'', rc_correlative = ''WR-00001'', rc_status = RC_PENDING,
     rc_items = [\<lparr>ri_id = ''l1'', ri_order_item = ''ol1'', ri_expected = 10, ri_received = 4,
       ri_confirmed = 0, ri_observations = None\<rparr>]\<rparr>"

definition small_purch :: "id option \<Rightarrow> purch_db" where
  "small_purch e = inv_db.extend small_db \<lparr>orders = [small_order e], receipts = [small_receipt], asset_costs = [], signatures = [],
     approval_policies = [], purchase_settings = [], requisitions = [], quotations = []\<rparr>"

lemma small_purch_simps [simp]:
  "orders (small_purch e) = [small_order e]" "receipts (small_purch e) = [small_receipt]"
  "asset_costs (small_purch e) = []" "warehouses (small_purch e) = warehouses small_db"
  "items (small_purch e) = items small_db" "stocks (small_purch e) = stocks small_db"
  "txs (small_purch e) = []" "stock_qty w i (small_purch e) = stock_qty w i small_db"
  by (simp_all add: small_purch_def inv_db.extend_def stock_qty_def find_stock_def)

lemma small_purch_ok: "purchases_ok (small_purch e)"
  by (simp add: purchases_ok_def receipts_wf_def lines_distinct_def within_orders_def all_lines_def
      received_on_def receipt_received_def small_order_def small_receipt_def)

lemma small_access: "assertUserHasContractAccess plain_user ''c1'' m = Inr ()"
  by (simp add: assert_access_iff plain_user_access)

lemma small_load:
  "confirm_load ''r1'' plain_user (small_purch e) = Inr (small_receipt, small_order e, tracked_item (small_purch e))"
  by (simp add: confirm_load_def receipt_findById_def small_order_def small_receipt_def
      small_access total_delta_def line_delta_def)

lemma small_confirm_tx:
  "\<exists>db1 c. confirm_tx rnd4 rnd2 plain_user (small_receipt, small_order None, tracked_item (small_purch e)) db
      = Inr (db1, c)"
  if "db = small_purch None"
  unfolding that
  by (simp add: confirm_tx_def Let_def confirm_line_def set_confirmed_def small_order_def small_receipt_def
      small_db_def received_on_def line_delta_def tracked_item_def)

lemma moved_item_positive: "moved_item snap it = Some i \<Longrightarrow> 0 < line_delta it"
  by (cases snap) (auto simp: moved_item_def split: if_splits)

section \<open>Properties\<close>

text \<open>
  C12. A confirmation moves to stock exactly what is new on the receipt: the warehouse of the
  receipt gains, for every item, the received quantities that were not yet confirmed on its lines,
  never less than nothing; no other warehouse changes; and the book of transactions stays a chain
  that ends in the balances.
\<close>

theorem confirmation_posts_new_quantities:
  assumes "receipt_confirm rnd4 rnd2 rid u db = Inr (db', c)"
  shows "\<exists>snap. confirm_load rid u db = Inr snap
    \<and> stock_qty w i db' = stock_qty w i db + (if w = rc_warehouse (fst snap) then posted_qty snap i else 0)
    \<and> 0 \<le> posted_qty snap i
    \<and> (ledger_ok (inv_abs db) \<longrightarrow> ledger_ok (inv_abs db'))"
proof -
  obtain snap :: snapshot where l: "confirm_load rid u db = Inr snap"
    using assms by (rule receipt_confirm_InrE) blast
  have "stock_qty w i db' = stock_qty w i db + (if w = rc_warehouse (fst snap) then posted_qty snap i else 0)"
    by (rule receipt_confirm_qty[OF assms l])
  moreover have "0 \<le> posted_qty snap i"
    unfolding posted_qty_def
    by (rule sum_list_nonneg) (auto dest: moved_item_positive)
  moreover have "ledger_ok (inv_abs db) \<longrightarrow> ledger_ok (inv_abs db')"
    using receipt_posting.keeps_order[of "(rnd4, rnd2, rid, u)" db db'] assms by simp
  ultimately show ?thesis using l by blast
qed

lemma small_confirm: "\<exists>db1 c. receipt_confirm rnd4 rnd2 ''r1'' plain_user (small_purch None) = Inr (db1, c)"
proof -
  obtain db1 c where tx: "confirm_tx rnd4 rnd2 plain_user (small_receipt, small_order None,
      tracked_item (small_purch None)) (small_purch None) = Inr (db1, c)"
    using small_confirm_tx[OF refl] by blast
  show ?thesis by (simp add: receipt_confirm_def small_load tx)
qed

lemma small_posted: "posted_qty (small_receipt, small_order e, tracked_item (small_purch e')) ''i1'' = 4"
  by (simp add: posted_qty_def moved_item_def small_receipt_def small_order_def line_delta_def
      tracked_item_def small_db_def)

lemma confirmation_posts_new_quantities_witness:
  "\<exists>db' c. receipt_confirm half_up4 half_up4 ''r1'' plain_user (small_purch None) = Inr (db', c)
     \<and> stock_qty ''w1'' ''i1'' db' = 14"
proof -
  obtain db' c where d: "receipt_confirm half_up4 half_up4 ''r1'' plain_user (small_purch None) = Inr (db', c)"
    using small_confirm by blast
  have "rc_warehouse small_receipt = ''w1''" by (simp add: small_receipt_def)
  with d confirmation_posts_new_quantities[OF d, of "''w1''" "''i1''"] show ?thesis
    by (auto simp: small_load small_posted)
qed

text \<open>
  C13. A confirmation is not repeated: once a receipt was confirmed, confirming it again without
  registering more is refused, whoever asks and whatever the first confirmation moved. (Ids of
  receipts and of their lines are distinct, as primary keys are.)
\<close>

theorem confirmation_not_repeated:
  assumes "receipt_confirm rnd4 rnd2 rid u db = Inr (db', c)" and "purchases_ok db"
  shows "\<exists>e. receipt_confirm rnd4' rnd2' rid u' db' = Inl e"
proof (rule ccontr)
  assume "\<not> ?thesis"
  then obtain res where "receipt_confirm rnd4' rnd2' rid u' db' = Inr res"
    by (cases "receipt_confirm rnd4' rnd2' rid u' db'") auto
  then obtain r2 o2 t2 where load2: "confirm_load rid u' db' = Inr (r2, o2, t2)"
    by (auto simp: receipt_confirm_def and_then_eq_Inr)
  have "total_delta r2 = 0" by (rule confirmed_nothing_new[OF assms load2])
  then show False using confirm_load_InrD[OF load2] by simp
qed

lemma confirmation_not_repeated_witness:
  "\<exists>db' c e. receipt_confirm half_up4 half_up4 ''r1'' plain_user (small_purch None) = Inr (db', c)
     \<and> receipt_confirm half_up4 half_up4 ''r1'' plain_user db' = Inl e"
proof -
  obtain db' c where d: "receipt_confirm half_up4 half_up4 ''r1'' plain_user (small_purch None) = Inr (db', c)"
    using small_confirm by blast
  with confirmation_not_repeated[OF d small_purch_ok] show ?thesis by blast
qed

text \<open>
  C14. Opening, saving and confirming receipts never receives more than was ordered: in every state
  that runs of these three operations reach, in any order and by any users, the quantities registered
  for an order line on all receipts of the order stay within the ordered quantity, up to the tolerance
  of the code. (An adjustment of a receipt with a pending balance is none of them; it can exceed the
  order, \<open>Adjustment.saldo_exceeds_order\<close>.)
\<close>

theorem received_within_orders:
  assumes "receipt_step\<^sup>*\<^sup>* db db'" and "purchases_ok db"
    and "x \<in> set (orders db')" and "oi \<in> set (po_items x)"
  shows "received_total (po_tenant x) (po_id x) (oi_id oi) db' \<le> oi_qty oi + 1 / 1000000000"
proof -
  from assms(1,2) have "purchases_ok db'"
    by (induction rule: rtranclp_induct) (auto intro: receipt_step_keeps)
  with assms(3,4) show ?thesis by (simp add: purchases_ok_def within_orders_def)
qed

definition save_dto :: "qty \<Rightarrow> receipt_line_dto list" where
  "save_dto q = [\<lparr>ud_id = ''l1'', ud_received = q, ud_observations = None\<rparr>]"

text \<open>What saving a quantity on the small receipt gives: refused above ten.\<close>

lemma small_save:
  assumes "0 \<le> q" and "q \<le> 10"
  shows "\<exists>db1. updateItems ''r1'' (save_dto q) plain_user (small_purch e) = Inr db1
    \<and> received_total ''t'' ''o1'' ''ol1'' db1 = q \<and> orders db1 = [small_order e]"
  using assms
  by (simp add: updateItems_def receipt_findById_def small_receipt_def save_dto_def Let_def
      collect_line_def incoming_qty_def check_pending_line_def ordered_qty_def find_order_item_def
      small_order_def received_on_def receipt_received_def set_receipt_def save_line_def audit_log_def)

lemma received_within_orders_witness:
  "\<exists>db1. updateItems ''r1'' (save_dto 10) plain_user (small_purch None) = Inr db1
     \<and> received_total ''t'' ''o1'' ''ol1'' db1 \<le> 10 + 1 / 1000000000"
proof -
  obtain db1 where d: "updateItems ''r1'' (save_dto 10) plain_user (small_purch None) = Inr db1"
    and o1: "orders db1 = [small_order None]"
    using small_save[of 10 None] by auto
  have "receipt_step (small_purch None) db1" by (rule receipt_step.saved[OF d])
  then have "receipt_step\<^sup>*\<^sup>* (small_purch None) db1" by blast
  from received_within_orders[OF this small_purch_ok, of "small_order None" "hd (po_items (small_order None))"]
  show ?thesis using d by (simp add: o1 small_order_def)
qed

text \<open>
  C15. Two confirmations that read the same receipt before either of them wrote both move its new
  quantity: the receipt is read outside the serializable transaction, and the second transaction,
  run after the first one ended, moves the quantities of that reading once more.
\<close>

theorem stale_confirmation_posts_twice:
  assumes "confirm_load rid u db = Inr snap"
    and "confirm_tx rnd4 rnd2 u snap db = Inr (db1, c1)"
    and "confirm_tx rnd4' rnd2' u' snap db1 = Inr (db2, c2)"
  shows "stock_qty (rc_warehouse (fst snap)) i db2
     = stock_qty (rc_warehouse (fst snap)) i db + 2 * posted_qty snap i"
  using confirm_tx_qty[OF assms(2), of "rc_warehouse (fst snap)" i]
    confirm_tx_qty[OF assms(3), of "rc_warehouse (fst snap)" i] by simp

lemma small_confirm_twice:
  "\<exists>db1 c1 db2 c2. confirm_tx rnd4 rnd2 plain_user (small_receipt, small_order None,
        tracked_item (small_purch None)) (small_purch None) = Inr (db1, c1)
     \<and> confirm_tx rnd4 rnd2 plain_user (small_receipt, small_order None,
        tracked_item (small_purch None)) db1 = Inr (db2, c2)"
  by (simp add: confirm_tx_def Let_def confirm_line_def set_confirmed_def small_order_def small_receipt_def
      small_db_def received_on_def line_delta_def tracked_item_def set_receipt_def set_order_status_def)

lemma stale_confirmation_posts_twice_witness:
  "\<exists>db1 c1 db2 c2. confirm_tx half_up4 half_up4 plain_user (small_receipt, small_order None,
        tracked_item (small_purch None)) (small_purch None) = Inr (db1, c1)
     \<and> confirm_tx half_up4 half_up4 plain_user (small_receipt, small_order None,
        tracked_item (small_purch None)) db1 = Inr (db2, c2)
     \<and> stock_qty ''w1'' ''i1'' db2 = 18"
proof -
  obtain db1 c1 db2 c2 where d: "confirm_tx half_up4 half_up4 plain_user (small_receipt, small_order None,
        tracked_item (small_purch None)) (small_purch None) = Inr (db1, c1)"
    "confirm_tx half_up4 half_up4 plain_user (small_receipt, small_order None,
        tracked_item (small_purch None)) db1 = Inr (db2, c2)"
    using small_confirm_twice by blast
  have "rc_warehouse small_receipt = ''w1''" by (simp add: small_receipt_def)
  with d stale_confirmation_posts_twice[OF small_load d, of "''i1''"] show ?thesis
    by (auto simp: small_posted)
qed

text \<open>
  A receipt of an order with equipment can be confirmed only once, also when more goods arrive
  for it: the first confirmation records its cost on the equipment under the unique key of the
  receipt, so a later confirmation that has a cost to record is refused, in every later state that
  keeps the cost records, however much was registered in between. (The comments of the code and of
  the schema describe successive partial confirmations of one receipt.)
\<close>

theorem equipment_receipt_confirms_once:
  assumes "receipt_confirm rnd4 rnd2 rid u db = Inr (db1, c1)"
    and "confirm_load rid u db = Inr snap" and "imputes snap"
    and "set (asset_costs db1) \<subseteq> set (asset_costs db2)"
    and "confirm_load rid u' db2 = Inr snap2" and "imputes snap2"
  shows "\<exists>e. receipt_confirm rnd4' rnd2' rid u' db2 = Inl e"
proof (rule ccontr)
  assume "\<not> ?thesis"
  then obtain db3 c3 where "receipt_confirm rnd4' rnd2' rid u' db2 = Inr (db3, c3)"
    by (cases "receipt_confirm rnd4' rnd2' rid u' db2") auto
  then have "list_ex (\<lambda>x. ac_receipt x = Some rid) (asset_costs db3)
      \<and> \<not> list_ex (\<lambda>x. ac_receipt x = Some rid) (asset_costs db2)"
    by (rule confirm_imputes[OF _ assms(5,6)])
  moreover have "list_ex (\<lambda>x. ac_receipt x = Some rid) (asset_costs db1)"
    using confirm_imputes[OF assms(1-3)] by blast
  ultimately show False using assms(4) by (auto simp: list_ex_iff)
qed

lemma small_second_delivery:
  "\<exists>db1 c1 db2. receipt_confirm rnd4 rnd2 ''r1'' plain_user (small_purch (Some ''e1'')) = Inr (db1, c1)
     \<and> updateItems ''r1'' (save_dto 7) plain_user db1 = Inr db2
     \<and> asset_costs db2 = asset_costs db1
     \<and> (\<exists>snap2. confirm_load ''r1'' plain_user db2 = Inr snap2 \<and> imputes snap2)"
  by (simp add: receipt_confirm_def small_load confirm_tx_def Let_def confirm_line_def set_confirmed_def
      small_order_def small_receipt_def small_db_def received_on_def line_delta_def tracked_item_def
      imputed_cost_def create_asset_cost_def log_confirm_def audit_log_def all_complete_def
      receipt_received_def updateItems_def receipt_findById_def save_dto_def collect_line_def
      incoming_qty_def check_pending_line_def ordered_qty_def find_order_item_def save_line_def
      set_receipt_def set_order_status_def confirm_load_def small_access total_delta_def imputes_def)

lemma equipment_receipt_confirms_once_witness:
  "\<exists>db1 c1 db2 e. receipt_confirm half_up4 half_up4 ''r1'' plain_user (small_purch (Some ''e1'')) = Inr (db1, c1)
     \<and> updateItems ''r1'' (save_dto 7) plain_user db1 = Inr db2
     \<and> receipt_confirm half_up4 half_up4 ''r1'' plain_user db2 = Inl e"
proof -
  obtain db1 c1 db2 snap2 where d:
    "receipt_confirm half_up4 half_up4 ''r1'' plain_user (small_purch (Some ''e1'')) = Inr (db1, c1)"
    "updateItems ''r1'' (save_dto 7) plain_user db1 = Inr db2"
    "asset_costs db2 = asset_costs db1" "confirm_load ''r1'' plain_user db2 = Inr snap2" "imputes snap2"
    using small_second_delivery by blast
  have "imputes (small_receipt, small_order (Some ''e1''), tracked_item (small_purch (Some ''e1'')))"
    by (simp add: imputes_def imputed_cost_def small_receipt_def small_order_def)
  from equipment_receipt_confirms_once[OF d(1) small_load this _ d(4,5)] d show ?thesis by auto
qed

end
