(* ===== verification/Adjustment.thy ===== *)
theory Adjustment
  imports Receipt_Properties "HOL-Library.List_Lexorder" "HOL-Library.Char_ord"
begin

text \<open>
  \<open>features/inventory-adjustment/inventory-adjustment.service.ts\<close>: the adjustment of a position to
  the quantity that was counted, with its reasons, and the reason \<open>SALDO_PENDIENTE\<close> that registers
  the difference as goods received on a receipt of a purchase order. The service reads the
  position before its transaction; the model runs both on the same state.
\<close>

section \<open>Requests\<close>

definition ADJUSTMENT_REASON_CODES :: "string list" where
  "ADJUSTMENT_REASON_CODES = [''MERMAS'', ''CONTEO'', ''DANO'', ''SALDO_PENDIENTE'', ''ENTREGA_EPP'']"

definition LOSS_DAMAGE_COMMENT_MIN_LEN :: nat where
  "LOSS_DAMAGE_COMMENT_MIN_LEN = 15"

definition PO_STATUSES_ALLOW_RECEIPT_PROGRESS_SYNC :: "po_status list" where
  "PO_STATUSES_ALLOW_RECEIPT_PROGRESS_SYNC =
     [PO_SENT, PO_ORDERED, PO_SENT_TO_SUPPLIER, PO_PARTIALLY_RECEIVED]"

record adjustment_dto =
  ad_wh :: id
  ad_item :: id
  ad_qty :: qty
  ad_reason :: string
  ad_comment :: "string option"
  ad_order :: "string option"
  ad_receipt :: "string option"

definition assertCanAdjust :: "user \<Rightarrow> unit res" where
  "assertCanAdjust u =
     (if userHasPermission (Some u) ''inventory:stock:adjust'' then Inr ()
      else Inl (Forbidden ''No tiene permisos para ejecutar ajustes de inventario''))"

section \<open>Registering the difference on a receipt\<close>

text \<open>The lines of a receipt that are of an item, in the order of their ids.\<close>

definition is_line_of :: "id \<Rightarrow> id \<Rightarrow> 'a purch_db_scheme \<Rightarrow> receipt_item \<Rightarrow> bool" where
  "is_line_of orderId itemId db it =
     (case find_order_item orderId (ri_order_item it) db of
        None \<Rightarrow> False | Some oi \<Rightarrow> oi_inventory_item oi = Some itemId)"

definition document_lines :: "id \<Rightarrow> 'a purch_db_scheme \<Rightarrow> receipt_item list" where
  "document_lines receiptId db = concat (map rc_items (filter (\<lambda>r. rc_id r = receiptId) (receipts db)))"

definition lines_of_item :: "id \<Rightarrow> id \<Rightarrow> id \<Rightarrow> 'a purch_db_scheme \<Rightarrow> receipt_item list" where
  "lines_of_item receiptId orderId itemId db =
     sort_key ri_id (filter (is_line_of orderId itemId db) (document_lines receiptId db))"

definition line_room :: "receipt_item \<Rightarrow> qty" where
  "line_room it = max 0 (ri_expected it - ri_received it)"

text \<open>
  The loop over the lines: what is added to each of them, by its id, and what remains of the
  quantity.
\<close>

fun fill_lines :: "receipt_item list \<Rightarrow> qty \<Rightarrow> (id \<times> qty) list \<times> qty" where
  "fill_lines [] remaining = ([], remaining)"
| "fill_lines (l # ls) remaining =
     (if remaining \<le> 1 / 1000000000 then ([], remaining)
      else let add = min remaining (line_room l) in
        if add \<le> 1 / 1000000000 then fill_lines ls remaining
        else let (adds, rest) = fill_lines ls (remaining - add) in ((ri_id l, add) # adds, rest))"

text \<open>\<open>receiptItem.update\<close> with an increment of the received quantity, on the primary key.\<close>

definition add_received :: "(id \<times> qty) list \<Rightarrow> receipt \<Rightarrow> receipt" where
  "add_received adds r = r\<lparr>rc_items := map (\<lambda>it.
     it\<lparr>ri_received := ri_received it + sum_rows (\<lambda>(k, q). k = ri_id it) snd adds\<rparr>) (rc_items r)\<rparr>"

definition receipt_progress :: "receipt_item list \<Rightarrow> receipt_status" where
  "receipt_progress its =
     (if \<not> list_ex (\<lambda>it. ri_received it > 1 / 1000000000) its then RC_PENDING
      else if list_all (\<lambda>it. \<not> ri_received it + 1 / 1000000000 < ri_expected it) its then RC_COMPLETED
      else RC_PARTIAL)"

text \<open>The progress of the order, where its status still follows its receipts.\<close>

definition sync_order :: "id \<Rightarrow> id \<Rightarrow> 'a purch_db_scheme \<Rightarrow> 'a purch_db_scheme" where
  "sync_order tenant orderId db =
     (case find_row (\<lambda>x. po_id x = orderId \<and> po_tenant x = tenant) (orders db) of
        None \<Rightarrow> db
      | Some order \<Rightarrow>
          if po_status order \<notin> set PO_STATUSES_ALLOW_RECEIPT_PROGRESS_SYNC \<or> po_items order = [] then db
          else
            let rec = (\<lambda>oi. received_total tenant orderId (oi_id oi) db) in
            if \<not> list_ex (\<lambda>oi. rec oi > 1 / 1000000000) (po_items order) then db
            else set_order_status orderId
              (if list_all (\<lambda>oi. \<not> rec oi + 1 / 1000000000 < oi_qty oi) (po_items order)
               then PO_RECEIVED else PO_PARTIALLY_RECEIVED) db)"

definition syncSaldoPendienteIntoReceiptAndPo ::
    "id \<Rightarrow> id \<Rightarrow> id \<Rightarrow> id \<Rightarrow> qty \<Rightarrow> 'a purch_db_scheme \<Rightarrow> 'a purch_db_scheme res" where
  "syncSaldoPendienteIntoReceiptAndPo tenant receiptId orderId itemId q db =
     (case fill_lines (lines_of_item receiptId orderId itemId db) q of (adds, remaining) \<Rightarrow>
        if remaining > 1 / 1000000000
        then Inl (BadRequest ''Inconsistencia al sincronizar la recepcion'')
        else
          let db1 = set_receipt receiptId (add_received adds) db;
              db2 = set_receipt receiptId
                (\<lambda>r. r\<lparr>rc_status := receipt_progress (document_lines receiptId db1)\<rparr>) db1
          in Inr (sync_order tenant orderId db2))"

section \<open>The adjustment\<close>

definition check_request :: "adjustment_dto \<Rightarrow> unit res" where
  "check_request dto =
     (let comment = trim_opt (ad_comment dto) in
      if comment = [] then Inl (BadRequest ''El comentario del ajuste es obligatorio'')
      else if (ad_reason dto = ''MERMAS'' \<or> ad_reason dto = ''DANO'')
           \<and> length comment < LOSS_DAMAGE_COMMENT_MIN_LEN
        then Inl (BadRequest ''Para merma o dano debe registrar una explicacion detallada'')
      else if ad_reason dto \<notin> set ADJUSTMENT_REASON_CODES
        then Inl (BadRequest ''Motivo de ajuste no valido'')
      else if ad_reason dto = ''SALDO_PENDIENTE''
           \<and> (trim_opt (ad_order dto) = [] \<or> trim_opt (ad_receipt dto) = [])
        then Inl (BadRequest ''La Orden de Compra y la Recepcion son obligatorias para este motivo'')
      else if ad_qty dto < 0
        then Inl (BadRequest ''La cantidad fisica debe ser un numero mayor o igual a cero'')
      else Inr ())"

definition adjustment_delta :: "adjustment_dto \<Rightarrow> 'a inv_db_scheme \<Rightarrow> qty" where
  "adjustment_delta dto db = ad_qty dto - stock_qty (ad_wh dto) (ad_item dto) db"

text \<open>The checks of \<open>SALDO_PENDIENTE\<close> on the receipt, its lines and its order.\<close>

definition check_saldo :: "adjustment_dto \<Rightarrow> user \<Rightarrow> qty \<Rightarrow> 'a purch_db_scheme \<Rightarrow> unit res" where
  "check_saldo dto u delta db =
     (let orderId = trim_opt (ad_order dto); receiptId = trim_opt (ad_receipt dto) in
      case find_row (\<lambda>r. rc_id r = receiptId \<and> rc_tenant r = user_tenant u) (receipts db) of
        None \<Rightarrow> Inl (NotFound ''Recepcion no encontrada'')
      | Some r \<Rightarrow>
          if rc_order r \<noteq> orderId
          then Inl (BadRequest ''La recepcion no corresponde a la orden de compra indicada'')
          else if rc_warehouse r \<noteq> ad_wh dto
          then Inl (BadRequest ''La recepcion pertenece a otra bodega'')
          else if rc_status r = RC_PENDING
          then Inl (BadRequest ''La guia de recepcion debe estar confirmada al menos en forma parcial'')
          else if delta \<le> 0
          then Inl (BadRequest ''Saldo pendiente solo aplica a incrementos de stock'')
          else
            let lines = lines_of_item receiptId orderId (ad_item dto) db;
                roomTotal = sum_list (map line_room lines)
            in if lines = []
               then Inl (BadRequest ''La recepcion no tiene lineas vinculadas a este articulo'')
               else if roomTotal + 1 / 1000000000 < delta
               then Inl (BadRequest ''La recepcion vinculada no tiene pendiente suficiente'')
               else if find_row (\<lambda>x. po_id x = orderId \<and> po_tenant x = user_tenant u) (orders db) = None
               then Inl (NotFound ''Orden de compra no encontrada'')
               else Inr ())"

definition adjustment_tx :: "adjustment_dto \<Rightarrow> 'a inv_db_scheme \<Rightarrow> transaction_dto" where
  "adjustment_tx dto db =
     (let delta = adjustment_delta dto db; saldo = (ad_reason dto = ''SALDO_PENDIENTE'') in
      \<lparr>pd_wh = ad_wh dto, pd_item = ad_item dto, pd_type = ADJUST, pd_qty = delta,
       pd_cost = (if delta > 0 then Some (stock_cost (ad_wh dto) (ad_item dto) db) else None),
       pd_ref = (if saldo then Some (trim_opt (ad_receipt dto)) else None),
       pd_ref_type = Some (if saldo then ''PURCHASE_RECEIPT'' else ''INVENTORY_ADJUSTMENT'')\<rparr>)"

definition adjustment_create ::
    "(qty \<Rightarrow> qty) \<Rightarrow> adjustment_dto \<Rightarrow> user \<Rightarrow> 'a purch_db_scheme \<Rightarrow> 'a purch_db_scheme res" where
  "adjustment_create rnd4 dto u db =
     and_then (assertCanAdjust u) (\<lambda>_.
     and_then (check_request dto) (\<lambda>_.
     if tenant_warehouse (ad_wh dto) (user_tenant u) db = None
     then Inl (NotFound ''Bodega no encontrada'')
     else if find_item (ad_item dto) (user_tenant u) db = None
     then Inl (NotFound ''Articulo no encontrado'')
     else
       let delta = adjustment_delta dto db in
       if ad_reason dto = ''ENTREGA_EPP'' \<and> delta \<ge> 0
       then Inl (BadRequest ''Entrega de EPP solo aplica cuando el ajuste reduce el stock fisico'')
       else if \<bar>delta\<bar> < 1 / 1000000000
       then Inl (BadRequest ''No hay diferencia entre el stock actual y la cantidad fisica indicada'')
       else if ad_reason dto = ''SALDO_PENDIENTE''
       then and_then (check_saldo dto u delta db) (\<lambda>_.
            and_then (performTransactionCore rnd4 (adjustment_tx dto db) u db) (\<lambda>db1.
            syncSaldoPendienteIntoReceiptAndPo (user_tenant u) (trim_opt (ad_receipt dto))
              (trim_opt (ad_order dto)) (ad_item dto) delta db1))
       else performTransaction rnd4 (adjustment_tx dto db) u db))"

section \<open>Lemmas\<close>

lemma sync_order_frame [simp]:
  "stocks (sync_order t od db) = stocks db" "txs (sync_order t od db) = txs db"
  "receipts (sync_order t od db) = receipts db" "warehouses (sync_order t od db) = warehouses db"
  "transfers (sync_order t od db) = transfers db" "inv_abs (sync_order t od db) = inv_abs db"
  "map (\<lambda>x. (po_id x, po_tenant x, po_items x)) (orders (sync_order t od db))
     = map (\<lambda>x. (po_id x, po_tenant x, po_items x)) (orders db)"
  by (auto simp: sync_order_def Let_def set_order_status_def update_rows_def inv_abs_def stock_qty_def
      find_stock_def split: option.splits)

lemma sync_InrD:
  assumes "syncSaldoPendienteIntoReceiptAndPo t rid od i q db = Inr db'"
  shows "\<exists>adds rest st. fill_lines (lines_of_item rid od i db) q = (adds, rest) \<and> rest \<le> 1 / 1000000000
    \<and> receipts db' = update_rows (\<lambda>r. rc_id r = rid) (\<lambda>r. (add_received adds r)\<lparr>rc_status := st\<rparr>) (receipts db)
    \<and> inv_abs db' = inv_abs db \<and> stocks db' = stocks db \<and> txs db' = txs db
    \<and> warehouses db' = warehouses db \<and> transfers db' = transfers db
    \<and> map (\<lambda>x. (po_id x, po_tenant x, po_items x)) (orders db')
        = map (\<lambda>x. (po_id x, po_tenant x, po_items x)) (orders db)"
proof -
  obtain adds rest where f: "fill_lines (lines_of_item rid od i db) q = (adds, rest)" by fastforce
  have id: "rc_id (add_received adds r) = rc_id r" for r by (simp add: add_received_def)
  have two: "update_rows (\<lambda>r. rc_id r = rid) (\<lambda>r. r\<lparr>rc_status := st\<rparr>)
      (update_rows (\<lambda>r. rc_id r = rid) (add_received adds) rs)
    = update_rows (\<lambda>r. rc_id r = rid) (\<lambda>r. (add_received adds r)\<lparr>rc_status := st\<rparr>) rs" for st rs
    by (induction rs) (auto simp: id)
  show ?thesis
    using assms f
    by (auto simp: syncSaldoPendienteIntoReceiptAndPo_def Let_def receipts_set_receipt two split: if_splits)
qed

lemma adjustment_InrE:
  assumes "adjustment_create rnd4 dto u db = Inr db'"
  obtains db1 where "userHasPermission (Some u) ''inventory:stock:adjust''" "check_request dto = Inr ()"
    "tenant_warehouse (ad_wh dto) (user_tenant u) db \<noteq> None" "find_item (ad_item dto) (user_tenant u) db \<noteq> None"
    "ad_reason dto = ''ENTREGA_EPP'' \<longrightarrow> adjustment_delta dto db < 0"
    "\<bar>adjustment_delta dto db\<bar> \<ge> 1 / 1000000000"
    "performTransactionCore rnd4 (adjustment_tx dto db) u db = Inr db1" "inv_abs db' = inv_abs db1"
    "stocks db' = stocks db1" "txs db' = txs db1" "warehouses db' = warehouses db1" "transfers db' = transfers db1"
    "ad_reason dto = ''SALDO_PENDIENTE'' \<Longrightarrow> check_saldo dto u (adjustment_delta dto db) db = Inr ()"
    "ad_reason dto = ''SALDO_PENDIENTE'' \<Longrightarrow> syncSaldoPendienteIntoReceiptAndPo (user_tenant u)
       (trim_opt (ad_receipt dto)) (trim_opt (ad_order dto)) (ad_item dto) (adjustment_delta dto db) db1 = Inr db'"
    "ad_reason dto \<noteq> ''SALDO_PENDIENTE'' \<Longrightarrow> db' = db1"
proof (cases "ad_reason dto = ''SALDO_PENDIENTE''")
  case True
  obtain db1 where "performTransactionCore rnd4 (adjustment_tx dto db) u db = Inr db1"
    and s: "syncSaldoPendienteIntoReceiptAndPo (user_tenant u)
       (trim_opt (ad_receipt dto)) (trim_opt (ad_order dto)) (ad_item dto) (adjustment_delta dto db) db1 = Inr db'"
    using assms True
    by (auto simp: adjustment_create_def and_then_eq_Inr Let_def split: if_splits)
  moreover have "inv_abs db' = inv_abs db1" "stocks db' = stocks db1" "txs db' = txs db1"
    "warehouses db' = warehouses db1" "transfers db' = transfers db1"
    using sync_InrD[OF s] by blast+
  ultimately show ?thesis
    using assms True that
    by (auto simp: adjustment_create_def and_then_eq_Inr Let_def assertCanAdjust_def split: if_splits)
next
  case False
  then show ?thesis
    using assms that[of db']
    by (auto simp: adjustment_create_def and_then_eq_Inr Let_def assertCanAdjust_def performTransaction_eq
        split: if_splits)
qed

lemma adjustment_tx_simps [simp]:
  "pd_wh (adjustment_tx dto db) = ad_wh dto" "pd_item (adjustment_tx dto db) = ad_item dto"
  "pd_type (adjustment_tx dto db) = ADJUST" "pd_qty (adjustment_tx dto db) = adjustment_delta dto db"
  by (simp_all add: adjustment_tx_def Let_def)

lemma adjustment_posts:
  assumes "adjustment_create rnd4 dto u db = Inr db'"
  shows "post_all [core_entry (adjustment_tx dto db) db] (inv_abs db) = Some (inv_abs db')"
  using assms by (rule adjustment_InrE) (metis core_posts)

interpretation adjusting: exact_mover "\<lambda>(rnd4, dto, u). adjustment_create rnd4 dto u" inv_abs
  "\<lambda>(rnd4, dto, u) db. [core_entry (adjustment_tx dto db) db]"
  by unfold_locales (auto intro: adjustment_posts)

lemma adjustment_balance:
  assumes "adjustment_create rnd4 dto u db = Inr db'"
  shows "stock_qty w i db' = stock_qty w i db
    + (if (w, i) = (ad_wh dto, ad_item dto) then adjustment_delta dto db else 0)"
proof -
  have "(\<lambda>(rnd4, dto, u). adjustment_create rnd4 dto u) (rnd4, dto, u) db = Inr db'"
    using assms by simp
  from adjusting.exact_balance[OF this, of "(w, i)"] show ?thesis
    by (simp add: entry_delta_def core_entry_def Let_def)
qed

text \<open>What the loop over the lines hands out.\<close>

lemma fill_lines_outcome:
  "fill_lines ls q = (adds, rest) \<Longrightarrow>
     sum_list (map snd adds) + rest = q \<and> set (map fst adds) \<subseteq> ri_id ` set ls"
proof (induction ls arbitrary: q adds rest)
  case Nil
  then show ?case by simp
next
  case (Cons l ls)
  let ?add = "min q (line_room l)"
  consider (stop) "q \<le> 1 / 1000000000" | (skip) "\<not> q \<le> 1 / 1000000000" "?add \<le> 1 / 1000000000"
    | (fill) "\<not> q \<le> 1 / 1000000000" "\<not> ?add \<le> 1 / 1000000000" by blast
  then show ?case
  proof cases
    case stop
    with Cons.prems show ?thesis by simp
  next
    case skip
    then have "fill_lines ls q = (adds, rest)"
      using Cons.prems by (simp only: fill_lines.simps Let_def if_True if_False)
    from Cons.IH[OF this] show ?thesis by auto
  next
    case fill
    obtain adds' r where f: "fill_lines ls (q - ?add) = (adds', r)" by fastforce
    then have "adds = (ri_id l, ?add) # adds'" "rest = r"
      using Cons.prems fill by (simp_all only: fill_lines.simps Let_def if_True if_False prod.case prod.inject)
    with Cons.IH[OF f] show ?thesis by auto
  qed
qed

lemma sum_over_lines:
  assumes "distinct (map ri_id its)" and "set (map fst adds) \<subseteq> ri_id ` set its"
  shows "sum_list (map (\<lambda>it. sum_rows (\<lambda>(k, q). k = ri_id it) snd adds) its) = sum_list (map snd adds)"
  using assms(2)
proof (induction adds)
  case Nil
  then show ?case by simp
next
  case (Cons a adds)
  have one: "sum_list (map (\<lambda>it. if fst a = ri_id it then snd a else 0) its') = snd a"
    if "distinct (map ri_id its')" "fst a \<in> ri_id ` set its'" for its'
    using that
  proof (induction its')
    case (Cons x xs)
    show ?case
    proof (cases "fst a = ri_id x")
      case True
      then have "\<forall>y \<in> set xs. fst a \<noteq> ri_id y" using Cons.prems(1) by (auto simp: image_iff)
      then have "map (\<lambda>it. if fst a = ri_id it then snd a else 0) xs = map (\<lambda>_. 0) xs" by simp
      then have "sum_list (map (\<lambda>it. if fst a = ri_id it then snd a else 0) xs) = 0" by (simp only: sum_list_0)
      with True show ?thesis by simp
    next
      case False
      with Cons show ?thesis by auto
    qed
  qed simp
  have "sum_list (map (\<lambda>it. sum_rows (\<lambda>(k, q). k = ri_id it) snd (a # adds)) its)
      = sum_list (map (\<lambda>it. if fst a = ri_id it then snd a else 0) its)
        + sum_list (map (\<lambda>it. sum_rows (\<lambda>(k, q). k = ri_id it) snd adds) its)"
    by (simp add: sum_list_addf[symmetric] case_prod_unfold)
  with one[OF assms(1)] Cons show ?case by simp
qed

section \<open>Goods that wait for a confirmation\<close>

text \<open>What a receipt still has to move to stock of an item: received and not confirmed.\<close>

definition open_to_confirm :: "id \<Rightarrow> id \<Rightarrow> id \<Rightarrow> 'a purch_db_scheme \<Rightarrow> qty" where
  "open_to_confirm receiptId orderId itemId db =
     sum_list (map line_delta (filter (is_line_of orderId itemId db) (document_lines receiptId db)))"

lemma is_line_of_cong:
  fixes db db' :: "'a purch_db_scheme"
  assumes "map (\<lambda>x. (po_id x, po_tenant x, po_items x)) (orders db')
     = map (\<lambda>x. (po_id x, po_tenant x, po_items x)) (orders db)"
  shows "is_line_of od i db' = is_line_of od i db"
proof -
  have k: "map_option po_items (find_row (\<lambda>o'. po_id o' = od) os)
      = map_option (\<lambda>(a, b, c). c) (find_row (\<lambda>(a, b, c). a = od)
          (map (\<lambda>x. (po_id x, po_tenant x, po_items x)) os))" for os
    by (simp add: find_row_map option.map_comp comp_def)
  have "map_option po_items (find_row (\<lambda>o'. po_id o' = od) (orders db'))
      = map_option po_items (find_row (\<lambda>o'. po_id o' = od) (orders db))"
    unfolding k assms ..
  moreover have "find_order_item od oi d = Option.bind (map_option po_items
      (find_row (\<lambda>o'. po_id o' = od) (orders d))) (find_row (\<lambda>x. oi_id x = oi))"
    for oi and d :: "'a purch_db_scheme"
    by (simp add: find_order_item_def bind_map_option comp_def)
  ultimately show ?thesis by (auto simp: fun_eq_iff is_line_of_def)
qed

lemma document_lines_one:
  assumes "distinct (map rc_id rs)" and "r \<in> set rs"
  shows "filter (\<lambda>x. rc_id x = rc_id r) rs = [r]"
  using assms
proof (induction rs)
  case (Cons a rs)
  show ?case
  proof (cases "a = r")
    case True
    then have "\<forall>x \<in> set rs. rc_id x \<noteq> rc_id r" using Cons.prems(1) by (force simp: image_iff)
    with True show ?thesis by (simp add: filter_empty_conv)
  next
    case False
    then have "r \<in> set rs" "rc_id a \<noteq> rc_id r" using Cons.prems by auto
    with Cons show ?thesis by simp
  qed
qed simp

lemma add_received_open:
  assumes "distinct (map ri_id its)" and "set (map fst adds) \<subseteq> ri_id ` set (filter P its)"
    and "\<And>it q. P (it\<lparr>ri_received := q\<rparr>) = P it"
  shows "sum_list (map line_delta (filter P (map (\<lambda>it. it\<lparr>ri_received := ri_received it
       + sum_rows (\<lambda>(k, q). k = ri_id it) snd adds\<rparr>) its)))
    = sum_list (map line_delta (filter P its)) + sum_list (map snd adds)"
proof -
  have "distinct (map ri_id (filter P its))" using assms(1) by (rule distinct_map_filter)
  note adds = sum_over_lines[OF this assms(2)]
  let ?s = "\<lambda>it. sum_rows (\<lambda>(k, q). k = ri_id it) snd adds"
  have delta: "line_delta (it\<lparr>ri_received := ri_received it + ?s it\<rparr>) = line_delta it + ?s it" for it
    by (simp add: line_delta_def)
  have "sum_list (map (\<lambda>it. line_delta it + ?s it) (filter P its))
      = sum_list (map line_delta (filter P its)) + sum_list (map snd adds)"
    unfolding sum_list_addf adds ..
  then show ?thesis by (simp add: filter_map comp_def assms(3) delta)
qed

lemma sync_open:
  fixes db db' :: "'a purch_db_scheme"
  assumes "syncSaldoPendienteIntoReceiptAndPo t rid od i q db = Inr db'"
    and "distinct (map rc_id (receipts db))" and "lines_distinct db"
    and "r \<in> set (receipts db)" and "rc_id r = rid"
  shows "open_to_confirm rid od i db' \<ge> open_to_confirm rid od i db + q - 1 / 1000000000"
proof -
  obtain adds rest st where f: "fill_lines (lines_of_item rid od i db) q = (adds, rest)"
    "rest \<le> 1 / 1000000000"
    and db': "receipts db' = update_rows (\<lambda>r. rc_id r = rid) (\<lambda>r. (add_received adds r)\<lparr>rc_status := st\<rparr>) (receipts db)"
    and keys: "map (\<lambda>x. (po_id x, po_tenant x, po_items x)) (orders db')
        = map (\<lambda>x. (po_id x, po_tenant x, po_items x)) (orders db)"
    using sync_InrD[OF assms(1)] by blast
  let ?P = "is_line_of od i db" and ?r' = "(add_received adds r)\<lparr>rc_status := st\<rparr>"
  have P: "is_line_of od i db' = ?P" by (rule is_line_of_cong[OF keys])
  have "document_lines rid db = rc_items r"
    using document_lines_one[OF assms(2,4)] assms(5) by (simp add: document_lines_def)
  have "distinct (map rc_id (receipts db'))"
    using assms(2) unfolding db' by (simp add: update_rows_def add_received_def comp_def if_distrib cong: if_cong)
  moreover have "?r' \<in> set (receipts db')"
    using assms(4,5) unfolding db' set_update_rows by (auto simp: image_iff)
  moreover have "rc_id ?r' = rid" using assms(5) by (simp add: add_received_def)
  ultimately have lines': "document_lines rid db' = rc_items ?r'"
    using document_lines_one[of "receipts db'" ?r'] by (simp add: document_lines_def)
  have ids: "set (map fst adds) \<subseteq> ri_id ` set (filter ?P (rc_items r))"
    using fill_lines_outcome[OF f(1)] \<open>document_lines rid db = rc_items r\<close>
    by (simp add: lines_of_item_def)
  have same: "?P (it\<lparr>ri_received := x\<rparr>) = ?P it" for it x by (simp add: is_line_of_def)
  have "open_to_confirm rid od i db' = sum_list (map line_delta (filter ?P (rc_items r))) + sum_list (map snd adds)"
    using add_received_open[OF lines_distinct_receipt[OF assms(3,4)] ids same]
    by (simp add: open_to_confirm_def P lines' add_received_def)
  moreover have "open_to_confirm rid od i db = sum_list (map line_delta (filter ?P (rc_items r)))"
    by (simp add: open_to_confirm_def \<open>document_lines rid db = rc_items r\<close>)
  ultimately show ?thesis using fill_lines_outcome[OF f(1)] f(2) by linarith
qed

lemma write_movement_purchases [simp]:
  fixes db :: "'a purch_db_scheme"
  shows "receipts (write_movement dto u l db) = receipts db" and "orders (write_movement dto u l db) = orders db"
    and "asset_costs (write_movement dto u l db) = asset_costs db"
  by (simp_all add: write_movement_def Let_def upsert_stock_def add_tx_def clear_pending_def
      clearItemStockPolicyIfMatchesWarehouse_def clearPendingRegularizationFlags_def split: prod.splits)

lemma core_purchases:
  fixes db db' :: "'a purch_db_scheme"
  assumes "performTransactionCore rnd4 dto u db = Inr db'"
  shows "receipts db' = receipts db" and "orders db' = orders db" and "asset_costs db' = asset_costs db"
proof -
  obtain l where "db' = write_movement dto u l db" using assms by (rule core_InrE) blast
  then show "receipts db' = receipts db" and "orders db' = orders db" and "asset_costs db' = asset_costs db"
    by simp_all
qed

section \<open>Properties\<close>

text \<open>
  C17. An adjustment sets the position to the counted quantity: afterwards the warehouse holds
  exactly what was counted of the item, every other position is unchanged, the book grows by one
  ADJUST entry whose quantity is the signed difference, and the user had the permission to adjust.
  A delivery of protective equipment only ever reduces the stock.
\<close>

theorem adjustment_reaches_count:
  assumes "adjustment_create rnd4 dto u db = Inr db'"
  shows "stock_qty (ad_wh dto) (ad_item dto) db' = ad_qty dto
    \<and> ((w, i) = (ad_wh dto, ad_item dto) \<or> stock_qty w i db' = stock_qty w i db)
    \<and> map entry_of (txs db') = map entry_of (txs db) @
        [\<lparr>en_cell = (ad_wh dto, ad_item dto), en_type = ADJUST, en_qty = adjustment_delta dto db,
          en_prev = stock_qty (ad_wh dto) (ad_item dto) db, en_new = ad_qty dto\<rparr>]
    \<and> userHasPermission (Some u) ''inventory:stock:adjust''
    \<and> (ad_reason dto \<noteq> ''ENTREGA_EPP'' \<or> stock_qty (ad_wh dto) (ad_item dto) db' < stock_qty (ad_wh dto) (ad_item dto) db)"
proof -
  have call: "(\<lambda>(rnd4, dto, u). adjustment_create rnd4 dto u) (rnd4, dto, u) db = Inr db'"
    using assms by simp
  let ?e = "core_entry (adjustment_tx dto db) db"
  have e: "?e = \<lparr>en_cell = (ad_wh dto, ad_item dto), en_type = ADJUST, en_qty = adjustment_delta dto db,
      en_prev = stock_qty (ad_wh dto) (ad_item dto) db, en_new = ad_qty dto\<rparr>"
    by (simp add: core_entry_def Let_def adjustment_delta_def)
  note bal = adjustment_balance[OF assms]
  have book: "map entry_of (txs db') = map entry_of (txs db) @ [?e]"
    using adjusting.exact_book[OF call] by simp
  have "userHasPermission (Some u) ''inventory:stock:adjust''"
    and "ad_reason dto = ''ENTREGA_EPP'' \<longrightarrow> adjustment_delta dto db < 0"
    using assms by (rule adjustment_InrE, blast)+
  then show ?thesis using bal[of "ad_wh dto" "ad_item dto"] bal[of w i] book
    by (auto simp: e adjustment_delta_def)
qed

text \<open>The small database with the first four units confirmed, and a counter of the warehouse.\<close>

definition partial_receipt :: receipt where
  "partial_receipt = small_receipt\<lparr>rc_status := RC_PARTIAL,
     rc_items := [\<lparr>ri_id = ''l1'', ri_order_item = ''ol1'', ri_expected = 10, ri_received = 4,
       ri_confirmed = 4, ri_observations = None\<rparr>]\<rparr>"

definition receipts_db :: "receipt list \<Rightarrow> purch_db" where
  "receipts_db rs = (small_purch None)\<lparr>receipts := rs\<rparr>"

abbreviation partial_purch :: purch_db where
  "partial_purch \<equiv> receipts_db [partial_receipt]"

definition adjuster :: user where
  "adjuster = plain_user\<lparr>user_permissions := Some [''inventory:stock:adjust'']\<rparr>"

definition adjust_dto :: "string \<Rightarrow> qty \<Rightarrow> adjustment_dto" where
  "adjust_dto reason q = \<lparr>ad_wh = ''w1'', ad_item = ''i1'', ad_qty = q, ad_reason = reason,
     ad_comment = Some ''recuento'', ad_order = Some ''o1'', ad_receipt = Some ''r1''\<rparr>"

lemma adjuster_simps [simp]:
  "acting_user_id adjuster = ''u1''" "user_tenant adjuster = ''t''"
  "userHasPermission (Some adjuster) ''inventory:stock:adjust''"
  "userCanAccessContractId adjuster (Some ''c1'')"
  "assertUserHasContractAccess adjuster ''c1'' m = Inr ()"
  by (simp_all add: adjuster_def plain_user_def acting_user_id_def userHasPermission_def
      userHasGlobalRoleBypass_def resolveUserPermissions_def userCanAccessContractId_def
      isTenantWideContractAccess_def normalizedAllowedContractIds_def trim_opt_def trim_def is_space_def
      assertUserHasContractAccess_def)

lemma receipts_db_simps [simp]:
  "stock_qty w i (receipts_db rs) = stock_qty w i small_db" "txs (receipts_db rs) = []"
  "tenant_warehouse w t (receipts_db rs) = tenant_warehouse w t small_db"
  "find_item i t (receipts_db rs) = find_item i t small_db"
  "tenantBlocksNegativeStock t (receipts_db rs) = tenantBlocksNegativeStock t small_db"
  "receipts (receipts_db rs) = rs" "orders (receipts_db rs) = [small_order None]"
  "warehouses (receipts_db rs) = warehouses small_db"
  by (simp_all add: receipts_db_def small_purch_def inv_db.extend_def stock_qty_def find_stock_def
      tenant_warehouse_def find_item_def tenantBlocksNegativeStock_def)

lemma adjust_dto_simps [simp]:
  "ad_wh (adjust_dto r q) = ''w1''" "ad_item (adjust_dto r q) = ''i1''" "ad_qty (adjust_dto r q) = q"
  "ad_reason (adjust_dto r q) = r" "trim_opt (ad_comment (adjust_dto r q)) = ''recuento''"
  "trim_opt (ad_order (adjust_dto r q)) = ''o1''" "trim_opt (ad_receipt (adjust_dto r q)) = ''r1''"
  by (simp_all add: adjust_dto_def trim_opt_def trim_def is_space_def)

lemma small_item: "find_item ''i1'' ''t'' small_db \<noteq> None"
  by (simp add: find_item_def small_db_def)

text \<open>An adjustment of the small position passes the stock service.\<close>

lemma small_adjust_core:
  assumes "0 \<le> q"
  shows "performTransactionCore rnd4 (adjustment_tx (adjust_dto r q) (receipts_db rs)) adjuster (receipts_db rs) =
    Inr (write_movement (adjustment_tx (adjust_dto r q) (receipts_db rs)) adjuster
      (q, stock_cost ''w1'' ''i1'' (receipts_db rs), False) (receipts_db rs))"
proof -
  have f: "check_field_reference (adjustment_tx (adjust_dto r q) (receipts_db rs)) adjuster (receipts_db rs) = Inr ()"
    by (simp add: check_field_reference_def adjustment_tx_def Let_def FIELD_DISPATCH_REFERENCE_TYPE_def
        FIELD_RETURN_REFERENCE_TYPE_def trim_opt_def trim_def is_space_def)
  have "adjustment_delta (adjust_dto r q) (receipts_db rs) = q - 10" by (simp add: adjustment_delta_def)
  then have n: "new_levels rnd4 (adjustment_tx (adjust_dto r q) (receipts_db rs)) adjuster (receipts_db rs)
      = Inr (q, stock_cost ''w1'' ''i1'' (receipts_db rs), False)"
    using assms by (simp add: new_levels_def qty_defs STOCK_QTY_EPSILON_def Let_def)
  show ?thesis
    by (simp add: performTransactionCore_def f n assertWarehouseContractAccess_def)
qed

lemma small_count: "\<exists>db'. adjustment_create rnd4 (adjust_dto ''CONTEO'' 8) adjuster partial_purch = Inr db'"
  using small_item
  by (simp add: adjustment_create_def assertCanAdjust_def check_request_def ADJUSTMENT_REASON_CODES_def
      adjustment_delta_def performTransaction_eq small_adjust_core Let_def)

lemma adjustment_reaches_count_witness:
  "\<exists>db'. adjustment_create half_up4 (adjust_dto ''CONTEO'' 8) adjuster partial_purch = Inr db'
     \<and> stock_qty ''w1'' ''i1'' db' = 8"
proof -
  obtain db' where d: "adjustment_create half_up4 (adjust_dto ''CONTEO'' 8) adjuster partial_purch = Inr db'"
    using small_count by blast
  with adjustment_reaches_count[OF d] show ?thesis by (simp add: adjust_dto_def)
qed

text \<open>
  An adjustment with the reason SALDO_PENDIENTE counts its goods twice when the receipt is
  confirmed again: the stock grows by the difference at once, and the same difference (up to the
  tolerance) becomes received and not confirmed on the lines of the receipt, which is what the next
  confirmation moves to stock. In the witness 13 units were counted and the stock ends at 16.
\<close>

theorem saldo_counted_again:
  fixes db db' :: "'a purch_db_scheme"
  assumes "adjustment_create rnd4 dto u db = Inr db'" and "ad_reason dto = ''SALDO_PENDIENTE''"
    and "purchases_ok db"
  shows "stock_qty (ad_wh dto) (ad_item dto) db'
        = stock_qty (ad_wh dto) (ad_item dto) db + adjustment_delta dto db
    \<and> open_to_confirm (trim_opt (ad_receipt dto)) (trim_opt (ad_order dto)) (ad_item dto) db'
        \<ge> open_to_confirm (trim_opt (ad_receipt dto)) (trim_opt (ad_order dto)) (ad_item dto) db
           + adjustment_delta dto db - 1 / 1000000000"
proof -
  let ?rid = "trim_opt (ad_receipt dto)" and ?od = "trim_opt (ad_order dto)"
  obtain db1 :: "'a purch_db_scheme" where core: "performTransactionCore rnd4 (adjustment_tx dto db) u db = Inr db1"
    and chk: "check_saldo dto u (adjustment_delta dto db) db = Inr ()"
    and sync: "syncSaldoPendienteIntoReceiptAndPo (user_tenant u) ?rid ?od (ad_item dto)
        (adjustment_delta dto db) db1 = Inr db'"
    using assms(1) by (rule adjustment_InrE) (use assms(2) in blast)
  note same = core_purchases[OF core]
  obtain r where r: "find_row (\<lambda>r. rc_id r = ?rid \<and> rc_tenant r = user_tenant u) (receipts db) = Some r"
    using chk by (auto simp: check_saldo_def Let_def split: option.splits)
  have mem: "r \<in> set (receipts db1)" "rc_id r = ?rid" using find_row_SomeD[OF r] by (auto simp: same)
  have ok: "distinct (map rc_id (receipts db1))" "lines_distinct db1"
    using assms(3) by (simp_all add: purchases_ok_def receipts_wf_def lines_distinct_def all_lines_def same)
  have "is_line_of ?od (ad_item dto) db1 = is_line_of ?od (ad_item dto) db"
    by (rule is_line_of_cong) (simp add: same)
  then have "open_to_confirm ?rid ?od (ad_item dto) db1 = open_to_confirm ?rid ?od (ad_item dto) db"
    by (simp add: open_to_confirm_def document_lines_def same)
  moreover have "stock_qty (ad_wh dto) (ad_item dto) db'
      = stock_qty (ad_wh dto) (ad_item dto) db + adjustment_delta dto db"
    using adjustment_balance[OF assms(1)] by simp
  ultimately show ?thesis using sync_open[OF sync ok mem] by simp
qed

text \<open>The state after the adjustment of the small receipt to 13 units.\<close>

lemma partial_purch_ok: "purchases_ok partial_purch"
  by (simp add: purchases_ok_def receipts_wf_def lines_distinct_def within_orders_def all_lines_def
      received_on_def receipt_received_def small_order_def small_receipt_def partial_receipt_def)

lemma small_saldo:
  "\<exists>db1. adjustment_create rnd4 (adjust_dto ''SALDO_PENDIENTE'' 13) adjuster partial_purch = Inr db1
     \<and> receipts db1 = [small_receipt\<lparr>rc_status := RC_PARTIAL,
         rc_items := [\<lparr>ri_id = ''l1'', ri_order_item = ''ol1'', ri_expected = 10, ri_received = 7,
           ri_confirmed = 4, ri_observations = None\<rparr>]\<rparr>]
     \<and> orders db1 = [(small_order None)\<lparr>po_status := PO_PARTIALLY_RECEIVED\<rparr>]
     \<and> warehouses db1 = warehouses small_db \<and> tracked_item db1 ''i1''"
proof -
  let ?dto = "adjust_dto ''SALDO_PENDIENTE'' 13"
  let ?db = "write_movement (adjustment_tx ?dto partial_purch) adjuster
      (13, stock_cost ''w1'' ''i1'' partial_purch, False) partial_purch"
  have line: "is_line_of ''o1'' ''i1'' d it \<longleftrightarrow> ri_order_item it = ''ol1''"
    if "orders d = [small_order None]" for d :: purch_db and it
    using that by (simp add: is_line_of_def find_order_item_def small_order_def)
  have lines: "lines_of_item ''r1'' ''o1'' ''i1'' d = [\<lparr>ri_id = ''l1'', ri_order_item = ''ol1'',
      ri_expected = 10, ri_received = 4, ri_confirmed = 4, ri_observations = None\<rparr>]"
    if "orders d = [small_order None]" and "receipts d = receipts partial_purch" for d :: purch_db
    using that by (simp add: lines_of_item_def document_lines_def line small_receipt_def partial_receipt_def)
  have tr: "tracked_item ?db ''i1''"
    by (simp add: tracked_item_def write_movement_def Let_def upsert_stock_def add_tx_def clear_pending_def
        clearItemStockPolicyIfMatchesWarehouse_def clearPendingRegularizationFlags_def receipts_db_def
        small_purch_def inv_db.extend_def small_db_def)
  have "check_saldo ?dto adjuster 3 partial_purch = Inr ()"
    by (simp add: check_saldo_def Let_def lines line_room_def) (simp add: small_receipt_def small_order_def partial_receipt_def)
  moreover have "syncSaldoPendienteIntoReceiptAndPo ''t'' ''r1'' ''o1'' ''i1'' 3 ?db = Inr (
     ?db\<lparr>receipts := [small_receipt\<lparr>rc_status := RC_PARTIAL,
         rc_items := [\<lparr>ri_id = ''l1'', ri_order_item = ''ol1'', ri_expected = 10, ri_received = 7,
           ri_confirmed = 4, ri_observations = None\<rparr>]\<rparr>],
       orders := [(small_order None)\<lparr>po_status := PO_PARTIALLY_RECEIVED\<rparr>]\<rparr>)"
    by (simp add: syncSaldoPendienteIntoReceiptAndPo_def lines line_room_def Let_def set_receipt_def
        add_received_def small_receipt_def partial_receipt_def document_lines_def receipt_progress_def sync_order_def
        small_order_def PO_STATUSES_ALLOW_RECEIPT_PROGRESS_SYNC_def received_on_def receipt_received_def
        set_order_status_def)
  ultimately show ?thesis using small_item tr
    by (simp add: adjustment_create_def assertCanAdjust_def check_request_def ADJUSTMENT_REASON_CODES_def
      adjustment_delta_def small_adjust_core Let_def tracked_item_def)
qed

lemma saldo_counted_again_witness:
  "\<exists>db1 db2 c. adjustment_create half_up4 (adjust_dto ''SALDO_PENDIENTE'' 13) adjuster partial_purch = Inr db1
     \<and> receipt_confirm half_up4 half_up4 ''r1'' adjuster db1 = Inr (db2, c)
     \<and> stock_qty ''w1'' ''i1'' partial_purch = 10 \<and> stock_qty ''w1'' ''i1'' db1 = 13
     \<and> stock_qty ''w1'' ''i1'' db2 = 16"
proof -
  obtain db1 where d: "adjustment_create half_up4 (adjust_dto ''SALDO_PENDIENTE'' 13) adjuster partial_purch = Inr db1"
    and t: "receipts db1 = [small_receipt\<lparr>rc_status := RC_PARTIAL,
         rc_items := [\<lparr>ri_id = ''l1'', ri_order_item = ''ol1'', ri_expected = 10, ri_received = 7,
           ri_confirmed = 4, ri_observations = None\<rparr>]\<rparr>]"
      "orders db1 = [(small_order None)\<lparr>po_status := PO_PARTIALLY_RECEIVED\<rparr>]"
      "warehouses db1 = warehouses small_db" "tracked_item db1 ''i1''"
    using small_saldo by blast
  have s1: "stock_qty ''w1'' ''i1'' db1 = 13"
    using saldo_counted_again[OF d _ partial_purch_ok] by (simp add: adjustment_delta_def)
  have load: "\<exists>snap. confirm_load ''r1'' adjuster db1 = Inr snap \<and> rc_warehouse (fst snap) = ''w1''
      \<and> posted_qty snap ''i1'' = 3"
    using t by (simp add: confirm_load_def receipt_findById_def small_order_def small_receipt_def
      total_delta_def line_delta_def posted_qty_def moved_item_def)
  have "\<exists>db2 c. receipt_confirm half_up4 half_up4 ''r1'' adjuster db1 = Inr (db2, c)"
    using t by (simp add: receipt_confirm_def confirm_load_def receipt_findById_def small_order_def
      small_receipt_def total_delta_def line_delta_def confirm_tx_def Let_def confirm_line_def
      set_confirmed_def small_db_def received_on_def)
  then obtain db2 c where c: "receipt_confirm half_up4 half_up4 ''r1'' adjuster db1 = Inr (db2, c)" by blast
  obtain snap where "confirm_load ''r1'' adjuster db1 = Inr snap" "rc_warehouse (fst snap) = ''w1''"
    "posted_qty snap ''i1'' = 3" using load by blast
  then have "stock_qty ''w1'' ''i1'' db2 = 16"
    using receipt_confirm_qty[OF c, of snap "''w1''" "''i1''"] s1 by simp
  with d c s1 show ?thesis by simp
qed

text \<open>
  The bound of C14 does not survive this adjustment: it checks the room of a line against the
  quantity expected when the receipt was opened, and not against what other receipts registered
  since. There is a state in order from which it registers more for an order line than was ordered.
\<close>

definition crossed_purch :: purch_db where
  "crossed_purch = receipts_db [partial_receipt, small_receipt\<lparr>rc_id := ''r2'',
     rc_status := RC_COMPLETED, rc_items := [\<lparr>ri_id = ''l2'', ri_order_item = ''ol1'', ri_expected = 6,
       ri_received = 6, ri_confirmed = 6, ri_observations = None\<rparr>]\<rparr>]"

theorem saldo_exceeds_order:
  "\<exists>(db :: purch_db) dto u db'. purchases_ok db \<and> adjustment_create half_up4 dto u db = Inr db'
     \<and> \<not> within_orders db'"
proof -
  let ?dto = "adjust_dto ''SALDO_PENDIENTE'' 13"
  let ?db = "write_movement (adjustment_tx ?dto crossed_purch) adjuster
      (13, stock_cost ''w1'' ''i1'' crossed_purch, False) crossed_purch"
  have ok: "purchases_ok crossed_purch"
    by (simp add: crossed_purch_def purchases_ok_def receipts_wf_def lines_distinct_def within_orders_def
        all_lines_def received_on_def receipt_received_def small_order_def small_receipt_def
        partial_receipt_def)
  have line: "is_line_of ''o1'' ''i1'' d it \<longleftrightarrow> ri_order_item it = ''ol1''"
    if "orders d = [small_order None]" for d :: purch_db and it
    using that by (simp add: is_line_of_def find_order_item_def small_order_def)
  have lines: "lines_of_item ''r1'' ''o1'' ''i1'' d = [\<lparr>ri_id = ''l1'', ri_order_item = ''ol1'',
      ri_expected = 10, ri_received = 4, ri_confirmed = 4, ri_observations = None\<rparr>]"
    if "orders d = [small_order None]" and "receipts d = receipts crossed_purch" for d :: purch_db
    using that
    by (simp add: lines_of_item_def document_lines_def line small_receipt_def partial_receipt_def crossed_purch_def)
  have chk: "check_saldo ?dto adjuster 3 crossed_purch = Inr ()"
    by (simp add: check_saldo_def Let_def lines line_room_def crossed_purch_def)
       (simp add: small_receipt_def small_order_def partial_receipt_def)
  have "\<exists>db'. syncSaldoPendienteIntoReceiptAndPo ''t'' ''r1'' ''o1'' ''i1'' 3 ?db = Inr db' \<and> \<not> within_orders db'"
    by (simp add: syncSaldoPendienteIntoReceiptAndPo_def lines line_room_def Let_def crossed_purch_def)
       (simp add: set_receipt_def crossed_purch_def
        add_received_def small_receipt_def partial_receipt_def document_lines_def receipt_progress_def sync_order_def
        small_order_def PO_STATUSES_ALLOW_RECEIPT_PROGRESS_SYNC_def received_on_def receipt_received_def
        set_order_status_def within_orders_def)
  then have "\<exists>db'. adjustment_create half_up4 ?dto adjuster crossed_purch = Inr db' \<and> \<not> within_orders db'"
    using small_item chk
    by (simp add: adjustment_create_def assertCanAdjust_def check_request_def ADJUSTMENT_REASON_CODES_def
      adjustment_delta_def small_adjust_core Let_def crossed_purch_def)
  with ok show ?thesis by blast
qed

end
