(* ===== verification/Transfers.thy ===== *)
theory Transfers
  imports Stock_Service
begin

text \<open>
  \<open>features/inventory-transfer/inventory-transfer.service.ts\<close>: transfers between warehouses in
  two steps. \<open>executeTransfer\<close> takes the goods out of the origin and leaves the transfer SHIPPED;
  \<open>confirmReception\<close> brings them into the destination and completes it. The id that the
  database gives the new transfer is the argument \<open>newId\<close>.
\<close>

record transfer_line_dto =
  td_item :: id
  td_qty :: qty

record transfer_dto =
  td_origin :: id
  td_dest :: id
  td_lines :: "transfer_line_dto list"

section \<open>Checks\<close>

definition assertCanCreateTransfer :: "user \<Rightarrow> unit res" where
  "assertCanCreateTransfer u =
     (if \<not> userHasPermission (Some u) ''inventory:transfer:create''
      then Inl (Forbidden ''sin permisos para ejecutar transferencias'') else Inr ())"

definition canAccessContract :: "user \<Rightarrow> id \<Rightarrow> bool" where
  "canAccessContract u contractId =
     (let role = to_upper (case user_role u of None \<Rightarrow> [] | Some r \<Rightarrow> r) in
      if role = ''ADMIN'' \<or> role = ''SUPER_ADMIN'' then True
      else contractId \<in> set (case user_contracts u of None \<Rightarrow> [] | Some cs \<Rightarrow> cs))"

definition weightedAverageCpp :: "(qty \<Rightarrow> qty) \<Rightarrow> qty \<Rightarrow> qty \<Rightarrow> qty \<Rightarrow> qty \<Rightarrow> qty" where
  "weightedAverageCpp rnd4 prevQty prevCpp addQty addCpp =
     (let tQ = prevQty + addQty in
      if tQ = 0 then 0 else rnd4 ((prevQty * prevCpp + addQty * addCpp) / tQ))"

section \<open>Shipping\<close>

definition ship_line ::
    "id \<Rightarrow> id \<Rightarrow> user \<Rightarrow> transfer_line_dto \<Rightarrow> 'a inv_db_scheme \<Rightarrow> 'a inv_db_scheme res" where
  "ship_line transferId origin u line db =
     (case find_item (td_item line) (user_tenant u) db of
        None \<Rightarrow> Inl (BadRequest ''El articulo no existe o no pertenece a su empresa'')
      | Some it \<Rightarrow>
          if \<not> it_uom_decimals it \<and> \<not> is_integer (td_qty line)
          then Inl (BadRequest ''la unidad no admite fracciones'')
          else
            let prevO = stock_qty origin (td_item line) db in
            if wouldStockGoNegative prevO (td_qty line)
            then Inl (BadRequest ''Stock insuficiente'')
            else
              let cppOrigin = stock_cost origin (td_item line) db;
                  newOriginQty = subtractStockQty prevO (td_qty line)
              in and_then (update_row (is_cell origin (td_item line))
                    (\<lambda>s. s\<lparr>st_qty := newOriginQty\<rparr>) (stocks db)) (\<lambda>rows.
                 Inr (add_tx
                   \<lparr>tx_type = TRANSFER_OUT, tx_wh = origin, tx_item = td_item line,
                    tx_user = acting_user_id u, tx_qty = td_qty line, tx_prev = prevO,
                    tx_new = newOriginQty, tx_ref = Some transferId,
                    tx_ref_type = Some ''INVENTORY_TRANSFER'', tx_pending = False\<rparr>
                   (db\<lparr>stocks := rows,
                       transfers := update_rows (\<lambda>t. tr_id t = transferId)
                         (\<lambda>t. t\<lparr>tr_lines := tr_lines t @
                            [\<lparr>tl_item = td_item line, tl_qty = td_qty line, tl_cost = cppOrigin\<rparr>]\<rparr>)
                         (transfers db)\<rparr>))))"

definition executeTransfer ::
    "transfer_dto \<Rightarrow> user \<Rightarrow> id \<Rightarrow> 'a inv_db_scheme \<Rightarrow> 'a inv_db_scheme res" where
  "executeTransfer dto u newId db =
     and_then (assertCanCreateTransfer u) (\<lambda>_.
     if acting_user_id u = [] then Inl (BadRequest ''Usuario no identificado'')
     else if td_origin dto = td_dest dto
       then Inl (BadRequest ''La bodega de origen y destino deben ser distintas'')
     else if td_lines dto = [] then Inl (BadRequest ''Indique al menos una linea'')
     else if list_ex (\<lambda>l. td_qty l \<le> 0) (td_lines dto)
       then Inl (BadRequest ''Las cantidades deben ser mayores a cero'')
     else and_then (assertCanCreateTransfer u) (\<lambda>_.
     case (tenant_warehouse (td_origin dto) (user_tenant u) db,
           tenant_warehouse (td_dest dto) (user_tenant u) db) of
       (Some origin, Some dest) \<Rightarrow>
         if \<not> canAccessContract u (wh_contract origin)
           then Inl (Forbidden ''sin permisos sobre la bodega de origen'')
         else if \<not> canAccessContract u (wh_contract dest)
           then Inl (Forbidden ''sin permisos sobre la bodega destino'')
         else for_each (ship_line newId (wh_id origin) u) (td_lines dto)
           (db\<lparr>transfers := transfers db @
              [\<lparr>tr_id = newId, tr_tenant = user_tenant u, tr_origin = wh_id origin,
                tr_dest = wh_id dest, tr_status = SHIPPED, tr_by = acting_user_id u,
                tr_lines = []\<rparr>]\<rparr>)
     | _ \<Rightarrow> Inl (NotFound ''Bodega de origen o destino no encontrada'')))"

section \<open>Receiving\<close>

definition receive_line ::
    "(qty \<Rightarrow> qty) \<Rightarrow> id \<Rightarrow> id \<Rightarrow> user \<Rightarrow> transfer_line \<Rightarrow> 'a inv_db_scheme \<Rightarrow> 'a inv_db_scheme" where
  "receive_line rnd4 transferId dest u line db =
     (let i = tl_item line;
          prevD = stock_qty dest i db;
          cppDest = stock_cost dest i db;
          incomingCost = tl_cost line;
          newDestQty = prevD + tl_qty line;
          newCppDest = (if prevD \<le> 1 / 1000000000 then incomingCost
             else weightedAverageCpp rnd4 prevD cppDest (tl_qty line) incomingCost);
          policy = (if find_stock dest i db = None
             then getPolicyThresholdsForNewItemStockRow (user_tenant u) i dest db else (0, 0));
          db1 = upsert_stock dest i
            (\<lambda>s. s\<lparr>st_qty := newDestQty, st_cost := Some newCppDest\<rparr>)
            \<lparr>st_wh = dest, st_item = i, st_qty = newDestQty, st_cost = Some incomingCost,
             st_min = fst policy, st_max = snd policy, st_location = None\<rparr> db;
          db2 = clearItemStockPolicyIfMatchesWarehouse (user_tenant u) i dest db1;
          db3 = add_tx
            \<lparr>tx_type = TRANSFER_IN, tx_wh = dest, tx_item = i, tx_user = acting_user_id u,
             tx_qty = tl_qty line, tx_prev = prevD, tx_new = newDestQty,
             tx_ref = Some transferId, tx_ref_type = Some ''INVENTORY_TRANSFER'',
             tx_pending = False\<rparr> db2
      in clearPendingRegularizationFlags dest i newDestQty db3)"

definition confirmReception ::
    "(qty \<Rightarrow> qty) \<Rightarrow> id \<Rightarrow> user \<Rightarrow> 'a inv_db_scheme \<Rightarrow> 'a inv_db_scheme res" where
  "confirmReception rnd4 transferId u db =
     (if acting_user_id u = [] then Inl (BadRequest ''Usuario no identificado'')
      else case find_row (\<lambda>t. tr_id t = transferId \<and> tr_tenant t = user_tenant u) (transfers db) of
        None \<Rightarrow> Inl (NotFound ''Transferencia no encontrada'')
      | Some t \<Rightarrow>
          if tr_status t \<noteq> SHIPPED
          then Inl (BadRequest ''Solo transferencias en estado SHIPPED pueden recibirse'')
          else case find_row (\<lambda>w. wh_id w = tr_dest t) (warehouses db) of
            None \<Rightarrow> Inl RecordNotFound
          | Some dest \<Rightarrow>
              if \<not> canAccessContract u (wh_contract dest)
              then Inl (Forbidden ''sin permisos para confirmar recepcion en la bodega destino'')
              else and_then
                (for_each (\<lambda>line d. Inr (receive_line rnd4 (tr_id t) (wh_id dest) u line d))
                   (tr_lines t) db) (\<lambda>db1.
                Inr (db1\<lparr>transfers := update_rows (\<lambda>x. tr_id x = tr_id t)
                       (\<lambda>x. x\<lparr>tr_status := COMPLETED\<rparr>) (transfers db1)\<rparr>)))"

section \<open>Read-outs\<close>

definition transfer_visible :: "user \<Rightarrow> 'a inv_db_scheme \<Rightarrow> transfer \<Rightarrow> bool" where
  "transfer_visible u db t =
     (let role = to_upper (case user_role u of None \<Rightarrow> [] | Some r \<Rightarrow> r);
          isAdminLike = (role = ''ADMIN'' \<or> role = ''SUPER_ADMIN'');
          allowed = (case user_contracts u of None \<Rightarrow> [] | Some cs \<Rightarrow> cs);
          contract = (\<lambda>w. case find_row (\<lambda>x. wh_id x = w) (warehouses db) of
             None \<Rightarrow> None | Some x \<Rightarrow> Some (wh_contract x));
          mine = (\<lambda>w. case contract w of None \<Rightarrow> False | Some c \<Rightarrow> c \<in> set allowed)
      in tr_tenant t = user_tenant u \<and> (isAdminLike \<or> mine (tr_origin t) \<or> mine (tr_dest t)))"

text \<open>The user who received a completed transfer: the last \<open>TRANSFER_IN\<close> at the destination.\<close>

definition getTransferById ::
    "id \<Rightarrow> user \<Rightarrow> 'a inv_db_scheme \<Rightarrow> (transfer \<times> id option) res" where
  "getTransferById transferId u db =
     (case find_row (\<lambda>t. transfer_visible u db t \<and> tr_id t = transferId) (transfers db) of
        None \<Rightarrow> Inl (NotFound ''Transferencia no encontrada'')
      | Some t \<Rightarrow>
          let reception = (if tr_status t = COMPLETED
            then map_option tx_user (find_row (\<lambda>x. tx_ref x = Some (tr_id t)
                \<and> tx_ref_type x = Some ''INVENTORY_TRANSFER'' \<and> tx_type x = TRANSFER_IN
                \<and> tx_wh x = tr_dest t) (rev (txs db)))
            else None)
          in Inr (t, reception))"

section \<open>Lemmas\<close>

lemma update_row_Inr:
  "update_row p f rows = Inr rows' \<longleftrightarrow> find_row p rows \<noteq> None \<and> rows' = update_rows p f rows"
  by (auto simp: update_row_def)

lemma stock_qty_update_rows:
  assumes "\<And>s. is_cell w i (f s) = is_cell w i s" and "\<And>s. st_qty (f s) = q"
    and "find_row (is_cell w i) (stocks db) \<noteq> None"
  shows "stock_qty w' i' (db\<lparr>stocks := update_rows (is_cell w i) f (stocks db), transfers := ts\<rparr>) =
     (if (w', i') = (w, i) then q else stock_qty w' i' db)"
proof (cases "(w', i') = (w, i)")
  case True
  have "find_row (is_cell w i) (update_rows (is_cell w i) f (stocks db)) =
      map_option f (find_row (is_cell w i) (stocks db))"
    by (rule find_row_update_same) (use assms in auto)
  with True assms show ?thesis by (auto simp: stock_qty_def find_stock_def)
next
  case False
  have "find_row (is_cell w' i') (update_rows (is_cell w i) f (stocks db)) =
      find_row (is_cell w' i') (stocks db)"
    by (rule find_row_update_other) (use assms False in auto)
  with False show ?thesis by (auto simp: stock_qty_def find_stock_def)
qed

text \<open>One line shipped: what was checked, and what changed.\<close>

lemma ship_line_Inr:
  assumes "ship_line transferId origin u line db = Inr db'"
  shows "\<not> isStockQtyNegative (stock_qty origin (td_item line) db - td_qty line)"
    and "stock_qty w i db' = (if (w, i) = (origin, td_item line)
           then stock_qty w i db - td_qty line else stock_qty w i db)"
    and "txs db' = txs db @ [\<lparr>tx_type = TRANSFER_OUT, tx_wh = origin, tx_item = td_item line,
           tx_user = acting_user_id u, tx_qty = td_qty line,
           tx_prev = stock_qty origin (td_item line) db,
           tx_new = stock_qty origin (td_item line) db - td_qty line, tx_ref = Some transferId,
           tx_ref_type = Some ''INVENTORY_TRANSFER'', tx_pending = False\<rparr>]"
    and "transfers db' = update_rows (\<lambda>t. tr_id t = transferId)
           (\<lambda>t. t\<lparr>tr_lines := tr_lines t @ [\<lparr>tl_item = td_item line, tl_qty = td_qty line,
              tl_cost = stock_cost origin (td_item line) db\<rparr>]\<rparr>) (transfers db)"
    and "warehouses db' = warehouses db" and "configs db' = configs db"
    and "items db' = items db"
  using assms
  by (auto simp: ship_line_def Let_def and_then_eq_Inr update_row_Inr qty_defs
      stock_qty_update_rows[OF _ _ , where q = "stock_qty origin (td_item line) db - td_qty line"]
      split: option.splits if_splits)

lemma receive_line_qty:
  "stock_qty w i (receive_line rnd4 tid dest u line db) =
      (if (w, i) = (dest, tl_item line) then stock_qty w i db + tl_qty line else stock_qty w i db)"
  by (simp add: receive_line_def Let_def stock_qty_upsert)

lemma receive_line_frame [simp]:
  "transfers (receive_line rnd4 tid dest u line db) = transfers db"
  "warehouses (receive_line rnd4 tid dest u line db) = warehouses db"
  "configs (receive_line rnd4 tid dest u line db) = configs db"
  "inv_db.more (receive_line rnd4 tid dest u line db) = inv_db.more db"
  by (simp_all add: receive_line_def Let_def)

lemma receive_line_entries:
  "map entry_of (txs (receive_line rnd4 tid dest u line db)) = map entry_of (txs db) @
      [\<lparr>en_cell = (dest, tl_item line), en_type = TRANSFER_IN, en_qty = tl_qty line,
        en_prev = stock_qty dest (tl_item line) db,
        en_new = stock_qty dest (tl_item line) db + tl_qty line\<rparr>]"
  by (simp add: receive_line_def Let_def clearPendingRegularizationFlags_def clear_pending_def
      entry_of_def)

lemma receive_line_pending:
  "has_pending w i (receive_line rnd4 tid dest u line db) \<longleftrightarrow>
      has_pending w i db \<and> ((w, i) = (dest, tl_item line) \<longrightarrow>
        isStockQtyNegative (stock_qty w i db + tl_qty line))"
  by (auto simp: receive_line_def Let_def clearPendingRegularizationFlags_def has_pending_clear)

section \<open>Transfers refine the ledger\<close>

lemma ship_line_posts:
  assumes "ship_line tid origin u line db = Inr db'"
  shows "\<exists>es. post_all es (inv_abs db) = Some (inv_abs db')"
proof -
  let ?t = "\<lparr>tx_type = TRANSFER_OUT, tx_wh = origin, tx_item = td_item line,
     tx_user = acting_user_id u, tx_qty = td_qty line,
     tx_prev = stock_qty origin (td_item line) db,
     tx_new = stock_qty origin (td_item line) db - td_qty line, tx_ref = Some tid,
     tx_ref_type = Some ''INVENTORY_TRANSFER'', tx_pending = False\<rparr>"
  have "post_all [entry_of ?t] (inv_abs db) = Some (inv_abs db')"
    by (rule inv_abs_post[where w = origin and i = "td_item line"])
       (auto simp: ship_line_Inr[OF assms])
  then show ?thesis by blast
qed

interpretation ship: stock_mover "ship_line tid origin u" inv_abs for tid origin u
  by unfold_locales (rule ship_line_posts)

lemma receive_line_posts:
  "post_all [\<lparr>en_cell = (dest, tl_item line), en_type = TRANSFER_IN, en_qty = tl_qty line,
        en_prev = stock_qty dest (tl_item line) db,
        en_new = stock_qty dest (tl_item line) db + tl_qty line\<rparr>] (inv_abs db)
     = Some (inv_abs (receive_line rnd4 tid dest u line db))"
proof -
  have "bal (inv_abs (receive_line rnd4 tid dest u line db)) =
      (bal (inv_abs db))((dest, tl_item line) := stock_qty dest (tl_item line) db + tl_qty line)"
    by (auto simp: inv_abs_def fun_eq_iff receive_line_qty)
  then have "inv_abs (receive_line rnd4 tid dest u line db) =
      \<lparr>bal = (bal (inv_abs db))((dest, tl_item line) := stock_qty dest (tl_item line) db + tl_qty line),
       book = book (inv_abs db) @ [\<lparr>en_cell = (dest, tl_item line), en_type = TRANSFER_IN,
         en_qty = tl_qty line, en_prev = stock_qty dest (tl_item line) db,
         en_new = stock_qty dest (tl_item line) db + tl_qty line\<rparr>]\<rparr>"
    by (simp add: ledger.equality receive_line_entries)
  then show ?thesis by (simp add: post_def entry_delta_def)
qed

interpretation receive: stock_mover "\<lambda>line d. Inr (receive_line rnd4 tid dest u line d)" inv_abs
  for rnd4 tid dest u
  by unfold_locales (use receive_line_posts in blast)

lemma executeTransfer_InrE:
  assumes "executeTransfer dto u newId db = Inr db'"
  obtains origin dest where
    "userHasPermission (Some u) ''inventory:transfer:create''" "acting_user_id u \<noteq> []"
    "td_origin dto \<noteq> td_dest dto" "td_lines dto \<noteq> []"
    "\<And>l. l \<in> set (td_lines dto) \<Longrightarrow> 0 < td_qty l"
    "tenant_warehouse (td_origin dto) (user_tenant u) db = Some origin"
    "tenant_warehouse (td_dest dto) (user_tenant u) db = Some dest"
    "wh_id origin = td_origin dto" "wh_id dest = td_dest dto"
    "canAccessContract u (wh_contract origin)" "canAccessContract u (wh_contract dest)"
    "for_each (ship_line newId (td_origin dto) u) (td_lines dto)
           (db\<lparr>transfers := transfers db @
              [\<lparr>tr_id = newId, tr_tenant = user_tenant u, tr_origin = td_origin dto,
                tr_dest = td_dest dto, tr_status = SHIPPED, tr_by = acting_user_id u,
                tr_lines = []\<rparr>]\<rparr>) = Inr db'"
proof -
  obtain origin dest where w: "tenant_warehouse (td_origin dto) (user_tenant u) db = Some origin"
    "tenant_warehouse (td_dest dto) (user_tenant u) db = Some dest"
    using assms
    by (auto simp: executeTransfer_def and_then_eq_Inr split: if_splits option.splits)
  then have ids: "wh_id origin = td_origin dto" "wh_id dest = td_dest dto"
    by (auto simp: tenant_warehouse_def dest: find_row_SomeD)
  show ?thesis
    by (rule that[OF _ _ _ _ _ w ids])
       (use assms w ids in \<open>auto simp: executeTransfer_def and_then_eq_Inr assertCanCreateTransfer_def
          list_ex_iff not_le split: if_splits\<close>)
qed

lemma executeTransfer_posts:
  assumes "executeTransfer dto u newId db = Inr db'"
  shows "\<exists>es. post_all es (inv_abs db) = Some (inv_abs db')"
proof -
  obtain t where "for_each (ship_line newId (td_origin dto) u) (td_lines dto)
      (db\<lparr>transfers := transfers db @ [t]\<rparr>) = Inr db'"
    using assms by (rule executeTransfer_InrE)
  moreover have "inv_abs (db\<lparr>transfers := transfers db @ [t]\<rparr>) = inv_abs db"
    by (rule inv_abs_cong) simp_all
  ultimately show ?thesis using ship.many_posts by metis
qed

lemma confirmReception_InrE:
  assumes "confirmReception rnd4 tid u db = Inr db'"
  obtains t dest db1 where
    "acting_user_id u \<noteq> []"
    "find_row (\<lambda>t. tr_id t = tid \<and> tr_tenant t = user_tenant u) (transfers db) = Some t"
    "tr_id t = tid" "tr_status t = SHIPPED"
    "find_row (\<lambda>w. wh_id w = tr_dest t) (warehouses db) = Some dest" "wh_id dest = tr_dest t"
    "canAccessContract u (wh_contract dest)"
    "for_each (\<lambda>line d. Inr (receive_line rnd4 tid (tr_dest t) u line d)) (tr_lines t) db = Inr db1"
    "db' = db1\<lparr>transfers := update_rows (\<lambda>x. tr_id x = tid) (\<lambda>x. x\<lparr>tr_status := COMPLETED\<rparr>)
       (transfers db1)\<rparr>"
proof -
  obtain t dest where w: "find_row (\<lambda>t. tr_id t = tid \<and> tr_tenant t = user_tenant u) (transfers db) = Some t"
    "find_row (\<lambda>w. wh_id w = tr_dest t) (warehouses db) = Some dest"
    using assms
    by (auto simp: confirmReception_def and_then_eq_Inr split: if_splits option.splits)
  then have ids: "tr_id t = tid" "wh_id dest = tr_dest t"
    by (auto dest: find_row_SomeD)
  show ?thesis
    using assms w ids that
    by (auto simp: confirmReception_def and_then_eq_Inr split: if_splits)
qed

lemma confirmReception_posts:
  assumes "confirmReception rnd4 tid u db = Inr db'"
  shows "\<exists>es. post_all es (inv_abs db) = Some (inv_abs db')"
proof -
  obtain t :: transfer and db1 where r: "for_each (\<lambda>line d. Inr (receive_line rnd4 tid (tr_dest t) u line d))
      (tr_lines t) db = Inr db1"
    and db': "db' = db1\<lparr>transfers := update_rows (\<lambda>x. tr_id x = tid)
       (\<lambda>x. x\<lparr>tr_status := COMPLETED\<rparr>) (transfers db1)\<rparr>"
    using assms by (rule confirmReception_InrE) blast
  have "inv_abs db' = inv_abs db1" unfolding db' by (rule inv_abs_cong) simp_all
  with receive.many_posts[OF r] show ?thesis by simp
qed

interpretation transfer_out: stock_mover
  "\<lambda>(dto, u, newId). executeTransfer dto u newId" inv_abs
  by unfold_locales (auto intro: executeTransfer_posts)

interpretation transfer_in: stock_mover
  "\<lambda>(rnd4, tid, u). confirmReception rnd4 tid u" inv_abs
  by unfold_locales (auto intro: confirmReception_posts)

section \<open>Goods in transit\<close>

text \<open>The quantity of an item on transfers that were shipped and not received.\<close>

definition line_qty :: "id \<Rightarrow> transfer \<Rightarrow> qty" where
  "line_qty i t = sum_rows (\<lambda>l. tl_item l = i) tl_qty (tr_lines t)"

definition in_transit :: "id \<Rightarrow> 'a inv_db_scheme \<Rightarrow> qty" where
  "in_transit i db = sum_rows (\<lambda>t. tr_status t = SHIPPED) (line_qty i) (transfers db)"

definition requested_qty :: "id \<Rightarrow> transfer_line_dto list \<Rightarrow> qty" where
  "requested_qty i ls = sum_rows (\<lambda>l. td_item l = i) td_qty ls"

lemma requested_qty_sum:
  "requested_qty i ls = sum_list (map (\<lambda>l. if td_item l = i then td_qty l else 0) ls)"
  by (induction ls) (auto simp: requested_qty_def)

lemma sum_line_upd:
  "sum_rows q f (update_rows p g rows) = sum_rows q f rows"
  if "\<forall>r \<in> set rows. \<not> p r"
  using that by (induction rows) auto

lemma ship_all:
  assumes "for_each (ship_line tid origin u) ls db = Inr db'"
    and "transfers db = ts @ [t]" and "tr_id t = tid" and "tr_status t = SHIPPED"
    and "\<forall>x \<in> set ts. tr_id x \<noteq> tid"
  shows "stock_qty origin i db' = stock_qty origin i db - requested_qty i ls"
    and "w \<noteq> origin \<Longrightarrow> stock_qty w i db' = stock_qty w i db"
    and "in_transit i db' = in_transit i db + requested_qty i ls"
    and "\<exists>t'. transfers db' = ts @ [t'] \<and> tr_id t' = tid \<and> tr_status t' = SHIPPED
           \<and> tr_tenant t' = tr_tenant t \<and> tr_dest t' = tr_dest t \<and> tr_origin t' = tr_origin t
           \<and> line_qty i t' = line_qty i t + requested_qty i ls"
proof -
  let ?P = "\<lambda>d. \<exists>t'. transfers d = ts @ [t'] \<and> tr_id t' = tid \<and> tr_status t' = SHIPPED
     \<and> tr_tenant t' = tr_tenant t \<and> tr_dest t' = tr_dest t \<and> tr_origin t' = tr_origin t
     \<and> in_transit i d = sum_rows (\<lambda>t. tr_status t = SHIPPED) (line_qty i) ts + line_qty i t'"
  have start: "?P db" using assms(2-4) by (auto simp: in_transit_def)
  have step: "?P d' \<and> stock_qty origin i d' = stock_qty origin i d + - (if td_item l = i then td_qty l else 0)
      \<and> in_transit i d' = in_transit i d + (if td_item l = i then td_qty l else 0)"
    if P: "?P d" and s: "ship_line tid origin u l d = Inr d'" for l d d'
  proof -
    from P obtain t' where t': "transfers d = ts @ [t']" "tr_id t' = tid" "tr_status t' = SHIPPED"
      "tr_tenant t' = tr_tenant t" "tr_dest t' = tr_dest t" "tr_origin t' = tr_origin t" by blast
    have skip: "update_rows (\<lambda>t. tr_id t = tid) f ts = ts" for f
      using assms(5) by (induction ts) auto
    let ?l = "\<lparr>tl_item = td_item l, tl_qty = td_qty l, tl_cost = stock_cost origin (td_item l) d\<rparr>"
    have tr: "transfers d' = ts @ [t'\<lparr>tr_lines := tr_lines t' @ [?l]\<rparr>]"
      using t' unfolding ship_line_Inr(4)[OF s] by (simp add: update_rows_append skip)
    have "in_transit i d' = in_transit i d + (if td_item l = i then td_qty l else 0)"
      using t' by (simp add: in_transit_def tr line_qty_def)
    moreover have "?P d'"
      using t' by (intro exI[of _ "t'\<lparr>tr_lines := tr_lines t' @ [?l]\<rparr>"])
        (simp add: in_transit_def tr)
    ultimately show ?thesis by (auto simp: ship_line_Inr(2)[OF s])
  qed
  have "?P db' \<and> stock_qty origin i db' = stock_qty origin i db +
      sum_list (map (\<lambda>l. - (if td_item l = i then td_qty l else 0)) ls)"
    by (rule for_each_sum[OF assms(1), where P = ?P and m = "stock_qty origin i"])
       (use start step in blast)+
  moreover have "?P db' \<and> in_transit i db' = in_transit i db +
      sum_list (map (\<lambda>l. if td_item l = i then td_qty l else 0) ls)"
    by (rule for_each_sum[OF assms(1), where P = ?P and m = "in_transit i"])
       (use start step in blast)+
  moreover have "sum_list (map (\<lambda>l. - (if td_item l = i then td_qty l else 0)) ls)
      = - requested_qty i ls"
    by (induction ls) (auto simp: requested_qty_def)
  ultimately show "stock_qty origin i db' = stock_qty origin i db - requested_qty i ls"
    and tr: "in_transit i db' = in_transit i db + requested_qty i ls"
    by (simp_all add: requested_qty_sum)
  from \<open>?P db' \<and> in_transit i db' = _\<close> start tr
  show "\<exists>t'. transfers db' = ts @ [t'] \<and> tr_id t' = tid \<and> tr_status t' = SHIPPED
       \<and> tr_tenant t' = tr_tenant t \<and> tr_dest t' = tr_dest t \<and> tr_origin t' = tr_origin t
       \<and> line_qty i t' = line_qty i t + requested_qty i ls"
    using assms(2,4) by (auto simp: in_transit_def)
  show "stock_qty w i db' = stock_qty w i db" if w: "w \<noteq> origin"
    by (rule for_each_invariant[OF assms(1), where P = "\<lambda>d. stock_qty w i d = stock_qty w i db"])
       (simp_all add: ship_line_Inr(2) w)
qed

lemma ship_nonneg:
  assumes "for_each (ship_line tid origin u) ls db = Inr db'" and "l \<in> set ls"
  shows "\<not> isStockQtyNegative (stock_qty origin (td_item l) db')"
  using assms
proof (induction ls arbitrary: db)
  case Nil
  then show ?case by simp
next
  case (Cons x xs)
  then obtain d where s: "ship_line tid origin u x db = Inr d"
    and r: "for_each (ship_line tid origin u) xs d = Inr db'"
    by (auto simp: and_then_eq_Inr)
  show ?case
  proof (cases "\<exists>y \<in> set xs. td_item y = td_item l")
    case True
    then obtain y where "y \<in> set xs" and "td_item y = td_item l" by blast
    with Cons.IH[OF r] Cons.prems(2) show ?thesis
    proof (cases "l \<in> set xs")
      case False
      with Cons.prems(2) have "l = x" by simp
      show ?thesis
      proof (rule for_each_invariant[OF r,
          where P = "\<lambda>d. \<not> isStockQtyNegative (stock_qty origin (td_item l) d)"])
        show "\<not> isStockQtyNegative (stock_qty origin (td_item l) d)"
          using ship_line_Inr(1,2)[OF s] \<open>l = x\<close> by simp
        show "\<not> isStockQtyNegative (stock_qty origin (td_item l) d2)"
          if "\<not> isStockQtyNegative (stock_qty origin (td_item l) d1)"
            and "ship_line tid origin u z d1 = Inr d2" for z d1 d2
          using that ship_line_Inr(1,2)[OF that(2)] by auto
      qed
    qed simp
  next
    case False
    with Cons.prems(2) have "l = x" by auto
    show ?thesis
    proof (rule for_each_invariant[OF r,
        where P = "\<lambda>d. \<not> isStockQtyNegative (stock_qty origin (td_item l) d)"])
      show "\<not> isStockQtyNegative (stock_qty origin (td_item l) d)"
        using ship_line_Inr(1,2)[OF s] \<open>l = x\<close> by simp
      show "\<not> isStockQtyNegative (stock_qty origin (td_item l) d2)"
        if "\<not> isStockQtyNegative (stock_qty origin (td_item l) d1)"
          and "ship_line tid origin u z d1 = Inr d2" for z d1 d2
        using that ship_line_Inr(1,2)[OF that(2)] by auto
    qed
  qed
qed

lemma receive_all:
  assumes "for_each (\<lambda>line d. Inr (receive_line rnd4 tid dest u line d)) ls db = Inr db'"
  shows "stock_qty w i db' = stock_qty w i db +
           (if w = dest then sum_rows (\<lambda>l. tl_item l = i) tl_qty ls else 0)"
    and "transfers db' = transfers db" and "warehouses db' = warehouses db"
proof -
  have "transfers db' = transfers db \<and> stock_qty w i db' = stock_qty w i db +
      sum_list (map (\<lambda>l. if w = dest \<and> tl_item l = i then tl_qty l else 0) ls)"
    by (rule for_each_sum[OF assms, where P = "\<lambda>d. transfers d = transfers db" and m = "stock_qty w i"])
       (auto simp: receive_line_qty)
  moreover have "sum_list (map (\<lambda>l. if w = dest \<and> tl_item l = i then tl_qty l else 0) ls)
      = (if w = dest then sum_rows (\<lambda>l. tl_item l = i) tl_qty ls else 0)"
    by (induction ls) auto
  ultimately show "stock_qty w i db' = stock_qty w i db +
      (if w = dest then sum_rows (\<lambda>l. tl_item l = i) tl_qty ls else 0)"
    and "transfers db' = transfers db" by simp_all
  show "warehouses db' = warehouses db"
    by (rule for_each_invariant[OF assms, where P = "\<lambda>d. warehouses d = warehouses db"]) auto
qed

lemma complete_transit:
  assumes "find_row (\<lambda>x. tr_id x = tid \<and> tr_tenant x = ten) ts = Some t"
    and "tr_status t = SHIPPED" and "distinct (map tr_id ts)"
  shows "sum_rows (\<lambda>t. tr_status t = SHIPPED) (line_qty i)
      (update_rows (\<lambda>x. tr_id x = tid) (\<lambda>x. x\<lparr>tr_status := COMPLETED\<rparr>) ts)
    = sum_rows (\<lambda>t. tr_status t = SHIPPED) (line_qty i) ts - line_qty i t"
  using assms
proof (induction ts)
  case Nil
  then show ?case by simp
next
  case (Cons x ts)
  show ?case
  proof (cases "tr_id x = tid")
    case True
    with Cons.prems(3) have "tid \<notin> tr_id ` set ts" by simp
    then have "\<forall>r \<in> set ts. tr_id r \<noteq> tid" by blast
    then have "find_row (\<lambda>x. tr_id x = tid \<and> tr_tenant x = ten) ts = None"
      by (auto simp: find_row_None_iff)
    with Cons.prems(1) True have "x = t" by (auto split: if_splits)
    with True Cons.prems(2) \<open>\<forall>r \<in> set ts. tr_id r \<noteq> tid\<close> show ?thesis
      by (simp add: sum_line_upd)
  next
    case False
    with Cons show ?thesis by simp
  qed
qed

lemma completed_after:
  "\<forall>x \<in> set (update_rows (\<lambda>x. tr_id x = tid) (\<lambda>x. x\<lparr>tr_status := COMPLETED\<rparr>) ts).
     tr_id x = tid \<longrightarrow> tr_status x = COMPLETED"
  by (induction ts) simp_all

lemma confirm_refused:
  assumes "\<And>x. find_row (\<lambda>x. tr_id x = tid \<and> tr_tenant x = user_tenant u) (transfers db) = Some x
      \<Longrightarrow> tr_status x \<noteq> SHIPPED"
  shows "\<exists>e. confirmReception rnd4 tid u db = Inl e"
  using assms
  by (cases "find_row (\<lambda>x. tr_id x = tid \<and> tr_tenant x = user_tenant u) (transfers db)")
     (simp_all add: confirmReception_def)

section \<open>Properties\<close>

text \<open>The request of the witnesses: four units of the item from the first to the second warehouse.\<close>

definition small_transfer :: transfer_dto where
  "small_transfer = \<lparr>td_origin = ''w1'', td_dest = ''w2'', td_lines = [\<lparr>td_item = ''i1'', td_qty = 4\<rparr>]\<rparr>"

definition mover :: user where
  "mover = plain_user\<lparr>user_permissions := Some [''inventory:transfer:create'']\<rparr>"

lemma mover_simps [simp]:
  "acting_user_id mover = ''u1''" "user_tenant mover = ''t''"
  "userHasPermission (Some mover) ''inventory:transfer:create''"
  "canAccessContract mover ''c1''" "canAccessContract mover ''c2''"
  by (simp_all add: mover_def plain_user_def acting_user_id_def userHasPermission_def
      userHasGlobalRoleBypass_def resolveUserPermissions_def canAccessContract_def)

lemma small_ships: "\<exists>db'. executeTransfer small_transfer mover ''x1'' small_db = Inr db'"
  by (simp add: executeTransfer_def assertCanCreateTransfer_def small_transfer_def ship_line_def
      find_item_def small_db_def tenant_warehouse_def is_integer_def stock_qty_def find_stock_def
      qty_defs STOCK_QTY_EPSILON_def update_row_def)

text \<open>
  C9. Shipping a transfer conserves the goods: for every item, the quantity at the origin plus
  the quantity in transit is what it was; no other warehouse changes; and no shipped item is left
  below zero at the origin. (\<open>newId\<close> is fresh, as a primary key is.)
\<close>

theorem shipping_conserves_goods:
  assumes "executeTransfer dto u newId db = Inr db'"
    and "newId \<notin> tr_id ` set (transfers db)"
  shows "stock_qty (td_origin dto) i db' + in_transit i db'
           = stock_qty (td_origin dto) i db + in_transit i db
    \<and> stock_qty (td_origin dto) i db' = stock_qty (td_origin dto) i db - requested_qty i (td_lines dto)
    \<and> (w = td_origin dto \<or> stock_qty w i db' = stock_qty w i db)
    \<and> (\<forall>l \<in> set (td_lines dto). \<not> isStockQtyNegative (stock_qty (td_origin dto) (td_item l) db'))"
proof -
  obtain t :: transfer where r: "for_each (ship_line newId (td_origin dto) u) (td_lines dto)
      (db\<lparr>transfers := transfers db @ [t]\<rparr>) = Inr db'"
    and t: "tr_id t = newId" "tr_status t = SHIPPED" "tr_lines t = []"
    using assms(1) by (rule executeTransfer_InrE) force
  have c: "stock_qty w i (db\<lparr>transfers := ts\<rparr>) = stock_qty w i db" for w i ts
    by (rule stock_qty_cong) simp
  have fresh: "\<forall>x \<in> set (transfers db). tr_id x \<noteq> newId" using assms(2) by auto
  note all = ship_all[OF r _ t(1,2) fresh, simplified, unfolded c]
  have "in_transit i (db\<lparr>transfers := transfers db @ [t]\<rparr>) = in_transit i db"
    using t by (simp add: in_transit_def line_qty_def)
  with all(1)[of i] all(3)[of i]
  have "stock_qty (td_origin dto) i db' + in_transit i db'
      = stock_qty (td_origin dto) i db + in_transit i db" by simp
  with all(1)[of i] all(2)[of w i] ship_nonneg[OF r] show ?thesis by auto
qed

lemma shipping_conserves_goods_witness:
  "\<exists>db'. executeTransfer small_transfer mover ''x1'' small_db = Inr db'
     \<and> stock_qty ''w1'' ''i1'' db' = 6 \<and> in_transit ''i1'' db' = 4"
proof -
  obtain db' where d: "executeTransfer small_transfer mover ''x1'' small_db = Inr db'"
    using small_ships by blast
  have fresh: "''x1'' \<notin> tr_id ` set (transfers small_db)" by (simp add: small_db_def)
  have "in_transit ''i1'' small_db = 0" by (simp add: in_transit_def small_db_def)
  with d shipping_conserves_goods[OF d fresh, of "''i1''" "''w1''"] show ?thesis
    by (simp add: small_transfer_def requested_qty_def)
qed

text \<open>
  C10. Receiving a transfer conserves the goods and happens once: a reception that succeeds found
  the transfer SHIPPED, moves the goods in transit to the destination item by item, changes no
  other warehouse, and leaves the transfer completed, so that every later reception of it is
  refused, whoever asks. (Transfer ids are distinct, as a primary key is.)
\<close>

theorem reception_conserves_goods_once:
  assumes "confirmReception rnd4 tid u db = Inr db'" and "distinct (map tr_id (transfers db))"
  shows "\<exists>t \<in> set (transfers db). tr_id t = tid \<and> tr_tenant t = user_tenant u \<and> tr_status t = SHIPPED
    \<and> stock_qty (tr_dest t) i db' = stock_qty (tr_dest t) i db + line_qty i t
    \<and> stock_qty (tr_dest t) i db' + in_transit i db' = stock_qty (tr_dest t) i db + in_transit i db
    \<and> (w = tr_dest t \<or> stock_qty w i db' = stock_qty w i db)
    \<and> (\<exists>e. confirmReception rnd4' tid u' db' = Inl e)"
proof -
  obtain t :: transfer and dest db1 where
    f: "find_row (\<lambda>t. tr_id t = tid \<and> tr_tenant t = user_tenant u) (transfers db) = Some t"
    and t: "tr_id t = tid" "tr_status t = SHIPPED"
    and r: "for_each (\<lambda>line d. Inr (receive_line rnd4 tid (tr_dest t) u line d)) (tr_lines t) db = Inr db1"
    and db': "db' = db1\<lparr>transfers := update_rows (\<lambda>x. tr_id x = tid) (\<lambda>x. x\<lparr>tr_status := COMPLETED\<rparr>)
       (transfers db1)\<rparr>"
    using assms(1) by (rule confirmReception_InrE) blast
  note all = receive_all[OF r]
  have q: "stock_qty w i db' = stock_qty w i db + (if w = tr_dest t then line_qty i t else 0)" for w
  proof -
    have "stock_qty w i db' = stock_qty w i db1" unfolding db' by (rule stock_qty_cong) simp
    with all(1)[of w i] show ?thesis by (simp add: line_qty_def)
  qed
  have tr: "in_transit i db' = in_transit i db - line_qty i t"
    using complete_transit[OF f t(2) assms(2), of i] by (simp add: in_transit_def db' all(2))
  have "find_row (\<lambda>x. tr_id x = tid \<and> tr_tenant x = ten) (transfers db') = Some x
      \<Longrightarrow> tr_status x = COMPLETED" for x ten
    using completed_after[of tid "transfers db1"]
    by (auto simp: db' dest!: find_row_SomeD)
  then have "\<exists>e. confirmReception rnd4' tid u' db' = Inl e"
    by (intro confirm_refused) auto
  moreover have "t \<in> set (transfers db)" and "tr_tenant t = user_tenant u"
    using find_row_SomeD[OF f] by auto
  ultimately show ?thesis using t q tr by (intro bexI[of _ t]) auto
qed

lemma small_round_trip:
  "\<exists>db1 db2. executeTransfer small_transfer mover ''x1'' small_db = Inr db1
     \<and> confirmReception half_up4 ''x1'' mover db1 = Inr db2"
  by (simp add: executeTransfer_def assertCanCreateTransfer_def small_transfer_def ship_line_def
      find_item_def small_db_def tenant_warehouse_def is_integer_def stock_qty_def find_stock_def
      qty_defs STOCK_QTY_EPSILON_def update_row_def confirmReception_def)

lemma reception_conserves_goods_once_witness:
  "\<exists>db1 db2 t. executeTransfer small_transfer mover ''x1'' small_db = Inr db1
     \<and> confirmReception half_up4 ''x1'' mover db1 = Inr db2
     \<and> t \<in> set (transfers db1)
     \<and> stock_qty (tr_dest t) ''i1'' db2 = stock_qty (tr_dest t) ''i1'' db1 + line_qty ''i1'' t
     \<and> (\<exists>e. confirmReception half_up4 ''x1'' mover db2 = Inl e)"
proof -
  obtain db1 db2 where d: "executeTransfer small_transfer mover ''x1'' small_db = Inr db1"
    "confirmReception half_up4 ''x1'' mover db1 = Inr db2"
    using small_round_trip by blast
  obtain t :: transfer where r: "for_each (ship_line ''x1'' (td_origin small_transfer) mover)
      (td_lines small_transfer) (small_db\<lparr>transfers := transfers small_db @ [t]\<rparr>) = Inr db1"
    and t: "tr_id t = ''x1''" "tr_status t = SHIPPED"
    using d(1) by (rule executeTransfer_InrE) force
  have "transfers small_db = []" by (simp add: small_db_def)
  with ship_all(4)[OF r _ t] have "distinct (map tr_id (transfers db1))" by fastforce
  from reception_conserves_goods_once[OF d(2) this] d show ?thesis by blast
qed

text \<open>
  C11. A transfer shipped and then received moves the requested quantities: the destination gains
  and the origin loses exactly what was requested of each item, nothing stays in transit that was
  not there before, and the two warehouses together hold what they held.
\<close>

theorem transfer_round_trip:
  assumes "executeTransfer dto u newId db = Inr db1" and "confirmReception rnd4 newId u' db1 = Inr db2"
    and "distinct (map tr_id (transfers db))" and "newId \<notin> tr_id ` set (transfers db)"
  shows "stock_qty (td_dest dto) i db2 = stock_qty (td_dest dto) i db + requested_qty i (td_lines dto)
    \<and> stock_qty (td_origin dto) i db2 = stock_qty (td_origin dto) i db - requested_qty i (td_lines dto)
    \<and> in_transit i db2 = in_transit i db
    \<and> stock_qty (td_origin dto) i db2 + stock_qty (td_dest dto) i db2
        = stock_qty (td_origin dto) i db + stock_qty (td_dest dto) i db"
proof -
  obtain t :: transfer where r: "for_each (ship_line newId (td_origin dto) u) (td_lines dto)
      (db\<lparr>transfers := transfers db @ [t]\<rparr>) = Inr db1"
    and t: "tr_id t = newId" "tr_status t = SHIPPED" "tr_lines t = []" "tr_dest t = td_dest dto"
    and ne: "td_origin dto \<noteq> td_dest dto"
    using assms(1) by (rule executeTransfer_InrE) force
  have c: "stock_qty w i (db\<lparr>transfers := ts\<rparr>) = stock_qty w i db" for w ts
    by (rule stock_qty_cong) simp
  have fresh: "\<forall>x \<in> set (transfers db). tr_id x \<noteq> newId" using assms(4) by auto
  note all = ship_all[OF r _ t(1,2) fresh, where i = i, simplified, unfolded c]
  have it: "in_transit i (db\<lparr>transfers := transfers db @ [t]\<rparr>) = in_transit i db"
    using t by (simp add: in_transit_def line_qty_def)
  obtain t' where t': "transfers db1 = transfers db @ [t']" "tr_id t' = newId" "tr_status t' = SHIPPED"
    "tr_dest t' = td_dest dto" "line_qty i t' = requested_qty i (td_lines dto)"
    using all(4) t by (auto simp: line_qty_def)
  obtain t2 :: transfer and db3 where
    f: "find_row (\<lambda>t. tr_id t = newId \<and> tr_tenant t = user_tenant u') (transfers db1) = Some t2"
    and r2: "for_each (\<lambda>line d. Inr (receive_line rnd4 newId (tr_dest t2) u' line d)) (tr_lines t2) db1 = Inr db3"
    and db2: "db2 = db3\<lparr>transfers := update_rows (\<lambda>x. tr_id x = newId) (\<lambda>x. x\<lparr>tr_status := COMPLETED\<rparr>)
       (transfers db3)\<rparr>"
    using assms(2) by (rule confirmReception_InrE) blast
  have t2: "t2 = t'" using find_row_SomeD[OF f] t' fresh by auto
  note all2 = receive_all(1)[OF r2, where i = i, unfolded t2] receive_all(2)[OF r2]
  have q: "stock_qty w i db2 = stock_qty w i db1 + (if w = td_dest dto then requested_qty i (td_lines dto) else 0)" for w
  proof -
    have "stock_qty w i db2 = stock_qty w i db3" unfolding db2 by (rule stock_qty_cong) simp
    then show ?thesis using all2(1)[where w = w] t' by (simp add: line_qty_def)
  qed
  have "distinct (map tr_id (transfers db1))" using assms(3,4) t' by auto
  from complete_transit[OF f _ this, of i]
  have "in_transit i db2 = in_transit i db1 - requested_qty i (td_lines dto)"
    using t' t2 all2(2) by (simp add: in_transit_def db2)
  with q all ne it show ?thesis by simp
qed

lemma transfer_round_trip_witness:
  "\<exists>db1 db2. executeTransfer small_transfer mover ''x1'' small_db = Inr db1
     \<and> confirmReception half_up4 ''x1'' mover db1 = Inr db2
     \<and> stock_qty ''w2'' ''i1'' db2 = 4 \<and> stock_qty ''w1'' ''i1'' db2 = 6"
proof -
  obtain db1 db2 where d: "executeTransfer small_transfer mover ''x1'' small_db = Inr db1"
    "confirmReception half_up4 ''x1'' mover db1 = Inr db2"
    using small_round_trip by blast
  have ids: "distinct (map tr_id (transfers small_db))" "''x1'' \<notin> tr_id ` set (transfers small_db)"
    by (simp_all add: small_db_def)
  from transfer_round_trip[OF d ids, of "''i1''"] d show ?thesis
    by (auto simp: small_transfer_def requested_qty_def)
qed

end
