(* ===== verification/Inventory_System.thy ===== *)
theory Inventory_System
  imports Adjustment Transfers
begin

text \<open>
  The inventory as one system: every operation of the stock, transfer, receipt and adjustment
  services as a step on the same tables, and what holds in every state they reach together: the
  book of transactions accounts for every balance, the regularisation flags mark exactly the
  negative balances, no more returns from the field than was dispatched, and no more comes back
  from a work order than it consumed. Last, the row of the Excel import that writes stock without
  the stock service.
\<close>

section \<open>What an operation appends\<close>

definition plain_tx :: "inv_tx \<Rightarrow> inv_tx" where
  "plain_tx t = t\<lparr>tx_pending := False\<rparr>"

definition appends :: "inv_tx list \<Rightarrow> 'a inv_db_scheme \<Rightarrow> 'a inv_db_scheme \<Rightarrow> bool" where
  "appends ts db db' \<longleftrightarrow>
     map plain_tx (txs db') = map plain_tx (txs db) @ map plain_tx ts \<and> warehouses db' = warehouses db"

text \<open>Operations whose transactions concern neither the field nor a work order.\<close>

definition quiet_types :: "tx_type set" where
  "quiet_types = {ADJUST, PURCHASE_RECEIPT, TRANSFER_OUT, TRANSFER_IN}"

definition quiet :: "'a inv_db_scheme \<Rightarrow> 'a inv_db_scheme \<Rightarrow> bool" where
  "quiet db db' \<longleftrightarrow>
     take (length (txs db)) (map plain_tx (txs db')) = map plain_tx (txs db)
     \<and> list_all (\<lambda>t. tx_type t \<in> quiet_types) (drop (length (txs db)) (map plain_tx (txs db')))
     \<and> warehouses db' = warehouses db"

lemma plain_tx_simps [simp]:
  "tx_type (plain_tx t) = tx_type t" "tx_wh (plain_tx t) = tx_wh t" "tx_item (plain_tx t) = tx_item t"
  "tx_qty (plain_tx t) = tx_qty t" "tx_ref (plain_tx t) = tx_ref t" "tx_ref_type (plain_tx t) = tx_ref_type t"
  "plain_tx (plain_tx t) = plain_tx t" "plain_tx (t\<lparr>tx_pending := b\<rparr>) = plain_tx t"
  by (simp_all add: plain_tx_def)

lemma plain_clear [simp]: "map plain_tx (txs (clear_pending w i db)) = map plain_tx (txs db)"
  by (simp add: clear_pending_def update_rows_def)

lemma plain_clear_flags [simp]:
  "map plain_tx (txs (clearPendingRegularizationFlags w i q db)) = map plain_tx (txs db)"
  by (simp add: clearPendingRegularizationFlags_def)

lemma quiet_iff:
  "quiet db db' \<longleftrightarrow> (\<exists>ts. appends ts db db' \<and> (\<forall>t \<in> set ts. tx_type t \<in> quiet_types))"
proof
  assume q: "quiet db db'"
  let ?ts = "drop (length (txs db)) (map plain_tx (txs db'))"
  have "map plain_tx (txs db') = take (length (txs db)) (map plain_tx (txs db')) @ ?ts" by simp
  then have "map plain_tx (txs db') = map plain_tx (txs db) @ ?ts" using q unfolding quiet_def by metis
  moreover have "map plain_tx ?ts = ?ts" by (simp add: drop_map comp_def)
  ultimately have "appends ?ts db db'" using q by (simp add: appends_def quiet_def)
  with q show "\<exists>ts. appends ts db db' \<and> (\<forall>t \<in> set ts. tx_type t \<in> quiet_types)"
    by (auto simp: quiet_def list_all_iff simp del: drop_map)
next
  assume "\<exists>ts. appends ts db db' \<and> (\<forall>t \<in> set ts. tx_type t \<in> quiet_types)"
  then obtain ts where ts: "map plain_tx (txs db') = map plain_tx (txs db) @ map plain_tx ts"
    "warehouses db' = warehouses db" "\<forall>t \<in> set ts. tx_type t \<in> quiet_types"
    by (auto simp: appends_def)
  show "quiet db db'" unfolding quiet_def ts(1) using ts(2,3) by (auto simp: list_all_iff)
qed

lemma appends_trans: "appends ts a b \<Longrightarrow> appends us b c \<Longrightarrow> appends (ts @ us) a c"
  by (simp add: appends_def)

lemma quiet_refl: "quiet db db"
  by (simp add: quiet_def)

lemma quiet_trans: "quiet a b \<Longrightarrow> quiet b c \<Longrightarrow> quiet a c"
  unfolding quiet_iff using appends_trans by (metis UnE set_append)

lemma quiet_same: "txs db' = txs db \<Longrightarrow> warehouses db' = warehouses db \<Longrightarrow> quiet db db'"
  by (simp add: quiet_def)

lemma quiet_loop:
  assumes "for_each f xs s = Inr s'" and "\<And>x s s'. f x s = Inr s' \<Longrightarrow> quiet (g s) (g s')"
  shows "quiet (g s) (g s')"
  using assms(1)
  by (rule for_each_related[where R = "\<lambda>s s'. quiet (g s) (g s')"])
     (auto intro: quiet_refl quiet_trans assms(2))

section \<open>The operations\<close>

lemma movement_appends:
  "appends [\<lparr>tx_type = pd_type dto, tx_wh = pd_wh dto, tx_item = pd_item dto, tx_user = acting_user_id u,
     tx_qty = pd_qty dto, tx_prev = stock_qty (pd_wh dto) (pd_item dto) db, tx_new = q,
     tx_ref = or_null (pd_ref dto), tx_ref_type = or_null (pd_ref_type dto), tx_pending = False\<rparr>]
   db (write_movement dto u (q, c, p) db)"
  by (simp add: appends_def write_movement_def Let_def plain_tx_def)

lemma return_appends:
  "appends [\<lparr>tx_type = WORK_ORDER_RETURN, tx_wh = rd_wh dto, tx_item = rd_item dto, tx_user = acting_user_id u,
     tx_qty = rd_qty dto, tx_prev = stock_qty (rd_wh dto) (rd_item dto) db,
     tx_new = stock_qty (rd_wh dto) (rd_item dto) db + rd_qty dto,
     tx_ref = Some (rd_work_order dto), tx_ref_type = Some ''WORK_ORDER'', tx_pending = False\<rparr>]
   db (write_return dto u db)"
  by (simp add: appends_def write_return_def Let_def plain_tx_def)

lemma ship_line_quiet: "ship_line tid origin u line db = Inr db' \<Longrightarrow> quiet db db'"
  by (simp add: quiet_def quiet_types_def ship_line_Inr(3,5))

lemma receive_line_quiet: "quiet db (receive_line rnd4 tid dest u line db)"
  by (simp add: quiet_def quiet_types_def receive_line_def Let_def)

lemma post_receipt_line_quiet: "quiet db (post_receipt_line rnd4 u rid w i delta c db)"
  by (simp add: quiet_def quiet_types_def post_receipt_line_def Let_def)

lemma confirm_line_quiet:
  assumes "confirm_line rnd4 u snap elsewhere it s = Inr s'"
  shows "quiet (fst s) (fst s')"
proof -
  obtain r order tracked where snap: "snap = (r, order, tracked)" by (cases snap) auto
  obtain oi :: order_item and db1 where d: "set_confirmed (ri_id it) (ri_received it) (fst s) = Inr db1"
    "fst s' = (case moved_item (r, order, tracked) it of None \<Rightarrow> db1
       | Some i \<Rightarrow> post_receipt_line rnd4 u (rc_id r) (rc_warehouse r) i (line_delta it)
                     (oi_unit_cost oi) db1)"
    using assms unfolding snap by (rule confirm_line_InrE) blast
  have "quiet (fst s) db1" using set_confirmed_frame(2,3)[OF d(1)] by (rule quiet_same)
  moreover have "quiet db1 (fst s')"
    by (cases "moved_item (r, order, tracked) it") (simp_all add: d(2) quiet_refl post_receipt_line_quiet)
  ultimately show ?thesis by (rule quiet_trans)
qed

lemma executeTransfer_quiet: "executeTransfer dto u newId db = Inr db' \<Longrightarrow> quiet db db'"
proof -
  assume "executeTransfer dto u newId db = Inr db'"
  then obtain t :: transfer where loop: "for_each (ship_line newId (td_origin dto) u) (td_lines dto)
      (db\<lparr>transfers := transfers db @ [t]\<rparr>) = Inr db'" by (rule executeTransfer_InrE)
  have "quiet db (db\<lparr>transfers := transfers db @ [t]\<rparr>)" by (rule quiet_same) simp_all
  also have "quiet \<dots> db'" using quiet_loop[OF loop, of "\<lambda>x. x"] ship_line_quiet by blast
  finally (quiet_trans) show ?thesis .
qed

lemma confirmReception_quiet: "confirmReception rnd4 tid u db = Inr db' \<Longrightarrow> quiet db db'"
proof -
  assume "confirmReception rnd4 tid u db = Inr db'"
  then obtain t :: transfer and db1 where loop: "for_each (\<lambda>line d. Inr (receive_line rnd4 tid (tr_dest t) u line d))
      (tr_lines t) db = Inr db1"
    and db': "db' = db1\<lparr>transfers := update_rows (\<lambda>x. tr_id x = tid)
       (\<lambda>x. x\<lparr>tr_status := COMPLETED\<rparr>) (transfers db1)\<rparr>"
    by (rule confirmReception_InrE) blast
  have "quiet db db1" by (rule quiet_loop[OF loop, of "\<lambda>x. x"]) (auto simp: receive_line_quiet)
  also have "quiet db1 db'" unfolding db' by (rule quiet_same) simp_all
  finally (quiet_trans) show ?thesis .
qed

text \<open>The flags: a balance below zero beyond the tolerance is flagged, a flagged balance is below zero.\<close>

definition flags_ok :: "'a inv_db_scheme \<Rightarrow> bool" where
  "flags_ok db \<longleftrightarrow> (\<forall>w i. (isStockQtyNegative (stock_qty w i db) \<longrightarrow> has_pending w i db)
      \<and> (has_pending w i db \<longrightarrow> stock_qty w i db < 0))"

lemma flags_ok_cell:
  assumes "flags_ok db"
    and "\<And>w' i'. (w', i') \<noteq> (w, i) \<Longrightarrow> stock_qty w' i' db' = stock_qty w' i' db
       \<and> (has_pending w' i' db' \<longleftrightarrow> has_pending w' i' db)"
    and "isStockQtyNegative (stock_qty w i db') \<Longrightarrow> has_pending w i db'"
    and "has_pending w i db' \<Longrightarrow> stock_qty w i db' < 0"
  shows "flags_ok db'"
  unfolding flags_ok_def
proof (intro allI)
  fix w' i'
  show "(isStockQtyNegative (stock_qty w' i' db') \<longrightarrow> has_pending w' i' db')
      \<and> (has_pending w' i' db' \<longrightarrow> stock_qty w' i' db' < 0)"
    by (cases "(w', i') = (w, i)") (use assms in \<open>auto simp: flags_ok_def\<close>)
qed

lemma negative_iff: "isStockQtyNegative q \<longleftrightarrow> q < - (1 / 1000000000)"
  by (simp add: qty_defs STOCK_QTY_EPSILON_def)

lemma flags_ok_cong:
  "stocks db' = stocks db \<Longrightarrow> txs db' = txs db \<Longrightarrow> flags_ok db' = flags_ok db"
  for db :: "'a inv_db_scheme" and db' :: "'b inv_db_scheme"
  by (simp add: flags_ok_def stock_qty_def find_stock_def has_pending_def)

lemma flags_ok_core:
  assumes "performTransactionCore rnd4 dto u db = Inr db'" and "flags_ok db"
  shows "flags_ok db'"
proof -
  obtain q c p where l: "new_levels rnd4 dto u db = Inr (q, c, p)"
    and db': "db' = write_movement dto u (q, c, p) db"
    and q0: "0 < pd_qty dto \<or> pd_type dto = ADJUST"
    using assms(1) by (rule core_InrE) blast
  let ?w = "pd_wh dto" and ?i = "pd_item dto"
  note n = new_levels_Inr[OF l]
  show ?thesis
  proof (rule flags_ok_cell[OF assms(2), of ?w ?i])
    show "stock_qty w' i' db' = stock_qty w' i' db \<and> (has_pending w' i' db' \<longleftrightarrow> has_pending w' i' db)"
      if "(w', i') \<noteq> (?w, ?i)" for w' i'
      using that by (auto simp: db' write_movement_qty write_movement_pending)
    have q: "stock_qty ?w ?i db' = q" by (simp add: db' write_movement_qty)
    show "has_pending ?w ?i db'" if neg: "isStockQtyNegative (stock_qty ?w ?i db')"
    proof (cases "pd_type dto = IN")
      case True
      then have "isStockQtyNegative (stock_qty ?w ?i db)"
        using neg n(1) q0 by (simp add: q negative_iff)
      then show ?thesis using assms(2) neg q by (auto simp: db' write_movement_pending flags_ok_def)
    next
      case False
      then show ?thesis using neg n(3) q by (simp add: db' write_movement_pending)
    qed
    show "stock_qty ?w ?i db' < 0" if "has_pending ?w ?i db'"
      using that q by (simp add: db' write_movement_pending negative_iff)
  qed
qed

lemma flags_ok_return:
  assumes "performReturn dto u db = Inr db'" and "flags_ok db"
  shows "flags_ok db'"
proof -
  have db': "db' = write_return dto u db" and q: "0 < rd_qty dto" using assms(1) by (auto simp: performReturn_Inr)
  let ?w = "rd_wh dto" and ?i = "rd_item dto"
  show ?thesis
  proof (rule flags_ok_cell[OF assms(2), of ?w ?i])
    show "stock_qty w' i' db' = stock_qty w' i' db \<and> (has_pending w' i' db' \<longleftrightarrow> has_pending w' i' db)"
      if "(w', i') \<noteq> (?w, ?i)" for w' i'
      using that by (auto simp: db' write_return_qty write_return_pending)
    show "has_pending ?w ?i db'" if "isStockQtyNegative (stock_qty ?w ?i db')"
    proof -
      have "stock_qty ?w ?i db + rd_qty dto < - (1 / 1000000000)"
        using that by (simp add: db' write_return_qty negative_iff)
      moreover from this q have "isStockQtyNegative (stock_qty ?w ?i db)" by (simp add: negative_iff)
      ultimately show ?thesis using assms(2) by (auto simp: db' write_return_pending flags_ok_def)
    qed
    show "stock_qty ?w ?i db' < 0" if "has_pending ?w ?i db'"
      using that by (simp add: db' write_return_pending write_return_qty)
  qed
qed

lemma flags_ok_ship_line:
  assumes "ship_line tid origin u line db = Inr db'" and "0 < td_qty line" and "flags_ok db"
  shows "flags_ok db'"
proof -
  note s = ship_line_Inr[OF assms(1)]
  have p: "has_pending w i db' \<longleftrightarrow> has_pending w i db" for w i
    unfolding has_pending_def s(3) by simp
  show ?thesis
  proof (rule flags_ok_cell[OF assms(3), of origin "td_item line"])
    show "stock_qty w' i' db' = stock_qty w' i' db \<and> (has_pending w' i' db' \<longleftrightarrow> has_pending w' i' db)"
      if "(w', i') \<noteq> (origin, td_item line)" for w' i' using that s(2)[of w' i'] p by auto
    show "has_pending origin (td_item line) db'" if "isStockQtyNegative (stock_qty origin (td_item line) db')"
      using that s(1) s(2)[of origin "td_item line"] by simp
    show "stock_qty origin (td_item line) db' < 0" if "has_pending origin (td_item line) db'"
    proof -
      have "stock_qty origin (td_item line) db < 0" using that assms(3) by (simp add: p flags_ok_def)
      then show ?thesis using assms(2) s(2)[of origin "td_item line"] by simp
    qed
  qed
qed

lemma flags_ok_gain:
  assumes "flags_ok db" and "0 \<le> d"
    and "\<And>w' i'. stock_qty w' i' db' = (if (w', i') = (w, i) then stock_qty w' i' db + d else stock_qty w' i' db)"
    and "\<And>w' i'. has_pending w' i' db' \<longleftrightarrow> has_pending w' i' db \<and> ((w', i') = (w, i) \<longrightarrow>
        isStockQtyNegative (stock_qty w' i' db + d))"
  shows "flags_ok db'"
proof (rule flags_ok_cell[OF assms(1), of w i])
  show "stock_qty w' i' db' = stock_qty w' i' db \<and> (has_pending w' i' db' \<longleftrightarrow> has_pending w' i' db)"
    if "(w', i') \<noteq> (w, i)" for w' i' using that assms(3)[of w' i'] assms(4)[of w' i'] by auto
  show "has_pending w i db'" if "isStockQtyNegative (stock_qty w i db')"
  proof -
    have neg: "isStockQtyNegative (stock_qty w i db + d)" using that by (simp add: assms(3))
    then have "isStockQtyNegative (stock_qty w i db)" using assms(2) by (simp add: negative_iff)
    with neg show ?thesis using assms(1) by (auto simp: assms(4) flags_ok_def)
  qed
  show "stock_qty w i db' < 0" if "has_pending w i db'"
    using that by (simp add: assms(3,4) negative_iff)
qed

lemma flags_ok_receive_line:
  assumes "flags_ok db" and "0 \<le> tl_qty line"
  shows "flags_ok (receive_line rnd4 tid dest u line db)"
  by (rule flags_ok_gain[OF assms, of _ dest "tl_item line"])
     (auto simp: receive_line_qty receive_line_pending)

lemma post_receipt_line_pending:
  "has_pending w' i' (post_receipt_line rnd4 u rid w i delta c db) \<longleftrightarrow>
      has_pending w' i' db \<and> ((w', i') = (w, i) \<longrightarrow> isStockQtyNegative (stock_qty w' i' db + delta))"
  by (auto simp: post_receipt_line_def Let_def clearPendingRegularizationFlags_def has_pending_clear)

lemma flags_ok_post_receipt_line:
  assumes "flags_ok db" and "0 \<le> delta"
  shows "flags_ok (post_receipt_line rnd4 u rid w i delta c db)"
  by (rule flags_ok_gain[OF assms, of _ w i]) (auto simp: post_receipt_line_qty post_receipt_line_pending)

lemma flags_ok_confirm_line:
  assumes "confirm_line rnd4 u snap elsewhere it s = Inr s'" and "flags_ok (fst s)"
  shows "flags_ok (fst s')"
proof -
  obtain r order tracked where snap: "snap = (r, order, tracked)" by (cases snap) auto
  obtain oi :: order_item and db1 where d: "set_confirmed (ri_id it) (ri_received it) (fst s) = Inr db1"
    "fst s' = (case moved_item (r, order, tracked) it of None \<Rightarrow> db1
       | Some i \<Rightarrow> post_receipt_line rnd4 u (rc_id r) (rc_warehouse r) i (line_delta it)
                     (oi_unit_cost oi) db1)"
    using assms(1) unfolding snap by (rule confirm_line_InrE) blast
  have f: "flags_ok db1"
    using assms(2) flags_ok_cong[OF set_confirmed_frame(1,2)[OF d(1)]] by simp
  show ?thesis
  proof (cases "moved_item (r, order, tracked) it")
    case None
    with f d(2) show ?thesis by simp
  next
    case (Some i)
    then have "0 \<le> line_delta it" using moved_item_positive by fastforce
    with f d(2) Some show ?thesis by (simp add: flags_ok_post_receipt_line)
  qed
qed

text \<open>The lines of the transfers have positive quantities: this is what keeps receptions gains.\<close>

definition lines_positive :: "'a inv_db_scheme \<Rightarrow> bool" where
  "lines_positive db \<longleftrightarrow> (\<forall>t \<in> set (transfers db). \<forall>l \<in> set (tr_lines t). 0 < tl_qty l)"

lemma lines_positive_cong:
  "transfers db' = transfers db \<Longrightarrow> lines_positive db' = lines_positive db"
  for db :: "'a inv_db_scheme" and db' :: "'b inv_db_scheme"
  by (simp add: lines_positive_def)

lemma executeTransfer_keeps:
  assumes "executeTransfer dto u newId db = Inr db'" and "flags_ok db" and "lines_positive db"
  shows "flags_ok db' \<and> lines_positive db'"
proof -
  obtain t :: transfer where loop: "for_each (ship_line newId (td_origin dto) u) (td_lines dto)
      (db\<lparr>transfers := transfers db @ [t]\<rparr>) = Inr db'" and t: "tr_lines t = []"
    and pos: "\<And>l. l \<in> set (td_lines dto) \<Longrightarrow> 0 < td_qty l"
    using assms(1) by (rule executeTransfer_InrE) force
  show ?thesis
  proof (rule for_each_invariant[OF loop, where P = "\<lambda>d. flags_ok d \<and> lines_positive d"])
    have "flags_ok (db\<lparr>transfers := transfers db @ [t]\<rparr>) = flags_ok db" by (rule flags_ok_cong) simp_all
    with assms(2,3) t show "flags_ok (db\<lparr>transfers := transfers db @ [t]\<rparr>)
        \<and> lines_positive (db\<lparr>transfers := transfers db @ [t]\<rparr>)" by (auto simp: lines_positive_def)
    fix l d d'
    assume l: "l \<in> set (td_lines dto)" and d: "flags_ok d \<and> lines_positive d"
      and s: "ship_line newId (td_origin dto) u l d = Inr d'"
    have "lines_positive d'"
      using d pos[OF l] unfolding lines_positive_def ship_line_Inr(4)[OF s]
      by (auto simp: set_update_rows)
    with d s pos[OF l] show "flags_ok d' \<and> lines_positive d'" using flags_ok_ship_line by blast
  qed
qed

lemma confirmReception_keeps:
  assumes "confirmReception rnd4 tid u db = Inr db'" and "flags_ok db" and "lines_positive db"
  shows "flags_ok db' \<and> lines_positive db'"
proof -
  obtain t :: transfer and db1 where f: "find_row (\<lambda>t. tr_id t = tid \<and> tr_tenant t = user_tenant u) (transfers db) = Some t"
    and loop: "for_each (\<lambda>line d. Inr (receive_line rnd4 tid (tr_dest t) u line d)) (tr_lines t) db = Inr db1"
    and db': "db' = db1\<lparr>transfers := update_rows (\<lambda>x. tr_id x = tid)
       (\<lambda>x. x\<lparr>tr_status := COMPLETED\<rparr>) (transfers db1)\<rparr>"
    using assms(1) by (rule confirmReception_InrE) blast
  have pos: "0 < tl_qty l" if "l \<in> set (tr_lines t)" for l
    using that assms(3) find_row_SomeD[OF f] by (auto simp: lines_positive_def)
  have "flags_ok db1 \<and> lines_positive db1"
  proof (rule for_each_invariant[OF loop, where P = "\<lambda>d. flags_ok d \<and> lines_positive d"])
    fix l d d'
    assume l: "l \<in> set (tr_lines t)" and d: "flags_ok d \<and> lines_positive d"
      and s: "Inr (receive_line rnd4 tid (tr_dest t) u l d) = Inr d'"
    have "transfers d' = transfers d" using s by auto
    then have "lines_positive d'" using d lines_positive_cong by blast
    moreover have "flags_ok d'" using d s pos[OF l] flags_ok_receive_line[of d l] by auto
    ultimately show "flags_ok d' \<and> lines_positive d'" by simp
  qed (use assms(2,3) in simp)
  moreover have "flags_ok db' = flags_ok db1" unfolding db' by (rule flags_ok_cong) simp_all
  ultimately show ?thesis by (auto simp: db' lines_positive_def set_update_rows)
qed

lemma levels_frame:
  assumes "updateStockLevels w i dto u db = Inr db'"
  shows "txs db' = txs db" and "warehouses db' = warehouses db" and "transfers db' = transfers db"
  using assms by (auto simp: updateStockLevels_def and_then_eq_Inr Let_def split: if_splits)

lemma flags_ok_levels:
  assumes "updateStockLevels w i dto u db = Inr db'" and "flags_ok db"
  shows "flags_ok db'"
proof -
  have "stock_qty w' i' db' = stock_qty w' i' db" for w' i'
    using levels_post_nothing[OF assms(1)] by (metis bal_inv_abs)
  then show ?thesis
    using assms(2) has_pending_cong[OF levels_frame(1)[OF assms(1)]] by (simp add: flags_ok_def)
qed

text \<open>A confirmation and an adjustment, in terms of the lines and of the movement they contain.\<close>

lemma receipt_confirm_keeps_stock:
  fixes db db' :: "'a purch_db_scheme"
  assumes "receipt_confirm rnd4 rnd2 rid u db = Inr (db', c)"
  shows "quiet db db'" and "flags_ok db \<Longrightarrow> flags_ok db'" and "transfers db' = transfers db"
proof -
  obtain snap :: snapshot and db1 :: "'a purch_db_scheme" where
    tx: "confirm_tx rnd4 rnd2 u snap db = Inr (db1, c)"
    and s1: "stocks db' = stocks db1" "txs db' = txs db1" "warehouses db' = warehouses db1" "transfers db' = transfers db1"
    using assms by (rule receipt_confirm_InrE) blast
  obtain r order tracked where snap: "snap = (r, order, tracked)" by (cases snap) auto
  obtain db2 :: "'a purch_db_scheme" and elsewhere where
    loop: "for_each (confirm_line rnd4 u (r, order, tracked) elsewhere) (rc_items r) (db, no_counts) = Inr (db2, c)"
    and s2: "stocks db1 = stocks db2" "txs db1 = txs db2" "warehouses db1 = warehouses db2" "transfers db1 = transfers db2"
    using tx unfolding snap by (rule confirm_tx_InrE) blast
  have "quiet (fst (db, no_counts)) (fst (db2, c))"
    by (rule quiet_loop[OF loop]) (rule confirm_line_quiet)
  moreover have "quiet db2 db'" by (rule quiet_same) (simp_all add: s1 s2)
  ultimately show "quiet db db'" using quiet_trans by auto
  have "flags_ok db2" if "flags_ok db"
  proof -
    have "flags_ok (fst (db2, c))"
      by (rule for_each_invariant[OF loop, where P = "\<lambda>s. flags_ok (fst s)"])
         (use that in \<open>simp, blast intro: flags_ok_confirm_line\<close>)
    then show ?thesis by simp
  qed
  then show "flags_ok db \<Longrightarrow> flags_ok db'" using flags_ok_cong[of db' db2] s1 s2 by simp
  have "transfers (fst s') = transfers (fst s)" if "confirm_line rnd4 u (r, order, tracked) elsewhere it s = Inr s'"
    for it and s s' :: "'a purch_db_scheme \<times> confirm_counts"
    using that by (rule confirm_line_InrE) (auto split: option.splits dest: set_confirmed_InrD)
  then show "transfers db' = transfers db"
    using for_each_invariant[OF loop, of "\<lambda>s. transfers (fst s) = transfers db"] s1 s2 by auto
qed

lemma receipt_create_frame:
  assumes "receipt_create oid wid u newId newItem db = Inr db'"
  shows "txs db' = txs db" and "warehouses db' = warehouses db" and "transfers db' = transfers db"
    and "stocks db' = stocks db"
proof -
  have frame: "txs (snd (getNextCorrelative t d p a b db)) = txs db
     \<and> warehouses (snd (getNextCorrelative t d p a b db)) = warehouses db
     \<and> transfers (snd (getNextCorrelative t d p a b db)) = transfers db
     \<and> stocks (snd (getNextCorrelative t d p a b db)) = stocks db" for t d p a b
    by (simp add: getNextCorrelative_def Let_def)
  show "txs db' = txs db" and "warehouses db' = warehouses db" and "transfers db' = transfers db"
    and "stocks db' = stocks db"
    using assms frame[of "user_tenant u" "''WR''" "''WR''" None None]
    by (auto simp: receipt_create_def Let_def and_then_eq_Inr audit_log_def
        split: if_splits option.splits prod.splits)
qed

lemma updateItems_frame:
  assumes "updateItems rid dtos u db = Inr db'"
  shows "txs db' = txs db" and "warehouses db' = warehouses db" and "transfers db' = transfers db"
    and "stocks db' = stocks db"
  using assms
  by (auto simp: updateItems_def Let_def and_then_eq_Inr audit_log_def split: if_splits)

lemma core_frame:
  assumes "performTransactionCore rnd4 dto u db = Inr db'"
  shows "warehouses db' = warehouses db" and "transfers db' = transfers db"
proof -
  obtain l where "db' = write_movement dto u l db" using assms by (rule core_InrE) blast
  then show "warehouses db' = warehouses db" and "transfers db' = transfers db" by simp_all
qed

section \<open>Steps\<close>

text \<open>Any operation of the inventory services, by any user, with any rounding of costs.\<close>

inductive stock_step :: "'a purch_db_scheme \<Rightarrow> 'a purch_db_scheme \<Rightarrow> bool" where
  moved: "performTransaction rnd4 dto u db = Inr db' \<Longrightarrow> stock_step db db'"
| returned: "performReturn rdto u db = Inr db' \<Longrightarrow> stock_step db db'"
| levels_set: "updateStockLevels w i ldto u db = Inr db' \<Longrightarrow> stock_step db db'"
| shipped: "executeTransfer tdto u newId db = Inr db' \<Longrightarrow> stock_step db db'"
| received: "confirmReception rnd4 tid u db = Inr db' \<Longrightarrow> stock_step db db'"
| receipt_opened: "receipt_create oid wid u newId newItem db = Inr db' \<Longrightarrow> stock_step db db'"
| receipt_saved: "updateItems rid dtos u db = Inr db' \<Longrightarrow> stock_step db db'"
| receipt_confirmed: "receipt_confirm rnd4 rnd2 rid u db = Inr (db', c) \<Longrightarrow> stock_step db db'"
| adjusted: "adjustment_create rnd4 adto u db = Inr db' \<Longrightarrow> stock_step db db'"

inductive_cases stock_stepE: "stock_step db db'"

lemma stock_step_posts: "stock_step db db' \<Longrightarrow> \<exists>es. post_all es (inv_abs db) = Some (inv_abs db')"
proof (induction rule: stock_step.induct)
  case (moved rnd4 dto u db db')
  then show ?case using core_posts unfolding performTransaction_eq by blast
next
  case (returned rdto u db db')
  then show ?case using return_posts by blast
next
  case (levels_set w i ldto u db db')
  then have "inv_abs db' = inv_abs db" by (rule levels_post_nothing)
  then show ?case by (intro exI[of _ "[]"]) simp
next
  case (shipped tdto u newId db db')
  then show ?case by (rule executeTransfer_posts)
next
  case (received rnd4 tid u db db')
  then show ?case by (rule confirmReception_posts)
next
  case (receipt_opened oid wid u newId newItem db db')
  then have "inv_abs db' = inv_abs db"
    using inv_abs_cong[OF receipt_create_frame(4,1)] by blast
  then show ?case by (intro exI[of _ "[]"]) simp
next
  case (receipt_saved rid dtos u db db')
  then have "inv_abs db' = inv_abs db"
    using inv_abs_cong[OF updateItems_frame(4,1)] by blast
  then show ?case by (intro exI[of _ "[]"]) simp
next
  case (receipt_confirmed rnd4 rnd2 rid u db db' c)
  then show ?case using receipt_posting.posts[of "(rnd4, rnd2, rid, u)" db db'] by simp
next
  case (adjusted rnd4 adto u db db')
  then show ?case using adjustment_posts by blast
qed

lemma stock_step_flags:
  assumes "stock_step db db'" and "flags_ok db" and "lines_positive db"
  shows "flags_ok db' \<and> lines_positive db'"
  using assms
proof (induction rule: stock_step.induct)
  case (moved rnd4 dto u db db')
  then show ?case
    using flags_ok_core core_frame(2) lines_positive_cong unfolding performTransaction_eq by blast
next
  case (returned rdto u db db')
  then have "transfers db' = transfers db" by (auto simp: performReturn_Inr)
  with returned show ?case using flags_ok_return lines_positive_cong by blast
next
  case (levels_set w i ldto u db db')
  then show ?case using flags_ok_levels levels_frame(3) lines_positive_cong by blast
next
  case (shipped tdto u newId db db')
  then show ?case using executeTransfer_keeps by blast
next
  case (received rnd4 tid u db db')
  then show ?case using confirmReception_keeps by blast
next
  case (receipt_opened oid wid u newId newItem db db')
  note f = receipt_create_frame[OF receipt_opened.hyps]
  show ?case using receipt_opened.prems flags_ok_cong[OF f(4,1)] lines_positive_cong[OF f(3)] by simp
next
  case (receipt_saved rid dtos u db db')
  note f = updateItems_frame[OF receipt_saved.hyps]
  show ?case using receipt_saved.prems flags_ok_cong[OF f(4,1)] lines_positive_cong[OF f(3)] by simp
next
  case (receipt_confirmed rnd4 rnd2 rid u db db' c)
  note k = receipt_confirm_keeps_stock[OF receipt_confirmed.hyps]
  show ?case using receipt_confirmed.prems k(2) lines_positive_cong[OF k(3)] by simp
next
  case (adjusted rnd4 adto u db db')
  then obtain db1 where c: "performTransactionCore rnd4 (adjustment_tx adto db) u db = Inr db1"
    and s: "stocks db' = stocks db1" "txs db' = txs db1" "transfers db' = transfers db1"
    by (auto elim: adjustment_InrE)
  have "flags_ok db1" by (rule flags_ok_core[OF c adjusted.prems(1)])
  moreover have "lines_positive db1" using adjusted.prems(2) lines_positive_cong[OF core_frame(2)[OF c]] by simp
  ultimately show ?case using flags_ok_cong[OF s(1,2)] lines_positive_cong[OF s(3)] by simp
qed

section \<open>Sums over the transactions\<close>

lemma sum_appends:
  assumes "appends ts db db'" and "\<And>t. p (plain_tx t) = p t" and "\<And>t. f (plain_tx t) = f t"
  shows "sum_rows p f (txs db') = sum_rows p f (txs db) + sum_rows p f ts"
proof -
  have eq: "sum_rows p f xs = sum_rows p f (map plain_tx xs)" for xs
    by (simp add: sum_rows_map assms(2,3))
  show ?thesis
    using assms(1) eq[of "txs db'"] eq[of "txs db"] eq[of ts]
    by (simp only: appends_def sum_rows_append)
qed

lemma appends_tenant: "appends ts db db' \<Longrightarrow> tenant_warehouse w t db' = tenant_warehouse w t db"
  by (simp add: appends_def tenant_warehouse_def)

lemma outstanding_appends:
  assumes "appends ts db db'"
  shows "getFieldDispatchOutstandingForItem t w i db' = getFieldDispatchOutstandingForItem t w i db
    + sum_rows (\<lambda>x. cell_tx w i x \<and> tx_type x = OUT \<and> tx_ref_type x = Some FIELD_DISPATCH_REFERENCE_TYPE
        \<and> tenant_warehouse w t db \<noteq> None) tx_qty ts
    - sum_rows (\<lambda>x. cell_tx w i x \<and> tx_type x = IN \<and> tx_ref_type x = Some FIELD_RETURN_REFERENCE_TYPE
        \<and> tenant_warehouse w t db \<noteq> None) tx_qty ts"
  unfolding getFieldDispatchOutstandingForItem_def field_dispatched_def field_returned_def
    appends_tenant[OF assms]
  by (subst sum_appends[OF assms], simp, simp, subst sum_appends[OF assms], simp, simp) simp

lemma work_order_appends:
  assumes "appends ts db db'"
  shows "wo_consumed w i wo db' = wo_consumed w i wo db
      + sum_rows (\<lambda>t. cell_tx w i t \<and> tx_ref t = Some wo \<and> tx_ref_type t = Some ''WORK_ORDER''
        \<and> (tx_type t = OUT \<or> tx_type t = WORK_ORDER_ISSUE)) tx_qty ts"
    and "wo_returned w i wo db' = wo_returned w i wo db
      + sum_rows (\<lambda>t. cell_tx w i t \<and> tx_ref t = Some wo \<and> tx_ref_type t = Some ''WORK_ORDER''
        \<and> (tx_type t = RETURN \<or> tx_type t = WORK_ORDER_RETURN)) tx_qty ts"
  unfolding wo_consumed_def wo_returned_def
  by (subst sum_appends[OF assms], simp, simp, rule refl)+

text \<open>
  The two accounts: what is outstanding in the field is not negative (beyond the tolerance), and a
  work order returns no more than it consumed.
\<close>

definition accounts_ok :: "'a inv_db_scheme \<Rightarrow> bool" where
  "accounts_ok db \<longleftrightarrow>
     (\<forall>t w i. - STOCK_QTY_EPSILON \<le> getFieldDispatchOutstandingForItem t w i db)
     \<and> (\<forall>w i wo. wo_returned w i wo db \<le> wo_consumed w i wo db)"

lemma accounts_quiet:
  assumes "quiet db db'" and "accounts_ok db"
  shows "accounts_ok db'"
proof -
  obtain ts where a: "appends ts db db'" and q: "\<forall>t \<in> set ts. tx_type t \<in> quiet_types"
    using assms(1) unfolding quiet_iff by blast
  have none: "sum_rows P tx_qty ts = 0" if "\<And>x. P x \<Longrightarrow> tx_type x \<notin> quiet_types" for P
    by (rule sum_rows_none) (use q that in blast)
  have "getFieldDispatchOutstandingForItem t w i db' = getFieldDispatchOutstandingForItem t w i db" for t w i
    unfolding outstanding_appends[OF a] by (subst none, force simp: quiet_types_def)+ simp
  moreover have "wo_consumed w i wo db' = wo_consumed w i wo db" "wo_returned w i wo db' = wo_returned w i wo db"
    for w i wo
    unfolding work_order_appends[OF a] by (subst none, force simp: quiet_types_def, simp)+
  ultimately show ?thesis using assms(2) by (simp add: accounts_ok_def)
qed

lemma outstanding_tenant:
  assumes "tenant_warehouse w t db \<noteq> None" and "tenant_warehouse w t' db \<noteq> None"
  shows "getFieldDispatchOutstandingForItem t w i db = getFieldDispatchOutstandingForItem t' w i db"
  using assms by (simp add: getFieldDispatchOutstandingForItem_def field_dispatched_def field_returned_def)

lemma stored_field_return:
  assumes "or_null r = Some FIELD_RETURN_REFERENCE_TYPE"
  shows "trim_opt r = FIELD_RETURN_REFERENCE_TYPE"
proof -
  have "r = Some FIELD_RETURN_REFERENCE_TYPE" using assms by (auto simp: or_null_def split: option.splits if_splits)
  then show ?thesis by (simp add: trim_opt_def trim_def is_space_def FIELD_RETURN_REFERENCE_TYPE_def)
qed

lemma accounts_core:
  assumes "performTransactionCore rnd4 dto u db = Inr db'" and "accounts_ok db"
  shows "accounts_ok db'"
proof -
  obtain w0 q c p where l: "new_levels rnd4 dto u db = Inr (q, c, p)"
    and db': "db' = write_movement dto u (q, c, p) db"
    and q0: "0 < pd_qty dto \<or> pd_type dto = ADJUST"
    and w0: "tenant_warehouse (pd_wh dto) (user_tenant u) db = Some w0"
    and chk: "check_field_reference dto u db = Inr ()"
    using assms(1) by (rule core_InrE) blast
  note ty = new_levels_Inr(2)[OF l]
  note a = movement_appends[of dto u db q c p, folded db']
  have "- STOCK_QTY_EPSILON \<le> getFieldDispatchOutstandingForItem t w i db'" for t w i
  proof -
    have old: "- STOCK_QTY_EPSILON \<le> getFieldDispatchOutstandingForItem t w i db"
      using assms(2) by (simp add: accounts_ok_def)
    show ?thesis
    proof (cases "pd_type dto = IN \<and> (pd_wh dto, pd_item dto) = (w, i)
        \<and> or_null (pd_ref_type dto) = Some FIELD_RETURN_REFERENCE_TYPE \<and> tenant_warehouse w t db \<noteq> None")
      case True
      then have "trim_opt (pd_ref_type dto) = FIELD_RETURN_REFERENCE_TYPE" using stored_field_return by blast
      then have "pd_qty dto \<le> getFieldDispatchOutstandingForItem (user_tenant u) w i db + STOCK_QTY_EPSILON"
        using chk True by (auto simp: check_field_reference_def Let_def split: if_splits)
      moreover have "getFieldDispatchOutstandingForItem (user_tenant u) w i db = getFieldDispatchOutstandingForItem t w i db"
        using True w0 by (intro outstanding_tenant) auto
      ultimately show ?thesis unfolding outstanding_appends[OF a] using True by simp
    next
      case False
      then have "getFieldDispatchOutstandingForItem t w i db' = getFieldDispatchOutstandingForItem t w i db
          + (if (pd_wh dto, pd_item dto) = (w, i) \<and> pd_type dto = OUT
               \<and> or_null (pd_ref_type dto) = Some FIELD_DISPATCH_REFERENCE_TYPE
               \<and> tenant_warehouse w t db \<noteq> None then pd_qty dto else 0)"
        unfolding outstanding_appends[OF a] by auto
      then show ?thesis using old q0 by (auto split: if_splits)
    qed
  qed
  moreover have "wo_returned w i wo db' \<le> wo_consumed w i wo db'" for w i wo
  proof -
    have "wo_returned w i wo db \<le> wo_consumed w i wo db" using assms(2) by (simp add: accounts_ok_def)
    moreover have "wo_returned w i wo db' = wo_returned w i wo db"
      unfolding work_order_appends[OF a] using ty by auto
    moreover have "wo_consumed w i wo db \<le> wo_consumed w i wo db'"
      unfolding work_order_appends[OF a] using q0 by auto
    ultimately show ?thesis by linarith
  qed
  ultimately show ?thesis by (simp add: accounts_ok_def)
qed

lemma accounts_return:
  assumes "performReturn dto u db = Inr db'" and "accounts_ok db"
  shows "accounts_ok db'"
proof -
  have db': "db' = write_return dto u db"
    and cap: "wo_returned (rd_wh dto) (rd_item dto) (rd_work_order dto) db + rd_qty dto
         \<le> wo_consumed (rd_wh dto) (rd_item dto) (rd_work_order dto) db"
    using assms(1) by (auto simp: performReturn_Inr)
  note a = return_appends[of dto u db, folded db']
  have "getFieldDispatchOutstandingForItem t w i db' = getFieldDispatchOutstandingForItem t w i db" for t w i
    unfolding outstanding_appends[OF a] by simp
  moreover have "wo_returned w i wo db' \<le> wo_consumed w i wo db'" for w i wo
  proof -
    have "wo_returned w i wo db \<le> wo_consumed w i wo db" using assms(2) by (simp add: accounts_ok_def)
    then show ?thesis unfolding work_order_appends[OF a] using cap by auto
  qed
  ultimately show ?thesis using assms(2) by (simp add: accounts_ok_def)
qed

lemma stock_step_accounts: "stock_step db db' \<Longrightarrow> accounts_ok db \<Longrightarrow> accounts_ok db'"
proof (induction rule: stock_step.induct)
  case (moved rnd4 dto u db db')
  then show ?case using accounts_core unfolding performTransaction_eq by blast
next
  case (returned rdto u db db')
  then show ?case using accounts_return by blast
next
  case (levels_set w i ldto u db db')
  then show ?case using accounts_quiet[OF quiet_same] levels_frame by blast
next
  case (shipped tdto u newId db db')
  then show ?case using accounts_quiet executeTransfer_quiet by blast
next
  case (received rnd4 tid u db db')
  then show ?case using accounts_quiet confirmReception_quiet by blast
next
  case (receipt_opened oid wid u newId newItem db db')
  then show ?case using accounts_quiet[OF quiet_same] receipt_create_frame(1,2) by blast
next
  case (receipt_saved rid dtos u db db')
  then show ?case using accounts_quiet[OF quiet_same] updateItems_frame(1,2) by blast
next
  case (receipt_confirmed rnd4 rnd2 rid u db db' c)
  then show ?case using accounts_quiet receipt_confirm_keeps_stock(1) by blast
next
  case (adjusted rnd4 adto u db db')
  then obtain db1 where c: "performTransactionCore rnd4 (adjustment_tx adto db) u db = Inr db1"
    and s: "txs db' = txs db1" "warehouses db' = warehouses db1"
    by (auto elim: adjustment_InrE)
  have "accounts_ok db1" by (rule accounts_core[OF c adjusted.prems])
  then show ?case using accounts_quiet[OF quiet_same[OF s]] by blast
qed

section \<open>Properties\<close>

lemma stock_steps_post:
  assumes "stock_step\<^sup>*\<^sup>* db db'"
  shows "\<exists>es. post_all es (inv_abs db) = Some (inv_abs db')"
  using assms
proof (induction rule: rtranclp_induct)
  case base
  then show ?case by (intro exI[of _ "[]"]) simp
next
  case (step b c)
  then show ?case using stock_step_posts post_all_trans by blast
qed

lemma empty_inventory:
  assumes "stocks db = []" and "txs db = []"
  shows "inv_abs db = empty_ledger" and "flags_ok db" and "accounts_ok db"
  using assms
  by (simp_all add: inv_abs_def empty_ledger_def stock_qty_def find_stock_def fun_eq_iff flags_ok_def
      has_pending_def negative_iff accounts_ok_def getFieldDispatchOutstandingForItem_def
      field_dispatched_def field_returned_def wo_returned_def wo_consumed_def STOCK_QTY_EPSILON_def)

lemma explained_balance:
  assumes "stock_step\<^sup>*\<^sup>* db db'" and "stocks db = []" and "txs db = []"
  shows "stock_qty w i db' = sum_rows (cell_tx w i) (\<lambda>t. signed_qty (tx_type t) (tx_qty t)) (txs db')
    \<and> run_chain 0 (of_cell (w, i) (map entry_of (txs db'))) = Some (stock_qty w i db')"
proof -
  obtain es where "post_all es (inv_abs db) = Some (inv_abs db')" using stock_steps_post[OF assms(1)] by blast
  then have ok: "ledger_ok (inv_abs db')"
    using post_all_ok ledger_ok_empty empty_inventory(1)[OF assms(2,3)] by metis
  have "sum_list (map entry_delta (of_cell (w, i) (map entry_of ts)))
      = sum_rows (cell_tx w i) (\<lambda>t. signed_qty (tx_type t) (tx_qty t)) ts" for ts
    by (induction ts) (auto simp: entry_delta_def entry_of_def)
  with ledger_ok_sum[OF ok, of "(w, i)"] ok show ?thesis by (simp add: ledger_ok_def)
qed

text \<open>
  C20. Every balance is explained by its transactions: in every state the operations reach from an
  empty inventory, the quantity of an item in a warehouse is the sum of the signed quantities of
  its transactions, and these form a chain, each starting where the one before ended.
\<close>

theorem every_balance_is_explained:
  assumes "stock_step\<^sup>*\<^sup>* db db'" and "stocks db = []" and "txs db = []"
  shows "stock_qty w i db' = sum_rows (cell_tx w i) (\<lambda>t. signed_qty (tx_type t) (tx_qty t)) (txs db')
    \<and> run_chain 0 (of_cell (w, i) (map entry_of (txs db'))) = Some (stock_qty w i db')"
  using assms by (rule explained_balance)

definition empty_stock :: purch_db where
  "empty_stock = (small_purch None)\<lparr>stocks := []\<rparr>"

definition in_dto :: transaction_dto where
  "in_dto = \<lparr>pd_wh = ''w1'', pd_item = ''i1'', pd_type = IN, pd_qty = 5, pd_cost = Some 3,
     pd_ref = None, pd_ref_type = None\<rparr>"

lemma empty_stock_simps [simp]:
  "stocks empty_stock = []" "txs empty_stock = []" "transfers empty_stock = []"
  by (simp_all add: empty_stock_def small_purch_def inv_db.extend_def small_db_def)

lemma empty_stock_warehouse: "tenant_warehouse w t empty_stock = tenant_warehouse w t small_db"
  by (simp add: tenant_warehouse_def empty_stock_def)

lemma small_entry: "\<exists>db'. performTransaction rnd4 in_dto plain_user empty_stock = Inr db'"
  by (simp add: performTransaction_eq performTransactionCore_def in_dto_def empty_stock_warehouse
      plain_user_contracts assertWarehouseContractAccess_def check_field_reference_def trim_opt_def
      FIELD_DISPATCH_REFERENCE_TYPE_def FIELD_RETURN_REFERENCE_TYPE_def new_levels_def Let_def)

lemma small_run:
  obtains db' where "performTransaction half_up4 in_dto plain_user empty_stock = Inr db'"
    "stock_step\<^sup>*\<^sup>* empty_stock db'"
  using small_entry stock_step.moved by blast

lemma every_balance_is_explained_witness:
  "\<exists>db'. stock_step\<^sup>*\<^sup>* empty_stock db' \<and> txs db' \<noteq> []
     \<and> stock_qty ''w1'' ''i1'' db' = sum_rows (cell_tx ''w1'' ''i1'') (\<lambda>t. signed_qty (tx_type t) (tx_qty t)) (txs db')"
proof -
  obtain db' where d: "performTransaction half_up4 in_dto plain_user empty_stock = Inr db'"
    and r: "stock_step\<^sup>*\<^sup>* empty_stock db'" by (rule small_run)
  have "txs db' \<noteq> []" using core_posts[OF d[unfolded performTransaction_eq]] post_all_book by fastforce
  then show ?thesis
    using r every_balance_is_explained[OF r, of "''w1''" "''i1''"] by (intro exI[of _ db'] conjI) simp_all
qed

text \<open>
  C22. Goods outside the warehouse are accounted for: in every state reached from an empty
  inventory, no more of an item has come back from the field than was dispatched to it (up to the
  tolerance), for every tenant and warehouse, and no more has been returned from a work order than
  was issued to it.
\<close>

theorem returns_within_dispatches:
  assumes "stock_step\<^sup>*\<^sup>* db db'" and "stocks db = []" and "txs db = []"
  shows "field_returned t w i db' \<le> field_dispatched t w i db' + 1 / 1000000000
    \<and> wo_returned w i wo db' \<le> wo_consumed w i wo db'"
proof -
  have "accounts_ok db'"
    using assms(1)
  proof (induction rule: rtranclp_induct)
    case base
    then show ?case by (rule empty_inventory(3)[OF assms(2,3)])
  next
    case (step b c)
    then show ?case using stock_step_accounts by blast
  qed
  then have "- STOCK_QTY_EPSILON \<le> getFieldDispatchOutstandingForItem t w i db'"
    "wo_returned w i wo db' \<le> wo_consumed w i wo db'" by (auto simp: accounts_ok_def)
  then show ?thesis by (simp add: getFieldDispatchOutstandingForItem_def STOCK_QTY_EPSILON_def)
qed

lemma returns_within_dispatches_witness:
  "\<exists>db'. stock_step\<^sup>*\<^sup>* empty_stock db' \<and> txs db' \<noteq> []
     \<and> wo_returned ''w1'' ''i1'' ''wo1'' db' \<le> wo_consumed ''w1'' ''i1'' ''wo1'' db'"
proof -
  obtain db' where d: "performTransaction half_up4 in_dto plain_user empty_stock = Inr db'"
    and r: "stock_step\<^sup>*\<^sup>* empty_stock db'" by (rule small_run)
  have "txs db' \<noteq> []" using core_posts[OF d[unfolded performTransaction_eq]] post_all_book by fastforce
  then show ?thesis
    using r returns_within_dispatches[OF r, of t "''w1''" "''i1''" "''wo1''" for t]
    by (intro exI[of _ db'] conjI) simp_all
qed

section \<open>The Excel import\<close>

text \<open>
  The write of one row of the master import (\<open>inventory-items.service.ts\<close>), after its row was
  validated: it sets the position directly and records an ADJUST, without the stock service.
\<close>

record import_row =
  im_wh :: id
  im_item :: id
  im_qty :: "qty option"
  im_min :: "qty option"
  im_max :: "qty option"
  im_location :: "string option"

definition import_stock_row :: "id \<Rightarrow> import_row \<Rightarrow> 'a inv_db_scheme \<Rightarrow> 'a inv_db_scheme" where
  "import_stock_row userId row db =
     (let w = im_wh row; i = im_item row;
          quantity = or_zero (im_qty row);
          previousStock = stock_qty w i db;
          nextUnitCost = Option.bind (find_stock w i db) st_cost;
          db1 = upsert_stock w i
            (\<lambda>s. s\<lparr>st_qty := quantity, st_cost := nextUnitCost, st_min := or_zero (im_min row),
                   st_max := or_zero (im_max row), st_location := im_location row\<rparr>)
            \<lparr>st_wh = w, st_item = i, st_qty = quantity, st_cost = nextUnitCost,
             st_min = or_zero (im_min row), st_max = or_zero (im_max row), st_location = im_location row\<rparr> db
      in if \<bar>previousStock - quantity\<bar> > 1 / 1000000000
         then add_tx \<lparr>tx_type = ADJUST, tx_wh = w, tx_item = i, tx_user = userId,
                tx_qty = quantity - previousStock, tx_prev = previousStock, tx_new = quantity,
                tx_ref = None, tx_ref_type = None, tx_pending = False\<rparr> db1
         else db1)"

lemma import_stock_row_effect:
  "stock_qty (im_wh row) (im_item row) (import_stock_row userId row db) = or_zero (im_qty row)"
  "has_pending w i (import_stock_row userId row db) \<longleftrightarrow> has_pending w i db"
  by (simp_all add: import_stock_row_def Let_def stock_qty_upsert)

text \<open>
  The import leaves regularised positions flagged: it does not clear the transactions waiting
  for regularisation as the other operations do, so that a position it brings to zero or above
  keeps its flag, and the flags are no longer exact.
\<close>

theorem import_leaves_flags:
  assumes "has_pending (im_wh row) (im_item row) db" and "0 \<le> or_zero (im_qty row)"
  shows "0 \<le> stock_qty (im_wh row) (im_item row) (import_stock_row userId row db)
    \<and> has_pending (im_wh row) (im_item row) (import_stock_row userId row db)
    \<and> \<not> flags_ok (import_stock_row userId row db)"
proof -
  let ?db = "import_stock_row userId row db"
  have h: "has_pending (im_wh row) (im_item row) ?db" "0 \<le> stock_qty (im_wh row) (im_item row) ?db"
    using assms by (simp_all add: import_stock_row_effect)
  have "\<not> flags_ok ?db"
  proof
    assume "flags_ok ?db"
    with h(1) have "stock_qty (im_wh row) (im_item row) ?db < 0" by (simp add: flags_ok_def)
    with h(2) show False by simp
  qed
  with h show ?thesis by simp
qed

text \<open>A position of minus two units, flagged as the stock service leaves it.\<close>

definition negative_db :: inv_db where
  "negative_db = small_db\<lparr>
     stocks := [\<lparr>st_wh = ''w1'', st_item = ''i1'', st_qty = - 2, st_cost = Some 4, st_min = 0,
       st_max = 0, st_location = None\<rparr>],
     txs := [\<lparr>tx_type = OUT, tx_wh = ''w1'', tx_item = ''i1'', tx_user = ''u1'', tx_qty = 2, tx_prev = 0,
       tx_new = - 2, tx_ref = None, tx_ref_type = None, tx_pending = True\<rparr>]\<rparr>"

definition import_ten :: import_row where
  "import_ten = \<lparr>im_wh = ''w1'', im_item = ''i1'', im_qty = Some 10, im_min = None, im_max = None,
     im_location = None\<rparr>"

lemma import_leaves_flags_witness:
  "flags_ok negative_db \<and> \<not> flags_ok (import_stock_row ''u1'' import_ten negative_db)"
proof -
  have "has_pending (im_wh import_ten) (im_item import_ten) negative_db"
    by (simp add: has_pending_def negative_db_def import_ten_def)
  moreover have "flags_ok negative_db"
    by (simp add: flags_ok_def has_pending_def negative_db_def stock_qty_def find_stock_def negative_iff)
  ultimately show ?thesis
    using import_leaves_flags[of import_ten negative_db "''u1''"] by (simp add: import_ten_def or_zero_def)
qed

end
