(* ===== verification/Operations.thy ===== *)
theory Operations
  imports Purchasing "HOL-Library.List_Lexorder" "HOL-Library.Char_ord" "HOL-Library.Product_Lexorder"
begin

text \<open>
  The tables of the equipment side (\<open>backend/prisma/schema.prisma\<close>) and the steps its services
  share: the causes that keep an equipment out of service
  (\<open>features/equipments/operational-blockers.ts\<close>), the meter
  (\<open>equipment-meter-sync.ts\<close>, \<open>meter-jump-limits.util.ts\<close>) and the transitions of the
  operational flag (\<open>equipment-operational-orchestrator.service.ts\<close>).

  Instants are milliseconds (\<open>int\<close>), the current time and the ids of new rows are arguments.
  The newest row of \<open>orderBy createdAt desc\<close> is the last one of the table. The lines of a work
  order are kept inside it. Free texts that no rule reads are left out.
\<close>

section \<open>Tables\<close>

datatype meter_type = HOURS | KILOMETERS

datatype meter_source =
    SRC_OT | SRC_MANUAL | SRC_TELEMETRY | SRC_AVAILABILITY_REPORT | SRC_FAULT_REPORT

datatype op_status =
    OPERATIONAL | STANDBY | RESERVE_NO_OPERATOR | DOWN_FAILURE | DOWN_MAINTENANCE

datatype shift_type = DAY | NIGHT

datatype event_source = EV_MANUAL | EV_OT | EV_FAULT_REPORT | EV_LEGACY_SNAPSHOT

datatype affected_system =
    MOTOR | HYDRAULIC | ELECTRICAL | POWER_TRAIN | STRUCTURE | GET_WEAR | TIRES_TRACKS

datatype criticality = CR_HIGH | CR_MEDIUM | CR_LOW

datatype fault_status = FR_OPEN | FR_LINKED | FR_CLOSED

datatype ot_status = OT_OPEN | OT_IN_PROGRESS | OT_ON_HOLD | OT_CLOSED

datatype impact = IMPACT_SI | IMPACT_NO | IMPACT_STP

datatype ot_type = NUEVA | CONTINUIDAD

datatype ot_category =
    PROGRAMADA | NO_PROGRAMADA_CORRECTIVA | NO_PROGRAMADA_REACTIVA | NO_PROGRAMADA_PREVENTIVO

datatype maintenance_type = PREVENTIVO | CORRECTIVO

datatype backlog_status = BL_PENDING | BL_DONE

record equipment =
  eq_id :: id
  eq_tenant :: id
  eq_contract :: "id option"
  eq_subcontract :: "id option"
  eq_internal :: string
  eq_plate :: "string option"
  eq_vin :: "string option"
  eq_subleased :: bool
  eq_sublease_company :: "string option"
  eq_meter_type :: meter_type
  eq_initial :: int
  eq_meter :: int
  eq_operational :: bool
  eq_downtime :: qty

record subcontract =
  sc_id :: id
  sc_contract :: id

record fault_report =
  fr_id :: id
  fr_tenant :: id
  fr_contract :: id
  fr_equipment :: id
  fr_by :: id
  fr_correlative :: string
  fr_event_date :: int
  fr_meter :: "int option"
  fr_system :: affected_system
  fr_criticality :: criticality
  fr_symptom :: string
  fr_status :: fault_status
  fr_work_order :: "id option"

record wo_part =
  wp_id :: id
  wp_item :: "id option"
  wp_qty :: qty
  wp_cost :: "qty option"

record wo_fluid =
  wf_item :: "id option"
  wf_liters :: qty

record work_order =
  wo_id :: id
  wo_tenant :: id
  wo_by :: "id option"
  wo_subcontract :: "id option"
  wo_warehouse :: "id option"
  wo_correlative :: string
  wo_equipment :: id
  wo_type :: ot_type
  wo_category :: ot_category
  wo_maintenance :: maintenance_type
  wo_status :: ot_status
  wo_initial_meter :: int
  wo_final_meter :: "int option"
  wo_description :: string
  wo_impact :: "impact option"
  wo_detention_start :: "int option"
  wo_detention_end :: "int option"
  wo_mech_start :: "int option"
  wo_mech_end :: "int option"
  wo_personnel :: int
  wo_hm :: "qty option"
  wo_hh :: "qty option"
  wo_in_progress_at :: "int option"
  wo_closed_at :: "int option"
  wo_closure_operational :: "bool option"
  wo_supervisor :: "id option"
  wo_has_backlog :: bool
  wo_tags :: "string list"
  wo_tasks :: "string list"
  wo_parts :: "wo_part list"
  wo_fluids :: "wo_fluid list"

record backlog_item =
  bl_id :: id
  bl_tenant :: id
  bl_work_order :: id
  bl_description :: string
  bl_status :: backlog_status

record stock_reservation =
  sr_work_order :: id
  sr_item :: id
  sr_warehouse :: id
  sr_qty :: qty

record lube_line =
  ll_item :: id
  ll_qty :: qty
  ll_cost :: qty

record lube_report =
  lr_id :: id
  lr_tenant :: id
  lr_contract :: id
  lr_equipment :: id
  lr_warehouse :: id
  lr_user :: id
  lr_correlative :: string
  lr_date :: int
  lr_meter :: "int option"
  lr_lines :: "lube_line list"

record meter_log =
  ml_tenant :: id
  ml_equipment :: id
  ml_old :: int
  ml_new :: int
  ml_source :: meter_source
  ml_source_id :: "id option"
  ml_user :: id
  ml_date :: int

record meter_adjustment =
  ma_id :: id
  ma_equipment :: id
  ma_user :: id
  ma_old :: int
  ma_new :: int
  ma_reason :: "string option"

record availability =
  av_id :: id
  av_tenant :: id
  av_contract :: "id option"
  av_equipment :: id
  av_by :: id
  av_date :: int
  av_shift :: shift_type
  av_status :: op_status
  av_meter :: "int option"
  av_comments :: "string option"

record availability_event =
  ev_id :: id
  ev_tenant :: id
  ev_availability :: "id option"
  ev_fault :: "id option"
  ev_equipment :: id
  ev_by :: "id option"
  ev_status :: op_status
  ev_previous :: "op_status option"
  ev_meter :: "int option"
  ev_comments :: "string option"
  ev_at :: int
  ev_source :: event_source
  ev_elapsed :: "int option"
  ev_created :: int

text \<open>
  The shift columns of the tenant's operational configuration (its other columns are
  \<open>tenant_config\<close> of the inventory).
\<close>

record shift_config =
  sh_tenant :: id
  sh_has_night :: bool
  sh_day_start :: string
  sh_night_start :: string

record attachment =
  at_fault :: id
  at_key :: string
  at_name :: string
  at_type :: string
  at_size :: nat

record ops_db = purch_db +
  equipments :: "equipment list"
  subcontracts :: "subcontract list"
  fault_reports :: "fault_report list"
  work_orders :: "work_order list"
  backlog :: "backlog_item list"
  reservations :: "stock_reservation list"
  lube_reports :: "lube_report list"
  meter_logs :: "meter_log list"
  meter_adjustments :: "meter_adjustment list"
  availabilities :: "availability list"
  availability_events :: "availability_event list"
  shift_configs :: "shift_config list"
  attachments :: "attachment list"

definition find_equipment :: "id \<Rightarrow> id \<Rightarrow> 'a ops_db_scheme \<Rightarrow> equipment option" where
  "find_equipment i tenant db =
     find_row (\<lambda>e. eq_id e = i \<and> eq_tenant e = tenant) (equipments db)"

definition find_work_order :: "id \<Rightarrow> 'a ops_db_scheme \<Rightarrow> work_order option" where
  "find_work_order i db = find_row (\<lambda>w. wo_id w = i) (work_orders db)"

text \<open>The \<open>update\<close> of a row that the same transaction has read.\<close>

definition set_equipment :: "id \<Rightarrow> (equipment \<Rightarrow> equipment) \<Rightarrow> 'a ops_db_scheme \<Rightarrow> 'a ops_db_scheme" where
  "set_equipment i f db = db\<lparr>equipments := update_rows (\<lambda>e. eq_id e = i) f (equipments db)\<rparr>"

definition set_work_order :: "id \<Rightarrow> (work_order \<Rightarrow> work_order) \<Rightarrow> 'a ops_db_scheme \<Rightarrow> 'a ops_db_scheme" where
  "set_work_order i f db = db\<lparr>work_orders := update_rows (\<lambda>w. wo_id w = i) f (work_orders db)\<rparr>"

definition set_fault :: "id \<Rightarrow> (fault_report \<Rightarrow> fault_report) \<Rightarrow> 'a ops_db_scheme \<Rightarrow> 'a ops_db_scheme" where
  "set_fault i f db = db\<lparr>fault_reports := update_rows (\<lambda>r. fr_id r = i) f (fault_reports db)\<rparr>"

text \<open>Creating a row, with the unique indexes of its table.\<close>

definition create_fault :: "fault_report \<Rightarrow> 'a ops_db_scheme \<Rightarrow> 'a ops_db_scheme res" where
  "create_fault r db =
     (if list_ex (\<lambda>x. fr_tenant x = fr_tenant r \<and> fr_correlative x = fr_correlative r)
           (fault_reports db)
      then Inl UniqueViolation
      else Inr (db\<lparr>fault_reports := fault_reports db @ [r]\<rparr>))"

definition create_work_order :: "work_order \<Rightarrow> 'a ops_db_scheme \<Rightarrow> 'a ops_db_scheme res" where
  "create_work_order w db =
     (if list_ex (\<lambda>x. wo_tenant x = wo_tenant w \<and> wo_correlative x = wo_correlative w)
           (work_orders db)
      then Inl UniqueViolation
      else Inr (db\<lparr>work_orders := work_orders db @ [w]\<rparr>))"

text \<open>The correlative of a work order, from the number of orders of the tenant.\<close>

definition wo_count :: "id \<Rightarrow> 'a ops_db_scheme \<Rightarrow> nat" where
  "wo_count tenant db = length (filter (\<lambda>w. wo_tenant w = tenant) (work_orders db))"

definition wo_number :: "nat \<Rightarrow> nat \<Rightarrow> string" where
  "wo_number year n = ''OT-'' @ nat_digits year @ ''-'' @ pad_start 3 (CHR ''0'') (nat_digits n)"

definition wo_correlative_text :: "nat \<Rightarrow> id \<Rightarrow> 'a ops_db_scheme \<Rightarrow> string" where
  "wo_correlative_text year tenant db = wo_number year (wo_count tenant db + 1)"

text \<open>\<open>a ?? b\<close> of the JavaScript.\<close>

definition or_else :: "'x option \<Rightarrow> 'x option \<Rightarrow> 'x option" where
  "or_else a b = (case a of Some x \<Rightarrow> Some x | None \<Rightarrow> b)"

section \<open>Instants\<close>

definition ms_per_day :: int where "ms_per_day = 86400000"

definition utc_midnight :: "int \<Rightarrow> int" where
  "utc_midnight t = t - t mod ms_per_day"

definition set_utc_time :: "int \<Rightarrow> int \<Rightarrow> int \<Rightarrow> int" where
  "set_utc_time t h m = utc_midnight t + h * 3600000 + m * 60000"

section \<open>Causes that keep an equipment out of service\<close>

datatype blocker =
    HIGH_FAULT id string fault_status
  | AVAILABILITY_WORK_ORDER id string ot_status

record return_decision =
  rt_tenant :: id
  rt_equipment :: id
  rt_allowed :: bool
  rt_blockers :: "blocker list"

text \<open>A fault that is open, or linked to no order or to an order that is not closed.\<close>

definition linked_order_open :: "fault_report \<Rightarrow> 'a ops_db_scheme \<Rightarrow> bool" where
  "linked_order_open r db =
     (case fr_work_order r of
        None \<Rightarrow> True
      | Some w \<Rightarrow> (case find_work_order w db of None \<Rightarrow> False | Some wo \<Rightarrow> wo_status wo \<noteq> OT_CLOSED))"

definition fault_active :: "fault_report \<Rightarrow> 'a ops_db_scheme \<Rightarrow> bool" where
  "fault_active r db \<longleftrightarrow>
     fr_status r = FR_OPEN \<or> fr_status r = FR_LINKED \<and> linked_order_open r db"

definition blocking_faults :: "id \<Rightarrow> id \<Rightarrow> 'a ops_db_scheme \<Rightarrow> fault_report list" where
  "blocking_faults tenant e db =
     filter (\<lambda>r. fr_tenant r = tenant \<and> fr_equipment r = e \<and> fr_criticality r = CR_HIGH
        \<and> fault_active r db) (rev (fault_reports db))"

definition blocking_orders :: "id \<Rightarrow> id \<Rightarrow> id option \<Rightarrow> 'a ops_db_scheme \<Rightarrow> work_order list" where
  "blocking_orders tenant e exclude db =
     filter (\<lambda>w. wo_tenant w = tenant \<and> wo_equipment w = e \<and> wo_impact w = Some IMPACT_SI
        \<and> wo_status w \<in> {OT_OPEN, OT_IN_PROGRESS, OT_ON_HOLD} \<and> exclude \<noteq> Some (wo_id w))
       (rev (work_orders db))"

definition resolveReturnToService ::
    "id \<Rightarrow> id \<Rightarrow> id option \<Rightarrow> 'a ops_db_scheme \<Rightarrow> return_decision" where
  "resolveReturnToService tenant e exclude db =
     (let blockers =
        map (\<lambda>r. HIGH_FAULT (fr_id r) (fr_correlative r) (fr_status r)) (blocking_faults tenant e db)
        @ map (\<lambda>w. AVAILABILITY_WORK_ORDER (wo_id w) (wo_correlative w) (wo_status w))
            (blocking_orders tenant e exclude db)
      in \<lparr>rt_tenant = tenant, rt_equipment = e, rt_allowed = (blockers = []),
          rt_blockers = blockers\<rparr>)"

section \<open>The meter\<close>

definition applyCurrentMeterChange ::
    "id \<Rightarrow> id \<Rightarrow> int \<Rightarrow> int \<Rightarrow> meter_source \<Rightarrow> id option \<Rightarrow> id \<Rightarrow> int \<Rightarrow>
     'a ops_db_scheme \<Rightarrow> 'a ops_db_scheme" where
  "applyCurrentMeterChange tenant e oldMeter newMeter source sourceId userId date db =
     (if oldMeter = newMeter then db
      else set_equipment e (\<lambda>x. x\<lparr>eq_meter := newMeter\<rparr>)
        (db\<lparr>meter_logs := meter_logs db @
           [\<lparr>ml_tenant = tenant, ml_equipment = e, ml_old = oldMeter, ml_new = newMeter,
             ml_source = source, ml_source_id = sourceId, ml_user = userId, ml_date = date\<rparr>]\<rparr>))"

fun getMeterJumpLimit :: "meter_type \<Rightarrow> int" where
  "getMeterJumpLimit KILOMETERS = 500"
| "getMeterJumpLimit HOURS = 24"

text \<open>The rule of every report with a reading: the meter only advances.\<close>

definition advance_meter ::
    "id \<Rightarrow> equipment \<Rightarrow> int option \<Rightarrow> meter_source \<Rightarrow> id option \<Rightarrow> id \<Rightarrow> int \<Rightarrow>
     'a ops_db_scheme \<Rightarrow> 'a ops_db_scheme" where
  "advance_meter tenant e reading source sourceId userId now db =
     (case reading of
        None \<Rightarrow> db
      | Some m \<Rightarrow>
          if m > eq_meter e
          then applyCurrentMeterChange tenant (eq_id e) (eq_meter e) m source sourceId userId now db
          else db)"

section \<open>Transitions of the operational flag\<close>

definition FR_DOCUMENT_TYPE :: string where "FR_DOCUMENT_TYPE = ''FAULT_REP''"
definition FR_PREFIX :: string where "FR_PREFIX = ''RF''"

definition isStopStatus :: "op_status \<Rightarrow> bool" where
  "isStopStatus s \<longleftrightarrow> s = DOWN_FAILURE \<or> s = DOWN_MAINTENANCE"

text \<open>
  The date of the shift is its text and the instant it denotes (\<open>None\<close> where it is not a date).
  \<open>ti_fault_id\<close> is the id of the fault report that the transition may create.
\<close>

record transition_input =
  ti_tenant :: id
  ti_equipment :: id
  ti_new :: op_status
  ti_previous :: "op_status option"
  ti_meter :: "int option"
  ti_comments :: "string option"
  ti_report_date :: string
  ti_report_time :: "int option"
  ti_by :: id
  ti_decision :: "return_decision option"
  ti_fault_id :: id

datatype skip_reason =
    ACTIVE_FAULT_EXISTS | NOT_APPLICABLE_STATUS | NO_CONTRACT_FOR_STUB | BLOCKED_BY_ACTIVE_CAUSES

record transition_result =
  rs_equipment :: id
  rs_operational :: bool
  rs_fault :: "id option"
  rs_fault_correlative :: "string option"
  rs_created :: bool
  rs_requires_completion :: bool
  rs_skipped :: "skip_reason option"
  rs_blockers :: "blocker list option"

definition findActiveFaultReport :: "id \<Rightarrow> id \<Rightarrow> 'a ops_db_scheme \<Rightarrow> fault_report option" where
  "findActiveFaultReport tenant e db =
     (case find_row (\<lambda>r. fr_tenant r = tenant \<and> fr_equipment r = e \<and> fr_status r = FR_OPEN)
             (rev (fault_reports db)) of
        Some r \<Rightarrow> Some r
      | None \<Rightarrow> find_row (\<lambda>r. fr_tenant r = tenant \<and> fr_equipment r = e \<and> fr_status r = FR_LINKED
             \<and> linked_order_open r db) (rev (fault_reports db)))"

text \<open>A character has eight bits: the em dash of the text is written as a hyphen.\<close>

definition buildStubSymptom :: "string option \<Rightarrow> op_status \<Rightarrow> string \<Rightarrow> string" where
  "buildStubSymptom comments status reportDate =
     (let trimmed = trim_opt comments in
      if 10 \<le> length trimmed then trimmed
      else
        let label = (if status = DOWN_FAILURE then ''Detenido por Falla''
                     else ''Detenido por Mantenimiento'');
            suffix = (if trimmed = [] then []
                      else '' Observaci'' @ [CHR 0xF3] @ ''n: '' @ trimmed)
        in ''Declarado en parte M2 ('' @ label @ '') - turno '' @ reportDate @ ''.'' @ suffix)"

definition resolveEventDate :: "int \<Rightarrow> int option \<Rightarrow> int" where
  "resolveEventDate now d = (case d of Some t \<Rightarrow> set_utc_time t 12 0 | None \<Rightarrow> now)"

definition stop_result ::
    "transition_input \<Rightarrow> fault_report option \<Rightarrow> bool \<Rightarrow> skip_reason option \<Rightarrow> transition_result" where
  "stop_result inp fault created skipped =
     \<lparr>rs_equipment = ti_equipment inp, rs_operational = False,
      rs_fault = map_option fr_id fault, rs_fault_correlative = map_option fr_correlative fault,
      rs_created = created, rs_requires_completion = created, rs_skipped = skipped,
      rs_blockers = None\<rparr>"

definition applyStopTransition ::
    "int \<Rightarrow> transition_input \<Rightarrow> equipment \<Rightarrow> 'a ops_db_scheme \<Rightarrow>
     (transition_result \<times> 'a ops_db_scheme) res" where
  "applyStopTransition now inp e db =
     (let stop = set_equipment (ti_equipment inp) (\<lambda>x. x\<lparr>eq_operational := False\<rparr>) in
      case findActiveFaultReport (ti_tenant inp) (ti_equipment inp) db of
        Some r \<Rightarrow> Inr (stop_result inp (Some r) False (Some ACTIVE_FAULT_EXISTS), stop db)
      | None \<Rightarrow>
          (case or_null (eq_contract e) of
             None \<Rightarrow> Inr (stop_result inp None False (Some NO_CONTRACT_FOR_STUB), stop db)
           | Some c \<Rightarrow>
               let (correlative, db1) =
                     getNextCorrelative (ti_tenant inp) FR_DOCUMENT_TYPE FR_PREFIX (Some 5) None db;
                   stub = \<lparr>fr_id = ti_fault_id inp, fr_tenant = ti_tenant inp, fr_contract = c,
                     fr_equipment = ti_equipment inp, fr_by = ti_by inp,
                     fr_correlative = correlative,
                     fr_event_date = resolveEventDate now (ti_report_time inp),
                     fr_meter = ti_meter inp, fr_system = MOTOR, fr_criticality = CR_LOW,
                     fr_symptom = buildStubSymptom (ti_comments inp) (ti_new inp) (ti_report_date inp),
                     fr_status = FR_OPEN, fr_work_order = None\<rparr>
               in and_then (create_fault stub db1) (\<lambda>db2.
                    Inr (stop_result inp (Some stub) True None, stop db2))))"

definition base_result :: "transition_input \<Rightarrow> equipment \<Rightarrow> transition_result" where
  "base_result inp e =
     \<lparr>rs_equipment = ti_equipment inp, rs_operational = eq_operational e, rs_fault = None,
      rs_fault_correlative = None, rs_created = False, rs_requires_completion = False,
      rs_skipped = None, rs_blockers = None\<rparr>"

text \<open>A decision the caller has taken is used when it is about the same tenant and equipment.\<close>

definition return_decision_of :: "transition_input \<Rightarrow> 'a ops_db_scheme \<Rightarrow> return_decision" where
  "return_decision_of inp db =
     (case ti_decision inp of
        Some d \<Rightarrow>
          if rt_tenant d \<noteq> ti_tenant inp \<or> rt_equipment d \<noteq> ti_equipment inp
          then resolveReturnToService (ti_tenant inp) (ti_equipment inp) None db
          else d
      | None \<Rightarrow> resolveReturnToService (ti_tenant inp) (ti_equipment inp) None db)"

definition onOperationalStatusChange ::
    "int \<Rightarrow> transition_input \<Rightarrow> 'a ops_db_scheme \<Rightarrow> (transition_result \<times> 'a ops_db_scheme) res" where
  "onOperationalStatusChange now inp db =
     (case find_equipment (ti_equipment inp) (ti_tenant inp) db of
        None \<Rightarrow> Inl (NotFound ''El equipo no existe'')
      | Some e \<Rightarrow>
          if isStopStatus (ti_new inp) then applyStopTransition now inp e db
          else if ti_new inp = OPERATIONAL
                \<and> (case ti_previous inp of None \<Rightarrow> False | Some p \<Rightarrow> isStopStatus p) then
            (let decision = return_decision_of inp db in
             if \<not> rt_allowed decision then
               Inr ((base_result inp e)\<lparr>rs_operational := False,
                      rs_skipped := Some BLOCKED_BY_ACTIVE_CAUSES,
                      rs_blockers := Some (rt_blockers decision)\<rparr>, db)
             else Inr ((base_result inp e)\<lparr>rs_operational := True\<rparr>,
                    set_equipment (ti_equipment inp) (\<lambda>x. x\<lparr>eq_operational := True\<rparr>) db))
          else Inr ((base_result inp e)\<lparr>rs_skipped := Some NOT_APPLICABLE_STATUS\<rparr>, db))"

text \<open>
  The fixture of the witnesses: a tenant \<open>t\<close> with an equipment \<open>e\<close> of the contract \<open>c\<close>, in service
  at 100 hours, and no documents.
\<close>

definition small_equipment :: equipment where
  "small_equipment = \<lparr>eq_id = ''e'', eq_tenant = ''t'', eq_contract = Some ''c'', eq_subcontract = None,
     eq_internal = ''EX-1'', eq_plate = None, eq_vin = None, eq_subleased = False,
     eq_sublease_company = None, eq_meter_type = HOURS, eq_initial = 100, eq_meter = 100,
     eq_operational = True, eq_downtime = 0\<rparr>"

definition small_ops :: ops_db where
  "small_ops = \<lparr>counters = [], activity = [], warehouses = [], items = [], stocks = [], txs = [],
     configs = [], transfers = [], orders = [], receipts = [], asset_costs = [], signatures = [],
     approval_policies = [], purchase_settings = [], requisitions = [], quotations = [],
     equipments = [small_equipment], subcontracts = [], fault_reports = [], work_orders = [],
     backlog = [], reservations = [], lube_reports = [], meter_logs = [], meter_adjustments = [],
     availabilities = [], availability_events = [], shift_configs = [], attachments = []\<rparr>"

section \<open>Lemmas\<close>

lemma set_equipment_frame [simp]:
  "equipments (set_equipment i f db) = update_rows (\<lambda>e. eq_id e = i) f (equipments db)"
  "fault_reports (set_equipment i f db) = fault_reports db"
  "work_orders (set_equipment i f db) = work_orders db"
  "meter_logs (set_equipment i f db) = meter_logs db"
  "availabilities (set_equipment i f db) = availabilities db"
  "availability_events (set_equipment i f db) = availability_events db"
  "counters (set_equipment i f db) = counters db"
  "txs (set_equipment i f db) = txs db" "stocks (set_equipment i f db) = stocks db"
  "asset_costs (set_equipment i f db) = asset_costs db"
  "last_number t d (set_equipment i f db) = last_number t d db"
  by (simp_all add: set_equipment_def last_number_def counter_of_def)

lemma set_work_order_frame [simp]:
  "work_orders (set_work_order i g db) = update_rows (\<lambda>w. wo_id w = i) g (work_orders db)"
  "equipments (set_work_order i g db) = equipments db"
  "fault_reports (set_work_order i g db) = fault_reports db"
  "meter_logs (set_work_order i g db) = meter_logs db"
  "meter_adjustments (set_work_order i g db) = meter_adjustments db"
  "counters (set_work_order i g db) = counters db"
  "txs (set_work_order i g db) = txs db" "stocks (set_work_order i g db) = stocks db"
  "asset_costs (set_work_order i g db) = asset_costs db"
  "last_number t d (set_work_order i g db) = last_number t d db"
  by (simp_all add: set_work_order_def last_number_def counter_of_def)

lemma set_fault_frame [simp]:
  "fault_reports (set_fault i h db) = update_rows (\<lambda>r. fr_id r = i) h (fault_reports db)"
  "equipments (set_fault i h db) = equipments db"
  "work_orders (set_fault i h db) = work_orders db"
  "meter_logs (set_fault i h db) = meter_logs db"
  "counters (set_fault i h db) = counters db"
  "last_number t d (set_fault i h db) = last_number t d db"
  by (simp_all add: set_fault_def last_number_def counter_of_def)

lemma correlative_ops_frame [simp]:
  "equipments (snd (getNextCorrelative t d p w s db)) = equipments db"
  "fault_reports (snd (getNextCorrelative t d p w s db)) = fault_reports db"
  "work_orders (snd (getNextCorrelative t d p w s db)) = work_orders db"
  "meter_logs (snd (getNextCorrelative t d p w s db)) = meter_logs db"
  by (simp_all add: getNextCorrelative_def Let_def)

lemma create_fault_InrD:
  assumes "create_fault r db = Inr db'"
  shows "db' = db\<lparr>fault_reports := fault_reports db @ [r]\<rparr>"
    and "\<And>x. x \<in> set (fault_reports db) \<Longrightarrow> fr_tenant x = fr_tenant r \<Longrightarrow>
           fr_correlative x \<noteq> fr_correlative r"
  using assms by (auto simp: create_fault_def list_ex_iff split: if_splits)

lemma create_work_order_InrD:
  assumes "create_work_order w db = Inr db'"
  shows "db' = db\<lparr>work_orders := work_orders db @ [w]\<rparr>"
  using assms by (simp add: create_work_order_def split: if_splits)

lemma find_equipment_SomeD:
  "find_equipment i t db = Some e \<Longrightarrow> e \<in> set (equipments db) \<and> eq_id e = i \<and> eq_tenant e = t"
  unfolding find_equipment_def by (drule find_row_SomeD) simp

subsection \<open>Rows with distinct ids\<close>

definition equipment_ids :: "'a ops_db_scheme \<Rightarrow> id list" where
  "equipment_ids db = map eq_id (equipments db)"

lemma equipment_unique:
  "distinct (equipment_ids db) \<Longrightarrow> e \<in> set (equipments db) \<Longrightarrow> e' \<in> set (equipments db) \<Longrightarrow>
     eq_id e = eq_id e' \<Longrightarrow> e = e'"
  by (auto simp: equipment_ids_def distinct_map inj_on_def)

lemma equipment_ids_set [simp]:
  assumes "\<And>e. eq_id (f e) = eq_id e"
  shows "equipment_ids (set_equipment i f db) = equipment_ids db"
  by (auto simp: equipment_ids_def update_rows_def assms)

subsection \<open>The chain of the meter\<close>

fun meter_run :: "int \<Rightarrow> meter_log list \<Rightarrow> int option" where
  "meter_run m [] = Some m"
| "meter_run m (l # ls) = (if ml_old l = m then meter_run (ml_new l) ls else None)"

lemma meter_run_append:
  "meter_run m (ls @ ls') = Option.bind (meter_run m ls) (\<lambda>k. meter_run k ls')"
  by (induction ls arbitrary: m) auto

definition logs_of :: "id \<Rightarrow> 'a ops_db_scheme \<Rightarrow> meter_log list" where
  "logs_of i db = filter (\<lambda>l. ml_equipment l = i) (meter_logs db)"

text \<open>
  The log of an equipment is a chain (each entry starts where the one before it ended) that ends
  at the current meter; the entries that go backwards are manual.
\<close>

definition meters_ok :: "'a ops_db_scheme \<Rightarrow> bool" where
  "meters_ok db \<longleftrightarrow> distinct (equipment_ids db)
     \<and> (\<forall>e \<in> set (equipments db). \<exists>m. meter_run m (logs_of (eq_id e) db) = Some (eq_meter e))
     \<and> (\<forall>l \<in> set (meter_logs db). ml_equipment l \<in> set (equipment_ids db))
     \<and> (\<forall>l \<in> set (meter_logs db). ml_new l < ml_old l \<longrightarrow> ml_source l = SRC_MANUAL)"

definition meter_view :: "'a ops_db_scheme \<Rightarrow> (id \<times> int) list \<times> meter_log list" where
  "meter_view db = (map (\<lambda>e. (eq_id e, eq_meter e)) (equipments db), meter_logs db)"

lemma meters_ok_view:
  "meters_ok db \<longleftrightarrow> distinct (map fst (fst (meter_view db)))
     \<and> (\<forall>(i, m) \<in> set (fst (meter_view db)).
          \<exists>k. meter_run k (filter (\<lambda>l. ml_equipment l = i) (snd (meter_view db))) = Some m)
     \<and> (\<forall>l \<in> set (snd (meter_view db)). ml_equipment l \<in> fst ` set (fst (meter_view db)))
     \<and> (\<forall>l \<in> set (snd (meter_view db)). ml_new l < ml_old l \<longrightarrow> ml_source l = SRC_MANUAL)"
  by (auto simp: meters_ok_def meter_view_def equipment_ids_def logs_of_def comp_def image_image)

lemma meters_ok_cong: "meter_view db' = meter_view db \<Longrightarrow> meters_ok db' \<longleftrightarrow> meters_ok db"
  by (simp add: meters_ok_view)

lemma meter_view_cong:
  "equipments db' = equipments db \<Longrightarrow> meter_logs db' = meter_logs db \<Longrightarrow>
     meter_view db' = meter_view db"
  by (simp add: meter_view_def)

lemma meter_view_set:
  assumes "\<And>e. eq_id (f e) = eq_id e" and "\<And>e. eq_meter (f e) = eq_meter e"
  shows "meter_view (set_equipment i f db) = meter_view db"
  by (auto simp: meter_view_def update_rows_def assms)

lemma meters_ok_apply:
  assumes ok: "meters_ok db" and e: "e \<in> set (equipments db)" "eq_id e = i" "eq_meter e = old"
    and src: "new < old \<Longrightarrow> source = SRC_MANUAL"
  shows "meters_ok (applyCurrentMeterChange t i old new source sid u d db)"
proof (cases "old = new")
  case True
  with ok show ?thesis by (simp add: applyCurrentMeterChange_def)
next
  case False
  let ?db' = "applyCurrentMeterChange t i old new source sid u d db"
  have dist: "distinct (equipment_ids db)" using ok by (simp add: meters_ok_def)
  have rows: "equipments ?db' = update_rows (\<lambda>e. eq_id e = i) (\<lambda>x. x\<lparr>eq_meter := new\<rparr>) (equipments db)"
    and logs: "meter_logs ?db' = meter_logs db @ [\<lparr>ml_tenant = t, ml_equipment = i, ml_old = old,
        ml_new = new, ml_source = source, ml_source_id = sid, ml_user = u, ml_date = d\<rparr>]"
    using False by (simp_all add: applyCurrentMeterChange_def)
  have ids: "equipment_ids ?db' = equipment_ids db"
    by (auto simp: equipment_ids_def rows update_rows_def)
  have run: "\<exists>k. meter_run k (logs_of (eq_id x') ?db') = Some (eq_meter x')"
    if x': "x' \<in> set (equipments ?db')" for x'
  proof -
    from x' obtain x where x: "x \<in> set (equipments db)"
      and x'_eq: "x' = (if eq_id x = i then x\<lparr>eq_meter := new\<rparr> else x)"
      by (auto simp: rows set_update_rows)
    from ok x obtain k where k: "meter_run k (logs_of (eq_id x) db) = Some (eq_meter x)"
      by (auto simp: meters_ok_def)
    show ?thesis
    proof (cases "eq_id x = i")
      case True
      then have "x = e" using equipment_unique[OF dist x e(1)] e(2) by simp
      with k True e show ?thesis
        by (intro exI[of _ k]) (simp add: x'_eq logs_of_def logs meter_run_append)
    next
      case False
      with k show ?thesis
        by (intro exI[of _ k]) (simp add: x'_eq logs_of_def logs)
    qed
  qed
  have "ml_equipment l \<in> set (equipment_ids db)" if "l \<in> set (meter_logs ?db')" for l
    using that ok e by (auto simp: logs meters_ok_def equipment_ids_def)
  moreover have "ml_source l = SRC_MANUAL"
    if "l \<in> set (meter_logs ?db')" "ml_new l < ml_old l" for l
    using that ok src by (auto simp: logs meters_ok_def)
  ultimately show ?thesis
    using dist run by (simp add: meters_ok_def ids)
qed

lemma meters_ok_advance:
  assumes "meters_ok db" and "e \<in> set (equipments db)"
  shows "meters_ok (advance_meter t e m source sid u now db)"
proof (cases m)
  case None
  with assms show ?thesis by (simp add: advance_meter_def)
next
  case (Some k)
  show ?thesis
    by (simp add: Some advance_meter_def assms(1))
       (intro impI meters_ok_apply[OF assms refl refl], simp)
qed

lemma apply_frame [simp]:
  "fault_reports (applyCurrentMeterChange t i m n s sid u d db) = fault_reports db"
  "work_orders (applyCurrentMeterChange t i m n s sid u d db) = work_orders db"
  "availabilities (applyCurrentMeterChange t i m n s sid u d db) = availabilities db"
  "availability_events (applyCurrentMeterChange t i m n s sid u d db) = availability_events db"
  "counters (applyCurrentMeterChange t i m n s sid u d db) = counters db"
  "meter_adjustments (applyCurrentMeterChange t i m n s sid u d db) = meter_adjustments db"
  "equipment_ids (applyCurrentMeterChange t i m n s sid u d db) = equipment_ids db"
  by (simp_all add: applyCurrentMeterChange_def set_equipment_def equipment_ids_def update_rows_def)

lemma advance_frame [simp]:
  "fault_reports (advance_meter t e m s sid u d db) = fault_reports db"
  "work_orders (advance_meter t e m s sid u d db) = work_orders db"
  "availabilities (advance_meter t e m s sid u d db) = availabilities db"
  "availability_events (advance_meter t e m s sid u d db) = availability_events db"
  "counters (advance_meter t e m s sid u d db) = counters db"
  "equipment_ids (advance_meter t e m s sid u d db) = equipment_ids db"
  by (simp_all add: advance_meter_def split: option.splits)

subsection \<open>Returns to service\<close>

text \<open>The flags of a state, and the rule that a step raises a flag only where nothing blocks.\<close>

definition flag_view :: "'a ops_db_scheme \<Rightarrow> (id \<times> id \<times> bool) list" where
  "flag_view db = map (\<lambda>e. (eq_id e, eq_tenant e, eq_operational e)) (equipments db)"

definition free_to_return :: "equipment \<Rightarrow> 'a ops_db_scheme \<Rightarrow> bool" where
  "free_to_return e db \<longleftrightarrow> rt_allowed (resolveReturnToService (eq_tenant e) (eq_id e) None db)"

definition returns_free :: "'a ops_db_scheme \<Rightarrow> 'a ops_db_scheme \<Rightarrow> bool" where
  "returns_free db db' \<longleftrightarrow>
     (\<forall>e \<in> set (equipments db). \<forall>e' \<in> set (equipments db').
        eq_id e' = eq_id e \<and> \<not> eq_operational e \<and> eq_operational e' \<longrightarrow> free_to_return e' db')"

lemma returns_freeI:
  assumes "distinct (equipment_ids db)"
    and "\<And>e'. e' \<in> set (equipments db') \<Longrightarrow> eq_operational e' \<Longrightarrow>
       (\<exists>e \<in> set (equipments db). eq_id e = eq_id e' \<and> eq_operational e)
       \<or> eq_id e' \<notin> set (equipment_ids db) \<or> free_to_return e' db'"
  shows "returns_free db db'"
  unfolding returns_free_def
proof (intro ballI impI, elim conjE)
  fix e e' assume e: "e \<in> set (equipments db)" and e': "e' \<in> set (equipments db')"
    and same: "eq_id e' = eq_id e" and flags: "\<not> eq_operational e" "eq_operational e'"
  have "eq_id e' \<in> set (equipment_ids db)" using e same by (simp add: equipment_ids_def)
  moreover have "\<not> (\<exists>x \<in> set (equipments db). eq_id x = eq_id e' \<and> eq_operational x)"
    using equipment_unique[OF assms(1) e] same flags by metis
  ultimately show "free_to_return e' db'" using assms(2)[OF e' flags(2)] by blast
qed

lemma flag_view_cong:
  "equipments db' = equipments db \<Longrightarrow> flag_view db' = flag_view db"
  by (simp add: flag_view_def)

lemma flag_view_set:
  assumes "\<And>e. eq_id (f e) = eq_id e" "\<And>e. eq_tenant (f e) = eq_tenant e"
    and "\<And>e. eq_operational (f e) = eq_operational e"
  shows "flag_view (set_equipment i f db) = flag_view db"
  by (auto simp: flag_view_def update_rows_def assms)

lemma returns_free_view:
  assumes "distinct (equipment_ids db)" and "flag_view db' = flag_view db"
  shows "returns_free db db'"
proof (rule returns_freeI[OF assms(1)])
  fix e' assume "e' \<in> set (equipments db')" "eq_operational e'"
  then have "(eq_id e', eq_tenant e', True) \<in> set (flag_view db')"
    by (force simp: flag_view_def)
  with assms(2) show "(\<exists>e \<in> set (equipments db). eq_id e = eq_id e' \<and> eq_operational e)
      \<or> eq_id e' \<notin> set (equipment_ids db) \<or> free_to_return e' db'"
    by (auto simp: flag_view_def)
qed

lemma flag_view_apply [simp]:
  "flag_view (applyCurrentMeterChange t i m n s sid u d db) = flag_view db"
  by (simp add: applyCurrentMeterChange_def flag_view_def update_rows_def comp_def if_distrib cong: if_cong)

lemma flag_view_advance [simp]:
  "flag_view (advance_meter t e m s sid u d db) = flag_view db"
  by (simp add: advance_meter_def split: option.splits)

text \<open>Lowering the flag of an equipment after a change that keeps the flags.\<close>

lemma returns_free_lower:
  assumes "distinct (equipment_ids db)" and "flag_view db' = flag_view db"
  shows "returns_free db (set_equipment i (\<lambda>e. e\<lparr>eq_operational := False\<rparr>) db')"
proof (rule returns_freeI[OF assms(1)])
  fix e' assume "e' \<in> set (equipments (set_equipment i (\<lambda>e. e\<lparr>eq_operational := False\<rparr>) db'))"
    and "eq_operational e'"
  then have "(eq_id e', eq_tenant e', True) \<in> set (flag_view db')"
    by (force simp: flag_view_def set_update_rows split: if_splits)
  with assms(2) have "\<exists>e \<in> set (equipments db). eq_id e = eq_id e' \<and> eq_operational e"
    by (auto simp: flag_view_def)
  then show "(\<exists>e \<in> set (equipments db). eq_id e = eq_id e' \<and> eq_operational e)
      \<or> eq_id e' \<notin> set (equipment_ids db)
      \<or> free_to_return e' (set_equipment i (\<lambda>e. e\<lparr>eq_operational := False\<rparr>) db')" by blast
qed

end
