(* ===== verification/Availability.thy ===== *)
theory Availability
  imports Operations "HOL-Library.Multiset"
begin

text \<open>
  \<open>features/equipment-availability\<close>: the ledger of availability events
  (\<open>availability-event.service.ts\<close>) and the shift reports (\<open>equipment-availability.service.ts\<close>:
  the effective shift, the previous status, single and batch reports, the board of a shift). The
  Excel template and the parsing of its rows are left out; an import commits through the same
  \<open>upsertRow\<close> as the batch.
\<close>

section \<open>Events\<close>

text \<open>The order of the timeline: instant, creation, id.\<close>

definition ev_key :: "availability_event \<Rightarrow> int \<times> int \<times> string" where
  "ev_key x = (ev_at x, ev_created x, ev_id x)"

definition of_equipment :: "id \<Rightarrow> id \<Rightarrow> availability_event \<Rightarrow> bool" where
  "of_equipment tenant e x \<longleftrightarrow> ev_tenant x = tenant \<and> ev_equipment x = e"

definition findTimeline ::
    "id \<Rightarrow> id \<Rightarrow> int option \<Rightarrow> int option \<Rightarrow> 'a ops_db_scheme \<Rightarrow> availability_event list" where
  "findTimeline tenant e dateFrom dateTo db =
     sort_key ev_key (filter (\<lambda>x. of_equipment tenant e x
       \<and> (case dateFrom of None \<Rightarrow> True | Some f \<Rightarrow> f \<le> ev_at x)
       \<and> (case dateTo of None \<Rightarrow> True | Some t \<Rightarrow> ev_at x \<le> t)) (availability_events db))"

text \<open>The neighbours of an event: the last before it and the first after it.\<close>

definition ev_predecessor :: "availability_event \<Rightarrow> availability_event list \<Rightarrow> availability_event option" where
  "ev_predecessor x evs =
     find_row (\<lambda>y. ev_key y < ev_key x)
       (rev (sort_key ev_key (filter (of_equipment (ev_tenant x) (ev_equipment x)) evs)))"

definition ev_successor :: "availability_event \<Rightarrow> availability_event list \<Rightarrow> availability_event option" where
  "ev_successor x evs =
     find_row (\<lambda>y. ev_key x < ev_key y)
       (sort_key ev_key (filter (of_equipment (ev_tenant x) (ev_equipment x)) evs))"

definition minutes_between :: "int \<Rightarrow> int \<Rightarrow> int" where
  "minutes_between a b = max 0 ((b - a) div 60000)"

record event_input =
  ei_tenant :: id
  ei_availability :: "id option"
  ei_fault :: "id option"
  ei_equipment :: id
  ei_by :: "id option"
  ei_status :: op_status
  ei_previous :: "op_status option"
  ei_meter :: "int option"
  ei_comments :: "string option"
  ei_at :: int
  ei_source :: "event_source option"

definition check_event_source :: "event_input \<Rightarrow> event_source \<Rightarrow> 'a ops_db_scheme \<Rightarrow> unit res" where
  "check_event_source inp source db =
     (case source of
        EV_FAULT_REPORT \<Rightarrow>
          (case or_null (ei_fault inp) of
             None \<Rightarrow> Inl (BadRequest ''faultReportId es requerido'')
           | Some f \<Rightarrow>
               if or_null (ei_availability inp) \<noteq> None
               then Inl (BadRequest ''availabilityId no debe informarse'')
               else (case find_row (\<lambda>r. fr_id r = f) (fault_reports db) of
                   None \<Rightarrow> Inl (BadRequest ''El FaultReport no existe'')
                 | Some r \<Rightarrow>
                     if fr_tenant r \<noteq> ei_tenant inp \<or> fr_equipment r \<noteq> ei_equipment inp
                     then Inl (BadRequest ''El FaultReport no corresponde al mismo equipo'')
                     else Inr ()))
      | EV_OT \<Rightarrow> Inl (BadRequest ''El origen OT no esta soportado'')
      | _ \<Rightarrow>
          if or_null (ei_availability inp) = None
          then Inl (BadRequest ''availabilityId es requerido'')
          else if or_null (ei_fault inp) \<noteq> None
          then Inl (BadRequest ''faultReportId no debe informarse'')
          else Inr ())"

text \<open>The index \<open>@unique\<close> on the fault report of an event.\<close>

definition create_event ::
    "availability_event \<Rightarrow> availability_event list \<Rightarrow> availability_event list res" where
  "create_event x evs =
     (if ev_fault x \<noteq> None \<and> list_ex (\<lambda>y. ev_fault y = ev_fault x) evs then Inl UniqueViolation
      else Inr (evs @ [x]))"

text \<open>
  The links of a new event: it starts from the status given, else from that of the event before it;
  the event after it starts from the new one.
\<close>

definition link_event ::
    "op_status option \<Rightarrow> availability_event \<Rightarrow> availability_event list \<Rightarrow> availability_event list" where
  "link_event given x evs =
     (let predecessor = ev_predecessor x evs;
          successor = ev_successor x evs;
          evs1 = update_rows (\<lambda>y. ev_id y = ev_id x)
            (\<lambda>y. y\<lparr>ev_previous := or_else given (map_option ev_status predecessor),
                   ev_elapsed := map_option (\<lambda>p. minutes_between (ev_at p) (ev_at x)) predecessor\<rparr>) evs
      in case successor of
           None \<Rightarrow> evs1
         | Some s \<Rightarrow> update_rows (\<lambda>y. ev_id y = ev_id s)
             (\<lambda>y. y\<lparr>ev_previous := Some (ev_status x),
                    ev_elapsed := Some (minutes_between (ev_at x) (ev_at s))\<rparr>) evs1)"

definition event_of :: "id \<Rightarrow> int \<Rightarrow> event_input \<Rightarrow> event_source \<Rightarrow> availability_event" where
  "event_of newId now inp source =
     \<lparr>ev_id = newId, ev_tenant = ei_tenant inp, ev_availability = ei_availability inp,
      ev_fault = ei_fault inp, ev_equipment = ei_equipment inp, ev_by = ei_by inp,
      ev_status = ei_status inp, ev_previous = None, ev_meter = ei_meter inp,
      ev_comments = ei_comments inp, ev_at = ei_at inp, ev_source = source,
      ev_elapsed = None, ev_created = now\<rparr>"

definition register :: "id \<Rightarrow> int \<Rightarrow> event_input \<Rightarrow> 'a ops_db_scheme \<Rightarrow> 'a ops_db_scheme res" where
  "register newId now inp db =
     (let source = (case ei_source inp of Some s \<Rightarrow> s | None \<Rightarrow> EV_MANUAL);
          x = event_of newId now inp source
      in and_then (check_event_source inp source db) (\<lambda>_.
         and_then (create_event x (availability_events db)) (\<lambda>evs.
           Inr (db\<lparr>availability_events := link_event (ei_previous inp) x evs\<rparr>))))"

section \<open>Shifts\<close>

definition getOperationalConfig :: "id \<Rightarrow> 'a ops_db_scheme \<Rightarrow> shift_config" where
  "getOperationalConfig tenant db =
     (case find_row (\<lambda>c. sh_tenant c = tenant) (shift_configs db) of
        Some c \<Rightarrow> c
      | None \<Rightarrow> \<lparr>sh_tenant = tenant, sh_has_night = True, sh_day_start = ''08:00'',
                 sh_night_start = ''20:00''\<rparr>)"

definition resolveShift :: "id \<Rightarrow> shift_type option \<Rightarrow> 'a ops_db_scheme \<Rightarrow> shift_type" where
  "resolveShift tenant provided db =
     (let shift = (case provided of Some s \<Rightarrow> s | None \<Rightarrow> DAY) in
      if shift = NIGHT \<and> \<not> sh_has_night (getOperationalConfig tenant db) then DAY else shift)"

text \<open>\<open>Number.parseInt(s, 10) || 0\<close> of a part of a time of day.\<close>

definition parse_int_or_zero :: "string \<Rightarrow> int" where
  "parse_int_or_zero s = (case parse_int s of None \<Rightarrow> 0 | Some n \<Rightarrow> n)"

definition before_colon :: "string \<Rightarrow> string" where
  "before_colon s = takeWhile (\<lambda>c. c \<noteq> CHR '':'') s"

definition after_colon :: "string \<Rightarrow> string" where
  "after_colon s = takeWhile (\<lambda>c. c \<noteq> CHR '':'') (tl (dropWhile (\<lambda>c. c \<noteq> CHR '':'') s))"

definition resolveShiftStartAt :: "int \<Rightarrow> shift_type \<Rightarrow> shift_config \<Rightarrow> int" where
  "resolveShiftStartAt reportDate shift cfg =
     (let t = (if shift = DAY then sh_day_start cfg else sh_night_start cfg)
      in set_utc_time reportDate (parse_int_or_zero (before_colon t)) (parse_int_or_zero (after_colon t)))"

text \<open>The newest report before a day: the latest date and, within it, the latest created.\<close>

definition latest_before :: "id \<Rightarrow> id \<Rightarrow> int \<Rightarrow> 'a ops_db_scheme \<Rightarrow> availability option" where
  "latest_before tenant e day db =
     foldl (\<lambda>best a. case best of None \<Rightarrow> Some a
              | Some b \<Rightarrow> if av_date b \<le> av_date a then Some a else Some b) None
       (filter (\<lambda>a. av_tenant a = tenant \<and> av_equipment a = e \<and> av_date a < day) (availabilities db))"

abbreviation is_report :: "id \<Rightarrow> id \<Rightarrow> int \<Rightarrow> shift_type \<Rightarrow> availability \<Rightarrow> bool" where
  "is_report tenant e day shift a \<equiv>
     av_tenant a = tenant \<and> av_equipment a = e \<and> av_date a = day \<and> av_shift a = shift"

definition resolvePreviousAvailabilityStatus ::
    "id \<Rightarrow> id \<Rightarrow> int \<Rightarrow> shift_type \<Rightarrow> op_status option \<Rightarrow> 'a ops_db_scheme \<Rightarrow> op_status option" where
  "resolvePreviousAvailabilityStatus tenant e day shift current db =
     (if current \<noteq> None then current
      else let sameDay = (if shift = NIGHT
             then map_option av_status (find_row (is_report tenant e day DAY) (availabilities db))
             else None)
        in or_else sameDay (map_option av_status (latest_before tenant e day db)))"

section \<open>Reports\<close>

text \<open>
  A report of a shift: the text of its date and the instant it denotes. \<open>ar_ids\<close> are the ids of
  the report, the event and the fault report it may create.
\<close>

record report_row =
  ar_equipment :: id
  ar_status :: op_status
  ar_meter :: "int option"
  ar_comments :: "string option"

record report_ids =
  id_report :: id
  id_event :: id
  id_fault :: id

definition validate_return ::
    "id \<Rightarrow> id \<Rightarrow> op_status \<Rightarrow> op_status option \<Rightarrow> 'a ops_db_scheme \<Rightarrow> return_decision option res" where
  "validate_return tenant e status previous db =
     (if status = OPERATIONAL \<and> (case previous of None \<Rightarrow> False | Some p \<Rightarrow> isStopStatus p) then
        (let d = resolveReturnToService tenant e None db in
         if \<not> rt_allowed d then Inl (Conflict ''EQUIPMENT_RETURN_TO_SERVICE_BLOCKED'')
         else Inr (Some d))
      else Inr None)"

text \<open>What follows the write of the report: the event, the meter and the operational flag.\<close>

definition after_report ::
    "report_ids \<Rightarrow> int \<Rightarrow> user \<Rightarrow> string \<Rightarrow> int \<Rightarrow> report_row \<Rightarrow> equipment \<Rightarrow> id \<Rightarrow>
     op_status option \<Rightarrow> int \<Rightarrow> return_decision option \<Rightarrow> 'a ops_db_scheme \<Rightarrow>
     (transition_result \<times> 'a ops_db_scheme) res" where
  "after_report ids now u dateText dateTime row e reportId previous eventAt decision db =
     and_then (register (id_event ids) now
       \<lparr>ei_tenant = user_tenant u, ei_availability = Some reportId, ei_fault = None,
        ei_equipment = ar_equipment row, ei_by = Some (acting_user_id u),
        ei_status = ar_status row, ei_previous = previous, ei_meter = ar_meter row,
        ei_comments = ar_comments row, ei_at = eventAt, ei_source = Some EV_MANUAL\<rparr> db) (\<lambda>db1.
     onOperationalStatusChange now
       \<lparr>ti_tenant = user_tenant u, ti_equipment = ar_equipment row, ti_new = ar_status row,
        ti_previous = previous, ti_meter = ar_meter row, ti_comments = ar_comments row,
        ti_report_date = dateText, ti_report_time = Some dateTime, ti_by = acting_user_id u,
        ti_decision = decision, ti_fault_id = id_fault ids\<rparr>
       (advance_meter (user_tenant u) e (ar_meter row) SRC_AVAILABILITY_REPORT (Some reportId)
          (acting_user_id u) now db1))"

definition new_report ::
    "report_ids \<Rightarrow> user \<Rightarrow> int \<Rightarrow> shift_type \<Rightarrow> report_row \<Rightarrow> equipment \<Rightarrow> availability" where
  "new_report ids u day shift row e =
     \<lparr>av_id = id_report ids, av_tenant = user_tenant u, av_contract = eq_contract e,
      av_equipment = ar_equipment row, av_by = acting_user_id u, av_date = day, av_shift = shift,
      av_status = ar_status row, av_meter = ar_meter row, av_comments = ar_comments row\<rparr>"

definition availability_create ::
    "report_ids \<Rightarrow> int \<Rightarrow> user \<Rightarrow> string \<Rightarrow> int \<Rightarrow> shift_type option \<Rightarrow> report_row \<Rightarrow>
     'a ops_db_scheme \<Rightarrow> (transition_result \<times> 'a ops_db_scheme) res" where
  "availability_create ids now u dateText dateTime shiftOpt row db =
     (let tenant = user_tenant u;
          shift = resolveShift tenant shiftOpt db;
          cfg = getOperationalConfig tenant db
      in case find_equipment (ar_equipment row) tenant db of
        None \<Rightarrow> Inl (NotFound ''El equipo no existe'')
      | Some e \<Rightarrow>
          let day = utc_midnight dateTime;
              previous = resolvePreviousAvailabilityStatus tenant (ar_equipment row) day shift None db
          in and_then (validate_return tenant (ar_equipment row) (ar_status row) previous db) (\<lambda>decision.
             if list_ex (is_report tenant (ar_equipment row) day shift) (availabilities db)
             then Inl (Conflict ''El equipo ya tiene un reporte para este turno y fecha'')
             else after_report ids now u dateText dateTime row e (id_report ids) previous
                    (resolveShiftStartAt day shift cfg) decision
                    (db\<lparr>availabilities := availabilities db @ [new_report ids u day shift row e]\<rparr>)))"

definition upsertRow ::
    "report_ids \<Rightarrow> int \<Rightarrow> user \<Rightarrow> string \<Rightarrow> int \<Rightarrow> shift_type \<Rightarrow> report_row \<Rightarrow>
     'a ops_db_scheme \<Rightarrow> (transition_result \<times> 'a ops_db_scheme) res" where
  "upsertRow ids now u dateText dateTime shift row db =
     (let tenant = user_tenant u;
          cfg = getOperationalConfig tenant db
      in case find_equipment (ar_equipment row) tenant db of
        None \<Rightarrow> Inl (NotFound ''El equipo no existe'')
      | Some e \<Rightarrow>
          let day = utc_midnight dateTime;
              existing = find_row (is_report tenant (ar_equipment row) day shift) (availabilities db);
              eventAt = (if existing \<noteq> None then now else resolveShiftStartAt day shift cfg);
              previous = resolvePreviousAvailabilityStatus tenant (ar_equipment row) day shift
                (map_option av_status existing) db
          in and_then (validate_return tenant (ar_equipment row) (ar_status row) previous db) (\<lambda>decision.
             after_report ids now u dateText dateTime row e
               (case existing of Some a \<Rightarrow> av_id a | None \<Rightarrow> id_report ids) previous eventAt decision
               (db\<lparr>availabilities := upsert_row (is_report tenant (ar_equipment row) day shift)
                  (\<lambda>a. a\<lparr>av_status := ar_status row, av_meter := ar_meter row,
                        av_comments := ar_comments row, av_by := acting_user_id u\<rparr>)
                  (new_report ids u day shift row e) (availabilities db)\<rparr>)))"

text \<open>
  The batch and the import: every row in its own transaction, the failures collected. A row comes
  with its ids and the time at which it is handled.
\<close>

record side_effect =
  se_equipment :: id
  se_status :: op_status
  se_operational :: bool
  se_fault :: "id option"
  se_fault_correlative :: "string option"
  se_created :: bool
  se_requires_completion :: bool

definition toAvailabilitySideEffect :: "transition_result \<Rightarrow> op_status \<Rightarrow> side_effect" where
  "toAvailabilitySideEffect t status =
     \<lparr>se_equipment = rs_equipment t, se_status = status, se_operational = rs_operational t,
      se_fault = rs_fault t, se_fault_correlative = rs_fault_correlative t,
      se_created = rs_created t, se_requires_completion = rs_requires_completion t\<rparr>"

record batch_result =
  ba_committed :: nat
  ba_errors :: "(id \<times> http_error) list"
  ba_effects :: "side_effect list"

definition batch_row ::
    "user \<Rightarrow> string \<Rightarrow> int \<Rightarrow> shift_type \<Rightarrow> report_row \<times> report_ids \<times> int \<Rightarrow>
     'a ops_db_scheme \<times> batch_result \<Rightarrow> 'a ops_db_scheme \<times> batch_result" where
  "batch_row u dateText dateTime shift x s =
     (case x of (row, ids, now) \<Rightarrow>
      case s of (db, res) \<Rightarrow>
      (case upsertRow ids now u dateText dateTime shift row db of
         Inl err \<Rightarrow> (db, res\<lparr>ba_errors := ba_errors res @ [(ar_equipment row, err)]\<rparr>)
       | Inr (t, db') \<Rightarrow>
           (db', res\<lparr>ba_committed := ba_committed res + 1,
                     ba_effects := ba_effects res @ [toAvailabilitySideEffect t (ar_status row)]\<rparr>)))"

definition batchCreate ::
    "user \<Rightarrow> string \<Rightarrow> int \<Rightarrow> shift_type option \<Rightarrow> (report_row \<times> report_ids \<times> int) list \<Rightarrow>
     'a ops_db_scheme \<Rightarrow> 'a ops_db_scheme \<times> batch_result" where
  "batchCreate u dateText dateTime shiftOpt rows db =
     (let shift = resolveShift (user_tenant u) shiftOpt db in
      fold (batch_row u dateText dateTime shift) rows
        (db, \<lparr>ba_committed = 0, ba_errors = [], ba_effects = []\<rparr>))"

section \<open>The timeline\<close>

text \<open>
  A chain relates every element of a list to the one before it (\<open>None\<close> before the first). The
  timeline of an equipment is the sorted list of its events; its minutes are in order when every
  event counts them from the event before it, and its statuses when every event starts from the
  status of the event before it.
\<close>

fun chain :: "('x option \<Rightarrow> 'x \<Rightarrow> bool) \<Rightarrow> 'x option \<Rightarrow> 'x list \<Rightarrow> bool" where
  "chain rel p [] = True"
| "chain rel p (x # xs) = (rel p x \<and> chain rel (Some x) xs)"

definition last_or :: "'x option \<Rightarrow> 'x list \<Rightarrow> 'x option" where
  "last_or p xs = (if xs = [] then p else Some (last xs))"

definition timeline :: "id \<Rightarrow> id \<Rightarrow> 'a ops_db_scheme \<Rightarrow> availability_event list" where
  "timeline tenant e db = sort_key ev_key (filter (of_equipment tenant e) (availability_events db))"

definition minutes_rel :: "availability_event option \<Rightarrow> availability_event \<Rightarrow> bool" where
  "minutes_rel p x \<longleftrightarrow> ev_elapsed x = map_option (\<lambda>q. max 0 ((ev_at x - ev_at q) div 60000)) p"

definition status_rel :: "availability_event option \<Rightarrow> availability_event \<Rightarrow> bool" where
  "status_rel p x \<longleftrightarrow> ev_previous x = map_option ev_status p"

lemma last_or_simps [simp]:
  "last_or p [] = p" "last_or p (x # xs) = last_or (Some x) xs"
  by (simp_all add: last_or_def)

lemma chain_append: "chain rel p (xs @ ys) \<longleftrightarrow> chain rel p xs \<and> chain rel (last_or p xs) ys"
  by (induction xs arbitrary: p) auto

lemma find_row_all: "(\<And>x. x \<in> set xs \<Longrightarrow> q x) \<Longrightarrow> find_row q xs = (case xs of [] \<Rightarrow> None | x # _ \<Rightarrow> Some x)"
  by (cases xs) auto

lemma find_row_no: "(\<And>x. x \<in> set xs \<Longrightarrow> \<not> q x) \<Longrightarrow> find_row q xs = None"
  by (simp add: find_row_None_iff)

lemma find_row_rev_all: "(\<And>x. x \<in> set xs \<Longrightarrow> q x) \<Longrightarrow> find_row q (rev xs) = last_or None xs"
  by (cases xs rule: rev_cases) (simp_all add: last_or_def)

lemma insort_key_map:
  "(\<And>y. k (f y) = k y) \<Longrightarrow> insort_key k (f x) (map f xs) = map f (insort_key k x xs)"
  by (induction xs) auto

lemma sort_key_map: "(\<And>y. k (f y) = k y) \<Longrightarrow> sort_key k (map f xs) = map f (sort_key k xs)"
  by (induction xs) (simp_all add: insort_key_map)

lemma filter_update_rows:
  "(\<And>y. P (f y) = P y) \<Longrightarrow> filter P (update_rows q f ys) = update_rows q f (filter P ys)"
  by (induction ys) auto

lemma sort_key_update_rows:
  assumes "\<And>y. k (f y) = k y"
  shows "sort_key k (update_rows q f ys) = update_rows q f (sort_key k ys)"
  unfolding update_rows_def by (rule sort_key_map) (simp add: assms)

lemma ev_key_inj: "distinct (map ev_id evs) \<Longrightarrow> inj_on ev_key (set evs)"
  by (auto simp: inj_on_def ev_key_def distinct_map)

text \<open>A new event in the sorted events of its equipment: those before it, it, those after it.\<close>

lemma sort_new_event:
  assumes "distinct (map ev_id (x # evs))"
  defines "S \<equiv> sort_key ev_key evs"
  shows "sort_key ev_key (evs @ [x]) =
     filter (\<lambda>y. ev_key y < ev_key x) S @ x # filter (\<lambda>y. ev_key x < ev_key y) S"
proof (rule sort_key_inj_key_eq)
  have ne: "ev_key y \<noteq> ev_key x" if "y \<in> set evs" for y
    using assms(1) imageI[OF that, of ev_id] by (auto simp: ev_key_def)
  then have "filter (\<lambda>y. ev_key x < ev_key y) S = filter (\<lambda>y. \<not> ev_key y < ev_key x) S"
    by (intro filter_cong refl) (metis S_def ne set_sort not_less_iff_gr_or_eq)
  then have "mset (filter (\<lambda>y. ev_key y < ev_key x) S) + mset (filter (\<lambda>y. ev_key x < ev_key y) S)
      = mset evs"
    by (simp add: S_def mset_filter union_filter_mset_complement
        del: not_less)
  then show "mset (evs @ [x]) = mset (filter (\<lambda>y. ev_key y < ev_key x) S @ x # filter (\<lambda>y. ev_key x < ev_key y) S)"
    by simp
  have "distinct (map ev_id (evs @ [x]))" using assms(1) by simp
  then show "inj_on ev_key (set (evs @ [x]))" by (rule ev_key_inj)
  have "sorted (map ev_key S)" by (simp add: S_def)
  then show "sorted (map ev_key (filter (\<lambda>y. ev_key y < ev_key x) S @ x # filter (\<lambda>y. ev_key x < ev_key y) S))"
    by (auto simp: sorted_append intro: sorted_filter)
qed

lemma update_rows_miss: "(\<And>y. y \<in> set ys \<Longrightarrow> \<not> q y) \<Longrightarrow> update_rows q f ys = ys"
  by (induction ys) auto

lemma update_rows_origin:
  assumes "y \<in> set (update_rows q f zs)"
  obtains z where "z \<in> set zs" "y = z \<or> y = f z"
  using assms by (auto simp: set_update_rows split: if_splits)

lemma update_rows_mid:
  assumes "distinct (map k (xs @ x # ys))"
  shows "update_rows (\<lambda>y. k y = k x) f (xs @ x # ys) = xs @ f x # ys"
proof -
  have "k x \<notin> k ` (set xs \<union> set ys)" using assms by auto
  then have "k y \<noteq> k x" if "y \<in> set xs \<union> set ys" for y
    using imageI[OF that, of k] by metis
  then show ?thesis by (simp add: update_rows_append update_rows_miss)
qed

lemma of_equipment_links [simp]:
  "of_equipment t e (y\<lparr>ev_previous := a, ev_elapsed := b\<rparr>) = of_equipment t e y"
  "ev_key (y\<lparr>ev_previous := a, ev_elapsed := b\<rparr>) = ev_key y"
  by (simp_all add: of_equipment_def ev_key_def)

text \<open>The links of an event to the one before it, and the new first event after an insertion.\<close>

definition linked_to :: "op_status option \<Rightarrow> availability_event option \<Rightarrow> availability_event \<Rightarrow> availability_event" where
  "linked_to given p x =
     x\<lparr>ev_previous := or_else given (map_option ev_status p),
       ev_elapsed := map_option (\<lambda>q. minutes_between (ev_at q) (ev_at x)) p\<rparr>"

definition relink :: "availability_event \<Rightarrow> availability_event list \<Rightarrow> availability_event list" where
  "relink x ys = (case ys of [] \<Rightarrow> []
     | s # r \<Rightarrow> s\<lparr>ev_previous := Some (ev_status x),
                ev_elapsed := Some (minutes_between (ev_at x) (ev_at s))\<rparr> # r)"

lemma neighbours:
  assumes "distinct (map ev_id (evs @ [x]))"
  defines "S \<equiv> sort_key ev_key (filter (of_equipment (ev_tenant x) (ev_equipment x)) evs)"
  defines "L1 \<equiv> filter (\<lambda>y. ev_key y < ev_key x) S"
    and "L2 \<equiv> filter (\<lambda>y. ev_key x < ev_key y) S"
  shows "sort_key ev_key (filter (of_equipment (ev_tenant x) (ev_equipment x)) (evs @ [x])) = L1 @ x # L2"
    and "ev_predecessor x (evs @ [x]) = last_or None L1"
    and "ev_successor x (evs @ [x]) = (case L2 of [] \<Rightarrow> None | s # _ \<Rightarrow> Some s)"
proof -
  have own: "of_equipment (ev_tenant x) (ev_equipment x) x" by (simp add: of_equipment_def)
  have d: "distinct (map ev_id (x # filter (of_equipment (ev_tenant x) (ev_equipment x)) evs))"
    using assms(1) by (auto simp: distinct_map inj_on_def)
  show all: "sort_key ev_key (filter (of_equipment (ev_tenant x) (ev_equipment x)) (evs @ [x])) = L1 @ x # L2"
    using sort_new_event[OF d] own by (simp add: L1_def L2_def S_def)
  have l1: "ev_key y < ev_key x" if "y \<in> set L1" for y using that by (simp add: L1_def)
  have l2: "ev_key x < ev_key y" if "y \<in> set L2" for y using that by (simp add: L2_def)
  have n2: "find_row (\<lambda>y. ev_key y < ev_key x) (rev L2) = None"
    by (rule find_row_no) (use l2 order.asym in auto)
  have n1: "find_row (\<lambda>y. ev_key x < ev_key y) L1 = None"
    by (rule find_row_no) (use l1 order.asym in auto)
  have "find_row (\<lambda>y. ev_key y < ev_key x) (rev (L1 @ x # L2)) = last_or None L1"
    using find_row_rev_all[of L1 "\<lambda>y. ev_key y < ev_key x"] l1 n2
    by (simp add: find_row_append)
  then show "ev_predecessor x (evs @ [x]) = last_or None L1"
    by (simp only: ev_predecessor_def all)
  have "find_row (\<lambda>y. ev_key x < ev_key y) (L1 @ x # L2) = (case L2 of [] \<Rightarrow> None | s # _ \<Rightarrow> Some s)"
    using find_row_all[of L2 "\<lambda>y. ev_key x < ev_key y"] l2 n1
    by (simp add: find_row_append)
  then show "ev_successor x (evs @ [x]) = (case L2 of [] \<Rightarrow> None | s # _ \<Rightarrow> Some s)"
    by (simp only: ev_successor_def all)
qed

lemma sorted_split_at:
  assumes "sorted (map k zs)" and "\<And>y. y \<in> set zs \<Longrightarrow> k y \<noteq> (v :: 'k :: linorder)"
  shows "zs = filter (\<lambda>y. k y < v) zs @ filter (\<lambda>y. v < k y) zs"
  using assms
proof (induction zs)
  case (Cons z zs)
  show ?case
  proof (cases "k z < v")
    case True
    with Cons show ?thesis by (auto simp: order.asym)
  next
    case False
    with Cons.prems(2)[of z] have z: "v < k z" by auto
    with Cons.prems(1) have all: "v < k y" if "y \<in> set zs" for y
      using that by (auto intro: less_le_trans)
    then have "\<not> k y < v" if "y \<in> set zs" for y
      using that by (meson order.asym)
    with all have "filter (\<lambda>y. k y < v) zs = []" "filter (\<lambda>y. v < k y) zs = zs"
      by (auto simp: filter_empty_conv filter_id_conv)
    with z False show ?thesis by simp
  qed
qed simp

lemma filter_update_outside:
  assumes "\<And>y. y \<in> set zs \<Longrightarrow> q y \<Longrightarrow> \<not> Q y" and "\<And>y. Q (f y) = Q y"
  shows "filter Q (update_rows q f zs) = filter Q zs"
  using assms by (induction zs) auto

text \<open>A registration is two changes of rows: the links of the new event, and of the event after it.\<close>

lemma link_event_eq:
  assumes d: "distinct (map ev_id (evs @ [x]))"
  defines "S \<equiv> sort_key ev_key (filter (of_equipment (ev_tenant x) (ev_equipment x)) evs)"
  shows "link_event given x (evs @ [x]) =
     (let evs1 = update_rows (\<lambda>y. ev_id y = ev_id x)
            (\<lambda>y. y\<lparr>ev_previous := or_else given
                     (map_option ev_status (last_or None (filter (\<lambda>y. ev_key y < ev_key x) S))),
                   ev_elapsed := map_option (\<lambda>p. minutes_between (ev_at p) (ev_at x))
                     (last_or None (filter (\<lambda>y. ev_key y < ev_key x) S))\<rparr>) (evs @ [x])
      in case filter (\<lambda>y. ev_key x < ev_key y) S of
           [] \<Rightarrow> evs1
         | s # _ \<Rightarrow> update_rows (\<lambda>y. ev_id y = ev_id s)
             (\<lambda>y. y\<lparr>ev_previous := Some (ev_status x),
                    ev_elapsed := Some (minutes_between (ev_at x) (ev_at s))\<rparr>) evs1)"
  using neighbours(2,3)[OF d, folded S_def]
  by (simp add: link_event_def Let_def split: list.splits)

text \<open>The timeline after a registration: the new event in its place, linked on both sides.\<close>

lemma timeline_link:
  assumes d: "distinct (map ev_id (evs @ [x]))"
  defines "P \<equiv> of_equipment (ev_tenant x) (ev_equipment x)"
  defines "S \<equiv> sort_key ev_key (filter P evs)"
  defines "L1 \<equiv> filter (\<lambda>y. ev_key y < ev_key x) S" and "L2 \<equiv> filter (\<lambda>y. ev_key x < ev_key y) S"
  shows "sort_key ev_key (filter P (link_event given x (evs @ [x]))) =
      L1 @ linked_to given (last_or None L1) x # relink x L2"
proof -
  note all = neighbours(1)[OF d, folded P_def, folded S_def, folded L1_def L2_def]
  have d12: "distinct (map ev_id (L1 @ x # L2))"
  proof -
    have "distinct (map ev_id (filter P (evs @ [x])))" using d by (rule distinct_map_filter)
    moreover have "mset (map ev_id (L1 @ x # L2)) = mset (map ev_id (filter P (evs @ [x])))"
      using all by (metis mset_map mset_sort)
    ultimately show ?thesis using mset_eq_imp_distinct_iff by blast
  qed
  let ?f = "\<lambda>y. y\<lparr>ev_previous := or_else given (map_option ev_status (last_or None L1)),
       ev_elapsed := map_option (\<lambda>p. minutes_between (ev_at p) (ev_at x)) (last_or None L1)\<rparr>"
  have first: "update_rows (\<lambda>y. ev_id y = ev_id x) ?f (L1 @ x # L2)
      = L1 @ linked_to given (last_or None L1) x # L2"
    using update_rows_mid[OF d12] by (simp add: linked_to_def)
  show ?thesis
  proof (cases L2)
    case Nil
    with all first show ?thesis
      by (simp add: link_event_eq[OF d, folded P_def, folded S_def, folded L1_def L2_def] Let_def
          P_def filter_update_rows sort_key_update_rows relink_def)
  next
    case (Cons s r)
    have "update_rows (\<lambda>y. ev_id y = ev_id s) (\<lambda>y. y\<lparr>ev_previous := Some (ev_status x),
           ev_elapsed := Some (minutes_between (ev_at x) (ev_at s))\<rparr>)
        (L1 @ linked_to given (last_or None L1) x # L2)
        = L1 @ linked_to given (last_or None L1) x # relink x L2"
      using update_rows_mid[of ev_id "L1 @ [linked_to given (last_or None L1) x]" s r] d12 Cons
      by (simp add: relink_def linked_to_def)
    with all first Cons show ?thesis
      by (simp add: link_event_eq[OF d, folded P_def, folded S_def, folded L1_def L2_def] Let_def
          P_def filter_update_rows sort_key_update_rows)
  qed
qed

text \<open>The events of other equipments keep their links.\<close>

lemma other_link:
  assumes d: "distinct (map ev_id (evs @ [x]))" and te: "(t, e) \<noteq> (ev_tenant x, ev_equipment x)"
  shows "filter (of_equipment t e) (link_event given x (evs @ [x])) = filter (of_equipment t e) evs"
proof -
  let ?S = "sort_key ev_key (filter (of_equipment (ev_tenant x) (ev_equipment x)) evs)"
  let ?f = "\<lambda>y. y\<lparr>ev_previous := or_else given
         (map_option ev_status (last_or None (filter (\<lambda>y. ev_key y < ev_key x) ?S))),
       ev_elapsed := map_option (\<lambda>p. minutes_between (ev_at p) (ev_at x))
         (last_or None (filter (\<lambda>y. ev_key y < ev_key x) ?S))\<rparr>"
  have out: "\<not> of_equipment t e y" if "of_equipment (ev_tenant x) (ev_equipment x) y" for y
    using that te by (auto simp: of_equipment_def)
  have x_out: "\<not> of_equipment t e x" by (rule out) (simp add: of_equipment_def)
  have same: "y = z" if "y \<in> set (evs @ [x])" "z \<in> set (evs @ [x])" "ev_id y = ev_id z" for y z
    using d that by (metis distinct_map inj_onD)
  have step1: "filter (of_equipment t e) (update_rows (\<lambda>y. ev_id y = ev_id x) ?f (evs @ [x]))
      = filter (of_equipment t e) evs"
    using x_out same[of _ x] by (subst filter_update_outside) auto
  show ?thesis
  proof (cases "filter (\<lambda>y. ev_key x < ev_key y) ?S")
    case Nil
    with step1 show ?thesis by (simp add: link_event_eq[OF d] Let_def)
  next
    case (Cons s r)
    then have "s \<in> set (filter (\<lambda>y. ev_key x < ev_key y) ?S)" by simp
    then have s: "s \<in> set (evs @ [x])" "\<not> of_equipment t e s" using out by auto
    have out2: "\<not> of_equipment t e y"
      if y: "y \<in> set (update_rows (\<lambda>y. ev_id y = ev_id x) ?f (evs @ [x]))" "ev_id y = ev_id s" for y
    proof -
      from y(1) obtain z where z: "z \<in> set (evs @ [x])" "y = z \<or> y = ?f z"
        by (rule update_rows_origin)
      then have "ev_id y = ev_id z" "of_equipment t e y = of_equipment t e z" by auto
      with same[OF z(1) s(1)] y(2) s(2) show ?thesis by simp
    qed
    show ?thesis
      unfolding link_event_eq[OF d] Let_def Cons list.case
      by (subst filter_update_outside) (use out2 step1 in simp_all)
  qed
qed

lemma chain_new:
  assumes "chain rel None (L1 @ L2)"
    and "rel (last_or None L1) (linked_to given (last_or None L1) x)"
    and keep: "\<And>y a b z. rel (Some (y\<lparr>ev_previous := a, ev_elapsed := b\<rparr>)) z = rel (Some y) z"
    and relinked: "\<And>s. rel (Some x) (s\<lparr>ev_previous := Some (ev_status x),
           ev_elapsed := Some (minutes_between (ev_at x) (ev_at s))\<rparr>)"
  shows "chain rel None (L1 @ linked_to given (last_or None L1) x # relink x L2)"
proof -
  have x: "rel (Some (linked_to g p x)) = rel (Some x)" for g p
    by (rule ext) (simp add: linked_to_def keep)
  show ?thesis
  proof (cases L2)
    case Nil
    with assms(1,2) show ?thesis by (simp add: chain_append relink_def)
  next
    case (Cons s r)
    with assms(1,2) relinked[of s] show ?thesis
      by (cases r) (simp_all add: chain_append relink_def x keep)
  qed
qed

lemma register_InrE:
  assumes "register newId now inp db = Inr db'"
  obtains x where "x = event_of newId now inp (case ei_source inp of Some s \<Rightarrow> s | None \<Rightarrow> EV_MANUAL)"
    "db' = db\<lparr>availability_events :=
       link_event (ei_previous inp) x (availability_events db @ [x])\<rparr>"
  using assms by (auto simp: register_def Let_def and_then_eq_Inr create_event_def split: if_splits)

lemma event_of_fields [simp]:
  "ev_id (event_of newId now inp src) = newId"
  "ev_tenant (event_of newId now inp src) = ei_tenant inp"
  "ev_equipment (event_of newId now inp src) = ei_equipment inp"
  "ev_key (event_of newId now inp src) = (ei_at inp, now, newId)"
  by (simp_all add: event_of_def ev_key_def)

lemma ids_link_event:
  "map ev_id (link_event given x (evs @ [x])) = map ev_id evs @ [ev_id x]"
  by (auto simp: link_event_def Let_def update_rows_def split: option.splits)

text \<open>The timelines after a registration: that of its equipment, and the others.\<close>

lemma timeline_register:
  assumes "register newId now inp db = Inr db'"
    and "distinct (map ev_id (availability_events db))"
    and "newId \<notin> ev_id ` set (availability_events db)"
  obtains x L1 L2 where "timeline (ei_tenant inp) (ei_equipment inp) db = L1 @ L2"
    "timeline (ei_tenant inp) (ei_equipment inp) db' =
       L1 @ linked_to (ei_previous inp) (last_or None L1) x # relink x L2"
    "L1 = filter (\<lambda>y. ev_key y < (ei_at inp, now, newId)) (timeline (ei_tenant inp) (ei_equipment inp) db)"
    "\<And>t e. (t, e) \<noteq> (ei_tenant inp, ei_equipment inp) \<Longrightarrow> timeline t e db' = timeline t e db"
proof -
  obtain x where x_def: "x = event_of newId now inp (case ei_source inp of Some s \<Rightarrow> s | None \<Rightarrow> EV_MANUAL)"
    and db': "db' = db\<lparr>availability_events := link_event (ei_previous inp) x (availability_events db @ [x])\<rparr>"
    using assms(1) by (rule register_InrE)
  note x = event_of_fields[of newId now inp "case ei_source inp of Some s \<Rightarrow> s | None \<Rightarrow> EV_MANUAL", folded x_def]
  have d: "distinct (map ev_id (availability_events db @ [x]))" using assms(2,3) x(1) by simp
  let ?S = "timeline (ei_tenant inp) (ei_equipment inp) db"
  let ?L1 = "filter (\<lambda>y. ev_key y < ev_key x) ?S" and ?L2 = "filter (\<lambda>y. ev_key x < ev_key y) ?S"
  have "ev_id y \<noteq> newId" if "y \<in> set (availability_events db)" for y
    using assms(3) imageI[OF that, of ev_id] by metis
  then have "ev_key y \<noteq> ev_key x" if "y \<in> set ?S" for y
    using that x(4) by (auto simp: timeline_def ev_key_def)
  then have "?S = ?L1 @ ?L2"
    by (intro sorted_split_at) (simp_all add: timeline_def)
  moreover have "timeline (ei_tenant inp) (ei_equipment inp) db' =
       ?L1 @ linked_to (ei_previous inp) (last_or None ?L1) x # relink x ?L2"
    using timeline_link[OF d, of "ei_previous inp"] by (simp add: timeline_def db' x(2,3))
  moreover have "timeline t e db' = timeline t e db"
    if "(t, e) \<noteq> (ei_tenant inp, ei_equipment inp)" for t e
    using other_link[OF d, of t e "ei_previous inp"] that by (simp add: timeline_def db' x(2,3))
  ultimately show thesis using that[of ?L1 ?L2 x] x(4) by simp
qed

section \<open>Properties of the timeline\<close>

text \<open>
  C24. The ledger of availability stays in order when an event is registered at any place of it,
  also before events that are already there: the minutes of every event still count from the event
  before it, in every equipment; and so do the statuses, where the registration gives no previous
  status or gives that of the event before. The new event takes the place of its instant among the
  events of its equipment, and the events of other equipments do not change.
\<close>

theorem register_keeps_timelines:
  fixes db db' :: "'a ops_db_scheme"
  assumes "register newId now inp db = Inr db'"
    and "distinct (map ev_id (availability_events db))"
    and "newId \<notin> ev_id ` set (availability_events db)"
    and "\<forall>t e. chain minutes_rel None (timeline t e db)"
  shows "(\<forall>t e. chain minutes_rel None (timeline t e db'))
    \<and> ((\<forall>t e. chain status_rel None (timeline t e db))
        \<and> (ei_previous inp = None \<or> ei_previous inp = map_option ev_status (last_or None
             (filter (\<lambda>y. ev_key y < (ei_at inp, now, newId))
               (timeline (ei_tenant inp) (ei_equipment inp) db))))
       \<longrightarrow> (\<forall>t e. chain status_rel None (timeline t e db')))
    \<and> map ev_id (availability_events db') = map ev_id (availability_events db) @ [newId]
    \<and> (\<forall>t e. (t, e) \<noteq> (ei_tenant inp, ei_equipment inp) \<longrightarrow> timeline t e db' = timeline t e db)"
proof -
  let ?t = "ei_tenant inp" and ?e = "ei_equipment inp"
  obtain x L1 L2 where before: "timeline ?t ?e db = L1 @ L2"
    and after: "timeline ?t ?e db' = L1 @ linked_to (ei_previous inp) (last_or None L1) x # relink x L2"
    and L1: "L1 = filter (\<lambda>y. ev_key y < (ei_at inp, now, newId)) (timeline ?t ?e db)"
    and others: "\<And>t e. (t, e) \<noteq> (?t, ?e) \<Longrightarrow> timeline t e db' = timeline t e db"
    using timeline_register[OF assms(1-3)] by metis
  have minutes: "chain minutes_rel None (timeline ?t ?e db')"
    unfolding after
    by (rule chain_new) (use assms(4) in \<open>auto simp: before[symmetric] or_else_def minutes_rel_def minutes_between_def linked_to_def\<close>)
  have status: "chain status_rel None (timeline ?t ?e db')"
    if "\<forall>t e. chain status_rel None (timeline t e db)"
      "ei_previous inp = None \<or> ei_previous inp = map_option ev_status (last_or None L1)"
    unfolding after
    by (rule chain_new)
       (use that in \<open>auto simp: before[symmetric] status_rel_def linked_to_def or_else_def split: option.splits\<close>)
  have "map ev_id (availability_events db') = map ev_id (availability_events db) @ [newId]"
    using assms(1) by (rule register_InrE) (auto simp: ids_link_event)
  moreover have "chain minutes_rel None (timeline t e db')" for t e
    using minutes others[of t e] assms(4) by (cases "(t, e) = (?t, ?e)") auto
  moreover have "chain status_rel None (timeline t e db')"
    if "\<forall>t e. chain status_rel None (timeline t e db)"
      "ei_previous inp = None \<or> ei_previous inp = map_option ev_status (last_or None L1)" for t e
    using status[OF that] others[of t e] that(1) by (cases "(t, e) = (?t, ?e)") auto
  ultimately show ?thesis using others unfolding L1[symmetric] by blast
qed

definition day_event :: "id \<Rightarrow> int \<Rightarrow> event_input" where
  "day_event report instant =
     \<lparr>ei_tenant = ''t'', ei_availability = Some report, ei_fault = None, ei_equipment = ''e'',
      ei_by = Some ''u'', ei_status = STANDBY, ei_previous = None, ei_meter = None,
      ei_comments = None, ei_at = instant, ei_source = None\<rparr>"

definition one_event :: ops_db where
  "one_event = small_ops\<lparr>availability_events := [event_of ''v1'' 0 (day_event ''a1'' 3600000) EV_MANUAL]\<rparr>"

lemma register_keeps_timelines_witness:
  "\<exists>db'. register ''v2'' 7 (day_event ''a2'' 60000) one_event = Inr db'
     \<and> (\<forall>t e. chain minutes_rel None (timeline t e db'))"
proof -
  have e: "\<exists>db'. register ''v2'' 7 (day_event ''a2'' 60000) one_event = Inr db'"
    by (simp add: register_def check_event_source_def create_event_def day_event_def event_of_def
        or_null_def Let_def)
  then obtain db' where r: "register ''v2'' 7 (day_event ''a2'' 60000) one_event = Inr db'" by blast
  have c: "\<forall>t e. chain minutes_rel None (timeline t e one_event)"
    by (simp add: timeline_def one_event_def minutes_rel_def minutes_between_def event_of_def)
  have d: "distinct (map ev_id (availability_events one_event))"
      "''v2'' \<notin> ev_id ` set (availability_events one_event)"
    by (simp_all add: one_event_def)
  show ?thesis using register_keeps_timelines[OF r d c] r by blast
qed

end
