(* ===== verification/Fleet.thy ===== *)
theory Fleet
  imports Operations "HOL-Library.AList"
begin

text \<open>
  \<open>features/equipments/equipments.service.ts\<close> (creation, change, removal and the bulk capture of
  meter readings), \<open>equipment-write-keys.ts\<close> and
  \<open>features/meter-adjustments/meter-adjustments.service.ts\<close>, with the invariant of the meter:
  the log of an equipment is a chain of readings that ends at its current meter, and only manual
  entries go backwards.

  Of the descriptive columns of an equipment the model keeps those a rule reads; \<open>ed_other\<close> says
  that a request carries some other writable key.
\<close>

section \<open>Contract scope\<close>

definition subcontract_contract :: "id \<Rightarrow> 'a ops_db_scheme \<Rightarrow> id option" where
  "subcontract_contract s db =
     map_option sc_contract (find_row (\<lambda>x. sc_id x = s) (subcontracts db))"

fun clause_matches :: "equipment_clause \<Rightarrow> 'a ops_db_scheme \<Rightarrow> equipment \<Rightarrow> bool" where
  "clause_matches (EquipmentContract f) db e =
     (case eq_contract e of None \<Rightarrow> False | Some c \<Rightarrow> filter_matches f c)"
| "clause_matches (SubcontractContract f) db e =
     (case Option.bind (eq_subcontract e) (\<lambda>s. subcontract_contract s db) of
        None \<Rightarrow> False | Some c \<Rightarrow> filter_matches f c)"

definition in_scope :: "equipment_clause list \<Rightarrow> 'a ops_db_scheme \<Rightarrow> equipment \<Rightarrow> bool" where
  "in_scope clauses db e \<longleftrightarrow> clauses = [] \<or> list_ex (\<lambda>c. clause_matches c db e) clauses"

definition pushEquipmentContractScope :: "user \<Rightarrow> id option \<Rightarrow> equipment_clause list" where
  "pushEquipmentContractScope u siteHeader =
     (if user_role u = Some ''ADMIN'' \<or> user_role u = Some ''SUPER_ADMIN'' then
        (case siteHeader of
           None \<Rightarrow> []
         | Some s \<Rightarrow> if s \<noteq> [] \<and> s \<noteq> ''ALL''
             then [EquipmentContract (ContractIs s), SubcontractContract (ContractIs s)] else [])
      else buildEquipmentContractAccessOr u None)"

definition find_scoped_equipment ::
    "id \<Rightarrow> user \<Rightarrow> id option \<Rightarrow> 'a ops_db_scheme \<Rightarrow> equipment option" where
  "find_scoped_equipment i u site db =
     find_row (\<lambda>e. eq_id e = i \<and> eq_tenant e = user_tenant u
        \<and> in_scope (pushEquipmentContractScope u site) db e) (equipments db)"

section \<open>Requests\<close>

text \<open>\<open>None\<close> is an absent key; \<open>Some None\<close> a null.\<close>

record equipment_dto =
  ed_contract :: "string option option"
  ed_subcontract :: "string option option"
  ed_internal :: "string option"
  ed_plate :: "string option option"
  ed_vin :: "string option option"
  ed_meter_type :: "meter_type option"
  ed_initial :: "int option"
  ed_current :: "int option"
  ed_subleased :: "json option"
  ed_company :: "json option"
  ed_other :: bool

definition json_truthy_flag :: "json \<Rightarrow> bool" where
  "json_truthy_flag j \<longleftrightarrow> j \<in> {JBool True, JStr ''true'', JNum 1, JStr ''1''}"

text \<open>
  \<open>normalizeSubleasePayload\<close>: the two sublease keys of the request after the call, from those
  before and the state of the existing equipment (\<open>None\<close> at creation).
\<close>

definition normalizeSubleasePayload ::
    "json option \<Rightarrow> json option \<Rightarrow> (bool \<times> string option) option \<Rightarrow>
     (bool \<times> string option) option res" where
  "normalizeSubleasePayload flag name existing =
     (if flag = None \<and> name = None then
        (if existing = None then Inr (Some (False, None)) else Inr None)
      else
        let isSubleased = (case flag of Some j \<Rightarrow> json_truthy_flag j
              | None \<Rightarrow> (case existing of None \<Rightarrow> False | Some (b, _) \<Rightarrow> b));
            company = (case name of
                Some (JStr s) \<Rightarrow> trim s
              | Some _ \<Rightarrow> []
              | None \<Rightarrow> (case existing of None \<Rightarrow> [] | Some (_, c) \<Rightarrow> trim_opt c))
        in if isSubleased \<and> company = []
           then Inl (BadRequest ''indique la empresa arrendataria'')
           else Inr (Some (isSubleased, if isSubleased then Some company else None)))"

text \<open>The rule on the subcontracts of a contract.\<close>

definition check_subcontract :: "id \<Rightarrow> id option \<Rightarrow> 'a ops_db_scheme \<Rightarrow> unit res" where
  "check_subcontract contract sub db =
     (if filter (\<lambda>s. sc_contract s = contract) (subcontracts db) \<noteq> [] \<and> sub = None
      then Inl (BadRequest ''debe asignar el equipo a un subcontrato'')
      else case sub of
        None \<Rightarrow> Inr ()
      | Some s \<Rightarrow>
          if find_row (\<lambda>x. sc_id x = s \<and> sc_contract x = contract) (subcontracts db) = None
          then Inl (BadRequest ''El subcontrato no pertenece al contrato'') else Inr ())"

text \<open>The three unique indexes of the table, for a row and the rows with another id.\<close>

definition equipment_clash :: "equipment \<Rightarrow> 'a ops_db_scheme \<Rightarrow> bool" where
  "equipment_clash e db \<longleftrightarrow>
     list_ex (\<lambda>x. eq_id x \<noteq> eq_id e \<and> eq_tenant x = eq_tenant e
       \<and> (eq_internal x = eq_internal e
          \<or> eq_plate x = eq_plate e \<and> eq_plate e \<noteq> None
          \<or> eq_vin x = eq_vin e \<and> eq_vin e \<noteq> None)) (equipments db)"

section \<open>Creation\<close>

definition contract_of_creation :: "user \<Rightarrow> equipment_dto \<Rightarrow> id option \<Rightarrow> id" where
  "contract_of_creation u d activeContract =
     (let given = (case ed_contract d of Some (Some c) \<Rightarrow> c | _ \<Rightarrow> [])
      in case activeContract of
           None \<Rightarrow> given
         | Some a \<Rightarrow>
             if given = [] \<and> a \<noteq> [] \<and> a \<noteq> ''ALL''
                \<and> (user_role u = Some ''ADMIN'' \<or> user_role u = Some ''SUPER_ADMIN''
                   \<or> a \<in> set (case user_contracts u of None \<Rightarrow> [] | Some cs \<Rightarrow> cs))
             then a else given)"

definition new_equipment ::
    "id \<Rightarrow> user \<Rightarrow> equipment_dto \<Rightarrow> id \<Rightarrow> id option \<Rightarrow> string \<Rightarrow> (bool \<times> string option) option \<Rightarrow> equipment" where
  "new_equipment newId u d contract sub internal sublease =
     \<lparr>eq_id = newId, eq_tenant = user_tenant u, eq_contract = Some contract, eq_subcontract = sub,
      eq_internal = internal, eq_plate = Option.bind (ed_plate d) (\<lambda>x. x),
      eq_vin = Option.bind (ed_vin d) (\<lambda>x. x),
      eq_subleased = (case sublease of Some (b, _) \<Rightarrow> b | None \<Rightarrow> False),
      eq_sublease_company = (case sublease of Some (_, c) \<Rightarrow> c | None \<Rightarrow> None),
      eq_meter_type = (case ed_meter_type d of Some m \<Rightarrow> m | None \<Rightarrow> HOURS),
      eq_initial = (case ed_initial d of Some m \<Rightarrow> m | None \<Rightarrow> 0),
      eq_meter = (case ed_current d of Some m \<Rightarrow> m | None \<Rightarrow> 0),
      eq_operational = True, eq_downtime = 0\<rparr>"

text \<open>The insert, and the first log entry where the equipment starts at another reading.\<close>

definition insert_equipment :: "int \<Rightarrow> user \<Rightarrow> equipment \<Rightarrow> 'a ops_db_scheme \<Rightarrow> 'a ops_db_scheme res" where
  "insert_equipment now u row db =
     (if equipment_clash row db
      then Inl (BadRequest ''Ya existe un equipo con ese numero interno, patente o VIN'')
      else let db1 = db\<lparr>equipments := equipments db @ [row]\<rparr>
        in Inr (if eq_initial row \<noteq> eq_meter row
           then applyCurrentMeterChange (user_tenant u) (eq_id row) (eq_initial row) (eq_meter row)
                  SRC_MANUAL None (acting_user_id u) now db1
           else db1))"

definition equipment_create ::
    "id \<Rightarrow> int \<Rightarrow> user \<Rightarrow> equipment_dto \<Rightarrow> id option \<Rightarrow> 'a ops_db_scheme \<Rightarrow> 'a ops_db_scheme res" where
  "equipment_create newId now u d activeContract db =
     (let contract = contract_of_creation u d activeContract;
          sub = or_null (Option.bind (ed_subcontract d) (\<lambda>x. x))
      in if contract = [] then Inl (BadRequest ''Debe indicar el contrato principal'')
      else if \<not> userCanAccessContractId u (Some contract)
        then Inl (BadRequest ''sin permisos sobre el contrato'')
      else and_then (check_subcontract contract sub db) (\<lambda>_.
      if acting_user_id u = [] then Inl (BadRequest ''Usuario no valido'')
      else and_then (normalizeSubleasePayload (ed_subleased d) (ed_company d) None) (\<lambda>sublease.
      case ed_internal d of
        None \<Rightarrow> Inl (InternalError ''Error al crear el equipo'')
      | Some internal \<Rightarrow>
          insert_equipment now u (new_equipment newId u d contract sub internal sublease) db)))"

section \<open>Change\<close>

definition patch_is_empty :: "equipment_dto \<Rightarrow> (bool \<times> string option) option \<Rightarrow> bool" where
  "patch_is_empty d sublease \<longleftrightarrow>
     ed_contract d = None \<and> ed_subcontract d = None \<and> ed_internal d = None \<and> ed_plate d = None
     \<and> ed_vin d = None \<and> ed_meter_type d = None \<and> ed_initial d = None \<and> ed_current d = None
     \<and> sublease = None \<and> \<not> ed_other d"

text \<open>The columns of a patch but the current meter; an empty subcontract is a null.\<close>

definition patch_equipment ::
    "equipment_dto \<Rightarrow> (bool \<times> string option) option \<Rightarrow> equipment \<Rightarrow> equipment" where
  "patch_equipment d sublease e =
     e\<lparr>eq_contract := (case ed_contract d of Some c \<Rightarrow> c | None \<Rightarrow> eq_contract e),
       eq_subcontract := (case ed_subcontract d of
            Some c \<Rightarrow> (if c = Some [] then None else c) | None \<Rightarrow> eq_subcontract e),
       eq_internal := (case ed_internal d of Some x \<Rightarrow> x | None \<Rightarrow> eq_internal e),
       eq_plate := (case ed_plate d of Some x \<Rightarrow> x | None \<Rightarrow> eq_plate e),
       eq_vin := (case ed_vin d of Some x \<Rightarrow> x | None \<Rightarrow> eq_vin e),
       eq_subleased := (case sublease of Some (b, _) \<Rightarrow> b | None \<Rightarrow> eq_subleased e),
       eq_sublease_company := (case sublease of Some (_, c) \<Rightarrow> c | None \<Rightarrow> eq_sublease_company e),
       eq_meter_type := (case ed_meter_type d of Some m \<Rightarrow> m | None \<Rightarrow> eq_meter_type e),
       eq_initial := (case ed_initial d of Some m \<Rightarrow> m | None \<Rightarrow> eq_initial e)\<rparr>"

definition equipment_update ::
    "int \<Rightarrow> user \<Rightarrow> id \<Rightarrow> equipment_dto \<Rightarrow> id option \<Rightarrow> 'a ops_db_scheme \<Rightarrow> 'a ops_db_scheme res" where
  "equipment_update now u i d site db =
     (case find_scoped_equipment i u site db of
        None \<Rightarrow> Inl (BadRequest ''Equipo no encontrado o sin permisos'')
      | Some e \<Rightarrow>
          and_then (normalizeSubleasePayload (ed_subleased d) (ed_company d)
                     (Some (eq_subleased e, eq_sublease_company e))) (\<lambda>sublease.
          let next = patch_equipment d sublease e;
              nextContract = or_null (eq_contract next);
              nextSub = or_null (eq_subcontract next)
          in and_then
               (case nextContract of
                  None \<Rightarrow> Inr ()
                | Some c \<Rightarrow>
                    if \<not> userCanAccessContractId u (Some c)
                    then Inl (BadRequest ''Equipo no encontrado o sin permisos'')
                    else check_subcontract c nextSub db) (\<lambda>_.
             if patch_is_empty d sublease then Inl (BadRequest ''No hay campos validos'')
             else if acting_user_id u = [] then Inl (BadRequest ''Usuario no valido'')
             else if equipment_clash next db
               then Inl (BadRequest ''Ya existe un equipo con ese numero interno, patente o VIN'')
             else if eq_contract next = Some [] then Inl (InternalError ''foreign key'')
             else Inr (set_equipment i (patch_equipment d sublease)
               (case ed_current d of
                  None \<Rightarrow> db
                | Some m \<Rightarrow> applyCurrentMeterChange (user_tenant u) i (eq_meter e) m SRC_MANUAL None
                    (acting_user_id u) now db)))))"

section \<open>Removal\<close>

text \<open>
  \<open>remove\<close>: the foreign keys refuse an equipment with documents; its logs, adjustments and costs
  go with it.
\<close>

definition equipment_referenced :: "id \<Rightarrow> 'a ops_db_scheme \<Rightarrow> bool" where
  "equipment_referenced i db \<longleftrightarrow>
     list_ex (\<lambda>w. wo_equipment w = i) (work_orders db)
     \<or> list_ex (\<lambda>r. fr_equipment r = i) (fault_reports db)
     \<or> list_ex (\<lambda>r. lr_equipment r = i) (lube_reports db)
     \<or> list_ex (\<lambda>a. av_equipment a = i) (availabilities db)
     \<or> list_ex (\<lambda>x. ev_equipment x = i) (availability_events db)"

definition erase_equipment :: "id \<Rightarrow> 'a ops_db_scheme \<Rightarrow> 'a ops_db_scheme" where
  "erase_equipment i db =
     db\<lparr>equipments := filter (\<lambda>e. eq_id e \<noteq> i) (equipments db),
        meter_logs := filter (\<lambda>l. ml_equipment l \<noteq> i) (meter_logs db),
        meter_adjustments := filter (\<lambda>a. ma_equipment a \<noteq> i) (meter_adjustments db),
        asset_costs := filter (\<lambda>c. ac_equipment c \<noteq> i) (asset_costs db),
        orders := map (\<lambda>p. if po_equipment p = Some i then p\<lparr>po_equipment := None\<rparr> else p) (orders db),
        requisitions := map (\<lambda>r. if rq_equipment r = Some i then r\<lparr>rq_equipment := None\<rparr> else r) (requisitions db)\<rparr>"

definition equipment_remove :: "user \<Rightarrow> id \<Rightarrow> id option \<Rightarrow> 'a ops_db_scheme \<Rightarrow> 'a ops_db_scheme res" where
  "equipment_remove u i site db =
     (if find_scoped_equipment i u site db = None \<or> equipment_referenced i db
      then Inl (InternalError ''Error al eliminar el equipo'')
      else Inr (erase_equipment i db))"

text \<open>
  What the removal leaves of a purchase order or a requisition: no equipment, and no work order if
  its work order is one of those removed (the foreign key sets it to null).
\<close>

definition doomed_order :: "id \<Rightarrow> id \<Rightarrow> 'a ops_db_scheme \<Rightarrow> id option \<Rightarrow> bool" where
  "doomed_order tenant i db link \<longleftrightarrow>
     list_ex (\<lambda>w. link = Some (wo_id w) \<and> wo_tenant w = tenant \<and> wo_equipment w = i) (work_orders db)"

definition unlink_order :: "id \<Rightarrow> id \<Rightarrow> 'a ops_db_scheme \<Rightarrow> purchase_order \<Rightarrow> purchase_order" where
  "unlink_order tenant i db p =
     p\<lparr>po_equipment := (if po_tenant p = tenant \<and> po_equipment p = Some i then None else po_equipment p),
       po_work_order := (if doomed_order tenant i db (po_work_order p) then None else po_work_order p)\<rparr>"

definition unlink_requisition :: "id \<Rightarrow> id \<Rightarrow> 'a ops_db_scheme \<Rightarrow> requisition \<Rightarrow> requisition" where
  "unlink_requisition tenant i db r =
     r\<lparr>rq_equipment := (if rq_tenant r = tenant \<and> rq_equipment r = Some i then None else rq_equipment r),
       rq_work_order := (if doomed_order tenant i db (rq_work_order r) then None else rq_work_order r)\<rparr>"

text \<open>
  The removal of the fleet import: the documents of the equipment go first, with the rows that
  cascade from them (a fault report only links to an order of its own equipment, so no link of
  another equipment is cut).
\<close>

definition deleteEquipmentWithAssociations :: "id \<Rightarrow> id \<Rightarrow> 'a ops_db_scheme \<Rightarrow> 'a ops_db_scheme res" where
  "deleteEquipmentWithAssociations tenant i db =
     (let db1 = db\<lparr>
        requisitions := map (unlink_requisition tenant i db) (requisitions db),
        orders := map (unlink_order tenant i db) (orders db),
        availability_events := filter (\<lambda>x. \<not> (ev_tenant x = tenant \<and> ev_equipment x = i))
          (availability_events db),
        availabilities := filter (\<lambda>x. \<not> (av_tenant x = tenant \<and> av_equipment x = i))
          (availabilities db),
        fault_reports := filter (\<lambda>x. \<not> (fr_tenant x = tenant \<and> fr_equipment x = i))
          (fault_reports db),
        lube_reports := filter (\<lambda>x. \<not> (lr_tenant x = tenant \<and> lr_equipment x = i))
          (lube_reports db),
        attachments := filter (\<lambda>x. \<not> list_ex (\<lambda>r. fr_id r = at_fault x \<and> fr_tenant r = tenant
          \<and> fr_equipment r = i) (fault_reports db)) (attachments db),
        work_orders := filter (\<lambda>x. \<not> (wo_tenant x = tenant \<and> wo_equipment x = i))
          (work_orders db),
        reservations := filter (\<lambda>x. \<not> list_ex (\<lambda>w. wo_id w = sr_work_order x \<and> wo_tenant w = tenant
          \<and> wo_equipment w = i) (work_orders db)) (reservations db),
        backlog := filter (\<lambda>x. \<not> list_ex (\<lambda>w. wo_id w = bl_work_order x \<and> wo_tenant w = tenant
          \<and> wo_equipment w = i) (work_orders db)) (backlog db),
        meter_adjustments := filter (\<lambda>x. ma_equipment x \<noteq> i) (meter_adjustments db),
        meter_logs := filter (\<lambda>x. \<not> (ml_tenant x = tenant \<and> ml_equipment x = i)) (meter_logs db),
        asset_costs := filter (\<lambda>x. \<not> (ac_tenant x = tenant \<and> ac_equipment x = i))
          (asset_costs db)\<rparr>
      in if find_row (\<lambda>e. eq_id e = i) (equipments db1) = None then Inl RecordNotFound
         else if equipment_referenced i db1 then Inl (InternalError ''foreign key'')
         else Inr (erase_equipment i db1))"

section \<open>Meter adjustments\<close>

record meter_adjustment_dto =
  md_equipment :: id
  md_old :: int
  md_new :: int
  md_reason :: "string option"

definition meter_adjustment_create ::
    "id \<Rightarrow> int \<Rightarrow> user \<Rightarrow> meter_adjustment_dto \<Rightarrow> 'a ops_db_scheme \<Rightarrow> 'a ops_db_scheme res" where
  "meter_adjustment_create newId now u d db =
     (case find_equipment (md_equipment d) (user_tenant u) db of
        None \<Rightarrow> Inl (NotFound ''Equipo no encontrado'')
      | Some e \<Rightarrow>
          if md_old d < 0 \<or> md_new d < 0
            then Inl (BadRequest ''Los valores de medidor deben ser >= 0'')
          else if md_new d < eq_meter e \<and> length (trim_opt (md_reason d)) < 15
            then Inl (BadRequest ''Una lectura menor requiere justificacion'')
          else Inr (applyCurrentMeterChange (user_tenant u) (md_equipment d) (eq_meter e) (md_new d)
                 SRC_MANUAL (Some newId) (acting_user_id u) now
               (db\<lparr>meter_adjustments := meter_adjustments db @
                  [\<lparr>ma_id = newId, ma_equipment = md_equipment d, ma_user = acting_user_id u,
                    ma_old = md_old d, ma_new = md_new d, ma_reason = or_null (md_reason d)\<rparr>]\<rparr>)))"

section \<open>Bulk capture of readings\<close>

record bulk_item =
  bi_equipment :: id
  bi_reading :: qty
  bi_confirmed :: "bool option"

datatype bulk_error =
    READING_LOWER_THAN_CURRENT id int
  | EQUIPMENT_NOT_FOUND_OR_FORBIDDEN id
  | READING_JUMP_REQUIRES_CONFIRMATION id int int

record bulk_result =
  br_success :: nat
  br_unchanged :: nat
  br_errors :: "bulk_error list"
  br_applied :: "(id \<times> string \<times> int \<times> int) list"

definition no_readings :: bulk_result where
  "no_readings = \<lparr>br_success = 0, br_unchanged = 0, br_errors = [], br_applied = []\<rparr>"

text \<open>
  The merge of the items into a \<open>Map\<close>: one entry per equipment, at the place of its first item,
  with the reading and the confirmation of its last.
\<close>

fun merge_items ::
    "bulk_item list \<Rightarrow> (id \<times> int \<times> bool) list \<Rightarrow> (id \<times> int \<times> bool) list res" where
  "merge_items [] merged = Inr merged"
| "merge_items (it # rest) merged =
     (if bi_equipment it = [] then Inl (BadRequest ''Formato de item invalido'')
      else if \<not> is_integer (bi_reading it) \<or> bi_reading it < 0
        then Inl (BadRequest ''Cada lectura debe ser un entero mayor o igual a cero'')
      else merge_items rest
        (AList.update (bi_equipment it) (\<lfloor>bi_reading it\<rfloor>, bi_confirmed it = Some True) merged))"

definition sync_reading ::
    "int \<Rightarrow> user \<Rightarrow> id option \<Rightarrow> id \<times> int \<times> bool \<Rightarrow> 'a ops_db_scheme \<times> bulk_result \<Rightarrow>
     'a ops_db_scheme \<times> bulk_result" where
  "sync_reading now u site it s =
     (case it of (i, reading, confirmed) \<Rightarrow>
      case s of (db, res) \<Rightarrow>
      (case find_scoped_equipment i u site db of
         None \<Rightarrow> (db, res\<lparr>br_errors := br_errors res @ [EQUIPMENT_NOT_FOUND_OR_FORBIDDEN i]\<rparr>)
       | Some e \<Rightarrow>
           if reading < eq_meter e
             then (db, res\<lparr>br_errors := br_errors res @ [READING_LOWER_THAN_CURRENT i (eq_meter e)]\<rparr>)
           else if reading = eq_meter e then (db, res\<lparr>br_unchanged := br_unchanged res + 1\<rparr>)
           else if reading - eq_meter e > getMeterJumpLimit (eq_meter_type e) \<and> \<not> confirmed
             then (db, res\<lparr>br_errors := br_errors res @
                    [READING_JUMP_REQUIRES_CONFIRMATION i (eq_meter e) (reading - eq_meter e)]\<rparr>)
           else (applyCurrentMeterChange (user_tenant u) i (eq_meter e) reading SRC_MANUAL None
                   (acting_user_id u) now db,
                 res\<lparr>br_success := br_success res + 1,
                     br_applied := br_applied res @ [(i, eq_internal e, eq_meter e, reading)]\<rparr>)))"

definition bulkSyncMeterReadings ::
    "int \<Rightarrow> user \<Rightarrow> id option \<Rightarrow> bulk_item list \<Rightarrow> 'a ops_db_scheme \<Rightarrow>
     ('a ops_db_scheme \<times> bulk_result) res" where
  "bulkSyncMeterReadings now u site rawItems db =
     (if acting_user_id u = [] then Inl (BadRequest ''Usuario no valido'')
      else if rawItems = [] then Inl (BadRequest ''Debe enviar al menos una lectura'')
      else if length rawItems > 500 then Inl (BadRequest ''Maximo 500 lecturas por solicitud'')
      else and_then (merge_items rawItems []) (\<lambda>its.
        Inr (fold (sync_reading now u site) its (db, no_readings))))"

end
