(* ===== verification/Fault_Reports.thy ===== *)
theory Fault_Reports
  imports Operations
begin

text \<open>
  \<open>features/fault-reports/fault-reports.service.ts\<close>: the registration of a fault with its rules by
  criticality, the escalation of a minor fault to a work order and the attachments. Notifications
  and read-outs are left out. The current year of the work order number, the current time and the
  ids of new rows are arguments; what the storage returns for a file is an argument too.
\<close>

record fault_dto =
  fd_equipment :: id
  fd_event_date :: int
  fd_meter :: "int option"
  fd_system :: affected_system
  fd_criticality :: criticality
  fd_symptom :: string

text \<open>The ids of the rows that one registration may create, and the clock.\<close>

record fresh =
  fresh_fault :: id
  fresh_order :: id
  fresh_now :: int
  fresh_year :: nat

text \<open>A work order with the defaults of the schema.\<close>

definition plain_order :: "id \<Rightarrow> id \<Rightarrow> id \<Rightarrow> string \<Rightarrow> work_order" where
  "plain_order i tenant e correlative =
     \<lparr>wo_id = i, wo_tenant = tenant, wo_by = None, wo_subcontract = None, wo_warehouse = None,
      wo_correlative = correlative, wo_equipment = e, wo_type = NUEVA,
      wo_category = NO_PROGRAMADA_CORRECTIVA, wo_maintenance = CORRECTIVO, wo_status = OT_OPEN,
      wo_initial_meter = 0, wo_final_meter = None, wo_description = [], wo_impact = None,
      wo_detention_start = None, wo_detention_end = None, wo_mech_start = None, wo_mech_end = None,
      wo_personnel = 1, wo_hm = None, wo_hh = None, wo_in_progress_at = None, wo_closed_at = None,
      wo_closure_operational = None, wo_supervisor = None, wo_has_backlog = False, wo_tags = [],
      wo_tasks = [], wo_parts = [], wo_fluids = []\<rparr>"

text \<open>The work order of a fault of high or medium criticality.\<close>

definition order_of_fault ::
    "fresh \<Rightarrow> user \<Rightarrow> fault_dto \<Rightarrow> equipment \<Rightarrow> string \<Rightarrow> work_order" where
  "order_of_fault fr u d e correlative =
     (let isHigh = (fd_criticality d = CR_HIGH) in
      (plain_order (fresh_order fr) (user_tenant u) (fd_equipment d) correlative)
      \<lparr>wo_by := Some (acting_user_id u), wo_subcontract := eq_subcontract e,
       wo_category := (if isHigh then NO_PROGRAMADA_REACTIVA else NO_PROGRAMADA_CORRECTIVA),
       wo_impact := Some (if isHigh then IMPACT_SI else IMPACT_NO),
       wo_initial_meter := (case fd_meter d of Some m \<Rightarrow> m | None \<Rightarrow> eq_meter e),
       wo_description := fd_symptom d,
       wo_detention_start := (if isHigh then Some (fd_event_date d) else None)\<rparr>)"

definition link_fault :: "id \<Rightarrow> id \<Rightarrow> 'a ops_db_scheme \<Rightarrow> 'a ops_db_scheme res" where
  "link_fault faultId orderId db =
     (if list_ex (\<lambda>r. fr_work_order r = Some orderId \<and> fr_id r \<noteq> faultId) (fault_reports db)
      then Inl UniqueViolation
      else Inr (set_fault faultId (\<lambda>r. r\<lparr>fr_work_order := Some orderId, fr_status := FR_LINKED\<rparr>) db))"

definition report_of :: "fresh \<Rightarrow> user \<Rightarrow> fault_dto \<Rightarrow> id \<Rightarrow> string \<Rightarrow> fault_report" where
  "report_of fr u d contract correlative =
     \<lparr>fr_id = fresh_fault fr, fr_tenant = user_tenant u, fr_contract = contract,
      fr_equipment = fd_equipment d, fr_by = acting_user_id u, fr_correlative = correlative,
      fr_event_date = fd_event_date d, fr_meter = fd_meter d, fr_system = fd_system d,
      fr_criticality = fd_criticality d, fr_symptom = fd_symptom d, fr_status = FR_OPEN,
      fr_work_order = None\<rparr>"

text \<open>The rules by criticality, after the report and the meter.\<close>

definition criticality_rules ::
    "fresh \<Rightarrow> user \<Rightarrow> fault_dto \<Rightarrow> equipment \<Rightarrow> 'a ops_db_scheme \<Rightarrow> 'a ops_db_scheme res" where
  "criticality_rules fr u d e db =
     (if fd_criticality d = CR_HIGH \<or> fd_criticality d = CR_MEDIUM then
        and_then (create_work_order (order_of_fault fr u d e
            (wo_correlative_text (fresh_year fr) (user_tenant u) db)) db) (\<lambda>db1.
        and_then (link_fault (fresh_fault fr) (fresh_order fr) db1) (\<lambda>db2.
        Inr (if fd_criticality d = CR_HIGH
             then set_equipment (fd_equipment d) (\<lambda>x. x\<lparr>eq_operational := False\<rparr>) db2
             else db2)))
      else Inr db)"

definition fault_create ::
    "fresh \<Rightarrow> user \<Rightarrow> fault_dto \<Rightarrow> 'a ops_db_scheme \<Rightarrow> 'a ops_db_scheme res" where
  "fault_create fr u d db =
     (case find_equipment (fd_equipment d) (user_tenant u) db of
        None \<Rightarrow> Inl (NotFound ''El equipo no existe'')
      | Some e \<Rightarrow>
          (case or_null (eq_contract e) of
             None \<Rightarrow> Inl (BadRequest ''El equipo no tiene un contrato asignado'')
           | Some c \<Rightarrow>
               let (correlative, db1) =
                     getNextCorrelative (user_tenant u) FR_DOCUMENT_TYPE FR_PREFIX (Some 5) None db
               in and_then (create_fault (report_of fr u d c correlative) db1) (\<lambda>db2.
                  criticality_rules fr u d e
                    (advance_meter (user_tenant u) e (fd_meter d) SRC_FAULT_REPORT
                       (Some (fresh_fault fr)) (acting_user_id u) (fresh_now fr) db2))))"

text \<open>
  \<open>createWorkOrderFromReport\<close>: the report and its equipment are read before the transaction.
\<close>

definition createWorkOrderFromReport ::
    "fresh \<Rightarrow> user \<Rightarrow> id \<Rightarrow> 'a ops_db_scheme \<Rightarrow> 'a ops_db_scheme res" where
  "createWorkOrderFromReport fr u faultId db =
     (case find_row (\<lambda>r. fr_id r = faultId \<and> fr_tenant r = user_tenant u) (fault_reports db) of
        None \<Rightarrow> Inl (NotFound ''El reporte de falla no existe'')
      | Some r \<Rightarrow>
          if fr_status r \<noteq> FR_OPEN then Inl (Conflict ''Solo se puede escalar un reporte OPEN'')
          else if fr_criticality r \<noteq> CR_LOW
            then Inl (Conflict ''Este endpoint solo aplica a fallas BAJA'')
          else
            (case find_row (\<lambda>e. eq_id e = fr_equipment r) (equipments db) of
               None \<Rightarrow> Inl RecordNotFound
             | Some e \<Rightarrow>
                 let w = (plain_order (fresh_order fr) (user_tenant u) (fr_equipment r)
                       (wo_correlative_text (fresh_year fr) (user_tenant u) db))
                     \<lparr>wo_by := Some (acting_user_id u), wo_subcontract := eq_subcontract e,
                      wo_impact := Some IMPACT_NO,
                      wo_initial_meter := (case fr_meter r of Some m \<Rightarrow> m | None \<Rightarrow> eq_meter e),
                      wo_description := fr_symptom r\<rparr>
                 in and_then (create_work_order w db) (link_fault (fr_id r) (fresh_order fr))))"

section \<open>Attachments\<close>

definition FR_ATTACHMENT_MAX_BYTES :: nat where "FR_ATTACHMENT_MAX_BYTES = 10 * 1024 * 1024"
definition FR_ATTACHMENT_MAX_COUNT :: nat where "FR_ATTACHMENT_MAX_COUNT = 3"
definition FR_ATTACHMENT_ALLOWED_MIMES :: "string list" where
  "FR_ATTACHMENT_ALLOWED_MIMES = [''image/jpeg'', ''image/png'', ''image/webp'', ''video/mp4'']"

record upload =
  up_name :: string
  up_type :: string
  up_size :: nat

definition uploadAttachment ::
    "(upload \<Rightarrow> string \<Rightarrow> string) \<Rightarrow> user \<Rightarrow> id \<Rightarrow> upload \<Rightarrow> 'a ops_db_scheme \<Rightarrow> 'a ops_db_scheme res" where
  "uploadAttachment uploadFile u faultId file db =
     (if up_type file \<notin> set FR_ATTACHMENT_ALLOWED_MIMES
        then Inl (BadRequest ''Tipo de archivo no permitido'')
      else if up_size file > FR_ATTACHMENT_MAX_BYTES
        then Inl (BadRequest ''El archivo supera el maximo de 10 MB'')
      else if find_row (\<lambda>r. fr_id r = faultId \<and> fr_tenant r = user_tenant u) (fault_reports db) = None
        then Inl (NotFound ''El reporte de falla no existe'')
      else if length (filter (\<lambda>a. at_fault a = faultId) (attachments db)) \<ge> FR_ATTACHMENT_MAX_COUNT
        then Inl (Conflict ''El reporte ya tiene el maximo de adjuntos'')
      else Inr (db\<lparr>attachments := attachments db @
             [\<lparr>at_fault = faultId,
               at_key = uploadFile file (''fault-reports/'' @ user_tenant u @ ''/'' @ faultId),
               at_name = up_name file, at_type = up_type file, at_size = up_size file\<rparr>]\<rparr>))"

end
