(* ===== verification/Work_Orders.thy ===== *)
theory Work_Orders
  imports Fleet Fault_Reports
begin

text \<open>
  \<open>features/work-orders/work-orders.service.ts\<close>: creation, change, status changes (the closing of
  an order with its stock issues, costs, meter and return to service) and the backlog. Lists,
  statistics, the PDF and the mails are left out, and so are the free texts, the systems, the
  catalogue fluids and the samples of an order, which no rule reads. \<open>active\<close> stands for the table of users: the ids of the active users of the tenant.
  \<open>rounding\<close> holds the roundings to a number of decimals (\<open>toFixed\<close>) of the cost, the amount of a
  cost record and the hours.
\<close>

record rounding =
  rnd_cost :: "qty \<Rightarrow> qty"
  rnd_money :: "qty \<Rightarrow> qty"
  rnd_hours :: "qty \<Rightarrow> qty"

section \<open>Access\<close>

definition equipment_row :: "id \<Rightarrow> 'a ops_db_scheme \<Rightarrow> equipment option" where
  "equipment_row i db = find_row (\<lambda>e. eq_id e = i) (equipments db)"

definition workOrderAccess :: "user \<Rightarrow> id \<Rightarrow> id option \<Rightarrow> 'a ops_db_scheme \<Rightarrow> work_order option" where
  "workOrderAccess u i site db =
     find_row (\<lambda>w. wo_id w = i \<and> wo_tenant w = user_tenant u
       \<and> (let clauses = buildEquipmentContractAccessOr u site in
          clauses = [] \<or> (case equipment_row (wo_equipment w) db of
             None \<Rightarrow> False | Some e \<Rightarrow> list_ex (\<lambda>c. clause_matches c db e) clauses)))
       (work_orders db)"

text \<open>
  The \<open>catch\<close> of the service: a \<open>BadRequestException\<close> and a \<open>ForbiddenException\<close> pass, any other
  error becomes an internal one.
\<close>

definition wrap_errors :: "bool \<Rightarrow> string \<Rightarrow> 'x res \<Rightarrow> 'x res" where
  "wrap_errors passForbidden message m =
     (case m of
        Inr x \<Rightarrow> Inr x
      | Inl (BadRequest s) \<Rightarrow> Inl (BadRequest s)
      | Inl (Forbidden s) \<Rightarrow> (if passForbidden then Inl (Forbidden s) else Inl (InternalError message))
      | Inl _ \<Rightarrow> Inl (InternalError message))"

section \<open>Creation\<close>

definition deriveCategoryMaintenanceFromTags :: "string list \<Rightarrow> ot_category \<times> maintenance_type" where
  "deriveCategoryMaintenanceFromTags tags =
     (if ''POSIBLE_GARANTIA'' \<in> set tags then (NO_PROGRAMADA_CORRECTIVA, PREVENTIVO)
      else if ''PROGRAMADA'' \<in> set tags then (PROGRAMADA, PREVENTIVO)
      else if ''NO_PROGRAMADA'' \<in> set tags then
        (if ''NP_PREVENTIVO'' \<in> set tags then (NO_PROGRAMADA_PREVENTIVO, PREVENTIVO)
         else (NO_PROGRAMADA_CORRECTIVA, CORRECTIVO))
      else if ''ACCIDENTE_INCIDENTE'' \<in> set tags then (NO_PROGRAMADA_CORRECTIVA, CORRECTIVO)
      else (NO_PROGRAMADA_REACTIVA, CORRECTIVO))"

definition deriveOtTypeFromTags :: "string list \<Rightarrow> ot_type" where
  "deriveOtTypeFromTags tags = (if ''OT_ABIERTA_CONTINUIDAD'' \<in> set tags then CONTINUIDAD else NUEVA)"

text \<open>A part or a fluid of a request: its inventory item and its quantity.\<close>

type_synonym line_dto = "id option \<times> qty"

record wo_dto =
  wd_equipment :: id
  wd_warehouse :: "id option"
  wd_type :: "ot_type option"
  wd_category :: "ot_category option"
  wd_maintenance :: "maintenance_type option"
  wd_tags :: "string list option"
  wd_impact :: "impact option"
  wd_systems :: "id list option"
  wd_symptoms :: "string option"
  wd_det_initial :: "int option"
  wd_initial :: "int option"
  wd_det_final :: "int option"
  wd_final :: "int option"
  wd_performed :: "string option"
  wd_description :: "string option"
  wd_request :: "string option"
  wd_personnel :: "int option"
  wd_det_start :: "int option"
  wd_det_end :: "int option"
  wd_mech_start :: "int option"
  wd_mech_end :: "int option"
  wd_participants :: "id list option"
  wd_supervisor :: "id option"
  wd_tasks :: "string list option"
  wd_parts :: "line_dto list option"
  wd_fluids :: "line_dto list option"

record order_ids =
  no_id :: id
  no_part :: "nat \<Rightarrow> id"
  no_year :: nat

definition list_of :: "'x list option \<Rightarrow> 'x list" where
  "list_of xs = (case xs of None \<Rightarrow> [] | Some ys \<Rightarrow> ys)"

text \<open>\<open>a.trim() || b.trim() || c.trim()\<close>.\<close>

fun first_text :: "string option list \<Rightarrow> string" where
  "first_text [] = []"
| "first_text (t # ts) = (if trim_opt t \<noteq> [] then trim_opt t else first_text ts)"

definition check_people ::
    "(id \<Rightarrow> bool) \<Rightarrow> id list \<Rightarrow> id option \<Rightarrow> unit res" where
  "check_people active participants supervisor =
     (if participants \<noteq> [] \<and> length (filter active (remdups participants)) \<noteq> length participants
      then Inl (BadRequest ''participantes no validos'')
      else case or_null supervisor of
        None \<Rightarrow> Inr ()
      | Some s \<Rightarrow> if active s then Inr () else Inl (BadRequest ''supervisor no valido''))"

definition check_line :: "id \<Rightarrow> 'a ops_db_scheme \<Rightarrow> line_dto \<Rightarrow> unit \<Rightarrow> unit res" where
  "check_line tenant db l _ =
     (let i = trim_opt (fst l) in
      if i = [] then Inl (BadRequest ''debe estar vinculado a un item del inventario'')
      else if find_item i tenant db = None
        then Inl (BadRequest ''el item no existe o no pertenece a su empresa'')
      else Inr ())"

definition parts_of :: "(nat \<Rightarrow> id) \<Rightarrow> line_dto list \<Rightarrow> wo_part list" where
  "parts_of ids ls =
     map (\<lambda>(n, i, q). \<lparr>wp_id = ids n, wp_item = Some (trim_opt i), wp_qty = q, wp_cost = None\<rparr>)
       (zip [0 ..< length ls] ls)"

definition fluids_of :: "line_dto list \<Rightarrow> wo_fluid list" where
  "fluids_of ls = map (\<lambda>(i, q). \<lparr>wf_item = Some (trim_opt i), wf_liters = q\<rparr>) ls"

text \<open>
  \<open>createMany\<close> of the reservations of an order in a warehouse: one per part, unique by item.
\<close>

definition reserve_parts ::
    "id \<Rightarrow> id option \<Rightarrow> line_dto list \<Rightarrow> 'a ops_db_scheme \<Rightarrow> 'a ops_db_scheme res" where
  "reserve_parts order warehouse ls db =
     (case or_null warehouse of
        None \<Rightarrow> Inr db
      | Some w \<Rightarrow>
          if distinct (map (\<lambda>l. trim_opt (fst l)) ls) then
            Inr (db\<lparr>reservations := reservations db @
              map (\<lambda>(i, q). \<lparr>sr_work_order = order, sr_item = trim_opt i, sr_warehouse = w,
                             sr_qty = q\<rparr>) ls\<rparr>)
          else Inl UniqueViolation)"

definition equipment_contract :: "equipment \<Rightarrow> 'a ops_db_scheme \<Rightarrow> id option" where
  "equipment_contract e db =
     (case or_null (eq_contract e) of
        Some c \<Rightarrow> Some c
      | None \<Rightarrow> or_null (Option.bind (or_null (eq_subcontract e)) (\<lambda>s. subcontract_contract s db)))"

definition check_order_warehouse ::
    "id option \<Rightarrow> equipment \<Rightarrow> id \<Rightarrow> 'a ops_db_scheme \<Rightarrow> unit res" where
  "check_order_warehouse warehouse e tenant db =
     (case or_null warehouse of
        None \<Rightarrow> Inr ()
      | Some w \<Rightarrow>
          if find_row (\<lambda>x. wh_id x = w \<and> wh_tenant x = tenant
               \<and> (case equipment_contract e db of None \<Rightarrow> True | Some c \<Rightarrow> wh_contract x = c))
               (warehouses db) = None
          then Inl (BadRequest ''La bodega seleccionada no es valida'') else Inr ())"

definition check_form :: "wo_dto \<Rightarrow> (impact \<times> int) res" where
  "check_form d =
     (case wd_impact d of
        None \<Rightarrow> Inl (BadRequest ''Indique si afecta disponibilidad'')
      | Some imp \<Rightarrow>
          if list_of (wd_systems d) = []
            then Inl (BadRequest ''Debe seleccionar al menos un sistema intervenido'')
          else if trim_opt (wd_symptoms d) = [] then Inl (BadRequest ''sintomas es obligatorio'')
          else
            (case or_else (wd_det_initial d) (wd_initial d) of
               None \<Rightarrow> Inl (BadRequest ''Debe indicar medicion inicial'')
             | Some ini \<Rightarrow>
                 if first_text [wd_performed d, wd_description d, wd_request d] = []
                 then Inl (BadRequest ''Debe completar la descripcion'')
                 else Inr (imp, ini)))"

definition new_order ::
    "order_ids \<Rightarrow> user \<Rightarrow> wo_dto \<Rightarrow> equipment \<Rightarrow> string \<Rightarrow> impact \<Rightarrow> int \<Rightarrow> work_order" where
  "new_order ids u d e correlative imp ini =
     (let tags = list_of (wd_tags d); cm = deriveCategoryMaintenanceFromTags tags in
      (plain_order (no_id ids) (user_tenant u) (wd_equipment d) correlative)
      \<lparr>wo_by := (if user_sub u \<noteq> [] then Some (user_sub u)
                else if user_id u \<noteq> [] then Some (user_id u) else None),
       wo_subcontract := eq_subcontract e, wo_warehouse := or_null (wd_warehouse d),
       wo_type := (case wd_type d of Some t \<Rightarrow> t | None \<Rightarrow> deriveOtTypeFromTags tags),
       wo_category := (case wd_category d of Some c \<Rightarrow> c | None \<Rightarrow> fst cm),
       wo_maintenance := (case wd_maintenance d of Some m \<Rightarrow> m | None \<Rightarrow> snd cm),
       wo_initial_meter := ini, wo_final_meter := or_else (wd_det_final d) (wd_final d),
       wo_description := (let t = first_text [wd_performed d, wd_description d] in
          if t \<noteq> [] then t else first_text [wd_performed d, wd_description d, wd_request d]),
       wo_detention_start := wd_det_start d, wo_detention_end := wd_det_end d,
       wo_mech_start := wd_mech_start d, wo_mech_end := wd_mech_end d,
       wo_personnel := (case wd_personnel d of None \<Rightarrow> 1 | Some n \<Rightarrow> max 1 n),
       wo_impact := Some imp, wo_tags := tags, wo_supervisor := wd_supervisor d,
       wo_tasks := list_of (wd_tasks d), wo_parts := parts_of (no_part ids) (list_of (wd_parts d)),
       wo_fluids := fluids_of (list_of (wd_fluids d))\<rparr>)"

definition wo_create ::
    "(id \<Rightarrow> bool) \<Rightarrow> order_ids \<Rightarrow> user \<Rightarrow> wo_dto \<Rightarrow> 'a ops_db_scheme \<Rightarrow> 'a ops_db_scheme res" where
  "wo_create active ids u d db =
     wrap_errors False ''Error al crear la Orden de Trabajo''
     (case find_equipment (wd_equipment d) (user_tenant u) db of
        None \<Rightarrow> Inl (BadRequest ''El equipo especificado no existe'')
      | Some e \<Rightarrow>
          and_then (check_order_warehouse (wd_warehouse d) e (user_tenant u) db) (\<lambda>_.
          and_then (check_form d) (\<lambda>(imp, ini).
          and_then (check_people active (filter (\<lambda>p. p \<noteq> []) (list_of (wd_participants d)))
                     (wd_supervisor d)) (\<lambda>_.
          and_then (create_work_order (new_order ids u d e
              (wo_correlative_text (no_year ids) (user_tenant u) db) imp ini) db) (\<lambda>db1.
          and_then (for_each (check_line (user_tenant u) db) (list_of (wd_fluids d)) ()) (\<lambda>_.
          and_then (for_each (check_line (user_tenant u) db) (list_of (wd_parts d)) ()) (\<lambda>_.
          reserve_parts (no_id ids) (wd_warehouse d) (list_of (wd_parts d)) db1)))))))"

section \<open>Change\<close>

text \<open>The fields of the form that \<open>update\<close> reads; \<open>None\<close> is an absent key, \<open>Some None\<close> a null.\<close>

record wo_patch =
  wu_warehouse :: "id option option"
  wu_det_start :: "int option option"
  wu_det_end :: "int option option"
  wu_det_initial :: "int option option"
  wu_det_final :: "int option option"
  wu_mech_start :: "int option option"
  wu_mech_end :: "int option option"
  wu_personnel :: "int option option"
  wu_impact :: "impact option option"
  wu_tags :: "string list option"
  wu_participants :: "id list option"
  wu_supervisor :: "id option option"
  wu_initial :: "int option option"
  wu_final :: "int option option"
  wu_maintenance :: "maintenance_type option"
  wu_category :: "ot_category option"
  wu_type :: "ot_type option"
  wu_performed :: "string option option"
  wu_description :: "string option option"
  wu_tasks :: "string list option"
  wu_parts :: "line_dto list option"
  wu_fluids :: "line_dto list option"

definition over :: "'x option \<Rightarrow> 'x \<Rightarrow> 'x" where
  "over patch old = (case patch of None \<Rightarrow> old | Some x \<Rightarrow> x)"

text \<open>
  A meter of the form: \<open>initialMeter\<close> given as a null takes back what the meter of the detention
  had set.
\<close>

definition patch_meter :: "int option option \<Rightarrow> int option option \<Rightarrow> 'x \<Rightarrow> (int \<Rightarrow> 'x) \<Rightarrow> 'x" where
  "patch_meter direct detention old f =
     (case direct of
        Some (Some m) \<Rightarrow> f m
      | Some None \<Rightarrow> old
      | None \<Rightarrow> (case detention of Some (Some m) \<Rightarrow> f m | _ \<Rightarrow> old))"

definition patch_order :: "wo_patch \<Rightarrow> work_order \<Rightarrow> work_order" where
  "patch_order p w =
     (let cm = deriveCategoryMaintenanceFromTags (list_of (wu_tags p));
          legacy = first_text [over (wu_performed p) None, over (wu_description p) None]
      in w\<lparr>wo_warehouse := (case wu_warehouse p of None \<Rightarrow> wo_warehouse w | Some x \<Rightarrow> or_null x),
           wo_detention_start := over (wu_det_start p) (wo_detention_start w),
           wo_detention_end := over (wu_det_end p) (wo_detention_end w),
           wo_initial_meter := patch_meter (wu_initial p) (wu_det_initial p) (wo_initial_meter w) (\<lambda>m. m),
           wo_final_meter := patch_meter (wu_final p) (wu_det_final p) (wo_final_meter w) Some,
           wo_mech_start := over (wu_mech_start p) (wo_mech_start w),
           wo_mech_end := over (wu_mech_end p) (wo_mech_end w),
           wo_personnel := (case wu_personnel p of None \<Rightarrow> wo_personnel w
              | Some None \<Rightarrow> 1 | Some (Some n) \<Rightarrow> max 1 n),
           wo_impact := over (wu_impact p) (wo_impact w),
           wo_tags := over (wu_tags p) (wo_tags w),
           wo_category := (if wu_tags p \<noteq> None then fst cm else over (wu_category p) (wo_category w)),
           wo_maintenance := (if wu_tags p \<noteq> None then snd cm
              else over (wu_maintenance p) (wo_maintenance w)),
           wo_type := (if wu_tags p \<noteq> None then deriveOtTypeFromTags (list_of (wu_tags p))
              else over (wu_type p) (wo_type w)),
           wo_supervisor := (case wu_supervisor p of None \<Rightarrow> wo_supervisor w | Some x \<Rightarrow> or_null x),
           wo_description := (if (wu_performed p \<noteq> None \<or> wu_description p \<noteq> None) \<and> legacy \<noteq> []
              then legacy else wo_description w)\<rparr>)"

definition check_edit :: "user \<Rightarrow> work_order \<Rightarrow> unit res" where
  "check_edit u w =
     (if wo_status w = OT_CLOSED then Inl (BadRequest ''No se puede editar una OT cerrada'')
      else if (wo_status w = OT_IN_PROGRESS \<or> wo_status w = OT_ON_HOLD)
        \<and> \<not> (userHasPermission (Some u) ''operations:work-order:update''
             \<or> userHasPermission (Some u) ''operations:work-order:assign''
             \<or> wo_supervisor w = Some (user_id u))
        then Inl (Forbidden ''solo quien supervise la OT puede modificar el formulario'')
      else Inr ())"

definition wo_update ::
    "(id \<Rightarrow> bool) \<Rightarrow> order_ids \<Rightarrow> user \<Rightarrow> id \<Rightarrow> wo_patch \<Rightarrow> id option \<Rightarrow> 'a ops_db_scheme \<Rightarrow>
     'a ops_db_scheme res" where
  "wo_update active ids u i p site db =
     (case workOrderAccess u i site db of
        None \<Rightarrow> Inl (BadRequest ''Orden de Trabajo no encontrada'')
      | Some w \<Rightarrow>
          and_then (check_edit u w) (\<lambda>_.
          wrap_errors True ''Error al actualizar la OT''
          (and_then (check_people active (list_of (wu_participants p))
              (case wu_supervisor p of None \<Rightarrow> None | Some s \<Rightarrow> s)) (\<lambda>_.
           if (case wu_warehouse p of Some (Some x) \<Rightarrow>
                 x \<noteq> [] \<and> find_row (\<lambda>h. wh_id h = x) (warehouses db) = None | _ \<Rightarrow> False)
           then Inl RecordNotFound
           else let db1 = set_work_order i (patch_order p) db in
             and_then (case wu_fluids p of
                 None \<Rightarrow> Inr db1
               | Some ls \<Rightarrow>
                   and_then (for_each (check_line (user_tenant u) db) ls ()) (\<lambda>_.
                     Inr (set_work_order i (\<lambda>x. x\<lparr>wo_fluids := fluids_of ls\<rparr>) db1))) (\<lambda>db2.
             case wu_parts p of
                 None \<Rightarrow> Inr db2
               | Some ls \<Rightarrow>
                   and_then (for_each (check_line (user_tenant u) db) ls ()) (\<lambda>_.
                     reserve_parts i (wo_warehouse (patch_order p w)) ls
                       (set_work_order i (\<lambda>x. x\<lparr>wo_parts := parts_of (no_part ids) ls\<rparr>)
                         (db2\<lparr>reservations :=
                            filter (\<lambda>r. sr_work_order r \<noteq> i) (reservations db2)\<rparr>))))))))"

section \<open>Status\<close>

record status_body =
  sb_status :: ot_status
  sb_warehouse :: "id option"
  sb_operational :: "bool option"
  sb_jump :: "bool option"
  sb_fluid :: "bool option"

definition item_row :: "id \<Rightarrow> 'a inv_db_scheme \<Rightarrow> item option" where
  "item_row i db = find_row (\<lambda>it. it_id it = i) (items db)"

definition stocked_item :: "id option \<Rightarrow> 'a inv_db_scheme \<Rightarrow> bool" where
  "stocked_item mi db =
     (case or_null mi of
        None \<Rightarrow> False
      | Some i \<Rightarrow> (case item_row i db of None \<Rightarrow> False | Some it \<Rightarrow> it_is_inventory it))"

definition inventory_parts :: "work_order \<Rightarrow> 'a inv_db_scheme \<Rightarrow> wo_part list" where
  "inventory_parts w db = filter (\<lambda>p. stocked_item (wp_item p) db) (wo_parts w)"

definition inventory_fluids :: "work_order \<Rightarrow> 'a inv_db_scheme \<Rightarrow> wo_fluid list" where
  "inventory_fluids w db = filter (\<lambda>f. wf_liters f > 0 \<and> stocked_item (wf_item f) db) (wo_fluids w)"

text \<open>The windows of detention and attention: their length, or why the order cannot be closed.\<close>

definition window_ms :: "string \<Rightarrow> string \<Rightarrow> int option \<Rightarrow> int option \<Rightarrow> int res" where
  "window_ms missing reversed start end' =
     (case (start, end') of
        (Some a, Some b) \<Rightarrow> if b - a < 0 then Inl (BadRequest reversed) else Inr (b - a)
      | _ \<Rightarrow> Inl (BadRequest missing))"

definition check_final_meter :: "work_order \<Rightarrow> 'a ops_db_scheme \<Rightarrow> unit res" where
  "check_final_meter w db =
     (case wo_final_meter w of
        None \<Rightarrow> Inr ()
      | Some m \<Rightarrow>
          if m < wo_initial_meter w \<and>
             (case find_row (\<lambda>a. ma_equipment a = wo_equipment w) (rev (meter_adjustments db)) of
                None \<Rightarrow> True | Some a \<Rightarrow> ma_new a > m)
          then Inl (BadRequest ''El medidor final es menor al inicial'') else Inr ())"

text \<open>The hours of detention of an order that may be closed.\<close>

definition close_guards :: "work_order \<Rightarrow> status_body \<Rightarrow> 'a ops_db_scheme \<Rightarrow> qty res" where
  "close_guards w b db =
     (if wo_status w = OT_CLOSED then Inl (BadRequest ''La Orden de Trabajo ya se encuentra CERRADA'')
      else and_then (window_ms ''debe registrar inicio y fin de detencion''
             ''La fecha de fin de detencion debe ser posterior'' (wo_detention_start w)
             (wo_detention_end w)) (\<lambda>det.
      and_then (window_ms ''debe registrar atencion mecanica''
             ''La fecha de fin de atencion debe ser posterior'' (wo_mech_start w) (wo_mech_end w)) (\<lambda>_.
      and_then (check_final_meter w db) (\<lambda>_.
      if (inventory_parts w db \<noteq> [] \<or> inventory_fluids w db \<noteq> [])
         \<and> or_else (or_null (sb_warehouse b)) (or_null (wo_warehouse w)) = None
        then Inl (BadRequest ''Debe seleccionar una bodega de origen'')
      else if sb_operational b = None
        then Inl (BadRequest ''Debe indicar si el equipo quedo operativo'')
      else Inr (of_int det / 3600000)))))"

definition closed_order ::
    "rounding \<Rightarrow> int \<Rightarrow> status_body \<Rightarrow> qty \<Rightarrow> work_order \<Rightarrow> work_order" where
  "closed_order rn now b hm w =
     w\<lparr>wo_status := OT_CLOSED, wo_closed_at := Some now, wo_hm := Some (rnd_hours rn hm),
       wo_hh := Some (rnd_hours rn (hm * of_int (max 1 (wo_personnel w)))),
       wo_closure_operational := sb_operational b,
       wo_warehouse := (case or_null (wo_warehouse w) of
          Some x \<Rightarrow> wo_warehouse w
        | None \<Rightarrow> or_else (or_null (sb_warehouse b)) (wo_warehouse w))\<rparr>"

definition close_meter ::
    "int \<Rightarrow> user \<Rightarrow> status_body \<Rightarrow> work_order \<Rightarrow> equipment \<Rightarrow> 'a ops_db_scheme \<Rightarrow> 'a ops_db_scheme res" where
  "close_meter now u b w e db =
     (case wo_final_meter w of
        None \<Rightarrow> Inr db
      | Some m \<Rightarrow>
          if m < eq_meter e then Inl (BadRequest ''El medidor final no puede ser menor al actual'')
          else if m - eq_meter e > getMeterJumpLimit (eq_meter_type e) \<and> sb_jump b \<noteq> Some True
            then Inl (BadRequest ''El medidor final implica un salto atipico'')
          else Inr (applyCurrentMeterChange (user_tenant u) (wo_equipment w) (eq_meter e) m SRC_OT
                 (Some (wo_id w)) (acting_user_id u) now db))"

text \<open>A stock issue for an order, and the unit cost that the service reads from its response.\<close>

definition issue_dto :: "id \<Rightarrow> id \<Rightarrow> qty \<Rightarrow> id \<Rightarrow> transaction_dto" where
  "issue_dto warehouse i q order =
     \<lparr>pd_wh = warehouse, pd_item = i, pd_type = WORK_ORDER_ISSUE, pd_qty = q, pd_cost = None,
      pd_ref = Some order, pd_ref_type = Some ''WORK_ORDER''\<rparr>"

definition response_cost :: "user \<Rightarrow> transaction_dto \<Rightarrow> 'a inv_db_scheme \<Rightarrow> qty" where
  "response_cost u dto db' =
     or_zero (Option.bind (fst (movement_response u dto db')) st_cost)"

definition issue_part ::
    "rounding \<Rightarrow> user \<Rightarrow> id \<Rightarrow> id \<Rightarrow> wo_part \<Rightarrow> 'a ops_db_scheme \<times> qty \<Rightarrow> ('a ops_db_scheme \<times> qty) res" where
  "issue_part rn u warehouse order p s =
     (case s of (db, spent) \<Rightarrow>
      let dto = issue_dto warehouse (the (wp_item p)) (wp_qty p) order in
      and_then (performTransactionCore (rnd_cost rn) dto u db) (\<lambda>db1.
        let c = response_cost u dto db1 in
        Inr (set_work_order order (\<lambda>w. w\<lparr>wo_parts := update_rows (\<lambda>x. wp_id x = wp_id p)
               (\<lambda>x. x\<lparr>wp_cost := Some c\<rparr>) (wo_parts w)\<rparr>) db1,
             spent + wp_qty p * c)))"

definition issue_fluid ::
    "rounding \<Rightarrow> user \<Rightarrow> bool option \<Rightarrow> id \<Rightarrow> id \<Rightarrow> wo_fluid \<Rightarrow> 'a ops_db_scheme \<times> qty \<Rightarrow>
     ('a ops_db_scheme \<times> qty) res" where
  "issue_fluid rn u confirmed warehouse order f s =
     (case s of (db, spent) \<Rightarrow>
      let i = the (wf_item f); dto = issue_dto warehouse i (wf_liters f) order in
      case item_row i db of
        None \<Rightarrow> Inl RecordNotFound
      | Some it \<Rightarrow>
          and_then (assertQuantityAllowedForUom (wf_liters f) (it_uom_decimals it)) (\<lambda>_.
          and_then (assertLargeDispatchConfirmed (wf_liters f) (it_uom_abbr it) (it_uom_decimals it)
                      confirmed) (\<lambda>_.
          and_then (performTransactionCore (rnd_cost rn) dto u db) (\<lambda>db1.
            Inr (db1, spent + wf_liters f * response_cost u dto db1)))))"

definition issue_all ::
    "rounding \<Rightarrow> user \<Rightarrow> status_body \<Rightarrow> id option \<Rightarrow> work_order \<Rightarrow> wo_part list \<Rightarrow> wo_fluid list \<Rightarrow>
     'a ops_db_scheme \<Rightarrow> ('a ops_db_scheme \<times> qty) res" where
  "issue_all rn u b warehouse w parts fluids db =
     (case warehouse of
        None \<Rightarrow> Inr (db, 0)
      | Some wh \<Rightarrow>
          and_then (for_each (issue_part rn u wh (wo_id w)) parts (db, 0))
            (for_each (issue_fluid rn u (sb_fluid b) wh (wo_id w)) fluids))"

definition record_order_cost ::
    "rounding \<Rightarrow> work_order \<Rightarrow> qty \<Rightarrow> 'a ops_db_scheme \<Rightarrow> 'a ops_db_scheme res" where
  "record_order_cost rn w spent db =
     (if spent > 0 then
        create_asset_cost \<lparr>ac_tenant = wo_tenant w, ac_equipment = wo_equipment w,
          ac_amount = rnd_money rn spent, ac_type = COST_WORK_ORDER, ac_order = None,
          ac_receipt = None, ac_work_order = Some (wo_id w)\<rparr> db
      else Inr db)"

text \<open>The last writes: the reservations go, and the flag of the equipment is decided.\<close>

definition settle_equipment ::
    "user \<Rightarrow> status_body \<Rightarrow> work_order \<Rightarrow> qty \<Rightarrow> 'a ops_db_scheme \<Rightarrow> 'a ops_db_scheme" where
  "settle_equipment u b w hm db =
     (let db1 = db\<lparr>reservations := filter (\<lambda>r. sr_work_order r \<noteq> wo_id w) (reservations db)\<rparr>;
          operational = (if sb_operational b = Some True
            then rt_allowed (resolveReturnToService (user_tenant u) (wo_equipment w)
                   (Some (wo_id w)) db1) else False)
      in set_equipment (wo_equipment w) (\<lambda>e. e\<lparr>eq_operational := operational,
           eq_downtime := (if wo_impact w = Some IMPACT_SI then eq_downtime e + hm
                           else eq_downtime e)\<rparr>) db1)"

definition close_order ::
    "rounding \<Rightarrow> int \<Rightarrow> user \<Rightarrow> status_body \<Rightarrow> work_order \<Rightarrow> equipment \<Rightarrow> 'a ops_db_scheme \<Rightarrow>
     'a ops_db_scheme res" where
  "close_order rn now u b w e db =
     and_then (close_guards w b db) (\<lambda>hm.
     and_then (close_meter now u b w e (set_work_order (wo_id w) (closed_order rn now b hm) db)) (\<lambda>db1.
     and_then (issue_all rn u b (or_else (or_null (sb_warehouse b)) (or_null (wo_warehouse w))) w
                 (inventory_parts w db) (inventory_fluids w db) db1) (\<lambda>(db2, spent).
     and_then (record_order_cost rn w spent db2) (\<lambda>db3.
     Inr (settle_equipment u b w hm db3)))))"

text \<open>
  \<open>updateStatus\<close>: \<open>CLOSED\<close> closes the order in a transaction; any other status is written as it is.
\<close>

definition change_status :: "int \<Rightarrow> work_order \<Rightarrow> ot_status \<Rightarrow> 'a ops_db_scheme \<Rightarrow> 'a ops_db_scheme" where
  "change_status now w st db =
     (let starts = (st = OT_IN_PROGRESS \<and> wo_status w \<noteq> OT_IN_PROGRESS);
          db1 = set_work_order (wo_id w) (\<lambda>x. x\<lparr>wo_status := st,
            wo_in_progress_at := (if starts
              then (case wo_in_progress_at w of Some t \<Rightarrow> Some t | None \<Rightarrow> Some now)
              else wo_in_progress_at x)\<rparr>) db
      in if starts \<and> wo_impact w = Some IMPACT_SI
         then set_equipment (wo_equipment w) (\<lambda>e. e\<lparr>eq_operational := False\<rparr>) db1 else db1)"

definition updateStatus ::
    "rounding \<Rightarrow> int \<Rightarrow> user \<Rightarrow> id \<Rightarrow> status_body \<Rightarrow> id option \<Rightarrow> 'a ops_db_scheme \<Rightarrow>
     'a ops_db_scheme res" where
  "updateStatus rn now u i b site db =
     wrap_errors True ''Error al actualizar estado de la OT''
     (case workOrderAccess u i site db of
        None \<Rightarrow> Inl (BadRequest ''Orden de Trabajo no encontrada'')
      | Some w \<Rightarrow>
          if sb_status b = OT_CLOSED then
            (case equipment_row (wo_equipment w) db of
               None \<Rightarrow> Inl RecordNotFound
             | Some e \<Rightarrow> close_order rn now u b w e db)
          else Inr (change_status now w (sb_status b) db))"

section \<open>Backlog\<close>

definition addBacklogItem ::
    "id \<Rightarrow> user \<Rightarrow> id \<Rightarrow> string option \<Rightarrow> id option \<Rightarrow> 'a ops_db_scheme \<Rightarrow> 'a ops_db_scheme res" where
  "addBacklogItem newId u i description site db =
     (if trim_opt description = [] then Inl (BadRequest ''La descripcion es obligatoria'')
      else case workOrderAccess u i site db of
        None \<Rightarrow> Inl (BadRequest ''Orden de Trabajo no encontrada'')
      | Some w \<Rightarrow>
          Inr (set_work_order i (\<lambda>x. x\<lparr>wo_has_backlog := True\<rparr>)
            (db\<lparr>backlog := backlog db @ [\<lparr>bl_id = newId, bl_tenant = user_tenant u, bl_work_order = i,
                bl_description = trim_opt description, bl_status = BL_PENDING\<rparr>]\<rparr>)))"

definition find_backlog :: "user \<Rightarrow> id \<Rightarrow> id \<Rightarrow> 'a ops_db_scheme \<Rightarrow> backlog_item option" where
  "find_backlog u i itemId db =
     find_row (\<lambda>x. bl_id x = itemId \<and> bl_work_order x = i \<and> bl_tenant x = user_tenant u) (backlog db)"

definition set_backlog_status :: "id \<Rightarrow> backlog_status \<Rightarrow> 'a ops_db_scheme \<Rightarrow> 'a ops_db_scheme" where
  "set_backlog_status itemId st db =
     db\<lparr>backlog := update_rows (\<lambda>x. bl_id x = itemId) (\<lambda>x. x\<lparr>bl_status := st\<rparr>) (backlog db)\<rparr>"

definition patchBacklogItem ::
    "user \<Rightarrow> id \<Rightarrow> id \<Rightarrow> backlog_status \<Rightarrow> id option \<Rightarrow> 'a ops_db_scheme \<Rightarrow> 'a ops_db_scheme res" where
  "patchBacklogItem u i itemId st site db =
     (if workOrderAccess u i site db = None then Inl (BadRequest ''Orden de Trabajo no encontrada'')
      else if find_backlog u i itemId db = None then Inl (BadRequest ''Item de backlog no encontrado'')
      else Inr (set_backlog_status itemId st db))"

datatype promote_mode = TO_TASK | TO_NEW_OT

text \<open>The request for the new order that a promotion builds.\<close>

definition promoted_dto :: "work_order \<Rightarrow> equipment option \<Rightarrow> string \<Rightarrow> wo_dto" where
  "promoted_dto w me text =
     (let meter = (case me of Some e \<Rightarrow> eq_meter e
            | None \<Rightarrow> (case wo_final_meter w of Some m \<Rightarrow> m | None \<Rightarrow> wo_initial_meter w))
      in \<lparr>wd_equipment = wo_equipment w, wd_warehouse = wo_warehouse w, wd_type = None,
          wd_category = None, wd_maintenance = None, wd_tags = Some (wo_tags w),
          wd_impact = wo_impact w, wd_systems = None, wd_symptoms = None,
          wd_det_initial = Some meter, wd_initial = None, wd_det_final = Some meter,
          wd_final = None, wd_performed = Some text, wd_description = Some text,
          wd_request = Some text, wd_personnel = None, wd_det_start = None, wd_det_end = None,
          wd_mech_start = None, wd_mech_end = None, wd_participants = None, wd_supervisor = None,
          wd_tasks = None, wd_parts = None, wd_fluids = None\<rparr>)"

definition promoteBacklogItem ::
    "(id \<Rightarrow> bool) \<Rightarrow> order_ids \<Rightarrow> user \<Rightarrow> id \<Rightarrow> id \<Rightarrow> promote_mode \<Rightarrow> id option \<Rightarrow>
     'a ops_db_scheme \<Rightarrow> 'a ops_db_scheme res" where
  "promoteBacklogItem active ids u i itemId mode site db =
     (case workOrderAccess u i site db of
        None \<Rightarrow> Inl (BadRequest ''Orden de Trabajo no encontrada'')
      | Some w \<Rightarrow>
          (case find_backlog u i itemId db of
             None \<Rightarrow> Inl (BadRequest ''Item de backlog no encontrado'')
           | Some x \<Rightarrow>
               if bl_status x \<noteq> BL_PENDING
                 then Inl (BadRequest ''Solo se pueden promover items en estado pendiente'')
               else if trim (bl_description x) = []
                 then Inl (BadRequest ''La descripcion del backlog esta vacia'')
               else
                 let text = trim (bl_description x) in
                 (case mode of
                    TO_TASK \<Rightarrow>
                      Inr (set_backlog_status itemId BL_DONE
                        (set_work_order i (\<lambda>o'. o'\<lparr>wo_tasks := wo_tasks o' @
                           [if length text \<le> 255 then text else take 252 text @ ''...'']\<rparr>) db))
                  | TO_NEW_OT \<Rightarrow>
                      and_then (wo_create active ids u
                          (promoted_dto w (equipment_row (wo_equipment w) db) text) db)
                        (\<lambda>db1. Inr (set_backlog_status itemId BL_DONE db1)))))"

end
