(* ===== verification/Lube_Reports.thy ===== *)
theory Lube_Reports
  imports Work_Orders
begin

text \<open>
  \<open>features/lube-reports/lube-reports.service.ts\<close>: the dispatch of lubricants to an equipment, with
  its meter reading, its stock movements and its cost record. Lists and read-outs are left out.
\<close>

definition LUBE_DISPATCH_REFERENCE_TYPE :: string where
  "LUBE_DISPATCH_REFERENCE_TYPE = ''LUBE_DISPATCH''"
definition LUBE_REPORT_PREFIX :: string where "LUBE_REPORT_PREFIX = ''RCL''"
definition LUBE_REPORT_DOCUMENT_TYPE :: string where "LUBE_REPORT_DOCUMENT_TYPE = ''LUBE_RCL''"

record lube_line_dto =
  lx_item :: id
  lx_qty :: qty
  lx_confirmed :: "bool option"

record lube_dto =
  lq_contract :: id
  lq_equipment :: id
  lq_warehouse :: id
  lq_date :: int
  lq_meter :: "int option"
  lq_lines :: "lube_line_dto list"

definition set_lube_report :: "id \<Rightarrow> (lube_report \<Rightarrow> lube_report) \<Rightarrow> 'a ops_db_scheme \<Rightarrow> 'a ops_db_scheme" where
  "set_lube_report i f db = db\<lparr>lube_reports := update_rows (\<lambda>r. lr_id r = i) f (lube_reports db)\<rparr>"

definition dispatch_dto :: "id \<Rightarrow> id \<Rightarrow> qty \<Rightarrow> id \<Rightarrow> transaction_dto" where
  "dispatch_dto warehouse i q report =
     \<lparr>pd_wh = warehouse, pd_item = i, pd_type = OUT, pd_qty = q, pd_cost = None,
      pd_ref = Some report, pd_ref_type = Some LUBE_DISPATCH_REFERENCE_TYPE\<rparr>"

definition dispatch_line ::
    "rounding \<Rightarrow> user \<Rightarrow> id \<Rightarrow> id \<Rightarrow> lube_line_dto \<Rightarrow> 'a ops_db_scheme \<times> qty \<Rightarrow>
     ('a ops_db_scheme \<times> qty) res" where
  "dispatch_line rn u warehouse report l s =
     (case s of (db, spent) \<Rightarrow>
      let dto = dispatch_dto warehouse (lx_item l) (lx_qty l) report in
      case find_item (lx_item l) (user_tenant u) db of
        None \<Rightarrow> Inl (BadRequest ''Un item del despacho no existe'')
      | Some it \<Rightarrow>
          and_then (assertQuantityAllowedForUom (lx_qty l) (it_uom_decimals it)) (\<lambda>_.
          and_then (assertLargeDispatchConfirmed (lx_qty l) (it_uom_abbr it) (it_uom_decimals it)
                      (lx_confirmed l)) (\<lambda>_.
          and_then (performTransactionCore (rnd_cost rn) dto u db) (\<lambda>db1.
            let c = response_cost u dto db1 in
            Inr (set_lube_report report (\<lambda>r. r\<lparr>lr_lines := lr_lines r @
                   [\<lparr>ll_item = lx_item l, ll_qty = lx_qty l, ll_cost = c\<rparr>]\<rparr>) db1,
                 spent + c * lx_qty l)))))"

definition lube_meter :: "int \<Rightarrow> user \<Rightarrow> lube_dto \<Rightarrow> equipment \<Rightarrow> 'a ops_db_scheme \<Rightarrow> 'a ops_db_scheme res" where
  "lube_meter now u d e db =
     (case lq_meter d of
        None \<Rightarrow> Inr db
      | Some m \<Rightarrow>
          if m < eq_meter e then Inl (BadRequest ''No se puede retroceder el medidor'')
          else Inr (advance_meter (user_tenant u) e (Some m) SRC_MANUAL None (acting_user_id u) now db))"

definition lube_createReport ::
    "rounding \<Rightarrow> id \<Rightarrow> int \<Rightarrow> user \<Rightarrow> lube_dto \<Rightarrow> 'a ops_db_scheme \<Rightarrow> 'a ops_db_scheme res" where
  "lube_createReport rn newId now u d db =
     (case tenant_warehouse (lq_warehouse d) (user_tenant u) db of
        None \<Rightarrow> Inl (NotFound ''La bodega de origen no existe'')
      | Some w \<Rightarrow>
          if wh_contract w \<noteq> lq_contract d
          then Inl (BadRequest ''La bodega de origen no pertenece al contrato indicado'')
          else case find_equipment (lq_equipment d) (user_tenant u) db of
            None \<Rightarrow> Inl (NotFound ''El equipo no existe'')
          | Some e \<Rightarrow>
              and_then (lube_meter now u d e db) (\<lambda>db1.
              let (correlative, db2) = getNextCorrelative (user_tenant u) LUBE_REPORT_DOCUMENT_TYPE
                    LUBE_REPORT_PREFIX (Some 5) None db1;
                  db3 = db2\<lparr>lube_reports := lube_reports db2 @
                    [\<lparr>lr_id = newId, lr_tenant = user_tenant u, lr_contract = lq_contract d,
                      lr_equipment = lq_equipment d, lr_warehouse = lq_warehouse d,
                      lr_user = acting_user_id u, lr_correlative = correlative,
                      lr_date = lq_date d, lr_meter = lq_meter d, lr_lines = []\<rparr>]\<rparr>
              in and_then (for_each (dispatch_line rn u (lq_warehouse d) newId) (lq_lines d) (db3, 0))
                   (\<lambda>(db4, spent).
                   if spent > 0 then
                     create_asset_cost \<lparr>ac_tenant = user_tenant u, ac_equipment = lq_equipment d,
                       ac_amount = rnd_cost rn spent, ac_type = COST_LUBE_DISPATCH, ac_order = None,
                       ac_receipt = None, ac_work_order = None\<rparr> db4
                   else Inr db4)))"

end
