(* ===== verification/Equipment_Services.thy ===== *)
theory Equipment_Services
  imports Availability Lube_Reports
begin

text \<open>
  What every operation of the equipment side owes to the equipment tables: the invariant
  \<open>ops_ok\<close>, the rule that a flag is raised only where nothing blocks (\<open>returns_free\<close>) and the
  rule that a fault of high criticality stops its equipment (\<open>no_new_alarm\<close>), as the locales
  \<open>equipment_service\<close> and \<open>careful_service\<close>; the views of a state that carry the proofs; and the
  interpretations on the operations of \<open>Fleet\<close> and \<open>Fault_Reports\<close>.
\<close>

section \<open>The state\<close>

text \<open>The equipments and the documents about them, as pairs of an equipment and a tenant.\<close>

definition eq_refs :: "'a ops_db_scheme \<Rightarrow> (id \<times> id) set" where
  "eq_refs db = (\<lambda>e. (eq_id e, eq_tenant e)) ` set (equipments db)"

definition doc_refs :: "'a ops_db_scheme \<Rightarrow> (id \<times> id) set" where
  "doc_refs db = (\<lambda>w. (wo_equipment w, wo_tenant w)) ` set (work_orders db)
     \<union> (\<lambda>r. (fr_equipment r, fr_tenant r)) ` set (fault_reports db)"

text \<open>The meters are in order, every document is about an equipment of its tenant, and ids are unique.\<close>

definition doc_ids_ok :: "'a ops_db_scheme \<Rightarrow> bool" where
  "doc_ids_ok db \<longleftrightarrow>
     distinct (map wo_id (work_orders db)) \<and> distinct (map fr_id (fault_reports db))"

definition ops_ok :: "'a ops_db_scheme \<Rightarrow> bool" where
  "ops_ok db \<longleftrightarrow> meters_ok db \<and> doc_refs db \<subseteq> eq_refs db \<and> doc_ids_ok db"

text \<open>
  A fault of high criticality that is active keeps its equipment out of service. \<open>no_new_alarm\<close>:
  a step makes such a fault active only together with stopping its equipment.
\<close>

definition stopped :: "id \<Rightarrow> 'a ops_db_scheme \<Rightarrow> bool" where
  "stopped i db \<longleftrightarrow> (\<forall>e \<in> set (equipments db). eq_id e = i \<longrightarrow> \<not> eq_operational e)"

definition alarm :: "fault_report \<Rightarrow> 'a ops_db_scheme \<Rightarrow> bool" where
  "alarm r db \<longleftrightarrow> r \<in> set (fault_reports db) \<and> fr_criticality r = CR_HIGH \<and> fault_active r db"

definition alarms_stop :: "'a ops_db_scheme \<Rightarrow> bool" where
  "alarms_stop db \<longleftrightarrow> (\<forall>r. alarm r db \<longrightarrow> stopped (fr_equipment r) db)"

definition no_new_alarm :: "'a ops_db_scheme \<Rightarrow> 'a ops_db_scheme \<Rightarrow> bool" where
  "no_new_alarm db db' \<longleftrightarrow>
     (\<forall>r. alarm r db' \<longrightarrow> alarm r db \<or> stopped (fr_equipment r) db')"

section \<open>The contracts\<close>

locale equipment_service =
  fixes step :: "'a ops_db_scheme \<Rightarrow> 'a ops_db_scheme \<Rightarrow> bool"
  assumes keeps_ok: "ops_ok db \<Longrightarrow> step db db' \<Longrightarrow> ops_ok db'"
    and raises_free: "ops_ok db \<Longrightarrow> step db db' \<Longrightarrow> returns_free db db'"

locale careful_service = equipment_service +
  assumes keeps_quiet: "ops_ok db \<Longrightarrow> step db db' \<Longrightarrow> no_new_alarm db db'"
begin

text \<open>
  A careful service keeps the alarms: a fault of high criticality that was active keeps its
  equipment stopped, because the flag is raised only where nothing blocks.
\<close>

lemma keeps_alarms:
  assumes "ops_ok db" and "step db db'" and "alarms_stop db"
  shows "alarms_stop db'"
  unfolding alarms_stop_def stopped_def
proof (intro allI impI ballI)
  fix r e' assume r: "alarm r db'" and e': "e' \<in> set (equipments db')" "eq_id e' = fr_equipment r"
  show "\<not> eq_operational e'"
  proof
    assume up: "eq_operational e'"
    have dist: "distinct (equipment_ids db')"
      using keeps_ok[OF assms(1,2)] by (simp add: ops_ok_def meters_ok_def)
    have not_stopped: "\<not> stopped (fr_equipment r) db'" using e' up by (auto simp: stopped_def)
    then have r_old: "alarm r db" using keeps_quiet[OF assms(1,2)] r by (auto simp: no_new_alarm_def)
    then have "(fr_equipment r, fr_tenant r) \<in> doc_refs db"
      by (auto simp: alarm_def doc_refs_def)
    then obtain e where e: "e \<in> set (equipments db)" "eq_id e = eq_id e'"
      using assms(1) e'(2) by (auto simp: ops_ok_def eq_refs_def)
    have "\<not> eq_operational e"
      using r_old assms(3) e e'(2) by (auto simp: alarms_stop_def stopped_def)
    then have "free_to_return e' db'"
      using raises_free[OF assms(1,2)] e e'(1) up by (auto simp: returns_free_def)
    moreover have "eq_tenant e' = fr_tenant r"
    proof -
      have "(fr_equipment r, fr_tenant r) \<in> eq_refs db'"
        using r keeps_ok[OF assms(1,2)] by (auto simp: alarm_def doc_refs_def ops_ok_def)
      then obtain x where "x \<in> set (equipments db')" "eq_id x = fr_equipment r" "eq_tenant x = fr_tenant r"
        by (auto simp: eq_refs_def)
      then show ?thesis using equipment_unique[OF dist _ e'(1)] e'(2) by metis
    qed
    ultimately show False
      using r e'(2)
      by (auto simp: free_to_return_def resolveReturnToService_def Let_def blocking_faults_def
          alarm_def filter_empty_conv)
  qed
qed

end

section \<open>Views\<close>

text \<open>What a step that leaves meters, flags and documents alone preserves.\<close>

definition calm :: "'a ops_db_scheme \<Rightarrow> 'a ops_db_scheme \<Rightarrow> bool" where
  "calm db db' \<longleftrightarrow> meter_view db' = meter_view db \<and> flag_view db' = flag_view db"

lemma eq_refs_flags: "eq_refs db = (\<lambda>(i, t, f). (i, t)) ` set (flag_view db)"
  by (force simp: eq_refs_def flag_view_def image_image)

lemma ops_ok_calm:
  "ops_ok db \<Longrightarrow> calm db db' \<Longrightarrow> doc_refs db' \<subseteq> eq_refs db \<Longrightarrow> doc_ids_ok db' \<Longrightarrow> ops_ok db'"
  by (simp add: ops_ok_def calm_def eq_refs_flags cong: meters_ok_cong)

lemma returns_free_calm: "ops_ok db \<Longrightarrow> calm db db' \<Longrightarrow> returns_free db db'"
  by (rule returns_free_view) (simp_all add: ops_ok_def meters_ok_def calm_def)

lemma ops_ok_distinct: "ops_ok db \<Longrightarrow> distinct (equipment_ids db)"
  by (simp add: ops_ok_def meters_ok_def)

lemma calm_refl [simp]: "calm db db"
  by (simp add: calm_def)

lemma calm_trans: "calm a b \<Longrightarrow> calm b c \<Longrightarrow> calm a c"
  by (simp add: calm_def)

lemma calmI: "equipments db' = equipments db \<Longrightarrow> meter_logs db' = meter_logs db \<Longrightarrow> calm db db'"
  by (simp add: calm_def meter_view_def flag_view_def)

lemma no_new_alarm_same:
  "fault_reports db' = fault_reports db \<Longrightarrow> work_orders db' = work_orders db \<Longrightarrow> no_new_alarm db db'"
  by (simp add: no_new_alarm_def alarm_def fault_active_def linked_order_open_def find_work_order_def
      cong: option.case_cong)

text \<open>The tables that a view does not read.\<close>

lemma flag_view_tables [simp]:
  "flag_view (db\<lparr>meter_adjustments := x0\<rparr>) = flag_view db"
  "flag_view (db\<lparr>fault_reports := x1\<rparr>) = flag_view db"
  "flag_view (db\<lparr>work_orders := x2\<rparr>) = flag_view db"
  "flag_view (db\<lparr>backlog := x3\<rparr>) = flag_view db"
  "flag_view (db\<lparr>reservations := x4\<rparr>) = flag_view db"
  "flag_view (db\<lparr>lube_reports := x5\<rparr>) = flag_view db"
  "flag_view (db\<lparr>availabilities := x6\<rparr>) = flag_view db"
  "flag_view (db\<lparr>availability_events := x7\<rparr>) = flag_view db"
  "flag_view (db\<lparr>attachments := x8\<rparr>) = flag_view db"
  "flag_view (db\<lparr>asset_costs := x9\<rparr>) = flag_view db"
  "flag_view (db\<lparr>orders := x10\<rparr>) = flag_view db"
  "flag_view (db\<lparr>counters := x11\<rparr>) = flag_view db"
  "flag_view (db\<lparr>stocks := x12\<rparr>) = flag_view db"
  "flag_view (db\<lparr>txs := x13\<rparr>) = flag_view db"
  "flag_view (db\<lparr>items := x14\<rparr>) = flag_view db"
  "flag_view (db\<lparr>meter_logs := xl\<rparr>) = flag_view db"
  by (simp_all add: flag_view_def)

lemma meter_view_tables [simp]:
  "meter_view (db\<lparr>meter_adjustments := x0\<rparr>) = meter_view db"
  "meter_view (db\<lparr>fault_reports := x1\<rparr>) = meter_view db"
  "meter_view (db\<lparr>work_orders := x2\<rparr>) = meter_view db"
  "meter_view (db\<lparr>backlog := x3\<rparr>) = meter_view db"
  "meter_view (db\<lparr>reservations := x4\<rparr>) = meter_view db"
  "meter_view (db\<lparr>lube_reports := x5\<rparr>) = meter_view db"
  "meter_view (db\<lparr>availabilities := x6\<rparr>) = meter_view db"
  "meter_view (db\<lparr>availability_events := x7\<rparr>) = meter_view db"
  "meter_view (db\<lparr>attachments := x8\<rparr>) = meter_view db"
  "meter_view (db\<lparr>asset_costs := x9\<rparr>) = meter_view db"
  "meter_view (db\<lparr>orders := x10\<rparr>) = meter_view db"
  "meter_view (db\<lparr>counters := x11\<rparr>) = meter_view db"
  "meter_view (db\<lparr>stocks := x12\<rparr>) = meter_view db"
  "meter_view (db\<lparr>txs := x13\<rparr>) = meter_view db"
  "meter_view (db\<lparr>items := x14\<rparr>) = meter_view db"
  by (simp_all add: meter_view_def)

lemma doc_refs_tables [simp]:
  "doc_refs (db\<lparr>meter_adjustments := x0\<rparr>) = doc_refs db"
  "doc_refs (db\<lparr>backlog := x1\<rparr>) = doc_refs db"
  "doc_refs (db\<lparr>reservations := x2\<rparr>) = doc_refs db"
  "doc_refs (db\<lparr>lube_reports := x3\<rparr>) = doc_refs db"
  "doc_refs (db\<lparr>availabilities := x4\<rparr>) = doc_refs db"
  "doc_refs (db\<lparr>availability_events := x5\<rparr>) = doc_refs db"
  "doc_refs (db\<lparr>attachments := x6\<rparr>) = doc_refs db"
  "doc_refs (db\<lparr>asset_costs := x7\<rparr>) = doc_refs db"
  "doc_refs (db\<lparr>orders := x8\<rparr>) = doc_refs db"
  "doc_refs (db\<lparr>counters := x9\<rparr>) = doc_refs db"
  "doc_refs (db\<lparr>stocks := x10\<rparr>) = doc_refs db"
  "doc_refs (db\<lparr>txs := x11\<rparr>) = doc_refs db"
  "doc_refs (db\<lparr>items := x12\<rparr>) = doc_refs db"
  "doc_refs (db\<lparr>equipments := x13\<rparr>) = doc_refs db"
  "doc_refs (db\<lparr>meter_logs := x14\<rparr>) = doc_refs db"
  by (simp_all add: doc_refs_def)

lemma doc_refs_set_fault:
  assumes "\<And>r. fr_equipment (f r) = fr_equipment r" "\<And>r. fr_tenant (f r) = fr_tenant r"
  shows "doc_refs (set_fault i f db) = doc_refs db"
  unfolding doc_refs_def set_fault_frame update_rows_def set_map image_image
  by (rule arg_cong2[of _ _ _ _ "(\<union>)"] refl image_cong | simp add: assms)+

lemma doc_ids_set_fault:
  assumes "\<And>r. fr_id (f r) = fr_id r"
  shows "doc_ids_ok (set_fault i f db) = doc_ids_ok db"
  by (simp add: doc_ids_ok_def update_rows_def comp_def if_distrib assms cong: if_cong)

lemma doc_refs_set_work_order:
  assumes "\<And>w. wo_equipment (f w) = wo_equipment w" "\<And>w. wo_tenant (f w) = wo_tenant w"
  shows "doc_refs (set_work_order i f db) = doc_refs db"
  unfolding doc_refs_def set_work_order_frame update_rows_def set_map image_image
  by (rule arg_cong2[of _ _ _ _ "(\<union>)"] refl image_cong | simp add: assms)+

lemma doc_ids_set_work_order:
  assumes "\<And>w. wo_id (f w) = wo_id w"
  shows "doc_ids_ok (set_work_order i f db) = doc_ids_ok db"
  by (simp add: doc_ids_ok_def update_rows_def comp_def if_distrib assms cong: if_cong)

lemma views_set_docs [simp]:
  "flag_view (set_fault i f db) = flag_view db" "meter_view (set_fault i f db) = meter_view db"
  "flag_view (set_work_order i g db) = flag_view db"
  "meter_view (set_work_order i g db) = meter_view db"
  by (simp_all add: flag_view_def meter_view_def)

lemma doc_refs_cong:
  "work_orders db' = work_orders db \<Longrightarrow> fault_reports db' = fault_reports db \<Longrightarrow>
     doc_refs db' = doc_refs db"
  by (simp add: doc_refs_def)

lemma doc_ids_cong:
  "work_orders db' = work_orders db \<Longrightarrow> fault_reports db' = fault_reports db \<Longrightarrow>
     doc_ids_ok db' = doc_ids_ok db"
  by (simp add: doc_ids_ok_def)

lemma returns_free_flags: "ops_ok db \<Longrightarrow> flag_view db' = flag_view db \<Longrightarrow> returns_free db db'"
  by (rule returns_free_view[OF ops_ok_distinct])

text \<open>A change of the meter of an equipment, after a change of other tables.\<close>

lemma ops_ok_apply:
  fixes db db1 :: "'a ops_db_scheme"
  assumes "ops_ok db" and "equipments db1 = equipments db" "meter_logs db1 = meter_logs db"
    and "doc_refs db1 \<subseteq> eq_refs db" "doc_ids_ok db1"
    and "e \<in> set (equipments db)" "eq_id e = i" "eq_meter e = old"
    and "new < old \<Longrightarrow> source = SRC_MANUAL"
  shows "ops_ok (applyCurrentMeterChange t i old new source sid u d db1)"
proof -
  have "meters_ok db1"
    using assms(1-3) by (simp add: ops_ok_def meters_ok_cong[OF meter_view_cong[OF assms(2,3)]])
  then have "meters_ok (applyCurrentMeterChange t i old new source sid u d db1)"
    by (rule meters_ok_apply[where e = e]) (use assms in simp_all)
  moreover have "eq_refs (applyCurrentMeterChange t i old new source sid u d db1) = eq_refs db"
    by (simp add: eq_refs_flags flag_view_cong[OF assms(2)])
  moreover have "doc_refs (applyCurrentMeterChange t i old new source sid u d db1) = doc_refs db1"
    by (rule doc_refs_cong) simp_all
  moreover have "doc_ids_ok (applyCurrentMeterChange t i old new source sid u d db1)"
    using assms(5) by (simp add: doc_ids_ok_def)
  ultimately show ?thesis using assms(4) by (simp add: ops_ok_def)
qed

lemma ops_ok_advance:
  fixes db db1 :: "'a ops_db_scheme"
  assumes "ops_ok db" and "equipments db1 = equipments db" "meter_logs db1 = meter_logs db"
    and "doc_refs db1 \<subseteq> eq_refs db" "doc_ids_ok db1" and "e \<in> set (equipments db)"
  shows "ops_ok (advance_meter t e m source sid u d db1)"
proof (cases "\<exists>k. m = Some k \<and> eq_meter e < k")
  case True
  then obtain k where k: "m = Some k" "eq_meter e < k" by blast
  then show ?thesis
    by (simp add: advance_meter_def) (rule ops_ok_apply[OF assms refl refl], simp)
next
  case False
  then have "advance_meter t e m source sid u d db1 = db1"
    by (auto simp: advance_meter_def split: option.splits)
  then show ?thesis
    using assms by (simp add: ops_ok_calm calmI)
qed

text \<open>Flags that come from the flags before, or belong to an equipment that is new.\<close>

lemma returns_free_flags_new:
  assumes "ops_ok db" and "flag_view db' = flag_view db @ [(i, t, f)]"
    and "i \<notin> set (equipment_ids db)"
  shows "returns_free db db'"
proof (rule returns_freeI[OF ops_ok_distinct[OF assms(1)]])
  fix e' assume "e' \<in> set (equipments db')" "eq_operational e'"
  then have "(eq_id e', eq_tenant e', True) \<in> set (flag_view db')"
    by (force simp: flag_view_def)
  then have "(eq_id e', eq_tenant e', True) \<in> set (flag_view db) \<or> eq_id e' = i"
    unfolding assms(2) by auto
  then show "(\<exists>e \<in> set (equipments db). eq_id e = eq_id e' \<and> eq_operational e)
      \<or> eq_id e' \<notin> set (equipment_ids db) \<or> free_to_return e' db'"
    using assms(3) by (auto simp: flag_view_def)
qed

lemma returns_free_flags_fewer:
  assumes "ops_ok db" and "set (flag_view db') \<subseteq> set (flag_view db)"
  shows "returns_free db db'"
proof (rule returns_freeI[OF ops_ok_distinct[OF assms(1)]])
  fix e' assume "e' \<in> set (equipments db')" "eq_operational e'"
  then have "(eq_id e', eq_tenant e', True) \<in> set (flag_view db')"
    by (force simp: flag_view_def)
  with assms(2) have "(eq_id e', eq_tenant e', True) \<in> set (flag_view db)" by blast
  then show "(\<exists>e \<in> set (equipments db). eq_id e = eq_id e' \<and> eq_operational e)
      \<or> eq_id e' \<notin> set (equipment_ids db) \<or> free_to_return e' db'"
    by (auto simp: flag_view_def)
qed

section \<open>The services\<close>

subsection \<open>Meter adjustments and the fleet\<close>

lemma meter_adjustment_InrE:
  assumes "meter_adjustment_create newId now u d db = Inr db'"
  obtains e row where "find_equipment (md_equipment d) (user_tenant u) db = Some e"
    "0 \<le> md_old d" "0 \<le> md_new d"
    "md_new d < eq_meter e \<Longrightarrow> 15 \<le> length (trim_opt (md_reason d))"
    "db' = applyCurrentMeterChange (user_tenant u) (md_equipment d) (eq_meter e) (md_new d)
       SRC_MANUAL (Some newId) (acting_user_id u) now
       (db\<lparr>meter_adjustments := meter_adjustments db @ [row]\<rparr>)"
  using assms
  by (auto simp: meter_adjustment_create_def not_less split: option.splits if_splits)

definition adjustment_step :: "'a ops_db_scheme \<Rightarrow> 'a ops_db_scheme \<Rightarrow> bool" where
  "adjustment_step db db' \<longleftrightarrow> (\<exists>i now u d. meter_adjustment_create i now u d db = Inr db')"

interpretation adjustments: careful_service adjustment_step
proof
  fix db db' :: "'a ops_db_scheme"
  assume ok: "ops_ok db" and "adjustment_step db db'"
  then obtain i now u d where "meter_adjustment_create i now u d db = Inr db'"
    by (auto simp: adjustment_step_def)
  then obtain e row where e: "find_equipment (md_equipment d) (user_tenant u) db = Some e"
    and db': "db' = applyCurrentMeterChange (user_tenant u) (md_equipment d) (eq_meter e) (md_new d)
       SRC_MANUAL (Some i) (acting_user_id u) now
       (db\<lparr>meter_adjustments := meter_adjustments db @ [row]\<rparr>)"
    by (rule meter_adjustment_InrE)
  show "ops_ok db'"
    unfolding db'
    by (rule ops_ok_apply[OF ok, of _ e]) (use find_equipment_SomeD[OF e] ok in \<open>auto simp: ops_ok_def doc_refs_def doc_ids_ok_def\<close>)
  show "returns_free db db'"
    by (rule returns_free_flags[OF ok]) (simp add: db')
  show "no_new_alarm db db'"
    by (rule no_new_alarm_same) (simp_all add: db')
qed

lemma meters_ok_new:
  assumes "meters_ok db" and "eq_id row \<notin> set (equipment_ids db)"
  shows "meters_ok (db\<lparr>equipments := equipments db @ [row]\<rparr>)"
proof -
  have "logs_of (eq_id row) db = []"
    using assms by (auto simp: logs_of_def meters_ok_def filter_empty_conv)
  with assms show ?thesis
    by (auto simp: meters_ok_def equipment_ids_def logs_of_def intro: exI[of _ "eq_meter row"])
qed

text \<open>A new row with a first log entry is a row at its initial meter that is then read.\<close>

lemma apply_new_row:
  assumes "eq_id row \<notin> set (equipment_ids db)"
  shows "applyCurrentMeterChange t (eq_id row) (eq_initial row) (eq_meter row) s sid u d
       (db\<lparr>equipments := equipments db @ [row]\<rparr>)
     = applyCurrentMeterChange t (eq_id row) (eq_initial row) (eq_meter row) s sid u d
       (db\<lparr>equipments := equipments db @ [row\<lparr>eq_meter := eq_initial row\<rparr>]\<rparr>)"
  using assms
  by (auto simp: applyCurrentMeterChange_def set_equipment_def update_rows_append)

lemma insert_equipment_Inr:
  "insert_equipment now u row db = Inr db' \<Longrightarrow>
     db' = applyCurrentMeterChange (user_tenant u) (eq_id row) (eq_initial row) (eq_meter row)
       SRC_MANUAL None (acting_user_id u) now (db\<lparr>equipments := equipments db @ [row]\<rparr>)"
  by (auto simp: insert_equipment_def applyCurrentMeterChange_def Let_def split: if_splits)

lemma equipment_create_InrE:
  assumes "equipment_create newId now u d ac db = Inr db'"
  obtains row where "eq_id row = newId" "eq_tenant row = user_tenant u"
    "db' = applyCurrentMeterChange (user_tenant u) (eq_id row) (eq_initial row) (eq_meter row)
       SRC_MANUAL None (acting_user_id u) now (db\<lparr>equipments := equipments db @ [row]\<rparr>)"
proof -
  obtain contract sub internal sublease where
    "insert_equipment now u (new_equipment newId u d contract sub internal sublease) db = Inr db'"
    using assms
    by (auto simp: equipment_create_def Let_def and_then_eq_Inr split: if_splits option.splits)
  from that[OF _ _ insert_equipment_Inr[OF this]] show thesis by (simp add: new_equipment_def)
qed

definition creation_step :: "'a ops_db_scheme \<Rightarrow> 'a ops_db_scheme \<Rightarrow> bool" where
  "creation_step db db' \<longleftrightarrow> (\<exists>i now u d ac. i \<notin> set (equipment_ids db)
     \<and> equipment_create i now u d ac db = Inr db')"

interpretation creations: careful_service creation_step
proof
  fix db db' :: "'a ops_db_scheme"
  assume ok: "ops_ok db" and "creation_step db db'"
  then obtain i now u d ac where fresh: "i \<notin> set (equipment_ids db)"
    and "equipment_create i now u d ac db = Inr db'"
    by (auto simp: creation_step_def)
  then obtain row where row: "eq_id row = i" "eq_tenant row = user_tenant u"
    and db': "db' = applyCurrentMeterChange (user_tenant u) (eq_id row) (eq_initial row) (eq_meter row)
       SRC_MANUAL None (acting_user_id u) now (db\<lparr>equipments := equipments db @ [row]\<rparr>)"
    by (elim equipment_create_InrE) blast
  let ?row0 = "row\<lparr>eq_meter := eq_initial row\<rparr>"
  let ?db0 = "db\<lparr>equipments := equipments db @ [?row0]\<rparr>"
  have ok0: "ops_ok ?db0"
    using ok fresh row meters_ok_new[of db ?row0]
    by (auto simp: ops_ok_def eq_refs_def doc_ids_ok_def)
  show "ops_ok db'"
    unfolding db' apply_new_row[OF fresh[folded row(1)]]
    by (rule ops_ok_apply[OF ok0 refl refl, of ?row0]) (use ok0 in \<open>auto simp: ops_ok_def\<close>)
  have "flag_view db' = flag_view db @ [(i, user_tenant u, eq_operational row)]"
    unfolding db' flag_view_apply by (simp add: flag_view_def row)
  then show "returns_free db db'"
    using fresh by (intro returns_free_flags_new[OF ok])
  show "no_new_alarm db db'"
    by (rule no_new_alarm_same) (simp_all add: db')
qed

lemma patch_equipment_fields [simp]:
  "eq_id (patch_equipment d sub e) = eq_id e" "eq_tenant (patch_equipment d sub e) = eq_tenant e"
  "eq_meter (patch_equipment d sub e) = eq_meter e"
  "eq_operational (patch_equipment d sub e) = eq_operational e"
  by (simp_all add: patch_equipment_def)

lemma find_scoped_SomeD:
  "find_scoped_equipment i u site db = Some e \<Longrightarrow>
     e \<in> set (equipments db) \<and> eq_id e = i \<and> eq_tenant e = user_tenant u"
  unfolding find_scoped_equipment_def by (drule find_row_SomeD) simp

lemma equipment_update_InrE:
  assumes "equipment_update now u i d site db = Inr db'"
  obtains e sub where "find_scoped_equipment i u site db = Some e"
    "db' = set_equipment i (patch_equipment d sub)
       (case ed_current d of None \<Rightarrow> db
        | Some m \<Rightarrow> applyCurrentMeterChange (user_tenant u) i (eq_meter e) m SRC_MANUAL None
            (acting_user_id u) now db)"
  using assms by (auto simp: equipment_update_def Let_def and_then_eq_Inr split: if_splits option.splits)

text \<open>A change of the rows of the equipments that no view sees.\<close>

lemma ops_ok_set_equipment:
  assumes "ops_ok db" and "\<And>e. eq_id (f e) = eq_id e" "\<And>e. eq_tenant (f e) = eq_tenant e"
    and "\<And>e. eq_meter (f e) = eq_meter e"
  shows "ops_ok (set_equipment i f db)"
proof -
  have "eq_refs (set_equipment i f db) = eq_refs db"
    unfolding eq_refs_def set_equipment_frame update_rows_def set_map image_image
    by (rule image_cong) (simp_all add: assms)
  moreover have "doc_refs (set_equipment i f db) = doc_refs db"
    by (rule doc_refs_cong) simp_all
  moreover have "doc_ids_ok (set_equipment i f db) = doc_ids_ok db"
    by (rule doc_ids_cong) simp_all
  ultimately show ?thesis
    using assms(1) meters_ok_cong[OF meter_view_set[of f i db, OF assms(2,4)]]
    by (simp add: ops_ok_def)
qed

definition update_step :: "'a ops_db_scheme \<Rightarrow> 'a ops_db_scheme \<Rightarrow> bool" where
  "update_step db db' \<longleftrightarrow> (\<exists>now u i d site. equipment_update now u i d site db = Inr db')"

interpretation updates: careful_service update_step
proof
  fix db db' :: "'a ops_db_scheme"
  assume ok: "ops_ok db" and "update_step db db'"
  then obtain now u i d site where "equipment_update now u i d site db = Inr db'"
    by (auto simp: update_step_def)
  then obtain e sub where e: "find_scoped_equipment i u site db = Some e"
    and db': "db' = set_equipment i (patch_equipment d sub)
       (case ed_current d of None \<Rightarrow> db
        | Some m \<Rightarrow> applyCurrentMeterChange (user_tenant u) i (eq_meter e) m SRC_MANUAL None
            (acting_user_id u) now db)"
    by (rule equipment_update_InrE)
  have ok1: "ops_ok (applyCurrentMeterChange (user_tenant u) i (eq_meter e) m SRC_MANUAL None
            (acting_user_id u) now db)" for m
    by (rule ops_ok_apply[OF ok refl refl]) (use find_scoped_SomeD[OF e] ok in \<open>auto simp: ops_ok_def\<close>)
  show "ops_ok db'"
    unfolding db' by (rule ops_ok_set_equipment) (use ok ok1 in \<open>simp_all split: option.split\<close>)
  show "returns_free db db'"
    by (rule returns_free_flags[OF ok]) (simp add: db' flag_view_set split: option.split)
  show "no_new_alarm db db'"
    by (rule no_new_alarm_same) (simp_all add: db' split: option.split)
qed

text \<open>The two removals: the rows of one equipment go, with its logs and (the second) its documents.\<close>

lemma ops_ok_erase:
  assumes ok: "ops_ok db" and rows: "equipments db' = filter (\<lambda>e. eq_id e \<noteq> i) (equipments db)"
    and logs: "meter_logs db' = filter (\<lambda>l. ml_equipment l \<noteq> i) (meter_logs db)"
    and orders: "set (work_orders db') \<subseteq> set (work_orders db)" "\<forall>w \<in> set (work_orders db'). wo_equipment w \<noteq> i"
    and faults: "set (fault_reports db') \<subseteq> set (fault_reports db)" "\<forall>r \<in> set (fault_reports db'). fr_equipment r \<noteq> i"
    and ids: "doc_ids_ok db'"
  shows "ops_ok db'" and "returns_free db db'"
proof -
  have "logs_of j db' = (if j = i then [] else logs_of j db)" for j
    by (auto simp: logs_of_def logs intro: filter_cong)
  then have "meters_ok db'"
    using ok by (auto simp: ops_ok_def meters_ok_def equipment_ids_def rows logs distinct_map_filter)
  moreover have "doc_refs db' \<subseteq> eq_refs db'"
    using ok orders faults by (force simp: ops_ok_def doc_refs_def eq_refs_def rows)
  ultimately show "ops_ok db'" using ids by (simp add: ops_ok_def)
  show "returns_free db db'"
    by (rule returns_free_flags_fewer[OF ok]) (auto simp: flag_view_def rows)
qed

definition removal_step :: "'a ops_db_scheme \<Rightarrow> 'a ops_db_scheme \<Rightarrow> bool" where
  "removal_step db db' \<longleftrightarrow> (\<exists>u i site. equipment_remove u i site db = Inr db')
     \<or> (\<exists>t i. deleteEquipmentWithAssociations t i db = Inr db')"

lemma removal_stepE:
  assumes "removal_step db db'"
  obtains i where "equipments db' = filter (\<lambda>e. eq_id e \<noteq> i) (equipments db)"
    "meter_logs db' = filter (\<lambda>l. ml_equipment l \<noteq> i) (meter_logs db)"
    "\<forall>w \<in> set (work_orders db'). wo_equipment w \<noteq> i" "\<forall>r \<in> set (fault_reports db'). fr_equipment r \<noteq> i"
    "\<exists>P. work_orders db' = filter P (work_orders db)"
    "\<exists>P. fault_reports db' = filter P (fault_reports db)"
  using assms unfolding removal_step_def
proof (elim disjE exE)
  fix u i site assume "equipment_remove u i site db = Inr db'"
  then show thesis
    by (intro that[of i])
       (auto simp: equipment_remove_def erase_equipment_def equipment_referenced_def list_ex_iff
         intro: exI[of _ "\<lambda>x. True"] split: if_splits)
next
  fix t i assume "deleteEquipmentWithAssociations t i db = Inr db'"
  then show thesis
    by (intro that[of i])
       (auto simp: deleteEquipmentWithAssociations_def erase_equipment_def equipment_referenced_def
         list_ex_iff Let_def split: if_splits intro!: filter_cong)
qed

text \<open>An alarm that is left after a removal of rows was there before.\<close>

lemma find_row_filter_unique:
  assumes "distinct (map k rows)" and "find_row (\<lambda>x. k x = v) (filter P rows) = Some x"
  shows "find_row (\<lambda>x. k x = v) rows = Some x"
  using find_row_SomeD[OF assms(2)] find_row_unique[OF assms(1), of x] by auto

lemma no_new_alarm_filter:
  assumes "doc_ids_ok db" and "\<exists>P. work_orders db' = filter P (work_orders db)"
    and "\<exists>P. fault_reports db' = filter P (fault_reports db)"
  shows "no_new_alarm db db'"
proof -
  obtain P Q where P: "work_orders db' = filter P (work_orders db)"
    and Q: "fault_reports db' = filter Q (fault_reports db)" using assms(2,3) by blast
  have "fault_active r db" if "fault_active r db'" for r
    using that find_row_filter_unique[of wo_id "work_orders db" _ P] assms(1)
    by (auto simp: fault_active_def linked_order_open_def find_work_order_def P doc_ids_ok_def
        split: option.splits)
  then show ?thesis by (auto simp: no_new_alarm_def alarm_def Q)
qed

interpretation removals: careful_service removal_step
proof
  fix db db' :: "'a ops_db_scheme"
  assume ok: "ops_ok db" and "removal_step db db'"
  then obtain i where *: "equipments db' = filter (\<lambda>e. eq_id e \<noteq> i) (equipments db)"
    "meter_logs db' = filter (\<lambda>l. ml_equipment l \<noteq> i) (meter_logs db)"
    "\<forall>w \<in> set (work_orders db'). wo_equipment w \<noteq> i" "\<forall>r \<in> set (fault_reports db'). fr_equipment r \<noteq> i"
    and **: "\<exists>P. work_orders db' = filter P (work_orders db)"
    "\<exists>P. fault_reports db' = filter P (fault_reports db)"
    by (elim removal_stepE) blast
  have ids: "doc_ids_ok db" using ok by (simp add: ops_ok_def)
  have ids': "doc_ids_ok db'" using ids ** by (auto simp: doc_ids_ok_def distinct_map_filter)
  have subs: "set (work_orders db') \<subseteq> set (work_orders db)"
    "set (fault_reports db') \<subseteq> set (fault_reports db)" using ** by auto
  show "ops_ok db'" "returns_free db db'"
    using ops_ok_erase[OF ok *(1,2) subs(1) *(3) subs(2) *(4) ids'] by simp_all
  show "no_new_alarm db db'" using no_new_alarm_filter[OF ids **] .
qed

text \<open>The bulk capture: every item changes at most the meter of its equipment.\<close>

definition same_flags_docs :: "'a ops_db_scheme \<Rightarrow> 'a ops_db_scheme \<Rightarrow> bool" where
  "same_flags_docs db db' \<longleftrightarrow> flag_view db' = flag_view db
     \<and> fault_reports db' = fault_reports db \<and> work_orders db' = work_orders db"

lemma sync_reading_ok:
  assumes "ops_ok db" and "sync_reading now u site it (db, res) = (db', res')"
  shows "ops_ok db' \<and> same_flags_docs db db'"
proof -
  obtain i reading confirmed where it: "it = (i, reading, confirmed)" by (cases it)
  show ?thesis
  proof (cases "db' = db")
    case True
    with assms(1) show ?thesis by (simp add: same_flags_docs_def)
  next
    case False
    then obtain e where e: "find_scoped_equipment i u site db = Some e" "eq_meter e \<le> reading"
      and db': "db' = applyCurrentMeterChange (user_tenant u) i (eq_meter e) reading SRC_MANUAL None
                   (acting_user_id u) now db"
      using assms(2) unfolding it sync_reading_def
      by (auto split: option.splits if_splits)
    have "ops_ok db'"
      unfolding db'
      by (rule ops_ok_apply[OF assms(1) refl refl])
         (use find_scoped_SomeD[OF e(1)] assms(1) in \<open>auto simp: ops_ok_def\<close>)
    then show ?thesis by (simp add: db' same_flags_docs_def)
  qed
qed

lemma sync_all_ok:
  assumes "ops_ok db"
  shows "ops_ok (fst (fold (sync_reading now u site) its (db, res)))
    \<and> same_flags_docs db (fst (fold (sync_reading now u site) its (db, res)))"
  using assms
proof (induction its arbitrary: db res)
  case Nil
  then show ?case by (simp add: same_flags_docs_def)
next
  case (Cons it its)
  obtain db1 res1 where s: "sync_reading now u site it (db, res) = (db1, res1)" by fastforce
  from sync_reading_ok[OF Cons.prems s] Cons.IH[of db1 res1] s show ?case
    by (auto simp: same_flags_docs_def)
qed

definition bulk_step :: "'a ops_db_scheme \<Rightarrow> 'a ops_db_scheme \<Rightarrow> bool" where
  "bulk_step db db' \<longleftrightarrow>
     (\<exists>now u site rows res. bulkSyncMeterReadings now u site rows db = Inr (db', res))"

interpretation bulk: careful_service bulk_step
proof
  fix db db' :: "'a ops_db_scheme"
  assume ok: "ops_ok db" and "bulk_step db db'"
  then obtain now u site its where "db' = fst (fold (sync_reading now u site) its (db, no_readings))"
    by (auto simp: bulk_step_def bulkSyncMeterReadings_def and_then_eq_Inr split: if_splits
        intro: sym[OF fst_conv] dest!: arg_cong[where f = fst])
  then have *: "ops_ok db'" "same_flags_docs db db'" using sync_all_ok[OF ok] by auto
  show "ops_ok db'" by (rule *)
  show "returns_free db db'" using *(2) by (intro returns_free_flags[OF ok]) (simp add: same_flags_docs_def)
  show "no_new_alarm db db'" using *(2) by (intro no_new_alarm_same) (simp_all add: same_flags_docs_def)
qed

subsection \<open>Fault reports\<close>

lemma linked_order_append:
  "fr_work_order r \<noteq> Some (wo_id w) \<Longrightarrow> work_orders db' = work_orders db @ [w] \<Longrightarrow>
     linked_order_open r db' = linked_order_open r db"
  by (auto simp: linked_order_open_def find_work_order_def find_row_append split: option.splits)

text \<open>
  A new fault report: with it come at most one new order, an advance of the meter and, for the
  high criticality, the stop of the equipment.
\<close>

lemma link_fault_InrD:
  assumes "link_fault f w db = Inr db'"
  shows "db' = set_fault f (\<lambda>r. r\<lparr>fr_work_order := Some w, fr_status := FR_LINKED\<rparr>) db"
    and "\<And>r. r \<in> set (fault_reports db) \<Longrightarrow> fr_id r \<noteq> f \<Longrightarrow> fr_work_order r \<noteq> Some w"
  using assms by (auto simp: link_fault_def list_ex_iff split: if_splits)

lemma order_of_fault_fields [simp]:
  "wo_id (order_of_fault fr u d e k) = fresh_order fr"
  "wo_equipment (order_of_fault fr u d e k) = fd_equipment d"
  "wo_tenant (order_of_fault fr u d e k) = user_tenant u"
  by (simp_all add: order_of_fault_def plain_order_def Let_def)

lemma criticality_rules_InrE:
  assumes "criticality_rules fr u d e db = Inr db'"
  obtains (low) "fd_criticality d = CR_LOW" "db' = db"
  | (order) w db1 where "wo_id w = fresh_order fr" "wo_equipment w = fd_equipment d"
      "wo_tenant w = user_tenant u"
      "link_fault (fresh_fault fr) (fresh_order fr) (db\<lparr>work_orders := work_orders db @ [w]\<rparr>) = Inr db1"
      "db' = (if fd_criticality d = CR_HIGH
         then set_equipment (fd_equipment d) (\<lambda>x. x\<lparr>eq_operational := False\<rparr>) db1 else db1)"
proof (cases "fd_criticality d = CR_LOW")
  case True
  with assms low show thesis by (simp add: criticality_rules_def)
next
  case False
  then have "fd_criticality d = CR_HIGH \<or> fd_criticality d = CR_MEDIUM"
    by (cases "fd_criticality d") simp_all
  with assms obtain db4 db5 where "create_work_order (order_of_fault fr u d e
        (wo_correlative_text (fresh_year fr) (user_tenant u) db)) db = Inr db4"
      "link_fault (fresh_fault fr) (fresh_order fr) db4 = Inr db5"
      "db' = (if fd_criticality d = CR_HIGH
         then set_equipment (fd_equipment d) (\<lambda>x. x\<lparr>eq_operational := False\<rparr>) db5 else db5)"
    by (auto simp: criticality_rules_def and_then_eq_Inr)
  then show thesis using order create_work_order_InrD order_of_fault_fields by metis
qed

lemma fault_create_InrE:
  assumes "fault_create fr u d db = Inr db'"
  obtains e report db2 where "find_equipment (fd_equipment d) (user_tenant u) db = Some e"
    "fr_id report = fresh_fault fr" "fr_equipment report = fd_equipment d"
    "fr_tenant report = user_tenant u" "fr_criticality report = fd_criticality d"
    "fr_work_order report = None"
    "equipments db2 = equipments db" "meter_logs db2 = meter_logs db"
    "work_orders db2 = work_orders db" "fault_reports db2 = fault_reports db @ [report]"
    "criticality_rules fr u d e (advance_meter (user_tenant u) e (fd_meter d) SRC_FAULT_REPORT
        (Some (fresh_fault fr)) (acting_user_id u) (fresh_now fr) db2) = Inr db'"
proof -
  obtain e c where e: "find_equipment (fd_equipment d) (user_tenant u) db = Some e"
    and c: "or_null (eq_contract e) = Some c"
    using assms by (auto simp: fault_create_def split: option.splits)
  obtain corr db1 where corr: "getNextCorrelative (user_tenant u) FR_DOCUMENT_TYPE FR_PREFIX (Some 5) None db
      = (corr, db1)" by fastforce
  have frame: "equipments db1 = equipments db" "meter_logs db1 = meter_logs db"
    "work_orders db1 = work_orders db" "fault_reports db1 = fault_reports db"
    using correlative_ops_frame[of "user_tenant u" FR_DOCUMENT_TYPE FR_PREFIX "Some 5" None db] corr
    by simp_all
  obtain db2 where db2: "create_fault (report_of fr u d c corr) db1 = Inr db2"
    and rest: "criticality_rules fr u d e (advance_meter (user_tenant u) e (fd_meter d) SRC_FAULT_REPORT
        (Some (fresh_fault fr)) (acting_user_id u) (fresh_now fr) db2) = Inr db'"
    using assms by (auto simp: fault_create_def e c corr and_then_eq_Inr)
  from that[OF e _ _ _ _ _ _ _ _ _ rest, of "report_of fr u d c corr"]
    create_fault_InrD(1)[OF db2] frame show thesis
    by (simp add: report_of_def)
qed

definition fault_step :: "'a ops_db_scheme \<Rightarrow> 'a ops_db_scheme \<Rightarrow> bool" where
  "fault_step db db' \<longleftrightarrow> (\<exists>fr u d. fresh_fault fr \<notin> fr_id ` set (fault_reports db)
     \<and> fresh_order fr \<notin> wo_id ` set (work_orders db) \<and> fault_create fr u d db = Inr db')"

text \<open>What the rules of criticality do to the views: a calm change, then the stop.\<close>

lemma criticality_rules_calm:
  assumes "criticality_rules fr u d e db = Inr db'"
  obtains db1 where "calm db db1"
    "doc_refs db1 \<subseteq> insert (fd_equipment d, user_tenant u) (doc_refs db)"
    "doc_ids_ok db \<and> fresh_order fr \<notin> wo_id ` set (work_orders db) \<longrightarrow> doc_ids_ok db1"
    "db' = (if fd_criticality d = CR_HIGH
       then set_equipment (fd_equipment d) (\<lambda>x. x\<lparr>eq_operational := False\<rparr>) db1 else db1)"
proof (cases rule: criticality_rules_InrE[OF assms])
  case 1
  then show thesis by (intro that[of db]) auto
next
  case (2 w db1)
  from link_fault_InrD(1)[OF 2(4)] have db1: "db1 = set_fault (fresh_fault fr)
      (\<lambda>r. r\<lparr>fr_work_order := Some (fresh_order fr), fr_status := FR_LINKED\<rparr>)
      (db\<lparr>work_orders := work_orders db @ [w]\<rparr>)" .
  have "doc_refs db1 = doc_refs (db\<lparr>work_orders := work_orders db @ [w]\<rparr>)"
    unfolding db1 by (rule doc_refs_set_fault) simp_all
  then have refs: "doc_refs db1 \<subseteq> insert (fd_equipment d, user_tenant u) (doc_refs db)"
    using 2(2,3) by (auto simp: doc_refs_def)
  have "doc_ids_ok db1 = doc_ids_ok (db\<lparr>work_orders := work_orders db @ [w]\<rparr>)"
    unfolding db1 by (rule doc_ids_set_fault) simp_all
  then have ids: "doc_ids_ok db \<and> fresh_order fr \<notin> wo_id ` set (work_orders db) \<longrightarrow> doc_ids_ok db1"
    using 2(1) by (auto simp: doc_ids_ok_def)
  show thesis by (rule that[OF _ refs ids 2(5)]) (simp add: calm_def db1)
qed

lemma ops_ok_lower: "ops_ok db \<Longrightarrow> ops_ok (set_equipment i (\<lambda>x. x\<lparr>eq_operational := False\<rparr>) db)"
  by (rule ops_ok_set_equipment) simp_all

lemma fault_create_views:
  assumes ok: "ops_ok db" and fresh: "fresh_fault fr \<notin> fr_id ` set (fault_reports db)"
    "fresh_order fr \<notin> wo_id ` set (work_orders db)" and "fault_create fr u d db = Inr db'"
  shows "ops_ok db'" and "returns_free db db'"
proof -
  from assms(4) obtain e report db2 where e: "find_equipment (fd_equipment d) (user_tenant u) db = Some e"
    and report: "fr_id report = fresh_fault fr" "fr_equipment report = fd_equipment d"
      "fr_tenant report = user_tenant u"
    and frame: "equipments db2 = equipments db" "meter_logs db2 = meter_logs db"
      "work_orders db2 = work_orders db" "fault_reports db2 = fault_reports db @ [report]"
    and rules: "criticality_rules fr u d e (advance_meter (user_tenant u) e (fd_meter d)
        SRC_FAULT_REPORT (Some (fresh_fault fr)) (acting_user_id u) (fresh_now fr) db2) = Inr db'"
    by (rule fault_create_InrE)
  let ?db3 = "advance_meter (user_tenant u) e (fd_meter d) SRC_FAULT_REPORT (Some (fresh_fault fr))
    (acting_user_id u) (fresh_now fr) db2"
  have about: "(fd_equipment d, user_tenant u) \<in> eq_refs db"
    using find_equipment_SomeD[OF e] by (force simp: eq_refs_def)
  have refs2: "doc_refs db2 \<subseteq> eq_refs db"
    using ok about report by (auto simp: ops_ok_def doc_refs_def frame)
  have ids2: "doc_ids_ok db2"
    using ok fresh(1) report(1) by (auto simp: ops_ok_def doc_ids_ok_def frame)
  have ok3: "ops_ok ?db3"
    by (rule ops_ok_advance[OF ok frame(1,2) refs2 ids2]) (use find_equipment_SomeD[OF e] in simp)
  have flags3: "flag_view ?db3 = flag_view db"
    by (simp add: flag_view_cong[OF frame(1)])
  from rules obtain db4 where calm: "calm ?db3 db4"
    and refs4: "doc_refs db4 \<subseteq> insert (fd_equipment d, user_tenant u) (doc_refs ?db3)"
    and ids4: "doc_ids_ok ?db3 \<and> fresh_order fr \<notin> wo_id ` set (work_orders ?db3) \<longrightarrow> doc_ids_ok db4"
    and db': "db' = (if fd_criticality d = CR_HIGH
       then set_equipment (fd_equipment d) (\<lambda>x. x\<lparr>eq_operational := False\<rparr>) db4 else db4)"
    by (rule criticality_rules_calm)
  have same: "eq_refs ?db3 = eq_refs db"
    unfolding eq_refs_flags by (simp only: flags3)
  have ok4: "ops_ok db4"
    by (rule ops_ok_calm[OF ok3 calm])
       (use refs4 about ids4 fresh(2) ok3 same in \<open>auto simp: ops_ok_def frame\<close>)
  have flags4: "flag_view db4 = flag_view db" using calm flags3 by (simp add: calm_def)
  show "ops_ok db'" using ok4 ops_ok_lower[OF ok4] by (simp add: db')
  show "returns_free db db'"
    using returns_free_flags[OF ok flags4] returns_free_lower[OF ops_ok_distinct[OF ok] flags4]
    by (simp add: db')
qed

end
