(* ===== verification/Report_Services.thy ===== *)
theory Report_Services
  imports Equipment_Services
begin

text \<open>
  The interpretations of \<open>careful_service\<close> on the operations of \<open>Fault_Reports\<close> (registration and
  escalation) and \<open>Availability\<close> (the reports of a shift).
\<close>

section \<open>Fault reports\<close>

lemma fault_active_cong:
  "work_orders db' = work_orders db \<Longrightarrow> fault_active r db' = fault_active r db"
proof -
  assume "work_orders db' = work_orders db"
  then have "find_work_order w db' = find_work_order w db" for w by (simp add: find_work_order_def)
  then show ?thesis by (simp add: fault_active_def linked_order_open_def split: option.split)
qed

lemma update_rows_fresh: "v \<notin> k ` set xs \<Longrightarrow> update_rows (\<lambda>x. k x = v) f xs = xs"
  by (induction xs) auto

lemma in_update_rowsE:
  assumes "x \<in> set (update_rows p f xs)"
  obtains y where "y \<in> set xs" "x = (if p y then f y else y)"
proof -
  from assms have "x \<in> (\<lambda>r. if p r then f r else r) ` set xs" by (simp only: set_update_rows)
  then show thesis using that by (rule imageE)
qed

lemma stopped_lower [simp]: "stopped i (set_equipment i (\<lambda>x. x\<lparr>eq_operational := False\<rparr>) db)"
  unfolding stopped_def set_equipment_frame
proof (intro ballI impI)
  fix e assume e: "e \<in> set (update_rows (\<lambda>e. eq_id e = i) (\<lambda>x. x\<lparr>eq_operational := False\<rparr>) (equipments db))"
    and i: "eq_id e = i"
  from e obtain x where "x \<in> set (equipments db)"
    and x: "e = (if eq_id x = i then x\<lparr>eq_operational := False\<rparr> else x)"
    by (rule in_update_rowsE)
  show "\<not> eq_operational e"
  proof (cases "eq_id x = i")
    case True with x show ?thesis by simp
  next
    case False with x i show ?thesis by simp
  qed
qed

lemma fault_create_quiet:
  assumes fresh: "fresh_fault fr \<notin> fr_id ` set (fault_reports db)"
    and "fault_create fr u d db = Inr db'"
  shows "no_new_alarm db db'"
proof -
  from assms(2) obtain e report db2
    where report: "fr_id report = fresh_fault fr" "fr_equipment report = fd_equipment d"
      "fr_criticality report = fd_criticality d"
    and frame: "work_orders db2 = work_orders db" "fault_reports db2 = fault_reports db @ [report]"
    and rules: "criticality_rules fr u d e (advance_meter (user_tenant u) e (fd_meter d)
        SRC_FAULT_REPORT (Some (fresh_fault fr)) (acting_user_id u) (fresh_now fr) db2) = Inr db'"
    by (rule fault_create_InrE)
  show ?thesis
  proof (cases rule: criticality_rules_InrE[OF rules])
    case 1
    then have "fault_active r db' = fault_active r db" for r
      by (intro fault_active_cong) (simp add: frame)
    with 1 show ?thesis using report frame by (auto simp: no_new_alarm_def alarm_def)
  next
    case (2 w db4)
    let ?db3 = "advance_meter (user_tenant u) e (fd_meter d) SRC_FAULT_REPORT (Some (fresh_fault fr))
      (acting_user_id u) (fresh_now fr) db2"
    note link = link_fault_InrD[OF 2(4)]
    have faults: "fault_reports db' = fault_reports db @
        [report\<lparr>fr_work_order := Some (fresh_order fr), fr_status := FR_LINKED\<rparr>]"
      using 2(5) report(1) update_rows_fresh[OF fresh] by (simp add: link(1) frame update_rows_append)
    have orders: "work_orders db' = work_orders db @ [w]"
      using 2(5) by (simp add: link(1) frame)
    have same: "fault_active r db' = fault_active r db" if "r \<in> set (fault_reports db)" for r
    proof -
      have "fr_id r \<noteq> fresh_fault fr" using imageI[OF that, of fr_id] fresh by auto
      then have "fr_work_order r \<noteq> Some (wo_id w)"
        using link(2)[of r] that 2(1) by (simp add: frame)
      from linked_order_append[OF this orders] show ?thesis by (simp add: fault_active_def)
    qed
    have "alarm r db \<or> stopped (fr_equipment r) db'" if r: "alarm r db'" for r
    proof (cases "r \<in> set (fault_reports db)")
      case True
      with r same[OF True] show ?thesis by (simp add: alarm_def)
    next
      case False
      with r have "fr_equipment r = fd_equipment d" "fd_criticality d = CR_HIGH"
        using report by (auto simp: alarm_def faults)
      with 2(5) show ?thesis by simp
    qed
    then show ?thesis by (simp add: no_new_alarm_def)
  qed
qed

interpretation faults: careful_service fault_step
proof
  fix db db' :: "'a ops_db_scheme"
  assume ok: "ops_ok db" and "fault_step db db'"
  then obtain fr u d where *: "fresh_fault fr \<notin> fr_id ` set (fault_reports db)"
    "fresh_order fr \<notin> wo_id ` set (work_orders db)" "fault_create fr u d db = Inr db'"
    by (auto simp: fault_step_def)
  show "ops_ok db'" "returns_free db db'" by (rule fault_create_views[OF ok *])+
  show "no_new_alarm db db'" by (rule fault_create_quiet[OF *(1,3)])
qed

text \<open>The escalation of a minor fault: a new order and its link.\<close>

lemma escalation_InrE:
  assumes "createWorkOrderFromReport fr u i db = Inr db'"
  obtains r e w where "r \<in> set (fault_reports db)" "fr_id r = i" "fr_criticality r = CR_LOW"
    "e \<in> set (equipments db)" "eq_id e = fr_equipment r" "wo_id w = fresh_order fr" "fr_tenant r = user_tenant u"
    "wo_equipment w = fr_equipment r" "wo_tenant w = user_tenant u"
    "link_fault i (fresh_order fr) (db\<lparr>work_orders := work_orders db @ [w]\<rparr>) = Inr db'"
proof -
  obtain r where r: "find_row (\<lambda>r. fr_id r = i \<and> fr_tenant r = user_tenant u) (fault_reports db) = Some r"
    "fr_criticality r = CR_LOW"
    using assms by (auto simp: createWorkOrderFromReport_def split: option.splits if_splits)
  obtain e where e: "find_row (\<lambda>e. eq_id e = fr_equipment r) (equipments db) = Some e"
    using assms r by (auto simp: createWorkOrderFromReport_def split: option.splits if_splits)
  obtain w db1 where w: "create_work_order w db = Inr db1" "wo_id w = fresh_order fr"
    "wo_equipment w = fr_equipment r" "wo_tenant w = user_tenant u"
    and link: "link_fault (fr_id r) (fresh_order fr) db1 = Inr db'"
    using assms r e
    by (auto simp: createWorkOrderFromReport_def and_then_eq_Inr plain_order_def Let_def split: if_splits)
  show thesis
    using that[of r e w] find_row_SomeD[OF r(1)] find_row_SomeD[OF e] r(2) w link
      create_work_order_InrD[OF w(1)] by auto
qed

definition escalation_step :: "'a ops_db_scheme \<Rightarrow> 'a ops_db_scheme \<Rightarrow> bool" where
  "escalation_step db db' \<longleftrightarrow> (\<exists>fr u i. fresh_order fr \<notin> wo_id ` set (work_orders db)
     \<and> createWorkOrderFromReport fr u i db = Inr db')"

interpretation escalations: careful_service escalation_step
proof
  fix db db' :: "'a ops_db_scheme"
  assume ok: "ops_ok db" and "escalation_step db db'"
  then obtain fr u i where fresh: "fresh_order fr \<notin> wo_id ` set (work_orders db)"
    and "createWorkOrderFromReport fr u i db = Inr db'" by (auto simp: escalation_step_def)
  then obtain r w where r: "r \<in> set (fault_reports db)" "fr_id r = i" "fr_criticality r = CR_LOW"
    "fr_tenant r = user_tenant u"
    and w: "wo_id w = fresh_order fr" "wo_equipment w = fr_equipment r" "wo_tenant w = user_tenant u"
    and link: "link_fault i (fresh_order fr) (db\<lparr>work_orders := work_orders db @ [w]\<rparr>) = Inr db'"
    by (elim escalation_InrE) blast
  note l = link_fault_InrD[OF link]
  let ?f = "\<lambda>r. r\<lparr>fr_work_order := Some (fresh_order fr), fr_status := FR_LINKED\<rparr>"
  have orders: "work_orders db' = work_orders db @ [w]" by (simp add: l(1))
  have "doc_refs db' = doc_refs (db\<lparr>work_orders := work_orders db @ [w]\<rparr>)"
    unfolding l(1) by (rule doc_refs_set_fault) simp_all
  moreover have "(fr_equipment r, fr_tenant r) \<in> eq_refs db"
    using ok r(1) by (auto simp: ops_ok_def doc_refs_def)
  ultimately have refs: "doc_refs db' \<subseteq> eq_refs db"
    using ok w r(4) by (auto simp: ops_ok_def doc_refs_def)
  have "doc_ids_ok db' = doc_ids_ok (db\<lparr>work_orders := work_orders db @ [w]\<rparr>)"
    unfolding l(1) by (rule doc_ids_set_fault) simp_all
  then have ids: "doc_ids_ok db'"
    using ok fresh w(1) by (auto simp: ops_ok_def doc_ids_ok_def)
  have calm: "calm db db'" by (simp add: calm_def l(1))
  show "ops_ok db'" by (rule ops_ok_calm[OF ok calm refs ids])
  show "returns_free db db'" by (rule returns_free_calm[OF ok calm])
  have unique: "x = r" if "x \<in> set (fault_reports db)" "fr_id x = i" for x
    using ok that r(1,2) by (auto simp: ops_ok_def doc_ids_ok_def distinct_map inj_on_def)
  have "alarm x db" if x: "alarm x db'" for x
  proof -
    from x have "x \<in> set (update_rows (\<lambda>r. fr_id r = i) ?f (fault_reports db))"
      by (simp add: alarm_def l(1))
    then obtain y where y: "y \<in> set (fault_reports db)" "x = (if fr_id y = i then ?f y else y)"
      by (rule in_update_rowsE)
    have "fr_id y \<noteq> i"
      using unique[OF y(1)] y(2) r(3) x by (auto simp: alarm_def)
    with y have xy: "x = y" "fr_id x \<noteq> i" by simp_all
    then have "fr_work_order x \<noteq> Some (wo_id w)" using l(2)[of x] y(1) w(1) by simp
    from linked_order_append[OF this orders] x xy y(1) show ?thesis
      by (simp add: alarm_def fault_active_def)
  qed
  then show "no_new_alarm db db'" by (simp add: no_new_alarm_def)
qed

section \<open>Shift reports\<close>

lemma resolve_cong:
  assumes "fault_reports db' = fault_reports db" and "work_orders db' = work_orders db"
  shows "resolveReturnToService t i x db' = resolveReturnToService t i x db"
  using assms fault_active_cong[OF assms(2)]
  by (simp add: resolveReturnToService_def blocking_faults_def blocking_orders_def)

text \<open>A write of one equipment that raises its flag only where nothing blocks.\<close>

lemma returns_free_set:
  assumes ok: "ops_ok db" and flags: "flag_view db1 = flag_view db"
    and e: "e \<in> set (equipments db)" "eq_id e = i" "eq_tenant e = t"
    and f: "\<And>x. eq_id (f x) = eq_id x" "\<And>x. eq_tenant (f x) = eq_tenant x"
    and up: "\<And>x. eq_operational (f x) \<Longrightarrow>
      eq_operational x \<or> rt_allowed (resolveReturnToService t i None db1)"
  shows "returns_free db (set_equipment i f db1)"
proof (rule returns_freeI[OF ops_ok_distinct[OF ok]])
  fix e' assume e': "e' \<in> set (equipments (set_equipment i f db1))" and raised: "eq_operational e'"
  have old: "\<exists>x \<in> set (equipments db). eq_id x = eq_id y \<and> eq_tenant x = eq_tenant y
      \<and> eq_operational x = eq_operational y" if "y \<in> set (equipments db1)" for y
  proof -
    have "(eq_id y, eq_tenant y, eq_operational y) \<in> set (flag_view db1)"
      using that by (simp add: flag_view_def)
    then have "(eq_id y, eq_tenant y, eq_operational y) \<in> set (flag_view db)"
      by (simp only: flags)
    then show ?thesis by (auto simp: flag_view_def)
  qed
  from e' have "e' \<in> set (update_rows (\<lambda>e. eq_id e = i) f (equipments db1))" by simp
  then obtain y where y: "y \<in> set (equipments db1)" "e' = (if eq_id y = i then f y else y)"
    by (rule in_update_rowsE)
  obtain x where x: "x \<in> set (equipments db)" "eq_id x = eq_id y" "eq_tenant x = eq_tenant y"
    "eq_operational x = eq_operational y" using old[OF y(1)] by blast
  show "(\<exists>e \<in> set (equipments db). eq_id e = eq_id e' \<and> eq_operational e)
      \<or> eq_id e' \<notin> set (equipment_ids db) \<or> free_to_return e' (set_equipment i f db1)"
  proof (cases "eq_id y = i \<and> \<not> eq_operational y")
    case True
    then have "rt_allowed (resolveReturnToService t i None db1)"
      using up[of y] raised y(2) by simp
    moreover have "x = e" using equipment_unique[OF ops_ok_distinct[OF ok] x(1) e(1)] x(2) e(2) True by simp
    ultimately have "free_to_return e' (set_equipment i f db1)"
      using True y(2) x(3) e f
        resolve_cong[of "set_equipment i f db1" db1 t i None]
      by (simp add: free_to_return_def)
    then show ?thesis by blast
  next
    case False
    then have "eq_id e' = eq_id x" "eq_operational x"
      using y(2) x f raised by (auto split: if_splits)
    with x(1) show ?thesis by metis
  qed
qed

lemma status_change_InrE:
  assumes "onOperationalStatusChange now inp db = Inr (t, db')"
  obtains (stop) e db1 stub where "find_equipment (ti_equipment inp) (ti_tenant inp) db = Some e"
      "isStopStatus (ti_new inp)" "equipments db1 = equipments db" "meter_logs db1 = meter_logs db"
      "work_orders db1 = work_orders db"
      "fault_reports db1 = fault_reports db \<or> fr_id stub = ti_fault_id inp
        \<and> fr_equipment stub = ti_equipment inp \<and> fr_tenant stub = ti_tenant inp
        \<and> fr_criticality stub = CR_LOW \<and> fault_reports db1 = fault_reports db @ [stub]"
      "db' = set_equipment (ti_equipment inp) (\<lambda>x. x\<lparr>eq_operational := False\<rparr>) db1"
  | (kept) "db' = db"
  | (raised) "rt_allowed (return_decision_of inp db)" "ti_new inp = OPERATIONAL"
      "\<exists>p. ti_previous inp = Some p \<and> isStopStatus p"
      "db' = set_equipment (ti_equipment inp) (\<lambda>x. x\<lparr>eq_operational := True\<rparr>) db"
proof -
  obtain e where e: "find_equipment (ti_equipment inp) (ti_tenant inp) db = Some e"
    using assms by (auto simp: onOperationalStatusChange_def split: option.splits)
  show thesis
  proof (cases "isStopStatus (ti_new inp)")
    case False
    then have "db' = db \<or> (rt_allowed (return_decision_of inp db) \<and> ti_new inp = OPERATIONAL
        \<and> (\<exists>p. ti_previous inp = Some p \<and> isStopStatus p)
        \<and> db' = set_equipment (ti_equipment inp) (\<lambda>x. x\<lparr>eq_operational := True\<rparr>) db)"
      using assms e
      by (auto simp: onOperationalStatusChange_def Let_def split: if_splits option.splits)
    then show thesis using kept raised by metis
  next
    case True
    with assms e have a: "applyStopTransition now inp e db = Inr (t, db')"
      by (simp add: onOperationalStatusChange_def)
    show thesis
    proof (cases "findActiveFaultReport (ti_tenant inp) (ti_equipment inp) db \<noteq> None
        \<or> or_null (eq_contract e) = None")
      case True
      with a have "db' = set_equipment (ti_equipment inp) (\<lambda>x. x\<lparr>eq_operational := False\<rparr>) db"
        by (cases "findActiveFaultReport (ti_tenant inp) (ti_equipment inp) db")
           (auto simp: applyStopTransition_def Let_def)
      then show thesis using stop[OF e \<open>isStopStatus (ti_new inp)\<close>, of db] by simp
    next
      case False
      then obtain c where none: "findActiveFaultReport (ti_tenant inp) (ti_equipment inp) db = None"
        "or_null (eq_contract e) = Some c" by auto
      obtain corr db1 where n: "getNextCorrelative (ti_tenant inp) FR_DOCUMENT_TYPE FR_PREFIX (Some 5)
          None db = (corr, db1)" by fastforce
      let ?stub = "\<lparr>fr_id = ti_fault_id inp, fr_tenant = ti_tenant inp, fr_contract = c,
         fr_equipment = ti_equipment inp, fr_by = ti_by inp, fr_correlative = corr,
         fr_event_date = resolveEventDate now (ti_report_time inp), fr_meter = ti_meter inp,
         fr_system = MOTOR, fr_criticality = CR_LOW,
         fr_symptom = buildStubSymptom (ti_comments inp) (ti_new inp) (ti_report_date inp),
         fr_status = FR_OPEN, fr_work_order = None\<rparr>"
      have "and_then (create_fault ?stub db1) (\<lambda>db2. Inr (stop_result inp (Some ?stub) True None,
          set_equipment (ti_equipment inp) (\<lambda>x. x\<lparr>eq_operational := False\<rparr>) db2)) = Inr (t, db')"
        using a none n by (simp add: applyStopTransition_def Let_def)
      then obtain db2 where c: "create_fault ?stub db1 = Inr db2"
        and d: "db' = set_equipment (ti_equipment inp) (\<lambda>x. x\<lparr>eq_operational := False\<rparr>) db2"
        unfolding and_then_eq_Inr by blast
      have frame: "equipments db1 = equipments db" "meter_logs db1 = meter_logs db"
        "work_orders db1 = work_orders db" "fault_reports db1 = fault_reports db"
        using correlative_ops_frame[of "ti_tenant inp" FR_DOCUMENT_TYPE FR_PREFIX "Some 5" None db] n
        by simp_all
      show thesis
        using stop[OF e \<open>isStopStatus (ti_new inp)\<close>, of db2 ?stub] create_fault_InrD(1)[OF c] d frame
        by simp
    qed
  qed
qed

text \<open>What a shift report does after its row is written.\<close>

lemma register_frame:
  assumes "register i now inp db = Inr db'"
  shows "equipments db' = equipments db" "meter_logs db' = meter_logs db"
    "work_orders db' = work_orders db" "fault_reports db' = fault_reports db"
  using assms by (auto simp: register_def and_then_eq_Inr Let_def)

lemma validate_return_InrD:
  assumes "validate_return t i st prev db = Inr d" and "st = OPERATIONAL"
    and "prev = Some p" "isStopStatus p"
  shows "d = Some (resolveReturnToService t i None db)" "rt_allowed (resolveReturnToService t i None db)"
  using assms by (auto simp: validate_return_def Let_def split: if_splits)

lemma after_report_ok:
  fixes db db0 db' :: "'a ops_db_scheme"
  assumes ok: "ops_ok db" and frame: "equipments db0 = equipments db" "meter_logs db0 = meter_logs db"
      "work_orders db0 = work_orders db" "fault_reports db0 = fault_reports db"
    and e: "find_equipment (ar_equipment row) (user_tenant u) db = Some e"
    and valid: "validate_return (user_tenant u) (ar_equipment row) (ar_status row) prev db = Inr d"
    and fresh: "id_fault ids \<notin> fr_id ` set (fault_reports db)"
    and after: "after_report ids now u dt dms row e rid prev evat d db0 = Inr (t, db')"
  shows "ops_ok db' \<and> returns_free db db' \<and> no_new_alarm db db'"
proof -
  let ?i = "ar_equipment row" and ?t = "user_tenant u"
  note found = find_equipment_SomeD[OF e]
  from after obtain db1 where reg: "register (id_event ids) now
       \<lparr>ei_tenant = ?t, ei_availability = Some rid, ei_fault = None, ei_equipment = ?i,
        ei_by = Some (acting_user_id u), ei_status = ar_status row, ei_previous = prev,
        ei_meter = ar_meter row, ei_comments = ar_comments row, ei_at = evat,
        ei_source = Some EV_MANUAL\<rparr> db0 = Inr db1"
    and change: "onOperationalStatusChange now
       \<lparr>ti_tenant = ?t, ti_equipment = ?i, ti_new = ar_status row, ti_previous = prev,
        ti_meter = ar_meter row, ti_comments = ar_comments row, ti_report_date = dt,
        ti_report_time = Some dms, ti_by = acting_user_id u, ti_decision = d,
        ti_fault_id = id_fault ids\<rparr>
       (advance_meter ?t e (ar_meter row) SRC_AVAILABILITY_REPORT (Some rid) (acting_user_id u) now db1)
       = Inr (t, db')"
    unfolding after_report_def and_then_eq_Inr by blast
  let ?db2 = "advance_meter ?t e (ar_meter row) SRC_AVAILABILITY_REPORT (Some rid) (acting_user_id u) now db1"
  note f1 = register_frame[OF reg, unfolded frame]
  have docs: "doc_refs db1 = doc_refs db" "doc_ids_ok db1 = doc_ids_ok db"
    using f1 by (simp_all add: doc_refs_def doc_ids_ok_def)
  have ok2: "ops_ok ?db2"
    by (rule ops_ok_advance[OF ok f1(1,2)]) (use docs ok found in \<open>auto simp: ops_ok_def\<close>)
  have flags2: "flag_view ?db2 = flag_view db" by (simp add: flag_view_cong[OF f1(1)])
  have docs2: "work_orders ?db2 = work_orders db" "fault_reports ?db2 = fault_reports db"
    using f1 by simp_all
  show ?thesis
  proof (cases rule: status_change_InrE[OF change])
    case (1 e' db3 stub)
    have about: "(?i, ?t) \<in> eq_refs db" using found by (force simp: eq_refs_def)
    have flags3: "flag_view db3 = flag_view db" using flags2 flag_view_cong[OF 1(3)] by simp
    have same: "eq_refs ?db2 = eq_refs db" unfolding eq_refs_flags by (simp only: flags2)
    have "doc_refs db \<subseteq> eq_refs db" "doc_ids_ok db" using ok by (simp_all add: ops_ok_def)
    then have refs3: "doc_refs db3 \<subseteq> eq_refs ?db2" "doc_ids_ok db3"
      unfolding same using 1(5,6) about fresh docs2
      by (auto simp: doc_refs_def doc_ids_ok_def image_subset_iff)
    have "ops_ok db3" by (rule ops_ok_calm[OF ok2 calmI[OF 1(3,4)] refs3])
    moreover have "alarm r db" if "alarm r db3" for r
      using that 1(5,6) fault_active_cong[of db3 db r] docs2 by (auto simp: alarm_def)
    ultimately show ?thesis
      using ops_ok_lower returns_free_lower[OF ops_ok_distinct[OF ok] flags3] 1(7)
      by (simp add: no_new_alarm_def alarm_def fault_active_cong[of "set_equipment _ _ db3" db3])
  next
    case 2
    then show ?thesis
      using ok2 returns_free_flags[OF ok flags2] no_new_alarm_same[OF docs2(2,1)] by simp
  next
    case 3
    then obtain p where p: "prev = Some p" "isStopStatus p" by auto
    note v = validate_return_InrD[OF valid _ p]
    have "rt_allowed (resolveReturnToService ?t ?i None ?db2)"
      using v(2) 3(2) resolve_cong[OF docs2(2,1)] by simp
    then have "returns_free db db'"
      unfolding 3(4) using found
      by (intro returns_free_set[OF ok flags2, where e = e and t = "user_tenant u"]) simp_all
    moreover have "ops_ok db'"
      unfolding 3(4) by (rule ops_ok_set_equipment[OF ok2]) simp_all
    moreover have "no_new_alarm db db'"
      by (rule no_new_alarm_same) (simp_all add: 3(4) f1)
    ultimately show ?thesis by simp
  qed
qed

definition report_step :: "'a ops_db_scheme \<Rightarrow> 'a ops_db_scheme \<Rightarrow> bool" where
  "report_step db db' \<longleftrightarrow> (\<exists>ids now u dt dms row t. id_fault ids \<notin> fr_id ` set (fault_reports db)
     \<and> ((\<exists>s. availability_create ids now u dt dms s row db = Inr (t, db'))
        \<or> (\<exists>s. upsertRow ids now u dt dms s row db = Inr (t, db'))))"

lemma if_Inl_eq_Inr: "(if c then Inl a else m) = Inr x \<longleftrightarrow> \<not> c \<and> m = Inr x"
  by simp

text \<open>Both reports validate the return, write their row and go on with \<open>after_report\<close>.\<close>

lemma report_stepE:
  assumes "report_step db db'"
  obtains ids now u dt dms row t rows e d prev rid evat
  where "id_fault ids \<notin> fr_id ` set (fault_reports db)"
    "find_equipment (ar_equipment row) (user_tenant u) db = Some e"
    "validate_return (user_tenant u) (ar_equipment row) (ar_status row) prev db = Inr d"
    "after_report ids now u dt dms row e rid prev evat d (db\<lparr>availabilities := rows\<rparr>) = Inr (t, db')"
proof -
  obtain ids now u dt dms row t where fresh: "id_fault ids \<notin> fr_id ` set (fault_reports db)"
    and s: "(\<exists>s. availability_create ids now u dt dms s row db = Inr (t, db'))
        \<or> (\<exists>s. upsertRow ids now u dt dms s row db = Inr (t, db'))"
    using assms unfolding report_step_def by blast
  obtain e where e: "find_equipment (ar_equipment row) (user_tenant u) db = Some e"
    using s by (auto simp: availability_create_def upsertRow_def Let_def split: option.splits)
  have "\<exists>prev d rid evat rows. validate_return (user_tenant u) (ar_equipment row) (ar_status row) prev db = Inr d
     \<and> after_report ids now u dt dms row e rid prev evat d (db\<lparr>availabilities := rows\<rparr>) = Inr (t, db')"
    using s
  proof (elim disjE exE)
    fix s assume "availability_create ids now u dt dms s row db = Inr (t, db')"
    then show ?thesis
      unfolding availability_create_def Let_def e option.case and_then_eq_Inr if_Inl_eq_Inr by blast
  next
    fix s assume "upsertRow ids now u dt dms s row db = Inr (t, db')"
    then show ?thesis
      unfolding upsertRow_def Let_def e option.case and_then_eq_Inr by blast
  qed
  then show thesis using that[OF fresh e] by blast
qed

interpretation reports: careful_service report_step
proof
  fix db db' :: "'a ops_db_scheme"
  assume ok: "ops_ok db" and "report_step db db'"
  then obtain ids now u dt dms row t rows e d prev rid evat
  where *: "id_fault ids \<notin> fr_id ` set (fault_reports db)"
    "find_equipment (ar_equipment row) (user_tenant u) db = Some e"
    "validate_return (user_tenant u) (ar_equipment row) (ar_status row) prev db = Inr d"
    and a: "after_report ids now u dt dms row e rid prev evat d (db\<lparr>availabilities := rows\<rparr>) = Inr (t, db')"
    by (elim report_stepE)
  have "ops_ok db' \<and> returns_free db db' \<and> no_new_alarm db db'"
    by (rule after_report_ok[OF ok _ _ _ _ *(2,3,1) a]) simp_all
  then show "ops_ok db'" "returns_free db db'" "no_new_alarm db db'" by blast+
qed

end
