(* ===== verification/Order_Services.thy ===== *)
theory Order_Services
  imports Report_Services
begin

text \<open>
  The interpretations of \<open>equipment_service\<close> and \<open>careful_service\<close> on the operations of
  \<open>Work_Orders\<close> and \<open>Lube_Reports\<close>: a step is \<open>doc_quiet\<close> when it changes neither meters nor flags nor
  what the causes of a stop read of the documents.
\<close>

section \<open>Quiet steps\<close>

definition doc_view :: "'a ops_db_scheme \<Rightarrow> (id \<times> id \<times> id \<times> ot_status) list \<times> fault_report list" where
  "doc_view db =
     (map (\<lambda>w. (wo_id w, wo_tenant w, wo_equipment w, wo_status w)) (work_orders db), fault_reports db)"

definition doc_quiet :: "'a ops_db_scheme \<Rightarrow> 'a ops_db_scheme \<Rightarrow> bool" where
  "doc_quiet db db' \<longleftrightarrow> calm db db' \<and> doc_view db' = doc_view db"

lemma doc_quiet_refl [simp]: "doc_quiet db db"
  by (simp add: doc_quiet_def)

lemma doc_quiet_trans: "doc_quiet a b \<Longrightarrow> doc_quiet b c \<Longrightarrow> doc_quiet a c"
  unfolding doc_quiet_def using calm_trans by metis

lemma doc_quietI:
  "equipments db' = equipments db \<Longrightarrow> meter_logs db' = meter_logs db \<Longrightarrow>
   work_orders db' = work_orders db \<Longrightarrow> fault_reports db' = fault_reports db \<Longrightarrow> doc_quiet db db'"
  by (simp add: doc_quiet_def doc_view_def calmI)

lemma doc_quiet_set_work_order:
  assumes "\<And>w. wo_id (f w) = wo_id w" "\<And>w. wo_tenant (f w) = wo_tenant w"
    and "\<And>w. wo_equipment (f w) = wo_equipment w" "\<And>w. wo_status (f w) = wo_status w"
  shows "doc_quiet db (set_work_order i f db)"
proof -
  have "doc_view (set_work_order i f db) = doc_view db"
    by (simp add: doc_view_def update_rows_def comp_def if_distrib assms cong: if_cong)
  then show ?thesis by (simp add: doc_quiet_def calm_def)
qed

text \<open>What the document view determines.\<close>

definition open_ids :: "'a ops_db_scheme \<Rightarrow> id \<Rightarrow> bool" where
  "open_ids db i \<longleftrightarrow>
     (case find_work_order i db of None \<Rightarrow> False | Some w \<Rightarrow> wo_status w \<noteq> OT_CLOSED)"

lemma open_ids_view:
  "open_ids db i \<longleftrightarrow>
     (case find_row (\<lambda>k. fst k = i) (fst (doc_view db)) of None \<Rightarrow> False
      | Some (_, _, _, st) \<Rightarrow> st \<noteq> OT_CLOSED)"
proof -
  have "find_row (\<lambda>k. fst k = i) (map (\<lambda>w. (wo_id w, wo_tenant w, wo_equipment w, wo_status w)) ws)
      = map_option (\<lambda>w. (wo_id w, wo_tenant w, wo_equipment w, wo_status w))
          (find_row (\<lambda>w. wo_id w = i) ws)" for ws :: "work_order list"
    by (induction ws) auto
  from this[of "work_orders db"] show ?thesis
    by (cases "find_row (\<lambda>w. wo_id w = i) (work_orders db)")
       (simp_all add: open_ids_def doc_view_def find_work_order_def)
qed

lemma fault_active_open:
  "fault_active r db \<longleftrightarrow> fr_status r = FR_OPEN
     \<or> fr_status r = FR_LINKED \<and> (fr_work_order r = None \<or> (\<exists>w. fr_work_order r = Some w \<and> open_ids db w))"
  by (auto simp: fault_active_def linked_order_open_def open_ids_def split: option.splits)

lemma no_new_alarm_mono:
  assumes "fault_reports db' = fault_reports db" and "\<And>i. open_ids db' i \<Longrightarrow> open_ids db i"
  shows "no_new_alarm db db'"
  using assms by (auto simp: no_new_alarm_def alarm_def fault_active_open)

lemma doc_view_refs:
  fixes db db' :: "'a ops_db_scheme"
  assumes "doc_view db' = doc_view db"
  shows "doc_refs db' = doc_refs db" "doc_ids_ok db' = doc_ids_ok db"
proof -
  have r: "doc_refs x = (\<lambda>(i, t, e, st). (e, t)) ` set (fst (doc_view x))
      \<union> (\<lambda>r. (fr_equipment r, fr_tenant r)) ` set (snd (doc_view x))" for x :: "'a ops_db_scheme"
    by (simp add: doc_refs_def doc_view_def image_image)
  have i: "doc_ids_ok x \<longleftrightarrow> distinct (map fst (fst (doc_view x)))
      \<and> distinct (map fr_id (snd (doc_view x)))" for x :: "'a ops_db_scheme"
    by (simp add: doc_ids_ok_def doc_view_def comp_def)
  show "doc_refs db' = doc_refs db" unfolding r assms ..
  show "doc_ids_ok db' = doc_ids_ok db" unfolding i assms ..
qed

lemma doc_quiet_ok:
  assumes ok: "ops_ok db" and q: "doc_quiet db db'"
  shows "ops_ok db'"
proof (rule ops_ok_calm[OF ok])
  show "calm db db'" using q by (simp add: doc_quiet_def)
  have view: "doc_view db' = doc_view db" using q by (simp add: doc_quiet_def)
  with doc_view_refs[OF view]
  have "doc_refs db' = doc_refs db" "doc_ids_ok db' = doc_ids_ok db" by simp_all
  with ok show "doc_refs db' \<subseteq> eq_refs db" "doc_ids_ok db'" by (simp_all add: ops_ok_def)
qed

lemma doc_quiet_flags: "doc_quiet db db' \<Longrightarrow> flag_view db' = flag_view db"
  by (simp add: doc_quiet_def calm_def)

lemma doc_quiet_faults: "doc_quiet db db' \<Longrightarrow> fault_reports db' = fault_reports db"
  by (simp add: doc_quiet_def doc_view_def)

lemma doc_quiet_open: "doc_quiet db db' \<Longrightarrow> open_ids db' i = open_ids db i"
  by (simp add: doc_quiet_def open_ids_view)

lemma doc_quiet_alarms: "doc_quiet db db' \<Longrightarrow> no_new_alarm db db'"
  by (rule no_new_alarm_mono) (simp_all add: doc_quiet_faults doc_quiet_open)

text \<open>The movements of stock change no document.\<close>

lemma more_frame:
  assumes "inv_db.more db' = inv_db.more db"
  shows "equipments db' = equipments db" "meter_logs db' = meter_logs db"
    "work_orders db' = work_orders db" "fault_reports db' = fault_reports db"
    "reservations db' = reservations db" "lube_reports db' = lube_reports db"
    "asset_costs db' = asset_costs db"
  using assms by (cases db; cases db'; simp)+

lemma core_doc_frame:
  assumes "performTransactionCore rnd4 dto u db = Inr db'"
  shows "inv_db.more db' = inv_db.more db"
  using assms by (rule core_InrE) simp

lemma core_quiet:
  assumes "performTransactionCore rnd4 dto u db = Inr db'"
  shows "doc_quiet db db'"
  using more_frame[OF core_doc_frame[OF assms]] by (simp add: doc_quietI)

lemma create_asset_cost_quiet:
  "create_asset_cost c db = Inr db' \<Longrightarrow> doc_quiet db db'"
  by (auto simp: create_asset_cost_def split: if_splits intro!: doc_quietI)

section \<open>Creation and change of an order\<close>

lemma wrap_errors_Inr [simp]: "wrap_errors p m r = Inr x \<longleftrightarrow> r = Inr x"
  by (auto simp: wrap_errors_def split: sum.splits http_error.splits if_splits)

lemma reserve_parts_quiet: "reserve_parts i w ls db = Inr db' \<Longrightarrow> doc_quiet db db'"
  by (auto simp: reserve_parts_def split: option.splits if_splits intro!: doc_quietI)

lemma wo_create_InrE:
  assumes "wo_create active ids u d db = Inr db'"
  obtains e w where "e \<in> set (equipments db)" "eq_id e = wo_equipment w" "eq_tenant e = wo_tenant w"
    "wo_id w = no_id ids" "wo_tenant w = user_tenant u" "doc_quiet (db\<lparr>work_orders := work_orders db @ [w]\<rparr>) db'"
proof -
  obtain e where e: "find_equipment (wd_equipment d) (user_tenant u) db = Some e"
    using assms by (auto simp: wo_create_def split: option.splits)
  obtain imp ini db1 where w: "create_work_order (new_order ids u d e
              (wo_correlative_text (no_year ids) (user_tenant u) db) imp ini) db = Inr db1"
    and r: "reserve_parts (no_id ids) (wd_warehouse d) (list_of (wd_parts d)) db1 = Inr db'"
    using assms unfolding wo_create_def e option.case wrap_errors_Inr and_then_eq_Inr
    by (auto simp: and_then_eq_Inr)
  show thesis
    using that[of e, OF _ _ _ _ _ reserve_parts_quiet[OF r[unfolded create_work_order_InrD[OF w]]]]
      find_equipment_SomeD[OF e]
    by (simp add: new_order_def plain_order_def Let_def)
qed

text \<open>
  The id of a new order is new for the orders, and no fault is linked to it (a foreign key).
\<close>

definition fresh_order_id :: "id \<Rightarrow> 'a ops_db_scheme \<Rightarrow> bool" where
  "fresh_order_id i db \<longleftrightarrow> i \<notin> wo_id ` set (work_orders db)
     \<and> (\<forall>r \<in> set (fault_reports db). fr_work_order r \<noteq> Some i)"

definition order_creation_step :: "'a ops_db_scheme \<Rightarrow> 'a ops_db_scheme \<Rightarrow> bool" where
  "order_creation_step db db' \<longleftrightarrow> (\<exists>active ids u d. fresh_order_id (no_id ids) db
     \<and> wo_create active ids u d db = Inr db')"

interpretation order_creations: careful_service order_creation_step
proof
  fix db db' :: "'a ops_db_scheme"
  assume ok: "ops_ok db" and "order_creation_step db db'"
  then obtain active ids u d where fresh: "fresh_order_id (no_id ids) db"
    and "wo_create active ids u d db = Inr db'" by (auto simp: order_creation_step_def)
  then obtain e w where e: "e \<in> set (equipments db)" "eq_id e = wo_equipment w" "eq_tenant e = wo_tenant w"
    and w: "wo_id w = no_id ids" and q: "doc_quiet (db\<lparr>work_orders := work_orders db @ [w]\<rparr>) db'"
    by (elim wo_create_InrE) blast
  let ?db1 = "db\<lparr>work_orders := work_orders db @ [w]\<rparr>"
  have about: "(wo_equipment w, wo_tenant w) \<in> eq_refs db"
    using e by (auto simp: eq_refs_def intro: rev_image_eqI)
  have "ops_ok ?db1"
    by (rule ops_ok_calm[OF ok])
       (use ok about fresh w in \<open>auto simp: calm_def ops_ok_def doc_refs_def doc_ids_ok_def fresh_order_id_def\<close>)
  then show "ops_ok db'" using q by (rule doc_quiet_ok)
  show "returns_free db db'"
    using doc_quiet_flags[OF q] by (intro returns_free_flags[OF ok]) simp
  have "fault_active r db' = fault_active r db" if "r \<in> set (fault_reports db)" for r
  proof -
    have "fault_active r db' = fault_active r ?db1"
      by (simp add: fault_active_open doc_quiet_open[OF q])
    moreover have "linked_order_open r ?db1 = linked_order_open r db"
      by (rule linked_order_append[of _ w]) (use that fresh w in \<open>auto simp: fresh_order_id_def\<close>)
    ultimately show ?thesis by (simp add: fault_active_def)
  qed
  then show "no_new_alarm db db'"
    using doc_quiet_faults[OF q] by (auto simp: no_new_alarm_def alarm_def)
qed

text \<open>A change of an order keeps its identity and its status.\<close>

lemma patch_order_fields [simp]:
  "wo_id (patch_order p w) = wo_id w" "wo_tenant (patch_order p w) = wo_tenant w"
  "wo_equipment (patch_order p w) = wo_equipment w" "wo_status (patch_order p w) = wo_status w"
  by (simp_all add: patch_order_def Let_def)

lemma doc_quiet_reservations: "doc_quiet db (db\<lparr>reservations := x\<rparr>)"
  by (rule doc_quietI) simp_all

lemma wo_update_quiet:
  assumes "wo_update active ids u i p site db = Inr db'"
  shows "doc_quiet db db'"
proof -
  let ?db1 = "set_work_order i (patch_order p) db"
  obtain w where w: "workOrderAccess u i site db = Some w"
    using assms by (auto simp: wo_update_def split: option.splits)
  from assms obtain db2 where fluids: "(case wu_fluids p of None \<Rightarrow> Inr ?db1
       | Some ls \<Rightarrow> and_then (for_each (check_line (user_tenant u) db) ls ()) (\<lambda>_.
           Inr (set_work_order i (\<lambda>x. x\<lparr>wo_fluids := fluids_of ls\<rparr>) ?db1))) = Inr db2"
    and parts: "(case wu_parts p of None \<Rightarrow> Inr db2
       | Some ls \<Rightarrow> and_then (for_each (check_line (user_tenant u) db) ls ()) (\<lambda>_.
           reserve_parts i (wo_warehouse (patch_order p w)) ls
             (set_work_order i (\<lambda>x. x\<lparr>wo_parts := parts_of (no_part ids) ls\<rparr>)
               (db2\<lparr>reservations := filter (\<lambda>r. sr_work_order r \<noteq> i) (reservations db2)\<rparr>)))) = Inr db'"
    unfolding wo_update_def w option.case and_then_eq_Inr wrap_errors_Inr if_Inl_eq_Inr Let_def by blast
  have "doc_quiet db ?db1" by (rule doc_quiet_set_work_order) simp_all
  moreover have "doc_quiet ?db1 db2"
    using fluids by (auto simp: and_then_eq_Inr split: option.splits intro: doc_quiet_set_work_order)
  moreover have "doc_quiet db2 db'"
  proof (cases "wu_parts p")
    case None
    with parts show ?thesis by simp
  next
    case (Some ls)
    let ?f = "\<lambda>x. x\<lparr>wo_parts := parts_of (no_part ids) ls\<rparr>"
    let ?db3 = "db2\<lparr>reservations := filter (\<lambda>r. sr_work_order r \<noteq> i) (reservations db2)\<rparr>"
    from parts Some have "doc_quiet (set_work_order i ?f ?db3) db'"
      by (auto simp: and_then_eq_Inr intro: reserve_parts_quiet)
    moreover have "doc_quiet ?db3 (set_work_order i ?f ?db3)"
      by (rule doc_quiet_set_work_order) simp_all
    ultimately show ?thesis using doc_quiet_reservations doc_quiet_trans by metis
  qed
  ultimately show ?thesis using doc_quiet_trans by metis
qed

section \<open>The backlog\<close>

lemma promoted_form_fails: "check_form (promoted_dto w e text) \<noteq> Inr x"
proof -
  have "list_of (wd_systems (promoted_dto w e text)) = []"
    by (simp add: promoted_dto_def Let_def list_of_def)
  then show ?thesis by (simp add: check_form_def split: option.split)
qed

lemma promotion_to_order_fails [simp]:
  "wo_create active ids u (promoted_dto w e text) db \<noteq> Inr db'"
proof
  assume "wo_create active ids u (promoted_dto w e text) db = Inr db'"
  then obtain x where "check_form (promoted_dto w e text) = Inr x"
    by (auto simp: wo_create_def and_then_eq_Inr split: option.splits)
  then show False using promoted_form_fails by blast
qed

definition backlog_step :: "'a ops_db_scheme \<Rightarrow> 'a ops_db_scheme \<Rightarrow> bool" where
  "backlog_step db db' \<longleftrightarrow>
     (\<exists>active ids u i p site. wo_update active ids u i p site db = Inr db')
     \<or> (\<exists>n u i t site. addBacklogItem n u i t site db = Inr db')
     \<or> (\<exists>u i x st site. patchBacklogItem u i x st site db = Inr db')
     \<or> (\<exists>active ids u i x mode site. promoteBacklogItem active ids u i x mode site db = Inr db')
     \<or> (\<exists>f u i att. uploadAttachment f u i att db = Inr db')"

lemma doc_quiet_backlog: "doc_quiet db (db\<lparr>backlog := x\<rparr>)"
  by (rule doc_quietI) simp_all

lemma promote_quiet:
  assumes "promoteBacklogItem active ids u i x mode site db = Inr db'"
  shows "doc_quiet db db'"
proof (cases mode)
  case TO_TASK
  with assms obtain f where "db' = set_backlog_status x BL_DONE (set_work_order i f db)"
    and f: "\<And>w. wo_id (f w) = wo_id w" "\<And>w. wo_tenant (f w) = wo_tenant w"
      "\<And>w. wo_equipment (f w) = wo_equipment w" "\<And>w. wo_status (f w) = wo_status w"
    by (auto simp: promoteBacklogItem_def Let_def split: option.splits if_splits)
  then show ?thesis
    using doc_quiet_trans[OF doc_quiet_set_work_order[of f db i, OF f] doc_quiet_backlog]
    by (simp add: set_backlog_status_def)
next
  case TO_NEW_OT
  with assms show ?thesis
    by (auto simp: promoteBacklogItem_def Let_def and_then_eq_Inr split: option.splits if_splits)
qed

lemma backlog_step_quiet:
  assumes "backlog_step db db'"
  shows "doc_quiet db db'"
  using assms unfolding backlog_step_def
proof (elim disjE exE)
  fix active ids u i p site assume "wo_update active ids u i p site db = Inr db'"
  then show ?thesis by (rule wo_update_quiet)
next
  fix n u i t site assume "addBacklogItem n u i t site db = Inr db'"
  then obtain x where "db' = set_work_order i (\<lambda>x. x\<lparr>wo_has_backlog := True\<rparr>) (db\<lparr>backlog := x\<rparr>)"
    by (auto simp: addBacklogItem_def split: if_splits option.splits)
  moreover have "doc_quiet (db\<lparr>backlog := x\<rparr>) (set_work_order i (\<lambda>x. x\<lparr>wo_has_backlog := True\<rparr>) (db\<lparr>backlog := x\<rparr>))"
    for x by (rule doc_quiet_set_work_order) simp_all
  ultimately show ?thesis using doc_quiet_trans[OF doc_quiet_backlog] by metis
next
  fix u i x st site assume "patchBacklogItem u i x st site db = Inr db'"
  then show ?thesis
    by (auto simp: patchBacklogItem_def set_backlog_status_def doc_quiet_backlog split: if_splits)
next
  fix active ids u i x mode site assume "promoteBacklogItem active ids u i x mode site db = Inr db'"
  then show ?thesis by (rule promote_quiet)
next
  fix f u i att assume "uploadAttachment f u i att db = Inr db'"
  then show ?thesis by (auto simp: uploadAttachment_def split: if_splits intro!: doc_quietI)
qed

interpretation backlogs: careful_service backlog_step
  by unfold_locales
     (auto dest!: backlog_step_quiet intro: doc_quiet_ok doc_quiet_alarms returns_free_flags doc_quiet_flags)

section \<open>The status of an order\<close>

lemma workOrderAccess_SomeD:
  "workOrderAccess u i site db = Some w \<Longrightarrow>
     w \<in> set (work_orders db) \<and> wo_id w = i \<and> wo_tenant w = user_tenant u"
  unfolding workOrderAccess_def by (drule find_row_SomeD) simp

lemma equipment_row_SomeD:
  "equipment_row i db = Some e \<Longrightarrow> e \<in> set (equipments db) \<and> eq_id e = i"
  unfolding equipment_row_def by (drule find_row_SomeD) simp

text \<open>The issues of the parts and the fluids of an order.\<close>

lemma issue_part_quiet:
  "issue_part rn u wh order p (db, m) = Inr (db', m') \<Longrightarrow> doc_quiet db db'"
proof -
  assume "issue_part rn u wh order p (db, m) = Inr (db', m')"
  then obtain dto db1 f where core: "performTransactionCore (rnd_cost rn) dto u db = Inr db1"
    and db': "db' = set_work_order order f db1" and f: "\<And>w. wo_id (f w) = wo_id w"
      "\<And>w. wo_tenant (f w) = wo_tenant w" "\<And>w. wo_equipment (f w) = wo_equipment w"
      "\<And>w. wo_status (f w) = wo_status w"
    by (auto simp: issue_part_def and_then_eq_Inr Let_def)
  show ?thesis
    unfolding db' by (rule doc_quiet_trans[OF core_quiet[OF core] doc_quiet_set_work_order[OF f]])
qed

lemma issue_fluid_quiet:
  "issue_fluid rn u c wh order x (db, m) = Inr (db', m') \<Longrightarrow> doc_quiet db db'"
  by (auto simp: issue_fluid_def and_then_eq_Inr Let_def intro: core_quiet split: option.splits)

lemma for_each_quiet:
  assumes "for_each f xs s = Inr s'" and "\<And>x s s'. f x s = Inr s' \<Longrightarrow> doc_quiet (fst s) (fst s')"
  shows "doc_quiet (fst s) (fst s')"
  by (rule for_each_related[OF assms(1), where R = "\<lambda>a b. doc_quiet (fst a) (fst b)"])
     (use assms(2) doc_quiet_trans in \<open>auto\<close>)

lemma issue_all_quiet:
  assumes "issue_all rn u b wh w parts fluids db = Inr (db', spent)"
  shows "doc_quiet db db'"
proof (cases wh)
  case None
  with assms show ?thesis by (simp add: issue_all_def)
next
  case (Some h)
  with assms obtain s1 where
    p: "for_each (issue_part rn u h (wo_id w)) parts (db, 0) = Inr s1" and
    f: "for_each (issue_fluid rn u (sb_fluid b) h (wo_id w)) fluids s1 = Inr (db', spent)"
    by (auto simp: issue_all_def and_then_eq_Inr)
  have "doc_quiet (fst (db, 0::qty)) (fst s1)"
    by (rule for_each_quiet[OF p]) (metis issue_part_quiet prod.collapse)
  moreover have "doc_quiet (fst s1) (fst (db', spent))"
    by (rule for_each_quiet[OF f]) (metis issue_fluid_quiet prod.collapse)
  ultimately show ?thesis using doc_quiet_trans by fastforce
qed

text \<open>
  A closing: the order is written as closed, the meter moves forward, doc_quiet writes follow and the
  flag of the equipment is decided on the state they leave.
\<close>

lemma close_order_InrE:
  assumes "close_order rn now u b w e db = Inr db'"
  obtains hm db1 db2 where "close_guards w b db = Inr hm"
    "close_meter now u b w e (set_work_order (wo_id w) (closed_order rn now b hm) db) = Inr db1"
    "doc_quiet db1 db2" "db' = settle_equipment u b w hm db2"
proof -
  obtain hm db1 db2 spent db3 where g: "close_guards w b db = Inr hm"
    and m: "close_meter now u b w e (set_work_order (wo_id w) (closed_order rn now b hm) db) = Inr db1"
    and i: "issue_all rn u b (or_else (or_null (sb_warehouse b)) (or_null (wo_warehouse w))) w
                 (inventory_parts w db) (inventory_fluids w db) db1 = Inr (db2, spent)"
    and c: "record_order_cost rn w spent db2 = Inr db3" and s: "db' = settle_equipment u b w hm db3"
    using assms unfolding close_order_def and_then_eq_Inr by (auto simp: and_then_eq_Inr)
  have "doc_quiet db2 db3"
    using c by (auto simp: record_order_cost_def split: if_splits intro: create_asset_cost_quiet)
  from that[OF g m doc_quiet_trans[OF issue_all_quiet[OF i] this] s] show thesis .
qed

lemma close_guards_open: "close_guards w b db = Inr hm \<Longrightarrow> wo_status w \<noteq> OT_CLOSED"
  by (auto simp: close_guards_def split: if_splits)

lemma close_meter_InrD:
  assumes "close_meter now u b w e db = Inr db'"
  shows "db' = db \<or> (\<exists>m. wo_final_meter w = Some m \<and> eq_meter e \<le> m
     \<and> db' = applyCurrentMeterChange (user_tenant u) (wo_equipment w) (eq_meter e) m SRC_OT
                 (Some (wo_id w)) (acting_user_id u) now db)"
  using assms by (auto simp: close_meter_def not_less split: option.splits if_splits)

lemma resolve_exclude_closed:
  assumes "\<And>x. x \<in> set (work_orders db) \<Longrightarrow> wo_id x = i \<Longrightarrow> wo_status x = OT_CLOSED"
  shows "resolveReturnToService t e (Some i) db = resolveReturnToService t e None db"
proof -
  have "blocking_orders t e (Some i) db = blocking_orders t e None db"
    unfolding blocking_orders_def by (rule filter_cong[OF refl]) (use assms in auto)
  then show ?thesis by (simp add: resolveReturnToService_def)
qed

lemma closed_order_fields [simp]:
  "wo_id (closed_order rn now b hm w) = wo_id w" "wo_tenant (closed_order rn now b hm w) = wo_tenant w"
  "wo_equipment (closed_order rn now b hm w) = wo_equipment w"
  "wo_status (closed_order rn now b hm w) = OT_CLOSED"
  by (simp_all add: closed_order_def)

text \<open>The state in which the flag of the equipment is decided.\<close>

lemma close_order_settled:
  assumes ok: "ops_ok db" and w: "w \<in> set (work_orders db)"
    and e: "e \<in> set (equipments db)" "eq_id e = wo_equipment w"
    and close: "close_order rn now u b w e db = Inr db'"
  obtains db2 hm where "ops_ok db2" "flag_view db2 = flag_view db" "db' = settle_equipment u b w hm db2"
    "fault_reports db2 = fault_reports db" "\<forall>i. open_ids db2 i \<longrightarrow> open_ids db i"
    "\<forall>x \<in> set (work_orders db2). wo_id x = wo_id w \<longrightarrow> wo_status x = OT_CLOSED"
proof -
  from close obtain hm db1 db2 where
    m: "close_meter now u b w e (set_work_order (wo_id w) (closed_order rn now b hm) db) = Inr db1"
    and q: "doc_quiet db1 db2" and db': "db' = settle_equipment u b w hm db2"
    by (rule close_order_InrE)
  let ?db0 = "set_work_order (wo_id w) (closed_order rn now b hm) db"
  have "doc_refs ?db0 = doc_refs db" "doc_ids_ok ?db0 = doc_ids_ok db"
    by (rule doc_refs_set_work_order doc_ids_set_work_order; simp)+
  then have ok0: "ops_ok ?db0"
    using ok by (intro ops_ok_calm[OF ok]) (simp_all add: calm_def ops_ok_def)
  have docs1: "work_orders db1 = work_orders ?db0" "fault_reports db1 = fault_reports db"
    and flags1: "flag_view db1 = flag_view db"
    using close_meter_InrD[OF m] by auto
  have ok1: "ops_ok db1"
    using close_meter_InrD[OF m]
  proof (elim disjE exE conjE)
    assume "db1 = ?db0" with ok0 show ?thesis by simp
  next
    fix k assume up: "eq_meter e \<le> k" and db1: "db1 = applyCurrentMeterChange (user_tenant u)
      (wo_equipment w) (eq_meter e) k SRC_OT (Some (wo_id w)) (acting_user_id u) now ?db0"
    have "doc_refs ?db0 \<subseteq> eq_refs ?db0" "doc_ids_ok ?db0" using ok0 by (simp_all add: ops_ok_def)
    then show ?thesis
      unfolding db1 by (rule ops_ok_apply[OF ok0 refl refl, where e = e]) (use e up in simp_all)
  qed
  have key: "wo_status x = OT_CLOSED" if "x \<in> set (work_orders db2)" "wo_id x = wo_id w" for x
  proof -
    have "(wo_id x, wo_tenant x, wo_equipment x, wo_status x) \<in> set (fst (doc_view db2))"
      using that(1) by (simp add: doc_view_def)
    also have "doc_view db2 = doc_view db1" using q by (simp add: doc_quiet_def)
    finally obtain y where y: "y \<in> set (work_orders ?db0)" "wo_id y = wo_id x" "wo_status y = wo_status x"
      by (auto simp: doc_view_def docs1)
    then have "y \<in> set (update_rows (\<lambda>x. wo_id x = wo_id w) (closed_order rn now b hm) (work_orders db))"
      by simp
    then obtain z where "y = (if wo_id z = wo_id w then closed_order rn now b hm z else z)"
      by (rule in_update_rowsE)
    then have "wo_status y = OT_CLOSED" using y(2) that(2) by (auto split: if_splits)
    with y(3) show ?thesis by simp
  qed
  have "open_ids db i" if "open_ids db2 i" for i
  proof -
    from that have "open_ids db1 i" by (simp only: doc_quiet_open[OF q])
    then have "open_ids ?db0 i" by (simp add: open_ids_def find_work_order_def docs1)
    then show ?thesis
      by (simp add: open_ids_def find_work_order_def find_row_update_rows split: option.splits if_splits)
  qed
  then show thesis
    using that[of db2 hm] doc_quiet_ok[OF ok1 q] doc_quiet_flags[OF q] flags1 db' doc_quiet_faults[OF q] docs1(2) key
    by simp
qed

definition close_step :: "'a ops_db_scheme \<Rightarrow> 'a ops_db_scheme \<Rightarrow> bool" where
  "close_step db db' \<longleftrightarrow> (\<exists>rn now u i b site. sb_status b = OT_CLOSED
     \<and> updateStatus rn now u i b site db = Inr db')"

interpretation closings: careful_service close_step
proof
  fix db db' :: "'a ops_db_scheme"
  assume ok: "ops_ok db" and "close_step db db'"
  then obtain rn now u i b site w e where acc: "workOrderAccess u i site db = Some w"
    and row: "equipment_row (wo_equipment w) db = Some e"
    and close: "close_order rn now u b w e db = Inr db'"
    by (auto simp: close_step_def updateStatus_def split: option.splits)
  note w = workOrderAccess_SomeD[OF acc] and e = equipment_row_SomeD[OF row]
  obtain db2 hm where ok2: "ops_ok db2" and flags2: "flag_view db2 = flag_view db"
    and db': "db' = settle_equipment u b w hm db2" and faults2: "fault_reports db2 = fault_reports db"
    and opens: "\<forall>i. open_ids db2 i \<longrightarrow> open_ids db i"
    and closed: "\<forall>x \<in> set (work_orders db2). wo_id x = wo_id w \<longrightarrow> wo_status x = OT_CLOSED"
    by (rule close_order_settled[OF ok _ _ _ close]) (use w e in simp_all)
  let ?db3 = "db2\<lparr>reservations := filter (\<lambda>r. sr_work_order r \<noteq> wo_id w) (reservations db2)\<rparr>"
  let ?op = "if sb_operational b = Some True then rt_allowed (resolveReturnToService (user_tenant u)
      (wo_equipment w) (Some (wo_id w)) ?db3) else False"
  let ?f = "\<lambda>x. x\<lparr>eq_operational := ?op, eq_downtime := (if wo_impact w = Some IMPACT_SI
      then eq_downtime x + hm else eq_downtime x)\<rparr>"
  have db'': "db' = set_equipment (wo_equipment w) ?f ?db3"
    unfolding db' settle_equipment_def Let_def ..
  have ok3: "ops_ok ?db3" by (rule doc_quiet_ok[OF ok2 doc_quiet_reservations])
  show "ops_ok db'" unfolding db'' by (rule ops_ok_set_equipment[OF ok3]) simp_all
  have tenant: "eq_tenant e = user_tenant u"
  proof -
    have "(wo_equipment w, wo_tenant w) \<in> eq_refs db"
      using w ok by (auto simp: ops_ok_def doc_refs_def image_subset_iff)
    then obtain x where "x \<in> set (equipments db)" "eq_id x = wo_equipment w" "eq_tenant x = wo_tenant w"
      by (auto simp: eq_refs_def)
    then show ?thesis using equipment_unique[OF ops_ok_distinct[OF ok], of x e] e w by simp
  qed
  have "resolveReturnToService t x (Some (wo_id w)) ?db3 = resolveReturnToService t x None ?db3" for t x
    by (rule resolve_exclude_closed) (use closed in simp)
  then show "returns_free db db'"
    unfolding db'' using e tenant flags2
    by (intro returns_free_set[OF ok, where e = e and t = "user_tenant u"]) (simp_all add: flag_view_def split: if_splits)
  show "no_new_alarm db db'"
    unfolding db'' using faults2 opens
    by (intro no_new_alarm_mono) (simp_all add: open_ids_def find_work_order_def)
qed

text \<open>
  Any other status is written as it is. A closed order may be opened again, and its faults become
  active without a stop of the equipment: that change is not careful.
\<close>

lemma change_status_split:
  obtains f where "\<forall>x. wo_id (f x) = wo_id x" "\<forall>x. wo_tenant (f x) = wo_tenant x"
    "\<forall>x. wo_equipment (f x) = wo_equipment x"
    "change_status now w st db = set_work_order (wo_id w) f db \<or> change_status now w st db =
       set_equipment (wo_equipment w) (\<lambda>e. e\<lparr>eq_operational := False\<rparr>) (set_work_order (wo_id w) f db)"
proof -
  let ?f = "\<lambda>x. x\<lparr>wo_status := st, wo_in_progress_at :=
    (if st = OT_IN_PROGRESS \<and> wo_status w \<noteq> OT_IN_PROGRESS
     then (case wo_in_progress_at w of Some t \<Rightarrow> Some t | None \<Rightarrow> Some now) else wo_in_progress_at x)\<rparr>"
  show thesis by (rule that[of ?f]) (simp_all add: change_status_def Let_def)
qed

lemma change_status_ok:
  assumes "ops_ok db"
  shows "ops_ok (change_status now w st db)" and "returns_free db (change_status now w st db)"
proof -
  obtain f where f: "\<forall>x. wo_id (f x) = wo_id x" "\<forall>x. wo_tenant (f x) = wo_tenant x"
      "\<forall>x. wo_equipment (f x) = wo_equipment x"
    and c: "change_status now w st db = set_work_order (wo_id w) f db \<or> change_status now w st db =
       set_equipment (wo_equipment w) (\<lambda>e. e\<lparr>eq_operational := False\<rparr>) (set_work_order (wo_id w) f db)"
    by (rule change_status_split[of now w st db])
  let ?db0 = "set_work_order (wo_id w) f db"
  have "doc_refs ?db0 = doc_refs db" "doc_ids_ok ?db0 = doc_ids_ok db"
    by (rule doc_refs_set_work_order doc_ids_set_work_order; simp add: f)+
  then have ok0: "ops_ok ?db0"
    using assms by (intro ops_ok_calm[OF assms]) (simp_all add: calm_def ops_ok_def)
  show "ops_ok (change_status now w st db)" using c ok0 ops_ok_lower[OF ok0] by auto
  show "returns_free db (change_status now w st db)"
    using c returns_free_flags[OF assms, of ?db0] returns_free_lower[OF ops_ok_distinct[OF assms], of ?db0]
    by auto
qed

definition status_step :: "'a ops_db_scheme \<Rightarrow> 'a ops_db_scheme \<Rightarrow> bool" where
  "status_step db db' \<longleftrightarrow> (\<exists>rn now u i b site w. sb_status b \<noteq> OT_CLOSED
     \<and> workOrderAccess u i site db = Some w \<and> wo_status w \<noteq> OT_CLOSED
     \<and> updateStatus rn now u i b site db = Inr db')"

definition reopening_step :: "'a ops_db_scheme \<Rightarrow> 'a ops_db_scheme \<Rightarrow> bool" where
  "reopening_step db db' \<longleftrightarrow> (\<exists>rn now u i b site w. sb_status b \<noteq> OT_CLOSED
     \<and> workOrderAccess u i site db = Some w \<and> wo_status w = OT_CLOSED
     \<and> updateStatus rn now u i b site db = Inr db')"

interpretation status_changes: careful_service status_step
proof
  fix db db' :: "'a ops_db_scheme"
  assume ok: "ops_ok db" and "status_step db db'"
  then obtain u i site now w st where acc: "workOrderAccess u i site db = Some w"
    and running: "wo_status w \<noteq> OT_CLOSED" and db': "db' = change_status now w st db"
    by (auto simp: status_step_def updateStatus_def)
  show "ops_ok db'" "returns_free db db'" unfolding db' by (rule change_status_ok[OF ok])+
  note w = workOrderAccess_SomeD[OF acc]
  have mine: "x = w" if "x \<in> set (work_orders db)" "wo_id x = wo_id w" for x
    using ok that w by (auto simp: ops_ok_def doc_ids_ok_def distinct_map inj_on_def)
  obtain f where f: "\<forall>x. wo_id (f x) = wo_id x" and
    "change_status now w st db = set_work_order (wo_id w) f db \<or> change_status now w st db =
       set_equipment (wo_equipment w) (\<lambda>e. e\<lparr>eq_operational := False\<rparr>) (set_work_order (wo_id w) f db)"
    by (rule change_status_split[of now w st db])
  then have docs: "work_orders db' = update_rows (\<lambda>x. wo_id x = wo_id w) f (work_orders db)"
    "fault_reports db' = fault_reports db" unfolding db' by auto
  show "no_new_alarm db db'"
  proof (rule no_new_alarm_mono[OF docs(2)])
    fix j assume "open_ids db' j"
    then obtain x where x: "find_row (\<lambda>x. wo_id x = j) (work_orders db) = Some x"
      and "wo_id x = wo_id w \<or> wo_status x \<noteq> OT_CLOSED"
      by (auto simp: open_ids_def find_work_order_def docs find_row_update_rows f split: option.splits if_splits)
    then have "wo_status x \<noteq> OT_CLOSED" using mine[of x] find_row_SomeD[OF x] running by auto
    with x show "open_ids db j" by (simp add: open_ids_def find_work_order_def)
  qed
qed

interpretation reopenings: equipment_service reopening_step
proof
  fix db db' :: "'a ops_db_scheme"
  assume ok: "ops_ok db" and "reopening_step db db'"
  then obtain now w st where db': "db' = change_status now w st db"
    by (auto simp: reopening_step_def updateStatus_def)
  show "ops_ok db'" "returns_free db db'" unfolding db' by (rule change_status_ok[OF ok])+
qed

section \<open>Lubricants\<close>

lemma dispatch_line_quiet:
  "dispatch_line rn u wh r l (db, m) = Inr (db', m') \<Longrightarrow> doc_quiet db db'"
proof -
  assume "dispatch_line rn u wh r l (db, m) = Inr (db', m')"
  then obtain dto db1 f where core: "performTransactionCore (rnd_cost rn) dto u db = Inr db1"
    and db': "db' = set_lube_report r f db1"
    by (auto simp: dispatch_line_def and_then_eq_Inr Let_def split: option.splits)
  have "doc_quiet db1 (set_lube_report r f db1)" by (rule doc_quietI) (simp_all add: set_lube_report_def)
  then show ?thesis unfolding db' by (rule doc_quiet_trans[OF core_quiet[OF core]])
qed

lemma lube_createReport_InrE:
  assumes "lube_createReport rn n now u d db = Inr db'"
  obtains e db1 where "find_equipment (lq_equipment d) (user_tenant u) db = Some e"
    "lube_meter now u d e db = Inr db1" "doc_quiet db1 db'"
proof -
  obtain w e where w: "tenant_warehouse (lq_warehouse d) (user_tenant u) db = Some w"
    and e: "find_equipment (lq_equipment d) (user_tenant u) db = Some e"
    using assms by (auto simp: lube_createReport_def split: option.splits if_splits)
  obtain db1 where m: "lube_meter now u d e db = Inr db1"
    using assms by (auto simp: lube_createReport_def w e and_then_eq_Inr split: if_splits)
  obtain corr db2 where c: "getNextCorrelative (user_tenant u) LUBE_REPORT_DOCUMENT_TYPE
      LUBE_REPORT_PREFIX (Some 5) None db1 = (corr, db2)" by fastforce
  obtain row db4 spent where lines: "for_each (dispatch_line rn u (lq_warehouse d) n) (lq_lines d)
        (db2\<lparr>lube_reports := lube_reports db2 @ [row]\<rparr>, 0) = Inr (db4, spent)"
    and cost: "(if spent > 0 then create_asset_cost \<lparr>ac_tenant = user_tenant u,
        ac_equipment = lq_equipment d, ac_amount = rnd_cost rn spent, ac_type = COST_LUBE_DISPATCH,
        ac_order = None, ac_receipt = None, ac_work_order = None\<rparr> db4 else Inr db4) = Inr db'"
    using assms by (auto simp: lube_createReport_def w e m c and_then_eq_Inr and_then_def[of "Inr db1"] split: if_splits)
  have "doc_quiet db1 (db2\<lparr>lube_reports := lube_reports db2 @ [row]\<rparr>)"
    using correlative_ops_frame[of "user_tenant u" LUBE_REPORT_DOCUMENT_TYPE LUBE_REPORT_PREFIX "Some 5" None db1] c
    by (intro doc_quietI) simp_all
  moreover have "doc_quiet (fst (db2\<lparr>lube_reports := lube_reports db2 @ [row]\<rparr>, 0::qty)) (fst (db4, spent))"
    by (rule for_each_quiet[OF lines]) (metis dispatch_line_quiet prod.collapse)
  moreover have "doc_quiet db4 db'"
    using cost by (auto split: if_splits intro: create_asset_cost_quiet)
  ultimately have "doc_quiet db1 db'" using doc_quiet_trans[of db1 _ db4] doc_quiet_trans[of db1 db4 db'] by simp
  then show thesis by (rule that[OF e m])
qed

definition lube_step :: "'a ops_db_scheme \<Rightarrow> 'a ops_db_scheme \<Rightarrow> bool" where
  "lube_step db db' \<longleftrightarrow> (\<exists>rn n now u d. lube_createReport rn n now u d db = Inr db')"

interpretation dispatches: careful_service lube_step
proof
  fix db db' :: "'a ops_db_scheme"
  assume ok: "ops_ok db" and "lube_step db db'"
  then obtain now u d e db1 where e: "find_equipment (lq_equipment d) (user_tenant u) db = Some e"
    and m: "lube_meter now u d e db = Inr db1" and q: "doc_quiet db1 db'"
    by (auto simp: lube_step_def elim: lube_createReport_InrE)
  have "db1 = db \<or> (\<exists>k. db1 = advance_meter (user_tenant u) e (Some k) SRC_MANUAL None (acting_user_id u) now db)"
    using m by (auto simp: lube_meter_def split: option.splits if_splits)
  moreover have "ops_ok (advance_meter (user_tenant u) e k SRC_MANUAL None (acting_user_id u) now db)" for k
    using ok find_equipment_SomeD[OF e] by (intro ops_ok_advance[OF ok refl refl]) (simp_all add: ops_ok_def)
  ultimately have ok1: "ops_ok db1" and flags: "flag_view db1 = flag_view db"
    and docs: "fault_reports db1 = fault_reports db" "work_orders db1 = work_orders db"
    using ok by auto
  show "ops_ok db'" by (rule doc_quiet_ok[OF ok1 q])
  show "returns_free db db'" using doc_quiet_flags[OF q] flags by (intro returns_free_flags[OF ok]) simp
  show "no_new_alarm db db'"
    using doc_quiet_faults[OF q] doc_quiet_open[OF q] docs
    by (intro no_new_alarm_mono) (simp_all add: open_ids_def find_work_order_def)
qed

end
