(* ===== verification/Shift_Board.thy ===== *)
theory Shift_Board
  imports Availability Access
begin

text \<open>
  The read side of \<open>features/equipment-availability/equipment-availability.service.ts\<close>: the board of
  a shift (\<open>getShiftBoard\<close>) and the equipments without a report (\<open>findUnreported\<close>). The condition
  of a search text is the argument \<open>hits\<close>; the descriptive columns of a row are left out.
\<close>

text \<open>The scope of a query: the contract of the query takes the place of the user's contracts.\<close>

record fleet_filter =
  ff_tenant :: id
  ff_operational_only :: bool
  ff_contract :: "contract_filter option"

definition buildEquipmentScopeWhere :: "user \<Rightarrow> id option \<Rightarrow> bool \<Rightarrow> fleet_filter" where
  "buildEquipmentScopeWhere u contractId operationalOnly =
     (let isAdmin = (user_role u = Some ''ADMIN'' \<or> user_role u = Some ''SUPER_ADMIN'');
          allowed = (case user_contracts u of None \<Rightarrow> [] | Some cs \<Rightarrow> cs);
          own = (if \<not> isAdmin \<and> allowed \<noteq> [] then Some (ContractIn allowed) else None)
      in \<lparr>ff_tenant = user_tenant u, ff_operational_only = operationalOnly,
          ff_contract = (case or_null contractId of Some c \<Rightarrow> Some (ContractIs c) | None \<Rightarrow> own)\<rparr>)"

definition filter_holds :: "fleet_filter \<Rightarrow> equipment \<Rightarrow> bool" where
  "filter_holds f e \<longleftrightarrow>
     eq_tenant e = ff_tenant f \<and> (ff_operational_only f \<longrightarrow> eq_operational e)
     \<and> (case ff_contract f of
          None \<Rightarrow> True
        | Some c \<Rightarrow> (case eq_contract e of None \<Rightarrow> False | Some k \<Rightarrow> filter_matches c k))"

definition scoped_fleet :: "fleet_filter \<Rightarrow> (equipment \<Rightarrow> bool) \<Rightarrow> 'a ops_db_scheme \<Rightarrow> equipment list" where
  "scoped_fleet f hits db =
     sort_key eq_internal (filter (\<lambda>e. filter_holds f e \<and> hits e) (equipments db))"

definition shift_reports :: "id \<Rightarrow> int \<Rightarrow> shift_type \<Rightarrow> 'a ops_db_scheme \<Rightarrow> availability list" where
  "shift_reports tenant day shift db =
     filter (\<lambda>a. av_tenant a = tenant \<and> av_date a = day \<and> av_shift a = shift) (availabilities db)"

text \<open>The page of a list: page numbers from 1, at most 100 rows and at least one.\<close>

definition clamp_page :: "int option \<Rightarrow> nat" where
  "clamp_page p = nat (max 1 (case p of None \<Rightarrow> 1 | Some n \<Rightarrow> n))"

definition clamp_page_size :: "int option \<Rightarrow> nat" where
  "clamp_page_size s = nat (min 100 (max 1 (case s of None \<Rightarrow> 25 | Some n \<Rightarrow> n)))"

definition page_of :: "int option \<Rightarrow> int option \<Rightarrow> 'x list \<Rightarrow> 'x list" where
  "page_of p s xs = take (clamp_page_size s) (drop ((clamp_page p - 1) * clamp_page_size s) xs)"

definition findUnreported ::
    "user \<Rightarrow> int \<Rightarrow> shift_type option \<Rightarrow> id option \<Rightarrow> (equipment \<Rightarrow> bool) \<Rightarrow> int option \<Rightarrow> int option \<Rightarrow>
     'a ops_db_scheme \<Rightarrow> equipment list \<times> nat" where
  "findUnreported u date shiftOpt contractId hits p s db =
     (let shift = resolveShift (user_tenant u) shiftOpt db;
          reported = map av_equipment (shift_reports (user_tenant u) (utc_midnight date) shift db);
          unreported = filter (\<lambda>e. eq_id e \<notin> set reported)
            (scoped_fleet (buildEquipmentScopeWhere u contractId True) hits db)
      in (page_of p s unreported, length unreported))"

section \<open>The board\<close>

datatype row_kind = REPORTED | PENDING | EXCLUDED

record board_row =
  bo_equipment :: id
  bo_contract :: "id option"
  bo_operational :: bool
  bo_kind :: row_kind
  bo_report :: "id option"
  bo_status :: "op_status option"

definition board_row_of :: "availability list \<Rightarrow> equipment \<Rightarrow> board_row" where
  "board_row_of reports e =
     (let base = \<lparr>bo_equipment = eq_id e, bo_contract = eq_contract e, bo_operational = eq_operational e,
            bo_kind = EXCLUDED, bo_report = None, bo_status = None\<rparr>
      in if \<not> eq_operational e then base
         else case find_row (\<lambda>a. av_equipment a = eq_id e) (rev reports) of
           None \<Rightarrow> base\<lparr>bo_kind := PENDING\<rparr>
         | Some a \<Rightarrow> base\<lparr>bo_kind := REPORTED, bo_report := Some (av_id a),
                         bo_status := Some (av_status a)\<rparr>)"

text \<open>The counts of the operational equipments of one contract (\<open>None\<close>: without a contract).\<close>

record contract_counts =
  cc_contract :: "id option"
  cc_total :: nat
  cc_reported :: nat
  cc_unreported :: nat

definition count_kind :: "row_kind \<Rightarrow> board_row list \<Rightarrow> nat" where
  "count_kind k rows = length (filter (\<lambda>r. bo_kind r = k) rows)"

definition contract_row :: "board_row list \<Rightarrow> id option \<Rightarrow> contract_counts" where
  "contract_row rows c =
     (let own = filter (\<lambda>r. bo_contract r = c) rows in
      \<lparr>cc_contract = c, cc_total = length own, cc_reported = count_kind REPORTED own,
       cc_unreported = count_kind PENDING own\<rparr>)"

record board_summary =
  bs_total :: nat
  bs_reported :: nat
  bs_unreported :: nat
  bs_excluded :: nat
  bs_completion :: int
  bs_by_status :: "(op_status \<times> nat) list"
  bs_by_contract :: "contract_counts list"

definition all_statuses :: "op_status list" where
  "all_statuses = [OPERATIONAL, STANDBY, RESERVE_NO_OPERATOR, DOWN_FAILURE, DOWN_MAINTENANCE]"

definition board_summary_of :: "board_row list \<Rightarrow> board_summary" where
  "board_summary_of rows =
     (let operational = filter bo_operational rows;
          reported = filter (\<lambda>r. bo_kind r = REPORTED) operational
      in \<lparr>bs_total = length operational, bs_reported = length reported,
          bs_unreported = count_kind PENDING operational, bs_excluded = count_kind EXCLUDED rows,
          bs_completion = (if operational = [] then 100
             else js_round (of_nat (length reported) / of_nat (length operational) * 100)),
          bs_by_status = map (\<lambda>s. (s, length (filter (\<lambda>r. bo_status r = Some s) reported))) all_statuses,
          bs_by_contract = map (contract_row operational)
            (rev (remdups (rev (map bo_contract operational))))\<rparr>)"

definition filterShiftBoardTab :: "row_kind option \<Rightarrow> board_row list \<Rightarrow> board_row list" where
  "filterShiftBoardTab tab rows =
     (case tab of None \<Rightarrow> rows | Some k \<Rightarrow> filter (\<lambda>r. bo_kind r = k) rows)"

definition getShiftBoard ::
    "user \<Rightarrow> int \<Rightarrow> shift_type option \<Rightarrow> id option \<Rightarrow> (equipment \<Rightarrow> bool) \<Rightarrow> row_kind option \<Rightarrow>
     int option \<Rightarrow> int option \<Rightarrow> 'a ops_db_scheme \<Rightarrow> board_summary \<times> board_row list \<times> nat" where
  "getShiftBoard u date shiftOpt contractId hits tab p s db =
     (let shift = resolveShift (user_tenant u) shiftOpt db;
          fleet = scoped_fleet (buildEquipmentScopeWhere u contractId False) hits db;
          ids = map eq_id fleet;
          reports = filter (\<lambda>a. av_equipment a \<in> set ids)
            (shift_reports (user_tenant u) (utc_midnight date) shift db);
          rows = map (board_row_of reports) fleet;
          shown = filterShiftBoardTab tab rows
      in (board_summary_of rows, page_of p s shown, length shown))"

end
