(* ===== verification/Equipment_System.thy ===== *)
theory Equipment_System
  imports Order_Services Shift_Board
begin

text \<open>
  The equipment side as one system: the step relation of its operations, the states they reach
  from an empty fleet, the invariants of those states and the properties that span components.
\<close>

section \<open>The steps\<close>

text \<open>
  \<open>careful_step\<close> are the modelled writes of one document or reading but one: the change of a
  closed order back to another status (\<open>reopening_step\<close>), which \<open>ops_step\<close> adds. The Excel import of
  the fleet is not a step of this relation; it writes the flag of the workbook
  (theory \<open>Import_Properties\<close>).
\<close>

inductive careful_step :: "'a ops_db_scheme \<Rightarrow> 'a ops_db_scheme \<Rightarrow> bool" where
  adjust: "adjustment_step db db' \<Longrightarrow> careful_step db db'"
| add: "creation_step db db' \<Longrightarrow> careful_step db db'"
| update: "update_step db db' \<Longrightarrow> careful_step db db'"
| remove: "removal_step db db' \<Longrightarrow> careful_step db db'"
| sync: "bulk_step db db' \<Longrightarrow> careful_step db db'"
| fault: "fault_step db db' \<Longrightarrow> careful_step db db'"
| escalate: "escalation_step db db' \<Longrightarrow> careful_step db db'"
| report: "report_step db db' \<Longrightarrow> careful_step db db'"
| order: "order_creation_step db db' \<Longrightarrow> careful_step db db'"
| edit: "backlog_step db db' \<Longrightarrow> careful_step db db'"
| status: "status_step db db' \<Longrightarrow> careful_step db db'"
| close: "close_step db db' \<Longrightarrow> careful_step db db'"
| lubricate: "lube_step db db' \<Longrightarrow> careful_step db db'"

inductive ops_step :: "'a ops_db_scheme \<Rightarrow> 'a ops_db_scheme \<Rightarrow> bool" where
  carefully: "careful_step db db' \<Longrightarrow> ops_step db db'"
| reopen: "reopening_step db db' \<Longrightarrow> ops_step db db'"

inductive_cases ops_stepE: "ops_step db db'"

interpretation careful: careful_service careful_step
proof
  fix db db' :: "'a ops_db_scheme"
  assume ok: "ops_ok db" and step: "careful_step db db'"
  from step ok show "ops_ok db'"
    by cases (blast intro: adjustments.keeps_ok creations.keeps_ok updates.keeps_ok removals.keeps_ok
      bulk.keeps_ok faults.keeps_ok escalations.keeps_ok reports.keeps_ok order_creations.keeps_ok
      backlogs.keeps_ok status_changes.keeps_ok closings.keeps_ok dispatches.keeps_ok)+
  from step ok show "returns_free db db'"
    by cases (blast intro: adjustments.raises_free creations.raises_free updates.raises_free
      removals.raises_free bulk.raises_free faults.raises_free escalations.raises_free
      reports.raises_free order_creations.raises_free backlogs.raises_free
      status_changes.raises_free closings.raises_free dispatches.raises_free)+
  from step ok show "no_new_alarm db db'"
    by cases (blast intro: adjustments.keeps_quiet creations.keeps_quiet updates.keeps_quiet
      removals.keeps_quiet bulk.keeps_quiet faults.keeps_quiet escalations.keeps_quiet
      reports.keeps_quiet order_creations.keeps_quiet backlogs.keeps_quiet
      status_changes.keeps_quiet closings.keeps_quiet dispatches.keeps_quiet)+
qed

interpretation system: equipment_service ops_step
proof
  fix db db' :: "'a ops_db_scheme"
  assume ok: "ops_ok db" and step: "ops_step db db'"
  from step ok show "ops_ok db'" by cases (blast intro: careful.keeps_ok reopenings.keeps_ok)+
  from step ok show "returns_free db db'"
    by cases (blast intro: careful.raises_free reopenings.raises_free)+
qed

section \<open>The reachable states\<close>

text \<open>The start: no equipment and no document about one; the other tables may hold anything.\<close>

definition empty_fleet :: "'a ops_db_scheme \<Rightarrow> bool" where
  "empty_fleet db \<longleftrightarrow> equipments db = [] \<and> meter_logs db = [] \<and> work_orders db = [] \<and> fault_reports db = []"

lemma empty_fleet_ok: "empty_fleet db \<Longrightarrow> ops_ok db \<and> alarms_stop db"
  by (simp add: empty_fleet_def ops_ok_def meters_ok_def equipment_ids_def doc_refs_def doc_ids_ok_def
      alarms_stop_def alarm_def)

inductive operated :: "('a ops_db_scheme \<Rightarrow> 'a ops_db_scheme \<Rightarrow> bool) \<Rightarrow> 'a ops_db_scheme \<Rightarrow> bool"
  for step where
  start: "empty_fleet db \<Longrightarrow> operated step db"
| run: "operated step db \<Longrightarrow> step db db' \<Longrightarrow> operated step db'"

lemma operated_ok: "operated ops_step db \<Longrightarrow> ops_ok db"
  by (induction rule: operated.induct) (auto dest: empty_fleet_ok intro: system.keeps_ok)

lemma operated_careful:
  "operated careful_step db \<Longrightarrow> ops_ok db \<and> alarms_stop db"
  by (induction rule: operated.induct)
     (auto dest: empty_fleet_ok intro: careful.keeps_ok careful.keeps_alarms)

section \<open>A history\<close>

text \<open>
  The fixture of the properties: a truck is created, a fault of high criticality stops it, its
  order is completed, closed with a return to service and opened again.
\<close>

definition truck_dto :: equipment_dto where
  "truck_dto = \<lparr>ed_contract = Some (Some ''c1''), ed_subcontract = None, ed_internal = Some ''EX-1'',
     ed_plate = None, ed_vin = None, ed_meter_type = None, ed_initial = Some 100, ed_current = Some 100,
     ed_subleased = None, ed_company = None, ed_other = False\<rparr>"

definition truck :: equipment where "truck = small_equipment\<lparr>eq_contract := Some ''c1''\<rparr>"

definition no_fleet :: ops_db where "no_fleet = small_ops\<lparr>equipments := []\<rparr>"

definition one_truck :: ops_db where "one_truck = small_ops\<lparr>equipments := [truck]\<rparr>"

definition brakes_dto :: fault_dto where
  "brakes_dto = \<lparr>fd_equipment = ''e'', fd_event_date = 5, fd_meter = Some 120, fd_system = MOTOR,
     fd_criticality = CR_HIGH, fd_symptom = ''frenos''\<rparr>"

definition brakes_ids :: fresh where
  "brakes_ids = \<lparr>fresh_fault = ''f'', fresh_order = ''w'', fresh_now = 9, fresh_year = 2025\<rparr>"

definition brakes_report :: fault_report where
  "brakes_report = (report_of brakes_ids plain_user brakes_dto ''c1'' ''RF-00001'')
     \<lparr>fr_work_order := Some ''w'', fr_status := FR_LINKED\<rparr>"

definition brakes_order :: work_order where
  "brakes_order = (plain_order ''w'' ''t'' ''e'' ''OT-2025-001'')
     \<lparr>wo_by := Some ''u1'', wo_category := NO_PROGRAMADA_REACTIVA, wo_impact := Some IMPACT_SI,
      wo_initial_meter := 120, wo_description := ''frenos'', wo_detention_start := Some 5\<rparr>"

definition broken :: ops_db where
  "broken = small_ops\<lparr>equipments := [truck\<lparr>eq_meter := 120, eq_operational := False\<rparr>],
     counters := [\<lparr>ct_tenant = ''t'', ct_type = ''FAULT_REP'', ct_prefix = ''RF'', ct_last = 1\<rparr>],
     fault_reports := [brakes_report], work_orders := [brakes_order],
     meter_logs := [\<lparr>ml_tenant = ''t'', ml_equipment = ''e'', ml_old = 100, ml_new = 120,
       ml_source = SRC_FAULT_REPORT, ml_source_id = Some ''f'', ml_user = ''u1'', ml_date = 9\<rparr>]\<rparr>"

definition dates_patch :: wo_patch where
  "dates_patch = \<lparr>wu_warehouse = None, wu_det_start = None, wu_det_end = Some (Some 3600005),
     wu_det_initial = None, wu_det_final = None, wu_mech_start = Some (Some 5),
     wu_mech_end = Some (Some 3600005), wu_personnel = None, wu_impact = None, wu_tags = None,
     wu_participants = None, wu_supervisor = None, wu_initial = None, wu_final = None,
     wu_maintenance = None, wu_category = None, wu_type = None, wu_performed = None,
     wu_description = None, wu_tasks = None, wu_parts = None, wu_fluids = None\<rparr>"

definition dated_order :: work_order where
  "dated_order = brakes_order\<lparr>wo_detention_end := Some 3600005, wo_mech_start := Some 5,
     wo_mech_end := Some 3600005\<rparr>"

definition dated :: ops_db where "dated = broken\<lparr>work_orders := [dated_order]\<rparr>"

definition close_body :: "ot_status \<Rightarrow> status_body" where
  "close_body st = \<lparr>sb_status = st, sb_warehouse = None, sb_operational = Some True,
     sb_jump = None, sb_fluid = None\<rparr>"

definition exact :: rounding where
  "exact = \<lparr>rnd_cost = (\<lambda>q. q), rnd_money = (\<lambda>q. q), rnd_hours = (\<lambda>q. q)\<rparr>"

definition repaired_order :: work_order where
  "repaired_order = dated_order\<lparr>wo_status := OT_CLOSED, wo_closed_at := Some 20, wo_hm := Some 1,
     wo_hh := Some 1, wo_closure_operational := Some True\<rparr>"

definition repaired :: ops_db where
  "repaired = broken\<lparr>work_orders := [repaired_order],
     equipments := [truck\<lparr>eq_meter := 120, eq_operational := True, eq_downtime := 1\<rparr>]\<rparr>"

definition reopened :: ops_db where
  "reopened = repaired\<lparr>work_orders := [repaired_order\<lparr>wo_status := OT_ON_HOLD\<rparr>]\<rparr>"

lemma history_creation: "equipment_create ''e'' 0 plain_user truck_dto None no_fleet = Inr one_truck"
  by (simp add: equipment_create_def truck_dto_def contract_of_creation_def plain_user_contracts
      or_null_def check_subcontract_def no_fleet_def small_ops_def normalizeSubleasePayload_def
      insert_equipment_def new_equipment_def equipment_clash_def one_truck_def truck_def
      small_equipment_def)

lemma history_fault: "fault_create brakes_ids plain_user brakes_dto one_truck = Inr broken"
  by code_simp

lemma history_dates:
  "wo_update (\<lambda>_. False) \<lparr>no_id = [], no_part = (\<lambda>_. []), no_year = 2025\<rparr> plain_user ''w''
     dates_patch None broken = Inr dated"
  by code_simp

lemma history_close: "updateStatus exact 20 plain_user ''w'' (close_body OT_CLOSED) None dated = Inr repaired"
  by code_simp

lemma history_reopen: "updateStatus exact 30 plain_user ''w'' (close_body OT_ON_HOLD) None repaired = Inr reopened"
  by code_simp

lemma history_steps:
  "careful_step no_fleet one_truck" "careful_step one_truck broken" "careful_step broken dated"
  "careful_step dated repaired" "reopening_step repaired reopened"
proof -
  have "creation_step no_fleet one_truck"
    unfolding creation_step_def using history_creation
    by (intro exI conjI) (assumption | simp add: no_fleet_def equipment_ids_def)+
  then show "careful_step no_fleet one_truck" by (rule careful_step.intros)
  have "fault_step one_truck broken"
    unfolding fault_step_def using history_fault
    by (intro exI[of _ brakes_ids] exI[of _ plain_user] exI[of _ brakes_dto])
       (simp add: one_truck_def small_ops_def)
  then show "careful_step one_truck broken" by (rule careful_step.intros)
  have "backlog_step broken dated"
    unfolding backlog_step_def by (intro disjI1 exI) (rule history_dates)
  then show "careful_step broken dated" by (rule careful_step.intros)
  have "close_step dated repaired"
    unfolding close_step_def using history_close by (auto simp: close_body_def intro!: exI)
  then show "careful_step dated repaired" by (rule careful_step.intros)
  have "workOrderAccess plain_user ''w'' None repaired = Some repaired_order" by code_simp
  then show "reopening_step repaired reopened"
    unfolding reopening_step_def using history_reopen
    by (intro exI[of _ exact] exI[of _ "30::int"] exI[of _ plain_user] exI[of _ "''w''"]
        exI[of _ "close_body OT_ON_HOLD"] exI[of _ None] exI[of _ repaired_order])
       (simp add: close_body_def repaired_order_def)
qed

lemma no_fleet_empty: "empty_fleet no_fleet"
  by (simp add: empty_fleet_def no_fleet_def small_ops_def)

lemma history_careful:
  "operated careful_step broken" "operated careful_step dated" "operated careful_step repaired"
proof -
  have "operated careful_step no_fleet" by (rule operated.start[OF no_fleet_empty])
  from operated.run[OF this history_steps(1)] have one: "operated careful_step one_truck" .
  from operated.run[OF one history_steps(2)] show b: "operated careful_step broken" .
  from operated.run[OF b history_steps(3)] show d: "operated careful_step dated" .
  from operated.run[OF d history_steps(4)] show "operated careful_step repaired" .
qed

lemma operated_mono:
  "operated careful_step db \<Longrightarrow> operated ops_step db"
  by (induction rule: operated.induct) (auto intro: operated.intros ops_step.intros)

section \<open>Properties\<close>

text \<open>
  C26. Apart from the Excel import of the fleet, an operation returns an equipment to service only where
  nothing blocks it: afterwards no fault of high criticality of the equipment is active and no order
  of it that affects the availability is open, whichever operation it was (a shift report, the closing
  of an order). The import writes the flag of the workbook past every blocker
  (\<open>Import_Properties.import_raises_blocked_equipment\<close>).
\<close>

theorem return_to_service_only_when_free:
  assumes "operated ops_step db" and "ops_step db db'"
    and "e \<in> set (equipments db)" "\<not> eq_operational e"
    and "e' \<in> set (equipments db')" "eq_id e' = eq_id e" "eq_operational e'"
  shows "(\<forall>r \<in> set (fault_reports db'). fr_tenant r = eq_tenant e' \<and> fr_equipment r = eq_id e'
      \<and> fr_criticality r = CR_HIGH \<longrightarrow> \<not> fault_active r db')
    \<and> (\<forall>w \<in> set (work_orders db'). wo_tenant w = eq_tenant e' \<and> wo_equipment w = eq_id e'
      \<and> wo_impact w = Some IMPACT_SI \<longrightarrow> wo_status w = OT_CLOSED)"
proof -
  have "free_to_return e' db'"
    using system.raises_free[OF operated_ok[OF assms(1)] assms(2)] assms(3-7)
    unfolding returns_free_def by blast
  then have f: "blocking_faults (eq_tenant e') (eq_id e') db' = []"
    and o: "blocking_orders (eq_tenant e') (eq_id e') None db' = []"
    by (simp_all add: free_to_return_def resolveReturnToService_def Let_def)
  have st: "wo_status w = OT_CLOSED" if "wo_status w \<notin> {OT_OPEN, OT_IN_PROGRESS, OT_ON_HOLD}" for w
    using that by (cases "wo_status w") simp_all
  show ?thesis
    using f o st by (auto simp: blocking_faults_def blocking_orders_def filter_empty_conv)
qed

lemma return_to_service_only_when_free_witness:
  "\<not> fault_active brakes_report repaired"
proof -
  have step: "ops_step dated repaired" by (rule carefully[OF history_steps(4)])
  have reach: "operated ops_step dated" by (rule operated_mono[OF history_careful(2)])
  have "\<forall>r \<in> set (fault_reports repaired). fr_tenant r = ''t'' \<and> fr_equipment r = ''e''
      \<and> fr_criticality r = CR_HIGH \<longrightarrow> \<not> fault_active r repaired"
    using return_to_service_only_when_free[OF reach step,
        of "truck\<lparr>eq_meter := 120, eq_operational := False\<rparr>"
           "truck\<lparr>eq_meter := 120, eq_operational := True, eq_downtime := 1\<rparr>"]
    by (simp add: dated_def broken_def repaired_def truck_def small_equipment_def)
  then show ?thesis
    by (simp add: repaired_def broken_def brakes_report_def report_of_def brakes_ids_def brakes_dto_def)
qed

text \<open>
  C27. As long as no closed order is opened again and no fleet workbook is imported, an active fault of high criticality keeps its
  equipment out of service in every state the operations reach: registering it stops the
  equipment, and neither a shift report nor the closing of another order raises the flag.
\<close>

theorem high_faults_stop_equipment:
  assumes "operated careful_step db" and "r \<in> set (fault_reports db)" "fr_criticality r = CR_HIGH"
    and "fault_active r db" and "e \<in> set (equipments db)" "eq_id e = fr_equipment r"
  shows "\<not> eq_operational e"
  using operated_careful[OF assms(1)] assms(2-6) by (auto simp: alarms_stop_def alarm_def stopped_def)

lemma brakes_active: "fault_active brakes_report broken"
  by code_simp

lemma high_faults_stop_equipment_witness:
  "\<not> eq_operational (truck\<lparr>eq_meter := 120, eq_operational := False\<rparr>) \<and> operated careful_step broken"
  using high_faults_stop_equipment[OF history_careful(1) _ _ brakes_active,
      of "truck\<lparr>eq_meter := 120, eq_operational := False\<rparr>"] history_careful(1)
  by (simp add: broken_def brakes_report_def report_of_def brakes_ids_def brakes_dto_def truck_def
      small_equipment_def)

text \<open>
  Opening a closed order again breaks that rule: from an empty fleet the operations reach a
  state with an active fault of high criticality on an equipment that is in service.
\<close>

theorem reopening_leaves_alarm_in_service:
  "\<exists>db :: ops_db. operated ops_step db \<and> (\<exists>r \<in> set (fault_reports db). \<exists>e \<in> set (equipments db).
     fr_criticality r = CR_HIGH \<and> fault_active r db \<and> eq_id e = fr_equipment r
     \<and> eq_tenant e = fr_tenant r \<and> eq_operational e)"
proof (rule exI[of _ reopened], rule conjI)
  show "operated ops_step reopened"
    using operated_mono[OF history_careful(3)] history_steps(5) by (blast intro: operated.run reopen)
  have "fault_active brakes_report reopened" by code_simp
  then show "\<exists>r \<in> set (fault_reports reopened). \<exists>e \<in> set (equipments reopened).
     fr_criticality r = CR_HIGH \<and> fault_active r reopened \<and> eq_id e = fr_equipment r
     \<and> eq_tenant e = fr_tenant r \<and> eq_operational e"
    by (simp add: reopened_def repaired_def broken_def)
       (simp add: brakes_report_def report_of_def brakes_ids_def brakes_dto_def truck_def small_equipment_def)
qed

end
