(* ===== verification/Order_Properties.thy ===== *)
theory Order_Properties
  imports Equipment_System
begin

text \<open>
  Properties of work orders that span components: the closing of an order refines the ledger of
  stock, its costs depend on what the user may see, and the numbers of orders.
\<close>

section \<open>The issues of an order and the ledger\<close>

lemma inv_abs_set_work_order [simp]: "inv_abs (set_work_order i f db) = inv_abs db"
  by (rule inv_abs_cong) (simp_all add: set_work_order_def)

lemma inv_abs_set_equipment [simp]: "inv_abs (set_equipment i f db) = inv_abs db"
  by (rule inv_abs_cong) (simp_all add: set_equipment_def)

lemma inv_abs_reservations [simp]: "inv_abs (db\<lparr>reservations := x\<rparr>) = inv_abs db"
  by (rule inv_abs_cong) simp_all

lemma inv_abs_asset_costs [simp]: "inv_abs (db\<lparr>asset_costs := x\<rparr>) = inv_abs (db :: 'a purch_db_scheme)"
  by (rule inv_abs_cong) simp_all

lemma inv_abs_apply [simp]: "inv_abs (applyCurrentMeterChange t i m n s sid u d db) = inv_abs db"
  by (rule inv_abs_cong) (simp_all add: applyCurrentMeterChange_def set_equipment_def)

text \<open>What an entry moves.\<close>

definition moved :: "entry \<Rightarrow> cell \<times> tx_type \<times> qty" where
  "moved e = (en_cell e, en_type e, en_qty e)"

definition posts_moves :: "(cell \<times> tx_type \<times> qty) list \<Rightarrow> 'a inv_db_scheme \<Rightarrow> 'a inv_db_scheme \<Rightarrow> bool" where
  "posts_moves ms db db' \<longleftrightarrow>
     (\<exists>es. post_all es (inv_abs db) = Some (inv_abs db') \<and> map moved es = ms)"

lemma posts_nothing: "inv_abs db' = inv_abs db \<Longrightarrow> posts_moves [] db db'"
  by (simp add: posts_moves_def)

lemma posts_moves_trans:
  assumes "posts_moves xs a b" and "posts_moves ys b c"
  shows "posts_moves (xs @ ys) a c"
proof -
  obtain es fs where "post_all es (inv_abs a) = Some (inv_abs b)" "map moved es = xs"
    and "post_all fs (inv_abs b) = Some (inv_abs c)" "map moved fs = ys"
    using assms by (auto simp: posts_moves_def)
  then show ?thesis
    unfolding posts_moves_def by (intro exI[of _ "es @ fs"]) (simp add: post_all_trans)
qed

lemma core_posts_moves:
  assumes "performTransactionCore rnd4 dto u db = Inr db'"
  shows "posts_moves [((pd_wh dto, pd_item dto), pd_type dto, pd_qty dto)] db db'"
  using core_posts[OF assms] unfolding posts_moves_def
  by (intro exI[of _ "[core_entry dto db]"]) (simp add: moved_def core_entry_def Let_def)

lemma for_each_posts_moves:
  fixes f :: "'x \<Rightarrow> 'a inv_db_scheme \<times> 'm \<Rightarrow> ('a inv_db_scheme \<times> 'm) res"
  assumes "for_each f xs s = Inr s'"
    and "\<And>x s s'. f x s = Inr s' \<Longrightarrow> posts_moves [k x] (fst s) (fst s')"
  shows "posts_moves (map k xs) (fst s) (fst s')"
  using assms(1)
proof (induction xs arbitrary: s)
  case Nil
  then show ?case by (simp add: posts_nothing)
next
  case (Cons x xs)
  then obtain t where t: "f x s = Inr t" "for_each f xs t = Inr s'"
    by (auto simp: and_then_eq_Inr)
  from posts_moves_trans[OF assms(2)[OF t(1)] Cons.IH[OF t(2)]] show ?case by simp
qed

definition part_move :: "id \<Rightarrow> wo_part \<Rightarrow> cell \<times> tx_type \<times> qty" where
  "part_move wh p = ((wh, the (wp_item p)), WORK_ORDER_ISSUE, wp_qty p)"

definition fluid_move :: "id \<Rightarrow> wo_fluid \<Rightarrow> cell \<times> tx_type \<times> qty" where
  "fluid_move wh f = ((wh, the (wf_item f)), WORK_ORDER_ISSUE, wf_liters f)"

lemma issue_part_moves:
  "issue_part rn u wh order p s = Inr s' \<Longrightarrow> posts_moves [part_move wh p] (fst s) (fst s')"
  by (auto simp: issue_part_def part_move_def and_then_eq_Inr Let_def issue_dto_def posts_moves_def
      dest!: core_posts_moves split: prod.splits)

lemma issue_fluid_moves:
  "issue_fluid rn u c wh order x s = Inr s' \<Longrightarrow> posts_moves [fluid_move wh x] (fst s) (fst s')"
  by (auto simp: issue_fluid_def fluid_move_def and_then_eq_Inr Let_def issue_dto_def
      dest!: core_posts_moves split: prod.splits option.splits)

lemma issue_all_moves:
  assumes "issue_all rn u b (Some wh) w parts fluids db = Inr (db', spent)"
  shows "posts_moves (map (part_move wh) parts @ map (fluid_move wh) fluids) db db'"
proof -
  from assms obtain s1 where
    p: "for_each (issue_part rn u wh (wo_id w)) parts (db, 0) = Inr s1" and
    f: "for_each (issue_fluid rn u (sb_fluid b) wh (wo_id w)) fluids s1 = Inr (db', spent)"
    by (auto simp: issue_all_def and_then_eq_Inr)
  from posts_moves_trans[OF for_each_posts_moves[OF p issue_part_moves]
      for_each_posts_moves[OF f issue_fluid_moves]] show ?thesis by simp
qed

text \<open>The warehouse a closing issues from, and its movements.\<close>

definition closing_warehouse :: "status_body \<Rightarrow> work_order \<Rightarrow> id option" where
  "closing_warehouse b w = or_else (or_null (sb_warehouse b)) (or_null (wo_warehouse w))"

definition closing_moves ::
    "status_body \<Rightarrow> work_order \<Rightarrow> 'a inv_db_scheme \<Rightarrow> (cell \<times> tx_type \<times> qty) list" where
  "closing_moves b w db =
     (let wh = the (closing_warehouse b w)
      in map (part_move wh) (inventory_parts w db) @ map (fluid_move wh) (inventory_fluids w db))"

lemma close_guards_warehouse:
  "close_guards w b db = Inr hm \<Longrightarrow> closing_warehouse b w = None \<Longrightarrow>
     inventory_parts w db = [] \<and> inventory_fluids w db = []"
  by (auto simp: close_guards_def and_then_eq_Inr closing_warehouse_def split: if_splits)

lemma inv_abs_create_cost:
  "create_asset_cost c db = Inr db' \<Longrightarrow> inv_abs db' = inv_abs db"
  by (auto simp: create_asset_cost_def split: if_splits intro!: inv_abs_cong)

lemma inv_abs_settle [simp]: "inv_abs (settle_equipment u b w hm db) = inv_abs db"
  by (simp add: settle_equipment_def Let_def)

lemma close_order_moves:
  assumes "close_order rn now u b w e db = Inr db'"
  shows "posts_moves (closing_moves b w db) db db'"
proof -
  obtain hm db1 db2 spent db3 where g: "close_guards w b db = Inr hm"
    and m: "close_meter now u b w e (set_work_order (wo_id w) (closed_order rn now b hm) db) = Inr db1"
    and i: "issue_all rn u b (closing_warehouse b w) w (inventory_parts w db) (inventory_fluids w db) db1
              = Inr (db2, spent)"
    and c: "record_order_cost rn w spent db2 = Inr db3" and s: "db' = settle_equipment u b w hm db3"
    using assms unfolding close_order_def and_then_eq_Inr closing_warehouse_def
    by (auto simp: and_then_eq_Inr)
  have "inv_abs db1 = inv_abs db" using close_meter_InrD[OF m] by auto
  moreover have "inv_abs db' = inv_abs db2"
    using c by (auto simp: s record_order_cost_def split: if_splits dest: inv_abs_create_cost)
  moreover have "posts_moves (closing_moves b w db) db1 db2"
  proof (cases "closing_warehouse b w")
    case None
    with close_guards_warehouse[OF g] i show ?thesis
      by (simp add: closing_moves_def issue_all_def posts_nothing)
  next
    case (Some wh)
    with issue_all_moves[OF i[unfolded Some]] show ?thesis by (simp add: closing_moves_def)
  qed
  ultimately show ?thesis by (simp add: posts_moves_def)
qed

text \<open>The quantity that a list of movements adds to a cell.\<close>

definition net_qty :: "cell \<Rightarrow> (cell \<times> tx_type \<times> qty) list \<Rightarrow> qty" where
  "net_qty c ms = sum_list (map (\<lambda>(_, ty, q). signed_qty ty q) (filter (\<lambda>m. fst m = c) ms))"

lemma net_qty_moved: "net_qty c (map moved es) = sum_list (map entry_delta (of_cell c es))"
  by (induction es) (simp_all add: net_qty_def moved_def entry_delta_def)

lemma net_qty_Nil [simp]: "net_qty c [] = 0"
  by (simp add: net_qty_def)

lemma net_qty_append: "net_qty c (xs @ ys) = net_qty c xs + net_qty c ys"
  by (simp add: net_qty_def)

lemma net_qty_parts:
  "net_qty (h, i) (map (part_move wh) ps) =
     (if h = wh then - sum_rows (\<lambda>p. the (wp_item p) = i) wp_qty ps else 0)"
  by (induction ps) (auto simp: net_qty_def part_move_def sum_rows_def)

lemma net_qty_fluids:
  "net_qty (h, i) (map (fluid_move wh) fs) =
     (if h = wh then - sum_rows (\<lambda>f. the (wf_item f) = i) wf_liters fs else 0)"
  by (induction fs) (auto simp: net_qty_def fluid_move_def sum_rows_def)

lemma posts_moves_qty:
  "posts_moves ms db db' \<Longrightarrow> stock_qty h i db' = stock_qty h i db + net_qty (h, i) ms"
  unfolding posts_moves_def
  by (elim exE conjE) (drule post_all_bal[of _ _ _ "(h, i)"], simp add: inv_abs_def flip: net_qty_moved)

lemma closing_InrE:
  assumes "updateStatus rn now u i b site db = Inr db'" and "sb_status b = OT_CLOSED"
    and "workOrderAccess u i site db = Some w"
  obtains e where "equipment_row (wo_equipment w) db = Some e" "close_order rn now u b w e db = Inr db'"
  using assms by (auto simp: updateStatus_def split: option.splits)

text \<open>
  C29. Closing an order refines the ledger of stock: the transactions it writes are exactly one
  issue per inventory part and per inventory fluid of the order, in that order and from the chosen
  warehouse, each starting from the balance that the one before left; every position loses the
  quantities of its lines and no other position changes.
\<close>

theorem closing_posts_its_issues:
  assumes "updateStatus rn now u i b site db = Inr db'" and "sb_status b = OT_CLOSED"
    and "workOrderAccess u i site db = Some w"
  shows "(\<exists>es. post_all es (inv_abs db) = Some (inv_abs db')
      \<and> map (\<lambda>e. (en_cell e, en_type e, en_qty e)) es = closing_moves b w db)
    \<and> (\<forall>h x. stock_qty h x db' = stock_qty h x db -
        (if Some h = closing_warehouse b w
         then sum_rows (\<lambda>p. wp_item p = Some x) wp_qty (inventory_parts w db)
            + sum_rows (\<lambda>f. wf_item f = Some x) wf_liters (inventory_fluids w db) else 0))"
proof -
  obtain e where close: "close_order rn now u b w e db = Inr db'"
    using assms by (rule closing_InrE)
  note moves = close_order_moves[OF close]
  obtain hm where guards: "close_guards w b db = Inr hm"
    using close by (auto simp: close_order_def and_then_eq_Inr)
  have parts: "sum_rows (\<lambda>p. the (wp_item p) = x) wp_qty (inventory_parts w db)
      = sum_rows (\<lambda>p. wp_item p = Some x) wp_qty (inventory_parts w db)" for x
    unfolding sum_rows_def inventory_parts_def
    by (rule arg_cong[where f = "\<lambda>l. sum_list (map wp_qty l)"], rule filter_cong)
       (auto simp: stocked_item_def or_null_def split: option.splits if_splits)
  have fluids: "sum_rows (\<lambda>p. the (wf_item p) = x) wf_liters (inventory_fluids w db)
      = sum_rows (\<lambda>p. wf_item p = Some x) wf_liters (inventory_fluids w db)" for x
    unfolding sum_rows_def inventory_fluids_def
    by (rule arg_cong[where f = "\<lambda>l. sum_list (map wf_liters l)"], rule filter_cong)
       (auto simp: stocked_item_def or_null_def split: option.splits if_splits)
  have "stock_qty h x db' = stock_qty h x db -
        (if Some h = closing_warehouse b w
         then sum_rows (\<lambda>p. wp_item p = Some x) wp_qty (inventory_parts w db)
            + sum_rows (\<lambda>f. wf_item f = Some x) wf_liters (inventory_fluids w db) else 0)" for h x
    using posts_moves_qty[OF moves, of h x] close_guards_warehouse[OF guards]
    by (cases "closing_warehouse b w")
       (auto simp: closing_moves_def net_qty_append net_qty_parts net_qty_fluids parts fluids)
  moreover have "moved = (\<lambda>e. (en_cell e, en_type e, en_qty e))"
    by (rule ext) (simp add: moved_def)
  ultimately show ?thesis using moves by (simp add: posts_moves_def)
qed

text \<open>An order with a part of the stocked item: the fixture of the properties on closing.\<close>

definition part_order :: work_order where
  "part_order = dated_order\<lparr>wo_parts := [\<lparr>wp_id = ''p'', wp_item = Some ''i1'', wp_qty = 3, wp_cost = None\<rparr>]\<rparr>"

definition workshop :: ops_db where
  "workshop = dated\<lparr>warehouses := warehouses small_db, items := items small_db,
     stocks := stocks small_db, configs := configs small_db, work_orders := [part_order]\<rparr>"

definition close_from :: "id \<Rightarrow> status_body" where
  "close_from wh = (close_body OT_CLOSED)\<lparr>sb_warehouse := Some wh\<rparr>"

lemma workshop_closes: "\<not> isl (updateStatus exact 20 plain_user ''w'' (close_from ''w1'') None workshop)"
  by code_simp

lemma closing_posts_its_issues_witness:
  "\<exists>db'. updateStatus exact 20 plain_user ''w'' (close_from ''w1'') None workshop = Inr db'
     \<and> stock_qty ''w1'' ''i1'' db' = 7 \<and> stock_qty ''w2'' ''i1'' db' = 0"
proof -
  obtain db' where c: "updateStatus exact 20 plain_user ''w'' (close_from ''w1'') None workshop = Inr db'"
    using workshop_closes by (cases "updateStatus exact 20 plain_user ''w'' (close_from ''w1'') None workshop") simp_all
  have acc: "workOrderAccess plain_user ''w'' None workshop = Some part_order" by code_simp
  have b: "sb_status (close_from ''w1'') = OT_CLOSED" "closing_warehouse (close_from ''w1'') part_order = Some ''w1''"
    by code_simp+
  have lines: "inventory_parts part_order workshop = wo_parts part_order"
    "inventory_fluids part_order workshop = []" by code_simp+
  have "stock_qty ''w1'' ''i1'' workshop = 10" "stock_qty ''w2'' ''i1'' workshop = 0" by code_simp+
  moreover have "sum_rows (\<lambda>p. wp_item p = Some ''i1'') wp_qty (wo_parts part_order) = 3" by code_simp
  moreover have "sum_rows (\<lambda>f. wf_item f = Some ''i1'') wf_liters [] = 0" by code_simp
  ultimately show ?thesis
    using c closing_posts_its_issues[OF c b(1) acc] b(2) by (simp add: lines)
qed

section \<open>Costs that the user may not see\<close>

lemma response_cost_blind:
  "\<not> userCanViewInventoryCost (Some u) \<Longrightarrow> response_cost u dto db = 0"
  by (auto simp: response_cost_def movement_response_def maskCostValue_def or_zero_def
      split: option.split bind_split)

definition spends_nothing :: "'a ops_db_scheme \<times> qty \<Rightarrow> 'a ops_db_scheme \<times> qty \<Rightarrow> bool" where
  "spends_nothing s s' \<longleftrightarrow> snd s' = snd s \<and> asset_costs (fst s') = asset_costs (fst s)"

lemma for_each_spends_nothing:
  assumes "for_each f xs s = Inr s'" and "\<And>x s s'. f x s = Inr s' \<Longrightarrow> spends_nothing s s'"
  shows "spends_nothing s s'"
  by (rule for_each_related[OF assms(1), where R = spends_nothing])
     (use assms(2) in \<open>auto simp: spends_nothing_def\<close>)

lemma core_asset_costs:
  fixes db :: "'a ops_db_scheme"
  shows "performTransactionCore rnd4 dto u db = Inr db' \<Longrightarrow> asset_costs db' = asset_costs db"
  by (drule core_doc_frame) (rule more_frame(7))

lemma lines_spend_nothing:
  assumes "\<not> userCanViewInventoryCost (Some u)"
  shows "issue_part rn u wh o' p s = Inr s' \<Longrightarrow> spends_nothing s s'"
    and "issue_fluid rn u c wh o' f s = Inr s' \<Longrightarrow> spends_nothing s s'"
    and "dispatch_line rn u wh r l s = Inr s' \<Longrightarrow> spends_nothing s s'"
  by (auto simp: issue_part_def issue_fluid_def dispatch_line_def and_then_eq_Inr Let_def
      spends_nothing_def response_cost_blind[OF assms] set_lube_report_def
      dest: core_asset_costs split: prod.splits option.splits)

lemma blind_closing:
  assumes blind: "\<not> userCanViewInventoryCost (Some u)" and "close_order rn now u b w e db = Inr db'"
  shows "asset_costs db' = asset_costs db"
proof -
  obtain hm db1 db2 spent db3
    where m: "close_meter now u b w e (set_work_order (wo_id w) (closed_order rn now b hm) db) = Inr db1"
    and i: "issue_all rn u b (closing_warehouse b w) w (inventory_parts w db) (inventory_fluids w db) db1
              = Inr (db2, spent)"
    and c: "record_order_cost rn w spent db2 = Inr db3" and s: "db' = settle_equipment u b w hm db3"
    using assms(2) unfolding close_order_def and_then_eq_Inr closing_warehouse_def
    by (auto simp: and_then_eq_Inr)
  have "spends_nothing (db1, 0) (db2, spent)"
  proof (cases "closing_warehouse b w")
    case None
    with i show ?thesis by (simp add: issue_all_def spends_nothing_def)
  next
    case (Some wh)
    with i obtain s1 where p: "for_each (issue_part rn u wh (wo_id w)) (inventory_parts w db) (db1, 0) = Inr s1"
      and f: "for_each (issue_fluid rn u (sb_fluid b) wh (wo_id w)) (inventory_fluids w db) s1 = Inr (db2, spent)"
      by (auto simp: issue_all_def and_then_eq_Inr)
    have "spends_nothing (db1, 0) s1"
      by (rule for_each_spends_nothing[OF p]) (rule lines_spend_nothing(1)[OF blind])
    moreover have "spends_nothing s1 (db2, spent)"
      by (rule for_each_spends_nothing[OF f]) (rule lines_spend_nothing(2)[OF blind])
    ultimately show ?thesis by (simp add: spends_nothing_def)
  qed
  moreover have "asset_costs db1 = asset_costs db"
    using close_meter_InrD[OF m] by (auto simp: applyCurrentMeterChange_def)
  ultimately show ?thesis
    using c by (simp add: spends_nothing_def record_order_cost_def s settle_equipment_def Let_def)
qed

lemma blind_dispatch:
  assumes blind: "\<not> userCanViewInventoryCost (Some u)" and "lube_createReport rn n now u d db = Inr db'"
  shows "asset_costs db' = asset_costs db"
proof -
  obtain w e where w: "tenant_warehouse (lq_warehouse d) (user_tenant u) db = Some w"
    and e: "find_equipment (lq_equipment d) (user_tenant u) db = Some e"
    using assms by (auto simp: lube_createReport_def split: option.splits if_splits)
  obtain db1 where m: "lube_meter now u d e db = Inr db1"
    using assms by (auto simp: lube_createReport_def w e and_then_eq_Inr split: if_splits)
  obtain corr db2 where c: "getNextCorrelative (user_tenant u) LUBE_REPORT_DOCUMENT_TYPE
      LUBE_REPORT_PREFIX (Some 5) None db1 = (corr, db2)" by fastforce
  obtain row db4 spent where lines: "for_each (dispatch_line rn u (lq_warehouse d) n) (lq_lines d)
        (db2\<lparr>lube_reports := lube_reports db2 @ [row]\<rparr>, 0) = Inr (db4, spent)"
    and cost: "0 < spent \<or> db' = db4"
    using assms by (auto simp: lube_createReport_def w e m c and_then_eq_Inr and_then_def[of "Inr db1"] split: if_splits)
  have "asset_costs db1 = asset_costs db"
    using m by (auto simp: lube_meter_def advance_meter_def applyCurrentMeterChange_def split: option.splits if_splits)
  moreover have "asset_costs db2 = asset_costs db1"
    using c by (auto simp: getNextCorrelative_def Let_def)
  moreover have "spends_nothing (db2\<lparr>lube_reports := lube_reports db2 @ [row]\<rparr>, 0) (db4, spent)"
    by (rule for_each_spends_nothing[OF lines]) (rule lines_spend_nothing(3)[OF blind])
  ultimately show ?thesis using cost by (simp add: spends_nothing_def)
qed

text \<open>
  C30. A user without the permission to see costs leaves no cost behind: the closing of an order
  and the dispatch of lubricants read the cost of what they move from the response of the stock
  service, which hides it, so they record no cost for the equipment whatever the stock is worth.
\<close>

theorem blind_user_records_no_cost:
  assumes "\<not> userHasPermission (Some u) ''inventory:stock:view_cost''"
    and "updateStatus rn now u i b site db = Inr db' \<or> lube_createReport rn n now u d db = Inr db'"
  shows "asset_costs db' = asset_costs db"
proof -
  have blind: "\<not> userCanViewInventoryCost (Some u)"
    using assms(1) by (simp add: userCanViewInventoryCost_def)
  have "asset_costs (change_status now w st db) = asset_costs db" for w st
    by (simp add: change_status_def Let_def set_work_order_def)
  then show ?thesis
    using assms(2) blind_closing[OF blind] blind_dispatch[OF blind]
    by (auto simp: updateStatus_def split: option.splits if_splits)
qed

definition seeing_user :: user where
  "seeing_user = plain_user\<lparr>user_permissions := Some [''inventory:stock:view_cost'']\<rparr>"

definition recorded_costs :: "user \<Rightarrow> qty list res" where
  "recorded_costs u = map_sum id (\<lambda>db. map ac_amount (asset_costs db))
     (updateStatus exact 20 u ''w'' (close_from ''w1'') None workshop)"

lemma blind_user_records_no_cost_witness:
  "recorded_costs plain_user = Inr [] \<and> recorded_costs seeing_user = Inr [12]"
proof
  obtain db' where c: "updateStatus exact 20 plain_user ''w'' (close_from ''w1'') None workshop = Inr db'"
    using workshop_closes by (cases "updateStatus exact 20 plain_user ''w'' (close_from ''w1'') None workshop") simp_all
  have blind: "\<not> userHasPermission (Some plain_user) ''inventory:stock:view_cost''" by code_simp
  have "asset_costs db' = asset_costs workshop"
    by (rule blind_user_records_no_cost[OF blind]) (use c in blast)
  also have "asset_costs workshop = []" by code_simp
  finally show "recorded_costs plain_user = Inr []" by (simp add: recorded_costs_def c)
  show "recorded_costs seeing_user = Inr [12]" by code_simp
qed

section \<open>Numbers and promotions\<close>

text \<open>
  An item of the backlog is never promoted to a new order, in any state and for any user: the
  request that the promotion builds has no system and no symptoms, which the creation requires.
  Every such call is an error and writes nothing.
\<close>

theorem backlog_promotion_to_order_fails:
  "\<exists>err. promoteBacklogItem active ids u i x TO_NEW_OT site db = Inl err"
proof (cases "promoteBacklogItem active ids u i x TO_NEW_OT site db")
  case (Inr db')
  then show ?thesis
    by (auto simp: promoteBacklogItem_def Let_def and_then_eq_Inr split: option.splits if_splits)
qed simp

text \<open>A number that is taken: some order of the tenant has the number that follows the count.\<close>

definition number_taken :: "nat \<Rightarrow> id \<Rightarrow> 'a ops_db_scheme \<Rightarrow> bool" where
  "number_taken year tenant db \<longleftrightarrow>
     (\<exists>w \<in> set (work_orders db). wo_tenant w = tenant \<and> wo_correlative w = wo_correlative_text year tenant db)"

lemma taken_refused:
  assumes "number_taken year (wo_tenant x) db" and "wo_correlative x = wo_correlative_text year (wo_tenant x) db"
  shows "create_work_order x db \<noteq> Inr db'"
  using assms by (auto simp: number_taken_def create_work_order_def list_ex_iff)

lemma number_taken_cong:
  "work_orders db1 = work_orders db \<Longrightarrow> number_taken year t db1 = number_taken year t db"
  by (simp add: number_taken_def wo_correlative_text_def wo_count_def)

lemma taken_blocks_creation:
  assumes "number_taken (no_year ids) (user_tenant u) db"
  shows "wo_create active ids u d db \<noteq> Inr db'"
proof
  assume "wo_create active ids u d db = Inr db'"
  then obtain e imp ini db1 where "create_work_order (new_order ids u d e
      (wo_correlative_text (no_year ids) (user_tenant u) db) imp ini) db = Inr db1"
    by (auto simp: wo_create_def and_then_eq_Inr split: option.splits)
  moreover have "wo_tenant (new_order ids u d e c imp ini) = user_tenant u"
    "wo_correlative (new_order ids u d e c imp ini) = c" for c
    by (simp_all add: new_order_def plain_order_def Let_def)
  ultimately show False
    using taken_refused[of "no_year ids" "new_order ids u d e
      (wo_correlative_text (no_year ids) (user_tenant u) db) imp ini" db] assms by simp
qed

lemma taken_blocks_faults:
  assumes "number_taken (fresh_year fr) (user_tenant u) db" and "fd_criticality f \<noteq> CR_LOW"
  shows "fault_create fr u f db \<noteq> Inr db'"
proof
  assume "fault_create fr u f db = Inr db'"
  then obtain e db1 where o: "work_orders db1 = work_orders db" and
    r: "criticality_rules fr u f e (advance_meter (user_tenant u) e (fd_meter f) SRC_FAULT_REPORT
      (Some (fresh_fault fr)) (acting_user_id u) (fresh_now fr) db1) = Inr db'"
    by (rule fault_create_InrE)
  let ?db = "advance_meter (user_tenant u) e (fd_meter f) SRC_FAULT_REPORT
      (Some (fresh_fault fr)) (acting_user_id u) (fresh_now fr) db1"
  let ?w = "order_of_fault fr u f e (wo_correlative_text (fresh_year fr) (user_tenant u) ?db)"
  have "fd_criticality f = CR_HIGH \<or> fd_criticality f = CR_MEDIUM"
    using assms(2) by (cases "fd_criticality f") simp_all
  with r obtain db3 where "create_work_order ?w ?db = Inr db3"
    by (auto simp: criticality_rules_def and_then_eq_Inr)
  moreover have "number_taken (fresh_year fr) (user_tenant u) ?db"
    using assms(1) o number_taken_cong[of ?db db] by simp
  ultimately show False
    using taken_refused[of "fresh_year fr" ?w ?db] by (auto simp: order_of_fault_def plain_order_def Let_def)
qed

lemma taken_blocks_escalation:
  assumes "number_taken (fresh_year fr) (user_tenant u) db"
  shows "createWorkOrderFromReport fr u r db \<noteq> Inr db'"
proof -
  have "create_work_order x db \<noteq> Inr db1"
    if "wo_tenant x = user_tenant u" "wo_correlative x = wo_correlative_text (fresh_year fr) (user_tenant u) db"
    for x db1 using assms that by (intro taken_refused[where year = "fresh_year fr"]) simp_all
  then show ?thesis
    by (auto simp: createWorkOrderFromReport_def and_then_eq_Inr Let_def plain_order_def
        split: option.splits if_splits)
qed

text \<open>
  The number of a new order is counted, not drawn from a counter. Where an order of the tenant
  already has the number that follows the count (an order with a smaller number was deleted with
  its equipment), no order can be created any more: not from the form, not by a fault of high or
  medium criticality (which is then refused with its stop of the equipment), not by escalation.
\<close>

theorem number_collision_blocks_orders:
  assumes "w \<in> set (work_orders db)" "wo_tenant w = user_tenant u"
    and "wo_correlative w = wo_correlative_text year (user_tenant u) db"
  shows "(no_year ids = year \<longrightarrow> (\<exists>err. wo_create active ids u d db = Inl err))
    \<and> (fresh_year fr = year \<and> fd_criticality f \<noteq> CR_LOW \<longrightarrow> (\<exists>err. fault_create fr u f db = Inl err))
    \<and> (fresh_year fr = year \<longrightarrow> (\<exists>err. createWorkOrderFromReport fr u r db = Inl err))"
proof -
  have "number_taken year (user_tenant u) db" using assms by (auto simp: number_taken_def)
  then show ?thesis
    using taken_blocks_creation taken_blocks_faults taken_blocks_escalation by (metis sum.exhaust)
qed

text \<open>Two orders of two trucks; the fleet import then deletes the first truck and its order.\<close>

definition two_orders :: ops_db where
  "two_orders = broken\<lparr>equipments := [truck, truck\<lparr>eq_id := ''e2'', eq_internal := ''EX-2''\<rparr>],
     fault_reports := [],
     work_orders := [brakes_order, brakes_order\<lparr>wo_id := ''w2'', wo_equipment := ''e2'',
       wo_correlative := ''OT-2025-002''\<rparr>]\<rparr>"

definition one_order_left :: ops_db where
  "one_order_left = (case deleteEquipmentWithAssociations ''t'' ''e'' two_orders of
     Inr db \<Rightarrow> db | Inl _ \<Rightarrow> two_orders)"

lemma number_collision_blocks_orders_witness:
  "\<not> isl (deleteEquipmentWithAssociations ''t'' ''e'' two_orders)
   \<and> (\<exists>err. fault_create (brakes_ids\<lparr>fresh_order := ''w3''\<rparr>) plain_user
        (brakes_dto\<lparr>fd_equipment := ''e2''\<rparr>) one_order_left = Inl err)"
proof
  show "\<not> isl (deleteEquipmentWithAssociations ''t'' ''e'' two_orders)" by code_simp
  let ?w = "brakes_order\<lparr>wo_id := ''w2'', wo_equipment := ''e2'', wo_correlative := ''OT-2025-002''\<rparr>"
  have left: "work_orders one_order_left = [?w]" by code_simp
  have num: "wo_correlative ?w = wo_correlative_text 2025 (user_tenant plain_user) one_order_left"
    by code_simp
  have t: "wo_tenant ?w = user_tenant plain_user" by code_simp
  show "\<exists>err. fault_create (brakes_ids\<lparr>fresh_order := ''w3''\<rparr>) plain_user
        (brakes_dto\<lparr>fd_equipment := ''e2''\<rparr>) one_order_left = Inl err"
    using number_collision_blocks_orders[of ?w one_order_left plain_user 2025, OF _ t num]
    by (simp add: left brakes_ids_def brakes_dto_def)
qed

end
