(* ===== verification/Fleet_Properties.thy ===== *)
theory Fleet_Properties
  imports Equipment_System
begin

text \<open>
  Properties of the operations of the fleet: the outcome of a stop, the batch of shift reports as
  the sequence of its rows, the accounts of the bulk capture of readings and of the shift board.
\<close>

section \<open>A stop\<close>

lemma buildStubSymptom_long: "10 \<le> length (buildStubSymptom c st d)"
  by (simp add: buildStubSymptom_def Let_def)

lemma find_active_appended:
  assumes "fault_reports db' = fault_reports db @ [r]" and "fr_tenant r = t" "fr_equipment r = e"
    and "fr_status r = FR_OPEN"
  shows "findActiveFaultReport t e db' = Some r"
  using assms by (simp add: findActiveFaultReport_def)

lemma find_active_cong:
  assumes "fault_reports db' = fault_reports db" and "work_orders db' = work_orders db"
  shows "findActiveFaultReport t e db' = findActiveFaultReport t e db"
proof -
  have same: "linked_order_open r db' = linked_order_open r db" for r
    using assms(2) by (simp add: linked_order_open_def find_work_order_def split: option.split)
  show ?thesis by (simp only: findActiveFaultReport_def assms(1) same)
qed

lemma applyStop_InrE:
  assumes "applyStopTransition now inp e db = Inr (t, db')"
  obtains (kept) "findActiveFaultReport (ti_tenant inp) (ti_equipment inp) db \<noteq> None \<or> or_null (eq_contract e) = None"
      "fault_reports db' = fault_reports db" "work_orders db' = work_orders db" "\<not> rs_created t"
      "stopped (ti_equipment inp) db'" "\<not> rs_operational t"
  | (stub) r where "findActiveFaultReport (ti_tenant inp) (ti_equipment inp) db = None"
      "or_null (eq_contract e) \<noteq> None" "fault_reports db' = fault_reports db @ [r]"
      "fr_tenant r = ti_tenant inp" "fr_equipment r = ti_equipment inp" "fr_status r = FR_OPEN"
      "fr_criticality r = CR_LOW" "10 \<le> length (fr_symptom r)" "rs_created t"
      "rs_fault t = Some (fr_id r)" "stopped (ti_equipment inp) db'" "\<not> rs_operational t"
proof (cases "findActiveFaultReport (ti_tenant inp) (ti_equipment inp) db")
  case (Some x)
  with assms kept show thesis by (auto simp: applyStopTransition_def Let_def stop_result_def)
next
  case None
  show thesis
  proof (cases "or_null (eq_contract e)")
    case None
    with assms kept \<open>findActiveFaultReport _ _ db = None\<close> show thesis
      by (auto simp: applyStopTransition_def Let_def stop_result_def)
  next
    case (Some c)
    obtain corr db1 where n: "getNextCorrelative (ti_tenant inp) FR_DOCUMENT_TYPE FR_PREFIX (Some 5)
        None db = (corr, db1)" by fastforce
    have frame: "fault_reports db1 = fault_reports db"
      using correlative_ops_frame[of "ti_tenant inp" FR_DOCUMENT_TYPE FR_PREFIX "Some 5" None db] n by simp
    let ?r = "\<lparr>fr_id = ti_fault_id inp, fr_tenant = ti_tenant inp, fr_contract = c,
       fr_equipment = ti_equipment inp, fr_by = ti_by inp, fr_correlative = corr,
       fr_event_date = resolveEventDate now (ti_report_time inp), fr_meter = ti_meter inp,
       fr_system = MOTOR, fr_criticality = CR_LOW,
       fr_symptom = buildStubSymptom (ti_comments inp) (ti_new inp) (ti_report_date inp),
       fr_status = FR_OPEN, fr_work_order = None\<rparr>"
    have "and_then (create_fault ?r db1) (\<lambda>db2. Inr (stop_result inp (Some ?r) True None,
        set_equipment (ti_equipment inp) (\<lambda>x. x\<lparr>eq_operational := False\<rparr>) db2)) = Inr (t, db')"
      using assms Some None n by (simp add: applyStopTransition_def Let_def)
    then obtain db2 where c: "create_fault ?r db1 = Inr db2"
      and t: "t = stop_result inp (Some ?r) True None"
      and d: "db' = set_equipment (ti_equipment inp) (\<lambda>x. x\<lparr>eq_operational := False\<rparr>) db2"
      unfolding and_then_eq_Inr by blast
    show thesis
      by (rule stub[of ?r])
         (simp_all add: None Some t d create_fault_InrD(1)[OF c] frame stop_result_def buildStubSymptom_long)
  qed
qed

text \<open>
  A report that declares an equipment down always leaves it out of service, and leaves an
  active fault report for it whenever the equipment has a contract: the one that was active, or
  else one new report of low criticality, still open, with a symptom of at least ten characters.
  So a second such report never adds another fault.
\<close>

theorem stop_leaves_one_active_fault:
  assumes "onOperationalStatusChange now inp db = Inr (t, db')" and "isStopStatus (ti_new inp)"
    and "find_equipment (ti_equipment inp) (ti_tenant inp) db = Some e"
  shows "stopped (ti_equipment inp) db' \<and> \<not> rs_operational t
    \<and> (\<exists>new. fault_reports db' = fault_reports db @ new
        \<and> (new \<noteq> [] \<longleftrightarrow> findActiveFaultReport (ti_tenant inp) (ti_equipment inp) db = None
             \<and> or_null (eq_contract e) \<noteq> None)
        \<and> (rs_created t \<longleftrightarrow> new \<noteq> []) \<and> length new \<le> 1
        \<and> (\<forall>r \<in> set new. fr_equipment r = ti_equipment inp \<and> fr_criticality r = CR_LOW
             \<and> fr_status r = FR_OPEN \<and> 10 \<le> length (fr_symptom r)))
    \<and> (or_null (eq_contract e) \<noteq> None \<longrightarrow>
         findActiveFaultReport (ti_tenant inp) (ti_equipment inp) db' \<noteq> None)"
proof -
  have a: "applyStopTransition now inp e db = Inr (t, db')"
    using assms by (simp add: onOperationalStatusChange_def)
  show ?thesis
  proof (cases rule: applyStop_InrE[OF a])
    case 1
    have "findActiveFaultReport (ti_tenant inp) (ti_equipment inp) db' =
        findActiveFaultReport (ti_tenant inp) (ti_equipment inp) db"
      by (rule find_active_cong[OF 1(2,3)])
    with 1 show ?thesis by auto
  next
    case (2 r)
    with find_active_appended[OF 2(3-6)] show ?thesis by auto
  qed
qed

definition down_input :: transition_input where
  "down_input = \<lparr>ti_tenant = ''t'', ti_equipment = ''e'', ti_new = DOWN_FAILURE, ti_previous = None,
     ti_meter = None, ti_comments = Some ''ruido'', ti_report_date = ''2025-01-02'',
     ti_report_time = Some 0, ti_by = ''u1'', ti_decision = None, ti_fault_id = ''f''\<rparr>"

lemma stop_leaves_one_active_fault_witness:
  "\<exists>t db'. onOperationalStatusChange 5 down_input one_truck = Inr (t, db')
     \<and> stopped ''e'' db' \<and> rs_created t \<and> length (fault_reports db') = 1"
proof -
  have "\<not> isl (onOperationalStatusChange 5 down_input one_truck)" by code_simp
  then obtain t db' where c: "onOperationalStatusChange 5 down_input one_truck = Inr (t, db')"
    by (cases "onOperationalStatusChange 5 down_input one_truck") auto
  have s: "isStopStatus (ti_new down_input)" by code_simp
  have e: "find_equipment (ti_equipment down_input) (ti_tenant down_input) one_truck = Some truck" by code_simp
  have n: "findActiveFaultReport (ti_tenant down_input) (ti_equipment down_input) one_truck = None"
    "or_null (eq_contract truck) \<noteq> None" "fault_reports one_truck = []"
    by code_simp+
  have "ti_equipment down_input = ''e''" by code_simp
  moreover have "stopped (ti_equipment down_input) db' \<and> rs_created t \<and> length (fault_reports db') = 1"
    using stop_leaves_one_active_fault[OF c s e] n by (auto simp: le_Suc_eq)
  ultimately show ?thesis using c by auto
qed

section \<open>The batch of shift reports\<close>

lemma upsertRow_InrE:
  assumes "upsertRow ids now u dt dms s row db = Inr (t, db')"
  obtains e prev d rid evat rows where
    "find_equipment (ar_equipment row) (user_tenant u) db = Some e"
    "after_report ids now u dt dms row e rid prev evat d (db\<lparr>availabilities := rows\<rparr>) = Inr (t, db')"
proof -
  obtain e where e: "find_equipment (ar_equipment row) (user_tenant u) db = Some e"
    using assms by (auto simp: upsertRow_def Let_def split: option.splits)
  have "\<exists>prev d rid evat rows.
      after_report ids now u dt dms row e rid prev evat d (db\<lparr>availabilities := rows\<rparr>) = Inr (t, db')"
    using assms unfolding upsertRow_def Let_def e option.case and_then_eq_Inr by blast
  with e that show thesis by blast
qed

text \<open>A row adds at most the fault report whose id it brought.\<close>

lemma upsertRow_faults:
  assumes "upsertRow ids now u dt dms s row db = Inr (t, db')"
  shows "fr_id ` set (fault_reports db') \<subseteq> insert (id_fault ids) (fr_id ` set (fault_reports db))"
proof -
  from assms obtain e prev d rid evat rows where
    a: "after_report ids now u dt dms row e rid prev evat d (db\<lparr>availabilities := rows\<rparr>) = Inr (t, db')"
    by (rule upsertRow_InrE)
  then obtain inp ev db1 where reg: "register (id_event ids) now ev (db\<lparr>availabilities := rows\<rparr>) = Inr db1"
    and fid: "ti_fault_id inp = id_fault ids" and
    change: "onOperationalStatusChange now inp (advance_meter (user_tenant u) e (ar_meter row)
       SRC_AVAILABILITY_REPORT (Some rid) (acting_user_id u) now db1) = Inr (t, db')"
    unfolding after_report_def and_then_eq_Inr by (metis transition_input.select_convs(11))
  have "fault_reports db1 = fault_reports db" using register_frame(4)[OF reg] by simp
  then show ?thesis
    by (cases rule: status_change_InrE[OF change]) (auto simp: fid)
qed

lemma batch_rows_run:
  assumes "distinct (map (\<lambda>(row, ids, now). id_fault ids) rows)"
    and "\<forall>(row, ids, now) \<in> set rows. id_fault ids \<notin> fr_id ` set (fault_reports db)"
    and "fold (batch_row u dt dms s) rows (db, res) = (db', res')"
  shows "report_step\<^sup>*\<^sup>* db db'
    \<and> ba_committed res' + length (ba_errors res') = ba_committed res + length (ba_errors res) + length rows
    \<and> length (ba_effects res') + ba_committed res = length (ba_effects res) + ba_committed res'"
  using assms
proof (induction rows arbitrary: db res)
  case Nil
  then show ?case by simp
next
  case (Cons x rows)
  obtain row ids now where x: "x = (row, ids, now)" by (cases x)
  have dist: "distinct (map (\<lambda>(row, ids, now). id_fault ids) rows)" using Cons.prems(1) by simp
  show ?case
  proof (cases "upsertRow ids now u dt dms s row db")
    case (Inl err)
    have "fold (batch_row u dt dms s) rows
        (db, res\<lparr>ba_errors := ba_errors res @ [(ar_equipment row, err)]\<rparr>) = (db', res')"
      using Cons.prems(3) by (simp add: x batch_row_def[of _ _ _ _ "(row, ids, now)"] Inl)
    from Cons.IH[OF dist _ this] Cons.prems(2) show ?thesis by simp
  next
    case (Inr r)
    obtain t db1 where r: "r = (t, db1)" by (cases r)
    have step: "report_step db db1"
      unfolding report_step_def using Inr r Cons.prems(2) by (auto simp: x intro!: exI)
    have fresh: "\<forall>(row', ids', now') \<in> set rows. id_fault ids' \<notin> fr_id ` set (fault_reports db1)"
    proof
      fix z assume "z \<in> set rows"
      obtain row' ids' now' where z: "z = (row', ids', now')" by (cases z)
      with \<open>z \<in> set rows\<close> have y: "(row', ids', now') \<in> set rows" by simp
      have "id_fault ids' \<in> (\<lambda>(row, ids, now). id_fault ids) ` set rows"
        using imageI[OF y, of "\<lambda>(row, ids, now). id_fault ids"] by simp
      moreover have "id_fault ids \<notin> (\<lambda>(row, ids, now). id_fault ids) ` set rows"
        using Cons.prems(1) by (simp add: x)
      ultimately have "id_fault ids' \<noteq> id_fault ids" by metis
      moreover have "id_fault ids' \<notin> fr_id ` set (fault_reports db)" using Cons.prems(2) y by auto
      ultimately have "id_fault ids' \<notin> fr_id ` set (fault_reports db1)"
        using upsertRow_faults[OF Inr[unfolded r]] by blast
      then show "case z of (row', ids', now') \<Rightarrow> id_fault ids' \<notin> fr_id ` set (fault_reports db1)"
        by (simp add: z)
    qed
    have "fold (batch_row u dt dms s) rows (db1, res\<lparr>ba_committed := ba_committed res + 1,
        ba_effects := ba_effects res @ [toAvailabilitySideEffect t (ar_status row)]\<rparr>) = (db', res')"
      using Cons.prems(3) by (simp add: x batch_row_def[of _ _ _ _ "(row, ids, now)"] Inr r)
    from Cons.IH[OF dist fresh this] converse_rtranclp_into_rtranclp[of report_step, OF step]
    show ?thesis by simp
  qed
qed

text \<open>
  A batch of shift reports (and the commit of an import, which runs the same rows) is the
  sequence of its rows: the state it leaves is reached by single reports, every row is either
  committed or listed with its error, and there is one side effect per committed row. So a batch
  keeps whatever every single report keeps, the rule on returns to service included.
\<close>

theorem batch_is_a_run_of_reports:
  assumes "batchCreate u dt dms s rows db = (db', res)"
    and "distinct (map (\<lambda>(row, ids, now). id_fault ids) rows)"
    and "\<forall>(row, ids, now) \<in> set rows. id_fault ids \<notin> fr_id ` set (fault_reports db)"
  shows "report_step\<^sup>*\<^sup>* db db' \<and> ba_committed res + length (ba_errors res) = length rows
    \<and> length (ba_effects res) = ba_committed res"
  using batch_rows_run[OF assms(2,3), of u dt dms "resolveShift (user_tenant u) s db"
      "\<lparr>ba_committed = 0, ba_errors = [], ba_effects = []\<rparr>" db' res] assms(1)
  by (simp add: batchCreate_def Let_def)

definition standby_row :: "id \<Rightarrow> report_row" where
  "standby_row e = \<lparr>ar_equipment = e, ar_status = STANDBY, ar_meter = Some 110, ar_comments = None\<rparr>"

definition row_ids :: "string \<Rightarrow> report_ids" where
  "row_ids n = \<lparr>id_report = ''a'' @ n, id_event = ''v'' @ n, id_fault = ''f'' @ n\<rparr>"

definition two_rows :: "(report_row \<times> report_ids \<times> int) list" where
  "two_rows = [(standby_row ''e'', row_ids ''1'', 5), (standby_row ''x'', row_ids ''2'', 6)]"

lemma batch_is_a_run_of_reports_witness:
  "\<exists>db' res. batchCreate plain_user ''2025-01-02'' 0 None two_rows one_truck = (db', res)
     \<and> report_step\<^sup>*\<^sup>* one_truck db' \<and> ba_committed res = 1 \<and> length (ba_errors res) = 1"
proof -
  obtain db' res where c: "batchCreate plain_user ''2025-01-02'' 0 None two_rows one_truck = (db', res)"
    by fastforce
  have "ba_committed (snd (batchCreate plain_user ''2025-01-02'' 0 None two_rows one_truck)) = 1"
    by code_simp
  then have one: "ba_committed res = 1" by (simp add: c)
  have d: "distinct (map (\<lambda>(row, ids, now). id_fault ids) two_rows)"
    "\<forall>(row, ids, now) \<in> set two_rows. id_fault ids \<notin> fr_id ` set (fault_reports one_truck)"
    by code_simp+
  have "length two_rows = 2" by code_simp
  with batch_is_a_run_of_reports[OF c d] one c show ?thesis by auto
qed

section \<open>The bulk capture of readings\<close>

definition meters_up :: "'a ops_db_scheme \<Rightarrow> 'a ops_db_scheme \<Rightarrow> bool" where
  "meters_up db db' \<longleftrightarrow> list_all2 (\<lambda>e e'. eq_id e' = eq_id e \<and> eq_meter_type e' = eq_meter_type e
     \<and> eq_meter e \<le> eq_meter e') (equipments db) (equipments db')"

lemma meters_up_refl: "meters_up db db"
  by (simp add: meters_up_def list_all2_same)

lemma meters_up_trans: "meters_up a b \<Longrightarrow> meters_up b c \<Longrightarrow> meters_up a c"
  unfolding meters_up_def by (erule (1) list_all2_trans[rotated]) auto

lemma meters_up_ids: "meters_up db db' \<Longrightarrow> equipment_ids db' = equipment_ids db"
  unfolding meters_up_def equipment_ids_def by (induction rule: list_all2_induct) auto

lemma meters_up_rows:
  assumes "meters_up db db'" and "e' \<in> set (equipments db')"
  obtains e where "e \<in> set (equipments db)" "eq_id e' = eq_id e" "eq_meter_type e' = eq_meter_type e"
    "eq_meter e \<le> eq_meter e'"
proof -
  obtain k where k: "k < length (equipments db')" "e' = equipments db' ! k"
    using assms(2) by (auto simp: in_set_conv_nth)
  with assms(1) that[of "equipments db ! k"] show thesis
    by (simp add: meters_up_def list_all2_conv_all_nth)
qed

lemma meters_up_apply:
  assumes "distinct (equipment_ids db)" and "e \<in> set (equipments db)" "eq_id e = i" "eq_meter e \<le> m"
  shows "meters_up db (applyCurrentMeterChange t i (eq_meter e) m s sid u d db)"
proof (cases "eq_meter e = m")
  case True
  then show ?thesis by (simp add: applyCurrentMeterChange_def meters_up_refl)
next
  case False
  have "eq_meter x \<le> m" if "x \<in> set (equipments db)" "eq_id x = i" for x
    using equipment_unique[OF assms(1) that(1) assms(2)] that(2) assms(3,4) by simp
  then show ?thesis
    using False
    by (simp add: meters_up_def applyCurrentMeterChange_def update_rows_def list_all2_map2 list_all2_same)
qed

lemma merge_items_Inr:
  assumes "merge_items raw m = Inr m'" and "distinct (map fst m)"
  shows "distinct (map fst m') \<and> fst ` set m' = fst ` set m \<union> bi_equipment ` set raw
    \<and> (\<forall>(i, v, c) \<in> set m'. (i, v, c) \<in> set m \<or> (\<exists>it \<in> set raw. bi_equipment it = i
        \<and> bi_reading it = of_int v \<and> (c \<longleftrightarrow> bi_confirmed it = Some True)))"
  using assms
proof (induction raw arbitrary: m)
  case Nil
  then show ?case by auto
next
  case (Cons it raw)
  let ?m = "AList.update (bi_equipment it) (\<lfloor>bi_reading it\<rfloor>, bi_confirmed it = Some True) m"
  from Cons.prems(1) have step: "merge_items raw ?m = Inr m'" and int: "is_integer (bi_reading it)"
    by (auto split: if_splits)
  have new: "x \<in> set m \<or> x = (bi_equipment it, \<lfloor>bi_reading it\<rfloor>, bi_confirmed it = Some True)"
    if "x \<in> set ?m" for x
    using that by (induction m) (auto split: if_splits)
  have keys: "fst ` set ?m = insert (bi_equipment it) (fst ` set m)"
    by (simp add: dom_update)
  note IH = Cons.IH[OF step distinct_update[OF Cons.prems(2)]]
  have "(i, v, c) \<in> set m \<or> (\<exists>x \<in> set (it # raw). bi_equipment x = i \<and> bi_reading x = of_int v
      \<and> (c \<longleftrightarrow> bi_confirmed x = Some True))" if "(i, v, c) \<in> set m'" for i v c
  proof -
    from that IH consider "(i, v, c) \<in> set ?m" | "\<exists>x \<in> set raw. bi_equipment x = i
        \<and> bi_reading x = of_int v \<and> (c \<longleftrightarrow> bi_confirmed x = Some True)" by blast
    then show ?thesis
    proof cases
      case 1
      with new[OF 1] int show ?thesis by (auto simp: is_integer_def)
    qed auto
  qed
  with IH keys show ?case by auto
qed

text \<open>One item of the capture.\<close>

lemma sync_reading_cases:
  assumes "distinct (equipment_ids db)" and "sync_reading now u site (i, v, c) (db, res) = (db', res')"
  obtains (kept) "db' = db" "br_applied res' = br_applied res"
      "br_success res' = br_success res"
      "br_unchanged res' + length (br_errors res') = br_unchanged res + length (br_errors res) + 1"
  | (read) e n where "e \<in> set (equipments db)" "eq_id e = i" "eq_meter e < v"
      "v - eq_meter e > getMeterJumpLimit (eq_meter_type e) \<longrightarrow> c" "meters_up db db'"
      "br_applied res' = br_applied res @ [(i, n, eq_meter e, v)]"
      "br_success res' = br_success res + 1" "br_unchanged res' = br_unchanged res"
      "br_errors res' = br_errors res"
proof (cases "find_scoped_equipment i u site db")
  case None
  with assms kept show thesis by (auto simp: sync_reading_def)
next
  case (Some e)
  note e = find_scoped_SomeD[OF Some]
  show thesis
  proof (cases "eq_meter e < v \<and> (v - eq_meter e > getMeterJumpLimit (eq_meter_type e) \<longrightarrow> c)")
    case True
    with assms(2) Some have
      "db' = applyCurrentMeterChange (user_tenant u) i (eq_meter e) v SRC_MANUAL None (acting_user_id u) now db"
      and r: "res' = res\<lparr>br_success := br_success res + 1,
        br_applied := br_applied res @ [(i, eq_internal e, eq_meter e, v)]\<rparr>"
      by (auto simp: sync_reading_def)
    with e True assms(1) have "meters_up db db'" by (simp add: meters_up_apply)
    from read[of e "eq_internal e", OF _ _ _ _ this] e True r show thesis by simp
  next
    case False
    with assms(2) Some have "db' = db" "br_applied res' = br_applied res" "br_success res' = br_success res"
      "br_unchanged res' + length (br_errors res') = br_unchanged res + length (br_errors res) + 1"
      by (auto simp: sync_reading_def split: if_splits)
    then show thesis by (rule kept)
  qed
qed

definition reading_ok :: "'a ops_db_scheme \<Rightarrow> (id \<times> int \<times> bool) list \<Rightarrow> id \<times> string \<times> int \<times> int \<Rightarrow> bool" where
  "reading_ok db its x \<longleftrightarrow> (case x of (i, n, old, v) \<Rightarrow> old < v \<and> (\<exists>e \<in> set (equipments db). \<exists>c.
     eq_id e = i \<and> (i, v, c) \<in> set its \<and> (v - old > getMeterJumpLimit (eq_meter_type e) \<longrightarrow> c)))"

lemma reading_ok_mono:
  assumes "reading_ok db1 its x" and "meters_up db db1"
  shows "reading_ok db (it # its) x"
  using assms(1) unfolding reading_ok_def
  by (auto elim!: meters_up_rows[OF assms(2)]) metis

lemma sync_fold:
  assumes "distinct (equipment_ids db)"
    and "fold (sync_reading now u site) its (db, res) = (db', res')"
  shows "meters_up db db' \<and> (\<exists>new. br_applied res' = br_applied res @ new \<and> (\<forall>x \<in> set new. reading_ok db its x)
      \<and> br_success res' = br_success res + length new)
    \<and> br_success res' + br_unchanged res' + length (br_errors res') =
        br_success res + br_unchanged res + length (br_errors res) + length its"
  using assms
proof (induction its arbitrary: db res)
  case Nil
  then show ?case by (simp add: meters_up_refl)
next
  case (Cons it its)
  obtain i v c where it: "it = (i, v, c)" by (cases it)
  obtain db1 res1 where s: "sync_reading now u site (i, v, c) (db, res) = (db1, res1)" by fastforce
  have rest: "fold (sync_reading now u site) its (db1, res1) = (db', res')"
    using Cons.prems(2) s by (simp add: it)
  show ?case
  proof (cases rule: sync_reading_cases[OF Cons.prems(1) s])
    case 1
    from Cons.IH[OF Cons.prems(1) rest[unfolded 1(1)]] obtain new where IH: "meters_up db db'"
      "br_applied res' = br_applied res1 @ new" "\<forall>x \<in> set new. reading_ok db its x"
      "br_success res' = br_success res1 + length new"
      "br_success res' + br_unchanged res' + length (br_errors res') =
        br_success res1 + br_unchanged res1 + length (br_errors res1) + length its" by blast
    have "\<forall>x \<in> set new. reading_ok db (it # its) x"
      using IH(3) reading_ok_mono[OF _ meters_up_refl[of db]] by blast
    with IH 1 show ?thesis by (intro conjI exI[of _ new]) simp_all
  next
    case (2 e n)
    have d1: "distinct (equipment_ids db1)" using Cons.prems(1) meters_up_ids[OF 2(5)] by simp
    from Cons.IH[OF d1 rest] obtain new where IH: "meters_up db1 db'" "br_applied res' = br_applied res1 @ new"
      "\<forall>x \<in> set new. reading_ok db1 its x" "br_success res' = br_success res1 + length new"
      "br_success res' + br_unchanged res' + length (br_errors res') =
        br_success res1 + br_unchanged res1 + length (br_errors res1) + length its" by blast
    have "reading_ok db (it # its) (i, n, eq_meter e, v)"
      using 2(1-4) by (auto simp: reading_ok_def it)
    moreover have "\<forall>x \<in> set new. reading_ok db (it # its) x"
      using IH(3) reading_ok_mono[OF _ 2(5)] by blast
    ultimately show ?thesis
      using IH 2 meters_up_trans[OF 2(5) IH(1)]
      by (intro conjI exI[of _ "(i, n, eq_meter e, v) # new"]) simp_all
  qed
qed

text \<open>
  The bulk capture of readings accounts for every equipment of the request exactly once
  (applied, unchanged or an error), never lowers a meter, applies a reading only to an equipment
  that exists and that the request names, and applies a jump over the limit of the meter's kind
  only where the last item of the request for that equipment confirms it.
\<close>

theorem bulk_capture_accounts:
  assumes "bulkSyncMeterReadings now u site raw db = Inr (db', res)" and "distinct (equipment_ids db)"
  shows "br_success res + br_unchanged res + length (br_errors res) = card (bi_equipment ` set raw)
    \<and> length (br_applied res) = br_success res
    \<and> (\<forall>e' \<in> set (equipments db'). \<exists>e \<in> set (equipments db). eq_id e = eq_id e' \<and> eq_meter e \<le> eq_meter e')
    \<and> (\<forall>(i, n, old, v) \<in> set (br_applied res). old < v \<and> (\<exists>e \<in> set (equipments db). \<exists>it \<in> set raw.
         eq_id e = i \<and> bi_equipment it = i \<and> bi_reading it = of_int v
         \<and> (v - old > getMeterJumpLimit (eq_meter_type e) \<longrightarrow> bi_confirmed it = Some True)))"
proof -
  obtain its where its: "merge_items raw [] = Inr its"
    and run: "fold (sync_reading now u site) its (db, no_readings) = (db', res)"
    using assms(1) by (auto simp: bulkSyncMeterReadings_def and_then_eq_Inr split: if_splits)
  have m: "distinct (map fst its)" "fst ` set its = bi_equipment ` set raw"
    and items: "\<forall>(i, v, c) \<in> set its. \<exists>it \<in> set raw. bi_equipment it = i \<and> bi_reading it = of_int v
        \<and> (c \<longleftrightarrow> bi_confirmed it = Some True)"
    using merge_items_Inr[OF its] by auto
  have len: "length its = card (bi_equipment ` set raw)"
    using distinct_card[OF m(1)] m(2) by simp
  note f = sync_fold[OF assms(2) run]
  have "reading_ok db its x" if "x \<in> set (br_applied res)" for x
    using f that by (auto simp: no_readings_def)
  then have "\<forall>(i, n, old, v) \<in> set (br_applied res). old < v \<and> (\<exists>e \<in> set (equipments db). \<exists>it \<in> set raw.
         eq_id e = i \<and> bi_equipment it = i \<and> bi_reading it = of_int v
         \<and> (v - old > getMeterJumpLimit (eq_meter_type e) \<longrightarrow> bi_confirmed it = Some True))"
    using items unfolding reading_ok_def by (fastforce)
  moreover have "\<exists>e \<in> set (equipments db). eq_id e = eq_id e' \<and> eq_meter e \<le> eq_meter e'"
    if "e' \<in> set (equipments db')" for e'
    using meters_up_rows[OF conjunct1[OF f] that] by metis
  ultimately show ?thesis using f len by (auto simp: no_readings_def)
qed

definition capture :: "bulk_item list" where
  "capture = [\<lparr>bi_equipment = ''e'', bi_reading = 90, bi_confirmed = None\<rparr>,
     \<lparr>bi_equipment = ''x'', bi_reading = 5, bi_confirmed = None\<rparr>,
     \<lparr>bi_equipment = ''e'', bi_reading = 150, bi_confirmed = Some True\<rparr>]"

lemma bulk_capture_accounts_witness:
  "\<exists>db' res. bulkSyncMeterReadings 7 plain_user None capture one_truck = Inr (db', res)
     \<and> br_success res + br_unchanged res + length (br_errors res) = 2
     \<and> (\<exists>n old v. (''e'', n, old, v) \<in> set (br_applied res) \<and> old < v)"
proof -
  have "map_sum id (\<lambda>(db, r). br_applied r) (bulkSyncMeterReadings 7 plain_user None capture one_truck)
      = Inr [(''e'', ''EX-1'', 100, 150)]" by code_simp
  then obtain db' res where c: "bulkSyncMeterReadings 7 plain_user None capture one_truck = Inr (db', res)"
    and a: "br_applied res = [(''e'', ''EX-1'', 100, 150)]"
    by (cases "bulkSyncMeterReadings 7 plain_user None capture one_truck") auto
  have d: "distinct (equipment_ids one_truck)" by code_simp
  have "bi_equipment ` set capture = {''e'', ''x''}" by (simp add: capture_def insert_commute)
  then have "card (bi_equipment ` set capture) = 2" by simp
  then show ?thesis using bulk_capture_accounts[OF c d] c a by auto
qed

section \<open>The board of a shift\<close>

lemma sum_of_classes:
  assumes "finite A" and "f ` set xs \<subseteq> A"
  shows "(\<Sum>c \<in> A. length (filter (\<lambda>x. f x = c) xs)) = length xs"
  using assms(2)
proof (induction xs)
  case Nil
  then show ?case by simp
next
  case (Cons x xs)
  have "(\<Sum>c \<in> A. length (filter (\<lambda>y. f y = c) (x # xs)))
      = (\<Sum>c \<in> A. (if f x = c then 1 else 0) + length (filter (\<lambda>y. f y = c) xs))"
    by (rule sum.cong) auto
  also have "\<dots> = 1 + length xs"
    using Cons assms(1) by (simp add: sum.distrib)
  finally show ?case by simp
qed

lemma sum_list_classes:
  "sum_list (map (\<lambda>c. length (filter (\<lambda>x. f x = c) xs)) (rev (remdups (rev (map f xs))))) = length xs"
  using sum_of_classes[of "f ` set xs" f xs]
  by (simp add: sum_list_distinct_conv_sum_set)

lemma sum_statuses:
  assumes "\<forall>r \<in> set rows. bo_status r \<noteq> None"
  shows "sum_list (map (\<lambda>s. length (filter (\<lambda>r. bo_status r = Some s) rows)) all_statuses) = length rows"
proof -
  have all: "set all_statuses = UNIV"
    using op_status.exhaust by (auto simp: all_statuses_def)
  have "distinct all_statuses" by (simp add: all_statuses_def)
  then have "sum_list (map (\<lambda>s. length (filter (\<lambda>r. bo_status r = Some s) rows)) all_statuses)
      = (\<Sum>s \<in> UNIV. length (filter (\<lambda>r. the (bo_status r) = s) rows))"
    using assms
    by (simp add: sum_list_distinct_conv_sum_set all)
       (rule sum.cong[OF refl], rule arg_cong[where f = length], rule filter_cong, auto)
  also have "\<dots> = length rows"
    by (rule sum_of_classes) (metis all finite_set, simp)
  finally show ?thesis .
qed

lemma board_row_kinds:
  "bo_operational (board_row_of rs e) \<longleftrightarrow> bo_kind (board_row_of rs e) \<noteq> EXCLUDED"
  "bo_kind (board_row_of rs e) = REPORTED \<Longrightarrow> bo_status (board_row_of rs e) \<noteq> None"
  by (auto simp: board_row_of_def Let_def split: option.splits if_splits)

lemma count_kinds:
  "count_kind REPORTED rows + count_kind PENDING rows + count_kind EXCLUDED rows = length rows"
proof (induction rows)
  case (Cons r rows)
  then show ?case by (cases "bo_kind r") (simp_all add: count_kind_def)
qed (simp add: count_kind_def)

lemma js_round_percent:
  assumes "a \<le> b" and "0 < b"
  shows "0 \<le> js_round (of_nat a / of_nat b * 100) \<and> js_round (of_nat a / of_nat b * 100) \<le> 100"
proof -
  have "0 \<le> (of_nat a / of_nat b * 100 :: qty)" by simp
  moreover have "(of_nat a / of_nat b * 100 :: qty) \<le> 100" using assms by (simp add: divide_le_eq)
  ultimately show ?thesis by (simp add: js_round_def le_floor_iff floor_le_iff)
qed

lemma completion_percent:
  assumes "length a \<le> length b"
  shows "0 \<le> (if b = [] then 100 else js_round (of_nat (length a) / of_nat (length b) * 100))
    \<and> (if b = [] then 100 else js_round (of_nat (length a) / of_nat (length b) * 100)) \<le> 100"
  using js_round_percent[OF assms] by (cases b) simp_all

lemma page_length: "length (page_of p s xs) \<le> 100"
proof -
  have "length (page_of p s xs) \<le> clamp_page_size s" by (simp add: page_of_def)
  also have "\<dots> \<le> 100" by (simp add: clamp_page_size_def)
  finally show ?thesis .
qed

text \<open>What holds of every row of a board, and the sums of a summary of such rows.\<close>

definition kinds_ok :: "board_row list \<Rightarrow> bool" where
  "kinds_ok rows \<longleftrightarrow> (\<forall>r \<in> set rows. (bo_operational r \<longleftrightarrow> bo_kind r \<noteq> EXCLUDED)
     \<and> (bo_kind r = REPORTED \<longrightarrow> bo_status r \<noteq> None))"

lemma kinds_ok_board: "kinds_ok (map (board_row_of rs) es)"
  by (auto simp: kinds_ok_def board_row_kinds(1) simp del: not_None_eq dest: board_row_kinds(2))

lemma split_of_operational:
  assumes "kinds_ok rows"
  shows "length (filter P (filter bo_operational rows))
    = count_kind REPORTED (filter P (filter bo_operational rows))
      + count_kind PENDING (filter P (filter bo_operational rows))"
proof -
  have "count_kind EXCLUDED (filter P (filter bo_operational rows)) = 0"
    using assms by (auto simp: count_kind_def filter_empty_conv kinds_ok_def)
  then show ?thesis using count_kinds[of "filter P (filter bo_operational rows)"] by simp
qed

lemma summary_counts:
  assumes "kinds_ok rows"
  shows "bs_total (board_summary_of rows) = bs_reported (board_summary_of rows) + bs_unreported (board_summary_of rows)"
    "bs_total (board_summary_of rows) + bs_excluded (board_summary_of rows) = length rows"
    "0 \<le> bs_completion (board_summary_of rows) \<and> bs_completion (board_summary_of rows) \<le> 100"
proof -
  let ?op = "filter bo_operational rows"
  show "bs_total (board_summary_of rows) = bs_reported (board_summary_of rows) + bs_unreported (board_summary_of rows)"
    using split_of_operational[OF assms, of "\<lambda>_. True"]
    by (simp add: board_summary_of_def Let_def count_kind_def)
  have "filter (\<lambda>r. bo_kind r = EXCLUDED) rows = filter (\<lambda>r. \<not> bo_operational r) rows"
    using assms by (intro filter_cong refl) (auto simp: kinds_ok_def)
  then show "bs_total (board_summary_of rows) + bs_excluded (board_summary_of rows) = length rows"
    using sum_length_filter_compl[of bo_operational rows]
    by (simp add: board_summary_of_def Let_def count_kind_def)
  show "0 \<le> bs_completion (board_summary_of rows) \<and> bs_completion (board_summary_of rows) \<le> 100"
    unfolding board_summary_of_def Let_def board_summary.select_convs
    by (rule completion_percent) (rule length_filter_le)
qed

lemma summary_splits:
  assumes "kinds_ok rows"
  shows "sum_list (map snd (bs_by_status (board_summary_of rows))) = bs_reported (board_summary_of rows)"
    "sum_list (map cc_total (bs_by_contract (board_summary_of rows))) = bs_total (board_summary_of rows)"
    "\<forall>x \<in> set (bs_by_contract (board_summary_of rows)). cc_total x = cc_reported x + cc_unreported x"
proof -
  let ?op = "filter bo_operational rows"
  let ?rep = "filter (\<lambda>r. bo_kind r = REPORTED) ?op"
  have "sum_list (map (\<lambda>s. length (filter (\<lambda>r. bo_status r = Some s) ?rep)) all_statuses) = length ?rep"
    by (rule sum_statuses) (use assms in \<open>auto simp: kinds_ok_def\<close>)
  then show "sum_list (map snd (bs_by_status (board_summary_of rows))) = bs_reported (board_summary_of rows)"
    by (simp add: board_summary_of_def Let_def comp_def)
  have by_contract: "bs_by_contract (board_summary_of rows)
      = map (contract_row ?op) (rev (remdups (rev (map bo_contract ?op))))"
    by (simp add: board_summary_of_def Let_def)
  have contracts: "sum_list (map cc_total (map (contract_row ?op) cs)) =
      sum_list (map (\<lambda>c. length (filter (\<lambda>r. bo_contract r = c) ?op)) cs)" for cs
    by (simp add: contract_row_def Let_def comp_def)
  have "sum_list (map cc_total (bs_by_contract (board_summary_of rows))) = length ?op"
    unfolding by_contract contracts by (rule sum_list_classes)
  then show "sum_list (map cc_total (bs_by_contract (board_summary_of rows))) = bs_total (board_summary_of rows)"
    by (simp add: board_summary_of_def Let_def)
  show "\<forall>x \<in> set (bs_by_contract (board_summary_of rows)). cc_total x = cc_reported x + cc_unreported x"
    using split_of_operational[OF assms] by (auto simp: by_contract contract_row_def Let_def)
qed

text \<open>
  The summary of the shift board adds up, for every user, filter, tab and page. Every
  equipment in scope is counted once, as reported, unreported or excluded; the counts by status
  split the reported ones and the counts by contract split the total; the completion is a
  percentage; a page never has more than 100 rows.
\<close>

theorem shift_board_adds_up:
  assumes "getShiftBoard u date s c hits tab p k db = (sm, shown, n)"
  shows "bs_total sm = bs_reported sm + bs_unreported sm
    \<and> bs_total sm + bs_excluded sm = length (scoped_fleet (buildEquipmentScopeWhere u c False) hits db)
    \<and> sum_list (map snd (bs_by_status sm)) = bs_reported sm
    \<and> sum_list (map cc_total (bs_by_contract sm)) = bs_total sm
    \<and> (\<forall>x \<in> set (bs_by_contract sm). cc_total x = cc_reported x + cc_unreported x)
    \<and> 0 \<le> bs_completion sm \<and> bs_completion sm \<le> 100 \<and> length shown \<le> 100"
proof -
  let ?fleet = "scoped_fleet (buildEquipmentScopeWhere u c False) hits db"
  define rs where "rs = filter (\<lambda>a. av_equipment a \<in> set (map eq_id ?fleet)) (shift_reports (user_tenant u)
      (utc_midnight date) (resolveShift (user_tenant u) s db) db)"
  have sm: "sm = board_summary_of (map (board_row_of rs) ?fleet)"
    and shown: "shown = page_of p k (filterShiftBoardTab tab (map (board_row_of rs) ?fleet))"
    using assms by (simp_all add: getShiftBoard_def Let_def rs_def)
  show ?thesis
    using summary_counts[OF kinds_ok_board[of rs ?fleet]] summary_splits[OF kinds_ok_board[of rs ?fleet]]
    by (simp add: sm shown page_length)
qed

lemma shift_board_adds_up_witness:
  "\<exists>sm shown n. getShiftBoard plain_user 0 None None (\<lambda>_. True) None None None one_truck = (sm, shown, n)
     \<and> bs_total sm = 1 \<and> bs_unreported sm = 1 \<and> bs_completion sm \<le> 100"
proof -
  obtain sm shown n where c: "getShiftBoard plain_user 0 None None (\<lambda>_. True) None None None one_truck
      = (sm, shown, n)" by (metis prod_cases3)
  have "bs_total (fst (getShiftBoard plain_user 0 None None (\<lambda>_. True) None None None one_truck)) = 1"
    "bs_reported (fst (getShiftBoard plain_user 0 None None (\<lambda>_. True) None None None one_truck)) = 0"
    by code_simp+
  then show ?thesis using shift_board_adds_up[OF c] c by auto
qed

text \<open>
  The contract given in the query of the board, or of the list of unreported equipments,
  replaces the contracts of the user instead of restricting them: with it, the answer does not
  depend on which contracts the user may access.
\<close>

theorem board_query_ignores_user_contracts:
  assumes "or_null c \<noteq> None"
  shows "getShiftBoard u date s c hits tab p k db
      = getShiftBoard (u\<lparr>user_contracts := cs\<rparr>) date s c hits tab p k db
    \<and> findUnreported u date s c hits p k db
      = findUnreported (u\<lparr>user_contracts := cs\<rparr>) date s c hits p k db"
proof -
  have "buildEquipmentScopeWhere u c b = buildEquipmentScopeWhere (u\<lparr>user_contracts := cs\<rparr>) c b" for b
    using assms by (auto simp: buildEquipmentScopeWhere_def Let_def)
  then show ?thesis by (simp add: getShiftBoard_def findUnreported_def)
qed

definition outsider :: user where
  "outsider = plain_user\<lparr>user_contracts := Some [''c2'']\<rparr>"

lemma board_query_ignores_user_contracts_witness:
  "\<not> userCanAccessContractId outsider (Some ''c1'')
   \<and> snd (snd (getShiftBoard outsider 0 None (Some ''c1'') (\<lambda>_. True) None None None one_truck)) = 1"
proof
  show "\<not> userCanAccessContractId outsider (Some ''c1'')" by code_simp
  have "snd (snd (getShiftBoard plain_user 0 None (Some ''c1'') (\<lambda>_. True) None None None one_truck)) = 1"
    by code_simp
  then show "snd (snd (getShiftBoard outsider 0 None (Some ''c1'') (\<lambda>_. True) None None None one_truck)) = 1"
    using board_query_ignores_user_contracts[of "Some ''c1''" plain_user 0 None "\<lambda>_. True" None None None
        one_truck "Some [''c2'']"]
    by (simp add: outsider_def or_null_def)
qed

end
