(* ===== verification/Fleet_Import.thy ===== *)
theory Fleet_Import
  imports Fleet
begin

text \<open>
  The Excel import of the fleet (\<open>features/equipments/equipments.service.ts\<close>:
  \<open>validateFleetMasterImport\<close>, \<open>commitFleetMasterImport\<close>) with the keys of
  \<open>common/excel/baselogic-master-import.util.ts\<close>. A row holds its cells as the readers of the
  workbook return them (trimmed, in upper case where the service asks for it, numbers parsed); the
  catalogue of types and the contracts of the tenant are arguments; the columns that the model of an
  equipment does not have are one flag of the row, whether they differ from the existing row. The
  requirements of the preview, which repeat its errors, and its texts are left out.
\<close>

section \<open>Keys and cells\<close>

text \<open>
  The decomposition of a Latin letter without its accent, in upper case; the sharp s
  gives two letters. Characters outside A-Z and 0-9 are dropped.
\<close>

definition base_letter :: "char \<Rightarrow> string" where
  "base_letter c =
     (let n = (of_char c :: nat) in
      if 97 \<le> n \<and> n \<le> 122 then [char_of (n - 32)]
      else if 192 \<le> n \<and> n \<le> 197 \<or> 224 \<le> n \<and> n \<le> 229 then ''A''
      else if n = 199 \<or> n = 231 then ''C''
      else if 200 \<le> n \<and> n \<le> 203 \<or> 232 \<le> n \<and> n \<le> 235 then ''E''
      else if 204 \<le> n \<and> n \<le> 207 \<or> 236 \<le> n \<and> n \<le> 239 then ''I''
      else if n = 209 \<or> n = 241 then ''N''
      else if 210 \<le> n \<and> n \<le> 214 \<or> 242 \<le> n \<and> n \<le> 246 then ''O''
      else if 217 \<le> n \<and> n \<le> 220 \<or> 249 \<le> n \<and> n \<le> 252 then ''U''
      else if n = 221 \<or> n = 253 \<or> n = 255 then ''Y''
      else if n = 223 then ''SS''
      else [c])"

definition key_char :: "char \<Rightarrow> bool" where
  "key_char c = (let n = (of_char c :: nat) in 65 \<le> n \<and> n \<le> 90 \<or> 48 \<le> n \<and> n \<le> 57)"

definition normalizeImportKey :: "string \<Rightarrow> string" where
  "normalizeImportKey s = filter key_char (concat (map base_letter s))"

definition parseImportBoolean :: "string \<Rightarrow> bool option" where
  "parseImportBoolean cell =
     (let key = normalizeImportKey cell in
      if key = [] then None
      else if key \<in> {''SI'', ''S'', ''YES'', ''TRUE'', ''1''} then Some True
      else if key \<in> {''NO'', ''N'', ''FALSE'', ''0''} then Some False
      else None)"

definition text_includes :: "string \<Rightarrow> string \<Rightarrow> bool" where
  "text_includes s part \<longleftrightarrow> list_ex (\<lambda>k. take (length part) (drop k s) = part) [0 ..< length s + 1]"

definition import_meter_type :: "string \<Rightarrow> meter_type" where
  "import_meter_type cell =
     (if text_includes (normalizeImportKey cell) ''KILOMETERS''
        \<or> text_includes (normalizeImportKey cell) ''KM''
      then KILOMETERS else HOURS)"

section \<open>Rows and tables\<close>

record import_contract =
  ic_id :: id
  ic_code :: string
  ic_subs :: "(string \<times> id) list"

type_synonym type_catalog = "(string \<times> string) list"

record fleet_row =
  fx_id :: "id option"
  fx_new_id :: id
  fx_internal :: string
  fx_plate :: "string option"
  fx_vin :: "string option"
  fx_type_code :: "string option"
  fx_type_name :: string
  fx_contract :: string
  fx_subcontract :: "string option"
  fx_meter_type :: string
  fx_initial :: "int option"
  fx_current :: "int option"
  fx_subleased :: string
  fx_company :: "string option"
  fx_operational :: string
  fx_other_changes :: bool

datatype import_action = ACTION_CREATE | ACTION_UPDATE | ACTION_NO_CHANGE | ACTION_ERROR

text \<open>A \<open>Map\<close> built from a list: the last entry with the key.\<close>

definition map_get :: "('x \<Rightarrow> string) \<Rightarrow> 'x list \<Rightarrow> string \<Rightarrow> 'x option" where
  "map_get key rows k = find_row (\<lambda>x. normalizeImportKey (key x) = k) (rev rows)"

definition import_scope :: "user \<Rightarrow> id option \<Rightarrow> 'a ops_db_scheme \<Rightarrow> equipment list" where
  "import_scope u site db =
     filter (\<lambda>e. eq_tenant e = user_tenant u
        \<and> in_scope (pushEquipmentContractScope u site) db e) (equipments db)"

definition row_type :: "type_catalog \<Rightarrow> fleet_row \<Rightarrow> (string \<times> string) option" where
  "row_type types r =
     or_else (case or_null (fx_type_code r) of
         None \<Rightarrow> None | Some c \<Rightarrow> map_get fst types (normalizeImportKey c))
       (if fx_type_name r = [] then None
        else map_get snd types (normalizeImportKey (fx_type_name r)))"

definition row_contract :: "import_contract list \<Rightarrow> fleet_row \<Rightarrow> import_contract option" where
  "row_contract contracts r =
     (if fx_contract r = [] then None
      else map_get ic_code contracts (normalizeImportKey (fx_contract r)))"

text \<open>The subcontracts by the pair of the two keys, over all contracts with the key.\<close>

definition row_subcontract :: "import_contract list \<Rightarrow> fleet_row \<Rightarrow> (string \<times> id) option" where
  "row_subcontract contracts r =
     (case or_null (fx_subcontract r) of
        None \<Rightarrow> None
      | Some c \<Rightarrow>
          if fx_contract r = [] then None
          else map_get fst (concat (map ic_subs (filter (\<lambda>x.
              normalizeImportKey (ic_code x) = normalizeImportKey (fx_contract r)) contracts)))
            (normalizeImportKey c))"

definition row_existing :: "equipment list \<Rightarrow> fleet_row \<Rightarrow> equipment option" where
  "row_existing scope r =
     or_else (case or_null (fx_id r) of
         None \<Rightarrow> None | Some i \<Rightarrow> find_row (\<lambda>e. eq_id e = i) (rev scope))
       (if fx_internal r = [] then None
        else map_get eq_internal scope (normalizeImportKey (fx_internal r)))"

text \<open>The columns of a row; the initial meter defaults differently in the preview and the commit.\<close>

definition row_data ::
    "import_contract list \<Rightarrow> int \<Rightarrow> fleet_row \<Rightarrow> equipment \<Rightarrow> equipment" where
  "row_data contracts initialDefault r e =
     e\<lparr>eq_contract := map_option ic_id (row_contract contracts r),
       eq_subcontract := map_option snd (row_subcontract contracts r),
       eq_plate := or_null (fx_plate r), eq_vin := or_null (fx_vin r),
       eq_meter_type := import_meter_type (fx_meter_type r),
       eq_initial := (case fx_initial r of Some m \<Rightarrow> m | None \<Rightarrow> initialDefault),
       eq_subleased := (case parseImportBoolean (fx_subleased r) of Some b \<Rightarrow> b | None \<Rightarrow> False),
       eq_sublease_company := or_null (fx_company r),
       eq_operational := (case parseImportBoolean (fx_operational r) of Some b \<Rightarrow> b | None \<Rightarrow> True)\<rparr>"

definition row_meter :: "fleet_row \<Rightarrow> int" where
  "row_meter r = (case fx_current r of Some m \<Rightarrow> m | None \<Rightarrow> 0)"

section \<open>Validation\<close>

definition field_errors ::
    "import_contract list \<Rightarrow> type_catalog \<Rightarrow> id list \<Rightarrow> fleet_row \<Rightarrow> string list" where
  "field_errors contracts types seen r =
     (if fx_internal r = [] then [''N interno requerido.''] else [])
     @ (if fx_type_name r = [] \<and> or_null (fx_type_code r) = None
        then [''Tipo equipo o codigo tipo catalogo requerido.''] else [])
     @ (if fx_contract r = [] then [''Contrato requerido.''] else [])
     @ (case or_null (fx_id r) of None \<Rightarrow> []
        | Some i \<Rightarrow> if i \<in> set seen then [''ID sistema duplicado en el archivo''] else [])
     @ (if row_type types r = None \<and> (or_null (fx_type_code r) \<noteq> None \<or> fx_type_name r \<noteq> [])
        then [''Tipo de equipo no existe''] else [])
     @ (if row_contract contracts r = None \<and> fx_contract r \<noteq> [] then [''Contrato no existe''] else [])
     @ (if or_null (fx_subcontract r) \<noteq> None \<and> fx_contract r \<noteq> [] \<and> row_subcontract contracts r = None
        then [''Subcontrato no existe''] else [])"

text \<open>The comparison with the existing row; the internal number is not among the fields.\<close>

definition row_changes :: "import_contract list \<Rightarrow> fleet_row \<Rightarrow> equipment \<Rightarrow> bool" where
  "row_changes contracts r e \<longleftrightarrow>
     fx_other_changes r \<or> row_meter r \<noteq> eq_meter e \<or> row_data contracts 0 r e \<noteq> e"

definition repeated :: "string list \<Rightarrow> string \<Rightarrow> bool" where
  "repeated ks k \<longleftrightarrow> 1 < length (filter (\<lambda>x. x = k) ks)"

definition internal_keys :: "fleet_row list \<Rightarrow> string list" where
  "internal_keys rows =
     map (\<lambda>r. normalizeImportKey (fx_internal r)) (filter (\<lambda>r. fx_internal r \<noteq> []) rows)"

definition plate_keys :: "fleet_row list \<Rightarrow> string list" where
  "plate_keys rows =
     concat (map (\<lambda>r. case or_null (fx_plate r) of None \<Rightarrow> [] | Some p \<Rightarrow> [normalizeImportKey p]) rows)"

definition duplicate_errors :: "fleet_row list \<Rightarrow> fleet_row \<Rightarrow> string list" where
  "duplicate_errors rows r =
     (if fx_internal r \<noteq> [] \<and> repeated (internal_keys rows) (normalizeImportKey (fx_internal r))
      then [''N interno duplicado''] else [])
     @ (case or_null (fx_plate r) of
          None \<Rightarrow> []
        | Some p \<Rightarrow>
            if normalizeImportKey p \<noteq> [] \<and> repeated (plate_keys rows) (normalizeImportKey p)
            then [''Patente duplicada''] else [])"

text \<open>The ids of the rows before a row.\<close>

definition ids_before :: "nat \<Rightarrow> fleet_row list \<Rightarrow> id list" where
  "ids_before n rows =
     concat (map (\<lambda>r. case or_null (fx_id r) of None \<Rightarrow> [] | Some i \<Rightarrow> [i]) (take n rows))"

definition row_errors :: "import_contract list \<Rightarrow> type_catalog \<Rightarrow> fleet_row list \<Rightarrow> nat \<Rightarrow> string list" where
  "row_errors contracts types rows n =
     field_errors contracts types (ids_before n rows) (rows ! n) @ duplicate_errors rows (rows ! n)"

definition row_action ::
    "import_contract list \<Rightarrow> type_catalog \<Rightarrow> equipment list \<Rightarrow> fleet_row list \<Rightarrow> nat \<Rightarrow> import_action" where
  "row_action contracts types scope rows n =
     (if row_errors contracts types rows n \<noteq> [] then ACTION_ERROR
      else case row_existing scope (rows ! n) of
        None \<Rightarrow> ACTION_CREATE
      | Some e \<Rightarrow> if row_changes contracts (rows ! n) e then ACTION_UPDATE else ACTION_NO_CHANGE)"

text \<open>The equipments in scope that no row names, and whether documents would go with them.\<close>

definition delete_candidates :: "equipment list \<Rightarrow> fleet_row list \<Rightarrow> equipment list" where
  "delete_candidates scope rows =
     (let ids = concat (map (\<lambda>r. case row_existing scope r of None \<Rightarrow> [] | Some e \<Rightarrow> [eq_id e]) rows)
      in filter (\<lambda>e. eq_id e \<notin> set ids \<and> normalizeImportKey (eq_internal e) \<notin> set (internal_keys rows)) scope)"

definition hasFleetDeleteImpact :: "id \<Rightarrow> id \<Rightarrow> 'a ops_db_scheme \<Rightarrow> bool" where
  "hasFleetDeleteImpact tenant i db \<longleftrightarrow>
     list_ex (\<lambda>w. wo_tenant w = tenant \<and> wo_equipment w = i) (work_orders db)
     \<or> list_ex (\<lambda>a. av_tenant a = tenant \<and> av_equipment a = i) (availabilities db)
     \<or> list_ex (\<lambda>x. ev_tenant x = tenant \<and> ev_equipment x = i) (availability_events db)
     \<or> list_ex (\<lambda>r. fr_tenant r = tenant \<and> fr_equipment r = i) (fault_reports db)
     \<or> list_ex (\<lambda>r. lr_tenant r = tenant \<and> lr_equipment r = i) (lube_reports db)
     \<or> list_ex (\<lambda>a. ma_equipment a = i) (meter_adjustments db)
     \<or> list_ex (\<lambda>l. ml_tenant l = tenant \<and> ml_equipment l = i) (meter_logs db)
     \<or> list_ex (\<lambda>c. ac_tenant c = tenant \<and> ac_equipment c = i) (asset_costs db)
     \<or> list_ex (\<lambda>p. po_tenant p = tenant \<and> po_equipment p = Some i) (orders db)"

section \<open>Commit\<close>

record import_options =
  io_creates :: "bool option"
  io_updates :: "bool option"
  io_deletes :: "bool option"
  io_force :: "bool option"

record import_counts =
  im_created :: nat
  im_updated :: nat
  im_unchanged :: nat

text \<open>A new row has no entry in the meter log; its id may come from the workbook.\<close>

definition import_create ::
    "import_contract list \<Rightarrow> user \<Rightarrow> fleet_row \<Rightarrow> 'a ops_db_scheme \<Rightarrow> 'a ops_db_scheme res" where
  "import_create contracts u r db =
     (let i = (case or_null (fx_id r) of Some x \<Rightarrow> x | None \<Rightarrow> fx_new_id r);
          e = row_data contracts (row_meter r) r
            \<lparr>eq_id = i, eq_tenant = user_tenant u, eq_contract = None, eq_subcontract = None,
             eq_internal = fx_internal r, eq_plate = None, eq_vin = None, eq_subleased = False,
             eq_sublease_company = None, eq_meter_type = HOURS, eq_initial = 0,
             eq_meter = row_meter r, eq_operational = True, eq_downtime = 0\<rparr>
      in if equipment_clash e db \<or> list_ex (\<lambda>x. eq_id x = i) (equipments db) then Inl UniqueViolation
         else Inr (db\<lparr>equipments := equipments db @ [e]\<rparr>))"

text \<open>An update writes the columns and then the meter, from the reading before the transaction.\<close>

definition import_update ::
    "import_contract list \<Rightarrow> int \<Rightarrow> user \<Rightarrow> fleet_row \<Rightarrow> equipment \<Rightarrow> 'a ops_db_scheme \<Rightarrow> 'a ops_db_scheme res" where
  "import_update contracts now u r e db =
     (let f = (\<lambda>x. (row_data contracts (row_meter r) r x)\<lparr>eq_internal := fx_internal r\<rparr>)
      in if equipment_clash (f e) db then Inl UniqueViolation
         else Inr (applyCurrentMeterChange (user_tenant u) (eq_id e) (eq_meter e) (row_meter r)
                SRC_MANUAL (Some ''fleet-master-import'') (acting_user_id u) now
                (set_equipment (eq_id e) f db)))"

definition fleet_import_row ::
    "import_contract list \<Rightarrow> type_catalog \<Rightarrow> equipment list \<Rightarrow> fleet_row list \<Rightarrow> int \<Rightarrow> user \<Rightarrow> nat \<Rightarrow>
     'a ops_db_scheme \<times> import_counts \<Rightarrow> ('a ops_db_scheme \<times> import_counts) res" where
  "fleet_import_row contracts types scope rows now u n s =
     (case s of (db, cs) \<Rightarrow>
      (case (row_action contracts types scope rows n, row_existing scope (rows ! n)) of
         (ACTION_ERROR, _) \<Rightarrow> Inr (db, cs)
       | (ACTION_NO_CHANGE, _) \<Rightarrow> Inr (db, cs\<lparr>im_unchanged := im_unchanged cs + 1\<rparr>)
       | (ACTION_CREATE, _) \<Rightarrow>
           and_then (import_create contracts u (rows ! n) db) (\<lambda>db1.
             Inr (db1, cs\<lparr>im_created := im_created cs + 1\<rparr>))
       | (ACTION_UPDATE, None) \<Rightarrow> Inr (db, cs)
       | (ACTION_UPDATE, Some e) \<Rightarrow>
           and_then (import_update contracts now u (rows ! n) e db) (\<lambda>db1.
             Inr (db1, cs\<lparr>im_updated := im_updated cs + 1\<rparr>))))"

definition commitFleetMasterImport ::
    "import_contract list \<Rightarrow> type_catalog \<Rightarrow> int \<Rightarrow> user \<Rightarrow> import_options \<Rightarrow> id option \<Rightarrow> fleet_row list \<Rightarrow>
     'a ops_db_scheme \<Rightarrow> ('a ops_db_scheme \<times> import_counts \<times> nat) res" where
  "commitFleetMasterImport contracts types now u opts site rows db =
     (let scope = import_scope u site db;
          actions = map (row_action contracts types scope rows) [0 ..< length rows];
          candidates = delete_candidates scope rows;
          deletes = (io_deletes opts = Some True)
      in if acting_user_id u = [] then Inl (BadRequest ''Usuario no valido'')
      else if ACTION_ERROR \<in> set actions
        then Inl (BadRequest ''La importacion tiene errores bloqueantes'')
      else if io_creates opts = Some False \<and> ACTION_CREATE \<in> set actions
        then Inl (BadRequest ''La importacion contiene altas'')
      else if io_updates opts = Some False \<and> ACTION_UPDATE \<in> set actions
        then Inl (BadRequest ''La importacion contiene actualizaciones'')
      else if deletes \<and> io_force opts \<noteq> Some True
        \<and> list_ex (\<lambda>e. hasFleetDeleteImpact (user_tenant u) (eq_id e) db) candidates
        then Inl (BadRequest ''Hay bajas con registros asociados'')
      else and_then (for_each (fleet_import_row contracts types scope rows now u) [0 ..< length rows]
             (db, \<lparr>im_created = 0, im_updated = 0, im_unchanged = 0\<rparr>)) (\<lambda>(db1, cs).
           and_then (if deletes
             then for_each (\<lambda>e. deleteEquipmentWithAssociations (user_tenant u) (eq_id e)) candidates db1
             else Inr db1) (\<lambda>db2.
           Inr (db2, cs, if deletes then length candidates else 0))))"

end
