(* ===== verification/Import_Properties.thy ===== *)
theory Import_Properties
  imports Fleet_Import Equipment_System
begin

text \<open>
  What the Excel import of the fleet keeps and what it does not: it accounts for its rows and
  removes nothing unless it is told to, but it writes the operational flag of the workbook.
\<close>

lemma row_data_fields [simp]:
  "eq_id (row_data cs m r e) = eq_id e" "eq_tenant (row_data cs m r e) = eq_tenant e"
  "eq_meter (row_data cs m r e) = eq_meter e" "eq_internal (row_data cs m r e) = eq_internal e"
  by (simp_all add: row_data_def)

text \<open>Between two states of an import: the old equipments stay, at the front, and the documents too.\<close>

definition import_keeps :: "'a ops_db_scheme \<times> import_counts \<Rightarrow> 'a ops_db_scheme \<times> import_counts \<Rightarrow> bool" where
  "import_keeps s s' \<longleftrightarrow>
     (\<exists>new. equipment_ids (fst s') = equipment_ids (fst s) @ new \<and> distinct new
        \<and> set new \<inter> set (equipment_ids (fst s)) = {}
        \<and> im_created (snd s') = im_created (snd s) + length new)
     \<and> work_orders (fst s') = work_orders (fst s) \<and> fault_reports (fst s') = fault_reports (fst s)
     \<and> availabilities (fst s') = availabilities (fst s)
     \<and> availability_events (fst s') = availability_events (fst s)"

lemma import_keeps_refl: "import_keeps s s"
  by (simp add: import_keeps_def)

lemma import_keeps_trans:
  assumes "import_keeps a b" and "import_keeps b c"
  shows "import_keeps a c"
proof -
  obtain xs ys where "equipment_ids (fst b) = equipment_ids (fst a) @ xs" "distinct xs"
      "set xs \<inter> set (equipment_ids (fst a)) = {}" "im_created (snd b) = im_created (snd a) + length xs"
    and "equipment_ids (fst c) = equipment_ids (fst b) @ ys" "distinct ys"
      "set ys \<inter> set (equipment_ids (fst b)) = {}" "im_created (snd c) = im_created (snd b) + length ys"
    using assms unfolding import_keeps_def by blast
  then show ?thesis
    using assms unfolding import_keeps_def by (intro conjI exI[of _ "xs @ ys"]) auto
qed

lemma import_create_keeps:
  assumes "import_create cs u r db = Inr db'"
  shows "import_keeps (db, c) (db', c\<lparr>im_created := im_created c + 1\<rparr>)"
proof -
  obtain e where "db' = db\<lparr>equipments := equipments db @ [e]\<rparr>"
    "\<not> list_ex (\<lambda>x. eq_id x = eq_id e) (equipments db)"
    using assms by (auto simp: import_create_def Let_def split: if_splits)
  then show ?thesis
    unfolding import_keeps_def
    by (intro conjI exI[of _ "[eq_id e]"]) (auto simp: equipment_ids_def list_ex_iff)
qed

lemma import_update_keeps:
  assumes "import_update cs now u r e db = Inr db'"
  shows "import_keeps (db, c) (db', c\<lparr>im_updated := im_updated c + 1\<rparr>)"
  using assms
  by (auto simp: import_update_def Let_def import_keeps_def split: if_splits intro: exI[of _ "[]"])

text \<open>One row.\<close>

definition handled :: "import_counts \<Rightarrow> nat" where
  "handled c = im_created c + im_updated c + im_unchanged c"

lemma import_row_keeps:
  assumes "fleet_import_row contracts types scope rows now u n s = Inr s'"
    and "row_action contracts types scope rows n \<noteq> ACTION_ERROR"
  shows "import_keeps s s' \<and> handled (snd s') = handled (snd s) + 1"
proof -
  obtain db c where s: "s = (db, c)" by (cases s)
  show ?thesis
  proof (cases "row_action contracts types scope rows n")
    case ACTION_CREATE
    with assms(1) obtain db1 where "import_create contracts u (rows ! n) db = Inr db1"
      "s' = (db1, c\<lparr>im_created := im_created c + 1\<rparr>)"
      by (auto simp: fleet_import_row_def s and_then_eq_Inr)
    with import_create_keeps show ?thesis by (simp add: s handled_def)
  next
    case ACTION_UPDATE
    then obtain e where "row_existing scope (rows ! n) = Some e"
      by (auto simp: row_action_def split: if_splits option.splits)
    with assms(1) ACTION_UPDATE obtain db1 where "import_update contracts now u (rows ! n) e db = Inr db1"
      "s' = (db1, c\<lparr>im_updated := im_updated c + 1\<rparr>)"
      by (auto simp: fleet_import_row_def s and_then_eq_Inr)
    with import_update_keeps show ?thesis by (simp add: s handled_def)
  next
    case ACTION_NO_CHANGE
    with assms(1) have "s' = (db, c\<lparr>im_unchanged := im_unchanged c + 1\<rparr>)"
      by (simp add: fleet_import_row_def s)
    then show ?thesis by (auto simp: s handled_def import_keeps_def)
  qed (use assms(2) in simp)
qed

lemma import_rows_keep:
  assumes "for_each (fleet_import_row contracts types scope rows now u) ns s = Inr s'"
    and "\<And>n. n \<in> set ns \<Longrightarrow> row_action contracts types scope rows n \<noteq> ACTION_ERROR"
  shows "import_keeps s s' \<and> handled (snd s') = handled (snd s) + length ns"
  using assms
proof (induction ns arbitrary: s)
  case Nil
  then show ?case by (simp add: import_keeps_refl)
next
  case (Cons n ns)
  then obtain t where t: "fleet_import_row contracts types scope rows now u n s = Inr t"
    "for_each (fleet_import_row contracts types scope rows now u) ns t = Inr s'"
    by (auto simp: and_then_eq_Inr)
  from import_row_keeps[OF t(1)] Cons.IH[OF t(2)] Cons.prems(2) show ?case
    by (auto intro: import_keeps_trans)
qed

text \<open>
  A committed import of the fleet accounts for every row of the workbook, as created, updated
  or unchanged (a row with an error stops the whole import before anything is written), and where
  deletions were not asked for it removes nothing: every equipment keeps its id and its place, the
  new ones follow with ids of their own, one per created row, and the documents are untouched.
\<close>

theorem import_accounts_and_keeps:
  assumes "commitFleetMasterImport contracts types now u opts site rows db = Inr (db', c, deleted)"
    and "io_deletes opts \<noteq> Some True"
  shows "im_created c + im_updated c + im_unchanged c = length rows \<and> deleted = 0
    \<and> (\<exists>new. map eq_id (equipments db') = map eq_id (equipments db) @ new \<and> length new = im_created c
        \<and> distinct new \<and> set new \<inter> eq_id ` set (equipments db) = {})
    \<and> work_orders db' = work_orders db \<and> fault_reports db' = fault_reports db
    \<and> availabilities db' = availabilities db
    \<and> (\<forall>n < length rows. row_errors contracts types rows n = [])"
proof -
  let ?scope = "import_scope u site db"
  from assms have no_error: "ACTION_ERROR \<notin> row_action contracts types ?scope rows ` {0 ..< length rows}"
    and run: "for_each (fleet_import_row contracts types ?scope rows now u) [0 ..< length rows]
        (db, \<lparr>im_created = 0, im_updated = 0, im_unchanged = 0\<rparr>) = Inr (db', c)" and "deleted = 0"
    by (auto simp: commitFleetMasterImport_def Let_def and_then_eq_Inr split: if_splits)
  have keeps: "import_keeps (db, \<lparr>im_created = 0, im_updated = 0, im_unchanged = 0\<rparr>) (db', c)
      \<and> handled c = length rows"
    using import_rows_keep[OF run] no_error by (force simp: handled_def)
  have "row_errors contracts types rows n = []" if "n < length rows" for n
    using no_error that by (force simp: row_action_def)
  then show ?thesis
    using keeps \<open>deleted = 0\<close> by (auto simp: import_keeps_def handled_def equipment_ids_def)
qed

definition truck_row :: fleet_row where
  "truck_row = \<lparr>fx_id = None, fx_new_id = ''n'', fx_internal = ''EX-1'', fx_plate = None, fx_vin = None,
     fx_type_code = None, fx_type_name = ''Camion'', fx_contract = ''CT-1'', fx_subcontract = None,
     fx_meter_type = ''Horas'', fx_initial = Some 100, fx_current = Some 120, fx_subleased = [],
     fx_company = None, fx_operational = [], fx_other_changes = False\<rparr>"

definition one_contract :: "import_contract list" where
  "one_contract = [\<lparr>ic_id = ''c1'', ic_code = ''ct 1'', ic_subs = []\<rparr>]"

definition plain_options :: import_options where
  "plain_options = \<lparr>io_creates = None, io_updates = None, io_deletes = None, io_force = None\<rparr>"

definition import_broken :: "(ops_db \<times> import_counts \<times> nat) res" where
  "import_broken = commitFleetMasterImport one_contract [(''CAM'', ''camion'')] 40 plain_user plain_options None
     [truck_row] broken"

definition raised :: ops_db where
  "raised = broken\<lparr>equipments := [truck\<lparr>eq_meter := 120, eq_operational := True\<rparr>]\<rparr>"

lemma import_broken_result:
  "import_broken = Inr (raised, \<lparr>im_created = 0, im_updated = 1, im_unchanged = 0\<rparr>, 0)"
  by code_simp

lemma import_accounts_and_keeps_witness:
  "map eq_id (equipments raised) = map eq_id (equipments broken) \<and> work_orders raised = work_orders broken"
  using import_accounts_and_keeps[OF import_broken_result[unfolded import_broken_def]]
  by (simp add: plain_options_def)

text \<open>
  The import writes the operational flag of the workbook past every blocker: from an empty
  fleet the careful operations reach a state where an active fault of high criticality holds an
  equipment out of service, and a committed import of one row with an empty cell for the flag, which
  counts as yes, leaves that equipment in service with the fault still active.
\<close>

theorem import_raises_blocked_equipment:
  "\<exists>(db :: ops_db) db' c r e e'. operated careful_step db
     \<and> commitFleetMasterImport one_contract [(''CAM'', ''camion'')] 40 plain_user plain_options None
         [truck_row] db = Inr (db', c, 0)
     \<and> fx_operational truck_row = [] \<and> r \<in> set (fault_reports db') \<and> fr_criticality r = CR_HIGH
     \<and> fault_active r db' \<and> e \<in> set (equipments db) \<and> e' \<in> set (equipments db')
     \<and> eq_id e = fr_equipment r \<and> eq_id e' = fr_equipment r
     \<and> \<not> eq_operational e \<and> eq_operational e'"
proof (intro exI conjI)
  show "operated careful_step broken" by (rule history_careful(1))
  show "commitFleetMasterImport one_contract [(''CAM'', ''camion'')] 40 plain_user plain_options None
      [truck_row] broken = Inr (raised, \<lparr>im_created = 0, im_updated = 1, im_unchanged = 0\<rparr>, 0)"
    using import_broken_result by (simp add: import_broken_def)
  show "brakes_report \<in> set (fault_reports raised)" by (simp add: raised_def broken_def)
  show "fault_active brakes_report raised" by code_simp
  show "truck\<lparr>eq_meter := 120, eq_operational := False\<rparr> \<in> set (equipments broken)"
    by (simp add: broken_def)
  show "truck\<lparr>eq_meter := 120, eq_operational := True\<rparr> \<in> set (equipments raised)"
    by (simp add: raised_def)
qed (simp_all add: truck_row_def brakes_report_def report_of_def brakes_ids_def brakes_dto_def truck_def
    small_equipment_def)

end
