(* ===== verification/Fleet_Meters.thy ===== *)
theory Fleet_Meters
  imports Import_Properties
begin

text \<open>
  The meters of the fleet over all operations that write them, the Excel import included: an import
  whose rows name every equipment at most once keeps the log of each equipment a chain.
\<close>

section \<open>An import keeps the tables in order\<close>

text \<open>The equipment that a row of the workbook is about, if it is there already.\<close>

definition named :: "equipment list \<Rightarrow> fleet_row \<Rightarrow> id list" where
  "named scope r = (case row_existing scope r of None \<Rightarrow> [] | Some e \<Rightarrow> [eq_id e])"

lemma row_existing_in: "row_existing scope r = Some e \<Longrightarrow> e \<in> set scope"
  by (auto simp: row_existing_def or_else_def map_get_def dest!: find_row_SomeD split: option.splits if_splits)

lemma import_create_ok:
  assumes "import_create cs u r db = Inr db'" and ok: "ops_ok db"
  shows "ops_ok db' \<and> set (equipments db) \<subseteq> set (equipments db')"
proof -
  obtain e where db': "db' = db\<lparr>equipments := equipments db @ [e]\<rparr>"
      and "\<not> list_ex (\<lambda>x. eq_id x = eq_id e) (equipments db)"
    using assms(1) by (auto simp: import_create_def Let_def split: if_splits)
  then have new: "eq_id e \<notin> set (equipment_ids db)" by (auto simp: equipment_ids_def list_ex_iff)
  have "meters_ok db'" using ok new unfolding db' by (intro meters_ok_new) (simp_all add: ops_ok_def)
  moreover have "doc_refs db' = doc_refs db" "eq_refs db \<subseteq> eq_refs db'" "doc_ids_ok db' = doc_ids_ok db"
    by (auto simp: db' doc_refs_def eq_refs_def doc_ids_ok_def)
  ultimately show ?thesis using ok by (auto simp: ops_ok_def db')
qed

text \<open>An update starts its entry at the reading before the import, so that has to be the current one.\<close>

lemma import_update_ok:
  assumes "import_update cs now u r e db = Inr db'" and ok: "ops_ok db"
    and x: "x \<in> set (equipments db)" "eq_id x = eq_id e" "eq_meter x = eq_meter e"
  shows "ops_ok db' \<and> {y \<in> set (equipments db). eq_id y \<noteq> eq_id e} \<subseteq> set (equipments db')"
proof -
  let ?f = "\<lambda>x. (row_data cs (row_meter r) r x)\<lparr>eq_internal := fx_internal r\<rparr>"
  let ?d = "set_equipment (eq_id e) ?f db"
  have db': "db' = applyCurrentMeterChange (user_tenant u) (eq_id e) (eq_meter e) (row_meter r)
      SRC_MANUAL (Some ''fleet-master-import'') (acting_user_id u) now ?d"
    using assms(1) by (auto simp: import_update_def Let_def split: if_splits)
  have d: "ops_ok ?d" by (rule ops_ok_set_equipment[OF ok]) simp_all
  have fx: "?f x \<in> set (equipments ?d)" using x by (auto simp: set_update_rows)
  have "ops_ok db'"
    unfolding db' by (rule ops_ok_apply[OF d refl refl, of "?f x"])
      (use d fx x in \<open>simp_all add: ops_ok_def\<close>)
  moreover have "{y \<in> set (equipments db). eq_id y \<noteq> eq_id e} \<subseteq> set (equipments db')"
    unfolding db' applyCurrentMeterChange_def by (auto simp: set_update_rows)
  ultimately show ?thesis ..
qed

definition unread :: "'a ops_db_scheme \<Rightarrow> equipment \<Rightarrow> bool" where
  "unread db e \<longleftrightarrow> (\<exists>x \<in> set (equipments db). eq_id x = eq_id e \<and> eq_meter x = eq_meter e)"

lemma import_row_ok:
  assumes "fleet_import_row contracts types scope rows now u n s = Inr s'" and ok: "ops_ok (fst s)"
    and cur: "\<And>e. row_existing scope (rows ! n) = Some e \<Longrightarrow> unread (fst s) e"
  shows "ops_ok (fst s') \<and> (\<forall>e. eq_id e \<notin> set (named scope (rows ! n)) \<longrightarrow> unread (fst s) e \<longrightarrow> unread (fst s') e)"
proof -
  obtain db c where s: "s = (db, c)" by (cases s)
  show ?thesis
  proof (cases "row_action contracts types scope rows n")
    case ACTION_CREATE
    with assms(1) obtain db1 c1 where "import_create contracts u (rows ! n) db = Inr db1" "s' = (db1, c1)"
      by (auto simp: fleet_import_row_def s and_then_eq_Inr)
    with import_create_ok[of contracts u "rows ! n" db db1] ok show ?thesis by (auto simp: s unread_def)
  next
    case ACTION_UPDATE
    then obtain e where e: "row_existing scope (rows ! n) = Some e"
      by (auto simp: row_action_def split: if_splits option.splits)
    with assms(1) ACTION_UPDATE obtain db1 c1 where up: "import_update contracts now u (rows ! n) e db = Inr db1"
      "s' = (db1, c1)"
      by (auto simp: fleet_import_row_def s and_then_eq_Inr)
    obtain x where x: "x \<in> set (equipments db)" "eq_id x = eq_id e" "eq_meter x = eq_meter e"
      using cur[OF e] by (auto simp: s unread_def)
    note up_ok = import_update_ok[OF up(1) _ x]
    have "unread db1 y" if "eq_id y \<noteq> eq_id e" "unread db y" for y
      using that up_ok ok by (auto simp: s unread_def)
    then show ?thesis using up_ok ok up(2) e by (auto simp: s named_def)
  qed (use assms(1) ok in \<open>auto simp: fleet_import_row_def s\<close>)
qed

lemma import_rows_ok:
  assumes "for_each (fleet_import_row contracts types scope rows now u) ns s = Inr s'" and "ops_ok (fst s)"
    and "distinct (concat (map (\<lambda>n. named scope (rows ! n)) ns))"
    and "\<And>n e. n \<in> set ns \<Longrightarrow> row_existing scope (rows ! n) = Some e \<Longrightarrow> unread (fst s) e"
  shows "ops_ok (fst s')"
  using assms
proof (induction ns arbitrary: s)
  case (Cons n ns)
  then obtain t where t: "fleet_import_row contracts types scope rows now u n s = Inr t"
    "for_each (fleet_import_row contracts types scope rows now u) ns t = Inr s'"
    by (auto simp: and_then_eq_Inr)
  have one: "ops_ok (fst t)"
      "\<And>e. eq_id e \<notin> set (named scope (rows ! n)) \<Longrightarrow> unread (fst s) e \<Longrightarrow> unread (fst t) e"
    using import_row_ok[OF t(1) Cons.prems(2)] Cons.prems(4) by auto
  have dist: "distinct (concat (map (\<lambda>n. named scope (rows ! n)) ns))"
    and apart: "set (named scope (rows ! n)) \<inter> set (concat (map (\<lambda>n. named scope (rows ! n)) ns)) = {}"
    using Cons.prems(3) by simp_all
  have "unread (fst t) e" if m: "m \<in> set ns" "row_existing scope (rows ! m) = Some e" for m e
  proof (rule one(2))
    have "eq_id e \<in> set (named scope (rows ! m))" using m(2) by (simp add: named_def)
    then have "eq_id e \<in> set (concat (map (\<lambda>n. named scope (rows ! n)) ns))" using m(1) by auto
    then show "eq_id e \<notin> set (named scope (rows ! n))" using apart by blast
    show "unread (fst s) e" using Cons.prems(4) m by auto
  qed
  then show ?case by (rule Cons.IH[OF t(2) one(1) dist])
qed simp

lemma deletions_ok:
  assumes "for_each (\<lambda>e. deleteEquipmentWithAssociations t (eq_id e)) es db = Inr db'" and "ops_ok db"
  shows "ops_ok db'"
proof (rule for_each_invariant[OF assms(1), where P = ops_ok])
  show "ops_ok d'" if "ops_ok d" "deleteEquipmentWithAssociations t (eq_id x) d = Inr d'" for x d d'
    using removals.keeps_ok[OF that(1)] that(2) unfolding removal_step_def by blast
qed (rule assms(2))

lemma import_ok:
  assumes "commitFleetMasterImport contracts types now u opts site rows db = Inr (db', c, k)" and ok: "ops_ok db"
    and "distinct (concat (map (named (import_scope u site db)) rows))"
  shows "ops_ok db'"
proof -
  let ?scope = "import_scope u site db"
  define del where "del = (io_deletes opts = Some True)"
  obtain s where run: "for_each (fleet_import_row contracts types ?scope rows now u) [0 ..< length rows]
        (db, \<lparr>im_created = 0, im_updated = 0, im_unchanged = 0\<rparr>) = Inr s"
    and gone: "(if del then for_each (\<lambda>e. deleteEquipmentWithAssociations (user_tenant u) (eq_id e))
        (delete_candidates ?scope rows) (fst s) else Inr (fst s)) = Inr db'"
    using assms(1) unfolding del_def
    by (auto simp: commitFleetMasterImport_def Let_def and_then_eq_Inr simp del: for_each.simps split: if_split_asm)
  have "unread db e" if "row_existing ?scope r = Some e" for r e
    using row_existing_in[OF that] by (auto simp: import_scope_def unread_def)
  moreover have "map (\<lambda>n. named ?scope (rows ! n)) [0 ..< length rows] = map (named ?scope) rows"
    by (rule nth_equalityI) simp_all
  ultimately have "ops_ok (fst s)"
    by (intro import_rows_ok[OF run]) (use ok assms(3) in simp_all)
  then show ?thesis using gone deletions_ok by (auto split: if_splits)
qed

section \<open>The meters of every reachable state\<close>

text \<open>All operations of the equipment side, and the imports that name every equipment at most once.\<close>

inductive fleet_step :: "'a ops_db_scheme \<Rightarrow> 'a ops_db_scheme \<Rightarrow> bool" where
  operation: "ops_step db db' \<Longrightarrow> fleet_step db db'"
| workbook: "commitFleetMasterImport contracts types now u opts site rows db = Inr (db', c, k) \<Longrightarrow>
    distinct (concat (map (named (import_scope u site db)) rows)) \<Longrightarrow> fleet_step db db'"

lemma fleet_step_ok: "fleet_step db db' \<Longrightarrow> ops_ok db \<Longrightarrow> ops_ok db'"
  by (erule fleet_step.cases) (auto intro: system.keeps_ok import_ok)

lemma operated_fleet_ok: "operated fleet_step db \<Longrightarrow> ops_ok db"
  by (induction rule: operated.induct) (auto dest: empty_fleet_ok fleet_step_ok)

lemma operated_by_hand: "operated ops_step db \<Longrightarrow> operated fleet_step db"
  by (induction rule: operated.induct) (auto intro: operated.intros operation)

text \<open>
  C25. The meters follow their logs. In every state that the operations on equipments reach from an
  empty fleet (orders, reports, faults, dispatches, captures, adjustments, and Excel imports whose rows
  name every equipment at most once), the log of each equipment is a chain (every entry starts at the
  reading where the one before ended) that ends at its current meter, no log belongs to an equipment
  that is not there, and only manual entries lower a meter: no order, fault, shift report or telemetry
  does. An import that names an equipment twice, once by id and once by number, breaks the chain.
\<close>

theorem meters_follow_their_logs:
  assumes "operated fleet_step db"
  shows "(\<forall>e \<in> set (equipments db). \<exists>start.
      meter_run start (filter (\<lambda>l. ml_equipment l = eq_id e) (meter_logs db)) = Some (eq_meter e))
    \<and> (\<forall>l \<in> set (meter_logs db). ml_equipment l \<in> eq_id ` set (equipments db)
      \<and> (ml_new l < ml_old l \<longrightarrow> ml_source l = SRC_MANUAL))"
  using operated_fleet_ok[OF assms] by (simp add: ops_ok_def meters_ok_def logs_of_def equipment_ids_def)

definition truck_read :: "(ops_db \<times> import_counts \<times> nat) res" where
  "truck_read = commitFleetMasterImport one_contract [(''CAM'', ''camion'')] 40 plain_user plain_options None
     [truck_row\<lparr>fx_current := Some 110\<rparr>] broken"

lemma truck_read_facts:
  "(case truck_read of Inl _ \<Rightarrow> False | Inr (db, c, k) \<Rightarrow> map eq_meter (equipments db) = [110]
     \<and> map eq_id (equipments db) = [''e''] \<and> length (meter_logs db) = length (meter_logs broken) + 1)"
  "distinct (concat (map (named (import_scope plain_user None broken)) [truck_row\<lparr>fx_current := Some 110\<rparr>]))"
  by code_simp+

lemma meters_follow_their_logs_witness:
  "\<exists>db c k. truck_read = Inr (db, c, k) \<and> operated fleet_step db
     \<and> length (meter_logs db) = length (meter_logs broken) + 1
     \<and> (\<exists>start. meter_run start (filter (\<lambda>l. ml_equipment l = ''e'') (meter_logs db)) = Some 110)"
proof -
  obtain db c k where t: "truck_read = Inr (db, c, k)" "map eq_meter (equipments db) = [110]"
      "map eq_id (equipments db) = [''e'']" "length (meter_logs db) = length (meter_logs broken) + 1"
    using truck_read_facts(1) by (auto split: sum.splits)
  have reach: "operated fleet_step db"
    using operated_by_hand[OF operated_mono[OF history_careful(1)]] t(1)[unfolded truck_read_def] truck_read_facts(2)
    by (blast intro: operated.run workbook)
  obtain e where "equipments db = [e]" "eq_meter e = 110" "eq_id e = ''e''" using t(2,3) by auto
  then show ?thesis using meters_follow_their_logs[OF reach] t reach by auto
qed

text \<open>The same equipment by its id and by its number in one workbook: the second entry starts too low.\<close>

definition read_twice :: "(ops_db \<times> import_counts \<times> nat) res" where
  "read_twice = commitFleetMasterImport one_contract [(''CAM'', ''camion'')] 40 plain_user plain_options None
     [truck_row\<lparr>fx_current := Some 130\<rparr>, truck_row\<lparr>fx_id := Some ''e'', fx_internal := ''EX-2'', fx_current := Some 140\<rparr>] broken"

lemma read_twice_entries:
  "(case read_twice of Inl _ \<Rightarrow> False | Inr (db, c, k) \<Rightarrow>
     map (\<lambda>l. (ml_old l, ml_new l)) (filter (\<lambda>l. ml_equipment l = ''e'') (meter_logs db)) = [(100, 120), (120, 130), (120, 140)])"
  by code_simp

theorem import_breaks_chain:
  "\<exists>db' c k. operated ops_step broken
     \<and> commitFleetMasterImport one_contract [(''CAM'', ''camion'')] 40 plain_user plain_options None
         [truck_row\<lparr>fx_current := Some 130\<rparr>, truck_row\<lparr>fx_id := Some ''e'', fx_internal := ''EX-2'', fx_current := Some 140\<rparr>] broken
       = Inr (db', c, k)
     \<and> (\<forall>start. meter_run start (filter (\<lambda>l. ml_equipment l = ''e'') (meter_logs db')) = None)"
proof -
  obtain db c k where r: "read_twice = Inr (db, c, k)" and
    m: "map (\<lambda>l. (ml_old l, ml_new l)) (filter (\<lambda>l. ml_equipment l = ''e'') (meter_logs db)) = [(100, 120), (120, 130), (120, 140)]"
    using read_twice_entries by (auto split: sum.splits)
  from m obtain x y z where "filter (\<lambda>l. ml_equipment l = ''e'') (meter_logs db) = [x, y, z]"
      "ml_old x = 100" "ml_new x = 120" "ml_old y = 120" "ml_new y = 130" "ml_old z = 120" "ml_new z = 140" by auto
  then have "meter_run start (filter (\<lambda>l. ml_equipment l = ''e'') (meter_logs db)) = None" for start by simp
  with r operated_mono[OF history_careful(1)] show ?thesis unfolding read_twice_def by blast
qed

end
