(* ===== verification/Procurement.thy ===== *)
theory Procurement
  imports Purchasing
begin

text \<open>
  What the services of purchase orders and requisitions share: the approval settings and policies
  (\<open>features/purchases/purchase-settings.service.ts\<close>), the policy of a user
  (\<open>tenant-roles/tenant-role-defaults.ts\<close>), the signature hash
  (\<open>common/crypto/signature.util.ts\<close>), the status of the quotations after an award
  (\<open>purchase-quotation-status-sync.util.ts\<close>) and of a requisition after a purchase
  (\<open>applyRequisitionCoverageStatusAfterPurchase\<close> of \<open>purchase-orders.service.ts\<close>).

  Ids of new rows are arguments. \<open>members\<close> stands for the table of users: the ids of the users of the
  tenant. \<open>printing\<close> holds what is not under \<open>src/\<close>: SHA-256 as hexadecimal text, the text of a decimal
  and of an instant (\<open>toISOString\<close>), and the rounding of an amount to the two decimals of its column.
\<close>

record printing =
  pr_sha :: "string \<Rightarrow> string"
  pr_decimal :: "qty \<Rightarrow> string"
  pr_iso :: "int \<Rightarrow> string"
  pr_money :: "qty \<Rightarrow> qty"

section \<open>Rows\<close>

fun po_status_text :: "po_status \<Rightarrow> string" where
  "po_status_text PO_DRAFT = ''DRAFT''"
| "po_status_text PO_PENDING_APPROVAL = ''PENDING_APPROVAL''"
| "po_status_text PO_PARTIALLY_APPROVED = ''PARTIALLY_APPROVED''"
| "po_status_text PO_APPROVED = ''APPROVED''"
| "po_status_text PO_REJECTED = ''REJECTED''"
| "po_status_text PO_SENT = ''SENT''"
| "po_status_text PO_ORDERED = ''ORDERED''"
| "po_status_text PO_SENT_TO_SUPPLIER = ''SENT_TO_SUPPLIER''"
| "po_status_text PO_PARTIALLY_RECEIVED = ''PARTIALLY_RECEIVED''"
| "po_status_text PO_RECEIVED = ''RECEIVED''"
| "po_status_text PO_CLOSED = ''CLOSED''"
| "po_status_text PO_CANCELLED = ''CANCELLED''"

fun rq_status_text :: "requisition_status \<Rightarrow> string" where
  "rq_status_text RQ_DRAFT = ''DRAFT''"
| "rq_status_text RQ_SUBMITTED = ''SUBMITTED''"
| "rq_status_text RQ_QUOTING = ''QUOTING''"
| "rq_status_text RQ_PENDING_APPROVAL = ''PENDING_APPROVAL''"
| "rq_status_text RQ_PARTIALLY_PURCHASED = ''PARTIALLY_PURCHASED''"
| "rq_status_text RQ_APPROVED = ''APPROVED''"
| "rq_status_text RQ_REJECTED = ''REJECTED''"
| "rq_status_text RQ_CANCELLED = ''CANCELLED''"
| "rq_status_text RQ_CLOSED = ''CLOSED''"

fun qt_status_text :: "quotation_status \<Rightarrow> string" where
  "qt_status_text QT_RECEIVED = ''RECEIVED''"
| "qt_status_text QT_SELECTED = ''SELECTED''"
| "qt_status_text QT_PARTIALLY_SELECTED = ''PARTIALLY_SELECTED''"
| "qt_status_text QT_REJECTED = ''REJECTED''"

definition set_order :: "id \<Rightarrow> (purchase_order \<Rightarrow> purchase_order) \<Rightarrow> 'a purch_db_scheme \<Rightarrow> 'a purch_db_scheme" where
  "set_order i f db = db\<lparr>orders := update_rows (\<lambda>x. po_id x = i) f (orders db)\<rparr>"

definition set_requisition ::
    "id \<Rightarrow> (requisition \<Rightarrow> requisition) \<Rightarrow> 'a purch_db_scheme \<Rightarrow> 'a purch_db_scheme" where
  "set_requisition i f db = db\<lparr>requisitions := update_rows (\<lambda>x. rq_id x = i) f (requisitions db)\<rparr>"

text \<open>The update of a requisition line by its own id, whatever requisition it is in.\<close>

definition set_award :: "id \<Rightarrow> id option \<Rightarrow> 'a purch_db_scheme \<Rightarrow> 'a purch_db_scheme" where
  "set_award line award db =
     db\<lparr>requisitions := map (\<lambda>r. r\<lparr>rq_items := update_rows (\<lambda>l. rl_id l = line)
        (\<lambda>l. l\<lparr>rl_award := award\<rparr>) (rq_items r)\<rparr>) (requisitions db)\<rparr>"

text \<open>The primary key and the unique index of the orders.\<close>

definition create_order :: "purchase_order \<Rightarrow> 'a purch_db_scheme \<Rightarrow> 'a purch_db_scheme res" where
  "create_order po db =
     (if list_ex (\<lambda>x. po_id x = po_id po
          \<or> po_tenant x = po_tenant po \<and> po_correlative x = po_correlative po) (orders db)
      then Inl UniqueViolation
      else Inr (db\<lparr>orders := orders db @ [po]\<rparr>))"

definition order_log ::
    "user \<Rightarrow> id \<Rightarrow> string \<Rightarrow> (string \<times> json) list \<Rightarrow> (string \<times> json) list \<Rightarrow>
     'a purch_db_scheme \<Rightarrow> 'a purch_db_scheme" where
  "order_log u i action old new =
     audit_log \<lparr>lg_tenant = user_tenant u, lg_user = user_id u, lg_entity = ''PURCHASE_ORDER'',
       lg_entity_id = i, lg_action = action, lg_old = old, lg_new = new\<rparr>"

definition requisition_log ::
    "user \<Rightarrow> id \<Rightarrow> string \<Rightarrow> (string \<times> json) list \<Rightarrow> (string \<times> json) list \<Rightarrow>
     'a purch_db_scheme \<Rightarrow> 'a purch_db_scheme" where
  "requisition_log u i action old new =
     audit_log \<lparr>lg_tenant = user_tenant u, lg_user = user_id u, lg_entity = ''REQUISITION'',
       lg_entity_id = i, lg_action = action, lg_old = old, lg_new = new\<rparr>"

definition po_status_json :: "po_status \<Rightarrow> string \<times> json" where
  "po_status_json st = (''status'', JStr (po_status_text st))"

definition rq_status_json :: "requisition_status \<Rightarrow> string \<times> json" where
  "rq_status_json st = (''status'', JStr (rq_status_text st))"

definition opt_json :: "string option \<Rightarrow> json" where
  "opt_json s = (case s of None \<Rightarrow> JNull | Some t \<Rightarrow> JStr t)"

section \<open>Settings and policies\<close>

definition settings_of :: "id \<Rightarrow> 'a purch_db_scheme \<Rightarrow> purchase_settings option" where
  "settings_of tenant db = find_row (\<lambda>s. ps_tenant s = tenant) (purchase_settings db)"

definition getSettings :: "id \<Rightarrow> id \<Rightarrow> 'a purch_db_scheme \<Rightarrow> purchase_settings \<times> 'a purch_db_scheme" where
  "getSettings newId tenant db =
     (case settings_of tenant db of
        Some s \<Rightarrow> (s, db)
      | None \<Rightarrow>
          let s = \<lparr>ps_id = newId, ps_tenant = tenant, ps_threshold = 0, ps_currency = ''CLP'', ps_tolerance = 1\<rparr>
          in (s, db\<lparr>purchase_settings := purchase_settings db @ [s]\<rparr>))"

definition updateSettings ::
    "id \<Rightarrow> id \<Rightarrow> qty option \<Rightarrow> string option \<Rightarrow> qty option \<Rightarrow> 'a purch_db_scheme \<Rightarrow> 'a purch_db_scheme" where
  "updateSettings newId tenant threshold currency tolerance db =
     (case getSettings newId tenant db of (s, db1) \<Rightarrow>
        db1\<lparr>purchase_settings := update_rows (\<lambda>x. ps_id x = ps_id s)
          (\<lambda>x. x\<lparr>ps_threshold := (case threshold of None \<Rightarrow> ps_threshold x | Some t \<Rightarrow> t),
                 ps_currency := (case currency of None \<Rightarrow> ps_currency x | Some c \<Rightarrow> c),
                 ps_tolerance := (case tolerance of None \<Rightarrow> ps_tolerance x | Some t \<Rightarrow> t)\<rparr>)
          (purchase_settings db1)\<rparr>)"

definition approval_threshold :: "id \<Rightarrow> 'a purch_db_scheme \<Rightarrow> qty" where
  "approval_threshold tenant db =
     (case settings_of tenant db of None \<Rightarrow> 0 | Some s \<Rightarrow> ps_threshold s)"

definition required_signatures :: "qty \<Rightarrow> qty \<Rightarrow> int" where
  "required_signatures threshold amount = (if amount \<ge> threshold \<and> threshold > 0 then 3 else 2)"

text \<open>The policies of a tenant, by level.\<close>

definition policies_of :: "id \<Rightarrow> 'a purch_db_scheme \<Rightarrow> approval_policy list" where
  "policies_of tenant db =
     sort_key pl_level (filter (\<lambda>p. pl_tenant p = tenant) (approval_policies db))"

definition getPolicies :: "id \<Rightarrow> id \<Rightarrow> 'a purch_db_scheme \<Rightarrow> approval_policy list \<times> 'a purch_db_scheme" where
  "getPolicies newId tenant db =
     (case getSettings newId tenant db of (s, db1) \<Rightarrow>
        (sort_key pl_level (filter (\<lambda>p. pl_settings p = ps_id s) (approval_policies db1)), db1))"

record policy_dto =
  lv_level :: int
  lv_description :: "string option"
  lv_users :: "id list"
  lv_min :: "qty option"

definition check_policies :: "(id \<Rightarrow> bool) \<Rightarrow> policy_dto list \<Rightarrow> unit res" where
  "check_policies members dtos =
     (if \<not> distinct (map lv_level dtos)
      then Inl (BadRequest ''Cada nivel debe aparecer solo una vez'')
      else if list_ex (\<lambda>p. lv_users p = []) dtos
      then Inl (BadRequest ''El nivel no tiene usuarios autorizados asignados'')
      else if list_ex (\<lambda>p. list_ex (\<lambda>u. \<not> members u) (lv_users p)) dtos
      then Inl (BadRequest ''Los siguientes usuarios no pertenecen al tenant o no existen'')
      else Inr ())"

text \<open>
  One level of the request: the row of the level is changed or created, and its users replaced.
  \<open>existing\<close> are the rows read at the start of the transaction.
\<close>

definition upsert_level ::
    "(int \<Rightarrow> id) \<Rightarrow> id \<Rightarrow> id \<Rightarrow> approval_policy list \<Rightarrow> policy_dto \<Rightarrow>
     'a purch_db_scheme \<Rightarrow> 'a purch_db_scheme" where
  "upsert_level newPolicy settings tenant existing p db =
     (let minimum = (case lv_min p of None \<Rightarrow> 0 | Some m \<Rightarrow> m) in
      case find_row (\<lambda>e. pl_level e = lv_level p) existing of
        Some row \<Rightarrow>
          db\<lparr>approval_policies := update_rows (\<lambda>x. pl_id x = pl_id row)
            (\<lambda>x. x\<lparr>pl_description := (case lv_description p of None \<Rightarrow> pl_description x | Some d \<Rightarrow> Some d),
                   pl_min := minimum, pl_users := remdups (lv_users p)\<rparr>) (approval_policies db)\<rparr>
      | None \<Rightarrow>
          db\<lparr>approval_policies := approval_policies db
            @ [\<lparr>pl_id = newPolicy (lv_level p), pl_settings = settings, pl_tenant = tenant,
                pl_level = lv_level p, pl_description = lv_description p, pl_min = minimum,
                pl_users = remdups (lv_users p)\<rparr>]\<rparr>)"

definition drop_level ::
    "policy_dto list \<Rightarrow> approval_policy \<Rightarrow> 'a purch_db_scheme \<Rightarrow> 'a purch_db_scheme res" where
  "drop_level dtos ex db =
     (if pl_level ex \<in> set (map lv_level dtos) then Inr db
      else if list_ex (\<lambda>s. sg_policy s = pl_id ex) (signatures db)
      then Inl (BadRequest ''No se puede quitar el nivel: ya hay ordenes firmadas con esa politica'')
      else Inr (db\<lparr>approval_policies := filter (\<lambda>x. pl_id x \<noteq> pl_id ex) (approval_policies db)\<rparr>))"

definition upsertPolicies ::
    "(id \<Rightarrow> bool) \<Rightarrow> id \<Rightarrow> (int \<Rightarrow> id) \<Rightarrow> id \<Rightarrow> policy_dto list \<Rightarrow>
     'a purch_db_scheme \<Rightarrow> 'a purch_db_scheme res" where
  "upsertPolicies members newId newPolicy tenant dtos db =
     (case getSettings newId tenant db of (s, db1) \<Rightarrow>
        and_then (check_policies members dtos) (\<lambda>_.
        let existing = filter (\<lambda>p. pl_settings p = ps_id s) (approval_policies db1);
            db2 = fold (upsert_level newPolicy (ps_id s) tenant existing) dtos db1
        in for_each (drop_level dtos) existing db2))"

text \<open>The policy of a user: the first one, by level, that lists the user.\<close>

definition resolveApprovalPolicyForUser :: "approval_policy list \<Rightarrow> id \<Rightarrow> approval_policy option" where
  "resolveApprovalPolicyForUser policies uid = find_row (\<lambda>p. uid \<in> set (pl_users p)) policies"

section \<open>The hash of a signature\<close>

record signature_payload =
  sp_user :: id
  sp_order :: id
  sp_total :: string
  sp_status :: string
  sp_timestamp :: string
  sp_tenant :: id

fun join_with :: "string \<Rightarrow> string list \<Rightarrow> string" where
  "join_with sep [] = []"
| "join_with sep [s] = s"
| "join_with sep (s # t # ss) = s @ sep @ join_with sep (t # ss)"

definition generateSignatureHash :: "(string \<Rightarrow> string) \<Rightarrow> signature_payload \<Rightarrow> string" where
  "generateSignatureHash sha p =
     sha (join_with ''|'' [sp_user p, sp_order p, sp_total p, sp_status p, sp_timestamp p, sp_tenant p])"

definition verifySignatureIntegrity :: "(string \<Rightarrow> string) \<Rightarrow> string \<Rightarrow> signature_payload \<Rightarrow> bool" where
  "verifySignatureIntegrity sha stored p \<longleftrightarrow> stored = generateSignatureHash sha p"

section \<open>Awards, quotations and coverage\<close>

definition PO_INACTIVE_STATUSES :: "po_status list" where
  "PO_INACTIVE_STATUSES = [PO_CANCELLED, PO_REJECTED]"

definition order_active :: "purchase_order \<Rightarrow> bool" where
  "order_active po \<longleftrightarrow> po_status po \<notin> set PO_INACTIVE_STATUSES"

definition sources_of :: "purchase_order \<Rightarrow> id list" where
  "sources_of po = List.map_filter oi_source_quotation_item (po_items po)"

definition awards_of :: "requisition \<Rightarrow> id list" where
  "awards_of r = List.map_filter rl_award (rq_items r)"

definition all_awarded :: "requisition \<Rightarrow> bool" where
  "all_awarded r \<longleftrightarrow> list_all (\<lambda>l. rl_award l \<noteq> None) (rq_items r)"

definition next_quotation_status :: "requisition \<Rightarrow> quotation \<Rightarrow> quotation_status" where
  "next_quotation_status r q =
     (let awarded = length (filter (\<lambda>i. qi_id i \<in> set (awards_of r)) (qt_items q)) in
      if awarded = length (qt_items q) then QT_SELECTED
      else if awarded > 0 then QT_PARTIALLY_SELECTED
      else if all_awarded r then QT_REJECTED
      else QT_RECEIVED)"

text \<open>The quotations that get a status: those of the requisition with lines, once a line is awarded.\<close>

definition synced_quotation :: "requisition \<Rightarrow> quotation \<Rightarrow> bool" where
  "synced_quotation r q \<longleftrightarrow> awards_of r \<noteq> [] \<and> qt_requisition q = rq_id r \<and> qt_items q \<noteq> []"

definition syncPurchaseQuotationStatusesFromLineAwards ::
    "id \<Rightarrow> 'a purch_db_scheme \<Rightarrow> (id \<times> quotation_status \<times> quotation_status) list \<times> 'a purch_db_scheme" where
  "syncPurchaseQuotationStatusesFromLineAwards requisitionId db =
     (case find_row (\<lambda>r. rq_id r = requisitionId) (requisitions db) of
        None \<Rightarrow> ([], db)
      | Some r \<Rightarrow>
          (map (\<lambda>q. (qt_id q, qt_status q, next_quotation_status r q))
             (filter (\<lambda>q. synced_quotation r q \<and> qt_status q \<noteq> next_quotation_status r q) (quotations db)),
           db\<lparr>quotations := update_rows (synced_quotation r)
             (\<lambda>q. q\<lparr>qt_status := next_quotation_status r q,
                    qt_winner := (next_quotation_status r q = QT_SELECTED)\<rparr>) (quotations db)\<rparr>))"

text \<open>A line of the requisition is bought when an active order of it has a line from its award.\<close>

definition bought :: "id \<Rightarrow> 'a purch_db_scheme \<Rightarrow> id \<Rightarrow> bool" where
  "bought requisitionId db award \<longleftrightarrow>
     list_ex (\<lambda>po. po_requisition po = Some requisitionId \<and> order_active po \<and> award \<in> set (sources_of po))
       (orders db)"

definition line_bought :: "id \<Rightarrow> 'a purch_db_scheme \<Rightarrow> requisition_item \<Rightarrow> bool" where
  "line_bought requisitionId db l =
     (case rl_award l of None \<Rightarrow> False | Some a \<Rightarrow> bought requisitionId db a)"

definition coverage_status :: "requisition \<Rightarrow> 'a purch_db_scheme \<Rightarrow> requisition_status option" where
  "coverage_status r db =
     (let every = list_all (line_bought (rq_id r) db) (rq_items r);
          any = list_ex (line_bought (rq_id r) db) (rq_items r)
      in if all_awarded r \<and> every then Some RQ_APPROVED
         else if any then Some RQ_PARTIALLY_PURCHASED
         else if all_awarded r then Some RQ_PENDING_APPROVAL
         else if rq_status r = RQ_APPROVED \<or> rq_status r = RQ_PARTIALLY_PURCHASED
           then Some RQ_PENDING_APPROVAL
         else None)"

definition applyRequisitionCoverageStatusAfterPurchase ::
    "id \<Rightarrow> 'a purch_db_scheme \<Rightarrow> 'a purch_db_scheme" where
  "applyRequisitionCoverageStatusAfterPurchase requisitionId db =
     (case find_row (\<lambda>r. rq_id r = requisitionId) (requisitions db) of
        None \<Rightarrow> db
      | Some r \<Rightarrow>
          if rq_items r = [] then db
          else (case coverage_status r db of
             None \<Rightarrow> db
           | Some st \<Rightarrow> set_requisition requisitionId (\<lambda>x. x\<lparr>rq_status := st\<rparr>) db))"

end
