(* ===== verification/Requisitions.thy ===== *)
theory Requisitions
  imports Procurement Operations
begin

text \<open>
  \<open>features/purchases/purchase-requisitions.service.ts\<close>: the requisition from its draft to the award
  of its lines. Lists, details, the PDF and the notifications are left out. \<open>known\<close> stands for the
  table of contracts: the ids of the contracts of the tenant. Ids of new rows are arguments, and so is
  what the storage returns for the attachment of a quotation.
\<close>

section \<open>Checks\<close>

definition is_hex :: "char \<Rightarrow> bool" where
  "is_hex c = (let n = of_char c :: nat in
     48 \<le> n \<and> n \<le> 57 \<or> 65 \<le> n \<and> n \<le> 70 \<or> 97 \<le> n \<and> n \<le> 102)"

definition is_uuid :: "string \<Rightarrow> bool" where
  "is_uuid s \<longleftrightarrow> length s = 36
     \<and> list_all (\<lambda>(k, c). if k \<in> {8, 13, 18, 23} then c = CHR ''-'' else is_hex c) (enumerate 0 s)"

record line_req =
  lq_id :: "id option"
  lq_inventory_item :: "id option"
  lq_description :: string
  lq_qty :: qty
  lq_unit :: string
  lq_estimated :: "qty option"
  lq_part_number :: "string option"
  lq_notes :: "string option"

definition ensureRequisitionItemsCatalogLinked ::
    "id \<Rightarrow> id option list \<Rightarrow> 'a inv_db_scheme \<Rightarrow> unit res" where
  "ensureRequisitionItemsCatalogLinked tenant links db =
     (if links = [] then Inl (BadRequest ''El requerimiento debe tener al menos un item'')
      else if list_ex (\<lambda>l. trim_opt l = [] \<or> \<not> is_uuid (trim_opt l)) links
      then Inl (BadRequest ''Cada linea debe estar vinculada a un articulo del catalogo maestro'')
      else if list_ex (\<lambda>l. find_row (\<lambda>x. it_id x = trim_opt l \<and> it_tenant x = tenant) (items db) = None) links
      then Inl (BadRequest ''Uno o mas articulos del catalogo no existen'')
      else Inr ())"

definition assertRequisitionLineQuantities :: "qty list \<Rightarrow> unit res" where
  "assertRequisitionLineQuantities qs =
     (if list_ex (\<lambda>q. q \<le> 0) qs
      then Inl (BadRequest ''La cantidad solicitada debe ser un numero mayor a cero'') else Inr ())"

definition assertEquipmentBelongsToContract :: "equipment \<Rightarrow> id \<Rightarrow> 'a ops_db_scheme \<Rightarrow> unit res" where
  "assertEquipmentBelongsToContract e contract db =
     (if eq_contract e = Some contract
         \<or> (case eq_subcontract e of None \<Rightarrow> False
            | Some s \<Rightarrow> s \<noteq> [] \<and> list_ex (\<lambda>c. sc_id c = s \<and> sc_contract c = contract) (subcontracts db))
      then Inr () else Inl (BadRequest ''El equipo no pertenece al contrato del requerimiento''))"

definition assertEquipmentAlignedWithRequisitionSubcontract :: "equipment \<Rightarrow> id option \<Rightarrow> unit res" where
  "assertEquipmentAlignedWithRequisitionSubcontract e subcontract =
     (case (subcontract, eq_subcontract e) of
        (Some s, Some t) \<Rightarrow>
          if s \<noteq> [] \<and> t \<noteq> s
          then Inl (BadRequest ''El equipo no esta asignado al mismo subcontrato que el requerimiento'')
          else Inr ()
      | _ \<Rightarrow> Inr ())"

text \<open>The equipment and the work order of a requisition; with a work order the equipment is its.\<close>

definition resolveRequisitionAssetLinks ::
    "id \<Rightarrow> id \<Rightarrow> id option \<Rightarrow> id option \<Rightarrow> id option \<Rightarrow> 'a ops_db_scheme \<Rightarrow> (id option \<times> id option) res" where
  "resolveRequisitionAssetLinks tenant contract subcontract workOrder equipmentId db =
     (case workOrder of
        Some w \<Rightarrow>
          if \<not> is_uuid w then Inl (BadRequest ''ID de orden de trabajo invalido'')
          else (case find_row (\<lambda>x. wo_id x = w \<and> wo_tenant x = tenant) (work_orders db) of
            None \<Rightarrow> Inl (BadRequest ''La orden de trabajo no existe'')
          | Some wo \<Rightarrow>
              (case find_row (\<lambda>e. eq_id e = wo_equipment wo) (equipments db) of
                 None \<Rightarrow> Inl RecordNotFound
               | Some e \<Rightarrow>
                   and_then (assertEquipmentBelongsToContract e contract db) (\<lambda>_.
                   and_then (assertEquipmentAlignedWithRequisitionSubcontract e subcontract) (\<lambda>_.
                   if equipmentId \<noteq> None \<and> equipmentId \<noteq> Some (wo_equipment wo)
                   then Inl (BadRequest ''El equipo indicado no corresponde al de la orden de trabajo'')
                   else Inr (Some (wo_equipment wo), Some (wo_id wo))))))
      | None \<Rightarrow>
          (case equipmentId of
             None \<Rightarrow> Inr (None, None)
           | Some i \<Rightarrow>
               if \<not> is_uuid i then Inl (BadRequest ''ID de equipo invalido'')
               else (case find_equipment i tenant db of
                 None \<Rightarrow> Inl (BadRequest ''El equipo no existe'')
               | Some e \<Rightarrow>
                   and_then (assertEquipmentBelongsToContract e contract db) (\<lambda>_.
                   and_then (assertEquipmentAlignedWithRequisitionSubcontract e subcontract) (\<lambda>_.
                   Inr (Some (eq_id e), None))))))"

definition requisition_findById :: "id \<Rightarrow> id \<Rightarrow> 'a purch_db_scheme \<Rightarrow> requisition res" where
  "requisition_findById i tenant db =
     (case find_row (\<lambda>r. rq_id r = i \<and> rq_tenant r = tenant) (requisitions db) of
        None \<Rightarrow> Inl (NotFound ''Requerimiento no encontrado'')
      | Some r \<Rightarrow> Inr r)"

section \<open>Creation and duplication\<close>

record requisition_dto =
  rqd_contract :: id
  rqd_subcontract :: "id option"
  rqd_description :: string
  rqd_justification :: "string option"
  rqd_priority :: "requisition_priority option"
  rqd_work_order :: "id option"
  rqd_equipment :: "id option"
  rqd_items :: "line_req list"

definition text_or_none :: "string option \<Rightarrow> string option" where
  "text_or_none s = (if trim_opt s = [] then None else Some (trim_opt s))"

definition new_line :: "(nat \<Rightarrow> id) \<Rightarrow> nat \<Rightarrow> line_req \<Rightarrow> requisition_item" where
  "new_line newItem k l =
     \<lparr>rl_id = newItem k, rl_inventory_item = lq_inventory_item l, rl_description = lq_description l,
      rl_part_number = lq_part_number l, rl_notes = lq_notes l, rl_qty = lq_qty l, rl_unit = lq_unit l,
      rl_estimated = lq_estimated l, rl_award = None\<rparr>"

definition new_lines :: "(nat \<Rightarrow> id) \<Rightarrow> line_req list \<Rightarrow> requisition_item list" where
  "new_lines newItem ls = map (\<lambda>(k, l). new_line newItem k l) (enumerate 0 ls)"

definition check_contract :: "(id \<Rightarrow> bool) \<Rightarrow> id \<Rightarrow> id option \<Rightarrow> 'a ops_db_scheme \<Rightarrow> unit res" where
  "check_contract known contract subcontract db =
     (if contract = [] \<or> contract = ''ALL'' \<or> \<not> is_uuid contract
      then Inl (BadRequest ''Debe indicar un contrato valido'')
      else if \<not> known contract
      then Inl (BadRequest ''El contrato no existe o no pertenece a su organizacion'')
      else case or_null subcontract of
        None \<Rightarrow> Inr ()
      | Some s \<Rightarrow>
          if \<not> is_uuid s then Inl (BadRequest ''ID de subcontrato invalido'')
          else if \<not> list_ex (\<lambda>c. sc_id c = s \<and> sc_contract c = contract) (subcontracts db)
          then Inl (BadRequest ''El subcontrato no pertenece al contrato seleccionado'')
          else Inr ())"

definition requisition_create ::
    "(id \<Rightarrow> bool) \<Rightarrow> id \<Rightarrow> (nat \<Rightarrow> id) \<Rightarrow> requisition_dto \<Rightarrow> user \<Rightarrow> 'a ops_db_scheme \<Rightarrow> 'a ops_db_scheme res" where
  "requisition_create known newId newItem dto u db =
     (let tenant = user_tenant u in
      and_then (check_contract known (rqd_contract dto) (rqd_subcontract dto) db) (\<lambda>_.
      and_then (resolveRequisitionAssetLinks tenant (rqd_contract dto) (rqd_subcontract dto)
          (text_or_none (rqd_work_order dto)) (text_or_none (rqd_equipment dto)) db) (\<lambda>(eq, wo).
      and_then (ensureRequisitionItemsCatalogLinked tenant (map lq_inventory_item (rqd_items dto)) db) (\<lambda>_.
      and_then (assertRequisitionLineQuantities (map lq_qty (rqd_items dto))) (\<lambda>_.
      let (correlative, db1) = getNextCorrelative tenant ''SRC'' ''SRC'' None None db;
          r = \<lparr>rq_id = newId, rq_tenant = tenant, rq_contract = rqd_contract dto,
               rq_subcontract = or_null (rqd_subcontract dto), rq_correlative = correlative,
               rq_requested_by = user_id u, rq_status = RQ_DRAFT, rq_description = rqd_description dto,
               rq_justification = rqd_justification dto, rq_equipment = eq, rq_work_order = wo,
               rq_priority = (case rqd_priority dto of None \<Rightarrow> PR_MEDIUM | Some p \<Rightarrow> p),
               rq_items = new_lines newItem (rqd_items dto)\<rparr>
      in Inr (requisition_log u newId ''CREATE'' []
           [(''correlative'', JStr correlative), rq_status_json RQ_DRAFT,
            (''itemsCount'', JNum (of_nat (length (rqd_items dto))))]
           (db1\<lparr>requisitions := requisitions db1 @ [r]\<rparr>)))))))"

definition line_again :: "requisition_item \<Rightarrow> line_req" where
  "line_again l =
     \<lparr>lq_id = None, lq_inventory_item = rl_inventory_item l, lq_description = rl_description l,
      lq_qty = rl_qty l, lq_unit = rl_unit l, lq_estimated = rl_estimated l,
      lq_part_number = rl_part_number l, lq_notes = rl_notes l\<rparr>"

definition requisition_duplicate ::
    "(id \<Rightarrow> bool) \<Rightarrow> id \<Rightarrow> (nat \<Rightarrow> id) \<Rightarrow> id \<Rightarrow> user \<Rightarrow> 'a ops_db_scheme \<Rightarrow> 'a ops_db_scheme res" where
  "requisition_duplicate known newId newItem i u db =
     and_then (requisition_findById i (user_tenant u) db) (\<lambda>r.
     requisition_create known newId newItem
       \<lparr>rqd_contract = rq_contract r, rqd_subcontract = rq_subcontract r,
        rqd_description = ''[Copia] '' @ rq_description r, rqd_justification = rq_justification r,
        rqd_priority = Some (rq_priority r), rqd_work_order = rq_work_order r,
        rqd_equipment = rq_equipment r, rqd_items = map line_again (rq_items r)\<rparr> u db)"

section \<open>Changes\<close>

text \<open>A field that is absent is \<open>None\<close>; \<open>rqp_other\<close> says that the request has another defined key.\<close>

record requisition_patch =
  rqp_work_order :: "id option option"
  rqp_equipment :: "id option option"
  rqp_description :: "string option"
  rqp_justification :: "string option option"
  rqp_priority :: "string option"
  rqp_items :: "line_req list option"
  rqp_other :: bool

definition wants_links :: "requisition_patch \<Rightarrow> bool" where
  "wants_links p \<longleftrightarrow> rqp_work_order p \<noteq> None \<or> rqp_equipment p \<noteq> None"

definition other_keys :: "requisition_patch \<Rightarrow> bool" where
  "other_keys p \<longleftrightarrow> rqp_description p \<noteq> None \<or> rqp_justification p \<noteq> None \<or> rqp_priority p \<noteq> None
     \<or> rqp_items p \<noteq> None \<or> rqp_other p"

definition resolve_patch_links ::
    "id \<Rightarrow> requisition \<Rightarrow> requisition_patch \<Rightarrow> 'a ops_db_scheme \<Rightarrow> (id option \<times> id option) res" where
  "resolve_patch_links tenant r p db =
     resolveRequisitionAssetLinks tenant (rq_contract r) (rq_subcontract r)
       (case rqp_work_order p of Some w \<Rightarrow> text_or_none w | None \<Rightarrow> rq_work_order r)
       (case rqp_equipment p of Some e \<Rightarrow> text_or_none e | None \<Rightarrow> rq_equipment r) db"

definition set_links :: "id option \<times> id option \<Rightarrow> requisition \<Rightarrow> requisition" where
  "set_links links r = r\<lparr>rq_equipment := fst links, rq_work_order := snd links\<rparr>"

definition quoted :: "id \<Rightarrow> 'a purch_db_scheme \<Rightarrow> bool" where
  "quoted line db \<longleftrightarrow> list_ex (\<lambda>q. list_ex (\<lambda>i. qi_line i = line) (qt_items q)) (quotations db)"

text \<open>The lines of a requisition that is not a draft: removed, changed and added one by one.\<close>

definition merge_line :: "line_req \<Rightarrow> requisition_item \<Rightarrow> requisition_item" where
  "merge_line l x =
     x\<lparr>rl_description := lq_description l, rl_qty := lq_qty l, rl_unit := lq_unit l,
       rl_estimated := (case lq_estimated l of None \<Rightarrow> rl_estimated x | Some e \<Rightarrow> Some e),
       rl_inventory_item := lq_inventory_item l, rl_part_number := lq_part_number l,
       rl_notes := lq_notes l\<rparr>"

definition merge_lines ::
    "(nat \<Rightarrow> id) \<Rightarrow> line_req list \<Rightarrow> requisition_item list \<Rightarrow> 'a purch_db_scheme \<Rightarrow> requisition_item list res" where
  "merge_lines newItem ls old db =
     (let given = List.map_filter (\<lambda>l. or_null (lq_id l)) ls;
          dropped = filter (\<lambda>x. rl_id x \<notin> set given) old
      in if list_ex (\<lambda>x. quoted (rl_id x) db) dropped
         then Inl (BadRequest ''No se puede eliminar un item que ya figura en una cotizacion'')
         else Inr (fold (\<lambda>(k, l) acc.
                case or_null (lq_id l) of
                  Some i \<Rightarrow> if i \<in> rl_id ` set old then update_rows (\<lambda>x. rl_id x = i) (merge_line l) acc
                            else acc @ [new_line newItem k l]
                | None \<Rightarrow> acc @ [new_line newItem k l])
              (enumerate 0 ls) (filter (\<lambda>x. rl_id x \<in> set given) old)))"

definition priority_of_text :: "string \<Rightarrow> requisition_priority option" where
  "priority_of_text s =
     (if s = ''LOW'' then Some PR_LOW else if s = ''MEDIUM'' then Some PR_MEDIUM
      else if s = ''HIGH'' then Some PR_HIGH else None)"

definition patch_requisition :: "requisition_patch \<Rightarrow> requisition \<Rightarrow> requisition" where
  "patch_requisition p r =
     r\<lparr>rq_description := (case rqp_description p of None \<Rightarrow> rq_description r | Some d \<Rightarrow> d),
       rq_justification := (case rqp_justification p of None \<Rightarrow> rq_justification r | Some j \<Rightarrow> j),
       rq_priority := (case Option.bind (rqp_priority p) priority_of_text of
          None \<Rightarrow> rq_priority r | Some pr \<Rightarrow> pr)\<rparr>"

definition owner_or_admin :: "user \<Rightarrow> requisition \<Rightarrow> bool" where
  "owner_or_admin u r \<longleftrightarrow> rq_requested_by r = user_id u \<or> userHasGlobalRoleBypass (user_role u)"

definition check_links :: "user \<Rightarrow> requisition \<Rightarrow> requisition_patch \<Rightarrow> unit res" where
  "check_links u r p =
     (if \<not> wants_links p then Inr ()
      else if rq_status r \<notin> {RQ_DRAFT, RQ_SUBMITTED}
      then Inl (BadRequest ''Solo se pueden modificar equipo y orden de trabajo en borrador o enviado'')
      else if \<not> owner_or_admin u r
      then Inl (Forbidden ''Solo el solicitante o un administrador puede modificar el vinculo'')
      else Inr ())"

definition update_submitted ::
    "user \<Rightarrow> requisition \<Rightarrow> requisition_patch \<Rightarrow> 'a ops_db_scheme \<Rightarrow> 'a ops_db_scheme res" where
  "update_submitted u r p db =
     (if other_keys p
      then Inl (BadRequest ''En estado Enviado solo puede actualizar equipo y orden de trabajo'')
      else if \<not> wants_links p
      then Inl (BadRequest ''No hay cambios permitidos para este requerimiento en estado enviado'')
      else and_then (resolve_patch_links (user_tenant u) r p db) (\<lambda>links.
        let db1 = set_requisition (rq_id r) (set_links links) db
        in Inr (if links = (rq_equipment r, rq_work_order r) then db1
                else requisition_log u (rq_id r) ''UPDATE''
                  [(''equipmentId'', opt_json (rq_equipment r)), (''workOrderId'', opt_json (rq_work_order r))]
                  [(''equipmentId'', opt_json (fst links)), (''workOrderId'', opt_json (snd links))] db1)))"

definition check_editor :: "user \<Rightarrow> requisition \<Rightarrow> unit res" where
  "check_editor u r =
     (let purchaser = userHasPermission (Some u) ''purchases:requisition:update-purchasing'' in
      if rq_status r = RQ_DRAFT \<and> owner_or_admin u r
         \<or> rq_status r \<in> {RQ_QUOTING, RQ_PENDING_APPROVAL, RQ_PARTIALLY_PURCHASED} \<and> purchaser
      then Inr ()
      else if rq_status r = RQ_QUOTING
      then Inl (Forbidden ''Solo personal de compras puede editar un requerimiento en cotizacion'')
      else if rq_status r = RQ_PENDING_APPROVAL
      then Inl (Forbidden ''Solo personal de compras puede editar mientras la OC no haya sido generada'')
      else Inl (BadRequest ''Solo se pueden editar requerimientos en borrador, en cotizacion o pendientes de OC''))"

definition requisition_update ::
    "(nat \<Rightarrow> id) \<Rightarrow> requisition_patch \<Rightarrow> user \<Rightarrow> id \<Rightarrow> 'a ops_db_scheme \<Rightarrow> 'a ops_db_scheme res" where
  "requisition_update newItem p u i db =
     and_then (requisition_findById i (user_tenant u) db) (\<lambda>r.
     and_then (check_links u r p) (\<lambda>_.
     if rq_status r = RQ_SUBMITTED then update_submitted u r p db
     else
       and_then (check_editor u r) (\<lambda>_.
       and_then (case rqp_items p of None \<Rightarrow> Inr ()
         | Some ls \<Rightarrow> and_then (ensureRequisitionItemsCatalogLinked (user_tenant u) (map lq_inventory_item ls) db)
             (\<lambda>_. assertRequisitionLineQuantities (map lq_qty ls))) (\<lambda>_.
       and_then (if wants_links p \<and> rq_status r = RQ_DRAFT
           then and_then (resolve_patch_links (user_tenant u) r p db) (\<lambda>l. Inr (Some l)) else Inr None) (\<lambda>links.
       and_then (case rqp_items p of None \<Rightarrow> Inr (rq_items r)
         | Some ls \<Rightarrow> if rq_status r = RQ_DRAFT then Inr (new_lines newItem ls)
             else merge_lines newItem ls (rq_items r) db) (\<lambda>lines.
       let after = (case links of None \<Rightarrow> (\<lambda>x. x) | Some l \<Rightarrow> set_links l)
             (patch_requisition p (r\<lparr>rq_items := lines\<rparr>));
           db1 = set_requisition i (\<lambda>_. after) db
       in Inr (if after = r then db1
               else requisition_log u i ''UPDATE''
                 [(''description'', JStr (rq_description r)), (''itemsCount'', JNum (of_nat (length (rq_items r))))]
                 [(''description'', JStr (rq_description after)),
                  (''itemsCount'', JNum (of_nat (length lines)))] db1)))))))"

section \<open>Status changes\<close>

definition set_rq_status :: "id \<Rightarrow> requisition_status \<Rightarrow> 'a purch_db_scheme \<Rightarrow> 'a purch_db_scheme" where
  "set_rq_status i st db = set_requisition i (\<lambda>x. x\<lparr>rq_status := st\<rparr>) db"

definition requisition_submit :: "user \<Rightarrow> id \<Rightarrow> 'a purch_db_scheme \<Rightarrow> 'a purch_db_scheme res" where
  "requisition_submit u i db =
     and_then (requisition_findById i (user_tenant u) db) (\<lambda>r.
     if rq_status r \<noteq> RQ_DRAFT
     then Inl (BadRequest ''Solo se pueden enviar requerimientos en estado DRAFT'')
     else if rq_items r = [] then Inl (BadRequest ''El requerimiento debe tener al menos un item'')
     else
       and_then (ensureRequisitionItemsCatalogLinked (user_tenant u) (map rl_inventory_item (rq_items r)) db) (\<lambda>_.
       and_then (assertRequisitionLineQuantities (map rl_qty (rq_items r))) (\<lambda>_.
       Inr (requisition_log u i ''STATUS_CHANGE'' [rq_status_json RQ_DRAFT] [rq_status_json RQ_SUBMITTED]
         (set_rq_status i RQ_SUBMITTED db)))))"

definition linked_order :: "id \<Rightarrow> id \<Rightarrow> 'a purch_db_scheme \<Rightarrow> bool" where
  "linked_order tenant i db \<longleftrightarrow>
     list_ex (\<lambda>po. po_tenant po = tenant \<and> order_active po
       \<and> (po_requisition po = Some i \<or> po_quotation_requisition po = Some i)) (orders db)"

definition low_stock_lines :: "requisition \<Rightarrow> 'a inv_db_scheme \<Rightarrow> requisition_item list" where
  "low_stock_lines r db =
     filter (\<lambda>l. case rl_inventory_item l of None \<Rightarrow> False
       | Some x \<Rightarrow> list_ex (\<lambda>s. st_item s = x \<and> st_min s > 0 \<and> st_qty s \<le> st_min s) (stocks db)) (rq_items r)"

definition requisition_cancel :: "string option \<Rightarrow> user \<Rightarrow> id \<Rightarrow> 'a purch_db_scheme \<Rightarrow> 'a purch_db_scheme res" where
  "requisition_cancel reason u i db =
     and_then (requisition_findById i (user_tenant u) db) (\<lambda>r.
     and_then (assertUserHasContractAccess u (rq_contract r)
       ''No tiene acceso al contrato de esta operacion'') (\<lambda>_.
     if trim_opt reason = []
     then Inl (BadRequest ''Debe ingresar un motivo de anulacion del requerimiento'')
     else if rq_status r = RQ_CANCELLED then Inl (BadRequest ''El requerimiento ya esta anulado'')
     else if rq_status r = RQ_APPROVED
     then Inl (BadRequest ''No se puede anular un requerimiento ya aprobado'')
     else if linked_order (user_tenant u) i db
     then Inl (BadRequest ''No se puede anular: el requerimiento ya tiene una OC activa vinculada'')
     else Inr (requisition_log u i ''STATUS_CHANGE'' [rq_status_json (rq_status r)]
            [rq_status_json RQ_CANCELLED, (''reason'', JStr (trim_opt reason)),
             (''lowStockCriticalItems'', JNum (of_nat (length (low_stock_lines r db))))]
            (set_rq_status i RQ_CANCELLED db))))"

definition startQuoting :: "user \<Rightarrow> id \<Rightarrow> 'a purch_db_scheme \<Rightarrow> 'a purch_db_scheme res" where
  "startQuoting u i db =
     and_then (requisition_findById i (user_tenant u) db) (\<lambda>r.
     if rq_status r \<noteq> RQ_SUBMITTED
     then Inl (BadRequest ''Solo se puede iniciar cotizacion cuando el requerimiento esta enviado'')
     else Inr (requisition_log u i ''STATUS_CHANGE'' [rq_status_json RQ_SUBMITTED] [rq_status_json RQ_QUOTING]
            (set_rq_status i RQ_QUOTING db)))"

section \<open>Quotations\<close>

record quote_line_dto =
  ql_line :: id
  ql_price :: qty
  ql_brand :: "string option"
  ql_notes :: "string option"

record quotation_dto =
  qd_vendor :: id
  qd_total :: qty
  qd_currency :: "string option"
  qd_delivery_days :: "int option"
  qd_payment_days :: "qty option"
  qd_valid_until :: "int option"
  qd_items :: "quote_line_dto list"

definition quoted_value :: "requisition \<Rightarrow> quote_line_dto \<Rightarrow> qty \<Rightarrow> qty res" where
  "quoted_value r l acc =
     (case find_row (\<lambda>x. rl_id x = ql_line l) (rq_items r) of
        None \<Rightarrow> Inl (BadRequest ''Uno o mas items de la cotizacion no pertenecen a este requerimiento'')
      | Some x \<Rightarrow> Inr (acc + ql_price l * rl_qty x))"

definition check_quotation :: "requisition \<Rightarrow> quotation_dto \<Rightarrow> unit res" where
  "check_quotation r dto =
     and_then (for_each (quoted_value r) (qd_items dto) 0) (\<lambda>computed.
     if js_round (computed * 100) \<noteq> js_round (qd_total dto * 100)
     then Inl (BadRequest ''El monto total no coincide con la suma de los items de la cotizacion'')
     else case qd_payment_days dto of
       None \<Rightarrow> Inr ()
     | Some pd \<Rightarrow>
         if of_int \<lfloor>pd\<rfloor> \<noteq> pd \<or> pd < 0 \<or> pd > 3650
         then Inl (BadRequest ''Plazo de pago (dias) invalido'') else Inr ())"

definition addQuotation ::
    "id \<Rightarrow> (nat \<Rightarrow> id) \<Rightarrow> string option \<Rightarrow> quotation_dto \<Rightarrow> user \<Rightarrow> id \<Rightarrow> 'a purch_db_scheme \<Rightarrow> 'a purch_db_scheme res" where
  "addQuotation newId newItem attachment dto u i db =
     and_then (requisition_findById i (user_tenant u) db) (\<lambda>r.
     if rq_status r \<notin> {RQ_SUBMITTED, RQ_QUOTING, RQ_PENDING_APPROVAL, RQ_PARTIALLY_PURCHASED}
     then Inl (BadRequest ''El requerimiento no acepta cotizaciones en su estado actual'')
     else and_then (check_quotation r dto) (\<lambda>_.
       let q = \<lparr>qt_id = newId, qt_tenant = user_tenant u, qt_requisition = i, qt_vendor = qd_vendor dto,
                qt_total = qd_total dto,
                qt_currency = (case qd_currency dto of None \<Rightarrow> ''CLP'' | Some c \<Rightarrow> c),
                qt_delivery_days = qd_delivery_days dto,
                qt_payment_days = map_option floor (qd_payment_days dto),
                qt_valid_until = qd_valid_until dto, qt_attachment = attachment,
                qt_status = QT_RECEIVED, qt_winner = False,
                qt_items = map (\<lambda>(k, l). \<lparr>qi_id = newItem k, qi_line = ql_line l, qi_price = ql_price l,
                  qi_brand = ql_brand l, qi_notes = ql_notes l\<rparr>) (enumerate 0 (qd_items dto))\<rparr>;
           db1 = db\<lparr>quotations := quotations db @ [q]\<rparr>;
           db2 = (if rq_status r = RQ_SUBMITTED
             then requisition_log u i ''STATUS_CHANGE'' [rq_status_json RQ_SUBMITTED]
               [rq_status_json RQ_QUOTING] (set_rq_status i RQ_QUOTING db1) else db1)
       in Inr (requisition_log u i ''UPDATE'' []
            [(''event'', JStr ''quotation_added''), (''quotationId'', JStr newId),
             (''vendorId'', JStr (qd_vendor dto)), (''totalAmount'', JNum (qd_total dto))] db2)))"

section \<open>Awards\<close>

text \<open>The active orders of a requisition that have a line from a line of a quotation lock its award.\<close>

definition award_locked :: "id \<Rightarrow> id \<Rightarrow> id \<Rightarrow> 'a purch_db_scheme \<Rightarrow> bool" where
  "award_locked tenant requisitionId award db \<longleftrightarrow>
     list_ex (\<lambda>po. po_tenant po = tenant \<and> order_active po
       \<and> (po_requisition po = Some requisitionId \<or> po_quotation_requisition po = Some requisitionId)
       \<and> award \<in> set (sources_of po)) (orders db)"

definition check_award :: "id \<Rightarrow> requisition \<Rightarrow> 'a purch_db_scheme \<Rightarrow> id \<times> id \<Rightarrow> unit \<Rightarrow> unit res" where
  "check_award tenant r db award done =
     (case find_row (\<lambda>l. rl_id l = fst award) (rq_items r) of
        None \<Rightarrow> Inl (BadRequest ''Item de requerimiento no pertenece a este SRC'')
      | Some l \<Rightarrow>
          if (case rl_award l of None \<Rightarrow> False | Some a \<Rightarrow> award_locked tenant (rq_id r) a db)
          then Inl (BadRequest ''No puede cambiar la adjudicacion de una linea con orden de compra activa'')
          else if \<not> list_ex (\<lambda>q. qt_requisition q = rq_id r \<and> qt_tenant q = tenant
               \<and> list_ex (\<lambda>i. qi_id i = snd award \<and> qi_line i = fst award) (qt_items q)) (quotations db)
          then Inl (BadRequest ''La linea de cotizacion no corresponde al item en este requerimiento'')
          else Inr ())"

definition log_sync ::
    "user \<Rightarrow> id \<Rightarrow> (id \<times> quotation_status \<times> quotation_status) list \<Rightarrow> 'a purch_db_scheme \<Rightarrow> 'a purch_db_scheme" where
  "log_sync u i changes db =
     (if changes = [] then db
      else requisition_log u i ''UPDATE'' [] ((''event'', JStr ''quotation_statuses_synced'')
        # map (\<lambda>(q, old, new). (q, JStr (qt_status_text new))) changes) db)"

definition saveLineAwards ::
    "(id \<times> id) list \<Rightarrow> user \<Rightarrow> id \<Rightarrow> 'a purch_db_scheme \<Rightarrow> 'a purch_db_scheme res" where
  "saveLineAwards awards u i db =
     (let tenant = user_tenant u in
      and_then (requisition_findById i tenant db) (\<lambda>r.
      and_then (assertUserHasContractAccess u (rq_contract r)
        ''No tiene acceso al contrato de esta operacion'') (\<lambda>_.
      if rq_status r \<notin> {RQ_QUOTING, RQ_PENDING_APPROVAL, RQ_PARTIALLY_PURCHASED, RQ_APPROVED}
      then Inl (BadRequest ''Solo se puede adjudicar por linea en cotizacion o antes de completar las OC'')
      else if \<not> distinct (map fst awards)
      then Inl (BadRequest ''Hay items de requerimiento duplicados en la adjudicacion'')
      else and_then (for_each (check_award tenant r db) awards ()) (\<lambda>_.
        let db1 = fold (\<lambda>(line, qi). set_award line (Some qi)) awards db;
            complete = (case find_row (\<lambda>x. rq_id x = i) (requisitions db1) of
              None \<Rightarrow> False | Some x \<Rightarrow> rq_items x \<noteq> [] \<and> all_awarded x);
            advance = (rq_status r = RQ_QUOTING \<and> complete);
            db2 = (if advance then set_rq_status i RQ_PENDING_APPROVAL db1 else db1);
            (changes, db3) = syncPurchaseQuotationStatusesFromLineAwards i db2;
            after = (if advance then RQ_PENDING_APPROVAL else rq_status r);
            db4 = requisition_log u i ''UPDATE'' []
              [(''event'', JStr ''line_awards_saved''), (''awardsCount'', JNum (of_nat (length awards))),
               (''statusAfter'', JStr (rq_status_text after))] db3;
            db5 = (if advance then requisition_log u i ''STATUS_CHANGE'' [rq_status_json RQ_QUOTING]
              [rq_status_json RQ_PENDING_APPROVAL, (''reason'', JStr ''all_lines_awarded'')] db4 else db4)
        in Inr (log_sync u i changes db5)))))"

definition choose_winner :: "id \<Rightarrow> id \<Rightarrow> quotation \<Rightarrow> quotation" where
  "choose_winner i winner q =
     (if qt_id q = winner then q\<lparr>qt_status := QT_SELECTED, qt_winner := True\<rparr>
      else if qt_requisition q = i then q\<lparr>qt_status := QT_REJECTED, qt_winner := False\<rparr> else q)"

definition selectQuotation :: "user \<Rightarrow> id \<Rightarrow> id \<Rightarrow> 'a purch_db_scheme \<Rightarrow> 'a purch_db_scheme res" where
  "selectQuotation u i winner db =
     and_then (requisition_findById i (user_tenant u) db) (\<lambda>r.
     if rq_status r \<notin> {RQ_QUOTING, RQ_PENDING_APPROVAL}
     then Inl (BadRequest ''Solo se puede elegir ganadora en cotizacion o antes de generar la orden de compra'')
     else if \<not> list_ex (\<lambda>q. qt_id q = winner \<and> qt_requisition q = i) (quotations db)
     then Inl (NotFound ''Cotizacion no encontrada en este requerimiento'')
     else
       let previous = find_row (\<lambda>q. qt_requisition q = i \<and> qt_winner q) (quotations db);
           db1 = db\<lparr>quotations := map (choose_winner i winner) (quotations db)\<rparr>
       in Inr (if rq_status r = RQ_QUOTING
            then requisition_log u i ''STATUS_CHANGE'' [rq_status_json RQ_QUOTING]
              [rq_status_json RQ_PENDING_APPROVAL, (''selectedQuotationId'', JStr winner)]
              (set_rq_status i RQ_PENDING_APPROVAL db1)
            else requisition_log u i ''UPDATE''
              [(''event'', JStr ''winner_selection_changed''),
               (''previousWinnerQuotationId'', opt_json (map_option qt_id previous))]
              [(''event'', JStr ''winner_selection_changed''), (''selectedQuotationId'', JStr winner),
               rq_status_json RQ_PENDING_APPROVAL] db1))"

end
