(* ===== verification/Approvals.thy ===== *)
theory Approvals
  imports Procurement
begin

text \<open>
  The life of a purchase order (\<open>features/purchases/purchase-orders.service.ts\<close>): signature by level,
  rejection, cancellation, return to draft, changes of amounts and lines, shipment to the vendor and
  administrative closing. The approval is split where the service splits it: \<open>approve_load\<close> are the
  reads and checks before the transaction, \<open>approve_tx\<close> the transaction. Lists, the PDF, the detail
  texts of a change of lines and the notifications are left out.
\<close>

section \<open>Access to an order\<close>

definition find_order :: "id \<Rightarrow> id \<Rightarrow> 'a purch_db_scheme \<Rightarrow> purchase_order option" where
  "find_order i tenant db = find_row (\<lambda>x. po_id x = i \<and> po_tenant x = tenant) (orders db)"

definition open_order :: "id \<Rightarrow> user \<Rightarrow> 'a purch_db_scheme \<Rightarrow> purchase_order res" where
  "open_order i u db =
     (case find_order i (user_tenant u) db of
        None \<Rightarrow> Inl (NotFound ''Orden de compra no encontrada'')
      | Some po \<Rightarrow>
          and_then (assertUserHasContractAccess u (po_contract po)
            ''No tiene acceso al contrato de esta orden de compra'') (\<lambda>_. Inr po))"

definition approvals_of :: "id \<Rightarrow> 'a purch_db_scheme \<Rightarrow> signature list" where
  "approvals_of i db = filter (\<lambda>s. sg_order s = i) (signatures db)"

section \<open>Integrity of the signatures\<close>

definition payload_of :: "printing \<Rightarrow> purchase_order \<Rightarrow> id \<Rightarrow> po_status \<Rightarrow> int \<Rightarrow> signature_payload" where
  "payload_of pr po uid st instant =
     \<lparr>sp_user = uid, sp_order = po_id po, sp_total = pr_decimal pr (po_total po),
      sp_status = po_status_text st, sp_timestamp = pr_iso pr instant, sp_tenant = po_tenant po\<rparr>"

definition signature_valid :: "printing \<Rightarrow> purchase_order \<Rightarrow> signature \<Rightarrow> bool" where
  "signature_valid pr po s =
     verifySignatureIntegrity (pr_sha pr) (sg_hash s)
       (payload_of pr po (sg_user s)
          (case sg_hashed_status s of None \<Rightarrow> po_status po | Some st \<Rightarrow> st) (sg_at s))"

text \<open>The detail of an order: its signatures with their verdict; a broken one is marked.\<close>

definition order_findById ::
    "printing \<Rightarrow> id \<Rightarrow> id \<Rightarrow> user option \<Rightarrow> 'a purch_db_scheme \<Rightarrow>
     (purchase_order \<times> (signature \<times> signature_integrity) list \<times> 'a purch_db_scheme) res" where
  "order_findById pr i tenant mu db =
     (case find_order i tenant db of
        None \<Rightarrow> Inl (NotFound ''Orden de compra no encontrada'')
      | Some po \<Rightarrow>
          and_then (case mu of None \<Rightarrow> Inr ()
            | Some u \<Rightarrow> assertUserHasContractAccess u (po_contract po)
                ''No tiene acceso al contrato de esta operacion'') (\<lambda>_.
          let broken = (\<lambda>s. sg_order s = i \<and> \<not> signature_valid pr po s) in
          Inr (po,
               map (\<lambda>s. (s, if signature_valid pr po s then SIG_VALID else SIG_COMPROMISED))
                 (sort_key sg_level (approvals_of i db)),
               db\<lparr>signatures := update_rows (\<lambda>s. broken s \<and> sg_integrity s = SIG_VALID)
                    (\<lambda>s. s\<lparr>sg_integrity := SIG_COMPROMISED\<rparr>) (signatures db)\<rparr>)))"

section \<open>Signing\<close>

definition check_signer ::
    "user \<Rightarrow> purchase_order \<Rightarrow> signature list \<Rightarrow> approval_policy list \<Rightarrow> approval_policy res" where
  "check_signer u po sigs policies =
     (if po_status po \<notin> {PO_PENDING_APPROVAL, PO_PARTIALLY_APPROVED}
      then Inl (BadRequest ''La OC no esta pendiente de aprobacion'')
      else if list_ex (\<lambda>a. sg_user a = user_id u) sigs
      then Inl (Conflict ''Ya registro una firma en esta orden de compra'')
      else case resolveApprovalPolicyForUser policies (user_id u) of
        None \<Rightarrow> Inl (Forbidden ''No estas autorizado para firmar en ningun nivel'')
      | Some p \<Rightarrow>
          if pl_level p > po_required po
          then Inl (BadRequest ''Tu nivel de firma no es requerido para esta OC'')
          else if pl_min p > 0 \<and> po_total po < pl_min p
          then Inl (BadRequest ''El monto de la OC no alcanza el minimo requerido'')
          else if list_ex (\<lambda>a. sg_level a = pl_level p) sigs
          then Inl (Conflict ''El nivel ya tiene una firma registrada'')
          else if list_ex (\<lambda>l. l \<notin> set (map sg_level sigs)) [1 .. pl_level p - 1]
          then Inl (BadRequest ''No se puede firmar sin la aprobacion previa de los niveles anteriores'')
          else Inr p)"

definition approve_load ::
    "id \<Rightarrow> user \<Rightarrow> 'a purch_db_scheme \<Rightarrow> (purchase_order \<times> signature list \<times> approval_policy) res" where
  "approve_load i u db =
     and_then (open_order i u db) (\<lambda>po.
     let sigs = approvals_of i db in
     and_then (check_signer u po sigs (policies_of (user_tenant u) db)) (\<lambda>p. Inr (po, sigs, p)))"

text \<open>The unique index on the order and the level of a signature.\<close>

definition create_signature :: "signature \<Rightarrow> 'a purch_db_scheme \<Rightarrow> 'a purch_db_scheme res" where
  "create_signature s db =
     (if list_ex (\<lambda>x. sg_order x = sg_order s \<and> sg_level x = sg_level s) (signatures db)
      then Inl UniqueViolation
      else Inr (db\<lparr>signatures := signatures db @ [s]\<rparr>))"

definition signature_of ::
    "printing \<Rightarrow> id \<Rightarrow> int \<Rightarrow> string option \<Rightarrow> user \<Rightarrow> purchase_order \<Rightarrow> approval_policy \<Rightarrow> signature" where
  "signature_of pr newId now comment u po p =
     \<lparr>sg_id = newId, sg_order = po_id po, sg_policy = pl_id p, sg_user = user_id u, sg_level = pl_level p,
      sg_comment = comment,
      sg_hash = generateSignatureHash (pr_sha pr) (payload_of pr po (user_id u) (po_status po) now),
      sg_hashed_status = Some (po_status po), sg_integrity = SIG_VALID, sg_at = now\<rparr>"

definition status_after :: "purchase_order \<Rightarrow> signature list \<Rightarrow> po_status" where
  "status_after po sigs =
     (if int (length sigs) + 1 \<ge> po_required po then PO_APPROVED else PO_PARTIALLY_APPROVED)"

definition approve_tx ::
    "printing \<Rightarrow> id \<Rightarrow> int \<Rightarrow> string option \<Rightarrow> user \<Rightarrow>
     purchase_order \<times> signature list \<times> approval_policy \<Rightarrow> 'a purch_db_scheme \<Rightarrow> 'a purch_db_scheme res" where
  "approve_tx pr newId now comment u loaded db =
     (case loaded of (po, sigs, p) \<Rightarrow>
        and_then (create_signature (signature_of pr newId now comment u po p) db) (\<lambda>db1.
          Inr (set_order_status (po_id po) (status_after po sigs) db1)))"

definition approve ::
    "printing \<Rightarrow> id \<Rightarrow> int \<Rightarrow> string option \<Rightarrow> user \<Rightarrow> id \<Rightarrow> 'a purch_db_scheme \<Rightarrow> 'a purch_db_scheme res" where
  "approve pr newId now comment u i db =
     and_then (approve_load i u db) (\<lambda>loaded.
     and_then (approve_tx pr newId now comment u loaded db) (\<lambda>db1.
       case loaded of (po, sigs, p) \<Rightarrow>
       Inr (order_log u i ''SIGNATURE'' [po_status_json (po_status po)]
         [po_status_json (status_after po sigs),
          (''signatureLevel'', JNum (of_int (pl_level p))), (''comment'', opt_json comment)] db1)))"

text \<open>The policy whose users are told to sign next.\<close>

definition next_pending_policy :: "id \<Rightarrow> id \<Rightarrow> 'a purch_db_scheme \<Rightarrow> approval_policy option" where
  "next_pending_policy i tenant db =
     (case find_order i tenant db of
        None \<Rightarrow> None
      | Some po \<Rightarrow>
          if po_status po \<notin> {PO_PENDING_APPROVAL, PO_PARTIALLY_APPROVED} then None
          else find_row (\<lambda>p. pl_level p \<notin> set (map sg_level (approvals_of i db)))
            (filter (\<lambda>p. pl_level p \<le> po_required po) (policies_of tenant db)))"

section \<open>Rejection and return to draft\<close>

definition reject :: "string option \<Rightarrow> user \<Rightarrow> id \<Rightarrow> 'a purch_db_scheme \<Rightarrow> 'a purch_db_scheme res" where
  "reject reason u i db =
     and_then (open_order i u db) (\<lambda>po.
     if po_status po \<notin> {PO_PENDING_APPROVAL, PO_PARTIALLY_APPROVED}
     then Inl (BadRequest ''La OC no esta pendiente de aprobacion'')
     else Inr (order_log u i ''STATUS_CHANGE'' [po_status_json (po_status po)]
            [po_status_json PO_REJECTED, (''reason'', opt_json reason)]
            (set_order i (\<lambda>x. x\<lparr>po_status := PO_REJECTED,
               po_notes := (case reason of None \<Rightarrow> po_notes po | Some r \<Rightarrow> Some r)\<rparr>) db)))"

definition drop_signatures :: "id \<Rightarrow> 'a purch_db_scheme \<Rightarrow> 'a purch_db_scheme" where
  "drop_signatures i db = db\<lparr>signatures := filter (\<lambda>s. sg_order s \<noteq> i) (signatures db)\<rparr>"

definition resetToDraft :: "user \<Rightarrow> id \<Rightarrow> 'a purch_db_scheme \<Rightarrow> 'a purch_db_scheme res" where
  "resetToDraft u i db =
     and_then (open_order i u db) (\<lambda>po.
     if po_status po \<noteq> PO_REJECTED
     then Inl (BadRequest ''Solo se puede reiniciar una OC en estado REJECTED'')
     else Inr (order_log u i ''STATUS_CHANGE'' [po_status_json (po_status po)]
            [po_status_json PO_DRAFT, (''approvalsCleared'', JBool True)]
            (set_order i (\<lambda>x. x\<lparr>po_status := PO_DRAFT, po_notes := None\<rparr>) (drop_signatures i db))))"

section \<open>Cancellation\<close>

definition check_cancel :: "string option \<Rightarrow> purchase_order \<Rightarrow> 'a purch_db_scheme \<Rightarrow> unit res" where
  "check_cancel reason po db =
     (if trim_opt reason = []
      then Inl (BadRequest ''Debe proporcionar un motivo de anulacion de la OC'')
      else if po_status po \<in> {PO_CANCELLED, PO_RECEIVED, PO_CLOSED}
      then Inl (BadRequest ''La OC no puede anularse en su estado actual'')
      else if list_ex (\<lambda>r. rc_order r = po_id po \<and> rc_status r \<in> {RC_PARTIAL, RC_COMPLETED}) (receipts db)
      then Inl (BadRequest ''No se puede anular una OC con recepciones de bodega confirmadas'')
      else Inr ())"

text \<open>Another active order of the requisition has a line from the same line of a quotation.\<close>

definition sourced_elsewhere :: "id \<Rightarrow> id \<Rightarrow> id \<Rightarrow> id \<Rightarrow> 'a purch_db_scheme \<Rightarrow> bool" where
  "sourced_elsewhere tenant orderId requisitionId source db \<longleftrightarrow>
     list_ex (\<lambda>po. po_tenant po = tenant \<and> po_id po \<noteq> orderId \<and> order_active po
       \<and> (po_requisition po = Some requisitionId \<or> po_quotation_requisition po = Some requisitionId)
       \<and> source \<in> set (sources_of po)) (orders db)"

definition release_award :: "id \<Rightarrow> id \<Rightarrow> 'a purch_db_scheme \<Rightarrow> 'a purch_db_scheme" where
  "release_award requisitionId source db =
     set_requisition requisitionId (\<lambda>r. r\<lparr>rq_items := update_rows (\<lambda>l. rl_award l = Some source)
       (\<lambda>l. l\<lparr>rl_award := None\<rparr>) (rq_items r)\<rparr>) db"

definition release_awards :: "purchase_order \<Rightarrow> id \<Rightarrow> 'a purch_db_scheme \<Rightarrow> 'a purch_db_scheme" where
  "release_awards po requisitionId db =
     fold (\<lambda>source d. if sourced_elsewhere (po_tenant po) (po_id po) requisitionId source d then d
                       else release_award requisitionId source d)
       (remdups (sources_of po)) db"

definition cancel :: "string option \<Rightarrow> user \<Rightarrow> id \<Rightarrow> 'a purch_db_scheme \<Rightarrow> 'a purch_db_scheme res" where
  "cancel reason u i db =
     and_then (open_order i u db) (\<lambda>po.
     and_then (check_cancel reason po db) (\<lambda>_.
     let req = requisitionIdFromPurchaseOrder (Some po);
         notes = trim_opt reason;
         db1 = set_order i (\<lambda>x. x\<lparr>po_status := PO_CANCELLED, po_notes := Some notes\<rparr>) db;
         db2 = (case req of None \<Rightarrow> db1
           | Some r \<Rightarrow> applyRequisitionCoverageStatusAfterPurchase r (release_awards po r db1));
         db3 = order_log u i ''STATUS_CHANGE'' [po_status_json (po_status po)]
           [po_status_json PO_CANCELLED, (''reason'', JStr notes)] db2
     in Inr (case req of None \<Rightarrow> db3
          | Some r \<Rightarrow> if sources_of po = [] then db3
              else requisition_log u r ''UPDATE'' []
                [(''event'', JStr ''awards_released_after_po_cancel''),
                 (''purchaseOrderCorrelative'', JStr (po_correlative po))] db3)))"

section \<open>Changes of amounts and lines\<close>

record po_line_dto =
  ln_description :: string
  ln_qty :: qty
  ln_unit_cost :: qty
  ln_inventory_item :: "id option"

definition lines_of_dto :: "(nat \<Rightarrow> id) \<Rightarrow> po_line_dto list \<Rightarrow> order_item list" where
  "lines_of_dto newItem ls =
     map (\<lambda>(k, l). \<lparr>oi_id = newItem k, oi_description = ln_description l, oi_qty = ln_qty l,
            oi_unit_cost = ln_unit_cost l, oi_inventory_item = ln_inventory_item l,
            oi_source_quotation_item = None\<rparr>) (enumerate 0 ls)"

definition edit_order ::
    "printing \<Rightarrow> qty \<Rightarrow> (nat \<Rightarrow> id) \<Rightarrow> qty option \<Rightarrow> po_line_dto list option \<Rightarrow>
     purchase_order \<Rightarrow> purchase_order" where
  "edit_order pr threshold newItem amount lines po =
     po\<lparr>po_status := PO_PENDING_APPROVAL,
        po_total := (case amount of None \<Rightarrow> po_total po | Some t \<Rightarrow> pr_money pr t),
        po_required := (case amount of None \<Rightarrow> po_required po | Some t \<Rightarrow> required_signatures threshold t),
        po_items := (case lines of None \<Rightarrow> po_items po | Some ls \<Rightarrow> lines_of_dto newItem ls)\<rparr>"

text \<open>The fields whose value differs (\<open>pickChanged\<close> of \<open>common/audit/audit.service.ts\<close>).\<close>

definition pickChanged ::
    "(string \<times> json) list \<Rightarrow> (string \<times> json) list \<Rightarrow> (string \<times> json) list \<times> (string \<times> json) list" where
  "pickChanged before after =
     (let changed = (\<lambda>(k, v). map_of before k \<noteq> map_of after k)
      in (filter changed before, filter changed after))"

definition order_snapshot :: "purchase_order \<Rightarrow> (string \<times> json) list" where
  "order_snapshot po =
     [(''totalAmount'', JNum (po_total po)), po_status_json (po_status po),
      (''requiredSignatures'', JNum (of_int (po_required po))),
      (''itemsCount'', JNum (of_nat (length (po_items po))))]"

text \<open>The lines of the order that a line of the request matches, with what changes of them.\<close>

definition line_matches :: "order_item \<Rightarrow> po_line_dto \<Rightarrow> bool" where
  "line_matches b a \<longleftrightarrow>
     (case oi_inventory_item b of
        Some i \<Rightarrow> ln_inventory_item a = Some i
      | None \<Rightarrow> trim (ln_description a) = trim (oi_description b))"

definition diffPoLineEdits :: "order_item list \<Rightarrow> po_line_dto list \<Rightarrow> (string \<times> string \<times> qty \<times> qty) list" where
  "diffPoLineEdits before after =
     concat (map (\<lambda>b. case find_row (line_matches b) after of
         None \<Rightarrow> []
       | Some a \<Rightarrow>
           let label = trim (if oi_description b \<noteq> [] then oi_description b else ''Item'') in
           (if oi_unit_cost b \<noteq> ln_unit_cost a
            then [(label, ''unitCost'', oi_unit_cost b, ln_unit_cost a)] else [])
           @ (if oi_qty b \<noteq> ln_qty a then [(label, ''quantity'', oi_qty b, ln_qty a)] else [])) before)"

definition log_line_edits ::
    "user \<Rightarrow> id \<Rightarrow> (string \<times> string \<times> qty \<times> qty) list \<Rightarrow> 'a purch_db_scheme \<Rightarrow> 'a purch_db_scheme" where
  "log_line_edits u i ds db =
     fold (\<lambda>(label, key, old, new). order_log u i ''UPDATE''
        [(''itemLabel'', JStr label), (key, JNum old)] [(''itemLabel'', JStr label), (key, JNum new)]) ds db"

definition updateSensitiveFields ::
    "printing \<Rightarrow> (nat \<Rightarrow> id) \<Rightarrow> qty option \<Rightarrow> po_line_dto list option \<Rightarrow> user \<Rightarrow> id \<Rightarrow>
     'a purch_db_scheme \<Rightarrow> 'a purch_db_scheme res" where
  "updateSensitiveFields pr newItem amount lines u i db =
     and_then (open_order i u db) (\<lambda>po.
     if po_status po \<notin> {PO_DRAFT, PO_PENDING_APPROVAL, PO_PARTIALLY_APPROVED}
     then Inl (BadRequest ''La OC no se puede editar en su estado actual'')
     else
       let edit = edit_order pr (approval_threshold (user_tenant u) db) newItem amount lines;
           db1 = set_order i edit (drop_signatures i db);
           (old, new) = pickChanged (order_snapshot po) (order_snapshot (edit po));
           db2 = (if old = [] then db1 else order_log u i ''UPDATE'' old new db1)
       in Inr (case lines of None \<Rightarrow> db2
            | Some ls \<Rightarrow> log_line_edits u i (diffPoLineEdits (po_items po) ls) db2))"

definition updateOrderLogistics ::
    "string option option \<Rightarrow> string option option \<Rightarrow> user \<Rightarrow> id \<Rightarrow>
     'a purch_db_scheme \<Rightarrow> 'a purch_db_scheme res" where
  "updateOrderLogistics delivery terms u i db =
     and_then (open_order i u db) (\<lambda>po.
     if delivery = None \<and> terms = None
     then Inl (BadRequest ''No se recibieron campos para actualizar'')
     else Inr (set_order i (\<lambda>x. x\<lparr>
            po_delivery := (case delivery of None \<Rightarrow> po_delivery x | Some d \<Rightarrow> d),
            po_payment_terms := (case terms of None \<Rightarrow> po_payment_terms x | Some t \<Rightarrow> t)\<rparr>) db))"

text \<open>A line without an article gets one, as long as the order is not approved.\<close>

definition linkItemToCatalog ::
    "user \<Rightarrow> id \<Rightarrow> id \<Rightarrow> id \<Rightarrow> 'a purch_db_scheme \<Rightarrow> 'a purch_db_scheme res" where
  "linkItemToCatalog u i lineId itemId db =
     and_then (open_order i u db) (\<lambda>po.
     if po_status po \<notin> {PO_DRAFT, PO_PENDING_APPROVAL, PO_PARTIALLY_APPROVED}
     then Inl (BadRequest ''Solo se puede vincular al catalogo antes de la aprobacion'')
     else case find_row (\<lambda>l. oi_id l = lineId) (po_items po) of
       None \<Rightarrow> Inl (NotFound ''Linea de orden no encontrada'')
     | Some l \<Rightarrow>
         if oi_inventory_item l \<noteq> None
         then Inl (BadRequest ''Esta linea ya esta vinculada a un articulo de catalogo'')
         else if find_row (\<lambda>x. it_id x = itemId \<and> it_tenant x = user_tenant u) (items db) = None
         then Inl (NotFound ''Articulo de inventario no encontrado'')
         else Inr (order_log u i ''SYSTEM_UPDATE'' []
                [(''orderItemId'', JStr lineId), (''inventoryItemId'', JStr itemId)]
                (set_order i (\<lambda>x. x\<lparr>po_items := update_rows (\<lambda>y. oi_id y = lineId)
                   (\<lambda>y. y\<lparr>oi_inventory_item := Some itemId\<rparr>) (po_items x)\<rparr>) db)))"

section \<open>Shipment to the vendor and administrative closing\<close>

definition markAsSentToSupplier :: "int \<Rightarrow> user \<Rightarrow> id \<Rightarrow> 'a purch_db_scheme \<Rightarrow> 'a purch_db_scheme res" where
  "markAsSentToSupplier now u i db =
     and_then (open_order i u db) (\<lambda>po.
     if po_status po \<noteq> PO_APPROVED
     then Inl (BadRequest ''Solo una orden aprobada puede marcarse como enviada al proveedor'')
     else Inr (order_log u i ''STATUS_CHANGE'' [po_status_json (po_status po)]
            [po_status_json PO_SENT, (''event'', JStr ''marked_sent_to_supplier''),
             (''performedByUserId'', JStr (user_id u))]
            (set_order i (\<lambda>x. x\<lparr>po_status := PO_SENT, po_sent_at := Some now\<rparr>) db)))"

definition close_receipts :: "id \<Rightarrow> id \<Rightarrow> 'a purch_db_scheme \<Rightarrow> 'a purch_db_scheme" where
  "close_receipts i tenant db =
     db\<lparr>receipts := update_rows (\<lambda>r. rc_order r = i \<and> rc_tenant r = tenant
          \<and> rc_status r \<in> {RC_PENDING, RC_PARTIAL}) (\<lambda>r. r\<lparr>rc_status := RC_COMPLETED\<rparr>) (receipts db)\<rparr>"

definition forceClose :: "string option \<Rightarrow> user \<Rightarrow> id \<Rightarrow> 'a purch_db_scheme \<Rightarrow> 'a purch_db_scheme res" where
  "forceClose reason u i db =
     and_then (open_order i u db) (\<lambda>po.
     if po_status po \<noteq> PO_PARTIALLY_RECEIVED
     then Inl (BadRequest ''Solo se puede cerrar administrativamente una OC parcialmente recibida'')
     else if trim_opt reason = []
     then Inl (BadRequest ''Debe proporcionar una justificacion para el cierre administrativo'')
     else Inr (order_log u i ''STATUS_CHANGE'' [po_status_json (po_status po)]
            [po_status_json PO_CLOSED, (''reason'', opt_json reason), (''closedOpenReceipts'', JBool True)]
            (close_receipts i (user_tenant u)
              (set_order i (\<lambda>x. x\<lparr>po_status := PO_CLOSED, po_notes := reason\<rparr>) db))))"

end
