(* ===== verification/Sourcing.thy ===== *)
theory Sourcing
  imports Requisitions Approvals
begin

text \<open>
  The orders that come out of a requisition (\<open>features/purchases/purchase-orders.service.ts\<close>): one
  order for the winning quotation, and the split of the awarded lines into one order per quotation.
  The id of an order and the ids of its lines are functions of the quotation and its lines.
\<close>

section \<open>Shared steps\<close>

definition paymentTermsFromQuotationDays :: "int option \<Rightarrow> string option" where
  "paymentTermsFromQuotationDays days =
     (case days of
        None \<Rightarrow> None
      | Some d \<Rightarrow>
          if d \<le> 0 then Some ''Contado''
          else Some (nat_digits (nat d) @ '' dia'' @ (if d = 1 then '''' else ''s'')))"

text \<open>The equipment of the order: that of the work order, where the requisition has one.\<close>

definition order_equipment :: "id \<Rightarrow> requisition \<Rightarrow> 'a ops_db_scheme \<Rightarrow> id option res" where
  "order_equipment tenant r db =
     (case rq_work_order r of
        None \<Rightarrow> Inr (rq_equipment r)
      | Some w \<Rightarrow>
          (case find_row (\<lambda>x. wo_id x = w \<and> wo_tenant x = tenant) (work_orders db) of
             None \<Rightarrow> Inl (BadRequest ''La orden de trabajo vinculada al requerimiento ya no existe'')
           | Some wo \<Rightarrow> Inr (Some (wo_equipment wo))))"

definition line_of :: "id \<Rightarrow> 'a purch_db_scheme \<Rightarrow> requisition_item option" where
  "line_of i db = find_row (\<lambda>l. rl_id l = i) (concat (map rq_items (requisitions db)))"

text \<open>A line of an order from a line of a quotation and the line of the requisition it quotes.\<close>

definition order_line :: "(id \<Rightarrow> id) \<Rightarrow> 'a purch_db_scheme \<Rightarrow> quotation_item \<Rightarrow> order_item res" where
  "order_line newItem db qi =
     (case line_of (qi_line qi) db of
        None \<Rightarrow> Inl RecordNotFound
      | Some l \<Rightarrow> Inr \<lparr>oi_id = newItem (qi_id qi), oi_description = rl_description l, oi_qty = rl_qty l,
          oi_unit_cost = qi_price qi, oi_inventory_item = rl_inventory_item l,
          oi_source_quotation_item = Some (qi_id qi)\<rparr>)"

definition order_lines :: "(id \<Rightarrow> id) \<Rightarrow> 'a purch_db_scheme \<Rightarrow> quotation_item list \<Rightarrow> order_item list res" where
  "order_lines newItem db qis =
     for_each (\<lambda>qi acc. and_then (order_line newItem db qi) (\<lambda>l. Inr (acc @ [l]))) qis []"

definition new_po ::
    "printing \<Rightarrow> id \<Rightarrow> string \<Rightarrow> requisition \<Rightarrow> quotation \<Rightarrow> id option \<Rightarrow> qty \<Rightarrow> qty \<Rightarrow> order_item list \<Rightarrow>
     purchase_order" where
  "new_po pr newId correlative r q eq threshold amount lines =
     \<lparr>po_id = newId, po_tenant = rq_tenant r, po_contract = rq_contract r, po_subcontract = rq_subcontract r,
      po_correlative = correlative, po_status = PO_PENDING_APPROVAL, po_total = pr_money pr amount,
      po_currency = qt_currency q, po_required = required_signatures threshold amount, po_notes = None,
      po_requisition = Some (rq_id r), po_quotation = Some (qt_id q),
      po_quotation_requisition = Some (qt_requisition q), po_equipment = eq,
      po_work_order = rq_work_order r, po_sent_at = None, po_delivery = None,
      po_payment_terms = paymentTermsFromQuotationDays (qt_payment_days q), po_items = lines\<rparr>"

definition next_order_number :: "id \<Rightarrow> 'a core_db_scheme \<Rightarrow> string \<times> 'a core_db_scheme" where
  "next_order_number tenant db = getNextCorrelative tenant ''OC'' ''OC'' None None db"

definition requisition_status_of :: "id \<Rightarrow> requisition_status \<Rightarrow> 'a purch_db_scheme \<Rightarrow> requisition_status" where
  "requisition_status_of i fallback db =
     (case find_row (\<lambda>r. rq_id r = i) (requisitions db) of None \<Rightarrow> fallback | Some r \<Rightarrow> rq_status r)"

section \<open>One order for the winning quotation\<close>

definition winning_quotation :: "id \<Rightarrow> id \<Rightarrow> 'a purch_db_scheme \<Rightarrow> (quotation \<times> requisition) res" where
  "winning_quotation i tenant db =
     (case find_row (\<lambda>q. qt_id q = i \<and> qt_tenant q = tenant \<and> qt_winner q) (quotations db) of
        None \<Rightarrow> Inl (NotFound ''Cotizacion ganadora no encontrada'')
      | Some q \<Rightarrow>
          (case find_row (\<lambda>r. rq_id r = qt_requisition q) (requisitions db) of
             None \<Rightarrow> Inl RecordNotFound
           | Some r \<Rightarrow> Inr (q, r)))"

definition createFromQuotation ::
    "printing \<Rightarrow> (id \<Rightarrow> id) \<Rightarrow> (id \<Rightarrow> id) \<Rightarrow> id \<Rightarrow> user \<Rightarrow> 'a ops_db_scheme \<Rightarrow> 'a ops_db_scheme res" where
  "createFromQuotation pr newOrder newItem quotationId u db =
     (let tenant = user_tenant u in
      and_then (winning_quotation quotationId tenant db) (\<lambda>(q, r).
      and_then (assertUserHasContractAccess u (rq_contract r)
        ''No tiene acceso al contrato del requerimiento para generar esta OC'') (\<lambda>_.
      if list_ex (\<lambda>po. po_quotation po = Some quotationId \<and> po_tenant po = tenant \<and> order_active po) (orders db)
      then Inl (Conflict ''Ya existe una OC activa para esta cotizacion'')
      else
        and_then (order_equipment tenant r db) (\<lambda>eq.
        let (correlative, db1) = next_order_number tenant db in
        and_then (order_lines newItem db1 (qt_items q)) (\<lambda>lines.
        let po = new_po pr (newOrder quotationId) correlative r q eq (approval_threshold tenant db)
              (qt_total q) lines in
        and_then (create_order po db1) (\<lambda>db2.
        let db3 = fold (\<lambda>qi. set_award (qi_line qi) (Some (qi_id qi))) (qt_items q) db2;
            (changes, db4) = syncPurchaseQuotationStatusesFromLineAwards (rq_id r) db3;
            db5 = applyRequisitionCoverageStatusAfterPurchase (rq_id r) db4;
            db6 = order_log u (po_id po) ''CREATE'' []
              [(''correlative'', JStr correlative), (''totalAmount'', JNum (po_total po)),
               po_status_json (po_status po)] db5
        in Inr (log_sync u (rq_id r) changes
             (requisition_log u (rq_id r) ''STATUS_CHANGE'' [rq_status_json (rq_status r)]
               [rq_status_json (requisition_status_of (rq_id r) RQ_APPROVED db5)] db6))))))))"

section \<open>One order per quotation with awarded lines\<close>

text \<open>The lines of quotations, each with its quotation, grouped by quotation in the order of a \<open>Map\<close>.\<close>

fun add_to_group :: "quotation \<times> quotation_item \<Rightarrow> (quotation \<times> quotation_item list) list \<Rightarrow>
    (quotation \<times> quotation_item list) list" where
  "add_to_group (q, i) [] = [(q, [i])]"
| "add_to_group (q, i) ((p, js) # gs) =
     (if qt_id p = qt_id q then (p, js @ [i]) # gs else (p, js) # add_to_group (q, i) gs)"

definition group_lines :: "(quotation \<times> quotation_item) list \<Rightarrow> (quotation \<times> quotation_item list) list" where
  "group_lines xs = fold add_to_group xs []"

definition already_bought :: "id \<Rightarrow> id \<Rightarrow> 'a purch_db_scheme \<Rightarrow> id \<Rightarrow> bool" where
  "already_bought tenant requisitionId db award \<longleftrightarrow>
     list_ex (\<lambda>po. po_tenant po = tenant \<and> po_requisition po = Some requisitionId \<and> order_active po
       \<and> award \<in> set (sources_of po)) (orders db)"

definition pending_awards :: "id \<Rightarrow> requisition \<Rightarrow> 'a purch_db_scheme \<Rightarrow> id list" where
  "pending_awards tenant r db = filter (\<lambda>a. \<not> already_bought tenant (rq_id r) db a) (awards_of r)"

definition awarded_lines :: "id \<Rightarrow> id \<Rightarrow> id list \<Rightarrow> 'a purch_db_scheme \<Rightarrow> (quotation \<times> quotation_item) list" where
  "awarded_lines tenant requisitionId awards db =
     concat (map (\<lambda>q. map (Pair q) (filter (\<lambda>i. qi_id i \<in> set awards) (qt_items q)))
       (filter (\<lambda>q. qt_requisition q = requisitionId \<and> qt_tenant q = tenant) (quotations db)))"

definition group_total :: "order_item list \<Rightarrow> qty" where
  "group_total lines = sum_list (map (\<lambda>l. oi_unit_cost l * oi_qty l) lines)"

definition create_group_order ::
    "printing \<Rightarrow> (id \<Rightarrow> id) \<Rightarrow> (id \<Rightarrow> id) \<Rightarrow> id \<Rightarrow> requisition \<Rightarrow> id option \<Rightarrow> qty \<Rightarrow>
     quotation \<times> quotation_item list \<Rightarrow> 'a ops_db_scheme \<times> purchase_order list \<Rightarrow>
     ('a ops_db_scheme \<times> purchase_order list) res" where
  "create_group_order pr newOrder newItem tenant r eq threshold g s =
     (case (g, s) of ((q, qis), (db, created)) \<Rightarrow>
        and_then (order_lines newItem db qis) (\<lambda>lines.
        let (correlative, db1) = next_order_number tenant db;
            po = new_po pr (newOrder (qt_id q)) correlative r q eq threshold (group_total lines) lines
        in and_then (create_order po db1) (\<lambda>db2. Inr (db2, created @ [po]))))"

definition split_log ::
    "user \<Rightarrow> id \<Rightarrow> requisition_status \<Rightarrow> requisition_status \<Rightarrow> purchase_order list \<Rightarrow>
     (id \<times> quotation_status \<times> quotation_status) list \<Rightarrow> 'a purch_db_scheme \<Rightarrow> 'a purch_db_scheme" where
  "split_log u i before after created changes db =
     (let db1 = fold (\<lambda>po. order_log u (po_id po) ''CREATE'' []
            [(''correlative'', JStr (po_correlative po)), (''totalAmount'', JNum (po_total po)),
             po_status_json (po_status po), (''event'', JStr ''split_po_from_requisition''),
             (''requisitionId'', JStr i)]) created db;
          db2 = log_sync u i changes db1
      in if before \<noteq> after \<or> created \<noteq> []
         then requisition_log u i ''STATUS_CHANGE'' [rq_status_json before]
           [rq_status_json after, (''event'', JStr (if created = [] then ''split_po_idempotent_no_new_orders''
             else ''split_po_orders_created''))] db2
         else db2)"

definition check_split :: "user \<Rightarrow> requisition \<Rightarrow> unit res" where
  "check_split u r =
     and_then (assertUserHasContractAccess u (rq_contract r)
       ''No tiene acceso al contrato del requerimiento para generar ordenes de compra'') (\<lambda>_.
     if rq_status r \<notin> {RQ_QUOTING, RQ_PENDING_APPROVAL, RQ_PARTIALLY_PURCHASED, RQ_APPROVED}
     then Inl (BadRequest ''Solo se pueden generar OC desde requerimientos con lineas adjudicadas'')
     else if awards_of r = []
     then Inl (BadRequest ''No hay lineas adjudicadas'')
     else Inr ())"

definition split_orders ::
    "printing \<Rightarrow> (id \<Rightarrow> id) \<Rightarrow> (id \<Rightarrow> id) \<Rightarrow> user \<Rightarrow> requisition \<Rightarrow> 'a ops_db_scheme \<Rightarrow>
     ('a ops_db_scheme \<times> purchase_order list) res" where
  "split_orders pr newOrder newItem u r db =
     (let tenant = user_tenant u; pending = pending_awards tenant r db in
      if pending = [] then Inr (db, [])
      else
        let qis = awarded_lines tenant (rq_id r) pending db in
        if length qis \<noteq> length pending
        then Inl (BadRequest ''Una o mas lineas adjudicadas no pertenecen a cotizaciones de este requerimiento'')
        else and_then (order_equipment tenant r db) (\<lambda>eq.
          for_each (create_group_order pr newOrder newItem tenant r eq (approval_threshold tenant db))
            (group_lines qis) (db, [])))"

definition createOrdersFromRequisition ::
    "printing \<Rightarrow> (id \<Rightarrow> id) \<Rightarrow> (id \<Rightarrow> id) \<Rightarrow> id \<Rightarrow> user \<Rightarrow> 'a ops_db_scheme \<Rightarrow> 'a ops_db_scheme res" where
  "createOrdersFromRequisition pr newOrder newItem i u db =
     and_then (requisition_findById i (user_tenant u) db) (\<lambda>r.
     and_then (check_split u r) (\<lambda>_.
     and_then (split_orders pr newOrder newItem u r db) (\<lambda>(db1, created).
     let db2 = applyRequisitionCoverageStatusAfterPurchase i db1;
         (changes, db3) = syncPurchaseQuotationStatusesFromLineAwards i db2
     in Inr (split_log u i (rq_status r) (requisition_status_of i (rq_status r) db3) created changes db3))))"

end
