(* ===== verification/Procurement_Frames.thy ===== *)
theory Procurement_Frames
  imports Inventory_System Sourcing
begin

text \<open>
  What the operations of the warehouse leave of the purchase module: they write no signature, policy,
  requisition or quotation, and of an order they change at most the status, along its receipts.
\<close>

section \<open>The part of the tables they do not write\<close>

definition procurement_view ::
    "'a purch_db_scheme \<Rightarrow> signature list \<times> approval_policy list \<times> purchase_settings list \<times> requisition list \<times> quotation list" where
  "procurement_view db =
     (signatures db, approval_policies db, purchase_settings db, requisitions db, quotations db)"

lemma procurement_view_eq [simp]:
  "procurement_view db' = procurement_view db \<longleftrightarrow> signatures db' = signatures db
     \<and> approval_policies db' = approval_policies db \<and> purchase_settings db' = purchase_settings db
     \<and> requisitions db' = requisitions db \<and> quotations db' = quotations db"
  for db :: "'a purch_db_scheme" and db' :: "'b purch_db_scheme"
  by (simp add: procurement_view_def)

text \<open>An order after a warehouse operation: the same, or with the status of its receipts.\<close>

definition progressed :: "'a purch_db_scheme \<Rightarrow> purchase_order \<Rightarrow> purchase_order \<Rightarrow> bool" where
  "progressed db po po' \<longleftrightarrow> po' = po
     \<or> (\<exists>st \<in> {PO_RECEIVED, PO_PARTIALLY_RECEIVED}. po' = po\<lparr>po_status := st\<rparr>
        \<and> (po_status po \<in> set PO_STATUSES_ALLOW_RECEIPT_PROGRESS_SYNC
           \<or> po_id po \<in> rc_order ` set (receipts db)))"

definition warehouse_frame :: "'a purch_db_scheme \<Rightarrow> 'a purch_db_scheme \<Rightarrow> bool" where
  "warehouse_frame db db' \<longleftrightarrow> procurement_view db' = procurement_view db
     \<and> list_all2 (progressed db) (orders db) (orders db')
     \<and> (\<forall>r \<in> set (receipts db'). rc_order r \<in> rc_order ` set (receipts db)
          \<or> (\<exists>po \<in> set (orders db). po_id po = rc_order r
               \<and> po_status po \<in> set PO_STATUSES_ALLOW_WAREHOUSE_RECEIPT))"

lemma progressed_refl [simp]: "progressed db po po"
  by (simp add: progressed_def)

lemma progress_refl: "list_all2 (progressed db) pos pos"
  by (simp add: list_all2_refl)

lemma more_purch_frame:
  fixes db db' :: "'a purch_db_scheme"
  assumes "inv_db.more db' = inv_db.more db"
  shows "procurement_view db' = procurement_view db" "orders db' = orders db" "receipts db' = receipts db"
  using assms by (cases db; cases db'; simp)+

lemma more_warehouse_frame:
  assumes "inv_db.more db' = inv_db.more db"
  shows "warehouse_frame db db'"
  using more_purch_frame[OF assms] by (auto simp: warehouse_frame_def progress_refl)

section \<open>Movements and transfers\<close>

lemma core_more:
  "performTransactionCore rnd4 dto u db = Inr db' \<Longrightarrow> inv_db.more db' = inv_db.more db"
  by (erule core_InrE) simp

lemma levels_more:
  "updateStockLevels w i d u db = Inr db' \<Longrightarrow> inv_db.more db' = inv_db.more db"
  by (auto simp: updateStockLevels_def and_then_eq_Inr Let_def split: if_splits option.splits)

lemma transfer_more:
  assumes "executeTransfer dto u newId db = Inr db'"
  shows "inv_db.more db' = inv_db.more db"
proof -
  obtain t :: transfer where loop: "for_each (ship_line newId (td_origin dto) u) (td_lines dto)
      (db\<lparr>transfers := transfers db @ [t]\<rparr>) = Inr db'"
    using assms by (rule executeTransfer_InrE)
  have "inv_db.more db' = inv_db.more (db\<lparr>transfers := transfers db @ [t]\<rparr>)"
    by (rule for_each_related[OF loop, where R = "\<lambda>s s'. inv_db.more s' = inv_db.more s"])
       (auto simp: ship_line_def Let_def and_then_eq_Inr split: option.splits if_splits)
  then show ?thesis by simp
qed

lemma reception_more:
  assumes "confirmReception rnd4 tid u db = Inr db'"
  shows "inv_db.more db' = inv_db.more db"
proof -
  obtain t :: transfer and db1 where loop: "for_each (\<lambda>line d. Inr (receive_line rnd4 tid (tr_dest t) u line d))
      (tr_lines t) db = Inr db1"
    and db': "db' = db1\<lparr>transfers := update_rows (\<lambda>x. tr_id x = tid)
       (\<lambda>x. x\<lparr>tr_status := COMPLETED\<rparr>) (transfers db1)\<rparr>"
    using assms by (rule confirmReception_InrE) blast
  have "inv_db.more db1 = inv_db.more db"
    by (rule for_each_related[OF loop, where R = "\<lambda>s s'. inv_db.more s' = inv_db.more s"]) auto
  then show ?thesis by (simp add: db')
qed

section \<open>Receipts\<close>

lemma receipt_create_warehouse:
  assumes "receipt_create oid wid u newId newItem db = Inr db'"
  shows "warehouse_frame db db'"
proof -
  have view: "procurement_view db' = procurement_view db"
    using assms by (auto simp: receipt_create_def Let_def and_then_eq_Inr audit_log_def
      getNextCorrelative_def split: if_splits option.splits prod.splits)
  obtain x and r :: receipt where "x \<in> set (orders db)" "po_id x = oid" "rc_order r = oid"
    "po_status x \<in> set PO_STATUSES_ALLOW_WAREHOUSE_RECEIPT"
    "receipts db' = receipts db @ [r]" "orders db' = orders db"
    using assms by (rule receipt_create_InrE) blast
  with view show ?thesis by (auto simp: warehouse_frame_def progress_refl)
qed

lemma rc_order_update_rows:
  assumes "\<And>r. rc_order (f r) = rc_order r"
  shows "map rc_order (update_rows p f rs) = map rc_order rs"
  by (induction rs) (auto simp: assms)

lemma same_receipt_orders:
  "map rc_order rs' = map rc_order rs \<Longrightarrow> r \<in> set rs' \<Longrightarrow> rc_order r \<in> rc_order ` set rs"
  by (metis image_eqI image_set)

lemma updateItems_warehouse:
  assumes "updateItems rid dtos u db = Inr db'"
  shows "warehouse_frame db db'"
proof -
  have view: "procurement_view db' = procurement_view db"
    using assms by (auto simp: updateItems_def and_then_eq_Inr Let_def audit_log_def set_receipt_def
      split: if_splits)
  have "orders db' = orders db" and rs: "map rc_order (receipts db') = map rc_order (receipts db)"
    using assms by (auto elim!: updateItems_InrE simp: rc_order_update_rows)
  with view same_receipt_orders[OF rs] show ?thesis by (simp add: warehouse_frame_def progress_refl)
qed

lemma set_confirmed_view:
  "set_confirmed k q db = Inr db' \<Longrightarrow> procurement_view db' = procurement_view db"
  by (auto simp: set_confirmed_def split: if_splits)

lemma post_receipt_line_view:
  "procurement_view (post_receipt_line rnd4 u rid w i delta c db) = procurement_view db"
  by (rule more_purch_frame(1)) simp

lemma confirm_line_view:
  assumes "confirm_line rnd4 u snap elsewhere it s = Inr s'"
  shows "procurement_view (fst s') = procurement_view (fst s)"
proof -
  obtain r order tracked where snap: "snap = (r, order, tracked)" by (cases snap) auto
  obtain oi :: order_item and db1 where d: "set_confirmed (ri_id it) (ri_received it) (fst s) = Inr db1"
    "fst s' = (case moved_item (r, order, tracked) it of None \<Rightarrow> db1
       | Some i \<Rightarrow> post_receipt_line rnd4 u (rc_id r) (rc_warehouse r) i (line_delta it)
                     (oi_unit_cost oi) db1)"
    using assms unfolding snap by (rule confirm_line_InrE) blast
  have "procurement_view (fst s') = procurement_view db1"
    unfolding d(2) by (cases "moved_item (r, order, tracked) it") (simp_all only: post_receipt_line_view option.case)
  with set_confirmed_view[OF d(1)] show ?thesis by (simp only:)
qed

lemma confirm_tx_view:
  assumes "confirm_tx rnd4 rnd2 u snap db = Inr (db', counts)"
  shows "procurement_view db' = procurement_view db"
proof -
  obtain r order tracked where snap: "snap = (r, order, tracked)" by (cases snap) auto
  define cost :: "'a purch_db_scheme \<Rightarrow> 'a purch_db_scheme res" where "cost = (\<lambda>db1. case po_equipment order of
      None \<Rightarrow> Inr db1
    | Some e \<Rightarrow> if e \<noteq> [] \<and> imputed_cost r order > 0
        then create_asset_cost \<lparr>ac_tenant = user_tenant u, ac_equipment = e,
               ac_amount = rnd2 (imputed_cost r order), ac_type = COST_PURCHASE,
               ac_order = Some (rc_order r), ac_receipt = Some (rc_id r), ac_work_order = None\<rparr> db1
        else Inr db1)"
  define elsewhere where "elsewhere = (\<lambda>oi. received_elsewhere (rc_id r) (user_tenant u) (rc_order r) oi db)"
  have "\<exists>db1 db2. for_each (confirm_line rnd4 u (r, order, tracked) elsewhere) (rc_items r) (db, no_counts)
         = Inr (db1, counts) \<and> cost db1 = Inr db2
      \<and> db' = set_order_status (rc_order r)
                 (if all_complete r order elsewhere then PO_RECEIVED else PO_PARTIALLY_RECEIVED)
                 (set_receipt (rc_id r) (\<lambda>x. x\<lparr>rc_status :=
                    (if all_complete r order elsewhere then RC_COMPLETED else RC_PARTIAL)\<rparr>) db2)"
    using assms unfolding snap
    by (auto simp: confirm_tx_def Let_def and_then_eq_Inr elsewhere_def cost_def no_counts_def
        split: if_splits prod.splits)
  then obtain db1 db2 st rst where loop: "for_each (confirm_line rnd4 u snap elsewhere) (rc_items r)
      (db, no_counts) = Inr (db1, counts)" and cost: "cost db1 = Inr db2"
    and db': "db' = set_order_status (rc_order r) st (set_receipt (rc_id r) (\<lambda>x. x\<lparr>rc_status := rst\<rparr>) db2)"
    unfolding snap by blast
  have "procurement_view (fst (db1, counts)) = procurement_view (fst (db, no_counts))"
    using loop
  proof (rule for_each_related[where R = "\<lambda>s s'. procurement_view (fst s') = procurement_view (fst s)"])
  qed (rule refl, (simp only:), (rule confirm_line_view))
  then have "procurement_view db1 = procurement_view db" by (simp only: fst_conv)
  moreover have "procurement_view db2 = procurement_view db1"
    using cost by (auto simp: cost_def create_asset_cost_def split: option.splits if_splits)
  moreover have "procurement_view db' = procurement_view db2"
    by (simp add: db' set_order_status_def set_receipt_def)
  ultimately show ?thesis by (simp only:)
qed

lemma unconfirmed_orders:
  "map unconfirmed rs' = map unconfirmed rs \<Longrightarrow> map rc_order rs' = map rc_order rs"
  by (drule arg_cong[where f = "map rc_order"]) (simp add: comp_def unconfirmed_def)

lemma progress_update:
  assumes "st \<in> {PO_RECEIVED, PO_PARTIALLY_RECEIVED}"
    and "\<And>po. po \<in> set pos \<Longrightarrow> po_id po = i \<Longrightarrow>
      po_status po \<in> set PO_STATUSES_ALLOW_RECEIPT_PROGRESS_SYNC \<or> po_id po \<in> rc_order ` set (receipts db)"
  shows "list_all2 (progressed db) pos (update_rows (\<lambda>x. po_id x = i) (\<lambda>x. x\<lparr>po_status := st\<rparr>) pos)"
  using assms by (induction pos) (auto simp: progressed_def)

lemma receipt_confirm_frame:
  assumes "receipt_confirm rnd4 rnd2 rid u db = Inr (db', c)"
  shows "warehouse_frame db db'"
proof -
  obtain snap db1 where load: "confirm_load rid u db = Inr snap"
    and tx: "confirm_tx rnd4 rnd2 u snap db = Inr (db1, c)" and db': "db' = log_confirm u snap c db1"
    using assms by (auto simp: receipt_confirm_def and_then_eq_Inr)
  obtain r order tracked where snap: "snap = (r, order, tracked)" by (cases snap) auto
  have same: "procurement_view db' = procurement_view db1" "orders db' = orders db1" "receipts db' = receipts db1"
    by (simp_all add: db' snap log_confirm_def Let_def audit_log_def)
  have r: "r \<in> set (receipts db)" using confirm_load_InrD[OF load[unfolded snap]] by blast
  obtain db2 elsewhere where loop: "for_each (confirm_line rnd4 u (r, order, tracked) elsewhere) (rc_items r) (db, no_counts)
       = Inr (db2, c)"
    and rs: "receipts db1 = update_rows (\<lambda>x. rc_id x = rc_id r)
       (\<lambda>x. x\<lparr>rc_status := (if all_complete r order elsewhere then RC_COMPLETED else RC_PARTIAL)\<rparr>) (receipts db2)"
    and os: "orders db1 = update_rows (\<lambda>x. po_id x = rc_order r)
       (\<lambda>x. x\<lparr>po_status := (if all_complete r order elsewhere then PO_RECEIVED else PO_PARTIALLY_RECEIVED)\<rparr>)
       (orders db2)"
    using tx unfolding snap by (rule confirm_tx_InrE) blast
  have two: "orders db2 = orders db" "map rc_order (receipts db2) = map rc_order (receipts db)"
    using confirm_lines_orders[OF loop] by (auto intro: unconfirmed_orders)
  have "list_all2 (progressed db) (orders db) (orders db')"
    unfolding same os two by (rule progress_update) (use r in auto)
  moreover have "map rc_order (receipts db') = map rc_order (receipts db)"
    unfolding same rs by (subst rc_order_update_rows) (simp_all add: two)
  moreover have "procurement_view db' = procurement_view db"
    using confirm_tx_view[OF tx] same(1) by (simp only:)
  ultimately show ?thesis
    using same_receipt_orders unfolding warehouse_frame_def by blast
qed

section \<open>Adjustments\<close>

lemma sync_order_progress:
  assumes "distinct (map po_id (orders db))"
  shows "list_all2 (progressed start) (orders db) (orders (sync_order t i db))"
proof (cases "orders (sync_order t i db) = orders db")
  case True
  then show ?thesis by (simp add: progress_refl)
next
  case False
  then obtain order where o: "find_row (\<lambda>x. po_id x = i \<and> po_tenant x = t) (orders db) = Some order"
    and ok: "po_status order \<in> set PO_STATUSES_ALLOW_RECEIPT_PROGRESS_SYNC"
    by (auto simp: sync_order_def Let_def split: option.splits if_splits)
  have "sync_order t i db = db \<or> sync_order t i db = set_order_status i PO_RECEIVED db
      \<or> sync_order t i db = set_order_status i PO_PARTIALLY_RECEIVED db"
    by (simp add: sync_order_def Let_def split: option.split)
  with False obtain st where st: "st \<in> {PO_RECEIVED, PO_PARTIALLY_RECEIVED}"
      "sync_order t i db = set_order_status i st db"
    by auto
  have "po = order" if "po \<in> set (orders db)" "po_id po = i" for po
    using find_row_SomeD[OF o] that assms by (metis distinct_map inj_onD)
  then show ?thesis
    using st ok by (auto simp: set_order_status_def intro!: progress_update)
qed

lemma sync_order_view: "procurement_view (sync_order t i db) = procurement_view db"
  by (auto simp: sync_order_def Let_def set_order_status_def split: option.splits)

lemma saldo_frame:
  assumes "syncSaldoPendienteIntoReceiptAndPo t rid i it q db = Inr db'" and "distinct (map po_id (orders db))"
  shows "procurement_view db' = procurement_view db" "list_all2 (progressed start) (orders db) (orders db')"
    "map rc_order (receipts db') = map rc_order (receipts db)"
proof -
  obtain adds st db1 where db1: "db1 = set_receipt rid (\<lambda>r. r\<lparr>rc_status := st\<rparr>) (set_receipt rid (add_received adds) db)"
    and db': "db' = sync_order t i db1"
    using assms(1) by (auto simp: syncSaldoPendienteIntoReceiptAndPo_def Let_def split: prod.splits if_splits)
  have "procurement_view db1 = procurement_view db" "orders db1 = orders db"
    by (simp_all add: db1 set_receipt_def)
  then show "procurement_view db' = procurement_view db" "list_all2 (progressed start) (orders db) (orders db')"
    using sync_order_view sync_order_progress[of db1] assms(2) unfolding db' by metis+
  show "map rc_order (receipts db') = map rc_order (receipts db)"
    by (simp add: db' db1 receipts_set_receipt rc_order_update_rows add_received_def)
qed

lemma adjustment_frame:
  assumes "adjustment_create rnd4 dto u db = Inr db'" and d: "distinct (map po_id (orders db))"
  shows "warehouse_frame db db'"
proof -
  obtain db1 where core: "performTransactionCore rnd4 (adjustment_tx dto db) u db = Inr db1"
    and saldo: "ad_reason dto = ''SALDO_PENDIENTE'' \<Longrightarrow> syncSaldoPendienteIntoReceiptAndPo (user_tenant u)
       (trim_opt (ad_receipt dto)) (trim_opt (ad_order dto)) (ad_item dto) (adjustment_delta dto db) db1 = Inr db'"
    and other: "ad_reason dto \<noteq> ''SALDO_PENDIENTE'' \<Longrightarrow> db' = db1"
    using assms(1) by (rule adjustment_InrE) blast
  note one = more_purch_frame[OF core_more[OF core]]
  show ?thesis
  proof (cases "ad_reason dto = ''SALDO_PENDIENTE''")
    case True
    have "distinct (map po_id (orders db1))" using d by (simp add: one)
    note s = saldo_frame[OF saldo[OF True] this]
    have rs: "map rc_order (receipts db') = map rc_order (receipts db)" using s(3) by (simp add: one)
    have view: "procurement_view db' = procurement_view db" using s(1) one(1) by (simp only:)
    have os: "list_all2 (progressed db) (orders db) (orders db')" using s(2)[of db] by (simp only: one(2))
    from view os same_receipt_orders[OF rs] show ?thesis unfolding warehouse_frame_def by blast
  next
    case False
    with other core show ?thesis by (auto intro: more_warehouse_frame core_more)
  qed
qed

section \<open>Every operation of the warehouse\<close>

lemma stock_step_frame:
  assumes "stock_step db db'" and "distinct (map po_id (orders db))"
  shows "warehouse_frame db db'"
  using assms
proof (induction rule: stock_step.induct)
  case (moved rnd4 dto u db db')
  then show ?case by (auto simp: performTransaction_eq intro: more_warehouse_frame core_more)
next
  case (returned rdto u db db')
  then show ?case by (auto simp: performReturn_Inr intro!: more_warehouse_frame)
next
  case (levels_set w i ldto u db db')
  then show ?case by (auto intro: more_warehouse_frame levels_more)
next
  case (shipped tdto u newId db db')
  then show ?case by (auto intro: more_warehouse_frame transfer_more)
next
  case (received rnd4 tid u db db')
  then show ?case by (auto intro: more_warehouse_frame reception_more)
qed (auto intro: receipt_create_warehouse updateItems_warehouse receipt_confirm_frame adjustment_frame)

end
