(* ===== verification/Order_Signatures.thy ===== *)
theory Order_Signatures
  imports Procurement_Frames
begin

text \<open>
  The signatures of the orders over all operations that touch them: what is invariant of one order,
  the locale of the services that keep it, its interpretations on the life of an order, on its
  creation and on the warehouse.
\<close>

section \<open>The invariant\<close>

text \<open>How many signatures an order of a status has.\<close>

definition count_ok :: "po_status \<Rightarrow> int \<Rightarrow> int \<Rightarrow> bool" where
  "count_ok st required n \<longleftrightarrow>
     (case st of
        PO_DRAFT \<Rightarrow> n = 0
      | PO_PENDING_APPROVAL \<Rightarrow> n = 0
      | PO_PARTIALLY_APPROVED \<Rightarrow> 0 < n \<and> n < required
      | PO_REJECTED \<Rightarrow> n < required
      | PO_CANCELLED \<Rightarrow> n \<le> required
      | _ \<Rightarrow> n = required)"

definition signatures_in_order :: "printing \<Rightarrow> purchase_order \<Rightarrow> signature list \<Rightarrow> bool" where
  "signatures_in_order pr po sigs \<longleftrightarrow>
     distinct (map sg_user sigs) \<and> distinct (map sg_level sigs)
     \<and> (\<forall>s \<in> set sigs. sg_level s \<le> po_required po \<and> {1 ..< sg_level s} \<subseteq> sg_level ` set sigs
          \<and> sg_hashed_status s \<noteq> None \<and> signature_valid pr po s)"

definition order_ok :: "printing \<Rightarrow> 'a purch_db_scheme \<Rightarrow> purchase_order \<Rightarrow> bool" where
  "order_ok pr db po \<longleftrightarrow>
     count_ok (po_status po) (po_required po) (int (length (approvals_of (po_id po) db)))
     \<and> signatures_in_order pr po (approvals_of (po_id po) db) \<and> po_required po \<in> {2, 3}"

text \<open>What the order of a receipt is: it went to the vendor, so it has all its signatures.\<close>

definition shipped_statuses :: "po_status set" where
  "shipped_statuses = {PO_SENT, PO_ORDERED, PO_SENT_TO_SUPPLIER, PO_PARTIALLY_RECEIVED, PO_RECEIVED,
     PO_CLOSED, PO_CANCELLED}"

definition received_ok :: "'a purch_db_scheme \<Rightarrow> purchase_order \<Rightarrow> bool" where
  "received_ok db po \<longleftrightarrow> po_status po \<in> shipped_statuses
     \<and> int (length (approvals_of (po_id po) db)) = po_required po"

definition signing_ok :: "printing \<Rightarrow> 'a purch_db_scheme \<Rightarrow> bool" where
  "signing_ok pr db \<longleftrightarrow> distinct (map po_id (orders db))
     \<and> (\<forall>po \<in> set (orders db). order_ok pr db po)
     \<and> (\<forall>s \<in> set (signatures db). sg_order s \<in> po_id ` set (orders db))
     \<and> (\<forall>r \<in> set (receipts db). \<exists>po \<in> set (orders db). po_id po = rc_order r \<and> received_ok db po)"

lemma signing_okD:
  assumes "signing_ok pr db"
  shows "distinct (map po_id (orders db))"
    and "po \<in> set (orders db) \<Longrightarrow> order_ok pr db po"
    and "s \<in> set (signatures db) \<Longrightarrow> sg_order s \<in> po_id ` set (orders db)"
  using assms by (simp_all add: signing_ok_def)

lemma same_order:
  assumes "signing_ok pr db" "po \<in> set (orders db)" "x \<in> set (orders db)" "po_id x = po_id po"
  shows "x = po"
  using signing_okD(1)[OF assms(1)] assms(2-4) by (metis distinct_map inj_onD)

lemma receipt_order_ok:
  assumes "signing_ok pr db" "po \<in> set (orders db)" "po_id po \<in> rc_order ` set (receipts db)"
  shows "received_ok db po"
proof -
  obtain x where "x \<in> set (orders db)" "po_id x = po_id po" "received_ok db x"
    using assms(1,3) unfolding signing_ok_def by (metis image_iff)
  with same_order[OF assms(1,2)] show ?thesis by blast
qed

lemma order_ok_cong:
  "approvals_of (po_id po) db' = approvals_of (po_id po) db \<Longrightarrow> order_ok pr db' po = order_ok pr db po"
  for db :: "'a purch_db_scheme" and db' :: "'b purch_db_scheme"
  by (simp add: order_ok_def)

lemma received_ok_cong:
  "approvals_of (po_id po) db' = approvals_of (po_id po) db \<Longrightarrow> received_ok db' po = received_ok db po"
  for db :: "'a purch_db_scheme" and db' :: "'b purch_db_scheme"
  by (simp add: received_ok_def)

lemma signing_ok_cong:
  fixes db :: "'a purch_db_scheme" and db' :: "'b purch_db_scheme"
  assumes "orders db' = orders db" "signatures db' = signatures db" "receipts db' = receipts db"
  shows "signing_ok pr db' = signing_ok pr db"
proof -
  have a: "approvals_of i db' = approvals_of i db" for i by (simp add: approvals_of_def assms)
  show ?thesis by (simp add: signing_ok_def assms order_ok_cong[OF a] received_ok_cong[OF a])
qed

lemma sent_received_ok:
  assumes "order_ok pr db po" "po_status po \<in> set PO_STATUSES_ALLOW_WAREHOUSE_RECEIPT"
  shows "received_ok db po"
  using assms by (auto simp: order_ok_def count_ok_def received_ok_def shipped_statuses_def
      PO_STATUSES_ALLOW_WAREHOUSE_RECEIPT_def)

lemma same_status_lists:
  "set PO_STATUSES_ALLOW_RECEIPT_PROGRESS_SYNC = set PO_STATUSES_ALLOW_WAREHOUSE_RECEIPT"
  by (auto simp: PO_STATUSES_ALLOW_RECEIPT_PROGRESS_SYNC_def PO_STATUSES_ALLOW_WAREHOUSE_RECEIPT_def)

text \<open>The validity of a signature depends on the key and the amount of the order.\<close>

lemma signature_valid_cong:
  assumes "sg_hashed_status s \<noteq> None" "po_id po' = po_id po" "po_total po' = po_total po"
    "po_tenant po' = po_tenant po"
  shows "signature_valid pr po' s = signature_valid pr po s"
  using assms by (auto simp: signature_valid_def payload_of_def)

lemma signatures_in_order_cong:
  assumes "po_id po' = po_id po" "po_total po' = po_total po" "po_tenant po' = po_tenant po"
    "po_required po' = po_required po"
  shows "signatures_in_order pr po' sigs = signatures_in_order pr po sigs"
  unfolding signatures_in_order_def
  using assms signature_valid_cong[of _ po' po pr] by auto

text \<open>An operation that changes one order and the signatures of that order.\<close>

lemma signing_ok_update:
  fixes db db' :: "'a purch_db_scheme"
  assumes ok: "signing_ok pr db"
    and po: "po \<in> set (orders db)"
    and os: "orders db' = update_rows (\<lambda>x. po_id x = po_id po) f (orders db)" and id: "po_id (f po) = po_id po"
    and others: "\<And>j. j \<noteq> po_id po \<Longrightarrow> approvals_of j db' = approvals_of j db"
    and rs: "\<And>r. r \<in> set (receipts db') \<Longrightarrow> rc_order r \<in> rc_order ` set (receipts db)"
    and new: "order_ok pr db' (f po)"
    and recv: "received_ok db po \<Longrightarrow> received_ok db' (f po)"
  shows "signing_ok pr db'"
proof -
  have os': "set (orders db') = f ` {x \<in> set (orders db). po_id x = po_id po}
      \<union> {x \<in> set (orders db). po_id x \<noteq> po_id po}"
    by (auto simp: os set_update_rows)
  have "{x \<in> set (orders db). po_id x = po_id po} = {po}" using same_order[OF ok po] po by blast
  then have set': "set (orders db') = insert (f po) {x \<in> set (orders db). po_id x \<noteq> po_id po}"
    by (simp add: os')
  have uniq: "x = po" if "x \<in> set (orders db)" "po_id x = po_id po" for x
    using that same_order[OF ok po] by blast
  have ids: "map po_id (orders db') = map po_id (orders db)"
    unfolding os update_rows_def map_map comp_def by (rule map_cong) (use uniq id in \<open>metis+\<close>)
  have d: "distinct (map po_id (orders db'))" using signing_okD(1)[OF ok] by (simp add: ids)
  have o: "order_ok pr db' x" if "x \<in> set (orders db')" for x
    using that new signing_okD(2)[OF ok, of x] order_ok_cong[OF others] by (auto simp: set')
  have s: "sg_order s \<in> po_id ` set (orders db')" if "s \<in> set (signatures db')" for s
  proof (cases "sg_order s = po_id po")
    case False
    have "s \<in> set (approvals_of (sg_order s) db')" using that by (simp add: approvals_of_def)
    then have "s \<in> set (approvals_of (sg_order s) db)" by (simp only: others[OF False])
    then have "s \<in> set (signatures db)" by (simp add: approvals_of_def)
    then show ?thesis using signing_okD(3)[OF ok] ids by (metis image_set)
  qed (use po ids in \<open>metis image_eqI image_set\<close>)
  have r: "\<exists>x \<in> set (orders db'). po_id x = rc_order r \<and> received_ok db' x" if mem: "r \<in> set (receipts db')" for r
  proof -
    obtain r0 where "r0 \<in> set (receipts db)" "rc_order r0 = rc_order r" using rs[OF mem] by force
    then obtain x where x: "x \<in> set (orders db)" "po_id x = rc_order r" "received_ok db x"
      using ok unfolding signing_ok_def by metis
    show ?thesis
    proof (cases "po_id x = po_id po")
      case True
      then have "x = po" using same_order[OF ok po x(1)] by simp
      then show ?thesis using x recv by (auto simp: set' id)
    next
      case False
      then show ?thesis using x received_ok_cong[OF others[OF False]] by (auto simp: set')
    qed
  qed
  show ?thesis unfolding signing_ok_def using d o s r by blast
qed

text \<open>The same for an operation that leaves the signatures alone.\<close>

lemma signing_ok_status:
  fixes db db' :: "'a purch_db_scheme"
  assumes ok: "signing_ok pr db"
    and po: "po \<in> set (orders db)" and os: "orders db' = update_rows (\<lambda>x. po_id x = po_id po) f (orders db)"
    and key: "po_id (f po) = po_id po" "po_total (f po) = po_total po" "po_tenant (f po) = po_tenant po"
      "po_required (f po) = po_required po"
    and ss: "signatures db' = signatures db" and rs: "map rc_order (receipts db') = map rc_order (receipts db)"
    and count: "\<And>n. count_ok (po_status po) (po_required po) n \<Longrightarrow> count_ok (po_status (f po)) (po_required po) n"
    and recv: "po_status po \<in> shipped_statuses \<Longrightarrow> po_status (f po) \<in> shipped_statuses"
  shows "signing_ok pr db'"
proof (rule signing_ok_update[OF ok po os key(1)])
  have a: "approvals_of j db' = approvals_of j db" for j by (simp add: approvals_of_def ss)
  show "approvals_of j db' = approvals_of j db" for j by (rule a)
  show "rc_order r \<in> rc_order ` set (receipts db)" if "r \<in> set (receipts db')" for r
    by (rule same_receipt_orders[OF rs that])
  show "order_ok pr db' (f po)"
    using signing_okD(2)[OF ok po] count signatures_in_order_cong[OF key]
    by (simp add: order_ok_def a key)
  show "received_ok db' (f po)" if "received_ok db po"
    using that recv by (simp add: received_ok_def a key)
qed

text \<open>A new order.\<close>

lemma signing_ok_create:
  fixes db db' :: "'a purch_db_scheme"
  assumes ok: "signing_ok pr db" and create: "create_order po db = Inr db'"
    and st: "po_status po = PO_PENDING_APPROVAL" and req: "po_required po \<in> {2, 3}"
  shows "signing_ok pr db'"
proof -
  have fresh: "po_id po \<notin> po_id ` set (orders db)"
    and db': "db' = db\<lparr>orders := orders db @ [po]\<rparr>"
    using create by (auto simp: create_order_def list_ex_iff split: if_splits)
  have a: "approvals_of i db' = approvals_of i db" for i by (simp add: approvals_of_def db')
  have none: "approvals_of (po_id po) db = []"
    using fresh signing_okD(3)[OF ok] unfolding approvals_of_def filter_empty_conv by metis
  have "order_ok pr db' po"
    using req by (simp add: order_ok_def a none count_ok_def st signatures_in_order_def)
  with ok fresh show ?thesis
    unfolding signing_ok_def order_ok_cong[OF a] received_ok_cong[OF a] by (auto simp: db')
qed

section \<open>Frames\<close>

lemma procurement_logs [simp]:
  "orders (order_log u i a x y db) = orders db" "signatures (order_log u i a x y db) = signatures db"
  "receipts (order_log u i a x y db) = receipts db"
  "requisitions (order_log u i a x y db) = requisitions db"
  "quotations (order_log u i a x y db) = quotations db"
  "orders (requisition_log u i a x y db) = orders db"
  "signatures (requisition_log u i a x y db) = signatures db"
  "receipts (requisition_log u i a x y db) = receipts db"
  "requisitions (requisition_log u i a x y db) = requisitions db"
  "quotations (requisition_log u i a x y db) = quotations db"
  "approval_policies (order_log u i a x y db) = approval_policies db"
  by (simp_all add: order_log_def requisition_log_def audit_log_def)

lemma set_order_frame [simp]:
  "orders (set_order i f db) = update_rows (\<lambda>x. po_id x = i) f (orders db)"
  "signatures (set_order i f db) = signatures db" "receipts (set_order i f db) = receipts db"
  "requisitions (set_order i f db) = requisitions db"
  by (simp_all add: set_order_def)

lemma set_requisition_frame [simp]:
  "orders (set_requisition i f db) = orders db" "signatures (set_requisition i f db) = signatures db"
  "receipts (set_requisition i f db) = receipts db" "quotations (set_requisition i f db) = quotations db"
  by (simp_all add: set_requisition_def)

lemma set_award_frame [simp]:
  "orders (set_award l a db) = orders db" "signatures (set_award l a db) = signatures db"
  "receipts (set_award l a db) = receipts db" "quotations (set_award l a db) = quotations db"
  by (simp_all add: set_award_def)

lemma coverage_frame [simp]:
  "orders (applyRequisitionCoverageStatusAfterPurchase i db) = orders db"
  "signatures (applyRequisitionCoverageStatusAfterPurchase i db) = signatures db"
  "receipts (applyRequisitionCoverageStatusAfterPurchase i db) = receipts db"
  "quotations (applyRequisitionCoverageStatusAfterPurchase i db) = quotations db"
  by (simp_all add: applyRequisitionCoverageStatusAfterPurchase_def split: option.split)

lemma sync_frame [simp]:
  "orders (snd (syncPurchaseQuotationStatusesFromLineAwards i db)) = orders db"
  "signatures (snd (syncPurchaseQuotationStatusesFromLineAwards i db)) = signatures db"
  "receipts (snd (syncPurchaseQuotationStatusesFromLineAwards i db)) = receipts db"
  "requisitions (snd (syncPurchaseQuotationStatusesFromLineAwards i db)) = requisitions db"
  by (simp_all add: syncPurchaseQuotationStatusesFromLineAwards_def split: option.split)

text \<open>The three tables of the invariant, for operations that write none of them.\<close>

definition order_view :: "'a purch_db_scheme \<Rightarrow> purchase_order list \<times> signature list \<times> receipt list" where
  "order_view db = (orders db, signatures db, receipts db)"

lemma order_view_ok:
  "order_view db' = order_view db \<Longrightarrow> signing_ok pr db \<Longrightarrow> signing_ok pr db'"
  for db db' :: "'a purch_db_scheme"
  using signing_ok_cong[of db' db pr] by (simp add: order_view_def)

lemma order_view_fold:
  "(\<And>x d. order_view (f x d) = order_view d) \<Longrightarrow> order_view (fold f xs db) = order_view db"
  for db :: "'a purch_db_scheme"
  by (induction xs arbitrary: db) simp_all

lemma order_view_logs [simp]:
  "order_view (order_log u i a x y db) = order_view db"
  "order_view (requisition_log u i a x y db) = order_view db"
  "order_view (log_sync u i cs db) = order_view db"
  "order_view (set_requisition i f db) = order_view db"
  "order_view (set_award l a' db) = order_view db"
  "order_view (applyRequisitionCoverageStatusAfterPurchase i db) = order_view db"
  "order_view (snd (syncPurchaseQuotationStatusesFromLineAwards i db)) = order_view db"
  by (simp_all add: order_view_def log_sync_def)

lemma order_view_release [simp]: "order_view (release_awards po i db) = order_view db"
  unfolding release_awards_def by (rule order_view_fold) (simp add: release_award_def)

lemma order_view_edits [simp]: "order_view (log_line_edits u i ds db) = order_view db"
  unfolding log_line_edits_def by (rule order_view_fold) (simp add: case_prod_beta)

lemma all2_right: "list_all2 P xs ys \<Longrightarrow> y \<in> set ys \<Longrightarrow> \<exists>x \<in> set xs. P x y"
  by (induction rule: list_all2_induct) auto

lemma all2_left: "list_all2 P xs ys \<Longrightarrow> x \<in> set xs \<Longrightarrow> \<exists>y \<in> set ys. P x y"
  by (induction rule: list_all2_induct) auto

lemma progressed_id: "progressed db po po' \<Longrightarrow> po_id po' = po_id po"
  by (auto simp: progressed_def)

lemma progressed_ids: "list_all2 (progressed db) pos pos' \<Longrightarrow> map po_id pos' = map po_id pos"
  by (induction rule: list_all2_induct) (simp_all add: progressed_id)

section \<open>The services\<close>

locale signing_service =
  fixes pr :: printing and step :: "'a purch_db_scheme \<Rightarrow> 'a purch_db_scheme \<Rightarrow> bool"
  assumes keeps: "signing_ok pr db \<Longrightarrow> step db db' \<Longrightarrow> signing_ok pr db'"
begin

lemma run_keeps: "step\<^sup>*\<^sup>* db db' \<Longrightarrow> signing_ok pr db \<Longrightarrow> signing_ok pr db'"
  by (induction rule: rtranclp_induct) (auto intro: keeps)

text \<open>An order that the vendor got keeps its signatures through any run of the service.\<close>

lemma run_receipts_signed:
  assumes "step\<^sup>*\<^sup>* db db'" "signing_ok pr db" "po \<in> set (orders db')" "r \<in> set (receipts db')"
    "rc_order r = po_id po"
  shows "received_ok db' po"
  using receipt_order_ok[OF run_keeps[OF assms(1,2)] assms(3)] assms(4,5) by (metis image_eqI)

end

interpretation warehouse: signing_service pr stock_step
proof
  fix db db' :: "'a purch_db_scheme"
  assume ok: "signing_ok pr db" and step: "stock_step db db'"
  have frame: "warehouse_frame db db'" by (rule stock_step_frame[OF step signing_okD(1)[OF ok]])
  have a: "approvals_of i db' = approvals_of i db" for i
    using frame by (simp add: approvals_of_def warehouse_frame_def)
  note prog = frame[unfolded warehouse_frame_def, THEN conjunct2, THEN conjunct1]
  have ids: "map po_id (orders db') = map po_id (orders db)"
    by (rule progressed_ids[OF prog])
  have one: "order_ok pr db' po' \<and> (received_ok db po \<longrightarrow> received_ok db' po')"
    if po: "po \<in> set (orders db)" and p: "progressed db po po'" for po po'
  proof (cases "po' = po")
    case True
    then show ?thesis using signing_okD(2)[OF ok po] order_ok_cong[OF a] received_ok_cong[OF a] by blast
  next
    case False
    then obtain st where st: "st \<in> {PO_RECEIVED, PO_PARTIALLY_RECEIVED}" "po' = po\<lparr>po_status := st\<rparr>"
      and why: "po_status po \<in> set PO_STATUSES_ALLOW_RECEIPT_PROGRESS_SYNC \<or> po_id po \<in> rc_order ` set (receipts db)"
      using p by (auto simp: progressed_def)
    have n: "int (length (approvals_of (po_id po) db)) = po_required po"
      using why receipt_order_ok[OF ok po] sent_received_ok[OF signing_okD(2)[OF ok po]]
      by (auto simp: received_ok_def same_status_lists)
    have "signatures_in_order pr po' (approvals_of (po_id po) db) \<and> po_required po \<in> {2, 3}"
      using signing_okD(2)[OF ok po] signatures_in_order_cong[of po' po] by (simp add: order_ok_def st)
    then show ?thesis using st n by (auto simp: order_ok_def received_ok_def a count_ok_def shipped_statuses_def)
  qed
  have o: "order_ok pr db' po'" if "po' \<in> set (orders db')" for po'
    using all2_right[OF prog that] one by blast
  have rec: "\<exists>po' \<in> set (orders db'). po_id po' = po_id po \<and> received_ok db' po'"
    if "po \<in> set (orders db)" "received_ok db po" for po
    using all2_left[OF prog that(1)] one[OF that(1)] that(2) progressed_id by blast
  have r: "\<exists>po' \<in> set (orders db'). po_id po' = rc_order r \<and> received_ok db' po'"
    if mem: "r \<in> set (receipts db')" for r
  proof -
    from frame mem have "rc_order r \<in> rc_order ` set (receipts db)
       \<or> (\<exists>po \<in> set (orders db). po_id po = rc_order r \<and> po_status po \<in> set PO_STATUSES_ALLOW_WAREHOUSE_RECEIPT)"
      by (simp add: warehouse_frame_def)
    then have "\<exists>po \<in> set (orders db). po_id po = rc_order r \<and> received_ok db po"
    proof
      assume "rc_order r \<in> rc_order ` set (receipts db)"
      then obtain r0 where "r0 \<in> set (receipts db)" "rc_order r0 = rc_order r" by force
      then show ?thesis using ok unfolding signing_ok_def by metis
    qed (use signing_okD(2)[OF ok] sent_received_ok in blast)
    with rec show ?thesis by metis
  qed
  have s: "sg_order s \<in> po_id ` set (orders db')" if "s \<in> set (signatures db')" for s
  proof -
    have "s \<in> set (signatures db)" using that frame by (simp add: warehouse_frame_def)
    from signing_okD(3)[OF ok this] show ?thesis using ids by (metis image_set)
  qed
  have d: "distinct (map po_id (orders db'))" using signing_okD(1)[OF ok] by (simp only: ids)
  show "signing_ok pr db'" unfolding signing_ok_def using d o s r by blast
qed

end
