(* ===== verification/Procurement_System.thy ===== *)
theory Procurement_System
  imports Order_Signatures
begin

text \<open>
  The purchase module as one system: the life of an order, the requisitions and the orders that come
  out of them, the settings, and the warehouse, as steps on the same tables; the states they reach
  from a company without orders, and the properties of those states.
\<close>

section \<open>The life of an order\<close>

inductive order_step :: "printing \<Rightarrow> 'a purch_db_scheme \<Rightarrow> 'a purch_db_scheme \<Rightarrow> bool" for pr where
  signed: "approve pr newId now comment u i db = Inr db' \<Longrightarrow> order_step pr db db'"
| rejected: "reject reason u i db = Inr db' \<Longrightarrow> order_step pr db db'"
| redrafted: "resetToDraft u i db = Inr db' \<Longrightarrow> order_step pr db db'"
| cancelled: "cancel reason u i db = Inr db' \<Longrightarrow> order_step pr db db'"
| edited: "updateSensitiveFields pr newItem amount lines u i db = Inr db' \<Longrightarrow> order_step pr db db'"
| addressed: "updateOrderLogistics delivery terms u i db = Inr db' \<Longrightarrow> order_step pr db db'"
| linked: "linkItemToCatalog u i lineId itemId db = Inr db' \<Longrightarrow> order_step pr db db'"
| sent: "markAsSentToSupplier now u i db = Inr db' \<Longrightarrow> order_step pr db db'"
| closed: "forceClose reason u i db = Inr db' \<Longrightarrow> order_step pr db db'"
| viewed: "order_findById pr i tenant mu db = Inr (po, sigs, db') \<Longrightarrow> order_step pr db db'"

lemma open_order_Inr:
  "open_order i u db = Inr po \<Longrightarrow> po \<in> set (orders db) \<and> po_id po = i \<and> po_tenant po = user_tenant u"
  by (auto simp: open_order_def find_order_def and_then_eq_Inr dest!: find_row_SomeD split: option.splits)

lemma approvals_of_drop:
  "approvals_of j (drop_signatures i db) = (if j = i then [] else approvals_of j db)"
  by (auto simp: approvals_of_def drop_signatures_def filter_empty_conv intro: filter_cong)

lemma drop_frame [simp]:
  "orders (drop_signatures i db) = orders db" "receipts (drop_signatures i db) = receipts db"
  by (simp_all add: drop_signatures_def)

text \<open>What a successful signature is.\<close>

lemma check_signer_Inr:
  assumes "check_signer u po sigs policies = Inr p"
  shows "po_status po \<in> {PO_PENDING_APPROVAL, PO_PARTIALLY_APPROVED}" "user_id u \<notin> sg_user ` set sigs"
    "resolveApprovalPolicyForUser policies (user_id u) = Some p" "pl_level p \<le> po_required po"
    "pl_level p \<notin> sg_level ` set sigs" "{1 ..< pl_level p} \<subseteq> sg_level ` set sigs"
proof -
  show "po_status po \<in> {PO_PENDING_APPROVAL, PO_PARTIALLY_APPROVED}" "user_id u \<notin> sg_user ` set sigs"
    "resolveApprovalPolicyForUser policies (user_id u) = Some p" "pl_level p \<le> po_required po"
    "pl_level p \<notin> sg_level ` set sigs"
    using assms by (auto simp: check_signer_def list_ex_iff split: if_splits option.splits)
  show "{1 ..< pl_level p} \<subseteq> sg_level ` set sigs"
    using assms by (auto simp: check_signer_def list_ex_iff image_iff subset_iff split: if_splits option.splits)
qed

lemma approve_InrE:
  assumes "approve pr newId now comment u i db = Inr db'"
  obtains po p where "open_order i u db = Inr po"
    "check_signer u po (approvals_of i db) (policies_of (user_tenant u) db) = Inr p"
    "signatures db' = signatures db @ [signature_of pr newId now comment u po p]"
    "orders db' = update_rows (\<lambda>x. po_id x = po_id po)
       (\<lambda>x. x\<lparr>po_status := status_after po (approvals_of i db)\<rparr>) (orders db)"
    "receipts db' = receipts db"
  using assms
  by (auto simp: approve_def approve_load_def approve_tx_def create_signature_def and_then_eq_Inr Let_def
      set_order_status_def intro: that split: if_splits prod.splits)

lemma count_signed:
  assumes "count_ok (po_status po) (po_required po) n" "po_required po \<in> {2, 3}"
    and "po_status po \<in> {PO_PENDING_APPROVAL, PO_PARTIALLY_APPROVED}"
  shows "n < po_required po"
    and "count_ok (if n + 1 \<ge> po_required po then PO_APPROVED else PO_PARTIALLY_APPROVED) (po_required po) (n + 1)"
  using assms by (auto simp: count_ok_def)

lemma approve_keeps:
  assumes "approve pr newId now comment u i db = Inr db'" and ok: "signing_ok pr db"
  shows "signing_ok pr db'"
proof -
  obtain po and p :: approval_policy where open': "open_order i u db = Inr po"
    and check: "check_signer u po (approvals_of i db) (policies_of (user_tenant u) db) = Inr p"
    and sg: "signatures db' = signatures db @ [signature_of pr newId now comment u po p]"
    and os: "orders db' = update_rows (\<lambda>x. po_id x = po_id po)
       (\<lambda>x. x\<lparr>po_status := status_after po (approvals_of i db)\<rparr>) (orders db)"
    and rs: "receipts db' = receipts db"
    using assms(1) by (rule approve_InrE)
  note po = open_order_Inr[OF open']
  let ?S = "approvals_of i db" and ?new = "signature_of pr newId now comment u po p"
  have a: "approvals_of j db' = (if j = i then ?S @ [?new] else approvals_of j db)" for j
    using po by (auto simp: approvals_of_def sg signature_of_def)
  note c = check_signer_Inr[OF check]
  have old: "order_ok pr db po" using signing_okD(2)[OF ok] po by blast
  show ?thesis
  proof (rule signing_ok_update[OF ok _ os])
    let ?po = "po\<lparr>po_status := status_after po ?S\<rparr>"
    have "count_ok (po_status ?po) (po_required po) (int (length (approvals_of i db')))"
      using old count_signed(2)[of po "int (length ?S)"] c(1) po
      by (auto simp: order_ok_def a status_after_def add.commute)
    moreover have "signatures_in_order pr po (?S @ [?new])"
      using old c(2,4-6) po
      by (auto simp: order_ok_def signatures_in_order_def signature_of_def signature_valid_def
          verifySignatureIntegrity_def payload_of_def)
    ultimately show "order_ok pr db' ?po"
      using old po signatures_in_order_cong[of ?po po pr] by (auto simp: order_ok_def a)
    show "received_ok db' ?po" if "received_ok db po"
      using that c(1) by (auto simp: received_ok_def shipped_statuses_def)
  qed (use po a rs in auto)
qed

text \<open>An edit and a return to draft take the signatures of the order away.\<close>

lemma unsigned_keeps:
  fixes db db' :: "'a purch_db_scheme"
  assumes ok: "signing_ok pr db" and po: "po \<in> set (orders db)" "po_id po = i"
    and st: "po_status po \<notin> shipped_statuses" and view: "order_view db' = order_view (set_order i f (drop_signatures i db))"
    and f: "po_id (f po) = i" "po_status (f po) \<in> {PO_DRAFT, PO_PENDING_APPROVAL}" "po_required (f po) \<in> {2, 3}"
  shows "signing_ok pr db'"
proof (rule signing_ok_update[OF ok po(1)])
  have a: "approvals_of j db' = (if j = i then [] else approvals_of j db)" for j
    using view approvals_of_drop[of j i db] by (simp add: order_view_def approvals_of_def)
  show "orders db' = update_rows (\<lambda>x. po_id x = po_id po) f (orders db)"
    using view po by (simp add: order_view_def)
  show "order_ok pr db' (f po)"
    using f by (auto simp: order_ok_def a count_ok_def signatures_in_order_def)
  show "received_ok db' (f po)" if "received_ok db po" using that st by (simp add: received_ok_def)
  show "approvals_of j db' = approvals_of j db" if "j \<noteq> po_id po" for j using that po a by simp
qed (use view po f in \<open>auto simp: order_view_def\<close>)

lemma update_same:
  "(\<And>r. r \<in> set rows \<Longrightarrow> p r \<Longrightarrow> f r = r) \<Longrightarrow> update_rows p f rows = rows"
  by (induction rows) auto

text \<open>Where every signature is valid, looking at an order changes nothing.\<close>

lemma findById_keeps:
  assumes "order_findById pr i tenant mu db = Inr (po, sigs, db')" and ok: "signing_ok pr db"
  shows "db' = db"
proof -
  have po: "po \<in> set (orders db)" "po_id po = i"
    and db': "db' = db\<lparr>signatures := update_rows (\<lambda>s. (sg_order s = i \<and> \<not> signature_valid pr po s)
      \<and> sg_integrity s = SIG_VALID) (\<lambda>s. s\<lparr>sg_integrity := SIG_COMPROMISED\<rparr>) (signatures db)\<rparr>"
    using assms(1)
    by (auto simp: order_findById_def find_order_def and_then_eq_Inr Let_def dest!: find_row_SomeD split: option.splits)
  have "signature_valid pr po s" if "s \<in> set (signatures db)" "sg_order s = i" for s
    using that signing_okD(2)[OF ok po(1)] po(2) by (auto simp: order_ok_def signatures_in_order_def approvals_of_def)
  then have "update_rows (\<lambda>s. (sg_order s = i \<and> \<not> signature_valid pr po s)
      \<and> sg_integrity s = SIG_VALID) (\<lambda>s. s\<lparr>sg_integrity := SIG_COMPROMISED\<rparr>) (signatures db) = signatures db"
    by (intro update_same) auto
  then show ?thesis by (simp add: db')
qed

lemma reject_keeps:
  assumes step: "reject reason u i db = Inr db'" and ok: "signing_ok pr db"
  shows "signing_ok pr db'"
proof -
  obtain po where o: "open_order i u db = Inr po" "po_status po \<in> {PO_PENDING_APPROVAL, PO_PARTIALLY_APPROVED}"
    and v: "order_view db' = order_view (set_order i (\<lambda>x. x\<lparr>po_status := PO_REJECTED,
               po_notes := (case reason of None \<Rightarrow> po_notes po | Some r \<Rightarrow> Some r)\<rparr>) db)"
    using step
    by (auto simp: reject_def and_then_eq_Inr split: if_splits)
  have "po_required po \<in> {2, 3}" using signing_okD(2)[OF ok] open_order_Inr[OF o(1)] by (auto simp: order_ok_def)
  then show ?thesis
    using v open_order_Inr[OF o(1)] o(2)
    by (intro signing_ok_status[OF ok, of po _ "\<lambda>x. x\<lparr>po_status := PO_REJECTED,
         po_notes := (case reason of None \<Rightarrow> po_notes po | Some r \<Rightarrow> Some r)\<rparr>"])
       (auto simp: order_view_def count_ok_def shipped_statuses_def)
qed

lemma reset_keeps:
  assumes step: "resetToDraft u i db = Inr db'" and ok: "signing_ok pr db"
  shows "signing_ok pr db'"
proof -
  obtain po where o: "open_order i u db = Inr po" "po_status po = PO_REJECTED"
    and v: "order_view db' = order_view (set_order i (\<lambda>x. x\<lparr>po_status := PO_DRAFT, po_notes := None\<rparr>)
       (drop_signatures i db))"
    using step
    by (auto simp: resetToDraft_def and_then_eq_Inr split: if_splits)
  show ?thesis
    by (rule unsigned_keeps[OF ok _ _ _ v]) (use open_order_Inr[OF o(1)] o(2) signing_okD(2)[OF ok] in
      \<open>auto simp: shipped_statuses_def order_ok_def\<close>)
qed

lemma cancel_keeps:
  assumes step: "cancel reason u i db = Inr db'" and ok: "signing_ok pr db"
  shows "signing_ok pr db'"
proof -
  obtain po where o: "open_order i u db = Inr po" "po_status po \<notin> {PO_CANCELLED, PO_RECEIVED, PO_CLOSED}"
    and v: "order_view db' = order_view (set_order i (\<lambda>x. x\<lparr>po_status := PO_CANCELLED,
       po_notes := Some (trim_opt reason)\<rparr>) db)"
    using step
    by (auto simp: cancel_def check_cancel_def and_then_eq_Inr Let_def split: if_splits option.splits)
  have "po_required po \<in> {2, 3}" using signing_okD(2)[OF ok] open_order_Inr[OF o(1)] by (auto simp: order_ok_def)
  then show ?thesis
    using v open_order_Inr[OF o(1)] o(2)
    by (intro signing_ok_status[OF ok, of po _ "\<lambda>x. x\<lparr>po_status := PO_CANCELLED,
         po_notes := Some (trim_opt reason)\<rparr>"])
       (auto simp: order_view_def count_ok_def shipped_statuses_def split: po_status.splits)
qed

lemma edit_keeps:
  assumes step: "updateSensitiveFields pr newItem amount lines u i db = Inr db'" and ok: "signing_ok pr db"
  shows "signing_ok pr db'"
proof -
  let ?f = "edit_order pr (approval_threshold (user_tenant u) db) newItem amount lines"
  obtain po where o: "open_order i u db = Inr po"
      "po_status po \<in> {PO_DRAFT, PO_PENDING_APPROVAL, PO_PARTIALLY_APPROVED}"
    and v: "order_view db' = order_view (set_order i ?f (drop_signatures i db))"
    using step by (auto simp: updateSensitiveFields_def and_then_eq_Inr Let_def split: if_splits option.splits prod.splits)
  show ?thesis
    by (rule unsigned_keeps[OF ok _ _ _ v]) (use open_order_Inr[OF o(1)] o(2) signing_okD(2)[OF ok] in
      \<open>auto simp: shipped_statuses_def order_ok_def edit_order_def required_signatures_def split: option.splits\<close>)
qed

lemma logistics_keeps:
  assumes step: "updateOrderLogistics delivery terms u i db = Inr db'" and ok: "signing_ok pr db"
  shows "signing_ok pr db'"
proof -
  let ?f = "\<lambda>x. x\<lparr>po_delivery := (case delivery of None \<Rightarrow> po_delivery x | Some d \<Rightarrow> d),
       po_payment_terms := (case terms of None \<Rightarrow> po_payment_terms x | Some t \<Rightarrow> t)\<rparr>"
  obtain po where o: "open_order i u db = Inr po" and v: "order_view db' = order_view (set_order i ?f db)"
    using step by (auto simp: updateOrderLogistics_def and_then_eq_Inr split: if_splits)
  show ?thesis
    using v open_order_Inr[OF o] by (intro signing_ok_status[OF ok, of po _ ?f]) (auto simp: order_view_def)
qed

lemma link_keeps:
  assumes step: "linkItemToCatalog u i lineId itemId db = Inr db'" and ok: "signing_ok pr db"
  shows "signing_ok pr db'"
proof -
  let ?f = "\<lambda>x. x\<lparr>po_items := update_rows (\<lambda>y. oi_id y = lineId)
      (\<lambda>y. y\<lparr>oi_inventory_item := Some itemId\<rparr>) (po_items x)\<rparr>"
  obtain po where o: "open_order i u db = Inr po" and v: "order_view db' = order_view (set_order i ?f db)"
    using step by (auto simp: linkItemToCatalog_def and_then_eq_Inr split: if_splits option.splits)
  show ?thesis
    using v open_order_Inr[OF o] by (intro signing_ok_status[OF ok, of po _ ?f]) (auto simp: order_view_def)
qed

lemma sent_keeps:
  assumes step: "markAsSentToSupplier now u i db = Inr db'" and ok: "signing_ok pr db"
  shows "signing_ok pr db'"
proof -
  let ?f = "\<lambda>x. x\<lparr>po_status := PO_SENT, po_sent_at := Some now\<rparr>"
  obtain po where o: "open_order i u db = Inr po" "po_status po = PO_APPROVED"
    and v: "order_view db' = order_view (set_order i ?f db)"
    using step by (auto simp: markAsSentToSupplier_def and_then_eq_Inr split: if_splits)
  show ?thesis
    using v open_order_Inr[OF o(1)] o(2)
    by (intro signing_ok_status[OF ok, of po _ ?f]) (auto simp: order_view_def count_ok_def shipped_statuses_def)
qed

lemma close_keeps:
  assumes step: "forceClose reason u i db = Inr db'" and ok: "signing_ok pr db"
  shows "signing_ok pr db'"
proof -
  let ?f = "\<lambda>x. x\<lparr>po_status := PO_CLOSED, po_notes := reason\<rparr>"
  obtain po where o: "open_order i u db = Inr po" "po_status po = PO_PARTIALLY_RECEIVED"
    and v: "order_view db' = order_view (close_receipts i (user_tenant u) (set_order i ?f db))"
    using step by (auto simp: forceClose_def and_then_eq_Inr split: if_splits)
  show ?thesis
    using v open_order_Inr[OF o(1)] o(2)
    by (intro signing_ok_status[OF ok, of po _ ?f])
       (auto simp: order_view_def count_ok_def shipped_statuses_def close_receipts_def rc_order_update_rows)
qed

lemma order_step_keeps: "order_step pr db db' \<Longrightarrow> signing_ok pr db \<Longrightarrow> signing_ok pr db'"
  by (erule order_step.cases)
     (auto intro: approve_keeps reject_keeps reset_keeps cancel_keeps edit_keeps logistics_keeps link_keeps
       sent_keeps close_keeps dest: findById_keeps)

interpretation order_life: signing_service pr "order_step pr"
  by unfold_locales (rule order_step_keeps)

section \<open>Requisitions, settings and new orders\<close>

inductive source_step :: "printing \<Rightarrow> 'a ops_db_scheme \<Rightarrow> 'a ops_db_scheme \<Rightarrow> bool" for pr where
  drafted: "requisition_create known newId newItem rdto u db = Inr db' \<Longrightarrow> source_step pr db db'"
| duplicated: "requisition_duplicate known newId newItem i u db = Inr db' \<Longrightarrow> source_step pr db db'"
| updated: "requisition_update newItem p u i db = Inr db' \<Longrightarrow> source_step pr db db'"
| submitted: "requisition_submit u i db = Inr db' \<Longrightarrow> source_step pr db db'"
| withdrawn: "requisition_cancel reason u i db = Inr db' \<Longrightarrow> source_step pr db db'"
| quoting: "startQuoting u i db = Inr db' \<Longrightarrow> source_step pr db db'"
| offered: "addQuotation newId newItem att qdto u i db = Inr db' \<Longrightarrow> source_step pr db db'"
| awarded: "saveLineAwards awards u i db = Inr db' \<Longrightarrow> source_step pr db db'"
| chosen: "selectQuotation u i winner db = Inr db' \<Longrightarrow> source_step pr db db'"
| ordered: "createFromQuotation pr newOrder newLine q u db = Inr db' \<Longrightarrow> source_step pr db db'"
| split_up: "createOrdersFromRequisition pr newOrder newLine i u db = Inr db' \<Longrightarrow> source_step pr db db'"
| configured: "updateSettings newId tenant threshold currency tolerance db = db' \<Longrightarrow> source_step pr db db'"
| governed: "upsertPolicies members newId newPolicy tenant dtos db = Inr db' \<Longrightarrow> source_step pr db db'"

lemma order_view_number [simp]: "order_view (snd (getNextCorrelative t d p a b db)) = order_view db"
  by (simp add: order_view_def getNextCorrelative_def Let_def)

lemma order_view_tables [simp]:
  "order_view (db\<lparr>requisitions := x\<rparr>) = order_view db" "order_view (db\<lparr>quotations := y\<rparr>) = order_view db"
  "order_view (db\<lparr>purchase_settings := z\<rparr>) = order_view db"
  "order_view (db\<lparr>approval_policies := w\<rparr>) = order_view db"
  "order_view (set_rq_status i st db) = order_view db"
  by (simp_all add: order_view_def set_rq_status_def)

lemma view_create:
  "requisition_create known newId newItem dto u db = Inr db' \<Longrightarrow> order_view db' = order_view db"
  by (auto simp: requisition_create_def and_then_eq_Inr Let_def case_prod_beta split: prod.splits)

lemma view_update:
  "requisition_update newItem p u i db = Inr db' \<Longrightarrow> order_view db' = order_view db"
  by (auto simp: requisition_update_def update_submitted_def and_then_eq_Inr Let_def split: if_splits)

lemma view_status:
  "requisition_submit u i db = Inr db' \<Longrightarrow> order_view db' = order_view db"
  "requisition_cancel reason u i db = Inr db' \<Longrightarrow> order_view db' = order_view db"
  "startQuoting u i db = Inr db' \<Longrightarrow> order_view db' = order_view db"
  "selectQuotation u i winner db = Inr db' \<Longrightarrow> order_view db' = order_view db"
  "addQuotation newId newItem att qdto u i db = Inr db' \<Longrightarrow> order_view db' = order_view db"
  by (auto simp: requisition_submit_def requisition_cancel_def startQuoting_def selectQuotation_def
      addQuotation_def and_then_eq_Inr Let_def split: if_splits)

lemma view_awards:
  assumes "saveLineAwards awards u i db = Inr db'"
  shows "order_view db' = order_view db"
proof -
  have "order_view (fold (\<lambda>(line, qi). set_award line (Some qi)) awards db) = order_view db"
    by (rule order_view_fold) (simp add: case_prod_beta)
  then show ?thesis
    using assms by (auto simp: saveLineAwards_def and_then_eq_Inr Let_def case_prod_beta split: if_splits)
qed

lemma view_settings: "order_view (updateSettings newId tenant t c tol db) = order_view db"
  by (simp add: updateSettings_def getSettings_def Let_def split: option.split)

lemma view_policies:
  assumes "upsertPolicies members newId newPolicy tenant dtos db = Inr db'"
  shows "order_view db' = order_view db"
proof -
  obtain s db1 where g: "getSettings newId tenant db = (s, db1)" by fastforce
  have one: "order_view db1 = order_view db" using g by (auto simp: getSettings_def Let_def split: option.splits)
  define existing where "existing = filter (\<lambda>p. pl_settings p = ps_id s) (approval_policies db1)"
  have two: "order_view (fold (upsert_level newPolicy (ps_id s) tenant existing) dtos db1) = order_view db1"
    by (rule order_view_fold) (simp add: upsert_level_def Let_def split: option.split)
  have "for_each (drop_level dtos) existing (fold (upsert_level newPolicy (ps_id s) tenant existing) dtos db1) = Inr db'"
    using assms by (simp add: upsertPolicies_def g Let_def and_then_eq_Inr existing_def)
  then have "order_view db' = order_view (fold (upsert_level newPolicy (ps_id s) tenant existing) dtos db1)"
    by (rule for_each_related[where R = "\<lambda>a b. order_view b = order_view a"])
       (auto simp: drop_level_def split: if_splits)
  with one two show ?thesis by simp
qed

lemma order_view_next [simp]: "order_view (snd (next_order_number t db)) = order_view db"
  by (simp add: next_order_number_def)

lemma new_po_pending:
  "po_status (new_po pr i c r q e t a ls) = PO_PENDING_APPROVAL"
  "po_required (new_po pr i c r q e t a ls) \<in> {2, 3}"
  by (simp_all add: new_po_def required_signatures_def)

lemma from_quotation_keeps:
  assumes "createFromQuotation pr newOrder newLine qid u db = Inr db'" and ok: "signing_ok pr db"
  shows "signing_ok pr db'"
proof -
  obtain q r e ls db2 where create: "create_order (new_po pr (newOrder qid)
       (fst (next_order_number (user_tenant u) db)) r q e (approval_threshold (user_tenant u) db)
       (qt_total q) ls) (snd (next_order_number (user_tenant u) db)) = Inr db2"
    and v: "order_view db' = order_view (fold (\<lambda>qi. set_award (qi_line qi) (Some (qi_id qi))) (qt_items q) db2)"
    using assms(1)
    by (auto simp: createFromQuotation_def and_then_eq_Inr Let_def case_prod_beta split: if_splits)
  have "signing_ok pr db2" 
    by (rule signing_ok_create[OF order_view_ok[OF _ ok] create]) (simp, (rule new_po_pending)+)
  moreover have "order_view db' = order_view db2" unfolding v by (rule order_view_fold) simp
  ultimately show ?thesis by (blast intro: order_view_ok)
qed

lemma group_order_keeps:
  assumes "create_group_order pr newOrder newLine tenant r e t g s = Inr s'" and ok: "signing_ok pr (fst s)"
  shows "signing_ok pr (fst s')"
proof -
  obtain q qis db cs where gs: "g = (q, qis)" "s = (db, cs)" by (cases g; cases s) auto
  obtain ls db2 where create: "create_order (new_po pr (newOrder (qt_id q))
       (fst (next_order_number tenant db)) r q e t (group_total ls) ls) (snd (next_order_number tenant db)) = Inr db2"
    and s': "fst s' = db2"
    using assms(1) by (auto simp: create_group_order_def gs and_then_eq_Inr Let_def case_prod_beta)
  have "signing_ok pr (snd (next_order_number tenant db))" using ok gs by (auto intro: order_view_ok)
  then show ?thesis unfolding s' by (rule signing_ok_create[OF _ create]) (rule new_po_pending)+
qed

lemma view_split_log [simp]: "order_view (split_log u i a b cs ch db) = order_view db"
proof -
  have "order_view (fold (\<lambda>po. order_log u (po_id po) ''CREATE'' [] (f po)) cs db) = order_view db" for f
    by (rule order_view_fold) simp
  then show ?thesis by (simp add: split_log_def Let_def)
qed

lemma split_keeps:
  assumes "createOrdersFromRequisition pr newOrder newLine i u db = Inr db'" and ok: "signing_ok pr db"
  shows "signing_ok pr db'"
proof -
  obtain r db1 cs where s: "split_orders pr newOrder newLine u r db = Inr (db1, cs)"
    and v: "order_view db' = order_view db1"
    using assms(1) by (auto simp: createOrdersFromRequisition_def and_then_eq_Inr Let_def case_prod_beta)
  have "signing_ok pr db1"
  proof (cases "db1 = db")
    case False
    then obtain e t gs where loop: "for_each (create_group_order pr newOrder newLine (user_tenant u) r e t) gs (db, [])
        = Inr (db1, cs)"
      using s by (auto simp: split_orders_def Let_def and_then_eq_Inr split: if_splits)
    have "signing_ok pr (fst (db1, cs))"
      by (rule for_each_invariant[OF loop, where P = "\<lambda>s. signing_ok pr (fst s)"])
         (use ok in \<open>auto dest: group_order_keeps\<close>)
    then show ?thesis by simp
  qed (use ok in simp)
  with v show ?thesis by (blast intro: order_view_ok)
qed

lemma view_duplicate:
  "requisition_duplicate known newId newItem i u db = Inr db' \<Longrightarrow> order_view db' = order_view db"
  by (auto simp: requisition_duplicate_def and_then_eq_Inr dest: view_create)

lemma source_step_keeps:
  assumes "source_step pr db db'" and ok: "signing_ok pr db"
  shows "signing_ok pr db'"
  using assms(1)
proof cases
  case (ordered newOrder newLine q u)
  then show ?thesis using ok by (rule from_quotation_keeps)
next
  case (split_up newOrder newLine i u)
  then show ?thesis using ok by (rule split_keeps)
next
  case (configured newId tenant threshold currency tolerance)
  then show ?thesis using ok view_settings order_view_ok by blast
qed (use ok in \<open>blast intro: order_view_ok view_create view_duplicate view_update view_status view_awards
    view_policies\<close>)+

interpretation sourcing: signing_service pr "source_step pr"
  by unfold_locales (rule source_step_keeps)

section \<open>The whole module\<close>

inductive purchase_step :: "printing \<Rightarrow> 'a ops_db_scheme \<Rightarrow> 'a ops_db_scheme \<Rightarrow> bool" for pr where
  of_order: "order_step pr db db' \<Longrightarrow> purchase_step pr db db'"
| of_source: "source_step pr db db' \<Longrightarrow> purchase_step pr db db'"
| of_warehouse: "stock_step db db' \<Longrightarrow> purchase_step pr db db'"

interpretation purchasing: signing_service pr "purchase_step pr"
  by unfold_locales
     (erule purchase_step.cases, auto intro: order_life.keeps sourcing.keeps warehouse.keeps)

text \<open>The start: no order, signature or receipt; the other tables may hold anything.\<close>

definition no_orders :: "'a purch_db_scheme \<Rightarrow> bool" where
  "no_orders db \<longleftrightarrow> orders db = [] \<and> signatures db = [] \<and> receipts db = []"

inductive purchased :: "printing \<Rightarrow> 'a ops_db_scheme \<Rightarrow> bool" for pr where
  start: "no_orders db \<Longrightarrow> purchased pr db"
| run: "purchased pr db \<Longrightarrow> (purchase_step pr)\<^sup>*\<^sup>* db db' \<Longrightarrow> purchased pr db'"

lemma purchased_ok: "purchased pr db \<Longrightarrow> signing_ok pr db"
proof (induction rule: purchased.induct)
  case (start db)
  then show ?case by (simp add: no_orders_def signing_ok_def)
qed (rule purchasing.run_keeps)

lemma purchased_step: "purchased pr db \<Longrightarrow> purchase_step pr db db' \<Longrightarrow> purchased pr db'"
  by (rule purchased.run) auto

end
