(* ===== verification/Order_Amounts.thy ===== *)
theory Order_Amounts
  imports Procurement_System
begin

text \<open>
  The number of signatures of an order and its amount: who writes the two, and the invariant that
  ties them over every step of the purchase module and of the warehouse. The threshold is read from
  the settings when an order is made or its amount edited, so the steps carry the thresholds seen.
\<close>

section \<open>The amount of an order and its signatures\<close>

definition price :: "purchase_order \<Rightarrow> qty \<times> int" where
  "price po = (po_total po, po_required po)"

text \<open>The total is the amount as stored, and the number of signatures is that of a threshold of the set.\<close>

definition amount_ok :: "printing \<Rightarrow> qty set \<Rightarrow> purchase_order \<Rightarrow> bool" where
  "amount_ok pr T po \<longleftrightarrow>
     (\<exists>t \<in> T. \<exists>a. po_total po = pr_money pr a \<and> po_required po = (if 0 < t \<and> t \<le> a then 3 else 2))"

lemma amount_ok_price: "price x = price y \<Longrightarrow> amount_ok pr T x = amount_ok pr T y"
  by (simp add: price_def amount_ok_def)

lemma amount_ok_set:
  "t \<in> T \<Longrightarrow> po_total po = pr_money pr a \<Longrightarrow> po_required po = required_signatures t a \<Longrightarrow> amount_ok pr T po"
  by (auto simp: amount_ok_def required_signatures_def)

text \<open>The companies with a document of the purchases, and their thresholds.\<close>

definition buyers :: "'a purch_db_scheme \<Rightarrow> id set" where
  "buyers db = po_tenant ` set (orders db) \<union> rq_tenant ` set (requisitions db) \<union> qt_tenant ` set (quotations db)"

definition thresholds_in :: "qty set \<Rightarrow> 'a purch_db_scheme \<Rightarrow> bool" where
  "thresholds_in T db \<longleftrightarrow> (\<forall>tenant \<in> buyers db. approval_threshold tenant db \<in> T)"

text \<open>The runs from a company without orders in which every threshold of a buyer is in the set.\<close>

inductive bought_under :: "printing \<Rightarrow> qty set \<Rightarrow> 'a ops_db_scheme \<Rightarrow> bool" for pr T where
  start: "no_orders db \<Longrightarrow> bought_under pr T db"
| step: "bought_under pr T db \<Longrightarrow> thresholds_in T db \<Longrightarrow> purchase_step pr db db' \<Longrightarrow> bought_under pr T db'"

lemma bought_under_purchased: "bought_under pr T db \<Longrightarrow> purchased pr db"
  by (induction rule: bought_under.induct) (auto intro: purchased.start purchased_step)

section \<open>Steps that write neither\<close>

definition same_prices :: "'a purch_db_scheme \<Rightarrow> 'a purch_db_scheme \<Rightarrow> bool" where
  "same_prices db db' \<longleftrightarrow> map price (orders db') = map price (orders db)"

definition priced :: "printing \<Rightarrow> qty set \<Rightarrow> 'a purch_db_scheme \<Rightarrow> bool" where
  "priced pr T db \<longleftrightarrow> (\<forall>po \<in> set (orders db). amount_ok pr T po)"

lemma same_prices_priced:
  assumes "same_prices db db'" and "priced pr T db"
  shows "priced pr T db'"
  unfolding priced_def
proof
  fix po assume "po \<in> set (orders db')"
  then have "price po \<in> price ` set (orders db)"
    using assms(1) unfolding same_prices_def by (metis image_eqI image_set)
  then obtain x where "x \<in> set (orders db)" "price po = price x" by blast
  then show "amount_ok pr T po" using assms(2) amount_ok_price[of po x] by (simp add: priced_def)
qed

lemma view_same_prices: "order_view db' = order_view db \<Longrightarrow> same_prices db db'"
  by (simp add: order_view_def same_prices_def)

lemma update_same_prices:
  assumes "orders db' = update_rows p f (orders db)" and "\<And>x. price (f x) = price x"
  shows "same_prices db db'"
  using assms by (simp add: same_prices_def update_rows_def comp_def cong: map_cong)

lemma one_order_same_prices:
  assumes "order_view db' = order_view (set_order i f d)" and "orders d = orders db" and "\<And>x. price (f x) = price x"
  shows "same_prices db db'"
  using assms by (intro update_same_prices[where p = "\<lambda>x. po_id x = i" and f = f]) (simp_all add: order_view_def)

lemma approve_same_prices: "approve pr newId now comment u i db = Inr db' \<Longrightarrow> same_prices db db'"
  by (erule approve_InrE, erule update_same_prices) (simp add: price_def)

lemma view_closed [simp]: "orders (close_receipts i t db) = orders db"
  by (simp add: close_receipts_def)

lemma life_same_prices:
  "reject reason u i db = Inr db' \<Longrightarrow> same_prices db db'"
  "resetToDraft u i db = Inr db' \<Longrightarrow> same_prices db db'"
  "updateOrderLogistics delivery terms u i db = Inr db' \<Longrightarrow> same_prices db db'"
  "linkItemToCatalog u i lineId itemId db = Inr db' \<Longrightarrow> same_prices db db'"
  "markAsSentToSupplier now u i db = Inr db' \<Longrightarrow> same_prices db db'"
  "forceClose reason u i db = Inr db' \<Longrightarrow> same_prices db db'"
  by (auto simp: reject_def resetToDraft_def updateOrderLogistics_def linkItemToCatalog_def markAsSentToSupplier_def
      forceClose_def and_then_eq_Inr same_prices_def price_def update_rows_def split: if_splits option.splits)

lemma cancel_same_prices:
  assumes "cancel reason u i db = Inr db'"
  shows "same_prices db db'"
proof -
  obtain why where "order_view db' = order_view (set_order i (\<lambda>x. x\<lparr>po_status := PO_CANCELLED, po_notes := why\<rparr>) db)"
    using assms by (auto simp: cancel_def and_then_eq_Inr Let_def split: if_splits option.splits)
  then show ?thesis by (rule one_order_same_prices) (simp_all add: price_def)
qed

lemma viewed_same_prices: "order_findById pr i tenant mu db = Inr (po, sigs, db') \<Longrightarrow> same_prices db db'"
  by (auto simp: order_findById_def and_then_eq_Inr same_prices_def Let_def split: option.splits)

lemma stock_same_prices:
  assumes "stock_step db db'" and "signing_ok pr db"
  shows "same_prices db db'"
proof -
  have "list_all2 (progressed db) (orders db) (orders db')"
    using stock_step_frame[OF assms(1) signing_okD(1)[OF assms(2)]] by (simp add: warehouse_frame_def)
  then have "list_all2 (\<lambda>x y. price y = price x) (orders db) (orders db')"
    by (rule list_all2_mono) (auto simp: progressed_def price_def)
  then show ?thesis unfolding same_prices_def by (induction rule: list_all2_induct) simp_all
qed

section \<open>Steps that write them\<close>

lemma edit_priced:
  assumes step: "updateSensitiveFields pr newItem amount lines u i db = Inr db'"
    and th: "thresholds_in T db" and ok: "priced pr T db"
  shows "priced pr T db'"
proof -
  let ?t = "approval_threshold (user_tenant u) db"
  let ?f = "edit_order pr ?t newItem amount lines"
  obtain po where o: "open_order i u db = Inr po"
    and v: "order_view db' = order_view (set_order i ?f (drop_signatures i db))"
    using step by (auto simp: updateSensitiveFields_def and_then_eq_Inr Let_def split: if_splits option.splits prod.splits)
  have t: "?t \<in> T"
    using th open_order_Inr[OF o] by (metis UnI1 buyers_def image_eqI thresholds_in_def)
  have one: "amount_ok pr T (?f x)" if "amount_ok pr T x" for x
  proof (cases amount)
    case None
    then show ?thesis using that by (simp add: amount_ok_def edit_order_def)
  next
    case (Some a)
    then show ?thesis by (intro amount_ok_set[OF t, of _ pr a]) (simp_all add: edit_order_def)
  qed
  have "orders db' = update_rows (\<lambda>x. po_id x = i) ?f (orders db)" using v by (simp add: order_view_def)
  then show ?thesis using ok one by (auto simp: priced_def update_rows_def)
qed

lemma create_priced:
  assumes "create_order (new_po pr n c r q e t a ls) db = Inr db'" and "t \<in> T" and "priced pr T db"
  shows "priced pr T db'"
proof -
  have "amount_ok pr T (new_po pr n c r q e t a ls)"
    by (rule amount_ok_set[OF assms(2), of _ pr a]) (simp_all add: new_po_def)
  then show ?thesis using assms(1,3) by (auto simp: create_order_def priced_def split: if_splits)
qed

lemma priced_cong: "order_view db' = order_view db \<Longrightarrow> priced pr T db' = priced pr T db"
  for db db' :: "'a purch_db_scheme"
  by (simp add: order_view_def priced_def)

lemma from_quotation_priced:
  assumes "createFromQuotation pr newOrder newLine qid u db = Inr db'"
    and th: "thresholds_in T db" and ok: "priced pr T db"
  shows "priced pr T db'"
proof -
  let ?t = "approval_threshold (user_tenant u) db"
  obtain q r e ls db2 where w: "winning_quotation qid (user_tenant u) db = Inr (q, r)"
    and create: "create_order (new_po pr (newOrder qid)
       (fst (next_order_number (user_tenant u) db)) r q e ?t (qt_total q) ls)
       (snd (next_order_number (user_tenant u) db)) = Inr db2"
    and v: "order_view db' = order_view (fold (\<lambda>qi. set_award (qi_line qi) (Some (qi_id qi))) (qt_items q) db2)"
    using assms(1)
    by (auto simp: createFromQuotation_def and_then_eq_Inr Let_def case_prod_beta split: if_splits)
  have "q \<in> set (quotations db)" "qt_tenant q = user_tenant u"
    using w by (auto simp: winning_quotation_def dest: find_row_SomeD split: option.splits)
  then have t: "?t \<in> T" using th by (metis UnI2 buyers_def image_eqI thresholds_in_def)
  have "priced pr T (snd (next_order_number (user_tenant u) db))" using ok priced_cong[OF order_view_next] by blast
  then have "priced pr T db2" by (rule create_priced[OF create t])
  moreover have "order_view db' = order_view db2" unfolding v by (rule order_view_fold) simp
  ultimately show ?thesis using priced_cong by blast
qed

lemma group_order_priced:
  assumes "create_group_order pr newOrder newLine tenant r e t g s = Inr s'" and "t \<in> T" and ok: "priced pr T (fst s)"
  shows "priced pr T (fst s')"
proof -
  obtain q qis db cs where gs: "g = (q, qis)" "s = (db, cs)" by (cases g; cases s) auto
  obtain ls db2 where create: "create_order (new_po pr (newOrder (qt_id q))
       (fst (next_order_number tenant db)) r q e t (group_total ls) ls) (snd (next_order_number tenant db)) = Inr db2"
    and s': "fst s' = db2"
    using assms(1) by (auto simp: create_group_order_def gs and_then_eq_Inr Let_def case_prod_beta)
  have "priced pr T (snd (next_order_number tenant db))" using ok gs priced_cong[OF order_view_next] by auto
  then show ?thesis unfolding s' by (rule create_priced[OF create assms(2)])
qed

lemma split_priced:
  assumes "createOrdersFromRequisition pr newOrder newLine i u db = Inr db'"
    and th: "thresholds_in T db" and ok: "priced pr T db"
  shows "priced pr T db'"
proof -
  let ?t = "approval_threshold (user_tenant u) db"
  obtain r db1 cs where f: "requisition_findById i (user_tenant u) db = Inr r"
    and s: "split_orders pr newOrder newLine u r db = Inr (db1, cs)" and v: "order_view db' = order_view db1"
    using assms(1) by (auto simp: createOrdersFromRequisition_def and_then_eq_Inr Let_def case_prod_beta)
  have "r \<in> set (requisitions db)" "rq_tenant r = user_tenant u"
    using f by (auto simp: requisition_findById_def dest: find_row_SomeD split: option.splits)
  then have t: "?t \<in> T" using th by (metis UnI1 UnI2 buyers_def image_eqI thresholds_in_def)
  have "priced pr T db1"
  proof (cases "db1 = db")
    case False
    then obtain e gs where loop: "for_each (create_group_order pr newOrder newLine (user_tenant u) r e ?t) gs (db, [])
        = Inr (db1, cs)"
      using s by (auto simp: split_orders_def Let_def and_then_eq_Inr split: if_splits)
    have "priced pr T (fst (db1, cs))"
      by (rule for_each_invariant[OF loop, where P = "\<lambda>s. priced pr T (fst s)"])
         (use ok t in \<open>auto dest: group_order_priced\<close>)
    then show ?thesis by simp
  qed (use ok in simp)
  with v show ?thesis using priced_cong by blast
qed

section \<open>The invariant\<close>

lemma order_step_priced:
  assumes "order_step pr db db'" and "thresholds_in T db" and "priced pr T db"
  shows "priced pr T db'"
  using assms(1)
  by cases (use assms(2,3) in \<open>blast intro: edit_priced same_prices_priced approve_same_prices life_same_prices
     cancel_same_prices viewed_same_prices\<close>)+

lemma source_step_priced:
  assumes "source_step pr db db'" and "thresholds_in T db" and "priced pr T db"
  shows "priced pr T db'"
  using assms(1)
proof cases
  case (ordered newOrder newLine q u)
  then show ?thesis using assms(2,3) by (rule from_quotation_priced)
next
  case (split_up newOrder newLine i u)
  then show ?thesis using assms(2,3) by (rule split_priced)
next
  case (configured newId tenant threshold currency tolerance)
  then show ?thesis using assms(3) view_settings priced_cong by blast
qed (use assms(3) in \<open>blast intro: same_prices_priced view_same_prices view_create view_duplicate view_update
    view_status view_awards view_policies\<close>)+

lemma bought_under_priced: "bought_under pr T db \<Longrightarrow> priced pr T db"
proof (induction rule: bought_under.induct)
  case (start db)
  then show ?case by (simp add: no_orders_def priced_def)
next
  case (step db db')
  have ok: "signing_ok pr db" by (rule purchased_ok[OF bought_under_purchased[OF step.hyps(1)]])
  from step.hyps(3) show ?case
    using step.hyps(2) step.IH ok
    by cases (blast intro: order_step_priced source_step_priced same_prices_priced stock_same_prices)+
qed

end
