(* ===== verification/Procurement_Properties.thy ===== *)
theory Procurement_Properties
  imports Order_Amounts "HOL-Library.Multiset"
begin

text \<open>
  The properties of the purchase module: the signatures of every order that was released, that the
  configured signers can release an order, the orders that a requisition is split into, and two
  histories that end with goods bought or received that should not be.
\<close>

section \<open>The signatures of a released order\<close>

definition released_statuses :: "po_status set" where
  "released_statuses = {PO_APPROVED, PO_SENT, PO_ORDERED, PO_SENT_TO_SUPPLIER, PO_PARTIALLY_RECEIVED,
     PO_RECEIVED, PO_CLOSED}"

lemma levels_filled:
  fixes ls :: "int list"
  assumes "distinct ls" "int (length ls) = n" "\<forall>l \<in> set ls. 1 \<le> l \<and> l \<le> n"
  shows "set ls = {1..n}"
proof (rule card_subset_eq)
  show "set ls \<subseteq> {1..n}" using assms(3) by auto
  show "card (set ls) = card {1..n}" using assms(1,2) by (simp add: distinct_card)
qed simp

text \<open>
  C3. No order is released without the signatures that its amount requires. Take any state that the
  steps of the purchase module and of the warehouse reach from a company without orders, and let
  \<open>T\<close> hold the thresholds that its settings had on the way. An order that was approved, sent,
  received or closed, or that has a warehouse receipt, carries three signatures where a threshold of
  \<open>T\<close> is positive and not above its amount, and two otherwise (so with one threshold the amount
  decides); they are of different users and different levels, each level only after the lower ones,
  and the hash of every signature fits the order as it is now; where the levels start at one, they
  are all the levels up to the required one.
\<close>
theorem released_orders_are_fully_signed:
  assumes "bought_under pr T db" and "po \<in> set (orders db)"
    and "po_status po \<in> released_statuses \<or> po_id po \<in> rc_order ` set (receipts db)"
  shows "(\<exists>t \<in> T. \<exists>a. po_total po = pr_money pr a
       \<and> int (length (approvals_of (po_id po) db)) = (if 0 < t \<and> t \<le> a then 3 else 2))
    \<and> int (length (approvals_of (po_id po) db)) = po_required po
    \<and> distinct (map sg_user (approvals_of (po_id po) db))
    \<and> distinct (map sg_level (approvals_of (po_id po) db))
    \<and> (\<forall>s \<in> set (approvals_of (po_id po) db). signature_valid pr po s \<and> sg_level s \<le> po_required po
         \<and> {1 ..< sg_level s} \<subseteq> sg_level ` set (approvals_of (po_id po) db))
    \<and> ((\<forall>s \<in> set (approvals_of (po_id po) db). 1 \<le> sg_level s)
         \<longrightarrow> sg_level ` set (approvals_of (po_id po) db) = {1..po_required po})"
proof -
  let ?S = "approvals_of (po_id po) db"
  note reach = bought_under_purchased[OF assms(1)]
  have ok: "order_ok pr db po" using signing_okD(2)[OF purchased_ok[OF reach] assms(2)] .
  have len: "int (length ?S) = po_required po"
    using assms(3)
  proof
    assume "po_status po \<in> released_statuses"
    then show ?thesis using ok by (auto simp: order_ok_def count_ok_def released_statuses_def)
  next
    assume "po_id po \<in> rc_order ` set (receipts db)"
    then show ?thesis using receipt_order_ok[OF purchased_ok[OF reach] assms(2)] by (simp add: received_ok_def)
  qed
  have amount: "amount_ok pr T po" using bought_under_priced[OF assms(1)] assms(2) by (simp add: priced_def)
  have sgs: "signatures_in_order pr po ?S" using ok by (simp add: order_ok_def)
  have "set (map sg_level ?S) = {1..po_required po}" if "\<forall>s \<in> set ?S. 1 \<le> sg_level s"
    by (rule levels_filled) (use sgs len that in \<open>auto simp: signatures_in_order_def\<close>)
  then show ?thesis
    using sgs amount unfolding len amount_ok_def by (auto simp: signatures_in_order_def)
qed

section \<open>The signers release the order\<close>

definition signed_state ::
    "id \<Rightarrow> purchase_order \<Rightarrow> user list \<Rightarrow> 'a purch_db_scheme \<Rightarrow> 'a purch_db_scheme \<Rightarrow> bool" where
  "signed_state tenant po us d0 d \<longleftrightarrow>
     find_order (po_id po) tenant d = Some (po\<lparr>po_status :=
       (if us = [] then PO_PENDING_APPROVAL else if int (length us) \<ge> po_required po then PO_APPROVED
        else PO_PARTIALLY_APPROVED)\<rparr>)
     \<and> map sg_level (approvals_of (po_id po) d) = [1 .. int (length us)]
     \<and> map sg_user (approvals_of (po_id po) d) = map user_id us
     \<and> approval_policies d = approval_policies d0"

definition fits_level :: "id \<Rightarrow> purchase_order \<Rightarrow> 'a purch_db_scheme \<Rightarrow> nat \<Rightarrow> user \<Rightarrow> bool" where
  "fits_level tenant po d k u \<longleftrightarrow> user_tenant u = tenant
     \<and> assertUserHasContractAccess u (po_contract po) ''No tiene acceso al contrato de esta orden de compra'' = Inr ()
     \<and> (case resolveApprovalPolicyForUser (policies_of tenant d) (user_id u) of None \<Rightarrow> False
        | Some p \<Rightarrow> pl_level p = int k + 1 \<and> pl_min p \<le> po_total po)"

lemma fits_levelE:
  assumes "fits_level tenant po d k u"
  obtains p where "user_tenant u = tenant"
    "assertUserHasContractAccess u (po_contract po) ''No tiene acceso al contrato de esta orden de compra'' = Inr ()"
    "resolveApprovalPolicyForUser (policies_of tenant d) (user_id u) = Some p"
    "pl_level p = int k + 1" "pl_min p \<le> po_total po"
  using assms that by (auto simp: fits_level_def split: option.splits)

lemma signed_stateD:
  assumes "signed_state tenant po us d0 d"
  shows "length (approvals_of (po_id po) d) = length us"
    and "sg_level ` set (approvals_of (po_id po) d) = {1 .. int (length us)}"
    and "sg_user ` set (approvals_of (po_id po) d) = user_id ` set us"
    and "policies_of tenant d = policies_of tenant d0"
proof -
  have l: "map sg_level (approvals_of (po_id po) d) = [1 .. int (length us)]"
    and u: "map sg_user (approvals_of (po_id po) d) = map user_id us"
    using assms by (simp_all add: signed_state_def)
  show "length (approvals_of (po_id po) d) = length us" using arg_cong[OF u, of length] by simp
  show "sg_level ` set (approvals_of (po_id po) d) = {1 .. int (length us)}"
    using arg_cong[OF l, of set] by simp
  show "sg_user ` set (approvals_of (po_id po) d) = user_id ` set us"
    using arg_cong[OF u, of set] by simp
  show "policies_of tenant d = policies_of tenant d0"
    using assms by (simp add: signed_state_def policies_of_def)
qed

lemma next_signer_is_new:
  assumes "fits_level tenant po d0 (length us) u"
    and "\<And>k. k < length us \<Longrightarrow> fits_level tenant po d0 k (us ! k)"
  shows "user_id u \<notin> user_id ` set us"
proof
  assume "user_id u \<in> user_id ` set us"
  then obtain k where "k < length us" "user_id (us ! k) = user_id u" by (auto simp: in_set_conv_nth)
  with assms(2)[of k] assms(1) show False by (auto elim!: fits_levelE)
qed

text \<open>With the levels below signed, the user of the next level signs.\<close>

lemma sign_once:
  assumes state: "signed_state tenant po us d0 d" and n: "int (length us) < po_required po"
    and fits: "fits_level tenant po d0 (length us) u"
    and others: "\<And>k. k < length us \<Longrightarrow> fits_level tenant po d0 k (us ! k)"
  shows "\<exists>d'. approve pr newId now comment u (po_id po) d = Inr d' \<and> signed_state tenant po (us @ [u]) d0 d'"
proof -
  let ?i = "po_id po" and ?S = "approvals_of (po_id po) d"
  let ?po = "po\<lparr>po_status := (if us = [] then PO_PENDING_APPROVAL else PO_PARTIALLY_APPROVED)\<rparr>"
  note st = signed_stateD[OF state]
  have find: "find_order ?i tenant d = Some ?po" using state n by (auto simp: signed_state_def split: if_splits)
  obtain p where p: "user_tenant u = tenant"
      "assertUserHasContractAccess u (po_contract po) ''No tiene acceso al contrato de esta orden de compra'' = Inr ()"
      "resolveApprovalPolicyForUser (policies_of tenant d0) (user_id u) = Some p"
      "pl_level p = int (length us) + 1" "pl_min p \<le> po_total po"
    using fits by (rule fits_levelE)
  have "user_id u \<notin> sg_user ` set ?S"
    using next_signer_is_new[OF fits others] by (simp add: st(3))
  then have us: "\<not> list_ex (\<lambda>a. sg_user a = user_id u) ?S" unfolding list_ex_iff by (metis image_eqI)
  have lv: "list_ex (\<lambda>a. sg_level a = l) ?S \<longleftrightarrow> 1 \<le> l \<and> l \<le> int (length us)" for l
  proof -
    have "list_ex (\<lambda>a. sg_level a = l) ?S \<longleftrightarrow> l \<in> sg_level ` set ?S" by (auto simp: list_ex_iff)
    then show ?thesis by (simp add: st(2))
  qed
  have low: "\<not> list_ex (\<lambda>l. l \<notin> sg_level ` set ?S) [1 .. int (length us)]"
    by (simp add: list_ex_iff st(2))
  have check: "check_signer u ?po ?S (policies_of tenant d) = Inr p"
    using us p n low by (simp add: check_signer_def st(4) lv)
  let ?s = "signature_of pr newId now comment u ?po p"
  define d' where "d' = order_log u ?i ''SIGNATURE'' [po_status_json (po_status ?po)]
      [po_status_json (status_after ?po ?S), (''signatureLevel'', JNum (of_int (pl_level p))),
       (''comment'', opt_json comment)] (set_order_status ?i (status_after ?po ?S)
      (d\<lparr>signatures := signatures d @ [?s]\<rparr>))"
  have fresh: "create_signature ?s d = Inr (d\<lparr>signatures := signatures d @ [?s]\<rparr>)"
    using lv[of "int (length us) + 1"] p
    by (auto simp: create_signature_def signature_of_def list_ex_iff approvals_of_def)
  have run: "approve pr newId now comment u ?i d = Inr d'"
    using p find check
    by (simp add: approve_def approve_load_def open_order_def approve_tx_def fresh d'_def)
  have a: "approvals_of ?i d' = ?S @ [?s]" by (simp add: approvals_of_def d'_def set_order_status_def signature_of_def)
  have os: "orders d' = update_rows (\<lambda>x. po_id x = ?i) (\<lambda>x. x\<lparr>po_status := status_after ?po ?S\<rparr>) (orders d)"
    by (simp add: d'_def set_order_status_def)
  have pol: "approval_policies d' = approval_policies d" by (simp add: d'_def set_order_status_def)
  have "find_order ?i tenant d' = Some (?po\<lparr>po_status := status_after ?po ?S\<rparr>)"
    unfolding find_order_def os
    by (subst find_row_update_rows) (use find in \<open>auto simp: find_order_def dest: find_row_SomeD\<close>)
  then have "signed_state tenant po (us @ [u]) d0 d'"
    using state p pol
    by (auto simp: signed_state_def a st(1) status_after_def signature_of_def upto_rec2 add.commute)
  with run show ?thesis by blast
qed

lemma sign_many:
  assumes "signed_state tenant po us d0 d" and "int (length us + length vs) \<le> po_required po"
    and "\<And>k. k < length us + length vs \<Longrightarrow> fits_level tenant po d0 k ((us @ map f vs) ! k)"
  shows "\<exists>d'. for_each (\<lambda>v. approve pr (newId v) (now v) (comment v) (f v) (po_id po)) vs d = Inr d'
    \<and> signed_state tenant po (us @ map f vs) d0 d'"
  using assms
proof (induction vs arbitrary: us d)
  case (Cons v vs)
  have f1: "fits_level tenant po d0 (length us) (f v)" using Cons.prems(3)[of "length us"] by simp
  have f2: "fits_level tenant po d0 k (us ! k)" if "k < length us" for k
    using Cons.prems(3)[of k] that by (simp add: nth_append)
  have n: "int (length us) < po_required po" using Cons.prems(2) by simp
  obtain d1 where d1: "approve pr (newId v) (now v) (comment v) (f v) (po_id po) d = Inr d1"
      "signed_state tenant po (us @ [f v]) d0 d1"
    using sign_once[OF Cons.prems(1) n f1 f2] by blast
  have "\<exists>d'. for_each (\<lambda>v. approve pr (newId v) (now v) (comment v) (f v) (po_id po)) vs d1 = Inr d'
      \<and> signed_state tenant po ((us @ [f v]) @ map f vs) d0 d'"
    by (rule Cons.IH[OF d1(2)]) (use Cons.prems(2) Cons.prems(3) in \<open>simp_all add: append_Cons[symmetric]\<close>)
  with d1(1) show ?case by simp
qed simp

text \<open>
  C37. The configured signers can release a pending order. Take an order that awaits approval in a
  reachable state, and for every level up to the required number a user of its company with access to
  its contract whose first policy has that level and a minimum that the total reaches. Then their
  signatures one after the other all succeed, and the last one approves the order.
\<close>
theorem signers_release_the_order:
  assumes reach: "purchased pr db" and find: "find_order i tenant db = Some po"
    and pending: "po_status po = PO_PENDING_APPROVAL"
    and enough: "int (length signers) = po_required po"
    and fits: "\<And>k. k < length signers \<Longrightarrow> fits_level tenant po db k (signers ! k)"
  shows "\<exists>db' po'. for_each (\<lambda>u. approve pr (newId u) (now u) (comment u) u i) signers db = Inr db'
    \<and> find_order i tenant db' = Some po' \<and> po_status po' = PO_APPROVED
    \<and> po_items po' = po_items po \<and> map sg_user (approvals_of i db') = map user_id signers"
proof -
  have po: "po \<in> set (orders db)" "po_id po = i" using find by (auto simp: find_order_def dest: find_row_SomeD)
  have ok: "order_ok pr db po" using signing_okD(2)[OF purchased_ok[OF reach] po(1)] .
  have "approvals_of i db = []" using ok pending po by (simp add: order_ok_def count_ok_def)
  then have "signed_state tenant po [] db db"
    using find pending po by (simp add: signed_state_def)
  from sign_many[OF this, of signers "\<lambda>u. u" pr newId now comment]
  obtain db' where db': "for_each (\<lambda>u. approve pr (newId u) (now u) (comment u) u i) signers db = Inr db'"
      "signed_state tenant po signers db db'"
    using enough fits po by auto
  have "signers \<noteq> []" using enough ok by (auto simp: order_ok_def)
  then show ?thesis using db' enough po by (auto simp: signed_state_def)
qed

section \<open>The split of a requisition into orders\<close>

lemma collect_each:
  "for_each (\<lambda>x acc. and_then (g x) (\<lambda>l. Inr (acc @ [l]))) xs acc = Inr ls
   \<Longrightarrow> \<exists>ms. ls = acc @ ms \<and> list_all2 (\<lambda>x l. g x = Inr l) xs ms"
proof (induction xs arbitrary: acc)
  case (Cons x xs)
  then obtain l where l: "g x = Inr l" "for_each (\<lambda>x acc. and_then (g x) (\<lambda>l. Inr (acc @ [l]))) xs (acc @ [l]) = Inr ls"
    by (auto simp: and_then_eq_Inr)
  obtain ms where "ls = (acc @ [l]) @ ms" "list_all2 (\<lambda>x l. g x = Inr l) xs ms"
    using Cons.IH[OF l(2)] by blast
  with l(1) show ?case by (intro exI[of _ "l # ms"]) simp
qed simp

lemma order_lines_Inr:
  "order_lines newItem db qis = Inr ls \<Longrightarrow> list_all2 (\<lambda>x l. order_line newItem db x = Inr l) qis ls"
  using collect_each[of "order_line newItem db" qis "[]" ls] by (auto simp: order_lines_def)

lemma line_of_cong: "requisitions db' = requisitions db \<Longrightarrow> line_of i db' = line_of i db"
  for db :: "'a purch_db_scheme" and db' :: "'b purch_db_scheme"
  by (simp add: line_of_def)

text \<open>A line bought at the price of a line of a quotation, in the quantity of the line it quotes.\<close>

definition line_from :: "'a purch_db_scheme \<Rightarrow> quotation_item \<Rightarrow> order_item \<Rightarrow> bool" where
  "line_from db x l \<longleftrightarrow> oi_source_quotation_item l = Some (qi_id x) \<and> oi_unit_cost l = qi_price x
     \<and> (\<exists>y. line_of (qi_line x) db = Some y \<and> oi_qty l = rl_qty y)"

lemma lines_from:
  "order_lines newItem db qis = Inr ls \<Longrightarrow> list_all2 (line_from db) qis ls"
  by (drule order_lines_Inr, erule list_all2_mono)
     (auto simp: order_line_def line_from_def split: option.splits)

lemma sources_from:
  "list_all2 (line_from db) qis (po_items po) \<Longrightarrow> sources_of po = map qi_id qis"
  unfolding sources_of_def by (induction rule: list_all2_induct) (simp_all add: line_from_def List.map_filter_simps)

text \<open>The order of a group of lines.\<close>

definition order_of_group ::
    "printing \<Rightarrow> 'a purch_db_scheme \<Rightarrow> requisition \<Rightarrow> qty \<Rightarrow> quotation \<times> quotation_item list \<Rightarrow> purchase_order \<Rightarrow> bool" where
  "order_of_group pr db r threshold g po \<longleftrightarrow>
     po_status po = PO_PENDING_APPROVAL \<and> po_tenant po = rq_tenant r \<and> po_contract po = rq_contract r
     \<and> po_requisition po = Some (rq_id r) \<and> po_quotation po = Some (qt_id (fst g))
     \<and> po_total po = pr_money pr (group_total (po_items po))
     \<and> po_required po = required_signatures threshold (group_total (po_items po))
     \<and> list_all2 (line_from db) (snd g) (po_items po)"

lemma next_number_tables [simp]:
  "requisitions (snd (next_order_number t db)) = requisitions db"
  "quotations (snd (next_order_number t db)) = quotations db"
  "orders (snd (next_order_number t db)) = orders db"
  by (simp_all add: next_order_number_def getNextCorrelative_def Let_def)

lemma group_order_Inr:
  assumes "create_group_order pr newOrder newLine tenant r e t g (db, cs) = Inr (db2, cs2)"
    and "requisitions db = requisitions db0" and "quotations db = quotations db0"
  shows "\<exists>po. orders db2 = orders db @ [po] \<and> cs2 = cs @ [po] \<and> order_of_group pr db0 r t g po
    \<and> requisitions db2 = requisitions db0 \<and> quotations db2 = quotations db0"
proof -
  obtain q qis where g: "g = (q, qis)" by (cases g) auto
  obtain ls po where ls: "order_lines newLine db qis = Inr ls"
    and po: "po = new_po pr (newOrder (qt_id q)) (fst (next_order_number tenant db)) r q e t (group_total ls) ls"
    and create: "create_order po (snd (next_order_number tenant db)) = Inr db2" and cs2: "cs2 = cs @ [po]"
    using assms(1) by (auto simp: create_group_order_def g and_then_eq_Inr Let_def case_prod_beta)
  have "list_all2 (line_from db0) qis ls"
    using lines_from[OF ls] by (rule list_all2_mono) (simp add: line_from_def line_of_cong[OF assms(2)])
  then have "order_of_group pr db0 r t g po" by (simp add: order_of_group_def g po new_po_def)
  then show ?thesis using create cs2 assms(2,3) by (auto simp: create_order_def split: if_splits)
qed

lemma group_orders_Inr:
  assumes "for_each (create_group_order pr newOrder newLine tenant r e t) gs (db, cs) = Inr (db2, cs2)"
    and "requisitions db = requisitions db0" and "quotations db = quotations db0"
  shows "\<exists>new. orders db2 = orders db @ new \<and> cs2 = cs @ new \<and> list_all2 (order_of_group pr db0 r t) gs new
    \<and> requisitions db2 = requisitions db0 \<and> quotations db2 = quotations db0"
  using assms
proof (induction gs arbitrary: db cs)
  case (Cons g gs)
  obtain db1 cs1 where one: "create_group_order pr newOrder newLine tenant r e t g (db, cs) = Inr (db1, cs1)"
    and rest: "for_each (create_group_order pr newOrder newLine tenant r e t) gs (db1, cs1) = Inr (db2, cs2)"
    using Cons.prems(1) by (auto simp: and_then_eq_Inr)
  obtain po where po: "orders db1 = orders db @ [po]" "cs1 = cs @ [po]" "order_of_group pr db0 r t g po"
      "requisitions db1 = requisitions db0" "quotations db1 = quotations db0"
    using group_order_Inr[OF one Cons.prems(2,3)] by blast
  obtain new where "orders db2 = orders db1 @ new" "cs2 = cs1 @ new" "list_all2 (order_of_group pr db0 r t) gs new"
      "requisitions db2 = requisitions db0" "quotations db2 = quotations db0"
    using Cons.IH[OF rest po(4,5)] by blast
  with po(1-3) show ?case by (intro exI[of _ "po # new"]) simp
qed simp

text \<open>Grouping neither loses nor repeats a line, and a quotation has one group.\<close>

lemma add_to_group_lines:
  "mset (concat (map snd (add_to_group x gs))) = add_mset (snd x) (mset (concat (map snd gs)))"
  by (induction x gs rule: add_to_group.induct) simp_all

lemma add_to_group_keys:
  "map (\<lambda>g. qt_id (fst g)) (add_to_group x gs) = map (\<lambda>g. qt_id (fst g)) gs
   \<or> qt_id (fst x) \<notin> (\<lambda>g. qt_id (fst g)) ` set gs
     \<and> map (\<lambda>g. qt_id (fst g)) (add_to_group x gs) = map (\<lambda>g. qt_id (fst g)) gs @ [qt_id (fst x)]"
  by (induction x gs rule: add_to_group.induct) auto

lemma fold_groups:
  "mset (concat (map snd (fold add_to_group xs gs))) = mset (map snd xs) + mset (concat (map snd gs))"
  "distinct (map (\<lambda>g. qt_id (fst g)) gs) \<Longrightarrow> distinct (map (\<lambda>g. qt_id (fst g)) (fold add_to_group xs gs))"
proof (induction xs arbitrary: gs)
  case (Cons x xs)
  { case 1 then show ?case by (simp add: Cons.IH(1) add_to_group_lines)
  next
    case 2 then show ?case using Cons.IH(2)[of "add_to_group x gs"] add_to_group_keys[of x gs] by auto }
qed simp_all

lemma group_lines_ok:
  "mset (concat (map snd (group_lines xs))) = mset (map snd xs)"
  "distinct (map (\<lambda>g. qt_id (fst g)) (group_lines xs))"
  by (simp_all add: group_lines_def fold_groups)

text \<open>The awarded lines of the quotations are the pending awards, each once.\<close>

lemma awarded_lines_snd:
  "map snd (awarded_lines tenant i as db) = filter (\<lambda>x. qi_id x \<in> set as)
     (concat (map qt_items (filter (\<lambda>q. qt_requisition q = i \<and> qt_tenant q = tenant) (quotations db))))"
proof -
  have "map snd (concat (map (\<lambda>q. map (Pair q) (filter P (qt_items q))) qs)) = filter P (concat (map qt_items qs))"
    for P and qs :: "quotation list"
    by (induction qs) (simp_all add: comp_def)
  then show ?thesis by (simp add: awarded_lines_def)
qed

lemma distinct_concat_filter:
  "distinct (map f (concat (map g xs))) \<Longrightarrow> distinct (map f (concat (map g (filter P xs))))"
  by (induction xs) (auto simp: image_iff)

lemma same_length_mset:
  assumes "distinct xs" "set xs \<subseteq> set ys" "length xs = length ys"
  shows "mset xs = mset ys"
proof -
  have "card (set xs) = length ys" using assms(1,3) by (simp add: distinct_card)
  then have "card (set ys) \<le> card (set xs)" using card_length[of ys] by simp
  then have s: "set xs = set ys" using card_seteq[OF _ assms(2)] by simp
  then have "distinct ys" using assms(1,3) by (metis card_distinct distinct_card)
  with assms(1) s show ?thesis by (simp add: set_eq_iff_mset_eq_distinct)
qed

lemma awarded_lines_mset:
  assumes "distinct (map qi_id (concat (map qt_items (quotations db))))"
    and "length (awarded_lines tenant i as db) = length as"
  shows "mset (map qi_id (map snd (awarded_lines tenant i as db))) = mset as"
proof (rule same_length_mset)
  show "distinct (map qi_id (map snd (awarded_lines tenant i as db)))"
    unfolding awarded_lines_snd by (rule distinct_map_filter, rule distinct_concat_filter, rule assms(1))
  show "set (map qi_id (map snd (awarded_lines tenant i as db))) \<subseteq> set as"
    unfolding awarded_lines_snd by auto
  show "length (map qi_id (map snd (awarded_lines tenant i as db))) = length as" using assms(2) by simp
qed

lemma group_sources:
  "list_all2 (order_of_group pr db r t) gs new \<Longrightarrow> concat (map sources_of new) = map qi_id (concat (map snd gs))"
  by (induction rule: list_all2_induct) (auto simp: order_of_group_def dest: sources_from)

lemma group_quotations:
  "list_all2 (order_of_group pr db r t) gs new \<Longrightarrow> map po_quotation new = map Some (map (\<lambda>g. qt_id (fst g)) gs)"
  by (induction rule: list_all2_induct) (auto simp: order_of_group_def)

lemma group_members:
  assumes "list_all2 (order_of_group pr db r t) gs new" and "po \<in> set new"
  obtains g where "g \<in> set gs" "order_of_group pr db r t g po"
  using assms that by (induction rule: list_all2_induct) auto

text \<open>The orders that a split adds.\<close>

definition split_adds ::
    "printing \<Rightarrow> 'a purch_db_scheme \<Rightarrow> requisition \<Rightarrow> qty \<Rightarrow> purchase_order list \<Rightarrow> bool" where
  "split_adds pr db r threshold new \<longleftrightarrow>
     mset (concat (map sources_of new)) = mset (pending_awards (rq_tenant r) r db)
     \<and> distinct (map po_quotation new)
     \<and> (\<forall>po \<in> set new. po_status po = PO_PENDING_APPROVAL \<and> po_tenant po = rq_tenant r
          \<and> po_requisition po = Some (rq_id r) \<and> po_contract po = rq_contract r
          \<and> po_total po = pr_money pr (group_total (po_items po))
          \<and> po_required po = required_signatures threshold (group_total (po_items po))
          \<and> (\<forall>l \<in> set (po_items po). \<exists>q \<in> set (quotations db). \<exists>x \<in> set (qt_items q). line_from db x l))"

lemma split_orders_Inr:
  assumes run: "split_orders pr newOrder newLine u r db = Inr (db1, cs)" and t: "rq_tenant r = user_tenant u"
    and keys: "distinct (map qi_id (concat (map qt_items (quotations db))))"
  shows "orders db1 = orders db @ cs \<and> requisitions db1 = requisitions db \<and> quotations db1 = quotations db
    \<and> split_adds pr db r (approval_threshold (user_tenant u) db) cs"
proof (cases "pending_awards (user_tenant u) r db = []")
  case True
  then show ?thesis using run t by (simp add: split_orders_def Let_def split_adds_def)
next
  case False
  let ?p = "pending_awards (user_tenant u) r db" and ?t = "approval_threshold (user_tenant u) db"
  let ?xs = "awarded_lines (user_tenant u) (rq_id r) ?p db"
  from run False obtain eq where len: "length ?xs = length ?p"
    and loop: "for_each (create_group_order pr newOrder newLine (user_tenant u) r eq ?t) (group_lines ?xs) (db, [])
      = Inr (db1, cs)"
    by (auto simp: split_orders_def Let_def and_then_eq_Inr split: if_splits)
  obtain new where new: "orders db1 = orders db @ new" "cs = [] @ new"
      "list_all2 (order_of_group pr db r ?t) (group_lines ?xs) new"
      "requisitions db1 = requisitions db" "quotations db1 = quotations db"
    using group_orders_Inr[OF loop refl refl] by blast
  have "mset (concat (map sources_of new)) = mset ?p"
    using group_lines_ok(1)[of ?xs] awarded_lines_mset[OF keys len]
    by (simp add: group_sources[OF new(3)] multiset.map_comp)
  moreover have "distinct (map po_quotation new)"
    unfolding group_quotations[OF new(3)] using group_lines_ok(2)[of ?xs] by (simp only: distinct_map inj_Some inj_on_subset[OF inj_Some subset_UNIV])
  moreover have "\<exists>q \<in> set (quotations db). \<exists>x \<in> set (qt_items q). line_from db x l"
    if g: "g \<in> set (group_lines ?xs)" "order_of_group pr db r ?t g po" "l \<in> set (po_items po)" for g po l
  proof -
    obtain x where x: "x \<in> set (snd g)" "line_from db x l"
      using g(2,3) all2_right[of "line_from db" "snd g" "po_items po" l] by (auto simp: order_of_group_def)
    then have "x \<in> set (concat (map snd (group_lines ?xs)))" using g(1) by auto
    then have "x \<in> set (map snd ?xs)" using group_lines_ok(1)[of ?xs] by (metis set_mset_mset)
    then show ?thesis using x(2) unfolding awarded_lines_snd by auto
  qed
  ultimately show ?thesis using new t
    by (auto simp: split_adds_def order_of_group_def elim!: group_members)
qed

lemma coverage_rows:
  "\<exists>f. requisitions (applyRequisitionCoverageStatusAfterPurchase i db) = map f (requisitions db)
     \<and> (\<forall>x. rq_items (f x) = rq_items x \<and> rq_id (f x) = rq_id x \<and> rq_tenant (f x) = rq_tenant x)"
proof (cases "applyRequisitionCoverageStatusAfterPurchase i db = db")
  case True
  then show ?thesis by (intro exI[of _ "\<lambda>x. x"]) simp
next
  case False
  then obtain st where "applyRequisitionCoverageStatusAfterPurchase i db
      = set_requisition i (\<lambda>x. x\<lparr>rq_status := st\<rparr>) db"
    by (auto simp: applyRequisitionCoverageStatusAfterPurchase_def split: option.splits if_splits)
  then show ?thesis
    by (intro exI[of _ "\<lambda>x. if rq_id x = i then x\<lparr>rq_status := st\<rparr> else x"])
       (simp add: set_requisition_def update_rows_def)
qed

lemma find_after_coverage:
  assumes "requisition_findById i t db = Inr r"
    and "requisitions db' = requisitions (applyRequisitionCoverageStatusAfterPurchase i db)"
  shows "\<exists>r'. requisition_findById i t db' = Inr r' \<and> rq_items r' = rq_items r \<and> rq_id r' = rq_id r"
proof -
  obtain f where f: "requisitions db' = map f (requisitions db)"
      "\<And>x. rq_items (f x) = rq_items x" "\<And>x. rq_id (f x) = rq_id x" "\<And>x. rq_tenant (f x) = rq_tenant x"
    using coverage_rows[of i db] assms(2) by auto
  have "find_row (\<lambda>x. rq_id x = i \<and> rq_tenant x = t) (requisitions db) = Some r"
    using assms(1) by (simp add: requisition_findById_def split: option.splits)
  then have "find_row (\<lambda>x. rq_id x = i \<and> rq_tenant x = t) (requisitions db') = Some (f r)"
    by (simp add: f find_row_map comp_def)
  then show ?thesis by (simp add: requisition_findById_def f)
qed

lemma split_log_frame [simp]:
  "orders (split_log u i a b cs ch db) = orders db" "requisitions (split_log u i a b cs ch db) = requisitions db"
proof -
  have o: "orders (fold (\<lambda>po. order_log u (po_id po) ''CREATE'' [] (f po)) xs d) = orders d
      \<and> requisitions (fold (\<lambda>po. order_log u (po_id po) ''CREATE'' [] (f po)) xs d) = requisitions d"
    for f xs and d :: "'b purch_db_scheme"
    by (induction xs arbitrary: d) simp_all
  show "orders (split_log u i a b cs ch db) = orders db" "requisitions (split_log u i a b cs ch db) = requisitions db"
    by (simp_all add: split_log_def Let_def log_sync_def o)
qed

lemma split_InrE:
  assumes "createOrdersFromRequisition pr newOrder newLine i u db = Inr db'"
  obtains r db1 cs where "requisition_findById i (user_tenant u) db = Inr r"
    "split_orders pr newOrder newLine u r db = Inr (db1, cs)" "orders db' = orders db1"
    "requisitions db' = requisitions (applyRequisitionCoverageStatusAfterPurchase i db1)"
  using assms by (auto simp: createOrdersFromRequisition_def and_then_eq_Inr Let_def case_prod_beta)

text \<open>
  C8. A split buys each awarded line exactly once. When the orders of a requisition are generated,
  the orders that appear are all pending and on the contract of the requisition, at most one per
  quotation; their lines are the awards that no active order had bought yet, each once, at the quoted
  price and in the requested quantity; their total is the sum of the lines and decides the number of
  signatures. Afterwards every awarded line is bought, and generating the orders again adds none.
\<close>
theorem split_buys_each_award_once:
  assumes run: "createOrdersFromRequisition pr newOrder newLine i u db = Inr db'"
    and r: "requisition_findById i (user_tenant u) db = Inr r"
    and keys: "distinct (map qi_id (concat (map qt_items (quotations db))))"
  shows "(\<exists>new. orders db' = orders db @ new
      \<and> split_adds pr db r (approval_threshold (user_tenant u) db) new)
    \<and> (\<forall>a \<in> set (awards_of r). already_bought (user_tenant u) i db' a)
    \<and> (\<forall>newOrder' newLine' db''. createOrdersFromRequisition pr newOrder' newLine' i u db' = Inr db''
         \<longrightarrow> orders db'' = orders db')"
proof (intro conjI allI impI)
  have ids: "rq_id r = i" "rq_tenant r = user_tenant u"
    using r by (auto simp: requisition_findById_def dest!: find_row_SomeD split: option.splits)
  obtain db1 cs where s: "split_orders pr newOrder newLine u r db = Inr (db1, cs)" "orders db' = orders db1"
    and q: "requisitions db' = requisitions (applyRequisitionCoverageStatusAfterPurchase i db1)"
    using run by (rule split_InrE) (use r in simp)
  note a = split_orders_Inr[OF s(1) ids(2) keys]
  show "\<exists>new. orders db' = orders db @ new \<and> split_adds pr db r (approval_threshold (user_tenant u) db) new"
    using a s(2) by auto
  show all: "\<forall>a \<in> set (awards_of r). already_bought (user_tenant u) i db' a"
  proof
    fix x assume x: "x \<in> set (awards_of r)"
    show "already_bought (user_tenant u) i db' x"
    proof (cases "already_bought (user_tenant u) i db x")
      case False
      with x have "x \<in> set (pending_awards (rq_tenant r) r db)" by (simp add: pending_awards_def ids)
      also have "\<dots> = set (concat (map sources_of cs))"
        using a by (metis split_adds_def set_mset_mset)
      finally obtain po where "po \<in> set cs" "x \<in> set (sources_of po)" by auto
      then show ?thesis using a s(2) ids
        by (auto simp: already_bought_def list_ex_iff split_adds_def order_active_def PO_INACTIVE_STATUSES_def)
    qed (use a s(2) in \<open>auto simp: already_bought_def list_ex_iff\<close>)
  qed
  fix newOrder' newLine' db'' assume again: "createOrdersFromRequisition pr newOrder' newLine' i u db' = Inr db''"
  have "requisition_findById i (user_tenant u) db1 = Inr r" using a r by (simp add: requisition_findById_def)
  then obtain r' where r': "requisition_findById i (user_tenant u) db' = Inr r'" "rq_items r' = rq_items r" "rq_id r' = i"
    using find_after_coverage[OF _ q] ids by metis
  have none: "pending_awards (user_tenant u) r' db' = []"
    using all r' by (auto simp: pending_awards_def awards_of_def filter_empty_conv)
  show "orders db'' = orders db'"
    by (rule split_InrE[OF again]) (use none r' in \<open>auto simp: split_orders_def\<close>)
qed

section \<open>Two histories\<close>

definition succeeds :: "'s res \<Rightarrow> bool" where
  "succeeds r = (case r of Inl _ \<Rightarrow> False | Inr _ \<Rightarrow> True)"

definition plain_printing :: printing where
  "plain_printing = \<lparr>pr_sha = (\<lambda>s. s), pr_decimal = (\<lambda>_. ''n''), pr_iso = (\<lambda>_. ''d''), pr_money = (\<lambda>q. q)\<rparr>"

definition second_user :: user where
  "second_user = plain_user\<lparr>user_id := ''u2''\<rparr>"

definition policy :: "int \<Rightarrow> id \<Rightarrow> approval_policy" where
  "policy n u = \<lparr>pl_id = u, pl_settings = ''s'', pl_tenant = ''t'', pl_level = n, pl_description = None,
     pl_min = 0, pl_users = [u]\<rparr>"

text \<open>A company with a requisition whose line was awarded, and a signer for each of two levels.\<close>

definition company :: ops_db where
  "company = small_ops\<lparr>
     warehouses := [\<lparr>wh_id = ''w1'', wh_tenant = ''t'', wh_contract = ''c1'', wh_code = ''B1'', wh_active = True\<rparr>],
     items := [\<lparr>it_id = ''i1'', it_tenant = ''t'', it_part_number = Some ''P1'', it_inventory_code = None,
       it_is_inventory = True, it_uom_abbr = ''UN'', it_uom_decimals = False, it_policy_wh = None,
       it_policy_min = None, it_policy_max = None\<rparr>],
     approval_policies := [policy 1 ''u1'', policy 2 ''u2''],
     requisitions := [\<lparr>rq_id = ''r1'', rq_tenant = ''t'', rq_contract = ''c1'', rq_subcontract = None,
       rq_correlative = ''SRC-1'', rq_requested_by = ''u1'', rq_status = RQ_PENDING_APPROVAL,
       rq_description = [], rq_justification = None, rq_equipment = None, rq_work_order = None,
       rq_priority = PR_MEDIUM,
       rq_items = [\<lparr>rl_id = ''l1'', rl_inventory_item = Some ''i1'', rl_description = ''pieza'',
         rl_part_number = None, rl_notes = None, rl_qty = 10, rl_unit = ''un'', rl_estimated = None,
         rl_award = Some ''k1''\<rparr>]\<rparr>],
     quotations := [\<lparr>qt_id = ''q1'', qt_tenant = ''t'', qt_requisition = ''r1'', qt_vendor = ''v'', qt_total = 50,
       qt_currency = ''CLP'', qt_delivery_days = None, qt_payment_days = Some 30, qt_valid_until = None,
       qt_attachment = None, qt_status = QT_SELECTED, qt_winner = True,
       qt_items = [\<lparr>qi_id = ''k1'', qi_line = ''l1'', qi_price = 5, qi_brand = None, qi_notes = None\<rparr>]\<rparr>]\<rparr>"

lemma company_start: "purchased plain_printing company"
  by (rule purchased.start) (simp add: no_orders_def company_def small_ops_def)

definition split_as :: "id \<Rightarrow> ops_db \<Rightarrow> ops_db res" where
  "split_as o' = createOrdersFromRequisition plain_printing (\<lambda>_. o') (\<lambda>k. o' @ k) ''r1'' plain_user"

definition both_sign :: "id \<Rightarrow> ops_db \<Rightarrow> ops_db res" where
  "both_sign o' db = and_then (approve plain_printing (o' @ ''a'') 0 None plain_user o' db)
     (approve plain_printing (o' @ ''b'') 1 None second_user o')"

lemma split_as_reached: "purchased plain_printing d \<Longrightarrow> split_as i d = Inr d' \<Longrightarrow> purchased plain_printing d'"
  unfolding split_as_def by (rule purchased_step, assumption, rule of_source, rule split_up)

lemma life_reached: "purchased pr d \<Longrightarrow> order_step pr d d' \<Longrightarrow> purchased pr d'"
  by (rule purchased_step, assumption, rule of_order)

lemma both_sign_reached: "purchased plain_printing d \<Longrightarrow> both_sign i d = Inr d' \<Longrightarrow> purchased plain_printing d'"
  by (auto simp: both_sign_def and_then_eq_Inr intro: life_reached order_step.signed)

text \<open>
  The order of the line is rejected, the line is ordered again, and then the rejected order goes back
  to draft, is saved and is signed as well.
\<close>

definition ordered_twice :: "ops_db res" where
  "ordered_twice =
     and_then (split_as ''o1'' company) (\<lambda>d1.
     and_then (reject (Some ''no'') plain_user ''o1'' d1) (\<lambda>d2.
     and_then (split_as ''o2'' d2) (\<lambda>d3.
     and_then (resetToDraft plain_user ''o1'' d3) (\<lambda>d4.
     and_then (updateSensitiveFields plain_printing (\<lambda>_. []) None None plain_user ''o1'' d4) (\<lambda>d5.
     and_then (both_sign ''o1'' d5) (both_sign ''o2''))))))"

lemma ordered_twice_reached: "ordered_twice = Inr db \<Longrightarrow> purchased plain_printing db"
  unfolding ordered_twice_def and_then_eq_Inr
  by (elim exE conjE)
     (rule both_sign_reached[rotated], assumption, rule both_sign_reached[rotated], assumption,
      rule life_reached, rule life_reached, rule split_as_reached[rotated], assumption, rule life_reached,
      rule split_as_reached[rotated], assumption, rule company_start, rule order_step.rejected, assumption,
      rule order_step.redrafted, assumption, rule order_step.edited, assumption)

definition bought_twice :: "id \<Rightarrow> ops_db \<Rightarrow> bool" where
  "bought_twice a db \<longleftrightarrow>
     list_ex (\<lambda>x. list_ex (\<lambda>y. po_id x \<noteq> po_id y \<and> po_status x = PO_APPROVED \<and> po_status y = PO_APPROVED
       \<and> a \<in> set (sources_of x) \<and> a \<in> set (sources_of y)) (orders db)) (orders db)"

lemma ordered_twice_ends: "(case ordered_twice of Inl _ \<Rightarrow> False | Inr db \<Rightarrow> bought_twice ''k1'' db)"
  by code_simp

text \<open>
  Rejecting an order frees its lines to be ordered again, but the rejected order can still come
  back: returned to draft, saved and signed, it is approved beside its replacement, so a reachable
  state has two approved orders for the same awarded line.
\<close>
theorem returned_order_buys_again:
  "\<exists>(db :: ops_db) x y. purchased plain_printing db \<and> x \<in> set (orders db) \<and> y \<in> set (orders db)
     \<and> po_id x \<noteq> po_id y \<and> po_status x = PO_APPROVED \<and> po_status y = PO_APPROVED
     \<and> set (sources_of x) \<inter> set (sources_of y) \<noteq> {}"
proof -
  obtain db where db: "ordered_twice = Inr db" "bought_twice ''k1'' db"
    using ordered_twice_ends by (auto split: sum.splits)
  show ?thesis using ordered_twice_reached[OF db(1)] db(2) unfolding bought_twice_def list_ex_iff by blast
qed

text \<open>An order is sent, a receipt is opened and filled in, the order is cancelled.\<close>

definition cancelled_with_draft :: "ops_db res" where
  "cancelled_with_draft =
     and_then (split_as ''o1'' company) (\<lambda>d1.
     and_then (both_sign ''o1'' d1) (\<lambda>d2.
     and_then (markAsSentToSupplier 2 plain_user ''o1'' d2) (\<lambda>d3.
     and_then (receipt_create ''o1'' ''w1'' plain_user ''rc'' (\<lambda>x. x) d3) (\<lambda>d4.
     and_then (updateItems ''rc'' [\<lparr>ud_id = ''o1k1'', ud_received = 10, ud_observations = None\<rparr>] plain_user d4) (\<lambda>d5.
     cancel (Some ''ya no'') plain_user ''o1'' d5)))))"

lemma store_reached: "purchased pr d \<Longrightarrow> stock_step d d' \<Longrightarrow> purchased pr d'"
  by (rule purchased_step, assumption, rule of_warehouse)

lemma cancelled_reached: "cancelled_with_draft = Inr db \<Longrightarrow> purchased plain_printing db"
  unfolding cancelled_with_draft_def and_then_eq_Inr
  by (elim exE conjE)
     (rule life_reached, rule store_reached, rule store_reached, rule life_reached,
      rule both_sign_reached[rotated], assumption, rule split_as_reached[rotated], assumption,
      rule company_start, rule order_step.sent, assumption, rule stock_step.receipt_opened, assumption,
      rule stock_step.receipt_saved, assumption, rule order_step.cancelled, assumption)

definition revives :: "ops_db \<Rightarrow> bool" where
  "revives db \<longleftrightarrow> map po_status (orders db) = [PO_CANCELLED] \<and> stock_qty ''w1'' ''i1'' db = 0
     \<and> (case receipt_confirm (\<lambda>q. q) (\<lambda>q. q) ''rc'' plain_user db of Inl _ \<Rightarrow> False
        | Inr (db', _) \<Rightarrow> map po_status (orders db') = [PO_RECEIVED] \<and> stock_qty ''w1'' ''i1'' db' = 10)"

lemma cancelled_revives: "(case cancelled_with_draft of Inl _ \<Rightarrow> False | Inr db \<Rightarrow> revives db)"
  by code_simp

text \<open>
  A cancelled order comes back to life through its draft receipt: the cancellation looks only
  for confirmed receipts and the confirmation does not look at the status of the order, so in a
  reachable state a confirmation receives the goods of a cancelled order, puts them into stock and
  sets the order to received.
\<close>
theorem cancelled_order_is_received:
  "\<exists>(db :: ops_db) db' c i po. purchased plain_printing db
     \<and> orders db = [po] \<and> po_status po = PO_CANCELLED \<and> stock_qty ''w1'' i db = 0
     \<and> receipt_confirm (\<lambda>q. q) (\<lambda>q. q) ''rc'' plain_user db = Inr (db', c)
     \<and> map po_status (orders db') = [PO_RECEIVED] \<and> stock_qty ''w1'' i db' = 10"
proof -
  obtain db where db: "cancelled_with_draft = Inr db" "revives db"
    using cancelled_revives by (auto split: sum.splits)
  then obtain po where "orders db = [po]" "po_status po = PO_CANCELLED" by (auto simp: revives_def)
  moreover obtain db' c where "receipt_confirm (\<lambda>q. q) (\<lambda>q. q) ''rc'' plain_user db = Inr (db', c)"
      "map po_status (orders db') = [PO_RECEIVED]" "stock_qty ''w1'' ''i1'' db' = 10" "stock_qty ''w1'' ''i1'' db = 0"
    using db(2) by (auto simp: revives_def split: sum.splits)
  ultimately show ?thesis
    using cancelled_reached[OF db(1)]
    by (intro exI[of _ db] exI[of _ db'] exI[of _ c] exI[of _ "''i1''"] exI[of _ po]) simp
qed

section \<open>Witnesses\<close>

text \<open>A company whose orders from 40 on take three signatures, and an order of 50 that has them.\<close>

definition third_user :: user where
  "third_user = plain_user\<lparr>user_id := ''u3''\<rparr>"

definition strict_company :: ops_db where
  "strict_company = company\<lparr>
     purchase_settings := [\<lparr>ps_id = ''s'', ps_tenant = ''t'', ps_threshold = 40, ps_currency = ''CLP'', ps_tolerance = 0\<rparr>],
     approval_policies := [policy 1 ''u1'', policy 2 ''u2'', policy 3 ''u3'']\<rparr>"

definition strict_order :: "ops_db res" where
  "strict_order = split_as ''o1'' strict_company"

definition once_signed :: "ops_db res" where
  "once_signed = and_then strict_order (approve plain_printing ''a'' 0 None plain_user ''o1'')"

definition twice_signed :: "ops_db res" where
  "twice_signed = and_then once_signed (approve plain_printing ''b'' 1 None second_user ''o1'')"

definition thrice_signed :: "ops_db res" where
  "thrice_signed = and_then twice_signed (approve plain_printing ''c'' 2 None third_user ''o1'')"

lemma strict_thresholds:
  "thresholds_in {40} strict_company"
  "(case strict_order of Inl _ \<Rightarrow> False | Inr db \<Rightarrow> thresholds_in {40} db)"
  "(case once_signed of Inl _ \<Rightarrow> False | Inr db \<Rightarrow> thresholds_in {40} db)"
  "(case twice_signed of Inl _ \<Rightarrow> False | Inr db \<Rightarrow> thresholds_in {40} db)"
  "(case thrice_signed of Inl _ \<Rightarrow> False | Inr db \<Rightarrow> map (\<lambda>x. (po_status x, po_total x)) (orders db) = [(PO_APPROVED, 50)])"
  by code_simp+

lemma signed_under:
  assumes "bought_under pr T d" and "thresholds_in T d" and "approve pr n now c u i d = Inr d'"
  shows "bought_under pr T d'"
  using assms by (blast intro: bought_under.step of_order order_step.signed)

lemma thrice_signed_reached:
  assumes "thrice_signed = Inr db"
  shows "bought_under plain_printing {40} db"
proof -
  obtain d1 d2 d3 where d: "strict_order = Inr d1" "once_signed = Inr d2" "twice_signed = Inr d3"
    using strict_thresholds(2-4) by (auto split: sum.splits)
  have t: "thresholds_in {40} d1" "thresholds_in {40} d2" "thresholds_in {40} d3"
    using strict_thresholds(2-4)[unfolded d sum.case] .
  have "bought_under plain_printing {40} strict_company"
    by (rule bought_under.start) (simp add: no_orders_def strict_company_def company_def small_ops_def)
  then have "bought_under plain_printing {40} d1"
    using strict_thresholds(1) d(1)[unfolded strict_order_def split_as_def]
    by (blast intro: bought_under.step of_source split_up)
  then have "bought_under plain_printing {40} d2"
    by (rule signed_under[OF _ t(1)]) (use d(2)[unfolded once_signed_def d and_then_Inr] in simp)
  then have "bought_under plain_printing {40} d3"
    by (rule signed_under[OF _ t(2)]) (use d(3)[unfolded twice_signed_def d and_then_Inr] in simp)
  then show ?thesis
    by (rule signed_under[OF _ t(3)]) (use assms[unfolded thrice_signed_def d and_then_Inr] in simp)
qed

lemma released_orders_are_fully_signed_witness:
  "\<exists>db x. thrice_signed = Inr db \<and> orders db = [x] \<and> po_status x = PO_APPROVED
     \<and> po_total x = 50 \<and> length (approvals_of (po_id x) db) = 3"
proof -
  obtain db x where x: "thrice_signed = Inr db" "orders db = [x]" "po_status x = PO_APPROVED" "po_total x = 50"
    using strict_thresholds(5) by (auto split: sum.splits)
  have "po_status x \<in> released_statuses" "x \<in> set (orders db)" using x by (simp_all add: released_statuses_def)
  then obtain a where "po_total x = pr_money plain_printing a"
      "int (length (approvals_of (po_id x) db)) = (if (0 :: qty) < 40 \<and> 40 \<le> a then 3 else 2)"
    using released_orders_are_fully_signed[OF thrice_signed_reached[OF x(1)]] by blast
  with x have "length (approvals_of (po_id x) db) = 3" by (simp add: plain_printing_def)
  with x show ?thesis by blast
qed

lemma split_ready:
  "(case split_as ''o1'' company of Inl _ \<Rightarrow> False | Inr db \<Rightarrow>
     (case find_order ''o1'' ''t'' db of None \<Rightarrow> False | Some po \<Rightarrow>
        po_status po = PO_PENDING_APPROVAL \<and> po_required po = 2
        \<and> fits_level ''t'' po db 0 plain_user \<and> fits_level ''t'' po db 1 second_user))"
  by code_simp

lemma signers_release_the_order_witness:
  "\<exists>db db' po'. split_as ''o1'' company = Inr db
     \<and> for_each (\<lambda>u. approve plain_printing (user_id u) 0 None u ''o1'') [plain_user, second_user] db = Inr db'
     \<and> find_order ''o1'' ''t'' db' = Some po' \<and> po_status po' = PO_APPROVED"
proof -
  obtain db po where s: "split_as ''o1'' company = Inr db" "find_order ''o1'' ''t'' db = Some po"
      "po_status po = PO_PENDING_APPROVAL" "po_required po = 2"
      "fits_level ''t'' po db 0 plain_user" "fits_level ''t'' po db 1 second_user"
    using split_ready by (auto split: sum.splits option.splits)
  have f: "fits_level ''t'' po db k ([plain_user, second_user] ! k)" if "k < length [plain_user, second_user]" for k
    using that s(5,6) by (cases k) (auto simp: less_Suc_eq)
  have n: "int (length [plain_user, second_user]) = po_required po" using s(4) by simp
  from signers_release_the_order[OF split_as_reached[OF company_start s(1)] s(2,3) n f,
      where newId = user_id and now = "\<lambda>_. 0" and comment = "\<lambda>_. None"]
  show ?thesis using s(1) by blast
qed

lemma company_split_facts:
  "succeeds (split_as ''o1'' company)"
  "distinct (map qi_id (concat (map qt_items (quotations company))))"
  "(case requisition_findById ''r1'' (user_tenant plain_user) company of Inl _ \<Rightarrow> False | Inr r \<Rightarrow> awards_of r = [''k1''])"
  by code_simp+

lemma split_buys_each_award_once_witness:
  "\<exists>db. split_as ''o1'' company = Inr db \<and> already_bought (user_tenant plain_user) ''r1'' db ''k1''"
proof -
  obtain db where db: "split_as ''o1'' company = Inr db"
    using company_split_facts(1) by (auto simp: succeeds_def split: sum.splits)
  obtain r where r: "requisition_findById ''r1'' (user_tenant plain_user) company = Inr r" "awards_of r = [''k1'']"
    using company_split_facts(3) by (auto split: sum.splits)
  from split_buys_each_award_once[OF db[unfolded split_as_def] r(1) company_split_facts(2)] r(2) db
  show ?thesis by auto
qed

end
