(* ===== verification/Invoices.thy ===== *)
theory Invoices
  imports Sourcing
begin

text \<open>
  Invoices and credit notes of the purchase orders: \<open>features/purchases/purchase-invoices.service.ts\<close>,
  \<open>purchase-credit-notes.service.ts\<close>, the closing of a requisition whose lines are reconciled
  (\<open>purchase-requisition-auto-close.util.ts\<close>, \<open>purchase-requisition-reconciliation.util.ts\<close>).
  A date of a request is the instant its text stands for, \<open>None\<close> where JavaScript reads no date from
  it; a day is the number of a UTC day, which orders days as their ISO texts do. The automatic closing,
  which the services start without waiting for it, is an operation of its own. Lists, details and
  notifications are left out.
\<close>

section \<open>Tables\<close>

datatype invoice_status = IV_PENDING | IV_MATCHED | IV_DISCREPANCY | IV_PAID

record invoice =
  iv_id :: id
  iv_tenant :: id
  iv_vendor :: id
  iv_order :: id
  iv_number :: string
  iv_emission :: int
  iv_due :: "int option"
  iv_total :: qty
  iv_net :: "qty option"
  iv_tax :: "qty option"
  iv_status :: invoice_status
  iv_pdf :: "string option"
  iv_reference :: "string option"
  iv_paid_at :: "int option"
  iv_overruled :: bool
  iv_overruled_at :: "int option"
  iv_overruled_by :: "id option"
  iv_overrule_notes :: "string option"

record credit_note =
  cn_id :: id
  cn_tenant :: id
  cn_order :: id
  cn_invoice :: "id option"
  cn_number :: string
  cn_emission :: int
  cn_total :: qty
  cn_notes :: "string option"

record bill_db = ops_db +
  invoices :: "invoice list"
  credit_notes :: "credit_note list"

fun iv_status_text :: "invoice_status \<Rightarrow> string" where
  "iv_status_text IV_PENDING = ''PENDING''"
| "iv_status_text IV_MATCHED = ''MATCHED''"
| "iv_status_text IV_DISCREPANCY = ''DISCREPANCY''"
| "iv_status_text IV_PAID = ''PAID''"

definition iv_status_json :: "invoice_status \<Rightarrow> string \<times> json" where
  "iv_status_json st = (''status'', JStr (iv_status_text st))"

definition find_invoice :: "id \<Rightarrow> id \<Rightarrow> 'a bill_db_scheme \<Rightarrow> invoice option" where
  "find_invoice i tenant db = find_row (\<lambda>v. iv_id v = i \<and> iv_tenant v = tenant) (invoices db)"

definition set_invoice :: "id \<Rightarrow> (invoice \<Rightarrow> invoice) \<Rightarrow> 'a bill_db_scheme \<Rightarrow> 'a bill_db_scheme" where
  "set_invoice i f db = db\<lparr>invoices := update_rows (\<lambda>v. iv_id v = i) f (invoices db)\<rparr>"

definition invoice_log ::
    "id \<Rightarrow> id \<Rightarrow> id \<Rightarrow> string \<Rightarrow> (string \<times> json) list \<Rightarrow> (string \<times> json) list \<Rightarrow>
     'a bill_db_scheme \<Rightarrow> 'a bill_db_scheme" where
  "invoice_log tenant uid i action old new =
     audit_log \<lparr>lg_tenant = tenant, lg_user = uid, lg_entity = ''PURCHASE_INVOICE'',
       lg_entity_id = i, lg_action = action, lg_old = old, lg_new = new\<rparr>"

definition order_of_invoice :: "invoice \<Rightarrow> 'a bill_db_scheme \<Rightarrow> purchase_order option" where
  "order_of_invoice v db = find_row (\<lambda>x. po_id x = iv_order v) (orders db)"

section \<open>The three amounts\<close>

definition unit_cost_of :: "id \<Rightarrow> 'a purch_db_scheme \<Rightarrow> qty" where
  "unit_cost_of i db =
     (case find_row (\<lambda>x. oi_id x = i) (concat (map po_items (orders db))) of
        None \<Rightarrow> 0 | Some x \<Rightarrow> oi_unit_cost x)"

definition computeReceivedAmountForPurchaseOrder :: "id \<Rightarrow> 'a purch_db_scheme \<Rightarrow> qty" where
  "computeReceivedAmountForPurchaseOrder orderId db =
     sum_rows (\<lambda>r. rc_order r = orderId \<and> rc_status r \<in> {RC_PARTIAL, RC_COMPLETED})
       (\<lambda>r. sum_list (map (\<lambda>l. ri_received l * unit_cost_of (ri_order_item l) db) (rc_items r))) (receipts db)"

definition computeAccumulatedInvoiceAmount :: "id \<Rightarrow> id \<Rightarrow> id option \<Rightarrow> 'a bill_db_scheme \<Rightarrow> qty" where
  "computeAccumulatedInvoiceAmount orderId tenant excluded db =
     sum_rows (\<lambda>v. iv_order v = orderId \<and> iv_tenant v = tenant \<and> excluded \<noteq> Some (iv_id v)) iv_total (invoices db)"

definition computeAccumulatedCreditNoteAmount :: "id \<Rightarrow> id \<Rightarrow> 'a bill_db_scheme \<Rightarrow> qty" where
  "computeAccumulatedCreditNoteAmount orderId tenant db =
     sum_rows (\<lambda>c. cn_order c = orderId \<and> cn_tenant c = tenant) cn_total (credit_notes db)"

record match_numbers =
  mn_tolerance :: qty
  mn_po :: qty
  mn_invoiced :: qty
  mn_received :: qty
  mn_credit :: qty
  mn_match_po :: bool
  mn_match_received :: bool

definition tolerance_percent :: "id \<Rightarrow> 'a purch_db_scheme \<Rightarrow> qty" where
  "tolerance_percent tenant db =
     (case settings_of tenant db of None \<Rightarrow> 1 | Some s \<Rightarrow> ps_tolerance s)"

definition computeThreeWayMatchNumbers ::
    "id \<Rightarrow> id \<Rightarrow> qty \<Rightarrow> qty \<Rightarrow> 'a bill_db_scheme \<Rightarrow> match_numbers" where
  "computeThreeWayMatchNumbers tenant orderId poAmount invAccumulated db =
     (let tolPct = tolerance_percent tenant db; tol = tolPct / 100;
          received = computeReceivedAmountForPurchaseOrder orderId db;
          credit = computeAccumulatedCreditNoteAmount orderId tenant db;
          invoiced = invAccumulated - credit
      in \<lparr>mn_tolerance = tolPct, mn_po = poAmount, mn_invoiced = invoiced, mn_received = received,
          mn_credit = credit,
          mn_match_po = (if poAmount = 0 then invoiced = 0
            else \<bar>invoiced - poAmount\<bar> \<le> \<bar>poAmount\<bar> * tol),
          mn_match_received = (invoiced \<le> received + \<bar>received\<bar> * tol)\<rparr>)"

definition buildThreeWayDiscrepancyReasons :: "match_numbers \<Rightarrow> string list" where
  "buildThreeWayDiscrepancyReasons nums =
     (if mn_match_po nums then [] else [''El monto de la factura no coincide con el de la OC''])
     @ (if mn_match_received nums then [] else [''El monto neto facturado supera el valor recepcionado''])"

definition invoice_numbers :: "id \<Rightarrow> invoice \<Rightarrow> purchase_order \<Rightarrow> 'a bill_db_scheme \<Rightarrow> match_numbers" where
  "invoice_numbers tenant v po db =
     computeThreeWayMatchNumbers tenant (iv_order v) (po_total po)
       (computeAccumulatedInvoiceAmount (iv_order v) tenant (Some (iv_id v)) db + iv_total v) db"

section \<open>Validation\<close>

definition clear_overrule :: "invoice \<Rightarrow> invoice" where
  "clear_overrule v =
     v\<lparr>iv_overruled := False, iv_overruled_at := None, iv_overruled_by := None, iv_overrule_notes := None\<rparr>"

definition numbers_json :: "match_numbers \<Rightarrow> (string \<times> json) list" where
  "numbers_json nums =
     [(''poAmount'', JNum (mn_po nums)), (''invoiceAmount'', JNum (mn_invoiced nums)),
      (''receivedAmount'', JNum (mn_received nums))]"

text \<open>The invoiced amount of the last discrepancy among the last thirty log entries of the invoice.\<close>

definition prior_discrepancy :: "id \<Rightarrow> id \<Rightarrow> 'a core_db_scheme \<Rightarrow> qty option" where
  "prior_discrepancy tenant i db =
     (case find_row (\<lambda>l. map_of (lg_new l) ''event'' = Some (JStr ''invoice_three_way_match_discrepancy''))
         (take 30 (rev (filter (\<lambda>l. lg_tenant l = tenant \<and> lg_entity l = ''PURCHASE_INVOICE''
            \<and> lg_entity_id l = i) (activity db)))) of
        None \<Rightarrow> None
      | Some l \<Rightarrow> (case map_of (lg_new l) ''invoiceAmount'' of Some (JNum q) \<Rightarrow> Some q | _ \<Rightarrow> None))"

definition log_match ::
    "id \<Rightarrow> id \<Rightarrow> invoice \<Rightarrow> match_numbers \<Rightarrow> invoice_status \<Rightarrow> 'a bill_db_scheme \<Rightarrow> 'a bill_db_scheme" where
  "log_match tenant uid v nums st db =
     (if st = IV_DISCREPANCY
      then invoice_log tenant uid (iv_id v) ''STATUS_CHANGE'' [iv_status_json (iv_status v)]
        ([iv_status_json st, (''event'', JStr ''invoice_three_way_match_discrepancy'')] @ numbers_json nums
         @ [(''overpaymentExposureAmount'',
              JNum (max 0 (mn_invoiced nums - min (mn_po nums) (mn_received nums))))]
         @ map (\<lambda>r. (''reason'', JStr r)) (buildThreeWayDiscrepancyReasons nums)) db
      else if st = IV_MATCHED \<and> iv_status v = IV_DISCREPANCY
      then invoice_log tenant uid (iv_id v) ''STATUS_CHANGE'' [iv_status_json (iv_status v)]
        ([iv_status_json st, (''event'', JStr ''invoice_three_way_match_resolved'')] @ numbers_json nums
         @ [(''overpaymentPreventionAmount'',
              JNum (case prior_discrepancy tenant (iv_id v) db of
                      None \<Rightarrow> 0 | Some q \<Rightarrow> max 0 (q - mn_invoiced nums)))]) db
      else db)"

definition validateInvoiceMatch :: "id \<Rightarrow> id \<Rightarrow> id \<Rightarrow> 'a bill_db_scheme \<Rightarrow> 'a bill_db_scheme res" where
  "validateInvoiceMatch i tenant uid db =
     (case find_invoice i tenant db of
        None \<Rightarrow> Inl (NotFound ''Factura no encontrada'')
      | Some v \<Rightarrow>
          if iv_status v = IV_PAID
          then Inl (BadRequest ''No se puede revalidar una factura ya marcada como pagada'')
          else (case order_of_invoice v db of
            None \<Rightarrow> Inl RecordNotFound
          | Some po \<Rightarrow>
              let nums0 = invoice_numbers tenant v po db;
                  revoked = (iv_overruled v \<and> \<not> mn_match_received nums0);
                  v1 = (if revoked then clear_overrule v else v);
                  db1 = (if revoked then set_invoice i clear_overrule db else db);
                  nums = (if revoked then invoice_numbers tenant v1 po db1 else nums0)
              in if iv_overruled v1 \<and> mn_match_received nums
                 then Inr (set_invoice i (\<lambda>x. x\<lparr>iv_status := IV_MATCHED\<rparr>) db1)
                 else
                   let st = (if mn_match_po nums \<and> mn_match_received nums then IV_MATCHED else IV_DISCREPANCY)
                   in Inr (log_match tenant uid v1 nums st (set_invoice i (\<lambda>x. x\<lparr>iv_status := st\<rparr>) db1))))"

text \<open>A manual exception: the discrepancy with the order is accepted, the one with the receipts is not.\<close>

definition overruleThreeWayMatch ::
    "id \<Rightarrow> string option \<Rightarrow> int \<Rightarrow> user \<Rightarrow> 'a bill_db_scheme \<Rightarrow> 'a bill_db_scheme res" where
  "overruleThreeWayMatch i notes now u db =
     (let trimmed = trim_opt notes; tenant = user_tenant u in
      if length trimmed < 15
      then Inl (BadRequest ''La justificacion debe tener al menos 15 caracteres'')
      else case find_invoice i tenant db of
        None \<Rightarrow> Inl (NotFound ''Factura no encontrada'')
      | Some v \<Rightarrow>
          (case order_of_invoice v db of
             None \<Rightarrow> Inl RecordNotFound
           | Some po \<Rightarrow>
               and_then (assertUserHasContractAccess u (po_contract po)
                 ''No tiene acceso al contrato de esta operacion'') (\<lambda>_.
               if iv_status v \<noteq> IV_DISCREPANCY
               then Inl (BadRequest ''Solo se puede aceptar discrepancia en estado DISCREPANCY'')
               else
                 let nums = invoice_numbers tenant v po db in
                 if \<not> mn_match_received nums
                 then Inl (BadRequest ''No se puede autorizar una factura que supera el stock ingresado a bodega'')
                 else Inr (invoice_log tenant (user_id u) i ''STATUS_CHANGE'' [iv_status_json IV_DISCREPANCY]
                   ([iv_status_json IV_MATCHED, (''event'', JStr ''invoice_three_way_match_overruled'')]
                    @ numbers_json nums @ [(''notes'', JStr trimmed)])
                   (set_invoice i (\<lambda>x. x\<lparr>iv_status := IV_MATCHED, iv_overruled := True,
                      iv_overruled_at := Some now, iv_overruled_by := Some (user_id u),
                      iv_overrule_notes := Some trimmed\<rparr>) db)))))"

section \<open>Registration and changes\<close>

definition day_ms :: int where "day_ms = 86400000"

definition addUtcDays :: "int \<Rightarrow> int \<Rightarrow> int" where
  "addUtcDays base days = base + days * day_ms"

definition defaultDueDateFromEmission :: "int \<Rightarrow> int" where
  "defaultDueDateFromEmission emission = addUtcDays emission 30"

text \<open>A due date of a request: absent, empty, no date, or an instant.\<close>

datatype due_field = DueAbsent | DueEmpty | DueInvalid | DueOn int

record invoice_dto =
  vd_order :: id
  vd_vendor :: id
  vd_number :: string
  vd_emission :: "int option"
  vd_due :: due_field
  vd_total :: qty
  vd_net :: "qty option"
  vd_tax :: "qty option"
  vd_pdf :: "string option"

definition PO_STATUSES_ALLOW_INVOICE :: "po_status list" where
  "PO_STATUSES_ALLOW_INVOICE =
     [PO_APPROVED, PO_SENT, PO_ORDERED, PO_SENT_TO_SUPPLIER, PO_PARTIALLY_RECEIVED, PO_RECEIVED, PO_CLOSED]"

definition quoted_vendor :: "purchase_order \<Rightarrow> 'a purch_db_scheme \<Rightarrow> id option" where
  "quoted_vendor po db =
     or_null (Option.bind (po_quotation po) (\<lambda>q. map_option qt_vendor (find_row (\<lambda>x. qt_id x = q) (quotations db))))"

definition new_invoice :: "printing \<Rightarrow> id \<Rightarrow> invoice_dto \<Rightarrow> int \<Rightarrow> id \<Rightarrow> invoice" where
  "new_invoice pr newId dto emission tenant =
     \<lparr>iv_id = newId, iv_tenant = tenant, iv_vendor = vd_vendor dto, iv_order = vd_order dto,
      iv_number = trim (vd_number dto), iv_emission = emission,
      iv_due = Some (case vd_due dto of DueOn d \<Rightarrow> d | _ \<Rightarrow> defaultDueDateFromEmission emission),
      iv_total = pr_money pr (vd_total dto), iv_net = map_option (pr_money pr) (vd_net dto),
      iv_tax = map_option (pr_money pr) (vd_tax dto), iv_status = IV_PENDING, iv_pdf = vd_pdf dto,
      iv_reference = None, iv_paid_at = None, iv_overruled = False, iv_overruled_at = None,
      iv_overruled_by = None, iv_overrule_notes = None\<rparr>"

definition check_invoice :: "invoice_dto \<Rightarrow> purchase_order \<Rightarrow> 'a purch_db_scheme \<Rightarrow> int res" where
  "check_invoice dto po db =
     (if po_status po \<notin> set PO_STATUSES_ALLOW_INVOICE
      then Inl (BadRequest ''La Orden de Compra debe estar aprobada para poder registrar una factura'')
      else case quoted_vendor po db of
        None \<Rightarrow> Inl (BadRequest ''La orden no tiene cotizacion asociada'')
      | Some w \<Rightarrow>
          if vd_vendor dto \<noteq> w
          then Inl (BadRequest ''El proveedor de la factura debe coincidir con el de la cotizacion'')
          else case vd_emission dto of
            None \<Rightarrow> Inl (BadRequest ''emissionDate invalida'')
          | Some e \<Rightarrow> if vd_due dto = DueInvalid then Inl (BadRequest ''dueDate invalida'') else Inr e)"

definition invoice_create ::
    "printing \<Rightarrow> id \<Rightarrow> invoice_dto \<Rightarrow> user \<Rightarrow> 'a bill_db_scheme \<Rightarrow> 'a bill_db_scheme res" where
  "invoice_create pr newId dto u db =
     (let tenant = user_tenant u in
      case find_row (\<lambda>x. po_id x = vd_order dto \<and> po_tenant x = tenant) (orders db) of
        None \<Rightarrow> Inl (NotFound ''Orden de compra no encontrada'')
      | Some po \<Rightarrow>
          and_then (assertUserHasContractAccess u (po_contract po)
            ''No tiene acceso al contrato de esta operacion'') (\<lambda>_.
          and_then (check_invoice dto po db) (\<lambda>emission.
          if list_ex (\<lambda>v. iv_id v = newId) (invoices db) then Inl UniqueViolation
          else
            let v = new_invoice pr newId dto emission tenant;
                db1 = db\<lparr>invoices := invoices db @ [v]\<rparr>;
                db2 = invoice_log tenant (user_id u) newId ''CREATE'' []
                  [(''event'', JStr ''invoice_created''), (''invoiceNumber'', JStr (iv_number v)),
                   (''totalAmount'', JNum (iv_total v)), iv_status_json IV_PENDING] db1
            in validateInvoiceMatch newId tenant (user_id u) db2)))"

record invoice_patch =
  vp_number :: "string option"
  vp_emission :: "int option option"
  vp_due :: due_field
  vp_total :: "qty option"
  vp_net :: "qty option option"
  vp_tax :: "qty option option"
  vp_pdf :: "string option option"

definition has_changes :: "invoice_patch \<Rightarrow> bool" where
  "has_changes p \<longleftrightarrow> vp_number p \<noteq> None \<or> vp_emission p \<noteq> None \<or> vp_due p \<noteq> DueAbsent \<or> vp_total p \<noteq> None
     \<or> vp_net p \<noteq> None \<or> vp_tax p \<noteq> None \<or> vp_pdf p \<noteq> None"

definition patch_invoice :: "printing \<Rightarrow> invoice_patch \<Rightarrow> invoice \<Rightarrow> invoice" where
  "patch_invoice pr p v =
     (let changed = (case vp_total p of None \<Rightarrow> False | Some t \<Rightarrow> t \<noteq> iv_total v);
          v1 = v\<lparr>iv_status := IV_PENDING,
            iv_number := (case vp_number p of None \<Rightarrow> iv_number v | Some n \<Rightarrow> trim n),
            iv_emission := (case vp_emission p of Some (Some e) \<Rightarrow> e | _ \<Rightarrow> iv_emission v),
            iv_due := (case vp_due p of DueOn d \<Rightarrow> Some d | DueEmpty \<Rightarrow> None | _ \<Rightarrow> iv_due v),
            iv_total := (case vp_total p of None \<Rightarrow> iv_total v | Some t \<Rightarrow> pr_money pr t),
            iv_net := (case vp_net p of None \<Rightarrow> iv_net v | Some n \<Rightarrow> map_option (pr_money pr) n),
            iv_tax := (case vp_tax p of None \<Rightarrow> iv_tax v | Some n \<Rightarrow> map_option (pr_money pr) n),
            iv_pdf := patched (vp_pdf p) (iv_pdf v)\<rparr>
      in if iv_overruled v \<and> changed then clear_overrule v1 else v1)"

definition invoice_snapshot :: "printing \<Rightarrow> invoice \<Rightarrow> (string \<times> json) list" where
  "invoice_snapshot pr v =
     (let num = (\<lambda>q. case q of None \<Rightarrow> JNull | Some x \<Rightarrow> JNum x) in
      [(''invoiceNumber'', JStr (iv_number v)), (''emissionDate'', JStr (pr_iso pr (iv_emission v))),
       (''dueDate'', case iv_due v of None \<Rightarrow> JNull | Some d \<Rightarrow> JStr (pr_iso pr d)),
       (''totalAmount'', JNum (iv_total v)), (''netAmount'', num (iv_net v)), (''taxAmount'', num (iv_tax v)),
       (''pdfUrl'', opt_json (iv_pdf v))])"

definition log_changes ::
    "id \<Rightarrow> id \<Rightarrow> id \<Rightarrow> (string \<times> json) list \<times> (string \<times> json) list \<Rightarrow> 'a bill_db_scheme \<Rightarrow> 'a bill_db_scheme" where
  "log_changes tenant uid i changes db =
     fold (\<lambda>(old, new). invoice_log tenant uid i ''UPDATE'' [old] [new]) (zip (fst changes) (snd changes)) db"

text \<open>The access check of an operation on an invoice, through the order of the tenant it bills.\<close>

definition assert_invoice_access :: "user \<Rightarrow> invoice \<Rightarrow> 'a purch_db_scheme \<Rightarrow> unit res" where
  "assert_invoice_access u v db =
     (case find_row (\<lambda>x. po_id x = iv_order v \<and> po_tenant x = user_tenant u) (orders db) of
        None \<Rightarrow> Inr ()
      | Some po \<Rightarrow> assertUserHasContractAccess u (po_contract po) ''No tiene acceso al contrato de esta operacion'')"

definition load_invoice :: "id \<Rightarrow> user \<Rightarrow> 'a bill_db_scheme \<Rightarrow> invoice res" where
  "load_invoice i u db =
     (case find_invoice i (user_tenant u) db of
        None \<Rightarrow> Inl (NotFound ''Factura no encontrada'')
      | Some v \<Rightarrow> Inr v)"

definition invoice_update ::
    "printing \<Rightarrow> invoice_patch \<Rightarrow> user \<Rightarrow> id \<Rightarrow> 'a bill_db_scheme \<Rightarrow> 'a bill_db_scheme res" where
  "invoice_update pr p u i db =
     and_then (load_invoice i u db) (\<lambda>v.
     if iv_status v = IV_PAID
     then Inl (BadRequest ''No se puede editar una factura marcada como pagada'')
     else and_then (assert_invoice_access u v db) (\<lambda>_.
       if \<not> has_changes p then Inl (BadRequest ''No se recibieron campos para actualizar'')
       else if vp_due p = DueInvalid then Inl (BadRequest ''dueDate invalida'')
       else if vp_emission p = Some None then Inl (InternalError ''emissionDate'')
       else
         let db1 = set_invoice i (patch_invoice pr p) db;
             db2 = log_changes (user_tenant u) (user_id u) i
               (pickChanged (invoice_snapshot pr v) (invoice_snapshot pr (patch_invoice pr p v))) db1
         in validateInvoiceMatch i (user_tenant u) (user_id u) db2))"

section \<open>Payment and removal\<close>

definition pay_invoice ::
    "string \<Rightarrow> int \<Rightarrow> (invoice \<Rightarrow> invoice) \<Rightarrow> (string \<times> json) list \<Rightarrow> user \<Rightarrow> id \<Rightarrow>
     'a bill_db_scheme \<Rightarrow> 'a bill_db_scheme res" where
  "pay_invoice refusal now extra entry u i db =
     and_then (load_invoice i u db) (\<lambda>v.
     if iv_status v \<noteq> IV_MATCHED
     then Inl (BadRequest refusal)
     else and_then (assert_invoice_access u v db) (\<lambda>_.
       Inr (invoice_log (user_tenant u) (user_id u) i ''STATUS_CHANGE'' [iv_status_json (iv_status v)]
         ([iv_status_json IV_PAID] @ entry)
         (set_invoice i (\<lambda>x. extra (x\<lparr>iv_status := IV_PAID, iv_paid_at := Some now\<rparr>)) db))))"

definition markPaid :: "int \<Rightarrow> user \<Rightarrow> id \<Rightarrow> 'a bill_db_scheme \<Rightarrow> 'a bill_db_scheme res" where
  "markPaid now =
     pay_invoice ''Solo se puede marcar como pagada una factura con match 3-way OK'' now (\<lambda>x. x) []"

definition recordPayment :: "int \<Rightarrow> string option \<Rightarrow> user \<Rightarrow> id \<Rightarrow> 'a bill_db_scheme \<Rightarrow> 'a bill_db_scheme res" where
  "recordPayment now reference u i db =
     (let r = trim_opt reference in
      if r = [] then Inl (BadRequest ''paymentReference es obligatorio'')
      else pay_invoice ''Solo se puede registrar pago de una factura con validacion 3-way OK'' now
        (\<lambda>x. x\<lparr>iv_reference := Some r\<rparr>) [(''paymentReference'', JStr r)] u i db)"

text \<open>The removal sets the invoice of its credit notes to null (\<open>onDelete: SetNull\<close>).\<close>

definition delete_invoice :: "id \<Rightarrow> 'a bill_db_scheme \<Rightarrow> 'a bill_db_scheme" where
  "delete_invoice i db =
     db\<lparr>invoices := filter (\<lambda>v. iv_id v \<noteq> i) (invoices db),
        credit_notes := update_rows (\<lambda>c. cn_invoice c = Some i) (\<lambda>c. c\<lparr>cn_invoice := None\<rparr>) (credit_notes db)\<rparr>"

definition invoice_remove :: "user \<Rightarrow> id \<Rightarrow> 'a bill_db_scheme \<Rightarrow> 'a bill_db_scheme res" where
  "invoice_remove u i db =
     and_then (load_invoice i u db) (\<lambda>v.
     if iv_status v = IV_PAID
     then Inl (BadRequest ''No se puede eliminar una factura ya marcada como pagada'')
     else and_then (assert_invoice_access u v db) (\<lambda>_.
       Inr (delete_invoice i (invoice_log (user_tenant u) (user_id u) i ''DELETE''
         [(''invoiceNumber'', JStr (iv_number v)), (''totalAmount'', JNum (iv_total v)),
          iv_status_json (iv_status v)] [] db))))"

section \<open>Credit notes\<close>

definition credit_log ::
    "user \<Rightarrow> id \<Rightarrow> string \<Rightarrow> (string \<times> json) list \<Rightarrow> (string \<times> json) list \<Rightarrow> 'a bill_db_scheme \<Rightarrow> 'a bill_db_scheme" where
  "credit_log u i action old new =
     audit_log \<lparr>lg_tenant = user_tenant u, lg_user = user_id u, lg_entity = ''PURCHASE_CREDIT_NOTE'',
       lg_entity_id = i, lg_action = action, lg_old = old, lg_new = new\<rparr>"

text \<open>The validations run one by one here; the errors of each are dropped (\<open>allSettled\<close>).\<close>

definition revalidate_one :: "id \<Rightarrow> id \<Rightarrow> id \<Rightarrow> 'a bill_db_scheme \<Rightarrow> 'a bill_db_scheme" where
  "revalidate_one tenant uid i db =
     (case validateInvoiceMatch i tenant uid db of Inl _ \<Rightarrow> db | Inr db1 \<Rightarrow> db1)"

definition revalidateAllInvoicesForOrder :: "id \<Rightarrow> id \<Rightarrow> id \<Rightarrow> 'a bill_db_scheme \<Rightarrow> 'a bill_db_scheme" where
  "revalidateAllInvoicesForOrder orderId tenant uid db =
     fold (revalidate_one tenant uid)
       (map iv_id (filter (\<lambda>v. iv_order v = orderId \<and> iv_tenant v = tenant \<and> iv_status v \<noteq> IV_PAID) (invoices db))) db"

record credit_dto =
  cd_order :: id
  cd_invoice :: "id option"
  cd_number :: string
  cd_emission :: "int option"
  cd_total :: qty
  cd_notes :: "string option"

definition credit_create ::
    "printing \<Rightarrow> id \<Rightarrow> credit_dto \<Rightarrow> user \<Rightarrow> 'a bill_db_scheme \<Rightarrow> 'a bill_db_scheme res" where
  "credit_create pr newId dto u db =
     (let tenant = user_tenant u; number = trim (cd_number dto) in
      if cd_total dto \<le> 0
      then Inl (BadRequest ''El monto de la nota de credito debe ser mayor a 0'')
      else case cd_emission dto of
        None \<Rightarrow> Inl (BadRequest ''emissionDate invalida'')
      | Some e \<Rightarrow>
          (case find_row (\<lambda>x. po_id x = cd_order dto \<and> po_tenant x = tenant) (orders db) of
             None \<Rightarrow> Inl (NotFound ''Orden de compra no encontrada'')
           | Some po \<Rightarrow>
               and_then (assertUserHasContractAccess u (po_contract po)
                 ''No tiene acceso al contrato de esta operacion'') (\<lambda>_.
               if (case or_null (cd_invoice dto) of None \<Rightarrow> False
                   | Some i \<Rightarrow> \<not> list_ex (\<lambda>v. iv_id v = i \<and> iv_order v = cd_order dto \<and> iv_tenant v = tenant) (invoices db))
               then Inl (BadRequest ''La factura indicada no pertenece a esta Orden de Compra'')
               else if list_ex (\<lambda>c. cn_tenant c = tenant \<and> cn_number c = number \<and> cn_order c = cd_order dto) (credit_notes db)
               then Inl (Conflict ''Ya existe una nota de credito con ese numero para esta Orden de Compra'')
               else
                 let c = \<lparr>cn_id = newId, cn_tenant = tenant, cn_order = cd_order dto, cn_invoice = cd_invoice dto,
                          cn_number = number, cn_emission = e, cn_total = pr_money pr (cd_total dto),
                          cn_notes = map_option trim (cd_notes dto)\<rparr>;
                     db1 = credit_log u newId ''CREATE'' []
                       [(''event'', JStr ''credit_note_created''), (''creditNoteNumber'', JStr number),
                        (''totalAmount'', JNum (cn_total c))] (db\<lparr>credit_notes := credit_notes db @ [c]\<rparr>)
                 in Inr (revalidateAllInvoicesForOrder (cd_order dto) tenant (user_id u) db1))))"

definition credit_remove :: "user \<Rightarrow> id \<Rightarrow> 'a bill_db_scheme \<Rightarrow> 'a bill_db_scheme res" where
  "credit_remove u i db =
     (let tenant = user_tenant u in
      case find_row (\<lambda>c. cn_id c = i \<and> cn_tenant c = tenant) (credit_notes db) of
        None \<Rightarrow> Inl (NotFound ''Nota de credito no encontrada'')
      | Some c \<Rightarrow>
          (case find_row (\<lambda>x. po_id x = cn_order c \<and> po_tenant x = tenant) (orders db) of
             None \<Rightarrow> Inl (NotFound ''Orden de compra no encontrada'')
           | Some po \<Rightarrow>
               and_then (assertUserHasContractAccess u (po_contract po)
                 ''No tiene acceso al contrato de esta operacion'') (\<lambda>_.
               if po_status po = PO_CLOSED
               then Inl (BadRequest ''No se puede modificar una Nota de Credito de una OC cerrada'')
               else
                 let db1 = credit_log u i ''DELETE''
                       [(''creditNoteNumber'', JStr (cn_number c)), (''totalAmount'', JNum (cn_total c))] [] db
                 in Inr (revalidateAllInvoicesForOrder (cn_order c) tenant (user_id u)
                      (db1\<lparr>credit_notes := filter (\<lambda>x. cn_id x \<noteq> i) (credit_notes db1)\<rparr>)))))"

section \<open>Reconciliation of a requisition\<close>

record reconciliation =
  rn_lines :: nat
  rn_procurement :: nat
  rn_received :: nat
  rn_invoiced :: nat
  rn_adjudicated :: nat
  rn_all_reconciled :: bool
  rn_matrix :: qty
  rn_invoices :: qty
  rn_currency :: "string option"
  rn_exceeded :: bool

text \<open>The active orders of a requisition, by its id or by that of their quotation.\<close>

definition orders_of_requisition :: "id \<Rightarrow> id \<Rightarrow> 'a purch_db_scheme \<Rightarrow> purchase_order list" where
  "orders_of_requisition tenant i db =
     filter (\<lambda>po. po_tenant po = tenant \<and> order_active po
       \<and> (po_requisition po = Some i \<or> po_quotation_requisition po = Some i)) (orders db)"

definition invoices_of_order :: "purchase_order \<Rightarrow> 'a bill_db_scheme \<Rightarrow> invoice list" where
  "invoices_of_order po db = filter (\<lambda>v. iv_order v = po_id po) (invoices db)"

text \<open>What the receipts of the order, whatever their status, registered for a line.\<close>

definition received_by_item :: "purchase_order \<Rightarrow> id \<Rightarrow> 'a purch_db_scheme \<Rightarrow> qty" where
  "received_by_item po oi db = sum_rows (\<lambda>r. rc_order r = po_id po) (receipt_received oi) (receipts db)"

text \<open>The line of the requisition with an award; of two with the same award the later.\<close>

definition line_by_source :: "requisition_item list \<Rightarrow> id \<Rightarrow> id option" where
  "line_by_source ls source = map_option rl_id (find_row (\<lambda>l. rl_award l = Some source) (rev ls))"

text \<open>The lines of the requisition that the lines of the orders cover, where a condition holds.\<close>

definition covered_lines ::
    "requisition_item list \<Rightarrow> (purchase_order \<Rightarrow> order_item \<Rightarrow> bool) \<Rightarrow> purchase_order list \<Rightarrow> id list" where
  "covered_lines ls p pos =
     remdups (concat (map (\<lambda>po. List.map_filter (\<lambda>x.
        if p po x then Option.bind (or_null (oi_source_quotation_item x)) (line_by_source ls) else None)
        (po_items po)) pos))"

text \<open>The lines of quotations that the awards name, each with its quotation.\<close>

definition awarded_quotes :: "id list \<Rightarrow> 'a purch_db_scheme \<Rightarrow> (quotation \<times> quotation_item) list" where
  "awarded_quotes awards db =
     concat (map (\<lambda>q. map (Pair q) (filter (\<lambda>x. qi_id x \<in> set awards) (qt_items q))) (quotations db))"

definition quoted_amount :: "'a purch_db_scheme \<Rightarrow> quotation_item \<Rightarrow> qty" where
  "quoted_amount db x = qi_price x * (case line_of (qi_line x) db of None \<Rightarrow> 0 | Some l \<Rightarrow> rl_qty l)"

definition buildRequisitionReconciliationSnapshot ::
    "id \<Rightarrow> id \<Rightarrow> requisition_item list \<Rightarrow> 'a bill_db_scheme \<Rightarrow> reconciliation" where
  "buildRequisitionReconciliationSnapshot tenant i ls db =
     (let awards = List.map_filter rl_award ls;
          quotes = awarded_quotes awards db;
          matrix = sum_list (map (\<lambda>(q, x). quoted_amount db x) quotes);
          pos = orders_of_requisition tenant i db;
          bought_lines = covered_lines ls (\<lambda>po x. True) pos;
          received = covered_lines ls (\<lambda>po x. received_by_item po (oi_id x) db + 1 / 1000000 \<ge> oi_qty x) pos;
          invoiced = covered_lines ls (\<lambda>po x. invoices_of_order po db \<noteq> []) pos;
          total = sum_list (map (\<lambda>po. sum_list (map iv_total (invoices_of_order po db))) pos);
          adjudicated = map rl_id (filter (\<lambda>l. rl_award l \<noteq> None) ls)
      in \<lparr>rn_lines = length ls, rn_procurement = length bought_lines,
          rn_received = length (filter (\<lambda>l. l \<in> set bought_lines) received),
          rn_invoiced = length (filter (\<lambda>l. l \<in> set bought_lines) invoiced),
          rn_adjudicated = length adjudicated,
          rn_all_reconciled = (adjudicated \<noteq> []
            \<and> list_all (\<lambda>l. l \<in> set bought_lines \<and> l \<in> set received \<and> l \<in> set invoiced) adjudicated),
          rn_matrix = matrix, rn_invoices = total,
          rn_currency = find_row (\<lambda>c. c \<noteq> []) (map (\<lambda>(q, x). qt_currency q) quotes @ map po_currency pos),
          rn_exceeded = (matrix > 0 \<and> total > matrix + 1 / 100)\<rparr>)"

definition tryAutoCloseRequisitionIfFullyReconciled ::
    "id \<Rightarrow> string option \<Rightarrow> string option \<Rightarrow> 'a bill_db_scheme \<Rightarrow> 'a bill_db_scheme \<times> bool" where
  "tryAutoCloseRequisitionIfFullyReconciled tenant requisitionId actor db =
     (let rid = trim_opt requisitionId; uid = trim_opt actor in
      if rid = [] \<or> uid = [] then (db, False)
      else case find_row (\<lambda>r. rq_id r = rid \<and> rq_tenant r = tenant) (requisitions db) of
        None \<Rightarrow> (db, False)
      | Some r \<Rightarrow>
          if rq_status r \<in> {RQ_CLOSED, RQ_REJECTED, RQ_CANCELLED, RQ_DRAFT} then (db, False)
          else if \<not> rn_all_reconciled (buildRequisitionReconciliationSnapshot tenant (rq_id r) (rq_items r) db)
          then (db, False)
          else (audit_log \<lparr>lg_tenant = tenant, lg_user = uid, lg_entity = ''REQUISITION'',
                  lg_entity_id = rq_id r, lg_action = ''STATUS_CHANGE'', lg_old = [rq_status_json (rq_status r)],
                  lg_new = [rq_status_json RQ_CLOSED]\<rparr>
                (set_requisition (rq_id r) (\<lambda>x. x\<lparr>rq_status := RQ_CLOSED\<rparr>) db), True))"

section \<open>The payment calendar\<close>

definition effectiveDueForCalendar :: "invoice \<Rightarrow> int" where
  "effectiveDueForCalendar v =
     (case iv_due v of Some d \<Rightarrow> d | None \<Rightarrow> defaultDueDateFromEmission (iv_emission v))"

record calendar_day =
  dy_day :: int
  dy_matched :: qty
  dy_discrepancy :: qty
  dy_pending :: qty
  dy_matched_count :: nat
  dy_discrepancy_count :: nat
  dy_pending_count :: nat

definition empty_day :: "int \<Rightarrow> calendar_day" where
  "empty_day d = \<lparr>dy_day = d, dy_matched = 0, dy_discrepancy = 0, dy_pending = 0, dy_matched_count = 0,
     dy_discrepancy_count = 0, dy_pending_count = 0\<rparr>"

definition count_due :: "invoice \<Rightarrow> calendar_day \<Rightarrow> calendar_day" where
  "count_due v a =
     (case iv_status v of
        IV_MATCHED \<Rightarrow> a\<lparr>dy_matched := dy_matched a + iv_total v, dy_matched_count := dy_matched_count a + 1\<rparr>
      | IV_DISCREPANCY \<Rightarrow> a\<lparr>dy_discrepancy := dy_discrepancy a + iv_total v,
            dy_discrepancy_count := dy_discrepancy_count a + 1\<rparr>
      | IV_PENDING \<Rightarrow> a\<lparr>dy_pending := dy_pending a + iv_total v, dy_pending_count := dy_pending_count a + 1\<rparr>
      | IV_PAID \<Rightarrow> a)"

text \<open>The rows the database returns: unpaid, of the contract, due in the range or, without a due date,
  issued in a wider one.\<close>

definition calendar_rows :: "id \<Rightarrow> id \<Rightarrow> int \<Rightarrow> int \<Rightarrow> 'a bill_db_scheme \<Rightarrow> invoice list" where
  "calendar_rows tenant contract start stop db =
     filter (\<lambda>v. iv_tenant v = tenant \<and> iv_status v \<in> {IV_PENDING, IV_MATCHED, IV_DISCREPANCY}
       \<and> list_ex (\<lambda>po. po_id po = iv_order v \<and> po_contract po = contract) (orders db)
       \<and> (case iv_due v of
            Some d \<Rightarrow> start \<le> d \<and> d \<le> stop
          | None \<Rightarrow> addUtcDays start (-40) \<le> iv_emission v \<and> iv_emission v \<le> addUtcDays stop (-20))) (invoices db)"

definition day_of :: "int \<Rightarrow> int" where "day_of instant = instant div day_ms"

definition add_due :: "int \<Rightarrow> int \<Rightarrow> invoice \<Rightarrow> (int \<Rightarrow> calendar_day option) \<Rightarrow> (int \<Rightarrow> calendar_day option)" where
  "add_due start stop v byDay =
     (let eff = effectiveDueForCalendar v; key = day_of eff in
      if eff < start \<or> eff > stop then byDay
      else byDay(key \<mapsto> count_due v (case byDay key of None \<Rightarrow> empty_day key | Some a \<Rightarrow> a)))"

text \<open>The cursor of the loop runs from noon to noon.\<close>

function calendar_loop ::
    "(int \<Rightarrow> calendar_day option) \<Rightarrow> int \<Rightarrow> int \<Rightarrow> calendar_day list \<Rightarrow> calendar_day list" where
  "calendar_loop byDay cursor stop out =
     (if cursor > stop then out
      else calendar_loop byDay (addUtcDays cursor 1) stop
        (out @ [case byDay (day_of cursor) of None \<Rightarrow> empty_day (day_of cursor) | Some a \<Rightarrow> a]))"
  by pat_completeness auto
termination
  by (relation "measure (\<lambda>(_, cursor, stop, _). nat (stop + 1 - cursor))") (auto simp: addUtcDays_def day_ms_def)

declare calendar_loop.simps [simp del]

definition getPaymentCalendar ::
    "user \<Rightarrow> int option \<Rightarrow> int option \<Rightarrow> id \<Rightarrow> 'a bill_db_scheme \<Rightarrow> calendar_day list res" where
  "getPaymentCalendar u from_day to_day contract db =
     (case (from_day, to_day) of
        (Some f, Some t) \<Rightarrow>
          if f > t then Inl (BadRequest ''from debe ser anterior o igual a to'')
          else
            let start = f * day_ms; stop = t * day_ms + day_ms - 1;
                byDay = fold (add_due start stop) (calendar_rows (user_tenant u) contract start stop db) Map.empty
            in Inr (calendar_loop byDay (f * day_ms + day_ms div 2) (t * day_ms + day_ms div 2) [])
      | _ \<Rightarrow> Inl (BadRequest ''Use una fecha en formato YYYY-MM-DD''))"

end
