(* ===== verification/Invoice_Properties.thy ===== *)
theory Invoice_Properties
  imports Invoices Procurement_Properties
begin

text \<open>
  What the invoices of an order are: the verdict of their validation, the shape every operation
  keeps, the payment calendar, and a history that pays more than was received.
\<close>

section \<open>The verdict of a validation\<close>

lemma sum_rows_update_same:
  "(\<And>x. p (g x) = p x) \<Longrightarrow> (\<And>x. f (g x) = f x) \<Longrightarrow> sum_rows p f (update_rows q g rows) = sum_rows p f rows"
  by (induction rows) simp_all

lemma bill_frame [simp]:
  "invoices (invoice_log t u i a old new db) = invoices db"
  "credit_notes (invoice_log t u i a old new db) = credit_notes db"
  "orders (invoice_log t u i a old new db) = orders db"
  "receipts (invoice_log t u i a old new db) = receipts db"
  "purchase_settings (invoice_log t u i a old new db) = purchase_settings db"
  "invoices (credit_log v i a old new db) = invoices db"
  "credit_notes (credit_log v i a old new db) = credit_notes db"
  "orders (credit_log v i a old new db) = orders db"
  "receipts (credit_log v i a old new db) = receipts db"
  "invoices (set_invoice i f db) = update_rows (\<lambda>x. iv_id x = i) f (invoices db)"
  "credit_notes (set_invoice i f db) = credit_notes db" "orders (set_invoice i f db) = orders db"
  "receipts (set_invoice i f db) = receipts db" "purchase_settings (set_invoice i f db) = purchase_settings db"
  by (simp_all add: invoice_log_def credit_log_def audit_log_def set_invoice_def)

lemma log_match_frame [simp]:
  "invoices (log_match t u v nums st db) = invoices db"
  "credit_notes (log_match t u v nums st db) = credit_notes db"
  "orders (log_match t u v nums st db) = orders db" "receipts (log_match t u v nums st db) = receipts db"
  "purchase_settings (log_match t u v nums st db) = purchase_settings db"
  by (simp_all add: log_match_def)

text \<open>The amounts depend on the totals of the invoices, not on what a validation writes.\<close>

lemma clear_overrule_fields [simp]:
  "iv_id (clear_overrule v) = iv_id v" "iv_tenant (clear_overrule v) = iv_tenant v"
  "iv_order (clear_overrule v) = iv_order v" "iv_total (clear_overrule v) = iv_total v"
  "iv_status (clear_overrule v) = iv_status v" "iv_overruled (clear_overrule v) = False"
  "iv_paid_at (clear_overrule v) = iv_paid_at v" "iv_reference (clear_overrule v) = iv_reference v"
  "iv_overruled_at (clear_overrule v) = None" "iv_overruled_by (clear_overrule v) = None"
  "iv_overrule_notes (clear_overrule v) = None"
  by (simp_all add: clear_overrule_def)

lemma invoice_numbers_clear [simp]:
  "invoice_numbers t (clear_overrule v) po (set_invoice i clear_overrule db) = invoice_numbers t v po db"
  by (simp add: invoice_numbers_def computeAccumulatedInvoiceAmount_def sum_rows_update_same
      computeThreeWayMatchNumbers_def computeReceivedAmountForPurchaseOrder_def unit_cost_of_def
      computeAccumulatedCreditNoteAmount_def tolerance_percent_def settings_of_def Let_def)

definition verdict :: "match_numbers \<Rightarrow> invoice \<Rightarrow> invoice_status" where
  "verdict nums v =
     (if mn_match_received nums \<and> (iv_overruled v \<or> mn_match_po nums) then IV_MATCHED else IV_DISCREPANCY)"

definition settled :: "match_numbers \<Rightarrow> invoice \<Rightarrow> invoice \<Rightarrow> invoice" where
  "settled nums v x =
     (if iv_overruled v \<and> \<not> mn_match_received nums then clear_overrule x else x)\<lparr>iv_status := verdict nums v\<rparr>"

lemma update_rows_twice:
  "(\<And>x. q (g x) = q x) \<Longrightarrow> update_rows q f (update_rows q g rows) = update_rows q (\<lambda>x. f (g x)) rows"
  by (induction rows) simp_all

lemma validate_InrE:
  assumes "validateInvoiceMatch i tenant uid db = Inr db'"
  obtains v po where "find_invoice i tenant db = Some v" "iv_status v \<noteq> IV_PAID"
    "order_of_invoice v db = Some po"
    "invoices db' = update_rows (\<lambda>x. iv_id x = i) (settled (invoice_numbers tenant v po db) v) (invoices db)"
    "credit_notes db' = credit_notes db" "orders db' = orders db" "receipts db' = receipts db"
    "purchase_settings db' = purchase_settings db"
proof -
  obtain v po where v: "find_invoice i tenant db = Some v" "iv_status v \<noteq> IV_PAID"
      "order_of_invoice v db = Some po"
    using assms by (auto simp: validateInvoiceMatch_def split: option.splits if_splits)
  have "invoices db' = update_rows (\<lambda>x. iv_id x = i) (settled (invoice_numbers tenant v po db) v) (invoices db)
      \<and> credit_notes db' = credit_notes db \<and> orders db' = orders db \<and> receipts db' = receipts db
      \<and> purchase_settings db' = purchase_settings db"
    using assms v
    by (auto simp: validateInvoiceMatch_def Let_def settled_def[abs_def] verdict_def update_rows_twice split: if_splits)
  with v that show ?thesis by blast
qed


section \<open>The shape of the invoices\<close>

definition invoice_ok :: "invoice \<Rightarrow> bool" where
  "invoice_ok v \<longleftrightarrow> iv_status v \<noteq> IV_PENDING \<and> (iv_status v = IV_PAID \<longleftrightarrow> iv_paid_at v \<noteq> None)
     \<and> (iv_reference v \<noteq> None \<longrightarrow> iv_status v = IV_PAID)
     \<and> (iv_overruled v \<longrightarrow> iv_status v \<in> {IV_MATCHED, IV_PAID})
     \<and> (if iv_overruled v
        then iv_overruled_at v \<noteq> None \<and> iv_overruled_by v \<noteq> None
          \<and> (\<exists>n. iv_overrule_notes v = Some n \<and> 15 \<le> length n)
        else iv_overruled_at v = None \<and> iv_overruled_by v = None \<and> iv_overrule_notes v = None)"

definition billing_ok :: "'a bill_db_scheme \<Rightarrow> bool" where
  "billing_ok db \<longleftrightarrow> distinct (map iv_id (invoices db)) \<and> (\<forall>v \<in> set (invoices db). invoice_ok v)"

inductive billing_op :: "printing \<Rightarrow> 'a bill_db_scheme \<Rightarrow> 'a bill_db_scheme \<Rightarrow> bool" for pr where
  registered: "invoice_create pr newId dto u db = Inr db' \<Longrightarrow> billing_op pr db db'"
| changed: "invoice_update pr p u i db = Inr db' \<Longrightarrow> billing_op pr db db'"
| validated: "validateInvoiceMatch i tenant uid db = Inr db' \<Longrightarrow> billing_op pr db db'"
| accepted: "overruleThreeWayMatch i notes now u db = Inr db' \<Longrightarrow> billing_op pr db db'"
| paid: "markPaid now u i db = Inr db' \<Longrightarrow> billing_op pr db db'"
| paid_with: "recordPayment now reference u i db = Inr db' \<Longrightarrow> billing_op pr db db'"
| removed: "invoice_remove u i db = Inr db' \<Longrightarrow> billing_op pr db db'"
| credited: "credit_create pr newId cdto u db = Inr db' \<Longrightarrow> billing_op pr db db'"
| uncredited: "credit_remove u i db = Inr db' \<Longrightarrow> billing_op pr db db'"
| closed: "tryAutoCloseRequisitionIfFullyReconciled tenant rid actor db = (db', b) \<Longrightarrow> billing_op pr db db'"

text \<open>\<open>elsewhere\<close> is any step of another module, which writes neither table.\<close>

inductive billing_step :: "printing \<Rightarrow> 'a bill_db_scheme \<Rightarrow> 'a bill_db_scheme \<Rightarrow> bool" for pr where
  own: "billing_op pr db db' \<Longrightarrow> billing_step pr db db'"
| elsewhere: "invoices db' = invoices db \<Longrightarrow> credit_notes db' = credit_notes db \<Longrightarrow> billing_step pr db db'"

text \<open>A validation makes the shape whole: it may start from a pending invoice.\<close>

definition nearly_ok :: "invoice \<Rightarrow> bool" where
  "nearly_ok v \<longleftrightarrow> (iv_status v = IV_PAID \<longleftrightarrow> iv_paid_at v \<noteq> None)
     \<and> (iv_reference v \<noteq> None \<longrightarrow> iv_status v = IV_PAID)
     \<and> (if iv_overruled v
        then iv_overruled_at v \<noteq> None \<and> iv_overruled_by v \<noteq> None
          \<and> (\<exists>n. iv_overrule_notes v = Some n \<and> 15 \<le> length n)
        else iv_overruled_at v = None \<and> iv_overruled_by v = None \<and> iv_overrule_notes v = None)"

lemma ok_nearly: "invoice_ok v \<Longrightarrow> nearly_ok v"
  by (auto simp: invoice_ok_def nearly_ok_def)

lemma settled_ok: "nearly_ok v \<Longrightarrow> iv_status v \<noteq> IV_PAID \<Longrightarrow> invoice_ok (settled nums v v)"
  by (auto simp: nearly_ok_def invoice_ok_def settled_def verdict_def clear_overrule_def)

lemma update_ids:
  "(\<And>x. iv_id (f x) = iv_id x) \<Longrightarrow> map iv_id (update_rows q f xs) = map iv_id xs"
  by (induction xs) auto

lemma settled_id [simp]: "iv_id (settled nums v x) = iv_id x"
  by (simp add: settled_def)

lemma validate_ok:
  assumes "validateInvoiceMatch i tenant uid db = Inr db'" and "distinct (map iv_id (invoices db))"
    and others: "\<And>x. x \<in> set (invoices db) \<Longrightarrow> iv_id x \<noteq> i \<Longrightarrow> invoice_ok x"
    and own: "\<And>x. x \<in> set (invoices db) \<Longrightarrow> iv_id x = i \<Longrightarrow> nearly_ok x"
  shows "billing_ok db'"
proof -
  obtain v po where v: "find_invoice i tenant db = Some v" "iv_status v \<noteq> IV_PAID"
    and inv: "invoices db' = update_rows (\<lambda>x. iv_id x = i) (settled (invoice_numbers tenant v po db) v) (invoices db)"
    using assms(1) by (rule validate_InrE)
  have mem: "v \<in> set (invoices db)" "iv_id v = i"
    using v(1) by (auto simp: find_invoice_def dest: find_row_SomeD)
  have only: "x = v" if "x \<in> set (invoices db)" "iv_id x = i" for x
    using assms(2) mem that by (metis distinct_map inj_onD)
  have "invoice_ok x" if "x \<in> set (invoices db')" for x
    using that others only settled_ok[OF own[OF mem] v(2)] by (auto simp: inv set_update_rows)
  moreover have "distinct (map iv_id (invoices db'))"
    using assms(2) by (simp add: inv update_ids)
  ultimately show ?thesis by (simp add: billing_ok_def)
qed

lemma validate_keeps: "validateInvoiceMatch i tenant uid db = Inr db' \<Longrightarrow> billing_ok db \<Longrightarrow> billing_ok db'"
  by (erule validate_ok) (auto simp: billing_ok_def ok_nearly)

lemma revalidate_keeps: "billing_ok db \<Longrightarrow> billing_ok (revalidateAllInvoicesForOrder oid tenant uid db)"
proof -
  have "billing_ok db \<Longrightarrow> billing_ok (fold (revalidate_one tenant uid) xs db)" for xs
    by (induction xs arbitrary: db)
       (auto simp: revalidate_one_def intro: validate_keeps split: sum.splits)
  then show "billing_ok db \<Longrightarrow> ?thesis" by (simp add: revalidateAllInvoicesForOrder_def)
qed

lemma billing_cong: "invoices db' = invoices db \<Longrightarrow> billing_ok db' = billing_ok db"
  for db db' :: "'a bill_db_scheme"
  by (simp add: billing_ok_def)

lemma new_invoice_shape [simp]:
  "iv_id (new_invoice pr newId dto e t) = newId" "nearly_ok (new_invoice pr newId dto e t)"
  by (simp_all add: new_invoice_def nearly_ok_def)

lemma create_keeps:
  assumes "invoice_create pr newId dto u db = Inr db'" and ok: "billing_ok db"
  shows "billing_ok db'"
proof -
  obtain e where run: "validateInvoiceMatch newId (user_tenant u) (user_id u)
      (invoice_log (user_tenant u) (user_id u) newId ''CREATE'' []
        [(''event'', JStr ''invoice_created''), (''invoiceNumber'', JStr (iv_number (new_invoice pr newId dto e (user_tenant u)))),
         (''totalAmount'', JNum (iv_total (new_invoice pr newId dto e (user_tenant u)))), iv_status_json IV_PENDING]
        (db\<lparr>invoices := invoices db @ [new_invoice pr newId dto e (user_tenant u)]\<rparr>)) = Inr db'"
    and fresh: "newId \<notin> iv_id ` set (invoices db)"
    using assms(1)
    by (auto simp: invoice_create_def Let_def and_then_eq_Inr list_ex_iff split: option.splits if_splits)
  let ?v = "new_invoice pr newId dto e (user_tenant u)"
  have "invoice_ok x" if "x \<in> set (invoices db @ [?v])" "iv_id x \<noteq> newId" for x
    using that ok by (auto simp: billing_ok_def)
  moreover have "nearly_ok x" if "x \<in> set (invoices db @ [?v])" "iv_id x = newId" for x
  proof -
    have "x = ?v" using that fresh by auto
    then show ?thesis by (simp only: new_invoice_shape)
  qed
  moreover have "distinct (map iv_id (invoices db @ [?v]))" using ok fresh by (simp add: billing_ok_def)
  ultimately show ?thesis by (intro validate_ok[OF run]; simp)
qed

lemma log_fold:
  "invoices (fold (\<lambda>(old, new). invoice_log t u i ''UPDATE'' [old] [new]) xs db) = invoices db
   \<and> credit_notes (fold (\<lambda>(old, new). invoice_log t u i ''UPDATE'' [old] [new]) xs db) = credit_notes db"
  by (induction xs arbitrary: db) auto

lemma log_changes_frame [simp]:
  "invoices (log_changes t u i cs db) = invoices db" "credit_notes (log_changes t u i cs db) = credit_notes db"
  unfolding log_changes_def using log_fold by blast+

lemma patch_invoice_shape:
  "iv_id (patch_invoice pr p v) = iv_id v"
  "invoice_ok v \<Longrightarrow> iv_status v \<noteq> IV_PAID \<Longrightarrow> nearly_ok (patch_invoice pr p v)"
  by (auto simp: patch_invoice_def Let_def invoice_ok_def nearly_ok_def clear_overrule_def)

text \<open>An operation that replaces one invoice.\<close>

lemma replace_ok:
  assumes "billing_ok db" and "find_invoice i tenant db = Some v"
    and "invoices db' = update_rows (\<lambda>x. iv_id x = i) f (invoices db)"
    and "\<And>x. iv_id (f x) = iv_id x" and "invoice_ok (f v)"
  shows "billing_ok db'"
proof -
  have mem: "v \<in> set (invoices db)" "iv_id v = i"
    using assms(2) by (auto simp: find_invoice_def dest: find_row_SomeD)
  have only: "x = v" if "x \<in> set (invoices db)" "iv_id x = i" for x
    using assms(1) mem that by (metis billing_ok_def distinct_map inj_onD)
  show ?thesis
    using assms only by (auto simp: billing_ok_def set_update_rows update_ids)
qed

lemma update_keeps:
  assumes "invoice_update pr p u i db = Inr db'" and ok: "billing_ok db"
  shows "billing_ok db'"
proof -
  obtain v where v: "find_invoice i (user_tenant u) db = Some v" "iv_status v \<noteq> IV_PAID"
    and run: "validateInvoiceMatch i (user_tenant u) (user_id u)
      (log_changes (user_tenant u) (user_id u) i
        (pickChanged (invoice_snapshot pr v) (invoice_snapshot pr (patch_invoice pr p v)))
        (set_invoice i (patch_invoice pr p) db)) = Inr db'"
    using assms(1)
    by (auto simp: invoice_update_def load_invoice_def Let_def and_then_eq_Inr split: option.splits if_splits)
  have mem: "v \<in> set (invoices db)" "iv_id v = i"
    using v(1) by (auto simp: find_invoice_def dest: find_row_SomeD)
  have only: "x = v" if "x \<in> set (invoices db)" "iv_id x = i" for x
    using ok mem that by (metis billing_ok_def distinct_map inj_onD)
  let ?inv = "update_rows (\<lambda>x. iv_id x = i) (patch_invoice pr p) (invoices db)"
  have source: "x \<in> set (invoices db) \<and> iv_id x \<noteq> i \<or> x = patch_invoice pr p v" if "x \<in> set ?inv" for x
    using that only by (auto simp: set_update_rows)
  have "nearly_ok (patch_invoice pr p v)" "iv_id (patch_invoice pr p v) = i"
    using ok v mem by (auto simp: billing_ok_def patch_invoice_shape)
  moreover have "distinct (map iv_id ?inv)" using ok by (simp add: billing_ok_def update_ids patch_invoice_shape)
  ultimately show ?thesis
    by (intro validate_ok[OF run]; simp) (use ok source in \<open>auto simp: billing_ok_def\<close>)
qed

lemma pay_keeps:
  assumes "pay_invoice refusal now f entry u i db = Inr db'" and ok: "billing_ok db"
    and f: "\<And>x. iv_id (f x) = iv_id x" "\<And>v. invoice_ok v \<Longrightarrow> iv_status v = IV_MATCHED
      \<Longrightarrow> invoice_ok (f (v\<lparr>iv_status := IV_PAID, iv_paid_at := Some now\<rparr>))"
  shows "billing_ok db'"
proof -
  obtain v where v: "find_invoice i (user_tenant u) db = Some v" "iv_status v = IV_MATCHED"
    and inv: "invoices db' = update_rows (\<lambda>x. iv_id x = i)
      (\<lambda>x. f (x\<lparr>iv_status := IV_PAID, iv_paid_at := Some now\<rparr>)) (invoices db)"
    using assms(1)
    by (auto simp: pay_invoice_def load_invoice_def and_then_eq_Inr split: option.splits if_splits)
  have "invoice_ok v" using ok v(1) by (auto simp: billing_ok_def find_invoice_def dest: find_row_SomeD)
  then show ?thesis using replace_ok[OF ok v(1) inv] f v(2) by simp
qed

lemma overrule_keeps:
  assumes "overruleThreeWayMatch i notes now u db = Inr db'" and ok: "billing_ok db"
  shows "billing_ok db'"
proof -
  obtain v where v: "find_invoice i (user_tenant u) db = Some v" "iv_status v = IV_DISCREPANCY"
      "15 \<le> length (trim_opt notes)"
    and inv: "invoices db' = update_rows (\<lambda>x. iv_id x = i)
      (\<lambda>x. x\<lparr>iv_status := IV_MATCHED, iv_overruled := True, iv_overruled_at := Some now,
         iv_overruled_by := Some (user_id u), iv_overrule_notes := Some (trim_opt notes)\<rparr>) (invoices db)"
    using assms(1)
    by (auto simp: overruleThreeWayMatch_def Let_def and_then_eq_Inr split: option.splits if_splits)
  have "invoice_ok v" using ok v(1) by (auto simp: billing_ok_def find_invoice_def dest: find_row_SomeD)
  then show ?thesis using v by (intro replace_ok[OF ok v(1) inv]) (auto simp: invoice_ok_def)
qed

lemma remove_keeps: "invoice_remove u i db = Inr db' \<Longrightarrow> billing_ok db \<Longrightarrow> billing_ok db'"
  by (auto simp: invoice_remove_def and_then_eq_Inr delete_invoice_def billing_ok_def distinct_map_filter
      split: if_splits)

lemma credit_create_keeps: "credit_create pr newId dto u db = Inr db' \<Longrightarrow> billing_ok db \<Longrightarrow> billing_ok db'"
  by (auto simp: credit_create_def Let_def and_then_eq_Inr split: option.splits if_splits
      intro!: revalidate_keeps) (simp_all add: billing_ok_def)

lemma credit_remove_keeps: "credit_remove u i db = Inr db' \<Longrightarrow> billing_ok db \<Longrightarrow> billing_ok db'"
  by (auto simp: credit_remove_def Let_def and_then_eq_Inr split: option.splits if_splits
      intro!: revalidate_keeps) (simp_all add: billing_ok_def)

lemma auto_close_frame:
  "tryAutoCloseRequisitionIfFullyReconciled tenant rid actor db = (db', b) \<Longrightarrow>
   invoices db' = invoices db \<and> credit_notes db' = credit_notes db"
  by (auto simp: tryAutoCloseRequisitionIfFullyReconciled_def Let_def audit_log_def set_requisition_def
      split: if_splits option.splits)

lemma billing_op_keeps: "billing_op pr db db' \<Longrightarrow> billing_ok db \<Longrightarrow> billing_ok db'"
proof (induction rule: billing_op.induct)
  case (paid now u i db db')
  then show ?case unfolding markPaid_def by (rule pay_keeps) (auto simp: invoice_ok_def)
next
  case (paid_with now reference u i db db')
  then have "pay_invoice ''Solo se puede registrar pago de una factura con validacion 3-way OK'' now
      (\<lambda>x. x\<lparr>iv_reference := Some (trim_opt reference)\<rparr>)
      [(''paymentReference'', JStr (trim_opt reference))] u i db = Inr db'"
    by (simp add: recordPayment_def Let_def split: if_splits)
  then show ?case using paid_with(2) by (rule pay_keeps) (auto simp: invoice_ok_def)
next
  case (closed tenant rid actor db db' b)
  then show ?case using auto_close_frame billing_cong by blast
qed (blast intro: create_keeps update_keeps validate_keeps overrule_keeps remove_keeps credit_create_keeps
      credit_remove_keeps)+

lemma billing_step_keeps: "billing_step pr db db' \<Longrightarrow> billing_ok db \<Longrightarrow> billing_ok db'"
  by (erule billing_step.cases) (blast intro: billing_op_keeps, blast dest: billing_cong)

text \<open>
  C40. The shape of the invoices. Through any run of the operations of the module and of the others,
  from a company without invoices: keys are unique; an invoice at rest is matched, in discrepancy or
  paid, never pending; it has a payment date exactly when it is paid, and a payment reference only
  then; an accepted discrepancy is matched or paid and keeps its author, its date and a
  justification of at least fifteen characters, and an invoice that was not accepted has none of them.
\<close>
theorem invoices_keep_their_shape:
  assumes "(billing_step pr)\<^sup>*\<^sup>* db db'" and "invoices db = []"
  shows "distinct (map iv_id (invoices db')) \<and> (\<forall>v \<in> set (invoices db'). invoice_ok v)"
proof -
  have "billing_ok db" using assms(2) by (simp add: billing_ok_def)
  with assms(1) have "billing_ok db'" by (induction rule: rtranclp_induct) (auto intro: billing_step_keeps)
  then show ?thesis by (simp add: billing_ok_def)
qed

section \<open>The payment calendar\<close>

lemma noon: "addUtcDays (d * day_ms + day_ms div 2) 1 = (d + 1) * day_ms + day_ms div 2"
  "day_of (d * day_ms + day_ms div 2) = d"
  by (simp_all add: addUtcDays_def day_of_def day_ms_def algebra_simps)

definition row_of :: "(int \<Rightarrow> calendar_day option) \<Rightarrow> int \<Rightarrow> calendar_day" where
  "row_of byDay k = (case byDay k of None \<Rightarrow> empty_day k | Some a \<Rightarrow> a)"

lemma calendar_loop_rows:
  "calendar_loop byDay (d * day_ms + day_ms div 2) (t * day_ms + day_ms div 2) out = out @ map (row_of byDay) [d..t]"
proof (induction "nat (t + 1 - d)" arbitrary: d out)
  case 0
  then show ?case by (subst calendar_loop.simps) (simp add: day_ms_def)
next
  case (Suc n)
  then have "d \<le> t" by simp
  then have "calendar_loop byDay (d * day_ms + day_ms div 2) (t * day_ms + day_ms div 2) out
      = calendar_loop byDay ((d + 1) * day_ms + day_ms div 2) (t * day_ms + day_ms div 2) (out @ [row_of byDay d])"
    by (subst calendar_loop.simps) (simp only: noon row_of_def, simp add: day_ms_def)
  also have "\<dots> = (out @ [row_of byDay d]) @ map (row_of byDay) [d + 1..t]"
    by (rule Suc.hyps(1)) (use Suc.hyps(2) in simp)
  finally show ?case using \<open>d \<le> t\<close> by (simp add: upto_rec1)
qed

definition in_day :: "int \<Rightarrow> int \<Rightarrow> int \<Rightarrow> invoice \<Rightarrow> bool" where
  "in_day start stop k v \<longleftrightarrow>
     (let eff = effectiveDueForCalendar v in start \<le> eff \<and> eff \<le> stop \<and> day_of eff = k)"

lemma add_due_at:
  "add_due start stop v m k = (if in_day start stop k v
     then Some (count_due v (case m k of None \<Rightarrow> empty_day k | Some a \<Rightarrow> a)) else m k)"
  by (auto simp: add_due_def in_day_def Let_def)

lemma days_filled:
  "fold (add_due start stop) vs m k = (let ws = filter (in_day start stop k) vs in
     if ws = [] then m k else Some (fold count_due ws (case m k of None \<Rightarrow> empty_day k | Some a \<Rightarrow> a)))"
proof (induction vs arbitrary: m)
  case (Cons v vs)
  show ?case
    by (simp only: fold_Cons comp_apply Cons.IH) (simp add: Let_def add_due_at)
qed simp

lemma count_due_fold:
  "dy_day (fold count_due vs a) = dy_day a"
  "dy_matched (fold count_due vs a) = dy_matched a + sum_rows (\<lambda>v. iv_status v = IV_MATCHED) iv_total vs"
  "dy_discrepancy (fold count_due vs a) = dy_discrepancy a + sum_rows (\<lambda>v. iv_status v = IV_DISCREPANCY) iv_total vs"
  "dy_pending (fold count_due vs a) = dy_pending a + sum_rows (\<lambda>v. iv_status v = IV_PENDING) iv_total vs"
  "dy_matched_count (fold count_due vs a) = dy_matched_count a + length (filter (\<lambda>v. iv_status v = IV_MATCHED) vs)"
  "dy_discrepancy_count (fold count_due vs a)
    = dy_discrepancy_count a + length (filter (\<lambda>v. iv_status v = IV_DISCREPANCY) vs)"
  "dy_pending_count (fold count_due vs a) = dy_pending_count a + length (filter (\<lambda>v. iv_status v = IV_PENDING) vs)"
  by (induction vs arbitrary: a) (auto simp: count_due_def split: invoice_status.splits)

text \<open>The unpaid invoices of a contract that are due on a day, by status.\<close>

definition due_on :: "id \<Rightarrow> id \<Rightarrow> 'a bill_db_scheme \<Rightarrow> int \<Rightarrow> invoice_status \<Rightarrow> invoice \<Rightarrow> bool" where
  "due_on tenant contract db k st v \<longleftrightarrow> iv_tenant v = tenant \<and> iv_status v = st
     \<and> list_ex (\<lambda>po. po_id po = iv_order v \<and> po_contract po = contract) (orders db)
     \<and> day_of (effectiveDueForCalendar v) = k"

lemma day_bounds: "day_of e = k \<longleftrightarrow> k * day_ms \<le> e \<and> e \<le> k * day_ms + day_ms - 1"
  by (auto simp: day_of_def day_ms_def)

lemma calendar_rows_of_day:
  assumes "f \<le> k" "k \<le> t" "st \<noteq> IV_PAID"
  shows "filter (\<lambda>v. iv_status v = st) (filter (in_day (f * day_ms) (t * day_ms + day_ms - 1) k)
      (calendar_rows tenant contract (f * day_ms) (t * day_ms + day_ms - 1) db))
    = filter (due_on tenant contract db k st) (invoices db)"
proof -
  have "f * day_ms \<le> k * day_ms" "k * day_ms \<le> t * day_ms" using assms(1,2) by (simp_all add: day_ms_def)
  then have "day_of e = k \<Longrightarrow> f * day_ms \<le> e \<and> e \<le> t * day_ms + day_ms - 1" for e
    unfolding day_bounds by linarith
  then show ?thesis
    using assms(3) unfolding calendar_rows_def filter_filter
    by (intro filter_cong refl)
       (cases st; force simp: in_day_def due_on_def Let_def effectiveDueForCalendar_def
          defaultDueDateFromEmission_def addUtcDays_def day_ms_def split: option.splits)
qed

lemma sum_rows_filter: "sum_rows p f (filter q xs) = sum_rows (\<lambda>x. q x \<and> p x) f xs"
  by (induction xs) simp_all

lemma sum_as_filter: "sum_rows p f xs = sum_list (map f (filter p xs))"
  by (simp add: sum_rows_def)

text \<open>
  C28. The loop of the payment calendar ends, and it ends right: for a range of days the calendar has
  exactly one row per day, in order; the amounts and counts of a row are those of the unpaid invoices
  of the contract that are due on that day by their due date or, without one, thirty days after their
  issue. The wider condition by which the database preselects invoices without a due date loses none.
\<close>
theorem calendar_has_one_row_per_day:
  assumes "f \<le> t"
  shows "\<exists>rows. getPaymentCalendar u (Some f) (Some t) contract db = Inr rows \<and> map dy_day rows = [f..t]
    \<and> (\<forall>r \<in> set rows.
        (let due = \<lambda>st. filter (due_on (user_tenant u) contract db (dy_day r) st) (invoices db) in
          dy_matched r = sum_list (map iv_total (due IV_MATCHED))
          \<and> dy_discrepancy r = sum_list (map iv_total (due IV_DISCREPANCY))
          \<and> dy_pending r = sum_list (map iv_total (due IV_PENDING))
          \<and> dy_matched_count r = length (due IV_MATCHED)
          \<and> dy_discrepancy_count r = length (due IV_DISCREPANCY)
          \<and> dy_pending_count r = length (due IV_PENDING)))"
proof -
  let ?start = "f * day_ms" and ?stop = "t * day_ms + day_ms - 1"
  let ?rows = "calendar_rows (user_tenant u) contract ?start ?stop db"
  let ?m = "fold (add_due ?start ?stop) ?rows Map.empty"
  have "getPaymentCalendar u (Some f) (Some t) contract db = Inr (map (row_of ?m) [f..t])"
    using assms by (simp add: getPaymentCalendar_def Let_def calendar_loop_rows)
  moreover have row: "row_of ?m k = fold count_due (filter (in_day ?start ?stop k) ?rows) (empty_day k)" for k
    by (simp add: row_of_def days_filled Let_def)
  have day: "dy_day (row_of ?m k) = k" for k
    unfolding row count_due_fold by (simp add: empty_day_def)
  have "map dy_day (map (row_of ?m) [f..t]) = [f..t]"
    by (simp add: comp_def day)
  moreover have "let due = \<lambda>st. filter (due_on (user_tenant u) contract db k st) (invoices db) in
          dy_matched (row_of ?m k) = sum_list (map iv_total (due IV_MATCHED))
          \<and> dy_discrepancy (row_of ?m k) = sum_list (map iv_total (due IV_DISCREPANCY))
          \<and> dy_pending (row_of ?m k) = sum_list (map iv_total (due IV_PENDING))
          \<and> dy_matched_count (row_of ?m k) = length (due IV_MATCHED)
          \<and> dy_discrepancy_count (row_of ?m k) = length (due IV_DISCREPANCY)
          \<and> dy_pending_count (row_of ?m k) = length (due IV_PENDING)" if "f \<le> k" "k \<le> t" for k
    unfolding row count_due_fold sum_as_filter
    by (simp add: Let_def calendar_rows_of_day[OF that, of IV_MATCHED] calendar_rows_of_day[OF that, of IV_DISCREPANCY]
        calendar_rows_of_day[OF that, of IV_PENDING] del: filter_filter) (simp add: empty_day_def)
  ultimately show ?thesis by (auto simp: day)
qed

section \<open>Paid beyond what was received\<close>

inductive trade_step :: "printing \<Rightarrow> 'a bill_db_scheme \<Rightarrow> 'a bill_db_scheme \<Rightarrow> bool" for pr where
  buying: "purchase_step pr db db' \<Longrightarrow> trade_step pr db db'"
| billing: "billing_op pr db db' \<Longrightarrow> trade_step pr db db'"

text \<open>The company with its order signed, sent and received in full.\<close>

definition trading_company :: bill_db where
  "trading_company = ops_db.extend company (bill_db.fields [] [])"

definition delivered :: "bill_db res" where
  "delivered =
     and_then (createOrdersFromRequisition plain_printing (\<lambda>_. ''o1'') (\<lambda>k. ''o1'' @ k) ''r1'' plain_user trading_company) (\<lambda>d1.
     and_then (approve plain_printing ''o1a'' 0 None plain_user ''o1'' d1) (\<lambda>d2.
     and_then (approve plain_printing ''o1b'' 1 None second_user ''o1'' d2) (\<lambda>d3.
     and_then (markAsSentToSupplier 2 plain_user ''o1'' d3) (\<lambda>d4.
     and_then (receipt_create ''o1'' ''w1'' plain_user ''rc'' (\<lambda>x. x) d4) (\<lambda>d5.
     and_then (updateItems ''rc'' [\<lparr>ud_id = ''o1k1'', ud_received = 10, ud_observations = None\<rparr>] plain_user d5) (\<lambda>d6.
     map_sum id fst (receipt_confirm (\<lambda>q. q) (\<lambda>q. q) ''rc'' plain_user d6)))))))"

definition bill_of :: "string \<Rightarrow> qty \<Rightarrow> invoice_dto" where
  "bill_of number amount = \<lparr>vd_order = ''o1'', vd_vendor = ''v'', vd_number = number, vd_emission = Some 0,
     vd_due = DueAbsent, vd_total = amount, vd_net = None, vd_tax = None, vd_pdf = None\<rparr>"

definition note_of :: "qty \<Rightarrow> credit_dto" where
  "note_of amount = \<lparr>cd_order = ''o1'', cd_invoice = None, cd_number = ''n'', cd_emission = Some 0,
     cd_total = amount, cd_notes = None\<rparr>"

text \<open>Two invoices for the same goods, a credit note for one of them, both paid, the note removed.\<close>

definition billed_twice :: "bill_db res" where
  "billed_twice =
     and_then delivered (\<lambda>d1.
     and_then (invoice_create plain_printing ''v1'' (bill_of ''1'' 50) plain_user d1) (\<lambda>d2.
     invoice_create plain_printing ''v2'' (bill_of ''2'' 50) plain_user d2))"

definition paid_twice :: "bill_db res" where
  "paid_twice =
     and_then billed_twice (\<lambda>d3.
     and_then (credit_create plain_printing ''cn'' (note_of 50) plain_user d3) (\<lambda>d4.
     and_then (markPaid 9 plain_user ''v1'' d4) (\<lambda>d5.
     and_then (markPaid 9 plain_user ''v2'' d5) (\<lambda>d6.
     credit_remove plain_user ''cn'' d6))))"

lemma receipt_confirmed_step:
  "map_sum id fst (receipt_confirm f g i u d) = Inr d' \<Longrightarrow> stock_step d d'"
  by (cases "receipt_confirm f g i u d") (auto intro: stock_step.receipt_confirmed)

lemma trade_more:
  "(trade_step pr)\<^sup>*\<^sup>* d0 d \<Longrightarrow> order_step pr d d' \<Longrightarrow> (trade_step pr)\<^sup>*\<^sup>* d0 d'"
  "(trade_step pr)\<^sup>*\<^sup>* d0 d \<Longrightarrow> source_step pr d d' \<Longrightarrow> (trade_step pr)\<^sup>*\<^sup>* d0 d'"
  "(trade_step pr)\<^sup>*\<^sup>* d0 d \<Longrightarrow> stock_step d d' \<Longrightarrow> (trade_step pr)\<^sup>*\<^sup>* d0 d'"
  "(trade_step pr)\<^sup>*\<^sup>* d0 d \<Longrightarrow> billing_op pr d d' \<Longrightarrow> (trade_step pr)\<^sup>*\<^sup>* d0 d'"
  by (meson rtranclp.rtrancl_into_rtrancl trade_step.intros purchase_step.intros)+

lemma delivered_reached: "delivered = Inr db \<Longrightarrow> (trade_step plain_printing)\<^sup>*\<^sup>* trading_company db"
  unfolding delivered_def and_then_eq_Inr
  by (elim exE conjE)
     (rule trade_more(3), rule trade_more(3), rule trade_more(3), rule trade_more(1), rule trade_more(1),
      rule trade_more(1), rule trade_more(2), rule rtranclp.rtrancl_refl, rule split_up, assumption,
      rule order_step.signed, assumption, rule order_step.signed, assumption, rule order_step.sent, assumption,
      rule stock_step.receipt_opened, assumption, rule stock_step.receipt_saved, assumption,
      rule receipt_confirmed_step, assumption)

lemma paid_twice_reached: "paid_twice = Inr db \<Longrightarrow> (trade_step plain_printing)\<^sup>*\<^sup>* trading_company db"
  unfolding paid_twice_def billed_twice_def and_then_eq_Inr
  by (elim exE conjE)
     (rule trade_more(4), rule trade_more(4), rule trade_more(4), rule trade_more(4), rule trade_more(4),
      rule trade_more(4), rule delivered_reached, assumption, rule billing_op.registered, assumption,
      rule billing_op.registered, assumption, rule billing_op.credited, assumption, rule billing_op.paid, assumption,
      rule billing_op.paid, assumption, rule billing_op.uncredited, assumption)

definition overpaid :: "bill_db \<Rightarrow> bool" where
  "overpaid db \<longleftrightarrow> map iv_order (invoices db) = [''o1'', ''o1''] \<and> map iv_status (invoices db) = [IV_PAID, IV_PAID]
     \<and> sum_list (map iv_total (invoices db)) = 100 \<and> computeReceivedAmountForPurchaseOrder ''o1'' db = 50
     \<and> credit_notes db = []"

lemma paid_twice_ends: "(case paid_twice of Inl _ \<Rightarrow> False | Inr db \<Rightarrow> overpaid db)"
  by code_simp

text \<open>
  The validation of invoices does not bound what is paid: a credit note lets a second invoice of
  the same goods match, and after both are paid the note can be removed, since a paid invoice is never
  validated again. So a reachable state has paid twice the value of the goods received, without a
  credit note left.
\<close>
theorem removed_credit_note_leaves_overpayment:
  "\<exists>(db0 :: bill_db) db o'. orders db0 = [] \<and> invoices db0 = [] \<and> (trade_step plain_printing)\<^sup>*\<^sup>* db0 db
     \<and> map iv_order (invoices db) = [o', o'] \<and> map iv_status (invoices db) = [IV_PAID, IV_PAID] \<and> credit_notes db = []
     \<and> sum_list (map iv_total (invoices db)) = 2 * computeReceivedAmountForPurchaseOrder o' db
     \<and> computeReceivedAmountForPurchaseOrder o' db > 0"
proof -
  obtain db where db: "paid_twice = Inr db" "overpaid db"
    using paid_twice_ends by (auto split: sum.splits)
  have start: "orders trading_company = []" "invoices trading_company = []"
    by (simp_all add: trading_company_def ops_db.defs bill_db.defs company_def small_ops_def)
  show ?thesis
    using paid_twice_reached[OF db(1)] db(2) start
    by (intro exI[of _ trading_company] exI[of _ db] exI[of _ "''o1''"]) (simp add: overpaid_def)
qed

section \<open>Witnesses\<close>

lemma billed_twice_ends:
  "(case billed_twice of Inl _ \<Rightarrow> False | Inr db \<Rightarrow>
     map iv_id (invoices db) = [''v1'', ''v2''] \<and> map iv_status (invoices db) = [IV_MATCHED, IV_DISCREPANCY]
     \<and> succeeds (validateInvoiceMatch ''v2'' ''t'' ''u1'' db))"
  by code_simp


lemma invoices_keep_their_shape_witness:
  "\<exists>db. billed_twice = Inr db \<and> (\<forall>v \<in> set (invoices db). invoice_ok v) \<and> length (invoices db) = 2"
proof -
  obtain db where db: "billed_twice = Inr db" "map iv_id (invoices db) = [''v1'', ''v2'']"
    using billed_twice_ends by (auto split: sum.splits)
  obtain d1 d2 where d: "invoice_create plain_printing ''v1'' (bill_of ''1'' 50) plain_user d1 = Inr d2"
      "invoice_create plain_printing ''v2'' (bill_of ''2'' 50) plain_user d2 = Inr db" "delivered = Inr d1"
    using db(1)[unfolded billed_twice_def and_then_eq_Inr] by blast
  have none: "(case delivered of Inl _ \<Rightarrow> False | Inr d \<Rightarrow> invoices d = [])" by code_simp
  have "(billing_step plain_printing)\<^sup>*\<^sup>* d1 db"
    using d(1,2) by (meson billing_op.registered billing_step.own rtranclp.rtrancl_into_rtrancl rtranclp.rtrancl_refl)
  moreover have "invoices d1 = []" using none unfolding d(3) sum.case .
  ultimately have "\<forall>v \<in> set (invoices db). invoice_ok v" by (rule invoices_keep_their_shape[THEN conjunct2])
  with db show ?thesis by (metis length_map length_Cons list.size(3) numeral_2_eq_2)
qed

lemma calendar_has_one_row_per_day_witness:
  "\<exists>rows. getPaymentCalendar plain_user (Some 29) (Some 31) ''c1'' trading_company = Inr rows
     \<and> map dy_day rows = [29, 30, 31]"
proof -
  have days: "[29..31] = [29, 30, 31 :: int]" by code_simp
  obtain rows where "getPaymentCalendar plain_user (Some 29) (Some 31) ''c1'' trading_company = Inr rows"
      "map dy_day rows = [29..31]"
    using calendar_has_one_row_per_day[of 29 31 plain_user "''c1''" trading_company] by auto
  then show ?thesis by (simp add: days)
qed

end
