(* ===== verification/Accounts.thy ===== *)
theory Accounts
  imports Access
begin

text \<open>
  The accounts of the users, their roles and sessions, and what the authentication services share:
  \<open>features/auth/captcha.service.ts\<close>, \<open>user-session.service.ts\<close>, \<open>auth-audit.service.ts\<close>,
  \<open>step-up-policy.service.ts\<close>, \<open>login-step-up.service.ts\<close>, \<open>auth-request.util.ts\<close>. The libraries
  the services call (bcrypt, SHA-256, the one-time codes, the cipher of their secrets, the service
  that locates an address) and the setting of the process are the fields of \<open>gear\<close>; what the code
  draws at random and whether a mail is delivered are arguments. A signed token is the record that
  its verification returns, with the instant it expires. Labels of devices, birth dates, pictures
  and the texts of mails are left out.
\<close>

section \<open>Tables\<close>

datatype base_role = SUPER_ADMIN | ADMIN | USER

fun role_text :: "base_role \<Rightarrow> string" where
  "role_text SUPER_ADMIN = ''SUPER_ADMIN''"
| "role_text ADMIN = ''ADMIN''"
| "role_text USER = ''USER''"

record account =
  acc_id :: id
  acc_email :: string
  acc_password :: string
  acc_name :: string
  acc_first :: "string option"
  acc_last :: "string option"
  acc_role :: base_role
  acc_active :: bool
  acc_activation :: "string option"
  acc_reset :: "string option"
  acc_reset_expires :: "int option"
  acc_lockout :: "int option"
  acc_notify :: bool
  acc_totp :: bool
  acc_email2fa :: bool
  acc_totp_secret :: "string option"
  acc_rut :: "string option"
  acc_phone :: "string option"
  acc_position :: "string option"
  acc_overrule :: bool
  acc_tenant :: "id option"
  acc_custom_role :: "id option"

record company_row =
  cy_id :: id
  cy_code :: string

text \<open>\<open>ro_permissions\<close> is a JSON array: \<open>None\<close> stands for an element that is not a text.\<close>

record tenant_role =
  ro_id :: id
  ro_tenant :: id
  ro_name :: string
  ro_description :: "string option"
  ro_base :: base_role
  ro_routes :: "string list"
  ro_permissions :: "string option list"

record session =
  ss_id :: id
  ss_user :: id
  ss_jti :: string
  ss_ip :: string
  ss_last :: int
  ss_valid :: bool

record challenge =
  ch_id :: id
  ch_user :: id
  ch_token :: string
  ch_code :: string
  ch_expires :: int
  ch_used :: "int option"

datatype auth_action = LOGIN_SUCCESS | LOGIN_FAILURE | PASSWORD_CHANGE | LOGOUT

record auth_event =
  ae_user :: "id option"
  ae_email :: string
  ae_action :: auth_action
  ae_ip :: string
  ae_city :: string
  ae_country :: string
  ae_suspicious :: bool
  ae_at :: int

text \<open>The last two are the memory of the process: open captchas and the last touch of a session.\<close>

record auth_db =
  companies :: "company_row list"
  accounts :: "account list"
  contract_access :: "(id \<times> id) list"
  tenant_roles :: "tenant_role list"
  sessions :: "session list"
  challenges :: "challenge list"
  auth_log :: "auth_event list"
  step_up_row :: "bool option"
  captchas :: "id \<Rightarrow> (int \<times> int) option"
  touched :: "id \<times> string \<Rightarrow> int option"

record gear =
  gr_hash :: "string \<Rightarrow> string"
  gr_matches :: "string \<Rightarrow> string \<Rightarrow> bool"
  gr_sha :: "string \<Rightarrow> string"
  gr_seal :: "string \<Rightarrow> string"
  gr_open :: "string \<Rightarrow> string option"
  gr_totp :: "int \<Rightarrow> string \<Rightarrow> string \<Rightarrow> bool"
  gr_geo :: "string \<Rightarrow> string \<times> string"
  gr_bypass :: bool

record jwt =
  jw_sub :: id
  jw_email :: string
  jw_typ :: "string option"
  jw_tc :: "string option"
  jw_role :: "string option"
  jw_tenant :: "id option"
  jw_contracts :: "string list"
  jw_permissions :: "string option list option"
  jw_jti :: "string option"
  jw_context :: "string option"
  jw_expires :: int

definition find_account :: "id \<Rightarrow> auth_db \<Rightarrow> account option" where
  "find_account i db = find_row (\<lambda>a. acc_id a = i) (accounts db)"

definition set_account :: "id \<Rightarrow> (account \<Rightarrow> account) \<Rightarrow> auth_db \<Rightarrow> auth_db" where
  "set_account i f db = db\<lparr>accounts := update_rows (\<lambda>a. acc_id a = i) f (accounts db)\<rparr>"

definition contracts_of :: "id \<Rightarrow> auth_db \<Rightarrow> id list" where
  "contracts_of i db = map snd (filter (\<lambda>p. fst p = i) (contract_access db))"

definition role_of_account :: "account \<Rightarrow> auth_db \<Rightarrow> tenant_role option" where
  "role_of_account a db = Option.bind (acc_custom_role a) (\<lambda>r. find_row (\<lambda>x. ro_id x = r) (tenant_roles db))"

definition company_of_account :: "account \<Rightarrow> auth_db \<Rightarrow> company_row option" where
  "company_of_account a db = Option.bind (acc_tenant a) (\<lambda>t. find_row (\<lambda>x. cy_id x = t) (companies db))"

text \<open>\<open>undefined\<close>, \<open>null\<close> or a text of a request body; in a search condition of the client an
  \<open>undefined\<close> is no condition and \<open>null\<close> asks for an empty column.\<close>

datatype field = Missing | Null | Text string

fun field_matches :: "field \<Rightarrow> string option \<Rightarrow> bool" where
  "field_matches Missing c = True"
| "field_matches Null c = (c = None)"
| "field_matches (Text t) c = (c = Some t)"

definition normalizeEmail :: "string \<Rightarrow> string" where
  "normalizeEmail e = to_lower (trim e)"

definition prismaEmailInsensitive :: "string \<Rightarrow> account \<Rightarrow> bool" where
  "prismaEmailInsensitive e a \<longleftrightarrow> to_lower (acc_email a) = normalizeEmail e"

section \<open>Captcha\<close>

datatype captcha_answer = NoAnswer | NumberAnswer qty | TextAnswer string

definition captcha_ttl :: int where "captcha_ttl = 5 * 60 * 1000"

definition pruneExpired :: "int \<Rightarrow> auth_db \<Rightarrow> auth_db" where
  "pruneExpired now db =
     db\<lparr>captchas := (\<lambda>i. case captchas db i of None \<Rightarrow> None | Some e \<Rightarrow> if now > snd e then None else Some e)\<rparr>"

definition captcha_create :: "int \<Rightarrow> id \<Rightarrow> int \<Rightarrow> int \<Rightarrow> auth_db \<Rightarrow> auth_db" where
  "captcha_create now challengeId a b db =
     (let db1 = pruneExpired now db in db1\<lparr>captchas := (captchas db1)(challengeId \<mapsto> (a + b, now + captcha_ttl))\<rparr>)"

text \<open>The answer is compared as a number; a captcha is consumed by its first validation.\<close>

definition captcha_validate ::
    "int \<Rightarrow> string option \<Rightarrow> captcha_answer \<Rightarrow> auth_db \<Rightarrow> auth_db \<times> bool" where
  "captcha_validate now challengeId answer db =
     (case or_null challengeId of
        None \<Rightarrow> (db, False)
      | Some i \<Rightarrow>
          if answer = NoAnswer then (db, False)
          else
            let entry = captchas db i; db1 = db\<lparr>captchas := (captchas db)(i := None)\<rparr> in
            (db1, case entry of
               None \<Rightarrow> False
             | Some (expected, expires) \<Rightarrow>
                 if now > expires then False
                 else (case answer of
                         NumberAnswer q \<Rightarrow> q = of_int expected
                       | TextAnswer s \<Rightarrow> parse_int (trim s) = Some expected
                       | NoAnswer \<Rightarrow> False)))"

section \<open>Sessions\<close>

definition session_create :: "int \<Rightarrow> id \<Rightarrow> id \<Rightarrow> string \<Rightarrow> string \<Rightarrow> auth_db \<Rightarrow> auth_db res" where
  "session_create now newId userId jti ip db =
     (let j = take 64 jti in
      if list_ex (\<lambda>s. ss_id s = newId \<or> ss_jti s = j) (sessions db) then Inl UniqueViolation
      else Inr (db\<lparr>sessions := sessions db @ [\<lparr>ss_id = newId, ss_user = userId, ss_jti = j,
        ss_ip = take 64 ip, ss_last = now, ss_valid = True\<rparr>]\<rparr>))"

definition assertSessionValid :: "id \<Rightarrow> string option \<Rightarrow> auth_db \<Rightarrow> unit res" where
  "assertSessionValid userId jti db =
     (case jti of
        None \<Rightarrow> Inr ()
      | Some j \<Rightarrow>
          if list_ex (\<lambda>s. ss_user s = userId \<and> ss_jti s = j \<and> ss_valid s) (sessions db) then Inr ()
          else Inl (Unauthorized ''Sesion revocada o invalida''))"

definition touchLastActive :: "int \<Rightarrow> id \<Rightarrow> string option \<Rightarrow> auth_db \<Rightarrow> auth_db" where
  "touchLastActive now userId jti db =
     (case jti of
        None \<Rightarrow> db
      | Some j \<Rightarrow>
          if now - (case touched db (userId, j) of None \<Rightarrow> 0 | Some t \<Rightarrow> t) < 60000 then db
          else db\<lparr>touched := (touched db)((userId, j) \<mapsto> now),
                  sessions := update_rows (\<lambda>s. ss_user s = userId \<and> ss_jti s = j \<and> ss_valid s)
                    (\<lambda>s. s\<lparr>ss_last := now\<rparr>) (sessions db)\<rparr>)"

definition invalidate :: "(session \<Rightarrow> bool) \<Rightarrow> auth_db \<Rightarrow> auth_db" where
  "invalidate p db = db\<lparr>sessions := update_rows p (\<lambda>s. s\<lparr>ss_valid := False\<rparr>) (sessions db)\<rparr>"

definition revokeSession :: "id \<Rightarrow> id \<Rightarrow> auth_db \<Rightarrow> auth_db res" where
  "revokeSession userId sessionId db =
     (if list_ex (\<lambda>s. ss_id s = sessionId \<and> ss_user s = userId) (sessions db)
      then Inr (invalidate (\<lambda>s. ss_id s = sessionId) db)
      else Inl (NotFound ''Sesion no encontrada''))"

definition revokeOthers :: "id \<Rightarrow> string option \<Rightarrow> auth_db \<Rightarrow> auth_db \<times> nat" where
  "revokeOthers userId keepJti db =
     (let p = (\<lambda>s. ss_user s = userId \<and> ss_valid s \<and> (keepJti = None \<or> keepJti \<noteq> Some (ss_jti s)))
      in (invalidate p db, length (filter p (sessions db))))"

definition revokeByJti :: "id \<Rightarrow> string \<Rightarrow> auth_db \<Rightarrow> auth_db" where
  "revokeByJti userId jti = invalidate (\<lambda>s. ss_user s = userId \<and> ss_jti s = jti \<and> ss_valid s)"

definition invalidateAllForUser :: "id \<Rightarrow> auth_db \<Rightarrow> auth_db" where
  "invalidateAllForUser userId = invalidate (\<lambda>s. ss_user s = userId \<and> ss_valid s)"

section \<open>Audit of the accesses\<close>

fun starts_with :: "string \<Rightarrow> string \<Rightarrow> bool" where
  "starts_with [] s = True"
| "starts_with (p # ps) [] = False"
| "starts_with (p # ps) (c # cs) = (p = c \<and> starts_with ps cs)"

text \<open>The second part of a text between dots, empty where there is none.\<close>

definition second_part :: "string \<Rightarrow> string" where
  "second_part s = takeWhile (\<lambda>c. c \<noteq> CHR ''.'') (tl (dropWhile (\<lambda>c. c \<noteq> CHR ''.'') s))"

definition isPrivateOrLocalIp :: "string \<Rightarrow> bool" where
  "isPrivateOrLocalIp ip =
     (if ip = [] then True
      else let s = to_lower (trim ip) in
        s \<in> {''::1'', ''127.0.0.1'', ''unknown''} \<or> starts_with ''192.168.'' s \<or> starts_with ''10.'' s
        \<or> (starts_with ''172.'' s \<and>
            (case parse_int (if second_part s = [] then ''0'' else second_part s) of
               None \<Rightarrow> False | Some n \<Rightarrow> 16 \<le> n \<and> n \<le> 31))
        \<or> starts_with ''fe80:'' s \<or> s = ''::ffff:127.0.0.1'')"

definition lookupGeo :: "gear \<Rightarrow> string \<Rightarrow> string \<times> string" where
  "lookupGeo g ip =
     (if isPrivateOrLocalIp ip then ([], []) else map_prod (take 120) (take 120) (gr_geo g ip))"

text \<open>The address of the client: the first one the proxy header names, else that of the connection.\<close>

definition extractClientIp :: "string option \<Rightarrow> string \<Rightarrow> string" where
  "extractClientIp forwarded remote =
     (case forwarded of
        Some f \<Rightarrow> if trim f \<noteq> [] then trim (takeWhile (\<lambda>c. c \<noteq> CHR '','') f) else remote
      | None \<Rightarrow> remote)"

definition FAILURE_WINDOW_MS :: int where "FAILURE_WINDOW_MS = 10 * 60 * 1000"
definition FAILURE_THRESHOLD :: nat where "FAILURE_THRESHOLD = 20"
definition LOCKOUT_MS :: int where "LOCKOUT_MS = 15 * 60 * 1000"

definition audit_email :: "string \<Rightarrow> string" where
  "audit_email e = take 100 (to_lower (trim e))"

definition applyLockoutForEmail :: "int \<Rightarrow> string \<Rightarrow> auth_db \<Rightarrow> auth_db" where
  "applyLockoutForEmail now e db =
     (if e = [] \<or> e = ''(vacio)'' then db
      else case find_row (\<lambda>a. to_lower (acc_email a) = to_lower e) (accounts db) of
        None \<Rightarrow> db
      | Some a \<Rightarrow> set_account (acc_id a) (\<lambda>x. x\<lparr>acc_lockout := Some (now + LOCKOUT_MS)\<rparr>) db)"

definition failure_in_window :: "int \<Rightarrow> string \<Rightarrow> auth_event \<Rightarrow> bool" where
  "failure_in_window now e x \<longleftrightarrow>
     ae_email x = e \<and> ae_action x = LOGIN_FAILURE \<and> ae_at x \<ge> now - FAILURE_WINDOW_MS"

definition markBruteForceClusterIfNeeded :: "int \<Rightarrow> string \<Rightarrow> auth_db \<Rightarrow> auth_db" where
  "markBruteForceClusterIfNeeded now e db =
     (if length (filter (failure_in_window now e) (auth_log db)) < FAILURE_THRESHOLD then db
      else applyLockoutForEmail now e
        (db\<lparr>auth_log := update_rows (failure_in_window now e) (\<lambda>x. x\<lparr>ae_suspicious := True\<rparr>) (auth_log db)\<rparr>))"

definition auth_event_of ::
    "int \<Rightarrow> id option \<Rightarrow> string \<Rightarrow> auth_action \<Rightarrow> string \<Rightarrow> string \<times> string \<Rightarrow> bool \<Rightarrow> auth_event" where
  "auth_event_of now userId e action ip geo suspicious =
     \<lparr>ae_user = userId, ae_email = audit_email e, ae_action = action, ae_ip = take 64 ip,
      ae_city = take 120 (fst geo), ae_country = take 120 (snd geo), ae_suspicious = suspicious, ae_at = now\<rparr>"

definition log_auth :: "auth_event \<Rightarrow> auth_db \<Rightarrow> auth_db" where
  "log_auth x db = db\<lparr>auth_log := auth_log db @ [x]\<rparr>"

definition recordLoginFailure ::
    "int \<Rightarrow> string \<Rightarrow> id option \<Rightarrow> string \<Rightarrow> string \<times> string \<Rightarrow> auth_db \<Rightarrow> auth_db" where
  "recordLoginFailure now e userId ip geo db =
     (let e1 = (if e = [] then ''(vacio)'' else e) in
      markBruteForceClusterIfNeeded now (audit_email e1)
        (log_auth (auth_event_of now userId e1 LOGIN_FAILURE ip geo False) db))"

definition last_success :: "id \<Rightarrow> auth_db \<Rightarrow> auth_event option" where
  "last_success userId db = find_row (\<lambda>x. ae_user x = Some userId \<and> ae_action x = LOGIN_SUCCESS) (rev (auth_log db))"

text \<open>Another country or address than those of an earlier access, where both are known.\<close>

definition place_changed :: "auth_event \<Rightarrow> string \<Rightarrow> string \<Rightarrow> bool" where
  "place_changed x ip country \<longleftrightarrow>
     (let c0 = to_lower (trim (ae_country x)); c1 = to_lower (trim country); i0 = trim (ae_ip x); i1 = trim ip
      in (c0 \<noteq> [] \<and> c1 \<noteq> [] \<and> c0 \<noteq> c1) \<or> (i0 \<noteq> [] \<and> i1 \<noteq> [] \<and> i0 \<noteq> i1))"

definition recordLoginSuccess ::
    "int \<Rightarrow> id \<Rightarrow> string \<Rightarrow> string \<Rightarrow> string \<times> string \<Rightarrow> auth_db \<Rightarrow> auth_db" where
  "recordLoginSuccess now userId e ip geo db =
     (let suspicious = (case last_success userId db of None \<Rightarrow> False | Some x \<Rightarrow> place_changed x ip (snd geo))
      in log_auth (auth_event_of now (Some userId) e LOGIN_SUCCESS ip geo suspicious) db)"

definition shouldRequireSuperAdminLocationStepUp :: "id \<Rightarrow> string \<Rightarrow> string \<Rightarrow> auth_db \<Rightarrow> bool" where
  "shouldRequireSuperAdminLocationStepUp userId ip country db =
     (if isPrivateOrLocalIp ip then False
      else case last_success userId db of
        None \<Rightarrow> True
      | Some x \<Rightarrow>
          if place_changed x ip country then True
          else
            let recent = take 25 (filter (\<lambda>x. ae_user x = Some userId \<and> ae_action x = LOGIN_SUCCESS) (rev (auth_log db)))
            in \<not> length (filter (\<lambda>x. trim (ae_ip x) = trim ip) recent) \<ge> 2)"

definition userRoleUsesEmailStepUp :: "base_role \<Rightarrow> bool" where
  "userRoleUsesEmailStepUp r \<longleftrightarrow> r = SUPER_ADMIN"

definition shouldRequireEmailContextStepUp :: "id \<Rightarrow> base_role \<Rightarrow> string \<Rightarrow> string \<Rightarrow> auth_db \<Rightarrow> bool" where
  "shouldRequireEmailContextStepUp userId r ip country db =
     (if \<not> userRoleUsesEmailStepUp r then False
      else if r = SUPER_ADMIN then shouldRequireSuperAdminLocationStepUp userId ip country db
      else False)"

definition recordPasswordChange :: "int \<Rightarrow> id \<Rightarrow> string \<Rightarrow> string \<Rightarrow> string \<times> string \<Rightarrow> auth_db \<Rightarrow> auth_db" where
  "recordPasswordChange now userId e ip geo =
     log_auth (auth_event_of now (Some userId) e PASSWORD_CHANGE ip geo False)"

definition recordLogout :: "int \<Rightarrow> id \<Rightarrow> string \<Rightarrow> string \<Rightarrow> string \<times> string \<Rightarrow> auth_db \<Rightarrow> auth_db" where
  "recordLogout now userId e ip geo = log_auth (auth_event_of now (Some userId) e LOGOUT ip geo False)"

section \<open>The second factor by mail\<close>

definition getPlatformStepUpEnabledFromDb :: "auth_db \<Rightarrow> bool" where
  "getPlatformStepUpEnabledFromDb db = (case step_up_row db of None \<Rightarrow> False | Some b \<Rightarrow> b)"

definition isGlobalStepUpPolicyEffective :: "gear \<Rightarrow> auth_db \<Rightarrow> bool" where
  "isGlobalStepUpPolicyEffective g db = (if gr_bypass g then False else getPlatformStepUpEnabledFromDb db)"

definition STEP_UP_TTL_MS :: int where "STEP_UP_TTL_MS = 10 * 60 * 1000"

definition createChallengeAndSendEmail ::
    "gear \<Rightarrow> int \<Rightarrow> id \<Rightarrow> string \<Rightarrow> string \<Rightarrow> bool \<Rightarrow> id \<Rightarrow> auth_db \<Rightarrow> auth_db \<times> bool" where
  "createChallengeAndSendEmail g now newId rawToken code delivered userId db =
     (let hash = gr_sha g rawToken;
          kept = filter (\<lambda>c. \<not> (ch_user c = userId \<and> ch_used c = None \<and> ch_expires c > now)) (challenges db);
          new = \<lparr>ch_id = newId, ch_user = userId, ch_token = hash, ch_code = gr_hash g code,
                 ch_expires = now + STEP_UP_TTL_MS, ch_used = None\<rparr>;
          db1 = db\<lparr>challenges := kept @ [new]\<rparr>
      in if delivered then (db1, True)
         else (db1\<lparr>challenges := filter (\<lambda>c. \<not> (ch_user c = userId \<and> ch_token c = hash)) (challenges db1)\<rparr>, False))"

definition verifyAndConsumeToken ::
    "gear \<Rightarrow> int \<Rightarrow> string \<Rightarrow> string \<Rightarrow> auth_db \<Rightarrow> (auth_db \<times> id) res" where
  "verifyAndConsumeToken g now rawToken codeRaw db =
     (if rawToken = [] \<or> codeRaw = []
      then Inl (Unauthorized ''Codigo o sesion de verificacion invalida'')
      else
        let hash = gr_sha g (trim rawToken); code = take 8 (filter is_digit codeRaw) in
        if length code \<noteq> 6 then Inl (Unauthorized ''Codigo incorrecto'')
        else case find_row (\<lambda>c. ch_token c = hash \<and> ch_used c = None \<and> ch_expires c > now) (challenges db) of
          None \<Rightarrow> Inl (Unauthorized ''Codigo o sesion de verificacion invalida o expirada'')
        | Some row \<Rightarrow>
            if \<not> gr_matches g code (ch_code row) then Inl (Unauthorized ''Codigo incorrecto'')
            else Inr (db\<lparr>challenges := update_rows (\<lambda>c. ch_id c = ch_id row) (\<lambda>c. c\<lparr>ch_used := Some now\<rparr>)
                   (challenges db)\<rparr>, ch_user row))"

text \<open>\<open>totp.verify\<close>: the blanks of a code are dropped and fewer than six characters are refused.\<close>

definition totp_verify :: "gear \<Rightarrow> int \<Rightarrow> string \<Rightarrow> string \<Rightarrow> bool" where
  "totp_verify g now code secret =
     (let t = filter (\<lambda>c. \<not> is_space c) code in if length t < 6 then False else gr_totp g now t secret)"

end
