(* ===== verification/Login.thy ===== *)
theory Login
  imports Accounts
begin

text \<open>
  Signing in and the tokens that follow: \<open>features/auth/auth.service.ts\<close> and
  \<open>strategies/jwt.strategy.ts\<close>. An operation that writes before it throws returns the tables beside
  its outcome. Delays, console output and the alert mails are left out; of the answers the tokens and
  the company are kept, of a token what the operations read.
\<close>

section \<open>Tokens\<close>

definition pre_totp_ttl :: int where "pre_totp_ttl = 5 * 60 * 1000"
definition session_ttl :: int where "session_ttl = 8 * 60 * 60 * 1000"

definition signPreTotpLoginToken :: "int \<Rightarrow> id \<Rightarrow> string \<Rightarrow> string \<Rightarrow> jwt" where
  "signPreTotpLoginToken now userId email tenantCode =
     \<lparr>jw_sub = userId, jw_email = email, jw_typ = Some ''pre_totp'', jw_tc = or_null (Some (trim tenantCode)),
      jw_role = None, jw_tenant = None, jw_contracts = [], jw_permissions = None, jw_jti = None,
      jw_context = None, jw_expires = now + pre_totp_ttl\<rparr>"

definition resolveJwtPermissions :: "account \<Rightarrow> auth_db \<Rightarrow> string list" where
  "resolveJwtPermissions a db =
     (case role_of_account a db of
        None \<Rightarrow> []
      | Some r \<Rightarrow> parseTenantRolePermissions (Some (ro_permissions r)))"

definition token_contracts :: "account \<Rightarrow> auth_db \<Rightarrow> string list" where
  "token_contracts a db =
     (if acc_role a = ADMIN \<or> acc_role a = SUPER_ADMIN then [''ALL''] else contracts_of (acc_id a) db)"

definition session_token :: "int \<Rightarrow> account \<Rightarrow> id option \<Rightarrow> string \<Rightarrow> auth_db \<Rightarrow> jwt" where
  "session_token now a tenant jti db =
     \<lparr>jw_sub = acc_id a, jw_email = acc_email a, jw_typ = None, jw_tc = None,
      jw_role = Some (role_text (acc_role a)), jw_tenant = tenant, jw_contracts = token_contracts a db,
      jw_permissions = Some (map Some (resolveJwtPermissions a db)), jw_jti = Some jti, jw_context = None,
      jw_expires = now + session_ttl\<rparr>"

text \<open>The tenant of the token and the company of the answer.\<close>

definition resolveEffectiveTenantForSession ::
    "account \<Rightarrow> string option \<Rightarrow> auth_db \<Rightarrow> id option \<times> company_row option" where
  "resolveEffectiveTenantForSession a code db =
     (if or_null (acc_tenant a) \<noteq> None then (acc_tenant a, company_of_account a db)
      else let c = trim_opt code in
        if acc_role a = SUPER_ADMIN \<and> c \<noteq> [] then
          (case find_row (\<lambda>x. cy_code x = to_upper c) (companies db) of
             Some x \<Rightarrow> (Some (cy_id x), Some x)
           | None \<Rightarrow> (acc_tenant a, company_of_account a db))
        else (acc_tenant a, company_of_account a db))"

section \<open>Login\<close>

text \<open>What a request draws at random, and whether the mail server takes its mail.\<close>

record draw =
  dw_jti :: string
  dw_session :: id
  dw_challenge :: id
  dw_token :: string
  dw_code :: string
  dw_mail :: bool

record login_dto =
  lo_tenant_code :: "string option"
  lo_email :: "string option"
  lo_password :: "string option"
  lo_challenge :: "string option"
  lo_answer :: captcha_answer
  lo_honeypot :: "string option"

datatype login_answer =
    TotpRequired jwt
  | StepUpRequired string
  | SessionIssued jwt "company_row option"

definition maybeSendEmailStepUp ::
    "gear \<Rightarrow> int \<Rightarrow> draw \<Rightarrow> account \<Rightarrow> string \<Rightarrow> string \<times> string \<Rightarrow> auth_db \<Rightarrow> auth_db \<times> string option res" where
  "maybeSendEmailStepUp g now dw a ip geo db =
     (if acc_email2fa a \<or> (userRoleUsesEmailStepUp (acc_role a) \<and> isGlobalStepUpPolicyEffective g db
            \<and> shouldRequireEmailContextStepUp (acc_id a) (acc_role a) ip (snd geo) db)
      then (case createChallengeAndSendEmail g now (dw_challenge dw) (dw_token dw) (dw_code dw) (dw_mail dw)
                   (acc_id a) db of
              (db1, True) \<Rightarrow> (db1, Inr (Some (dw_token dw)))
            | (db1, False) \<Rightarrow>
                (db1, Inl (ServiceUnavailable ''No se pudo enviar el codigo de verificacion'')))
      else (db, Inr None))"

definition completeLoginAfterPasswordOk ::
    "int \<Rightarrow> draw \<Rightarrow> account \<Rightarrow> string \<Rightarrow> string \<times> string \<Rightarrow> string option \<Rightarrow> auth_db
      \<Rightarrow> auth_db \<times> login_answer res" where
  "completeLoginAfterPasswordOk now dw a ip geo loginTenantCode db =
     (let db1 = recordLoginSuccess now (acc_id a) (acc_email a) ip geo db;
          (jwtTenant, tenantForResponse) = resolveEffectiveTenantForSession a loginTenantCode db1
      in case session_create now (dw_session dw) (acc_id a) (dw_jti dw) ip db1 of
           Inl _ \<Rightarrow> (db1, Inl (Unauthorized ''No se pudo iniciar sesion de forma segura''))
         | Inr db2 \<Rightarrow>
             let tokenTenant = (if acc_role a = SUPER_ADMIN then None
                   else case jwtTenant of None \<Rightarrow> acc_tenant a | Some t \<Rightarrow> Some t)
             in (db2, Inr (SessionIssued (session_token now a tokenTenant (dw_jti dw) db2) tenantForResponse)))"

text \<open>The end of both logins: the mail of the second factor, where it applies, or the session.\<close>

definition mail_or_session ::
    "gear \<Rightarrow> int \<Rightarrow> draw \<Rightarrow> account \<Rightarrow> string \<Rightarrow> string \<times> string \<Rightarrow> string option \<Rightarrow> auth_db
      \<Rightarrow> auth_db \<times> login_answer res" where
  "mail_or_session g now dw a ip geo tenantCode db =
     (case maybeSendEmailStepUp g now dw a ip geo db of
        (db1, Inl e) \<Rightarrow> (db1, Inl e)
      | (db1, Inr (Some stepUpToken)) \<Rightarrow> (db1, Inr (StepUpRequired stepUpToken))
      | (db1, Inr None) \<Rightarrow> completeLoginAfterPasswordOk now dw a ip geo tenantCode db1)"

definition refuse ::
    "int \<Rightarrow> string \<Rightarrow> id option \<Rightarrow> string \<Rightarrow> string \<times> string \<Rightarrow> http_error \<Rightarrow> auth_db
      \<Rightarrow> auth_db \<times> login_answer res" where
  "refuse now email userId ip geo e db = (recordLoginFailure now email userId ip geo db, Inl e)"

definition login_error :: http_error where
  "login_error = Unauthorized ''Credenciales invalidas o cuenta no activa''"

text \<open>The checks on the account that the address of the request names, in their order.\<close>

definition login_refusal :: "gear \<Rightarrow> int \<Rightarrow> string \<Rightarrow> string \<Rightarrow> account \<Rightarrow> auth_db \<Rightarrow> http_error option" where
  "login_refusal g now tenantCode pass a db =
     (if (case acc_lockout a of None \<Rightarrow> False | Some t \<Rightarrow> t > now)
      then Some (Locked ''Cuenta bloqueada temporalmente por intentos fallidos'')
      else if acc_role a \<noteq> SUPER_ADMIN \<and> tenantCode \<noteq> []
          \<and> map_option cy_code (company_of_account a db) \<noteq> Some (to_upper tenantCode)
      then Some (Unauthorized ''El codigo de empresa no coincide con el de tu cuenta'')
      else if \<not> acc_active a then Some login_error
      else if \<not> gr_matches g pass (acc_password a) then Some login_error
      else None)"

text \<open>After the password: the block is lifted, then a code, a mail or a session.\<close>

definition password_accepted ::
    "gear \<Rightarrow> int \<Rightarrow> draw \<Rightarrow> account \<Rightarrow> string \<Rightarrow> string \<times> string \<Rightarrow> string \<Rightarrow> auth_db
      \<Rightarrow> auth_db \<times> login_answer res" where
  "password_accepted g now dw a ip geo tenantCode db =
     (let db1 = set_account (acc_id a) (\<lambda>x. x\<lparr>acc_lockout := None\<rparr>) db in
      if acc_totp a then
        (if or_null (acc_totp_secret a) = None
         then (db1, Inl (ServiceUnavailable ''Configuracion de autenticacion en dos pasos inconsistente''))
         else (db1, Inr (TotpRequired (signPreTotpLoginToken now (acc_id a) (acc_email a) tenantCode))))
      else mail_or_session g now dw a ip geo (Some tenantCode) db1)"

definition login ::
    "gear \<Rightarrow> int \<Rightarrow> draw \<Rightarrow> login_dto \<Rightarrow> string \<Rightarrow> auth_db \<Rightarrow> auth_db \<times> login_answer res" where
  "login g now dw dto clientIp db =
     (let geo = lookupGeo g clientIp; ip = take 64 clientIp; tenantCode = trim_opt (lo_tenant_code dto);
          email = normalizeEmail (case lo_email dto of None \<Rightarrow> [] | Some e \<Rightarrow> e);
          pass = (case lo_password dto of None \<Rightarrow> [] | Some p \<Rightarrow> p)
      in if trim_opt (lo_honeypot dto) \<noteq> [] then refuse now email None ip geo login_error db
         else case captcha_validate now (lo_challenge dto) (lo_answer dto) db of
           (db1, False) \<Rightarrow> refuse now email None ip geo login_error db1
         | (db1, True) \<Rightarrow>
             if email = [] \<or> pass = [] then refuse now email None ip geo login_error db1
             else case find_row (prismaEmailInsensitive email) (accounts db1) of
               None \<Rightarrow> refuse now email None ip geo login_error db1
             | Some a \<Rightarrow>
                 (case login_refusal g now tenantCode pass a db1 of
                    Some e \<Rightarrow> refuse now email (Some (acc_id a)) ip geo e db1
                  | None \<Rightarrow> password_accepted g now dw a ip geo tenantCode db1))"

section \<open>The second step\<close>

text \<open>
  The verification of a token fails for a text that was not signed and after its instant. The token of
  the request is absent (or blank), not signed, or what its verification returns.
\<close>

definition jwt_verify :: "int \<Rightarrow> jwt option \<Rightarrow> jwt option" where
  "jwt_verify now t = (case t of None \<Rightarrow> None | Some p \<Rightarrow> if now < jw_expires p then Some p else None)"

definition verifyTotpLogin ::
    "gear \<Rightarrow> int \<Rightarrow> draw \<Rightarrow> jwt option option \<Rightarrow> string \<Rightarrow> string \<Rightarrow> auth_db \<Rightarrow> auth_db \<times> login_answer res" where
  "verifyTotpLogin g now dw preAuthToken totpCode clientIp db =
     (if preAuthToken = None \<or> totpCode = []
      then (db, Inl (BadRequest ''Codigo o sesion de verificacion requeridos''))
      else case jwt_verify now (the preAuthToken) of
        None \<Rightarrow> (db, Inl (Unauthorized ''Sesion de verificacion TOTP vencida o invalida''))
      | Some p \<Rightarrow>
          if jw_typ p \<noteq> Some ''pre_totp''
          then (db, Inl (Unauthorized ''Sesion de verificacion TOTP vencida o invalida''))
          else (case find_account (jw_sub p) db of
            None \<Rightarrow> (db, Inl (Unauthorized ''Cuenta no disponible o TOTP no activo''))
          | Some a \<Rightarrow>
              if \<not> acc_active a \<or> \<not> acc_totp a \<or> or_null (acc_totp_secret a) = None
              then (db, Inl (Unauthorized ''Cuenta no disponible o TOTP no activo''))
              else case gr_open g (the (acc_totp_secret a)) of
                None \<Rightarrow> (db, Inl (InternalError ''Invalid TOTP payload''))
              | Some secret \<Rightarrow>
                  if \<not> totp_verify g now totpCode secret
                  then (db, Inl (Unauthorized ''Codigo TOTP incorrecto''))
                  else mail_or_session g now dw a (take 64 clientIp) (lookupGeo g clientIp) (jw_tc p) db))"

definition verifySuperAdminStepUp ::
    "gear \<Rightarrow> int \<Rightarrow> draw \<Rightarrow> string option \<Rightarrow> string \<Rightarrow> string option \<Rightarrow> string \<Rightarrow> auth_db
      \<Rightarrow> auth_db \<times> login_answer res" where
  "verifySuperAdminStepUp g now dw stepUpToken code tenantCode clientIp db =
     (if trim_opt stepUpToken = [] \<or> code = []
      then (db, Inl (BadRequest ''Codigo o sesion de verificacion requeridos''))
      else case verifyAndConsumeToken g now (the stepUpToken) code db of
        Inl e \<Rightarrow> (db, Inl e)
      | Inr (db1, userId) \<Rightarrow>
          (case find_account userId db1 of
             None \<Rightarrow> (db1, Inl (Unauthorized ''Cuenta no disponible o sesion de verificacion invalida''))
           | Some a \<Rightarrow>
               if \<not> acc_active a
               then (db1, Inl (Unauthorized ''Cuenta no disponible o sesion de verificacion invalida''))
               else if acc_role a \<noteq> SUPER_ADMIN
               then (db1, Inl (Unauthorized ''Sesion de verificacion no valida para este usuario''))
               else completeLoginAfterPasswordOk now dw a (take 64 clientIp) (lookupGeo g clientIp)
                 (Some (trim_opt tenantCode)) db1))"

section \<open>The user of a request\<close>

text \<open>
  \<open>JwtStrategy.validate\<close>: the token of a request becomes its user. An absent tenant is the empty
  text, as in the rest of the development.
\<close>

definition effective_tenant :: "account \<Rightarrow> string option \<Rightarrow> auth_db \<Rightarrow> id option" where
  "effective_tenant a header db =
     (let h = trim_opt header in
      if acc_role a = SUPER_ADMIN \<and> h \<noteq> []
      then map_option cy_id (find_row (\<lambda>x. cy_id x = h) (companies db))
      else acc_tenant a)"

definition request_user :: "account \<Rightarrow> jwt \<Rightarrow> string option \<Rightarrow> auth_db \<Rightarrow> user" where
  "request_user a p header db =
     \<lparr>user_id = acc_id a, user_sub = [],
      user_tenant = (case effective_tenant a header db of None \<Rightarrow> [] | Some t \<Rightarrow> t),
      user_role = Some (role_text (acc_role a)),
      user_permissions = Some (parseTenantRolePermissions (jw_permissions p)),
      user_custom_permissions = None, user_contracts = Some (contracts_of (acc_id a) db)\<rparr>"

definition jwt_validate ::
    "int \<Rightarrow> jwt option \<Rightarrow> string option \<Rightarrow> auth_db \<Rightarrow> (auth_db \<times> user) res" where
  "jwt_validate now token header db =
     (case jwt_verify now token of
        None \<Rightarrow> Inl (Unauthorized ''Unauthorized'')
      | Some p \<Rightarrow>
          (case find_account (jw_sub p) db of
             None \<Rightarrow> Inl (Unauthorized ''Usuario no valido o inactivo'')
           | Some a \<Rightarrow>
               if \<not> acc_active a \<and> jw_context p \<noteq> Some ''activation''
               then Inl (Unauthorized ''Usuario no valido o inactivo'')
               else let jti = or_null (jw_jti p) in
                 and_then (assertSessionValid (acc_id a) jti db) (\<lambda>_.
                   Inr (touchLastActive now (acc_id a) jti db, request_user a p header db))))"

section \<open>Logout, activation and passwords\<close>

definition recordLogoutAudit ::
    "gear \<Rightarrow> int \<Rightarrow> id \<Rightarrow> string \<Rightarrow> string option \<Rightarrow> string \<Rightarrow> auth_db \<Rightarrow> auth_db" where
  "recordLogoutAudit g now userId email jti clientIp db =
     (let db1 = (case or_null jti of None \<Rightarrow> db | Some j \<Rightarrow> revokeByJti userId j db)
      in recordLogout now userId email (take 64 clientIp) (lookupGeo g clientIp) db1)"

definition hash_password :: "gear \<Rightarrow> string option \<Rightarrow> string res" where
  "hash_password g p = (case p of None \<Rightarrow> Inl (InternalError ''bcrypt'') | Some s \<Rightarrow> Inr (gr_hash g s))"

definition activateAccount ::
    "gear \<Rightarrow> int \<Rightarrow> draw \<Rightarrow> field \<Rightarrow> string option \<Rightarrow> string \<Rightarrow> auth_db \<Rightarrow> auth_db \<times> login_answer res" where
  "activateAccount g now dw token newPassword clientIp db =
     (case find_row (\<lambda>a. field_matches token (acc_activation a)) (accounts db) of
        None \<Rightarrow> (db, Inl (NotFound ''Token invalido o expirado''))
      | Some a \<Rightarrow>
          (case hash_password g newPassword of
             Inl e \<Rightarrow> (db, Inl e)
           | Inr hashed \<Rightarrow>
               let db1 = set_account (acc_id a)
                     (\<lambda>x. x\<lparr>acc_password := hashed, acc_active := True, acc_activation := None\<rparr>) db
               in case session_create now (dw_session dw) (acc_id a) (dw_jti dw) (take 64 clientIp) db1 of
                    Inl e \<Rightarrow> (db1, Inl e)
                  | Inr db2 \<Rightarrow>
                      (db2, Inr (SessionIssued (session_token now a
                          (if acc_role a = SUPER_ADMIN then None else acc_tenant a) (dw_jti dw) db2)
                        (company_of_account a db2)))))"

definition RESET_TTL_MS :: int where "RESET_TTL_MS = 60 * 60 * 1000"

text \<open>The answer is the same text in every case; the new token travels in a mail.\<close>

definition forgotPassword ::
    "int \<Rightarrow> string \<Rightarrow> string option \<Rightarrow> string option \<Rightarrow> captcha_answer \<Rightarrow> string option \<Rightarrow> auth_db \<Rightarrow> auth_db" where
  "forgotPassword now newToken email challenge answer honeypot db =
     (if trim_opt honeypot \<noteq> [] then db
      else case captcha_validate now challenge answer db of
        (db1, False) \<Rightarrow> db1
      | (db1, True) \<Rightarrow>
          let e = normalizeEmail (case email of None \<Rightarrow> [] | Some x \<Rightarrow> x) in
          if e = [] then db1
          else case find_row (prismaEmailInsensitive e) (accounts db1) of
            None \<Rightarrow> db1
          | Some a \<Rightarrow>
              if acc_role a = SUPER_ADMIN then db1
              else set_account (acc_id a)
                (\<lambda>x. x\<lparr>acc_reset := Some newToken, acc_reset_expires := Some (now + RESET_TTL_MS)\<rparr>) db1)"

definition reset_account :: "int \<Rightarrow> field \<Rightarrow> auth_db \<Rightarrow> account option" where
  "reset_account now token db =
     find_row (\<lambda>a. field_matches token (acc_reset a)
       \<and> (case acc_reset_expires a of None \<Rightarrow> False | Some t \<Rightarrow> t > now)) (accounts db)"

definition resetPassword ::
    "gear \<Rightarrow> int \<Rightarrow> field \<Rightarrow> string option \<Rightarrow> string \<Rightarrow> auth_db \<Rightarrow> auth_db res" where
  "resetPassword g now token newPass clientIp db =
     (case reset_account now token db of
        None \<Rightarrow> Inl (BadRequest ''Token invalido o expirado'')
      | Some a \<Rightarrow>
          and_then (hash_password g newPass) (\<lambda>hashed.
            let db1 = set_account (acc_id a)
                  (\<lambda>x. x\<lparr>acc_password := hashed, acc_reset := None, acc_reset_expires := None\<rparr>) db;
                db2 = invalidateAllForUser (acc_id a) db1
            in Inr (recordPasswordChange now (acc_id a) (acc_email a) (take 64 clientIp) (lookupGeo g clientIp) db2)))"

end
