(* ===== verification/User_Admin.thy ===== *)
theory User_Admin
  imports Login
begin

text \<open>
  The administration of users, roles and sessions: \<open>features/users/users.service.ts\<close>,
  \<open>features/tenant-roles\<close>, \<open>features/security-admin/security-admin.service.ts\<close>. Lists, pictures and the
  texts of mails are left out. The user who asks is given, as in the code, by his role and tenant.
\<close>

section \<open>One's own account\<close>

definition buildDisplayName :: "string option \<Rightarrow> string option \<Rightarrow> string \<Rightarrow> string" where
  "buildDisplayName firstName lastName legacyName =
     (let f = trim_opt firstName; l = trim_opt lastName;
          combined = (if f = [] then l else if l = [] then f else f @ '' '' @ l)
      in if trim combined = [] then legacyName else trim combined)"

text \<open>A letter, with the accented ones of Spanish, and a digit.\<close>

definition policy_letter :: "char \<Rightarrow> bool" where
  "policy_letter c = (let n = of_char c :: nat in
     (65 \<le> n \<and> n \<le> 90) \<or> (97 \<le> n \<and> n \<le> 122)
     \<or> n \<in> {193, 201, 205, 211, 218, 220, 225, 233, 237, 243, 250, 252, 209, 241})"

definition assertPasswordPolicy :: "string \<Rightarrow> unit res" where
  "assertPasswordPolicy pw =
     (if length pw < 8 then Inl (BadRequest ''La nueva contrasena debe tener al menos 8 caracteres'')
      else if \<not> list_ex policy_letter pw \<or> \<not> list_ex is_digit pw
      then Inl (BadRequest ''La nueva contrasena debe incluir al menos una letra y un numero'')
      else Inr ())"

record profile_dto =
  pf_first :: "string option"
  pf_last :: "string option"
  pf_phone :: "string option option"
  pf_notify :: "bool option"

definition user_row :: "id \<Rightarrow> auth_db \<Rightarrow> account res" where
  "user_row i db =
     (case find_account i db of None \<Rightarrow> Inl (BadRequest ''Usuario no encontrado'') | Some a \<Rightarrow> Inr a)"

definition updateProfile :: "id \<Rightarrow> profile_dto \<Rightarrow> auth_db \<Rightarrow> auth_db res" where
  "updateProfile userId dto db =
     and_then (user_row userId db) (\<lambda>a.
       let f1 = (case pf_first dto of None \<Rightarrow> acc_first a | Some f \<Rightarrow> or_null (Some (trim f)));
           l1 = (case pf_last dto of None \<Rightarrow> acc_last a | Some l \<Rightarrow> or_null (Some (trim l)));
           phone = (case pf_phone dto of None \<Rightarrow> acc_phone a | Some p \<Rightarrow> map_option trim (or_null p))
       in Inr (set_account userId (\<lambda>x. x\<lparr>acc_first := f1, acc_last := l1, acc_phone := phone,
            acc_name := (if pf_first dto \<noteq> None \<or> pf_last dto \<noteq> None
              then buildDisplayName f1 l1 (acc_name a) else acc_name x),
            acc_notify := (case pf_notify dto of None \<Rightarrow> acc_notify x | Some b \<Rightarrow> b)\<rparr>) db))"

definition changePassword ::
    "gear \<Rightarrow> int \<Rightarrow> id \<Rightarrow> string \<Rightarrow> string \<Rightarrow> string \<Rightarrow> auth_db \<Rightarrow> auth_db res" where
  "changePassword g now userId oldPassword newPassword clientIp db =
     and_then (assertPasswordPolicy newPassword) (\<lambda>_.
     and_then (user_row userId db) (\<lambda>a.
       if \<not> gr_matches g oldPassword (acc_password a)
       then Inl (Unauthorized ''La contrasena actual no es correcta'')
       else
         let db1 = invalidateAllForUser userId
               (set_account userId (\<lambda>x. x\<lparr>acc_password := gr_hash g newPassword\<rparr>) db)
         in Inr (recordPasswordChange now userId (acc_email a) (take 64 clientIp) (lookupGeo g clientIp) db1)))"

definition beginTotpEnrollment :: "gear \<Rightarrow> string \<Rightarrow> id \<Rightarrow> auth_db \<Rightarrow> auth_db res" where
  "beginTotpEnrollment g secret userId db =
     and_then (user_row userId db) (\<lambda>a.
       if acc_totp a then Inl (BadRequest ''TOTP ya esta activo'')
       else Inr (set_account userId (\<lambda>x. x\<lparr>acc_totp_secret := Some (gr_seal g secret), acc_totp := False\<rparr>) db))"

definition activateTotp :: "gear \<Rightarrow> int \<Rightarrow> id \<Rightarrow> string \<Rightarrow> auth_db \<Rightarrow> auth_db res" where
  "activateTotp g now userId code db =
     (case Option.bind (find_account userId db) (\<lambda>a. map_option (Pair a) (or_null (acc_totp_secret a))) of
        None \<Rightarrow> Inl (BadRequest ''Inicia el registro de TOTP primero'')
      | Some (a, sealed) \<Rightarrow>
          if acc_totp a then Inl (BadRequest ''TOTP ya esta activo'')
          else case gr_open g sealed of
            None \<Rightarrow> Inl (InternalError ''Invalid TOTP payload'')
          | Some plain \<Rightarrow>
              if \<not> totp_verify g now code plain then Inl (BadRequest ''Codigo TOTP invalido'')
              else Inr (set_account userId (\<lambda>x. x\<lparr>acc_totp := True\<rparr>) db))"

definition disableTotp :: "gear \<Rightarrow> int \<Rightarrow> id \<Rightarrow> string \<Rightarrow> string \<Rightarrow> auth_db \<Rightarrow> auth_db res" where
  "disableTotp g now userId password totpCode db =
     (case find_account userId db of
        None \<Rightarrow> Inl (BadRequest ''TOTP no esta activo'')
      | Some a \<Rightarrow>
          if \<not> acc_totp a \<or> or_null (acc_totp_secret a) = None then Inl (BadRequest ''TOTP no esta activo'')
          else if \<not> gr_matches g password (acc_password a) then Inl (BadRequest ''Contrasena incorrecta'')
          else case gr_open g (the (acc_totp_secret a)) of
            None \<Rightarrow> Inl (InternalError ''Invalid TOTP payload'')
          | Some plain \<Rightarrow>
              if \<not> totp_verify g now totpCode plain then Inl (BadRequest ''Codigo TOTP invalido'')
              else Inr (invalidateAllForUser userId
                (set_account userId (\<lambda>x. x\<lparr>acc_totp := False, acc_totp_secret := None\<rparr>) db)))"

definition toggleEmail2fa :: "id \<Rightarrow> bool \<Rightarrow> auth_db \<Rightarrow> auth_db res" where
  "toggleEmail2fa userId enabled db =
     and_then (user_row userId db) (\<lambda>a. Inr (set_account userId (\<lambda>x. x\<lparr>acc_email2fa := enabled\<rparr>) db))"

section \<open>Users of the company\<close>

text \<open>Absent texts of the requests are \<open>None\<close>; \<open>nu_contracts\<close> is the list of the request, absent or not.\<close>

record new_user =
  nu_email :: string
  nu_name :: string
  nu_role :: base_role
  nu_custom_role :: "string option"
  nu_rut :: "string option"
  nu_phone :: "string option"
  nu_position :: "string option"
  nu_contracts :: "id list option"

definition email_taken :: "id \<Rightarrow> string \<Rightarrow> auth_db \<Rightarrow> bool" where
  "email_taken i e db = list_ex (\<lambda>a. acc_id a \<noteq> i \<and> acc_email a = e) (accounts db)"

text \<open>The unique key of tenant and RUT; an empty column does not take part.\<close>

definition rut_taken :: "id \<Rightarrow> id option \<Rightarrow> string option \<Rightarrow> auth_db \<Rightarrow> bool" where
  "rut_taken i tenant rut db =
     (tenant \<noteq> None \<and> rut \<noteq> None
      \<and> list_ex (\<lambda>a. acc_id a \<noteq> i \<and> acc_tenant a = tenant \<and> acc_rut a = rut) (accounts db))"

definition effective_role :: "base_role \<Rightarrow> string option \<Rightarrow> id option \<Rightarrow> auth_db \<Rightarrow> base_role res" where
  "effective_role role customRoleId tenantId db =
     (case (or_null customRoleId, or_null tenantId) of
        (Some r, Some t) \<Rightarrow>
          (case find_row (\<lambda>x. ro_id x = r \<and> ro_tenant x = t) (tenant_roles db) of
             None \<Rightarrow> Inl (BadRequest ''El rol de organizacion seleccionado no es valido'')
           | Some x \<Rightarrow> Inr (ro_base x))
      | _ \<Rightarrow> Inr role)"

definition new_account :: "id \<Rightarrow> string \<Rightarrow> new_user \<Rightarrow> base_role \<Rightarrow> id option \<Rightarrow> account" where
  "new_account newId activationToken data role tenantId =
     \<lparr>acc_id = newId, acc_email = normalizeEmail (nu_email data), acc_password = [], acc_name = nu_name data,
      acc_first = None, acc_last = None, acc_role = role, acc_active = False,
      acc_activation = Some activationToken, acc_reset = None, acc_reset_expires = None, acc_lockout = None,
      acc_notify = True, acc_totp = False, acc_email2fa = False, acc_totp_secret = None,
      acc_rut = or_null (map_option trim (nu_rut data)), acc_phone = or_null (map_option trim (nu_phone data)),
      acc_position = nu_position data, acc_overrule = False,
      acc_tenant = (if role = SUPER_ADMIN then None else tenantId), acc_custom_role = or_null (nu_custom_role data)\<rparr>"

text \<open>An invitation that is not delivered takes the new row back.\<close>

definition user_create ::
    "id \<Rightarrow> string \<Rightarrow> bool \<Rightarrow> new_user \<Rightarrow> id option \<Rightarrow> auth_db \<Rightarrow> auth_db res" where
  "user_create newId activationToken delivered data tenantId db =
     and_then (effective_role (nu_role data) (nu_custom_role data) tenantId db) (\<lambda>role.
       if role \<noteq> SUPER_ADMIN \<and> or_null tenantId = None
       then Inl (BadRequest ''El Tenant ID es obligatorio para este rol'')
       else if find_row (prismaEmailInsensitive (nu_email data)) (accounts db) \<noteq> None
       then Inl (Conflict ''El correo electronico ya esta registrado'')
       else
         let a = new_account newId activationToken data role tenantId;
             links = (if role = USER then (case nu_contracts data of None \<Rightarrow> [] | Some cs \<Rightarrow> cs) else [])
         in if find_account newId db \<noteq> None then Inl UniqueViolation
            else if acc_custom_role a \<noteq> None \<and> \<not> list_ex (\<lambda>x. Some (ro_id x) = acc_custom_role a) (tenant_roles db)
            then Inl (InternalError ''custom_role_id'')
            else if rut_taken newId (acc_tenant a) (acc_rut a) db
            then Inl (Conflict ''El RUT ingresado ya esta registrado para otro usuario en esta empresa'')
            else if \<not> distinct links then Inl UniqueViolation
            else if \<not> delivered
            then Inl (ServiceUnavailable ''No se pudo enviar el correo de invitacion'')
            else Inr (db\<lparr>accounts := accounts db @ [a],
                   contract_access := contract_access db @ map (Pair newId) links\<rparr>))"

text \<open>An absent text is \<open>None\<close>; of the nullable columns \<open>Some None\<close> is a \<open>null\<close> of the request.\<close>

record user_patch =
  up_name :: "string option"
  up_email :: "string option"
  up_role :: "base_role option"
  up_rut :: "string option option"
  up_phone :: "string option option"
  up_position :: "string option option"
  up_active :: "bool option"
  up_custom_role :: "id option option"
  up_overrule :: "bool option"
  up_contracts :: "id list option"

definition patch_account :: "user_patch \<Rightarrow> account \<Rightarrow> account" where
  "patch_account p a =
     a\<lparr>acc_name := patched (up_name p) (acc_name a),
       acc_email := patched (map_option normalizeEmail (up_email p)) (acc_email a),
       acc_role := patched (up_role p) (acc_role a),
       acc_rut := patched (up_rut p) (acc_rut a),
       acc_phone := patched (up_phone p) (acc_phone a),
       acc_position := patched (up_position p) (acc_position a),
       acc_active := patched (up_active p) (acc_active a),
       acc_custom_role := patched (up_custom_role p) (acc_custom_role a),
       acc_overrule := patched (up_overrule p) (acc_overrule a)\<rparr>"

text \<open>The contracts of the request replace those of the user; an administrator keeps none.\<close>

definition new_links :: "id \<Rightarrow> user_patch \<Rightarrow> (id \<times> id) list \<Rightarrow> (id \<times> id) list" where
  "new_links i p rows =
     (case up_contracts p of
        None \<Rightarrow> rows
      | Some cs \<Rightarrow> filter (\<lambda>r. fst r \<noteq> i) rows
          @ (if up_role p \<in> {Some ADMIN, Some SUPER_ADMIN} then [] else map (Pair i) cs))"

definition same_tenant :: "base_role \<Rightarrow> id option \<Rightarrow> account \<Rightarrow> bool" where
  "same_tenant requesterRole requesterTenant a \<longleftrightarrow> requesterRole = SUPER_ADMIN \<or> acc_tenant a = requesterTenant"

definition user_update ::
    "id \<Rightarrow> user_patch \<Rightarrow> id option \<Rightarrow> base_role \<Rightarrow> id \<Rightarrow> auth_db \<Rightarrow> auth_db res" where
  "user_update i p requesterTenant requesterRole requesterId db =
     and_then (user_row i db) (\<lambda>a.
       if \<not> same_tenant requesterRole requesterTenant a
       then Inl (BadRequest ''No tienes permisos para editar este usuario'')
       else if requesterId \<noteq> [] \<and> i = requesterId \<and> up_active p = Some False
       then Inl (BadRequest ''No puede desactivar su propia cuenta'')
       else
         let a1 = patch_account p a; links = new_links i p (contract_access db) in
         if rut_taken i (acc_tenant a1) (acc_rut a1) db
         then Inl (Conflict ''El RUT ingresado ya esta registrado para otro usuario en esta empresa'')
         else if email_taken i (acc_email a1) db
         then Inl (Conflict ''El correo electronico ya esta registrado'')
         else if (case up_custom_role p of Some (Some r) \<Rightarrow> \<not> list_ex (\<lambda>x. ro_id x = r) (tenant_roles db) | _ \<Rightarrow> False)
         then Inl (InternalError ''custom_role_id'')
         else if (case up_contracts p of None \<Rightarrow> False
                  | Some cs \<Rightarrow> up_role p \<notin> {Some ADMIN, Some SUPER_ADMIN} \<and> \<not> distinct cs)
         then Inl UniqueViolation
         else Inr (set_account i (patch_account p) (db\<lparr>contract_access := links\<rparr>)))"

text \<open>The new token is kept when its mail is not delivered.\<close>

definition resendActivation ::
    "string \<Rightarrow> bool \<Rightarrow> id \<Rightarrow> id option \<Rightarrow> base_role \<Rightarrow> auth_db \<Rightarrow> auth_db \<times> unit res" where
  "resendActivation newToken delivered i requesterTenant requesterRole db =
     (case user_row i db of
        Inl e \<Rightarrow> (db, Inl e)
      | Inr a \<Rightarrow>
          if \<not> same_tenant requesterRole requesterTenant a
          then (db, Inl (BadRequest ''No tienes permisos para esta accion''))
          else if acc_active a then (db, Inl (BadRequest ''El usuario ya activo su cuenta''))
          else (set_account i (\<lambda>x. x\<lparr>acc_activation := Some newToken\<rparr>) db,
            if delivered then Inr () else Inl (ServiceUnavailable ''No se pudo enviar el correo de invitacion'')))"

text \<open>
  The rows that belong to the user go with him; the log keeps its entries without his key. The
  tables of the other theories that name a user, for which the database may refuse, are apart.
\<close>

definition user_remove :: "id \<Rightarrow> id option \<Rightarrow> base_role \<Rightarrow> auth_db \<Rightarrow> auth_db res" where
  "user_remove i requesterTenant requesterRole db =
     and_then (user_row i db) (\<lambda>a.
       if \<not> same_tenant requesterRole requesterTenant a
       then Inl (BadRequest ''No tienes permisos para eliminar este usuario'')
       else Inr (db\<lparr>accounts := filter (\<lambda>x. acc_id x \<noteq> i) (accounts db),
              contract_access := filter (\<lambda>r. fst r \<noteq> i) (contract_access db),
              sessions := filter (\<lambda>s. ss_user s \<noteq> i) (sessions db),
              challenges := filter (\<lambda>c. ch_user c \<noteq> i) (challenges db),
              auth_log := update_rows (\<lambda>x. ae_user x = Some i) (\<lambda>x. x\<lparr>ae_user := None\<rparr>) (auth_log db)\<rparr>))"

definition adminSetUserPassword ::
    "gear \<Rightarrow> int \<Rightarrow> id \<Rightarrow> string \<Rightarrow> id \<Rightarrow> id option \<Rightarrow> base_role \<Rightarrow> string \<Rightarrow> auth_db \<Rightarrow> auth_db res" where
  "adminSetUserPassword g now target newPassword requesterId requesterTenant requesterRole clientIp db =
     (if target = requesterId then Inl (BadRequest ''No puede establecer su contrasena desde aqui'')
      else and_then (assertPasswordPolicy newPassword) (\<lambda>_.
        and_then (user_row target db) (\<lambda>a.
          if \<not> same_tenant requesterRole requesterTenant a
          then Inl (BadRequest ''No tienes permisos para modificar este usuario'')
          else
            let db1 = invalidateAllForUser target
                  (set_account target (\<lambda>x. x\<lparr>acc_password := gr_hash g newPassword\<rparr>) db)
            in Inr (recordPasswordChange now target (acc_email a) (take 64 clientIp) (lookupGeo g clientIp) db1))))"

section \<open>Roles of the company\<close>

definition SYSTEM_MIRROR_ROLE_NAME :: "base_role \<Rightarrow> string" where
  "SYSTEM_MIRROR_ROLE_NAME r = ''Sistema '' @ [char_of (183 :: nat)] @ '' '' @ role_text r"

definition is_mirror_name :: "string \<Rightarrow> bool" where
  "is_mirror_name n \<longleftrightarrow> n \<in> set (map SYSTEM_MIRROR_ROLE_NAME [SUPER_ADMIN, ADMIN, USER])"

definition ensureMirrorRole :: "(base_role \<Rightarrow> id) \<Rightarrow> id \<Rightarrow> base_role \<Rightarrow> auth_db \<Rightarrow> auth_db" where
  "ensureMirrorRole newId tenantId r db =
     (let n = SYSTEM_MIRROR_ROLE_NAME r in
      if list_ex (\<lambda>x. ro_tenant x = tenantId \<and> ro_name x = n) (tenant_roles db) then db
      else db\<lparr>tenant_roles := tenant_roles db @ [\<lparr>ro_id = newId r, ro_tenant = tenantId, ro_name = n,
        ro_description = Some ''Rol base (espejo)'', ro_base = r, ro_routes = [], ro_permissions = []\<rparr>]\<rparr>)"

definition ensureDefaultTenantRolesForTenant :: "(base_role \<Rightarrow> id) \<Rightarrow> id \<Rightarrow> auth_db \<Rightarrow> auth_db" where
  "ensureDefaultTenantRolesForTenant newId tenantId = fold (ensureMirrorRole newId tenantId) [ADMIN, USER]"

record role_dto =
  rd_name :: "string option"
  rd_description :: "string option"
  rd_base :: "base_role option"
  rd_routes :: "string list option"
  rd_permissions :: "string list option"

definition role_create :: "id \<Rightarrow> id \<Rightarrow> string \<Rightarrow> base_role \<Rightarrow> string list \<Rightarrow> role_dto \<Rightarrow> auth_db \<Rightarrow> auth_db res" where
  "role_create newId tenantId name base routes dto db =
     (if list_ex (\<lambda>x. ro_tenant x = tenantId \<and> ro_name x = name) (tenant_roles db)
      then Inl (Conflict ''Ya existe un rol con el nombre'')
      else if list_ex (\<lambda>x. ro_id x = newId) (tenant_roles db) then Inl UniqueViolation
      else Inr (db\<lparr>tenant_roles := tenant_roles db @ [\<lparr>ro_id = newId, ro_tenant = tenantId, ro_name = name,
        ro_description = rd_description dto, ro_base = base, ro_routes = routes,
        ro_permissions = map Some (case rd_permissions dto of None \<Rightarrow> [] | Some ps \<Rightarrow> ps)\<rparr>]\<rparr>))"

definition role_update :: "id \<Rightarrow> id \<Rightarrow> role_dto \<Rightarrow> auth_db \<Rightarrow> auth_db res" where
  "role_update tenantId i dto db =
     (case find_row (\<lambda>x. ro_id x = i \<and> ro_tenant x = tenantId) (tenant_roles db) of
        None \<Rightarrow> Inl (NotFound ''Rol no encontrado'')
      | Some r \<Rightarrow>
          if is_mirror_name (ro_name r) \<and> rd_name dto \<noteq> None \<and> rd_name dto \<noteq> Some (ro_name r)
          then Inl (BadRequest ''No se puede renombrar un rol base del sistema'')
          else if or_null (rd_name dto) \<noteq> None \<and> rd_name dto \<noteq> Some (ro_name r)
              \<and> list_ex (\<lambda>x. ro_tenant x = tenantId \<and> Some (ro_name x) = rd_name dto \<and> ro_id x \<noteq> i) (tenant_roles db)
          then Inl (Conflict ''Ya existe un rol con el nombre'')
          else Inr (db\<lparr>tenant_roles := update_rows (\<lambda>x. ro_id x = i)
            (\<lambda>x. x\<lparr>ro_name := patched (rd_name dto) (ro_name x),
               ro_description := patched (map_option Some (rd_description dto)) (ro_description x),
               ro_base := patched (rd_base dto) (ro_base x), ro_routes := patched (rd_routes dto) (ro_routes x),
               ro_permissions := patched (map_option (map Some) (rd_permissions dto)) (ro_permissions x)\<rparr>)
            (tenant_roles db)\<rparr>))"

definition replacement_role :: "id \<Rightarrow> tenant_role \<Rightarrow> string option \<Rightarrow> auth_db \<Rightarrow> id res" where
  "replacement_role tenantId r replacementRoleId db =
     (case or_null replacementRoleId of
        None \<Rightarrow> Inl (BadRequest ''Debe reasignar los usuarios a otro rol del mismo nivel'')
      | Some i \<Rightarrow>
          (case find_row (\<lambda>x. ro_id x = i \<and> ro_tenant x = tenantId) (tenant_roles db) of
             None \<Rightarrow> Inl (NotFound ''El rol de reemplazo no existe o no pertenece al tenant'')
           | Some x \<Rightarrow>
               if ro_id x = ro_id r then Inl (BadRequest ''Debe seleccionar un rol de reemplazo distinto'')
               else if ro_base x \<noteq> ro_base r
               then Inl (BadRequest ''El rol de reemplazo debe tener el mismo rol base'')
               else Inr (ro_id x)))"

text \<open>Users of the tenant move to the replacement; a reference from elsewhere is set to null.\<close>

definition role_remove :: "id \<Rightarrow> id \<Rightarrow> string option \<Rightarrow> auth_db \<Rightarrow> auth_db res" where
  "role_remove tenantId i replacementRoleId db =
     (case find_row (\<lambda>x. ro_id x = i \<and> ro_tenant x = tenantId) (tenant_roles db) of
        None \<Rightarrow> Inl (NotFound ''Rol no encontrado'')
      | Some r \<Rightarrow>
          if is_mirror_name (ro_name r)
          then Inl (BadRequest ''No se puede eliminar un rol base del sistema'')
          else
            let assigned = (\<lambda>a. acc_tenant a = Some tenantId \<and> acc_custom_role a = Some i) in
            and_then (if list_ex assigned (accounts db) then replacement_role tenantId r replacementRoleId db else Inr i)
              (\<lambda>new. Inr (db\<lparr>
                accounts := update_rows (\<lambda>a. acc_custom_role a = Some i) (\<lambda>a. a\<lparr>acc_custom_role := None\<rparr>)
                  (update_rows (\<lambda>a. new \<noteq> i \<and> assigned a) (\<lambda>a. a\<lparr>acc_custom_role := Some new\<rparr>) (accounts db)),
                tenant_roles := filter (\<lambda>x. ro_id x \<noteq> i) (tenant_roles db)\<rparr>)))"

section \<open>Security of the platform\<close>

definition assertTenantScope :: "id option \<Rightarrow> base_role \<Rightarrow> unit res" where
  "assertTenantScope tenantId role =
     (if role = ADMIN \<and> or_null tenantId = None
      then Inl (Forbidden ''Sin contexto de tenant para esta operacion'') else Inr ())"

definition adminRevokeSession :: "id \<Rightarrow> id option \<Rightarrow> base_role \<Rightarrow> auth_db \<Rightarrow> auth_db res" where
  "adminRevokeSession sessionId tenantId role db =
     and_then (assertTenantScope tenantId role) (\<lambda>_.
     case find_row (\<lambda>s. ss_id s = sessionId) (sessions db) of
       None \<Rightarrow> Inl (NotFound ''Sesion no encontrada'')
     | Some s \<Rightarrow>
         if or_null tenantId \<noteq> None
             \<and> (case find_account (ss_user s) db of None \<Rightarrow> True | Some a \<Rightarrow> acc_tenant a \<noteq> tenantId)
         then Inl (Forbidden ''Sesion fuera de su tenant'')
         else Inr (invalidate (\<lambda>x. ss_id x = sessionId) db))"

definition updateGlobalAuthSettings :: "bool \<Rightarrow> base_role \<Rightarrow> auth_db \<Rightarrow> auth_db res" where
  "updateGlobalAuthSettings enabled role db =
     (if role \<noteq> SUPER_ADMIN
      then Inl (Forbidden ''Solo un super administrador de plataforma puede modificar esta politica'')
      else Inr (db\<lparr>step_up_row := Some enabled\<rparr>))"

end
