(* ===== verification/Identity_System.thy ===== *)
theory Identity_System
  imports User_Admin
begin

text \<open>
  The operations on accounts and sessions as one step relation, the invariant of their tables and the
  law that a session ended is never valid again, each proved once for the locale \<open>account_service\<close>
  and interpreted on the operations.
\<close>

section \<open>Normalised addresses\<close>

lemma lower_char_idem [simp]: "lower_char (lower_char c) = lower_char c"
  by (auto simp: lower_char_def Let_def)

lemma is_space_lower [simp]: "is_space (lower_char c) = is_space c"
  by (auto simp: lower_char_def Let_def is_space_def)

lemma to_lower_idem [simp]: "to_lower (to_lower s) = to_lower s"
  by (simp add: to_lower_def)

lemma dropWhile_to_lower: "dropWhile is_space (map lower_char s) = map lower_char (dropWhile is_space s)"
  by (induction s) auto

lemma trim_to_lower: "trim (to_lower s) = to_lower (trim s)"
  by (simp add: trim_def to_lower_def dropWhile_to_lower rev_map)

lemma normalizeEmail_idem [simp]: "normalizeEmail (normalizeEmail e) = normalizeEmail e"
  by (simp add: normalizeEmail_def trim_to_lower)

lemma to_lower_normalized: "normalizeEmail e = e \<Longrightarrow> to_lower e = e"
  by (metis normalizeEmail_def to_lower_idem)

section \<open>The invariant\<close>

definition account_ok :: "account \<Rightarrow> bool" where
  "account_ok a \<longleftrightarrow> normalizeEmail (acc_email a) = acc_email a
     \<and> (acc_totp a \<longrightarrow> or_null (acc_totp_secret a) \<noteq> None)
     \<and> (acc_reset a = None \<longleftrightarrow> acc_reset_expires a = None)"

definition identity_ok :: "auth_db \<Rightarrow> bool" where
  "identity_ok db \<longleftrightarrow> distinct (map acc_id (accounts db)) \<and> distinct (map acc_email (accounts db))
     \<and> (\<forall>a \<in> set (accounts db). account_ok a) \<and> distinct (map ss_jti (sessions db))
     \<and> ss_user ` set (sessions db) \<subseteq> acc_id ` set (accounts db)
     \<and> ch_user ` set (challenges db) \<subseteq> acc_id ` set (accounts db)
     \<and> fst ` set (contract_access db) \<subseteq> acc_id ` set (accounts db) \<and> distinct (contract_access db)"

text \<open>The sessions a token can still name.\<close>

definition valid_sessions :: "auth_db \<Rightarrow> (id \<times> string) set" where
  "valid_sessions db = {(ss_user s, ss_jti s) |s. s \<in> set (sessions db) \<and> ss_valid s}"

lemma assertSessionValid_iff:
  "assertSessionValid i jti db = Inr () \<longleftrightarrow> (case jti of None \<Rightarrow> True | Some j \<Rightarrow> (i, j) \<in> valid_sessions db)"
  by (auto simp: assertSessionValid_def valid_sessions_def list_ex_iff split: option.splits)

locale account_service =
  fixes step :: "auth_db \<Rightarrow> auth_db \<Rightarrow> bool" and drawn :: "string set"
  assumes keeps: "identity_ok db \<Longrightarrow> step db db' \<Longrightarrow> identity_ok db'"
    and revives: "step db db' \<Longrightarrow> valid_sessions db' \<subseteq> valid_sessions db \<union> UNIV \<times> drawn"
begin

lemma run_keeps: "step\<^sup>*\<^sup>* db db' \<Longrightarrow> identity_ok db \<Longrightarrow> identity_ok db'"
  by (induction rule: rtranclp_induct) (auto intro: keeps)

lemma run_revives: "step\<^sup>*\<^sup>* db db' \<Longrightarrow> valid_sessions db' \<subseteq> valid_sessions db \<union> UNIV \<times> drawn"
  by (induction rule: rtranclp_induct) (use revives in blast)+

lemma ended_stays_ended:
  "step\<^sup>*\<^sup>* db db' \<Longrightarrow> (i, j) \<notin> valid_sessions db \<Longrightarrow> j \<notin> drawn \<Longrightarrow> (i, j) \<notin> valid_sessions db'"
  using run_revives by blast

end

section \<open>What the operations write\<close>

lemma update_rows_map_same:
  "(\<And>x. f (g x) = f x) \<Longrightarrow> map f (update_rows p g xs) = map f xs"
  by (induction xs) auto

lemma update_rows_image_same: "(\<And>x. f (g x) = f x) \<Longrightarrow> f ` set (update_rows p g xs) = f ` set xs"
  by (metis update_rows_map_same set_map)

lemma account_frame [simp]:
  "sessions (set_account i f db) = sessions db" "challenges (set_account i f db) = challenges db"
  "contract_access (set_account i f db) = contract_access db" "tenant_roles (set_account i f db) = tenant_roles db"
  "companies (set_account i f db) = companies db" "auth_log (set_account i f db) = auth_log db"
  "captchas (set_account i f db) = captchas db" "step_up_row (set_account i f db) = step_up_row db"
  "accounts (set_account i f db) = update_rows (\<lambda>a. acc_id a = i) f (accounts db)"
  "valid_sessions (set_account i f db) = valid_sessions db"
  by (simp_all add: set_account_def valid_sessions_def)

lemma set_account_ok:
  assumes "identity_ok db" and "\<And>x. acc_id (f x) = acc_id x" and "\<And>x. acc_email (f x) = acc_email x"
    and "\<And>x. x \<in> set (accounts db) \<Longrightarrow> acc_id x = i \<Longrightarrow> account_ok x \<Longrightarrow> account_ok (f x)"
  shows "identity_ok (set_account i f db)"
  using assms
  by (auto simp: identity_ok_def update_rows_map_same update_rows_image_same) (auto simp: set_update_rows)

text \<open>Operations that leave accounts, sessions, challenges and contracts alone.\<close>

definition same_identity :: "auth_db \<Rightarrow> auth_db \<Rightarrow> bool" where
  "same_identity db db' \<longleftrightarrow> accounts db' = accounts db \<and> sessions db' = sessions db
     \<and> challenges db' = challenges db \<and> contract_access db' = contract_access db"

lemma same_identity_ok:
  "same_identity db db' \<Longrightarrow> identity_ok db' = identity_ok db"
  "same_identity db db' \<Longrightarrow> valid_sessions db' = valid_sessions db"
  by (auto simp: same_identity_def identity_ok_def valid_sessions_def)

lemma log_auth_same: "same_identity db (log_auth x db)"
  by (simp add: same_identity_def log_auth_def)

lemma captcha_validate_same: "captcha_validate now c a db = (db', b) \<Longrightarrow> same_identity db db'"
  by (auto simp: captcha_validate_def same_identity_def Let_def split: option.splits if_splits)

lemma invalidate_ok: "identity_ok (invalidate p db) = identity_ok db"
  by (simp add: invalidate_def identity_ok_def update_rows_map_same update_rows_image_same)

lemma valid_invalidate:
  "valid_sessions (invalidate p db) = {(ss_user s, ss_jti s) |s. s \<in> set (sessions db) \<and> ss_valid s \<and> \<not> p s}"
  by (auto simp: valid_sessions_def invalidate_def set_update_rows split: if_splits)

lemma valid_invalidate_less: "valid_sessions (invalidate p db) \<subseteq> valid_sessions db"
  unfolding valid_invalidate by (auto simp: valid_sessions_def)

lemma session_create_InrE:
  assumes "session_create now s i jti ip db = Inr db'"
  obtains x where "db' = db\<lparr>sessions := sessions db @ [x]\<rparr>" "ss_user x = i" "ss_jti x = take 64 jti"
    "ss_valid x" "ss_jti x \<notin> ss_jti ` set (sessions db)"
proof
  show "db' = db\<lparr>sessions := sessions db @ [\<lparr>ss_id = s, ss_user = i, ss_jti = take 64 jti, ss_ip = take 64 ip,
      ss_last = now, ss_valid = True\<rparr>]\<rparr>" and "ss_jti \<lparr>ss_id = s, ss_user = i, ss_jti = take 64 jti,
      ss_ip = take 64 ip, ss_last = now, ss_valid = True\<rparr> \<notin> ss_jti ` set (sessions db)"
    using assms by (auto simp: session_create_def Let_def list_ex_iff split: if_splits)
qed simp_all


text \<open>An operation keeps the invariant and makes no ended session valid.\<close>

definition sound_for :: "string set \<Rightarrow> auth_db \<Rightarrow> auth_db \<Rightarrow> bool" where
  "sound_for J db db' \<longleftrightarrow> (identity_ok db \<longrightarrow> identity_ok db') \<and> valid_sessions db' \<subseteq> valid_sessions db \<union> UNIV \<times> J"

lemma sound_refl: "sound_for J db db"
  by (simp add: sound_for_def)

lemma sound_trans: "sound_for J a b \<Longrightarrow> sound_for J b c \<Longrightarrow> sound_for J a c"
  by (auto simp: sound_for_def)

lemma sound_same: "same_identity db db' \<Longrightarrow> sound_for J db db'"
  by (simp add: sound_for_def same_identity_ok)

lemma sound_log: "sound_for J db (log_auth x db)"
  by (rule sound_same, rule log_auth_same)

lemma sound_set:
  "(\<And>x. acc_id (f x) = acc_id x) \<Longrightarrow> (\<And>x. acc_email (f x) = acc_email x) \<Longrightarrow>
   (\<And>x. x \<in> set (accounts db) \<Longrightarrow> acc_id x = i \<Longrightarrow> account_ok x \<Longrightarrow> account_ok (f x)) \<Longrightarrow>
   sound_for J db (set_account i f db)"
  by (simp add: sound_for_def set_account_ok)

lemma sound_invalidate: "sound_for J db (invalidate p db)"
  using valid_invalidate_less by (fastforce simp: sound_for_def invalidate_ok)

lemma sound_session_create:
  assumes "session_create now s i jti ip db = Inr db'" and "take 64 jti \<in> J" and "find_account i db \<noteq> None"
  shows "sound_for J db db'"
  using assms(1)
proof (rule session_create_InrE)
  fix x
  assume x: "db' = db\<lparr>sessions := sessions db @ [x]\<rparr>" "ss_user x = i" "ss_jti x = take 64 jti" "ss_valid x"
    "ss_jti x \<notin> ss_jti ` set (sessions db)"
  have "i \<in> acc_id ` set (accounts db)"
    using assms(3) by (auto simp: find_account_def dest: find_row_SomeD)
  then show ?thesis using x assms(2) by (auto simp: sound_for_def identity_ok_def valid_sessions_def)
qed

lemma sound_failure: "sound_for J db (recordLoginFailure now e u ip geo db)"
proof -
  have same: "same_identity db (db\<lparr>auth_log := L\<rparr>)" for L and db :: auth_db by (simp add: same_identity_def)
  have lock: "sound_for J d (applyLockoutForEmail now e' d)" for d e'
    by (auto simp: applyLockoutForEmail_def intro!: sound_refl sound_set split: option.splits)
       (simp add: account_ok_def)
  have "sound_for J d (markBruteForceClusterIfNeeded now e' d)" for d e'
    by (auto simp: markBruteForceClusterIfNeeded_def intro: sound_refl sound_trans[OF sound_same[OF same] lock])
  then show ?thesis unfolding recordLoginFailure_def Let_def by (rule sound_trans[OF sound_log])
qed

lemma sound_challenge:
  assumes "createChallengeAndSendEmail g now n tok code ok i db = (db', b)" and "find_account i db \<noteq> None"
  shows "sound_for J db db'"
proof -
  have i: "i \<in> acc_id ` set (accounts db)"
    using assms(2) by (auto simp: find_account_def dest: find_row_SomeD)
  have same: "accounts db' = accounts db" "sessions db' = sessions db" "contract_access db' = contract_access db"
    and more: "ch_user ` set (challenges db') \<subseteq> insert i (ch_user ` set (challenges db))"
    using assms(1) by (auto simp: createChallengeAndSendEmail_def Let_def split: if_splits)
  have "ch_user ` set (challenges db') \<subseteq> acc_id ` set (accounts db)" if "identity_ok db"
    using that i by (intro subset_trans[OF more]) (simp add: identity_ok_def)
  then show ?thesis using same by (simp add: sound_for_def identity_ok_def valid_sessions_def)
qed

lemma find_account_map [simp]:
  "(\<And>x. acc_id (f x) = acc_id x) \<Longrightarrow>
   find_account i (set_account j f db) = map_option (\<lambda>a. if acc_id a = j then f a else a) (find_account i db)"
  by (simp add: find_account_def find_row_update_rows)

lemma find_account_same: "accounts db' = accounts db \<Longrightarrow> find_account i db' = find_account i db"
  by (simp add: find_account_def)

lemma find_account_member: "a \<in> set (accounts db) \<Longrightarrow> find_account (acc_id a) db \<noteq> None"
  by (auto simp: find_account_def find_row_None_iff)

lemma find_account_SomeD: "find_account i db = Some a \<Longrightarrow> a \<in> set (accounts db) \<and> acc_id a = i"
  by (auto simp: find_account_def dest: find_row_SomeD)

section \<open>The operations of signing in\<close>

lemma challenge_accounts: "accounts (fst (createChallengeAndSendEmail g now n tok code ok i db)) = accounts db"
  by (simp add: createChallengeAndSendEmail_def Let_def)

lemma step_up_cases:
  "maybeSendEmailStepUp g now dw a ip geo db = (db', q) \<Longrightarrow>
   (db' = db \<and> q = Inr None) \<or> (\<exists>b. createChallengeAndSendEmail g now (dw_challenge dw) (dw_token dw) (dw_code dw)
      (dw_mail dw) (acc_id a) db = (db', b) \<and> q \<noteq> Inr None)"
  by (auto simp: maybeSendEmailStepUp_def split: if_splits prod.splits bool.splits)

lemma sound_step_up:
  assumes "maybeSendEmailStepUp g now dw a ip geo db = (db', r)" and "find_account (acc_id a) db \<noteq> None"
  shows "sound_for J db db'" and "find_account (acc_id a) db' \<noteq> None"
proof -
  consider "db' = db" | b where "createChallengeAndSendEmail g now (dw_challenge dw) (dw_token dw) (dw_code dw)
      (dw_mail dw) (acc_id a) db = (db', b)"
    using step_up_cases[OF assms(1)] by blast
  then show "sound_for J db db'" using assms(2) by cases (auto intro: sound_refl sound_challenge)
  have "accounts db' = accounts db"
    using step_up_cases[OF assms(1)] challenge_accounts by (metis fst_conv)
  then show "find_account (acc_id a) db' \<noteq> None" using assms(2) by (simp add: find_account_def)
qed

lemma success_frame: "same_identity db (recordLoginSuccess now u e ip geo db)"
  by (simp add: recordLoginSuccess_def Let_def log_auth_same)

lemma sound_complete:
  assumes "completeLoginAfterPasswordOk now dw a ip geo code db = (db', r)" and "find_account (acc_id a) db \<noteq> None"
    and "take 64 (dw_jti dw) \<in> J"
  shows "sound_for J db db'"
proof -
  let ?db1 = "recordLoginSuccess now (acc_id a) (acc_email a) ip geo db"
  have one: "sound_for J db ?db1" by (rule sound_same, rule success_frame)
  have "accounts ?db1 = accounts db" using success_frame by (simp add: same_identity_def)
  then have found: "find_account (acc_id a) ?db1 \<noteq> None" using assms(2) by (simp add: find_account_def)
  show ?thesis
  proof (cases "session_create now (dw_session dw) (acc_id a) (dw_jti dw) ip ?db1")
    case (Inl e)
    then show ?thesis
      using assms(1) one by (simp add: completeLoginAfterPasswordOk_def Let_def split: prod.splits)
  next
    case (Inr db2)
    then have "db' = db2"
      using assms(1) by (simp add: completeLoginAfterPasswordOk_def Let_def split: prod.splits)
    then show ?thesis using sound_trans[OF one sound_session_create[OF Inr assms(3) found]] by simp
  qed
qed

lemma sound_mail_or_session:
  assumes "mail_or_session g now dw a ip geo code db = (db', r)" and "find_account (acc_id a) db \<noteq> None"
    and "take 64 (dw_jti dw) \<in> J"
  shows "sound_for J db db'"
proof -
  obtain db1 q where step: "maybeSendEmailStepUp g now dw a ip geo db = (db1, q)" by (meson surj_pair)
  note mail = sound_step_up[OF step assms(2)]
  have "db' = db1 \<or> completeLoginAfterPasswordOk now dw a ip geo code db1 = (db', r)"
    using assms(1) step by (auto simp: mail_or_session_def split: sum.splits option.splits)
  then show ?thesis using mail sound_trans[OF mail(1) sound_complete[OF _ mail(2) assms(3)]] by blast
qed

text \<open>A login refuses, writing the failure, or accepts the password of an account.\<close>

lemma login_cases:
  assumes "login g now dw dto ip db = (db', r)"
  obtains (refused) e u d x where "same_identity db d" "db' = recordLoginFailure now e u (take 64 ip) (lookupGeo g ip) d"
    "r = Inl x"
  | (accepted) d a email code pass where "captcha_validate now (lo_challenge dto) (lo_answer dto) db = (d, True)"
    "same_identity db d" "find_row (prismaEmailInsensitive email) (accounts d) = Some a"
    "login_refusal g now code pass a d = None" "code = trim_opt (lo_tenant_code dto)"
    "lo_password dto = Some pass" "lo_email dto \<noteq> None" "email = normalizeEmail (the (lo_email dto))"
    "password_accepted g now dw a (take 64 ip) (lookupGeo g ip) code d = (db', r)"
proof -
  let ?email = "normalizeEmail (case lo_email dto of None \<Rightarrow> [] | Some e \<Rightarrow> e)"
  obtain d b where captcha: "captcha_validate now (lo_challenge dto) (lo_answer dto) db = (d, b)" by (meson surj_pair)
  note same = captcha_validate_same[OF captcha]
  have self: "same_identity db db" by (simp add: same_identity_def)
  have fail: thesis if "refuse now e u (take 64 ip) (lookupGeo g ip) x c = (db', r)" "same_identity db c" for e u x c
    by (rule refused[OF that(2)]) (use that(1) in \<open>auto simp: refuse_def\<close>)
  show ?thesis
  proof (cases "trim_opt (lo_honeypot dto) \<noteq> [] \<or> \<not> b \<or> ?email = [] \<or> lo_password dto \<in> {None, Some []}
      \<or> find_row (prismaEmailInsensitive ?email) (accounts d) = None")
    case True
    then show ?thesis
      using assms captcha fail[OF _ self] fail[OF _ same]
      by (cases b) (auto simp: login_def Let_def split: if_splits option.splits)
  next
    case False
    then obtain a pass where a: "find_row (prismaEmailInsensitive ?email) (accounts d) = Some a" "lo_password dto = Some pass"
        "trim_opt (lo_honeypot dto) = []" "b" "?email \<noteq> []" "pass \<noteq> []"
      by auto
    have "lo_email dto \<noteq> None" using a(5) by (cases "lo_email dto") (simp_all add: normalizeEmail_def trim_def to_lower_def)
    then show ?thesis
      using assms captcha a fail[OF _ same] accepted[OF _ same a(1)]
      by (auto simp: login_def Let_def split: option.splits)
  qed
qed

lemma sound_login:
  assumes "login g now dw dto ip db = (db', r)" and "take 64 (dw_jti dw) \<in> J"
  shows "sound_for J db db'"
  using assms(1)
proof (cases rule: login_cases)
  case (refused e u d x)
  then show ?thesis using sound_trans[OF sound_same sound_failure] by blast
next
  case (accepted d a email code pass)
  let ?d1 = "set_account (acc_id a) (\<lambda>x. x\<lparr>acc_lockout := None\<rparr>) d"
  have lifted: "sound_for J d ?d1" by (rule sound_set) (simp_all add: account_ok_def)
  have found: "find_account (acc_id a) ?d1 \<noteq> None"
    using find_account_member find_row_SomeD[OF accepted(3)] by simp
  have "sound_for J d db'"
    using accepted(9) lifted sound_trans[OF lifted sound_mail_or_session[OF _ found assms(2)]]
    by (auto simp: password_accepted_def Let_def split: if_splits)
  then show ?thesis using sound_trans[OF sound_same] accepted(2) by blast
qed

lemma totp_login_cases:
  assumes "verifyTotpLogin g now dw t code ip db = (db', r)"
  obtains (failed) e where "db' = db" "r = Inl e"
  | (passed) p a s where "jwt_verify now (the t) = Some p" "jw_typ p = Some ''pre_totp''"
    "find_account (jw_sub p) db = Some a" "acc_active a" "acc_totp a" "gr_open g (the (acc_totp_secret a)) = Some s"
    "totp_verify g now code s"
    "mail_or_session g now dw a (take 64 ip) (lookupGeo g ip) (jw_tc p) db = (db', r)"
proof -
  have "(db' = db \<and> (\<exists>e. r = Inl e)) \<or>
   (\<exists>p a s. jwt_verify now (the t) = Some p \<and> jw_typ p = Some ''pre_totp'' \<and> find_account (jw_sub p) db = Some a
     \<and> acc_active a \<and> acc_totp a \<and> gr_open g (the (acc_totp_secret a)) = Some s \<and> totp_verify g now code s
     \<and> mail_or_session g now dw a (take 64 ip) (lookupGeo g ip) (jw_tc p) db = (db', r))"
    using assms by (auto simp: verifyTotpLogin_def split: if_splits option.splits)
  then show ?thesis
    by (elim disjE exE conjE) ((rule failed; assumption), (rule passed; assumption))
qed

lemma sound_totp_login:
  assumes "verifyTotpLogin g now dw t code ip db = (db', r)" and "take 64 (dw_jti dw) \<in> J"
  shows "sound_for J db db'"
  using assms(1)
proof (cases rule: totp_login_cases)
  case (passed p a s)
  then show ?thesis
    using find_account_SomeD[OF passed(3)] by (intro sound_mail_or_session[OF passed(8) _ assms(2)]) simp
qed (simp add: sound_refl)


lemma step_up_login_cases:
  assumes "verifySuperAdminStepUp g now dw t code tc ip db = (db', r)"
  obtains (failed) e where "db' = db" "r = Inl e"
  | (unusable) e d i where "verifyAndConsumeToken g now (the t) code db = Inr (d, i)" "db' = d" "r = Inl e"
  | (passed) d i a where "verifyAndConsumeToken g now (the t) code db = Inr (d, i)" "find_account i d = Some a"
    "acc_active a" "acc_role a = SUPER_ADMIN"
    "completeLoginAfterPasswordOk now dw a (take 64 ip) (lookupGeo g ip) (Some (trim_opt tc)) d = (db', r)"
proof -
  have "(db' = db \<and> (\<exists>e. r = Inl e)) \<or> (\<exists>d i. verifyAndConsumeToken g now (the t) code db = Inr (d, i)
     \<and> (db' = d \<and> (\<exists>e. r = Inl e) \<or> (\<exists>a. find_account i d = Some a \<and> acc_active a \<and> acc_role a = SUPER_ADMIN
       \<and> completeLoginAfterPasswordOk now dw a (take 64 ip) (lookupGeo g ip) (Some (trim_opt tc)) d = (db', r))))"
    using assms by (auto simp: verifySuperAdminStepUp_def split: if_splits option.splits sum.splits prod.splits)
  then show ?thesis
    by (elim disjE exE conjE) ((rule failed; assumption), (rule unusable; assumption), (rule passed; assumption))
qed

lemma sound_tables:
  assumes "accounts db' = accounts db" and "sessions db' = sessions db" and "contract_access db' = contract_access db"
    and "map ch_user (challenges db') = map ch_user (challenges db)"
  shows "sound_for J db db'"
proof -
  have "ch_user ` set (challenges db') = ch_user ` set (challenges db)" using assms(4) by (metis set_map)
  then show ?thesis using assms(1-3) by (simp add: sound_for_def identity_ok_def valid_sessions_def)
qed

lemma sound_consume: "verifyAndConsumeToken g now t code db = Inr (d, i) \<Longrightarrow> sound_for J db d"
  by (auto simp: verifyAndConsumeToken_def Let_def update_rows_map_same intro!: sound_tables
      split: if_splits option.splits)

lemma sound_step_up_login:
  assumes "verifySuperAdminStepUp g now dw t code tc ip db = (db', r)" and "take 64 (dw_jti dw) \<in> J"
  shows "sound_for J db db'"
  using assms(1)
proof (cases rule: step_up_login_cases)
  case (unusable e d i)
  then show ?thesis using sound_consume by blast
next
  case (passed d i a)
  have "find_account (acc_id a) d \<noteq> None" using find_account_SomeD[OF passed(2)] passed(2) by simp
  then show ?thesis using sound_trans[OF sound_consume[OF passed(1)] sound_complete[OF passed(5) _ assms(2)]] by blast
qed (simp add: sound_refl)

lemma sound_activate:
  assumes "activateAccount g now dw t pw ip db = (db', r)" and "take 64 (dw_jti dw) \<in> J"
  shows "sound_for J db db'"
proof -
  let ?f = "\<lambda>h x. x\<lparr>acc_password := h, acc_active := True, acc_activation := None\<rparr>"
  have set: "sound_for J db (set_account i (?f h) db)" for i h by (rule sound_set) (simp_all add: account_ok_def)
  have "sound_for J db d" if "session_create now (dw_session dw) (acc_id a) (dw_jti dw) (take 64 ip)
      (set_account (acc_id a) (?f h) db) = Inr d" "a \<in> set (accounts db)" for a h d
    using find_account_member[OF that(2)]
    by (intro sound_trans[OF set sound_session_create[OF that(1) assms(2)]]) simp
  then show ?thesis
    using assms(1) set by (auto simp: activateAccount_def Let_def hash_password_def intro: sound_refl
        dest: find_row_SomeD split: option.splits sum.splits)
qed

lemma sound_forgot: "sound_for J db (forgotPassword now tok e c a h db)"
proof -
  obtain d b where captcha: "captcha_validate now c a db = (d, b)" by (meson surj_pair)
  have "sound_for J d (set_account i (\<lambda>x. x\<lparr>acc_reset := Some tok, acc_reset_expires := Some t\<rparr>) d)" for i t
    by (rule sound_set) (simp_all add: account_ok_def)
  note set = sound_trans[OF sound_same[OF captcha_validate_same[OF captcha]] this]
  show ?thesis
    using captcha set sound_same[OF captcha_validate_same[OF captcha]]
    by (auto simp: forgotPassword_def Let_def intro: sound_refl split: option.splits bool.splits)
qed

lemma sound_reset: "resetPassword g now t pw ip db = Inr db' \<Longrightarrow> sound_for J db db'"
  by (auto simp: resetPassword_def Let_def and_then_eq_Inr recordPasswordChange_def invalidateAllForUser_def
      intro!: sound_trans[OF _ sound_log] sound_trans[OF _ sound_invalidate] sound_set split: option.splits)
     (simp add: account_ok_def)

lemma sound_logout: "sound_for J db (recordLogoutAudit g now i e j ip db)"
  by (auto simp: recordLogoutAudit_def Let_def recordLogout_def revokeByJti_def
      intro!: sound_log sound_trans[OF _ sound_log] sound_invalidate split: option.splits)

lemma sound_touch: "sound_for J db (touchLastActive now i j db)"
  by (auto simp: touchLastActive_def sound_for_def identity_ok_def valid_sessions_def set_update_rows
      update_rows_map_same update_rows_image_same split: option.splits)

lemma sound_validate: "jwt_validate now t h db = Inr (db', u) \<Longrightarrow> sound_for J db db'"
  by (auto simp: jwt_validate_def Let_def and_then_eq_Inr intro: sound_touch split: option.splits if_splits)

section \<open>The operations of the administration\<close>

lemma user_row_InrD: "user_row i db = Inr a \<Longrightarrow> a \<in> set (accounts db) \<and> acc_id a = i"
  by (auto simp: user_row_def dest: find_account_SomeD split: option.splits)

lemma sound_own_account:
  "updateProfile i dto db = Inr db' \<Longrightarrow> sound_for J db db'"
  "changePassword g now i old new ip db = Inr db' \<Longrightarrow> sound_for J db db'"
  "beginTotpEnrollment g s i db = Inr db' \<Longrightarrow> sound_for J db db'"
  "disableTotp g now i pw code db = Inr db' \<Longrightarrow> sound_for J db db'"
  "toggleEmail2fa i b db = Inr db' \<Longrightarrow> sound_for J db db'"
  "adminSetUserPassword g now i new r t role ip db = Inr db' \<Longrightarrow> sound_for J db db'"
  by (auto simp: updateProfile_def changePassword_def beginTotpEnrollment_def disableTotp_def toggleEmail2fa_def
      adminSetUserPassword_def and_then_eq_Inr Let_def recordPasswordChange_def invalidateAllForUser_def account_ok_def
      intro!: sound_trans[OF _ sound_log] sound_trans[OF _ sound_invalidate] sound_set
      split: option.splits if_splits)

lemma sound_activate_totp:
  assumes "activateTotp g now i code db = Inr db'"
  shows "sound_for J db db'"
proof -
  obtain a where a: "find_account i db = Some a" "or_null (acc_totp_secret a) \<noteq> None"
      "db' = set_account i (\<lambda>x. x\<lparr>acc_totp := True\<rparr>) db"
    using assms by (auto simp: activateTotp_def split: option.splits if_splits bind_splits)
  show ?thesis
    unfolding sound_for_def
  proof (intro conjI impI)
    assume ok: "identity_ok db"
    have "x = a" if "x \<in> set (accounts db)" "acc_id x = i" for x
      using that find_account_SomeD[OF a(1)] ok by (metis identity_ok_def distinct_map inj_onD)
    then show "identity_ok db'" unfolding a(3) using a(2) ok by (intro set_account_ok) (auto simp: account_ok_def)
  qed (simp add: a(3))
qed

lemma sound_resend: "resendActivation tok ok i t role db = (db', r) \<Longrightarrow> sound_for J db db'"
  by (auto simp: resendActivation_def account_ok_def intro!: sound_refl sound_set split: sum.splits if_splits)

lemma fresh_email:
  assumes "identity_ok db" and "find_row (prismaEmailInsensitive e) (accounts db) = None"
  shows "normalizeEmail e \<notin> acc_email ` set (accounts db)"
  using assms by (auto simp: identity_ok_def account_ok_def find_row_None_iff prismaEmailInsensitive_def
      dest!: bspec to_lower_normalized)

lemma sound_create:
  assumes "user_create i tok ok data t db = Inr db'"
  shows "sound_for J db db'"
proof -
  obtain role where role: "effective_role (nu_role data) (nu_custom_role data) t db = Inr role"
    using assms by (auto simp: user_create_def and_then_eq_Inr)
  define links where "links = (if role = USER then (case nu_contracts data of None \<Rightarrow> [] | Some cs \<Rightarrow> cs) else [])"
  have new: "find_row (prismaEmailInsensitive (nu_email data)) (accounts db) = None"
      "find_account i db = None" "distinct links"
      "db' = db\<lparr>accounts := accounts db @ [new_account i tok data role t],
         contract_access := contract_access db @ map (Pair i) links\<rparr>"
    using assms role by (simp_all add: user_create_def Let_def flip: links_def split: if_splits)
  have i: "i \<notin> acc_id ` set (accounts db)" using new(2) by (auto simp: find_account_def find_row_None_iff)
  show ?thesis
    unfolding sound_for_def
  proof (intro conjI impI)
    assume ok: "identity_ok db"
    have "normalizeEmail (nu_email data) \<notin> acc_email ` set (accounts db)" by (rule fresh_email[OF ok new(1)])
    moreover have "i \<notin> fst ` set (contract_access db)" using ok i by (auto simp: identity_ok_def)
    then have "distinct (contract_access db @ map (Pair i) links)"
      using ok new(3) by (auto simp: identity_ok_def distinct_map image_iff intro: inj_onI)
    ultimately show "identity_ok db'"
      using ok i unfolding new(4) by (auto simp: identity_ok_def new_account_def account_ok_def)
  qed (simp add: new(4) valid_sessions_def)
qed

lemma new_links_ok:
  assumes "distinct rows" and "(case up_contracts p of None \<Rightarrow> False
      | Some cs \<Rightarrow> up_role p \<notin> {Some ADMIN, Some SUPER_ADMIN} \<and> \<not> distinct cs) = False"
  shows "distinct (new_links i p rows)" and "fst ` set (new_links i p rows) \<subseteq> insert i (fst ` set rows)"
  using assms by (auto simp: new_links_def distinct_map split: option.splits intro: inj_onI)

lemma distinct_update:
  assumes "distinct (map k xs)" "distinct (map e xs)" "a \<in> set xs"
    and new: "\<And>x. x \<in> set xs \<Longrightarrow> k x \<noteq> k a \<Longrightarrow> e x \<noteq> e (f a)"
  shows "distinct (map e (update_rows (\<lambda>x. k x = k a) f xs))"
proof -
  have "x = a" if "x \<in> set xs" "k x = k a" for x
    using that assms(1,3) by (metis distinct_map inj_onD)
  then have "map e (update_rows (\<lambda>x. k x = k a) f xs) = map (\<lambda>x. if x = a then e (f a) else e x) xs"
    by (auto simp: update_rows_def)
  moreover have "inj_on (\<lambda>x. if x = a then e (f a) else e x) (set xs)"
    using assms by (intro inj_onI) (metis distinct_map inj_onD)
  ultimately show ?thesis using assms(1) by (simp add: distinct_map)
qed

lemma sound_update:
  assumes "user_update i p t role r db = Inr db'"
  shows "sound_for J db db'"
proof -
  obtain a where a: "a \<in> set (accounts db)" "acc_id a = i" "\<not> email_taken i (acc_email (patch_account p a)) db"
      "(case up_contracts p of None \<Rightarrow> False
        | Some cs \<Rightarrow> up_role p \<notin> {Some ADMIN, Some SUPER_ADMIN} \<and> \<not> distinct cs) = False"
      "db' = set_account i (patch_account p) (db\<lparr>contract_access := new_links i p (contract_access db)\<rparr>)"
    using assms user_row_InrD unfolding user_update_def and_then_eq_Inr Let_def
    by (auto split: if_splits simp del: insert_iff)
  note links = new_links_ok[OF _ a(4)]
  show ?thesis
    unfolding sound_for_def
  proof (intro conjI impI)
    assume ok: "identity_ok db"
    let ?rows = "update_rows (\<lambda>a. acc_id a = i) (patch_account p) (accounts db)"
    have id: "acc_id (patch_account p x) = acc_id x" for x by (simp add: patch_account_def)
    have "distinct (map acc_email ?rows)"
      using ok a(1,3) unfolding a(2)[symmetric] identity_ok_def
      by (intro distinct_update) (auto simp: email_taken_def list_ex_iff)
    moreover have "\<forall>x \<in> set ?rows. account_ok x"
      using ok by (auto simp: identity_ok_def set_update_rows account_ok_def patch_account_def patched_def
          split: option.splits)
    moreover have "fst ` set (new_links i p (contract_access db)) \<subseteq> acc_id ` set (accounts db)"
      by (rule subset_trans[OF links(2)]) (use ok a(1,2) in \<open>auto simp: identity_ok_def\<close>)
    ultimately show "identity_ok db'"
      using ok links(1) unfolding a(5)
      by (simp add: identity_ok_def update_rows_map_same update_rows_image_same id)
  qed (simp add: a(5) valid_sessions_def)
qed

lemma keys_filtered:
  "f ` set xs \<subseteq> g ` set ys \<Longrightarrow> f ` set (filter (\<lambda>x. f x \<noteq> i) xs) \<subseteq> g ` set (filter (\<lambda>y. g y \<noteq> i) ys)"
  by (fastforce simp: image_iff subset_iff)

lemma sound_remove:
  assumes "user_remove i t role db = Inr db'"
  shows "sound_for J db db'"
proof -
  have db': "accounts db' = filter (\<lambda>x. acc_id x \<noteq> i) (accounts db)" "sessions db' = filter (\<lambda>s. ss_user s \<noteq> i) (sessions db)"
    "challenges db' = filter (\<lambda>c. ch_user c \<noteq> i) (challenges db)"
    "contract_access db' = filter (\<lambda>r. fst r \<noteq> i) (contract_access db)"
    using assms by (auto simp: user_remove_def and_then_eq_Inr split: if_splits)
  have "identity_ok db'" if "identity_ok db"
    using that unfolding identity_ok_def db'
    by (elim conjE) (intro conjI keys_filtered distinct_map_filter distinct_filter; (assumption | simp))
  then show ?thesis by (auto simp: sound_for_def valid_sessions_def db')
qed

text \<open>Of the roles only the key in the accounts changes.\<close>

lemma sound_accounts:
  assumes "accounts db' = map f (accounts db)" and "\<And>x. acc_id (f x) = acc_id x" and "\<And>x. acc_email (f x) = acc_email x"
    and "\<And>x. account_ok (f x) = account_ok x" and "sessions db' = sessions db" and "challenges db' = challenges db"
    and "contract_access db' = contract_access db"
  shows "sound_for J db db'"
proof -
  have ids: "map acc_id (accounts db') = map acc_id (accounts db)" "map acc_email (accounts db') = map acc_email (accounts db)"
    and ok: "(\<forall>a \<in> set (accounts db'). account_ok a) = (\<forall>a \<in> set (accounts db). account_ok a)"
    using assms(1-4) by simp_all
  have "acc_id ` set (accounts db') = acc_id ` set (accounts db)" using ids(1) by (metis set_map)
  then show ?thesis
    unfolding sound_for_def identity_ok_def valid_sessions_def assms(5-7) ids ok by simp
qed

lemma sound_roles:
  "role_create n t name b routes dto db = Inr db' \<Longrightarrow> sound_for J db db'"
  "role_update t i dto db = Inr db' \<Longrightarrow> sound_for J db db'"
  by (auto simp: role_create_def role_update_def same_identity_def intro!: sound_same split: if_splits option.splits)

lemma sound_update_rows:
  assumes "\<And>x. acc_id (f x) = acc_id x" and "\<And>x. acc_email (f x) = acc_email x"
    and "\<And>x. account_ok (f x) = account_ok x"
  shows "sound_for J db (db\<lparr>accounts := update_rows p f (accounts db)\<rparr>)"
  by (rule sound_accounts[where f = "\<lambda>a. if p a then f a else a"]) (simp_all add: update_rows_def assms)

lemma sound_role_remove:
  assumes "role_remove t i rep db = Inr db'"
  shows "sound_for J db db'"
proof -
  have role: "sound_for J d (d\<lparr>accounts := update_rows p (\<lambda>a. a\<lparr>acc_custom_role := c\<rparr>) (accounts d)\<rparr>)" for d p c
    by (rule sound_update_rows) (simp_all add: account_ok_def)
  have roles: "sound_for J d (d\<lparr>tenant_roles := R\<rparr>)" for d R
    by (rule sound_same) (simp add: same_identity_def)
  have "sound_for J db (db\<lparr>accounts := update_rows p (\<lambda>a. a\<lparr>acc_custom_role := c\<rparr>)
      (update_rows q (\<lambda>a. a\<lparr>acc_custom_role := b\<rparr>) (accounts db)), tenant_roles := R\<rparr>)" for p q b c R
  proof -
    let ?d = "db\<lparr>accounts := update_rows q (\<lambda>a. a\<lparr>acc_custom_role := b\<rparr>) (accounts db)\<rparr>"
    show ?thesis using sound_trans[OF role[of db q b] sound_trans[OF role[of ?d p c] roles]] by simp
  qed
  then show ?thesis
    using assms unfolding role_remove_def Let_def by (auto simp: and_then_eq_Inr split: option.splits if_splits)
qed

lemma ensure_same: "same_identity db (ensureDefaultTenantRolesForTenant n t db)"
proof -
  have "same_identity d (ensureMirrorRole n t r d)" for d r
    by (simp add: ensureMirrorRole_def Let_def same_identity_def)
  then show ?thesis unfolding ensureDefaultTenantRolesForTenant_def
    by (simp add: same_identity_def)
qed

lemma sound_security:
  "adminRevokeSession s t role db = Inr db' \<Longrightarrow> sound_for J db db'"
  "updateGlobalAuthSettings b role db = Inr db' \<Longrightarrow> sound_for J db db'"
  "revokeSession i s db = Inr db' \<Longrightarrow> sound_for J db db'"
  by (auto simp: adminRevokeSession_def updateGlobalAuthSettings_def revokeSession_def and_then_eq_Inr same_identity_def
      intro: sound_invalidate sound_same split: option.splits if_splits)

section \<open>The steps\<close>

text \<open>
  \<open>J\<close> holds the session keys the steps may draw. The requests are unrestricted: who may send them is
  decided by the guards, and what holds for all of them holds for the admitted ones.
\<close>

inductive auth_step :: "gear \<Rightarrow> string set \<Rightarrow> auth_db \<Rightarrow> auth_db \<Rightarrow> bool" for g J where
  captcha_given: "auth_step g J db (captcha_create now c x y db)"
| signed_in: "login g now dw dto ip db = (db', r) \<Longrightarrow> take 64 (dw_jti dw) \<in> J \<Longrightarrow> auth_step g J db db'"
| code_given: "verifyTotpLogin g now dw t code ip db = (db', r) \<Longrightarrow> take 64 (dw_jti dw) \<in> J \<Longrightarrow> auth_step g J db db'"
| mail_answered: "verifySuperAdminStepUp g now dw st code tc ip db = (db', r) \<Longrightarrow> take 64 (dw_jti dw) \<in> J
    \<Longrightarrow> auth_step g J db db'"
| activated: "activateAccount g now dw f pw ip db = (db', r) \<Longrightarrow> take 64 (dw_jti dw) \<in> J \<Longrightarrow> auth_step g J db db'"
| forgotten: "auth_step g J db (forgotPassword now tok e c a h db)"
| reset: "resetPassword g now f pw ip db = Inr db' \<Longrightarrow> auth_step g J db db'"
| signed_out: "auth_step g J db (recordLogoutAudit g now i e jt ip db)"
| asked: "jwt_validate now tk h db = Inr (db', u) \<Longrightarrow> auth_step g J db db'"
| revoked: "revokeSession i s db = Inr db' \<Longrightarrow> auth_step g J db db'"
| revoked_others: "revokeOthers i jt db = (db', n) \<Longrightarrow> auth_step g J db db'"
| profile: "updateProfile i pd db = Inr db' \<Longrightarrow> auth_step g J db db'"
| password_changed: "changePassword g now i old new ip db = Inr db' \<Longrightarrow> auth_step g J db db'"
| totp_begun: "beginTotpEnrollment g secret i db = Inr db' \<Longrightarrow> auth_step g J db db'"
| totp_activated: "activateTotp g now i code db = Inr db' \<Longrightarrow> auth_step g J db db'"
| totp_disabled: "disableTotp g now i old code db = Inr db' \<Longrightarrow> auth_step g J db db'"
| mail_factor: "toggleEmail2fa i b db = Inr db' \<Longrightarrow> auth_step g J db db'"
| invited: "user_create n tok ok nu t db = Inr db' \<Longrightarrow> auth_step g J db db'"
| edited: "user_update i up t role r db = Inr db' \<Longrightarrow> auth_step g J db db'"
| invited_again: "resendActivation tok ok i t role db = (db', rs) \<Longrightarrow> auth_step g J db db'"
| removed: "user_remove i t role db = Inr db' \<Longrightarrow> auth_step g J db db'"
| password_set: "adminSetUserPassword g now i new r t role ip db = Inr db' \<Longrightarrow> auth_step g J db db'"
| roles_ensured: "auth_step g J db (ensureDefaultTenantRolesForTenant nr tn db)"
| role_made: "role_create n tn name base routes rd db = Inr db' \<Longrightarrow> auth_step g J db db'"
| role_changed: "role_update tn i rd db = Inr db' \<Longrightarrow> auth_step g J db db'"
| role_removed: "role_remove tn i rep db = Inr db' \<Longrightarrow> auth_step g J db db'"
| revoked_by_admin: "adminRevokeSession s t role db = Inr db' \<Longrightarrow> auth_step g J db db'"
| policy_set: "updateGlobalAuthSettings b role db = Inr db' \<Longrightarrow> auth_step g J db db'"

lemma sound_captcha_create: "sound_for J db (captcha_create now c x y db)"
  by (rule sound_same) (simp add: captcha_create_def pruneExpired_def Let_def same_identity_def)

lemma sound_revoke_others: "revokeOthers i jt db = (db', n) \<Longrightarrow> sound_for J db db'"
  by (auto simp: revokeOthers_def Let_def intro: sound_invalidate)

lemmas sound_operations =
  sound_captcha_create sound_login sound_totp_login sound_step_up_login sound_activate sound_forgot sound_reset sound_activate_totp
  sound_logout sound_validate sound_security sound_revoke_others sound_own_account sound_create sound_update
  sound_resend sound_remove sound_same[OF ensure_same] sound_roles sound_role_remove

lemma auth_step_sound: "auth_step g J db db' \<Longrightarrow> sound_for J db db'"
  by (cases rule: auth_step.cases) (blast intro: sound_operations)+

interpretation signing_in: account_service "auth_step g J" J
  by unfold_locales (use auth_step_sound sound_for_def in blast)+

end
