(* ===== verification/Identity_Properties.thy ===== *)
theory Identity_Properties
  imports Identity_System
begin

text \<open>
  What signing in promises and where it does not hold: the checks a session presupposes, the end of
  sessions, the lock of an account; and the ways round them that the code leaves open.
\<close>

section \<open>Sample tables\<close>

definition plain_gear :: gear where
  "plain_gear = \<lparr>gr_hash = (\<lambda>p. CHR ''h'' # p), gr_matches = (\<lambda>p h. h = CHR ''h'' # p), gr_sha = (\<lambda>s. s),
     gr_seal = (\<lambda>s. CHR ''s'' # s), gr_open = (\<lambda>s. Some (tl s)), gr_totp = (\<lambda>n t s. t = s),
     gr_geo = (\<lambda>ip. ([], [])), gr_bypass = False\<rparr>"

definition sample_account :: "id \<Rightarrow> string \<Rightarrow> base_role \<Rightarrow> id \<Rightarrow> account" where
  "sample_account i e r t = \<lparr>acc_id = i, acc_email = e, acc_password = ''hclave123'', acc_name = ''Ana'', acc_first = None,
     acc_last = None, acc_role = r, acc_active = True, acc_activation = None, acc_reset = None, acc_reset_expires = None,
     acc_lockout = None, acc_notify = True, acc_totp = False, acc_email2fa = False, acc_totp_secret = None,
     acc_rut = None, acc_phone = None, acc_position = None, acc_overrule = False, acc_tenant = Some t,
     acc_custom_role = None\<rparr>"

definition sample_tables :: "account list \<Rightarrow> auth_db" where
  "sample_tables rows = \<lparr>companies = [\<lparr>cy_id = ''t1'', cy_code = ''UNO''\<rparr>, \<lparr>cy_id = ''t2'', cy_code = ''DOS''\<rparr>],
     accounts = rows, contract_access = [], tenant_roles = [], sessions = [], challenges = [], auth_log = [],
     step_up_row = None, captchas = (\<lambda>i. if i = ''k'' then Some (7, 300000) else None), touched = (\<lambda>k. None)\<rparr>"

definition sample_draw :: draw where
  "sample_draw = \<lparr>dw_jti = ''j1'', dw_session = ''s1'', dw_challenge = ''d1'', dw_token = ''w1'', dw_code = ''123456'', dw_mail = True\<rparr>"

definition sample_login :: login_dto where
  "sample_login = \<lparr>lo_tenant_code = Some ''uno'', lo_email = Some '' Ana@Uno.cl '', lo_password = Some ''clave123'',
     lo_challenge = Some ''k'', lo_answer = TextAnswer ''7'', lo_honeypot = None\<rparr>"

definition sample_signed :: "auth_db \<times> login_answer res" where
  "sample_signed = login plain_gear 1000 sample_draw sample_login ''8.8.8.8''
     (sample_tables [sample_account ''u1'' ''ana@uno.cl'' ADMIN ''t1''])"

definition session_for :: "id \<Rightarrow> login_answer res \<Rightarrow> bool" where
  "session_for i r = (case r of Inr (SessionIssued t c) \<Rightarrow> jw_sub t = i | _ \<Rightarrow> False)"

lemma session_for_iff: "session_for i r \<longleftrightarrow> (\<exists>t c. r = Inr (SessionIssued t c) \<and> jw_sub t = i)"
  by (auto simp: session_for_def split: sum.splits login_answer.splits)

section \<open>What a session presupposes\<close>

lemma captcha_used:
  assumes "captcha_validate now c x db = (d, True)"
  shows "\<exists>i n e. c = Some i \<and> captchas db i = Some (n, e) \<and> now \<le> e \<and> captchas d i = None"
proof -
  obtain i where i: "or_null c = Some i" using assms by (auto simp: captcha_validate_def split: option.splits)
  then have "c = Some i" by (auto simp: or_null_def split: option.splits if_splits)
  then show ?thesis using assms i
    by (auto simp: captcha_validate_def Let_def split: option.splits if_splits)
qed

text \<open>Where a login ends with a session it is that of its last step.\<close>

lemma complete_session:
  assumes "completeLoginAfterPasswordOk now dw a ip geo code db = (db', Inr (SessionIssued t c))"
  shows "jw_sub t = acc_id a \<and> jw_jti t = Some (dw_jti dw) \<and> (acc_id a, take 64 (dw_jti dw)) \<in> valid_sessions db'
    \<and> captchas db' = captchas db \<and> accounts db' = accounts db"
proof -
  let ?db1 = "recordLoginSuccess now (acc_id a) (acc_email a) ip geo db"
  have frame: "captchas ?db1 = captchas db" "accounts ?db1 = accounts db"
    by (simp_all add: recordLoginSuccess_def Let_def log_auth_def)
  obtain d where d: "session_create now (dw_session dw) (acc_id a) (dw_jti dw) ip ?db1 = Inr d"
    using assms by (auto simp: completeLoginAfterPasswordOk_def Let_def split: sum.splits prod.splits)
  then have t: "db' = d" "jw_sub t = acc_id a" "jw_jti t = Some (dw_jti dw)"
    using assms by (auto simp: completeLoginAfterPasswordOk_def Let_def session_token_def split: prod.splits)
  obtain x where "d = ?db1\<lparr>sessions := sessions ?db1 @ [x]\<rparr>" "ss_user x = acc_id a" "ss_jti x = take 64 (dw_jti dw)" "ss_valid x"
    using d by (rule session_create_InrE)
  then show ?thesis using t frame by (auto simp: valid_sessions_def intro!: exI[of _ x])
qed

lemma mail_or_session_issues:
  assumes "mail_or_session g now dw a ip geo code db = (db', Inr (SessionIssued t c))"
  shows "\<not> acc_email2fa a \<and> completeLoginAfterPasswordOk now dw a ip geo code db = (db', Inr (SessionIssued t c))"
  using assms
  by (auto simp: mail_or_session_def maybeSendEmailStepUp_def split: if_splits prod.splits bool.splits)

lemma login_session:
  assumes "login g now dw dto ip db = (db', Inr (SessionIssued t c))"
  obtains d a code pass where "captcha_validate now (lo_challenge dto) (lo_answer dto) db = (d, True)"
    "accounts d = accounts db" "companies d = companies db" "a \<in> set (accounts db)"
    "prismaEmailInsensitive (normalizeEmail (the (lo_email dto))) a" "login_refusal g now code pass a d = None"
    "code = trim_opt (lo_tenant_code dto)" "lo_password dto = Some pass" "\<not> acc_totp a" "\<not> acc_email2fa a"
    "jw_sub t = acc_id a" "jw_jti t = Some (dw_jti dw)" "(acc_id a, take 64 (dw_jti dw)) \<in> valid_sessions db'"
    "captchas db' = captchas d"
  using assms
proof (cases rule: login_cases)
  case (accepted d a email code pass)
  let ?d1 = "set_account (acc_id a) (\<lambda>x. x\<lparr>acc_lockout := None\<rparr>) d"
  have same: "accounts d = accounts db" "companies d = companies db"
    using accepted(1) by (auto simp: captcha_validate_def Let_def split: option.splits if_splits)
  have a: "a \<in> set (accounts db)" "prismaEmailInsensitive (normalizeEmail (the (lo_email dto))) a"
    using find_row_SomeD[OF accepted(3)] accepted(8) by (simp_all add: same)
  have issue: "\<not> acc_totp a" "mail_or_session g now dw a (take 64 ip) (lookupGeo g ip) (Some code) ?d1 = (db', Inr (SessionIssued t c))"
    using accepted(9) by (auto simp: password_accepted_def Let_def split: if_splits)
  note issued = mail_or_session_issues[OF issue(2)]
  show ?thesis
    using complete_session[OF conjunct2[OF issued]] issued
    by (intro that[OF accepted(1) same a accepted(4-6) issue(1)]) simp_all
qed simp

text \<open>
  C35. What a login checks. A login that answers with a session names an account of the tables by its
  address; the account is active, not locked, without a code or a mail as second factor, its password
  matches, and the company code, where it counts and is given, is its own. The captcha of the request
  was open and not expired, and it is closed afterwards; the token names a valid session.
\<close>
theorem login_issues_only_after_every_check:
  assumes "login g now dw dto ip db = (db', Inr (SessionIssued t c))"
  shows "\<exists>a i n e. a \<in> set (accounts db) \<and> jw_sub t = acc_id a
    \<and> prismaEmailInsensitive (normalizeEmail (the (lo_email dto))) a \<and> acc_active a
    \<and> (case acc_lockout a of None \<Rightarrow> True | Some l \<Rightarrow> l \<le> now) \<and> \<not> acc_totp a \<and> \<not> acc_email2fa a
    \<and> gr_matches g (the (lo_password dto)) (acc_password a)
    \<and> (acc_role a = SUPER_ADMIN \<or> trim_opt (lo_tenant_code dto) = []
        \<or> map_option cy_code (company_of_account a db) = Some (to_upper (trim_opt (lo_tenant_code dto))))
    \<and> lo_challenge dto = Some i \<and> captchas db i = Some (n, e) \<and> now \<le> e \<and> captchas db' i = None
    \<and> jw_jti t = Some (dw_jti dw) \<and> (acc_id a, take 64 (dw_jti dw)) \<in> valid_sessions db'"
proof -
  from assms obtain d a code pass where session: "captcha_validate now (lo_challenge dto) (lo_answer dto) db = (d, True)"
    "accounts d = accounts db" "companies d = companies db" "a \<in> set (accounts db)"
    "prismaEmailInsensitive (normalizeEmail (the (lo_email dto))) a" "login_refusal g now code pass a d = None"
    "code = trim_opt (lo_tenant_code dto)" "lo_password dto = Some pass" "\<not> acc_totp a" "\<not> acc_email2fa a"
    "jw_sub t = acc_id a" "jw_jti t = Some (dw_jti dw)" "(acc_id a, take 64 (dw_jti dw)) \<in> valid_sessions db'"
    "captchas db' = captchas d"
    by (rule login_session)
  obtain i n e where cap: "lo_challenge dto = Some i" "captchas db i = Some (n, e)" "now \<le> e" "captchas d i = None"
    using captcha_used[OF session(1)] by blast
  have "company_of_account a d = company_of_account a db" using session(3) by (simp add: company_of_account_def)
  then show ?thesis
    using cap session
    by (intro exI[of _ a] exI[of _ i] exI[of _ n] exI[of _ e])
       (auto simp: login_refusal_def split: if_splits option.splits)
qed

theorem login_issues_only_after_every_check_witness:
  "\<exists>db' t c. sample_signed = (db', Inr (SessionIssued t c)) \<and> jw_jti t = Some ''j1'' \<and> captchas db' ''k'' = None"
proof -
  have "session_for ''u1'' (snd sample_signed)" by code_simp
  then obtain db' t c where run: "sample_signed = (db', Inr (SessionIssued t c))"
    by (metis session_for_iff surj_pair snd_conv)
  then show ?thesis
    using login_issues_only_after_every_check[OF run[unfolded sample_signed_def]]
    by (auto simp: sample_login_def sample_draw_def)
qed

section \<open>The end of a session\<close>

inductive password_renewed :: "gear \<Rightarrow> id \<Rightarrow> auth_db \<Rightarrow> auth_db \<Rightarrow> bool" for g where
  by_owner: "changePassword g now i old new ip db = Inr db' \<Longrightarrow> password_renewed g i db db'"
| by_admin: "adminSetUserPassword g now i new r t role ip db = Inr db' \<Longrightarrow> password_renewed g i db db'"
| by_mail: "resetPassword g now f pw ip db = Inr db' \<Longrightarrow> reset_account now f db = Some a
    \<Longrightarrow> password_renewed g (acc_id a) db db'"
| without_totp: "disableTotp g now i pw code db = Inr db' \<Longrightarrow> password_renewed g i db db'"

lemma invalidated: "(i, j) \<notin> valid_sessions (invalidateAllForUser i db)"
  by (auto simp: invalidateAllForUser_def valid_invalidate)

lemma renewed_ends_all: "password_renewed g i db db' \<Longrightarrow> (i, j) \<notin> valid_sessions db'"
proof (induction rule: password_renewed.induct)
  case (by_mail now f pw ip db db' a)
  then show ?case using invalidated
    by (auto simp: resetPassword_def and_then_eq_Inr Let_def recordPasswordChange_def log_auth_def valid_sessions_def)
qed (use invalidated in \<open>auto simp: changePassword_def adminSetUserPassword_def disableTotp_def and_then_eq_Inr Let_def
    recordPasswordChange_def log_auth_def valid_sessions_def split: option.splits if_splits\<close>)

lemma ended_token_refused:
  assumes "(jw_sub t, j) \<notin> valid_sessions db" and "jw_jti t = Some j" and "j \<noteq> []"
  shows "\<exists>e. jwt_validate now (Some t) header db = Inl e"
proof -
  have "\<exists>e. assertSessionValid (jw_sub t) (Some j) db = Inl e"
    using assms(1) assertSessionValid_iff[of "jw_sub t" "Some j" db]
    by (cases "assertSessionValid (jw_sub t) (Some j) db") auto
  then show ?thesis
    using assms(2,3) by (auto simp: jwt_validate_def jwt_verify_def or_null_def dest: find_account_SomeD
        split: option.splits if_splits list.splits)
qed

text \<open>
  C33. A renewed password ends every session. After the password of an account is changed by its
  owner, set by an administrator or set by the link of a mail, and after its codes are switched off, no
  session token of the account issued before is accepted again, through any run of the operations: the
  sessions drawn since then have other keys.
\<close>
theorem renewed_password_ends_every_session:
  assumes "password_renewed g (jw_sub t) db db1" and "(auth_step g J)\<^sup>*\<^sup>* db1 db2"
    and "jw_jti t = Some j" and "j \<noteq> []" and "j \<notin> J"
  shows "\<exists>e. jwt_validate now (Some t) header db2 = Inl e"
  using ended_token_refused[OF signing_in.ended_stays_ended[OF assms(2) renewed_ends_all[OF assms(1)] assms(5)] assms(3,4)] .

definition sample_renewed :: "auth_db \<Rightarrow> auth_db res" where
  "sample_renewed = changePassword plain_gear 2000 ''u1'' ''clave123'' ''nueva4567'' ''8.8.8.8''"

lemma sample_renewal:
  "case sample_signed of (d, Inr (SessionIssued t c)) \<Rightarrow> jw_sub t = ''u1'' \<and> jw_jti t = Some ''j1''
     \<and> (case jwt_validate 3000 (Some t) None d of Inr x \<Rightarrow> True | Inl e \<Rightarrow> False)
     \<and> (case sample_renewed d of Inr d1 \<Rightarrow> True | Inl e \<Rightarrow> False)
   | _ \<Rightarrow> False"
  by code_simp

theorem renewed_password_ends_every_session_witness:
  "\<exists>d t c x d1 e. sample_signed = (d, Inr (SessionIssued t c)) \<and> jwt_validate 3000 (Some t) None d = Inr x
     \<and> sample_renewed d = Inr d1 \<and> jwt_validate 3000 (Some t) None (captcha_create 2500 ''k2'' 1 2 d1) = Inl e"
proof -
  obtain d t c x d1 where run: "sample_signed = (d, Inr (SessionIssued t c))" "jw_sub t = ''u1''" "jw_jti t = Some ''j1''"
    "jwt_validate 3000 (Some t) None d = Inr x" "sample_renewed d = Inr d1"
    using sample_renewal by (auto split: prod.splits sum.splits login_answer.splits)
  have "\<exists>e. jwt_validate 3000 (Some t) None (captcha_create 2500 ''k2'' 1 2 d1) = Inl e"
    using renewed_password_ends_every_session[OF password_renewed.by_owner r_into_rtranclp, OF _ captcha_given run(3),
        of plain_gear 2000 "''clave123''" "''nueva4567''" "''8.8.8.8''" d d1 "{}"] run
    by (simp add: sample_renewed_def)
  then show ?thesis using run by blast
qed

section \<open>The lock of an account\<close>

lemma lockout_hits:
  assumes "find_row (prismaEmailInsensitive e) (accounts db) = Some a" and "normalizeEmail e = e" and "length e \<le> 100"
    and "e \<noteq> []" and "e \<noteq> ''(vacio)''"
    and "19 \<le> length (filter (failure_in_window now e) (auth_log db))"
  shows "accounts (recordLoginFailure now e u ip geo db) =
    update_rows (\<lambda>x. acc_id x = acc_id a) (\<lambda>x. x\<lparr>acc_lockout := Some (now + LOCKOUT_MS)\<rparr>) (accounts db)"
proof -
  have ae: "audit_email e = e" using assms(2,3) by (simp add: audit_email_def normalizeEmail_def)
  have pred: "(\<lambda>a. to_lower (acc_email a) = to_lower e) = prismaEmailInsensitive e"
    using to_lower_normalized[OF assms(2)] assms(2) by (auto simp: prismaEmailInsensitive_def)
  let ?db1 = "log_auth (auth_event_of now u e LOGIN_FAILURE ip geo False) db"
  have "failure_in_window now e (auth_event_of now u e LOGIN_FAILURE ip geo False)"
    by (simp add: failure_in_window_def auth_event_of_def ae FAILURE_WINDOW_MS_def)
  then have "FAILURE_THRESHOLD \<le> length (filter (failure_in_window now e) (auth_log ?db1))"
    using assms(6) by (simp add: log_auth_def FAILURE_THRESHOLD_def)
  moreover have "accounts ?db1 = accounts db" by (simp add: log_auth_def)
  ultimately show ?thesis
    using assms(1,4,5) by (simp add: recordLoginFailure_def Let_def ae markBruteForceClusterIfNeeded_def
        applyLockoutForEmail_def pred not_less)
qed

text \<open>
  C16. The lock of an account at its login. While it stands no request to \<open>login\<close> signs in, whatever its
  password; and such a request with the address of the account, once nineteen failures of the address
  stand in the last ten minutes, moves the end of the lock to fifteen minutes from now, also when its
  password is right. So who keeps failing for a known address keeps its owner out. (The step that takes
  the code of the second factor does not look at the lock.)
\<close>
theorem locked_account_refuses_and_renews:
  assumes "find_row (prismaEmailInsensitive e) (accounts db) = Some a" and "acc_lockout a = Some l" and "now < l"
    and "lo_email dto = Some typed" and "normalizeEmail typed = e" and "length e \<le> 100" and "e \<noteq> []" and "e \<noteq> ''(vacio)''"
    and "distinct (map acc_id (accounts db))"
  shows "(\<exists>x. snd (login g now dw dto ip db) = Inl x)
    \<and> (19 \<le> length (filter (failure_in_window now e) (auth_log db)) \<longrightarrow>
        (\<exists>a'. find_account (acc_id a) (fst (login g now dw dto ip db)) = Some a'
          \<and> acc_lockout a' = Some (now + LOCKOUT_MS)))"
proof -
  have e: "normalizeEmail e = e" using assms(5) by auto
  obtain d b where cap: "captcha_validate now (lo_challenge dto) (lo_answer dto) db = (d, b)" by (meson surj_pair)
  have same: "accounts d = accounts db" "auth_log d = auth_log db"
    using cap by (auto simp: captcha_validate_def Let_def split: option.splits if_splits)
  have "login g now dw dto ip db =
    (if trim_opt (lo_honeypot dto) \<noteq> [] then refuse now e None (take 64 ip) (lookupGeo g ip) login_error db
     else if \<not> b \<or> lo_password dto \<in> {None, Some []} then refuse now e None (take 64 ip) (lookupGeo g ip) login_error d
     else refuse now e (Some (acc_id a)) (take 64 ip) (lookupGeo g ip)
       (Locked ''Cuenta bloqueada temporalmente por intentos fallidos'') d)"
    using assms(1-5,7) e cap same
    by (cases b) (auto simp: login_def login_refusal_def Let_def split: option.splits)
  then obtain c u x where c: "login g now dw dto ip db = (recordLoginFailure now e u (take 64 ip) (lookupGeo g ip) c, Inl x)"
      "c = db \<or> c = d"
    by (auto simp: refuse_def split: if_splits)
  then have tables: "accounts c = accounts db" "auth_log c = auth_log db" using same by auto
  have a: "a \<in> set (accounts db)" using find_row_SomeD[OF assms(1)] by simp
  have "find_account (acc_id a) (recordLoginFailure now e u (take 64 ip) (lookupGeo g ip) c)
      = Some (a\<lparr>acc_lockout := Some (now + LOCKOUT_MS)\<rparr>)"
    if "19 \<le> length (filter (failure_in_window now e) (auth_log db))"
    using lockout_hits[of e c a now u "take 64 ip" "lookupGeo g ip"] assms(1,6-8) e tables that
      find_row_unique[OF assms(9) a]
    by (simp add: find_account_def find_row_update_rows)
  then show ?thesis unfolding c(1) by simp
qed

definition sample_locked :: auth_db where
  "sample_locked = (sample_tables [(sample_account ''u1'' ''ana@uno.cl'' ADMIN ''t1'')\<lparr>acc_lockout := Some 5000\<rparr>])
     \<lparr>auth_log := replicate 19 (auth_event_of 900 None ''ana@uno.cl'' LOGIN_FAILURE ''8.8.8.8'' ([], []) False)\<rparr>"

theorem locked_account_refuses_and_renews_witness:
  "\<exists>x a. snd (login plain_gear 1000 sample_draw (sample_login\<lparr>lo_email := Some '' Ana@Uno.cl''\<rparr>) ''8.8.8.8'' sample_locked) = Inl x
     \<and> find_account ''u1'' (fst (login plain_gear 1000 sample_draw (sample_login\<lparr>lo_email := Some '' Ana@Uno.cl''\<rparr>) ''8.8.8.8''
          sample_locked)) = Some a \<and> acc_lockout a = Some 901000"
proof -
  let ?a = "(sample_account ''u1'' ''ana@uno.cl'' ADMIN ''t1'')\<lparr>acc_lockout := Some 5000\<rparr>"
  have "find_row (prismaEmailInsensitive ''ana@uno.cl'') (accounts sample_locked) = Some ?a"
    "normalizeEmail '' Ana@Uno.cl'' = ''ana@uno.cl''" "distinct (map acc_id (accounts sample_locked))"
    "19 \<le> length (filter (failure_in_window 1000 ''ana@uno.cl'') (auth_log sample_locked))"
    by code_simp+
  then show ?thesis
    using locked_account_refuses_and_renews[of "''ana@uno.cl''" sample_locked ?a 5000 1000
        "sample_login\<lparr>lo_email := Some '' Ana@Uno.cl''\<rparr>" "'' Ana@Uno.cl''" plain_gear sample_draw "''8.8.8.8''"]
    by (auto simp: sample_account_def LOCKOUT_MS_def)
qed

text \<open>
  The second step does not look at the lock: a token of the first step that was handed out before
  the account was locked still buys a session with the code of the second factor.
\<close>

definition sample_locked_coded :: auth_db where
  "sample_locked_coded = sample_tables [(sample_account ''u1'' ''ana@uno.cl'' ADMIN ''t1'')
     \<lparr>acc_totp := True, acc_totp_secret := Some ''s123456'', acc_lockout := Some 5000\<rparr>]"

theorem code_signs_a_locked_account_in:
  "\<exists>d t c. verifyTotpLogin plain_gear 1000 sample_draw (Some (Some (signPreTotpLoginToken 900 ''u1'' ''ana@uno.cl'' ''uno'')))
       ''123456'' ''8.8.8.8'' sample_locked_coded = (d, Inr (SessionIssued t c)) \<and> jw_sub t = ''u1''
     \<and> map acc_lockout (accounts sample_locked_coded) = [Some 5000]"
proof -
  have "session_for ''u1'' (snd (verifyTotpLogin plain_gear 1000 sample_draw
       (Some (Some (signPreTotpLoginToken 900 ''u1'' ''ana@uno.cl'' ''uno''))) ''123456'' ''8.8.8.8'' sample_locked_coded))"
    by code_simp
  moreover have "map acc_lockout (accounts sample_locked_coded) = [Some 5000]" by code_simp
  ultimately show ?thesis unfolding session_for_iff by (metis prod.collapse)
qed

section \<open>Ways round the second factor\<close>

text \<open>
  C31. The token of the first step is a session. Where a login stops for the code of the second factor,
  the token it hands out carries no session key and no request looks at its kind: within its five
  minutes it is accepted as the token of the account, without any code; for an administrator it passes
  every permission check. No session records it, so none can be revoked.
\<close>
theorem pre_totp_token_acts_as_session:
  assumes "login g now dw dto ip db = (db1, Inr (TotpRequired t))" and "distinct (map acc_id (accounts db))"
    and "now' < jw_expires t"
  shows "\<exists>a u. a \<in> set (accounts db1) \<and> acc_totp a \<and> sessions db1 = sessions db
    \<and> jwt_validate now' (Some t) header db1 = Inr (db1, u) \<and> user_id u = acc_id a
    \<and> user_role u = Some (role_text (acc_role a))
    \<and> (acc_role a = ADMIN \<or> acc_role a = SUPER_ADMIN \<longrightarrow> (\<forall>rs qs. canActivate rs qs (Some u) = Inr True))"
  using assms(1)
proof (cases rule: login_cases)
  case (accepted d a email code pass)
  let ?a = "a\<lparr>acc_lockout := None\<rparr>"
  have same: "accounts d = accounts db" "sessions d = sessions db" using accepted(2) by (auto simp: same_identity_def)
  have a: "a \<in> set (accounts d)" using find_row_SomeD[OF accepted(3)] by simp
  have active: "acc_active a" using accepted(4) by (auto simp: login_refusal_def split: if_splits)
  have t: "db1 = set_account (acc_id a) (\<lambda>x. x\<lparr>acc_lockout := None\<rparr>) d" "acc_totp a"
      "t = signPreTotpLoginToken now (acc_id a) (acc_email a) code"
    using accepted(9)
    by (auto simp: password_accepted_def mail_or_session_def completeLoginAfterPasswordOk_def Let_def
        split: if_splits prod.splits sum.splits option.splits)
  have found: "find_account (acc_id a) db1 = Some ?a"
    using find_row_unique[of acc_id "accounts d" a] a assms(2)
    by (simp add: t(1) same find_account_def find_row_update_rows)
  have "jwt_validate now' (Some t) header db1 = Inr (db1, request_user ?a t header db1)"
    using assms(3) found active
    by (simp add: jwt_validate_def jwt_verify_def t(3) signPreTotpLoginToken_def or_null_def assertSessionValid_def
        touchLastActive_def)
  moreover have "?a \<in> set (accounts db1)" using find_account_SomeD[OF found] by simp
  ultimately show ?thesis
    using t(1,2) same
    by (intro exI[of _ ?a] exI[of _ "request_user ?a t header db1"])
       (auto simp: request_user_def canActivate_def userHasGlobalRoleBypass_def Let_def)
qed simp

lemma same_account:
  "distinct (map acc_id (accounts db)) \<Longrightarrow> find_account i db = Some a \<Longrightarrow> x \<in> set (accounts db) \<Longrightarrow> acc_id x = i \<Longrightarrow> x = a"
  using find_account_SomeD by (metis distinct_map inj_onD)

text \<open>
  C32. The mail as second factor locks users out. Any user may switch it on, and then every login of
  the account stops for the code of the mail; but the operation that takes the code serves only platform
  administrators. So for every other account with the mail switched on, none of the three operations
  that sign in ever answers with a session.
\<close>
theorem mail_factor_locks_users_out:
  assumes "distinct (map acc_id (accounts db))" and "find_account i db = Some a" and "acc_email2fa a"
    and "acc_role a \<noteq> SUPER_ADMIN"
  shows "\<not> session_for i (snd (login g now dw dto ip db)) \<and> \<not> session_for i (snd (verifyTotpLogin g now dw tk code ip db))
    \<and> \<not> session_for i (snd (verifySuperAdminStepUp g now dw st code tc ip db))"
proof (intro conjI notI)
  assume "session_for i (snd (login g now dw dto ip db))"
  then obtain db' t c where "login g now dw dto ip db = (db', Inr (SessionIssued t c))" "jw_sub t = i"
    by (metis session_for_iff surj_pair snd_conv)
  then show False using same_account[OF assms(1,2)] assms(3) by (elim login_session) metis
next
  assume "session_for i (snd (verifyTotpLogin g now dw tk code ip db))"
  then obtain db' t c where run: "verifyTotpLogin g now dw tk code ip db = (db', Inr (SessionIssued t c))" "jw_sub t = i"
    by (metis session_for_iff surj_pair snd_conv)
  from run(1) show False
  proof (cases rule: totp_login_cases)
    case (passed p a' s)
    note issued = mail_or_session_issues[OF passed(8)]
    then show False
      using complete_session[OF conjunct2[OF issued]] run(2) find_account_SomeD[OF passed(3)]
        same_account[OF assms(1,2)] assms(3) by metis
  qed simp
next
  assume "session_for i (snd (verifySuperAdminStepUp g now dw st code tc ip db))"
  then obtain db' t c where run: "verifySuperAdminStepUp g now dw st code tc ip db = (db', Inr (SessionIssued t c))" "jw_sub t = i"
    by (metis session_for_iff surj_pair snd_conv)
  from run(1) show False
  proof (cases rule: step_up_login_cases)
    case (passed d j a')
    have "accounts d = accounts db"
      using passed(1) by (auto simp: verifyAndConsumeToken_def Let_def split: if_splits option.splits)
    then show False
      using complete_session[OF passed(5)] run(2) find_account_SomeD[OF passed(2)] passed(4)
        same_account[OF assms(1,2)] assms(4) by metis
  qed simp_all
qed

definition sample_mailed :: auth_db where
  "sample_mailed = sample_tables [(sample_account ''u2'' ''ana@uno.cl'' USER ''t1'')\<lparr>acc_email2fa := True\<rparr>]"

theorem mail_factor_locks_users_out_witness:
  "(case login plain_gear 1000 sample_draw sample_login ''8.8.8.8'' sample_mailed of
      (d, Inr (StepUpRequired w)) \<Rightarrow> w = ''w1'' | _ \<Rightarrow> False)
   \<and> \<not> session_for ''u2'' (snd (login plain_gear 1000 sample_draw sample_login ''8.8.8.8'' sample_mailed))"
proof
  have "distinct (map acc_id (accounts sample_mailed))" "map_option acc_email2fa (find_account ''u2'' sample_mailed) = Some True"
    "map_option acc_role (find_account ''u2'' sample_mailed) = Some USER"
    by code_simp+
  then show "\<not> session_for ''u2'' (snd (login plain_gear 1000 sample_draw sample_login ''8.8.8.8'' sample_mailed))"
    using mail_factor_locks_users_out by fastforce
qed code_simp

definition sample_coded :: auth_db where
  "sample_coded = sample_tables [(sample_account ''u1'' ''ana@uno.cl'' ADMIN ''t1'')
     \<lparr>acc_totp := True, acc_totp_secret := Some ''s123456''\<rparr>]"

lemma sample_first_step:
  "case login plain_gear 1000 sample_draw sample_login ''8.8.8.8'' sample_coded of
     (d, Inr (TotpRequired t)) \<Rightarrow> jw_expires t = 301000 \<and> list_all (\<lambda>a. acc_role a = ADMIN) (accounts d)
   | _ \<Rightarrow> False"
  by code_simp

theorem pre_totp_token_acts_as_session_witness:
  "\<exists>d t u. login plain_gear 1000 sample_draw sample_login ''8.8.8.8'' sample_coded = (d, Inr (TotpRequired t))
     \<and> sessions d = [] \<and> jwt_validate 2000 (Some t) None d = Inr (d, u) \<and> canActivate None (Some [''ADMIN_USER_UPDATE'']) (Some u) = Inr True"
proof -
  obtain d t where run: "login plain_gear 1000 sample_draw sample_login ''8.8.8.8'' sample_coded = (d, Inr (TotpRequired t))"
    "jw_expires t = 301000" "\<forall>a \<in> set (accounts d). acc_role a = ADMIN"
    using sample_first_step by (auto simp: list_all_iff split: prod.splits sum.splits login_answer.splits)
  have "distinct (map acc_id (accounts sample_coded))" by code_simp
  then show ?thesis
    using pre_totp_token_acts_as_session[OF run(1), of 2000 None] run
    by (auto simp: sample_coded_def sample_tables_def)
qed

text \<open>
  The mail that a platform administrator must answer from an unusual place is not asked for where the
  address of the client is a private one, and the first address of the proxy header is the sender's word.
\<close>

lemma forged_address_skips_the_mail:
  assumes "\<not> acc_email2fa a"
  shows "maybeSendEmailStepUp g now dw a (take 64 (extractClientIp (Some (''10.0.0.1,'' @ rest)) remote)) geo db
    = (db, Inr None)"
proof -
  have "isPrivateOrLocalIp (take 64 (extractClientIp (Some (''10.0.0.1,'' @ rest)) remote))"
  proof -
    have "trim (''10.0.0.1,'' @ rest) \<noteq> []"
      by (simp add: trim_def is_space_def dropWhile_eq_Nil_conv)
    then have "extractClientIp (Some (''10.0.0.1,'' @ rest)) remote = ''10.0.0.1''"
      unfolding extractClientIp_def by (simp add: trim_def is_space_def)
    then show ?thesis by (simp add: isPrivateOrLocalIp_def Let_def trim_def is_space_def to_lower_def lower_char_def)
  qed
  then show ?thesis
    using assms by (simp add: maybeSendEmailStepUp_def shouldRequireEmailContextStepUp_def
        shouldRequireSuperAdminLocationStepUp_def userRoleUsesEmailStepUp_def)
qed

section \<open>An activation without a token\<close>

text \<open>
  C38. An activation without a token opens an account. A request that leaves the token out looks for an
  account without any condition: it sets the password of the first account, whoever owns it and even if
  it is active, and answers with a session of that account, which is accepted and, for an administrator,
  passes every permission check.
\<close>
theorem absent_token_opens_an_account:
  assumes "accounts db = a # others" and "list_all (\<lambda>s. ss_id s \<noteq> dw_session dw \<and> ss_jti s \<noteq> dw_jti dw) (sessions db)"
    and "dw_jti dw \<noteq> []" and "length (dw_jti dw) \<le> 64" and "now' < now + session_ttl"
  shows "\<exists>db1 t c db2 u. activateAccount g now dw Missing (Some pw) ip db = (db1, Inr (SessionIssued t c))
    \<and> map_option acc_password (find_account (acc_id a) db1) = Some (gr_hash g pw)
    \<and> jwt_validate now' (Some t) header db1 = Inr (db2, u) \<and> user_id u = acc_id a
    \<and> user_role u = Some (role_text (acc_role a))
    \<and> (acc_role a = ADMIN \<or> acc_role a = SUPER_ADMIN \<longrightarrow> (\<forall>rs qs. canActivate rs qs (Some u) = Inr True))"
proof -
  let ?a = "a\<lparr>acc_password := gr_hash g pw, acc_active := True, acc_activation := None\<rparr>"
  let ?d = "set_account (acc_id a) (\<lambda>x. x\<lparr>acc_password := gr_hash g pw, acc_active := True, acc_activation := None\<rparr>) db"
  obtain db1 where db1: "session_create now (dw_session dw) (acc_id a) (dw_jti dw) (take 64 ip) ?d = Inr db1"
    using assms(2,4) by (auto simp: session_create_def Let_def list_ex_iff list_all_iff)
  then obtain x where x: "db1 = ?d\<lparr>sessions := sessions ?d @ [x]\<rparr>" "ss_user x = acc_id a"
      "ss_jti x = take 64 (dw_jti dw)" "ss_valid x"
    by (rule session_create_InrE)
  then have tables: "accounts db1 = accounts ?d" "(acc_id a, dw_jti dw) \<in> valid_sessions db1"
    using assms(4) by (auto simp: valid_sessions_def intro!: exI[of _ x])
  then have found: "find_account (acc_id a) db1 = Some ?a"
    by (simp add: find_account_def assms(1))
  define t where "t = session_token now a (if acc_role a = SUPER_ADMIN then None else acc_tenant a) (dw_jti dw) db1"
  have act: "activateAccount g now dw Missing (Some pw) ip db = (db1, Inr (SessionIssued t (company_of_account a db1)))"
    using db1 by (simp add: activateAccount_def assms(1) hash_password_def Let_def t_def)
  have jti: "or_null (jw_jti t) = Some (dw_jti dw)"
    using assms(3) by (cases "dw_jti dw") (simp_all add: t_def session_token_def or_null_def)
  have "assertSessionValid (acc_id a) (Some (dw_jti dw)) db1 = Inr ()"
    using tables(2) by (simp add: assertSessionValid_iff)
  then have "jwt_validate now' (Some t) header db1
      = Inr (touchLastActive now' (acc_id a) (Some (dw_jti dw)) db1, request_user ?a t header db1)"
    using assms(5) found jti by (simp add: jwt_validate_def jwt_verify_def t_def session_token_def Let_def)
  then show ?thesis using act found
    by (intro exI[of _ db1] exI[of _ t] exI[of _ "company_of_account a db1"]
        exI[of _ "touchLastActive now' (acc_id a) (Some (dw_jti dw)) db1"] exI[of _ "request_user ?a t header db1"])
       (auto simp: request_user_def canActivate_def userHasGlobalRoleBypass_def Let_def)
qed

theorem absent_token_opens_an_account_witness:
  "\<exists>d t c db2 u. activateAccount plain_gear 1000 sample_draw Missing (Some ''otra'') ''8.8.8.8''
        (sample_tables [sample_account ''u1'' ''ana@uno.cl'' ADMIN ''t1'']) = (d, Inr (SessionIssued t c))
     \<and> jwt_validate 2000 (Some t) None d = Inr (db2, u) \<and> user_id u = ''u1''
     \<and> canActivate None (Some [''ADMIN_USER_UPDATE'']) (Some u) = Inr True"
proof -
  let ?a = "sample_account ''u1'' ''ana@uno.cl'' ADMIN ''t1''"
  have "acc_id ?a = ''u1''" "acc_role ?a = ADMIN" by (simp_all add: sample_account_def)
  then show ?thesis
    using absent_token_opens_an_account[of "sample_tables [?a]" ?a "[]" sample_draw 2000 1000 plain_gear "''otra''" "''8.8.8.8''" None]
    by (auto simp: sample_tables_def sample_draw_def session_ttl_def)
qed

end
