(* ===== verification/Admin_Properties.thy ===== *)
theory Admin_Properties
  imports Identity_Properties
begin

text \<open>
  What the administration of the users promises: the shape of their tables, and that an administrator
  changes only what belongs to his tenant. The second does not bind who may edit users, since the role
  of the platform is one of the roles he may give, himself included.
\<close>

section \<open>The shape of the accounts\<close>

definition no_accounts :: "auth_db \<Rightarrow> bool" where
  "no_accounts db \<longleftrightarrow> accounts db = [] \<and> sessions db = [] \<and> challenges db = [] \<and> contract_access db = []"

lemma no_accounts_ok: "no_accounts db \<Longrightarrow> identity_ok db"
  by (simp add: no_accounts_def identity_ok_def)

lemma lowered_emails: "identity_ok db \<Longrightarrow> map (\<lambda>a. to_lower (acc_email a)) (accounts db) = map acc_email (accounts db)"
  by (auto simp: identity_ok_def account_ok_def intro!: to_lower_normalized)

text \<open>
  C36. What the tables of the accounts keep. From tables without accounts and through any run of the
  operations, whatever their arguments: no two accounts share an address, even by the case of its
  letters; whoever has the codes switched on has their secret; a pending reset has its end; no two
  sessions share a key; and sessions, mail challenges and contract grants belong to accounts.
\<close>
theorem accounts_keep_their_shape:
  assumes "no_accounts db" and "(auth_step g J)\<^sup>*\<^sup>* db db'"
  shows "distinct (map (\<lambda>a. to_lower (acc_email a)) (accounts db')) \<and> distinct (map acc_id (accounts db'))
    \<and> list_all (\<lambda>a. (acc_totp a \<longrightarrow> or_null (acc_totp_secret a) \<noteq> None)
        \<and> (acc_reset a = None \<longleftrightarrow> acc_reset_expires a = None)) (accounts db')
    \<and> distinct (map ss_jti (sessions db')) \<and> distinct (contract_access db')
    \<and> ss_user ` set (sessions db') \<union> ch_user ` set (challenges db') \<union> fst ` set (contract_access db')
        \<subseteq> acc_id ` set (accounts db')"
proof -
  have ok: "identity_ok db'" by (rule signing_in.run_keeps[OF assms(2) no_accounts_ok[OF assms(1)]])
  then show ?thesis unfolding lowered_emails[OF ok] by (simp add: identity_ok_def account_ok_def list_all_iff)
qed

definition sample_invited :: "auth_db \<Rightarrow> auth_db res" where
  "sample_invited = user_create ''u1'' ''k1'' True \<lparr>nu_email = '' Ana@Uno.cl'', nu_name = ''Ana'', nu_role = USER,
     nu_custom_role = None, nu_rut = None, nu_phone = None, nu_position = None, nu_contracts = Some [''c1'']\<rparr> (Some ''t1'')"

theorem accounts_keep_their_shape_witness:
  "\<exists>d. sample_invited (sample_tables []) = Inr d \<and> map acc_email (accounts d) = [''ana@uno.cl'']
     \<and> fst ` set (contract_access d) \<subseteq> acc_id ` set (accounts d)"
proof -
  have "case sample_invited (sample_tables []) of Inr d \<Rightarrow> map acc_email (accounts d) = [''ana@uno.cl''] | Inl e \<Rightarrow> False"
    by code_simp
  then obtain d where d: "sample_invited (sample_tables []) = Inr d" "map acc_email (accounts d) = [''ana@uno.cl'']"
    by (auto split: sum.splits)
  have "no_accounts (sample_tables [])" by (simp add: no_accounts_def sample_tables_def)
  then show ?thesis
    using accounts_keep_their_shape[OF _ r_into_rtranclp, OF _ invited[OF d(1)[unfolded sample_invited_def]]] d by simp
qed

section \<open>The tenants of the administration\<close>

text \<open>What an administrator of the tenant \<open>t\<close>, who is not one of the platform, does to existing users.\<close>

inductive administered :: "gear \<Rightarrow> id option \<Rightarrow> base_role \<Rightarrow> auth_db \<Rightarrow> auth_db \<Rightarrow> bool" for g t role where
  user_edited: "user_update i p t role r db = Inr db' \<Longrightarrow> administered g t role db db'"
| user_invited_again: "resendActivation tok ok i t role db = (db', rs) \<Longrightarrow> administered g t role db db'"
| user_removed: "user_remove i t role db = Inr db' \<Longrightarrow> administered g t role db db'"
| user_password: "adminSetUserPassword g now i new r t role ip db = Inr db' \<Longrightarrow> administered g t role db db'"
| user_session: "adminRevokeSession s t role db = Inr db' \<Longrightarrow> administered g t role db db'"

definition accounts_elsewhere :: "id option \<Rightarrow> auth_db \<Rightarrow> account list" where
  "accounts_elsewhere t db = filter (\<lambda>a. acc_tenant a \<noteq> t) (accounts db)"

definition belongs_to :: "id option \<Rightarrow> auth_db \<Rightarrow> id \<Rightarrow> bool" where
  "belongs_to t db i \<longleftrightarrow> (\<exists>a \<in> set (accounts db). acc_id a = i \<and> acc_tenant a = t)"

definition sessions_elsewhere :: "id option \<Rightarrow> auth_db \<Rightarrow> session list" where
  "sessions_elsewhere t db = filter (\<lambda>s. \<not> belongs_to t db (ss_user s)) (sessions db)"

lemma belongs_to_iff: "belongs_to t db i \<longleftrightarrow> (i, t) \<in> set (map (\<lambda>a. (acc_id a, acc_tenant a)) (accounts db))"
  by (auto simp: belongs_to_def)

lemma unique_account: "distinct (map acc_id (accounts db)) \<Longrightarrow> x \<in> set (accounts db) \<Longrightarrow> y \<in> set (accounts db)
    \<Longrightarrow> acc_id x = acc_id y \<Longrightarrow> x = y"
  by (metis distinct_map inj_onD)

text \<open>Each of the operations changes accounts of the tenant, or their sessions, or takes one account away.\<close>

lemma edited_at_home:
  assumes "distinct (map acc_id (accounts db))" and "belongs_to t db i" and "\<And>x. acc_tenant (f x) = acc_tenant x"
    and "\<And>x. acc_id (f x) = acc_id x"
  shows "accounts_elsewhere t (set_account i f db) = accounts_elsewhere t db"
    and "belongs_to t (set_account i f db) = belongs_to t db"
proof -
  have home: "acc_tenant x = t" if "x \<in> set (accounts db)" "acc_id x = i" for x
    using that assms(1,2) unique_account by (auto simp: belongs_to_def)
  have "filter (\<lambda>a. acc_tenant a \<noteq> t) (update_rows (\<lambda>a. acc_id a = i) f xs) = filter (\<lambda>a. acc_tenant a \<noteq> t) xs"
    if "set xs \<subseteq> set (accounts db)" for xs
    using that home by (induction xs) (auto simp: assms(3))
  then show "accounts_elsewhere t (set_account i f db) = accounts_elsewhere t db" by (simp add: accounts_elsewhere_def)
  show "belongs_to t (set_account i f db) = belongs_to t db"
    by (simp add: fun_eq_iff belongs_to_iff update_rows_map_same assms(3,4) del: set_map)
qed

lemma ended_at_home:
  assumes "\<And>s. s \<in> set (sessions db) \<Longrightarrow> p s \<Longrightarrow> belongs_to t db (ss_user s)"
  shows "sessions_elsewhere t (invalidate p db) = sessions_elsewhere t db"
    and "accounts_elsewhere t (invalidate p db) = accounts_elsewhere t db"
proof -
  have same: "belongs_to t (invalidate p db) = belongs_to t db" by (simp add: belongs_to_def invalidate_def fun_eq_iff)
  have "filter (\<lambda>s. \<not> belongs_to t db (ss_user s)) (update_rows p (\<lambda>s. s\<lparr>ss_valid := False\<rparr>) xs)
      = filter (\<lambda>s. \<not> belongs_to t db (ss_user s)) xs" if "set xs \<subseteq> set (sessions db)" for xs
    using that assms by (induction xs) auto
  then show "sessions_elsewhere t (invalidate p db) = sessions_elsewhere t db"
    by (simp add: sessions_elsewhere_def same) (simp add: invalidate_def)
qed (simp add: accounts_elsewhere_def invalidate_def)

definition other_tenants_same :: "id option \<Rightarrow> auth_db \<Rightarrow> auth_db \<Rightarrow> bool" where
  "other_tenants_same t db db' \<longleftrightarrow>
     accounts_elsewhere t db' = accounts_elsewhere t db \<and> sessions_elsewhere t db' = sessions_elsewhere t db"

definition keys_distinct :: "auth_db \<Rightarrow> bool" where
  "keys_distinct db \<longleftrightarrow> distinct (map acc_id (accounts db)) \<and> distinct (map ss_id (sessions db))"

lemma home_row: "user_row i db = Inr a \<Longrightarrow> same_tenant role t a \<Longrightarrow> role \<noteq> SUPER_ADMIN \<Longrightarrow> belongs_to t db i"
  by (auto simp: user_row_def same_tenant_def belongs_to_def dest: find_account_SomeD split: option.splits)

lemma edited_same:
  assumes "keys_distinct db" and "belongs_to t db i" and "\<And>x. acc_tenant (f x) = acc_tenant x"
    and "\<And>x. acc_id (f x) = acc_id x"
  shows "other_tenants_same t db (set_account i f db)" and "keys_distinct (set_account i f db)"
  using edited_at_home[of db t i f] assms
  by (simp_all add: other_tenants_same_def sessions_elsewhere_def keys_distinct_def update_rows_map_same)

lemma renewed_at_home:
  assumes "keys_distinct db" and "belongs_to t db i" and "\<And>x. acc_tenant (f x) = acc_tenant x"
    and "\<And>x. acc_id (f x) = acc_id x" and "accounts d = accounts (invalidateAllForUser i (set_account i f db))"
    and "sessions d = sessions (invalidateAllForUser i (set_account i f db))"
  shows "other_tenants_same t db d" and "keys_distinct d"
proof -
  let ?d = "set_account i f db"
  note ed = edited_same[OF assms(1-4)] and home = edited_at_home(2)[of db t i f]
  have "sessions_elsewhere t (invalidateAllForUser i ?d) = sessions_elsewhere t ?d"
      "accounts_elsewhere t (invalidateAllForUser i ?d) = accounts_elsewhere t ?d"
    unfolding invalidateAllForUser_def using assms home by (intro ended_at_home; auto simp: keys_distinct_def)+
  moreover have "sessions_elsewhere t d = sessions_elsewhere t (invalidateAllForUser i ?d)"
      "accounts_elsewhere t d = accounts_elsewhere t (invalidateAllForUser i ?d)"
    by (simp_all add: sessions_elsewhere_def accounts_elsewhere_def belongs_to_def assms(5,6) flip: fun_eq_iff)
  ultimately show "other_tenants_same t db d" using ed(1) by (simp add: other_tenants_same_def)
  show "keys_distinct d"
    using ed(2) by (simp add: keys_distinct_def assms(5,6) invalidateAllForUser_def invalidate_def update_rows_map_same)
qed

lemma removed_at_home:
  assumes "keys_distinct db" and "belongs_to t db i"
    and "accounts d = filter (\<lambda>x. acc_id x \<noteq> i) (accounts db)" and "sessions d = filter (\<lambda>s. ss_user s \<noteq> i) (sessions db)"
  shows "other_tenants_same t db d" and "keys_distinct d"
proof -
  have home: "acc_tenant x = t" if "x \<in> set (accounts db)" "acc_id x = i" for x
    using that assms(1,2) unique_account by (auto simp: belongs_to_def keys_distinct_def)
  have belongs: "belongs_to t d j = (j \<noteq> i \<and> belongs_to t db j)" for j by (auto simp: belongs_to_def assms(3))
  have "accounts_elsewhere t d = accounts_elsewhere t db"
    unfolding accounts_elsewhere_def assms(3) filter_filter by (rule filter_cong) (use home in auto)
  moreover have "sessions_elsewhere t d = sessions_elsewhere t db"
    unfolding sessions_elsewhere_def assms(4) filter_filter by (rule filter_cong) (use belongs assms(2) in auto)
  ultimately show "other_tenants_same t db d" by (simp add: other_tenants_same_def)
  show "keys_distinct d" using assms(1) by (simp add: keys_distinct_def assms(3,4) distinct_map_filter)
qed

lemma same_trans: "other_tenants_same t a b \<Longrightarrow> other_tenants_same t b c \<Longrightarrow> other_tenants_same t a c"
  by (simp add: other_tenants_same_def)

lemma same_refl: "other_tenants_same t db db"
  by (simp add: other_tenants_same_def)

lemma other_tables_home:
  assumes "accounts d = accounts db" and "sessions d = sessions db"
  shows "accounts_elsewhere t d = accounts_elsewhere t db" "sessions_elsewhere t d = sessions_elsewhere t db"
    "belongs_to t d = belongs_to t db" "keys_distinct d = keys_distinct db"
  by (simp_all add: accounts_elsewhere_def sessions_elsewhere_def belongs_to_def keys_distinct_def assms fun_eq_iff)

lemma administered_at_home:
  assumes "administered g t role db db'" and "role \<noteq> SUPER_ADMIN" and "or_null t \<noteq> None" and "keys_distinct db"
  shows "other_tenants_same t db db' \<and> keys_distinct db'"
  using assms(1)
proof cases
  case (user_edited i p r)
  let ?d = "db\<lparr>contract_access := new_links i p (contract_access db)\<rparr>"
  note tables = other_tables_home[of ?d db]
  have d: "belongs_to t db i" "db' = set_account i (patch_account p) ?d"
    using user_edited home_row[OF _ _ assms(2)] by (auto simp: user_update_def and_then_eq_Inr Let_def split: if_splits)
  then show ?thesis
    using edited_same[of ?d t i "patch_account p"] assms(4) tables
    by (simp add: patch_account_def other_tenants_same_def)
next
  case (user_invited_again tok ok i rs)
  then consider "db' = db" | a where "user_row i db = Inr a" "same_tenant role t a"
      "db' = set_account i (\<lambda>x. x\<lparr>acc_activation := Some tok\<rparr>) db"
    by (auto simp: resendActivation_def split: sum.splits if_splits)
  then show ?thesis
  proof cases
    case 2
    then show ?thesis using edited_same[OF assms(4) home_row[OF 2(1,2) assms(2)], of "\<lambda>x. x\<lparr>acc_activation := Some tok\<rparr>"] by simp
  qed (simp add: same_refl assms(4))
next
  case (user_removed i)
  then obtain a where a: "user_row i db = Inr a" "same_tenant role t a"
      "accounts db' = filter (\<lambda>x. acc_id x \<noteq> i) (accounts db)" "sessions db' = filter (\<lambda>s. ss_user s \<noteq> i) (sessions db)"
    by (auto simp: user_remove_def and_then_eq_Inr split: if_splits)
  show ?thesis using removed_at_home[OF assms(4) home_row[OF a(1,2) assms(2)] a(3,4)] by simp
next
  case (user_password now i new r ip)
  then obtain a where a: "user_row i db = Inr a" "same_tenant role t a"
      "db' = recordPasswordChange now i (acc_email a) (take 64 ip) (lookupGeo g ip)
        (invalidateAllForUser i (set_account i (\<lambda>x. x\<lparr>acc_password := gr_hash g new\<rparr>) db))"
    by (auto simp: adminSetUserPassword_def and_then_eq_Inr Let_def split: if_splits)
  then show ?thesis
    using renewed_at_home[OF assms(4) home_row[OF a(1,2) assms(2)], of "\<lambda>x. x\<lparr>acc_password := gr_hash g new\<rparr>" db']
    by (simp add: recordPasswordChange_def log_auth_def)
next
  case (user_session s)
  then obtain x a where x: "find_row (\<lambda>x. ss_id x = s) (sessions db) = Some x" "find_account (ss_user x) db = Some a"
      "acc_tenant a = t" "db' = invalidate (\<lambda>x. ss_id x = s) db"
    using assms(3) by (auto simp: adminRevokeSession_def and_then_eq_Inr split: option.splits if_splits)
  have "y = x" if "y \<in> set (sessions db)" "ss_id y = s" for y
    using that find_row_SomeD[OF x(1)] assms(4) by (metis keys_distinct_def distinct_map inj_onD)
  then have "belongs_to t db (ss_user y)" if "y \<in> set (sessions db)" "ss_id y = s" for y
    using that x(2,3) find_account_SomeD[OF x(2)] by (auto simp: belongs_to_def)
  then show ?thesis
    using ended_at_home[of db "\<lambda>x. ss_id x = s" t] assms(4) unfolding x(4)
    by (simp add: other_tenants_same_def keys_distinct_def)
       (simp add: invalidate_def update_rows_map_same)
qed

text \<open>
  C2. The administration of the users stays in its tenant. Whatever an administrator of a tenant, who
  is not one of the platform, does to existing users (changes, new invitations, removals, passwords,
  ended sessions), through any run of these operations the accounts of the other tenants and the
  sessions that are not of accounts of his tenant are those of before.
\<close>
theorem administration_stays_in_its_tenant:
  assumes "(administered g t role)\<^sup>*\<^sup>* db db'" and "role \<noteq> SUPER_ADMIN" and "or_null t \<noteq> None"
    and "distinct (map acc_id (accounts db))" and "distinct (map ss_id (sessions db))"
  shows "filter (\<lambda>a. acc_tenant a \<noteq> t) (accounts db') = filter (\<lambda>a. acc_tenant a \<noteq> t) (accounts db)
    \<and> sessions_elsewhere t db' = sessions_elsewhere t db"
proof -
  have "other_tenants_same t db db' \<and> keys_distinct db'"
    using assms(1)
  proof (induction rule: rtranclp_induct)
    case base
    then show ?case using assms(4,5) by (simp add: keys_distinct_def same_refl)
  next
    case (step d d')
    then show ?case using administered_at_home[OF step(2) assms(2,3)] same_trans by blast
  qed
  then show ?thesis by (simp add: other_tenants_same_def accounts_elsewhere_def)
qed

definition sample_two :: auth_db where
  "sample_two = sample_tables [sample_account ''u1'' ''ana@uno.cl'' ADMIN ''t1'', sample_account ''u2'' ''eva@dos.cl'' USER ''t2'',
     sample_account ''u3'' ''leo@uno.cl'' USER ''t1'']"

theorem administration_stays_in_its_tenant_witness:
  "\<exists>d. user_remove ''u3'' (Some ''t1'') ADMIN sample_two = Inr d
     \<and> filter (\<lambda>a. acc_tenant a \<noteq> Some ''t1'') (accounts d) = [sample_account ''u2'' ''eva@dos.cl'' USER ''t2'']
     \<and> (\<exists>e. user_remove ''u2'' (Some ''t1'') ADMIN sample_two = Inl e)"
proof -
  have run: "case user_remove ''u3'' (Some ''t1'') ADMIN sample_two of Inr d \<Rightarrow> True | Inl e \<Rightarrow> False"
    "case user_remove ''u2'' (Some ''t1'') ADMIN sample_two of Inr d \<Rightarrow> False | Inl e \<Rightarrow> True"
    by code_simp+
  then obtain d e where d: "user_remove ''u3'' (Some ''t1'') ADMIN sample_two = Inr d"
      "user_remove ''u2'' (Some ''t1'') ADMIN sample_two = Inl e"
    by (auto split: sum.splits)
  have "distinct (map acc_id (accounts sample_two))" "distinct (map ss_id (sessions sample_two))"
    "filter (\<lambda>a. acc_tenant a \<noteq> Some ''t1'') (accounts sample_two) = [sample_account ''u2'' ''eva@dos.cl'' USER ''t2'']"
    by code_simp+
  then show ?thesis
    using administration_stays_in_its_tenant[of plain_gear "Some ''t1''" ADMIN sample_two d,
        OF r_into_rtranclp, OF user_removed[OF d(1)]] d
    by (simp add: or_null_def)
qed

definition only_role :: "base_role \<Rightarrow> user_patch" where
  "only_role r = \<lparr>up_name = None, up_email = None, up_role = Some r, up_rut = None, up_phone = None, up_position = None,
     up_active = None, up_custom_role = None, up_overrule = None, up_contracts = None\<rparr>"

text \<open>
  C23. Who may edit users may become administrator of the platform. A change of a user takes any role:
  the request that gives its own sender the role of the platform succeeds whatever his present role, and
  from then on the token he already has, with the key of any company in its header, is a user of that
  company who passes every permission check.
\<close>
theorem user_editor_becomes_platform_administrator:
  assumes "identity_ok db" and "find_account i db = Some a" and "acc_active a"
    and "\<not> rut_taken i (acc_tenant a) (acc_rut a) db" and "c \<in> set (companies db)"
    and "trim (cy_id c) = cy_id c" and "cy_id c \<noteq> []" and "jw_sub t = i" and "now < jw_expires t"
    and "assertSessionValid i (or_null (jw_jti t)) db = Inr ()"
  shows "\<exists>db1 db2 u. user_update i (only_role SUPER_ADMIN) (acc_tenant a) (acc_role a) i db = Inr db1
    \<and> jwt_validate now (Some t) (Some (cy_id c)) db1 = Inr (db2, u)
    \<and> user_id u = i \<and> user_tenant u = cy_id c \<and> (\<forall>rs qs. canActivate rs qs (Some u) = Inr True)"
proof -
  let ?p = "only_role SUPER_ADMIN" and ?a = "a\<lparr>acc_role := SUPER_ADMIN\<rparr>"
  let ?db1 = "set_account i (patch_account ?p) db"
  have a: "a \<in> set (accounts db)" "acc_id a = i" using find_account_SomeD[OF assms(2)] by simp_all
  have patch: "patch_account ?p x = x\<lparr>acc_role := SUPER_ADMIN\<rparr>" for x
    by (simp add: patch_account_def only_role_def patched_def)
  have "\<not> email_taken i (acc_email a) db"
    using assms(1) a by (auto simp: email_taken_def list_ex_iff identity_ok_def distinct_map dest: inj_onD)
  then have update: "user_update i ?p (acc_tenant a) (acc_role a) i db = Inr ?db1"
    using assms(2,4)
    by (simp add: user_update_def user_row_def same_tenant_def patch new_links_def Let_def) (simp add: only_role_def new_links_def)
  have found: "find_account i ?db1 = Some ?a" using assms(2) a(2) by (simp add: patch)
  obtain c' where c': "find_row (\<lambda>x. cy_id x = cy_id c) (companies db) = Some c'" "cy_id c' = cy_id c"
    using assms(5) by (cases "find_row (\<lambda>x. cy_id x = cy_id c) (companies db)") (auto simp: find_row_None_iff dest: find_row_SomeD)
  have valid: "assertSessionValid i (or_null (jw_jti t)) ?db1 = Inr ()"
    using assms(10) by (simp add: assertSessionValid_def cong: option.case_cong)
  let ?u = "request_user ?a t (Some (cy_id c)) ?db1"
  have "jwt_validate now (Some t) (Some (cy_id c)) ?db1
      = Inr (touchLastActive now i (or_null (jw_jti t)) ?db1, ?u)"
    using assms(3,8,9) found valid a(2) by (simp add: jwt_validate_def jwt_verify_def Let_def)
  moreover have "user_id ?u = i" "user_tenant ?u = cy_id c" "\<forall>rs qs. canActivate rs qs (Some ?u) = Inr True"
    using a(2) c' assms(6,7)
    by (auto simp: request_user_def effective_tenant_def trim_opt_def canActivate_def userHasGlobalRoleBypass_def Let_def)
  ultimately show ?thesis using update by blast
qed

theorem user_editor_becomes_platform_administrator_witness:
  "\<exists>d db1 db2 t c u. sample_signed = (d, Inr (SessionIssued t c))
     \<and> user_update ''u1'' (only_role SUPER_ADMIN) (Some ''t1'') ADMIN ''u1'' d = Inr db1
     \<and> jwt_validate 3000 (Some t) (Some ''t2'') db1 = Inr (db2, u) \<and> user_tenant u = ''t2''"
proof -
  have "case sample_signed of (d, Inr (SessionIssued t c)) \<Rightarrow> jw_sub t = ''u1'' \<and> jw_expires t = 28801000
     \<and> identity_ok d \<and> companies d = companies (sample_tables [])
     \<and> map_option (\<lambda>a. (acc_active a, acc_tenant a, acc_role a, acc_rut a)) (find_account ''u1'' d) = Some (True, Some ''t1'', ADMIN, None)
     \<and> assertSessionValid ''u1'' (or_null (jw_jti t)) d = Inr ()
   | _ \<Rightarrow> False"
    by code_simp
  then obtain d t c a where run: "sample_signed = (d, Inr (SessionIssued t c))" "jw_sub t = ''u1''" "jw_expires t = 28801000"
    "identity_ok d" "companies d = companies (sample_tables [])" "find_account ''u1'' d = Some a" "acc_active a"
    "acc_tenant a = Some ''t1''" "acc_role a = ADMIN" "acc_rut a = None" "assertSessionValid ''u1'' (or_null (jw_jti t)) d = Inr ()"
    by (auto split: prod.splits sum.splits login_answer.splits)
  have "trim ''t2'' = ''t2''" by code_simp
  then obtain db1 db2 u where "user_update ''u1'' (only_role SUPER_ADMIN) (Some ''t1'') ADMIN ''u1'' d = Inr db1"
      "jwt_validate 3000 (Some t) (Some ''t2'') db1 = Inr (db2, u)" "user_tenant u = ''t2''"
    using user_editor_becomes_platform_administrator[OF run(4,6,7), of "\<lparr>cy_id = ''t2'', cy_code = ''DOS''\<rparr>" t 3000] run
    by (auto simp: sample_tables_def rut_taken_def)
  then show ?thesis using run(1) by blast
qed

end
