(* ===== verification/Catalogue.thy ===== *)
theory Catalogue
  imports Invoices
begin

text \<open>
  The master data of the inventory: articles with their codes
  (\<open>features/inventory-items/inventory-items.service.ts\<close>), categories
  (\<open>item-categories.service.ts\<close>), units (\<open>features/units-of-measure\<close>), usual suppliers
  (\<open>inventory-suppliers.service.ts\<close>), warehouses and their bins (\<open>features/warehouses\<close>) and vendors
  (\<open>features/vendors\<close>). The columns of an article that no movement reads are a row of \<open>articles\<close> with
  the key of its \<open>item\<close>; the columns of its unit that movements read are joined into the item, so a
  change of the unit is written there too. Names and places of warehouses, contacts of vendors, lists,
  labels, files and mails are left out.
\<close>

section \<open>Tables\<close>

record category =
  ca_id :: id
  ca_tenant :: id
  ca_name :: string
  ca_description :: "string option"
  ca_parent :: "id option"
  ca_global :: bool

record unit_of_measure =
  um_id :: id
  um_tenant :: id
  um_name :: string
  um_abbr :: string
  um_decimals :: bool

record inventory_supplier =
  su_id :: id
  su_tenant :: id
  su_name :: string

record warehouse_bin =
  bn_id :: id
  bn_wh :: id
  bn_code :: string
  bn_label :: "string option"

record article =
  art_item :: id
  art_qr :: string
  art_name :: string
  art_description :: "string option"
  art_category :: id
  art_unit :: id
  art_brand :: "string option"
  art_compat :: "string option"
  art_supplier :: "id option"
  art_serialized :: bool
  art_asset :: bool
  art_consumable :: bool

record vendor =
  vn_id :: id
  vn_tenant :: id
  vn_code :: string
  vn_name :: string
  vn_rut :: "string option"
  vn_active :: bool

text \<open>The last but one is the column \<open>binId\<close> of the stock rows, by their key.\<close>

record cat_db = bill_db +
  categories :: "category list"
  uoms :: "unit_of_measure list"
  suppliers :: "inventory_supplier list"
  bins :: "warehouse_bin list"
  articles :: "article list"
  stock_bins :: "((id \<times> id) \<times> id) list"
  vendors :: "vendor list"

definition find_category :: "id \<Rightarrow> id \<Rightarrow> 'a cat_db_scheme \<Rightarrow> category option" where
  "find_category i tenant db = find_row (\<lambda>c. ca_id c = i \<and> ca_tenant c = tenant) (categories db)"

definition find_uom :: "id \<Rightarrow> id \<Rightarrow> 'a cat_db_scheme \<Rightarrow> unit_of_measure option" where
  "find_uom i tenant db = find_row (\<lambda>m. um_id m = i \<and> um_tenant m = tenant) (uoms db)"

definition find_article :: "id \<Rightarrow> 'a cat_db_scheme \<Rightarrow> article option" where
  "find_article i db = find_row (\<lambda>a. art_item a = i) (articles db)"

section \<open>Categories\<close>

text \<open>\<open>Some None\<close> is a \<open>null\<close> of the request.\<close>

record category_dto =
  cd_name :: string
  cd_parent :: "string option"
  cd_description :: "string option option"

definition blank_to_null :: "string option option \<Rightarrow> string option" where
  "blank_to_null x = (case x of Some (Some s) \<Rightarrow> or_null (Some (trim s)) | _ \<Rightarrow> None)"

definition SYSTEMS_FAMILY_NAME :: string where "SYSTEMS_FAMILY_NAME = ''Sistemas''"

definition ensureSystemsFamilyForTenant :: "id \<Rightarrow> id \<Rightarrow> 'a cat_db_scheme \<Rightarrow> 'a cat_db_scheme" where
  "ensureSystemsFamilyForTenant newId tenant db =
     (if list_ex (\<lambda>c. ca_tenant c = tenant \<and> ca_parent c = None
          \<and> to_lower (ca_name c) = to_lower SYSTEMS_FAMILY_NAME) (categories db)
      then db
      else db\<lparr>categories := categories db @ [\<lparr>ca_id = newId, ca_tenant = tenant, ca_name = SYSTEMS_FAMILY_NAME,
        ca_description = Some ''Familia para sistemas intervenidos'', ca_parent = None, ca_global = True\<rparr>]\<rparr>)"

definition add_category :: "category \<Rightarrow> 'a cat_db_scheme \<Rightarrow> 'a cat_db_scheme res" where
  "add_category c db =
     (if list_ex (\<lambda>x. ca_id x = ca_id c) (categories db) then Inl UniqueViolation
      else Inr (db\<lparr>categories := categories db @ [c]\<rparr>))"

definition category_create :: "id \<Rightarrow> category_dto \<Rightarrow> user \<Rightarrow> 'a cat_db_scheme \<Rightarrow> 'a cat_db_scheme res" where
  "category_create newId dto u db =
     (let name = trim (cd_name dto); t = user_tenant u;
          new = (\<lambda>parent glob. \<lparr>ca_id = newId, ca_tenant = t, ca_name = name,
            ca_description = blank_to_null (cd_description dto), ca_parent = parent, ca_global = glob\<rparr>)
      in if name = [] then Inl (BadRequest ''El nombre es obligatorio'')
         else case or_null (cd_parent dto) of
           Some p \<Rightarrow>
             (case find_category p t db of
                None \<Rightarrow> Inl (BadRequest ''La familia padre no existe'')
              | Some f \<Rightarrow>
                  if or_null (ca_parent f) \<noteq> None
                  then Inl (BadRequest ''Solo se permiten dos niveles: familia y subcategoria'')
                  else if list_ex (\<lambda>c. ca_tenant c = t \<and> ca_parent c = Some (ca_id f) \<and> ca_name c = name) (categories db)
                  then Inl (BadRequest ''Ya existe una subcategoria con este nombre en la familia'')
                  else add_category (new (Some (ca_id f)) False) db)
         | None \<Rightarrow>
             if list_ex (\<lambda>c. ca_tenant c = t \<and> ca_parent c = None \<and> ca_name c = name) (categories db)
             then Inl (BadRequest ''Ya existe una familia con este nombre'')
             else add_category (new None True) db)"

definition category_update :: "id \<Rightarrow> category_dto \<Rightarrow> user \<Rightarrow> 'a cat_db_scheme \<Rightarrow> 'a cat_db_scheme res" where
  "category_update i dto u db =
     (case find_category i (user_tenant u) db of
        None \<Rightarrow> Inl (NotFound ''Categoria no encontrada'')
      | Some current \<Rightarrow>
          let name = trim (cd_name dto) in
          if name = [] then Inl (BadRequest ''El nombre es obligatorio'')
          else if list_ex (\<lambda>c. ca_tenant c = user_tenant u \<and> ca_parent c = or_null (ca_parent current)
              \<and> ca_name c = name \<and> ca_id c \<noteq> i) (categories db)
          then Inl (BadRequest ''Ya existe otra con este nombre'')
          else Inr (db\<lparr>categories := update_rows (\<lambda>c. ca_id c = i)
            (\<lambda>c. c\<lparr>ca_name := name, ca_description := (case cd_description dto of
                 None \<Rightarrow> ca_description c | d \<Rightarrow> blank_to_null d)\<rparr>) (categories db)\<rparr>))"

definition category_remove :: "id \<Rightarrow> user \<Rightarrow> 'a cat_db_scheme \<Rightarrow> 'a cat_db_scheme res" where
  "category_remove i u db =
     (case find_category i (user_tenant u) db of
        None \<Rightarrow> Inl (NotFound ''Categoria no encontrada'')
      | Some c \<Rightarrow>
          if list_ex (\<lambda>x. ca_parent x = Some i) (categories db)
          then Inl (BadRequest ''No se puede eliminar: tiene subcategorias'')
          else if list_ex (\<lambda>a. art_category a = i) (articles db)
          then Inl (BadRequest ''No se puede eliminar: la categoria tiene articulos'')
          else Inr (db\<lparr>categories := filter (\<lambda>x. ca_id x \<noteq> i) (categories db)\<rparr>))"

section \<open>Units and usual suppliers\<close>

definition DEFAULT_UOMS :: "(string \<times> string) list" where
  "DEFAULT_UOMS = [(''Unidades'', ''UN''), (''Kilogramos'', ''KG''), (''Litros'', ''LT''), (''Metros'', ''MT'')]"

definition ensureDefaultUnitsOfMeasureForTenant ::
    "(string \<Rightarrow> id) \<Rightarrow> id \<Rightarrow> 'a cat_db_scheme \<Rightarrow> 'a cat_db_scheme" where
  "ensureDefaultUnitsOfMeasureForTenant newId tenant =
     fold (\<lambda>(name, abbr) db. db\<lparr>uoms := upsert_row (\<lambda>m. um_tenant m = tenant \<and> um_abbr m = abbr) (\<lambda>m. m)
       \<lparr>um_id = newId abbr, um_tenant = tenant, um_name = name, um_abbr = abbr, um_decimals = False\<rparr> (uoms db)\<rparr>)
     DEFAULT_UOMS"

definition uom_create :: "id \<Rightarrow> string \<Rightarrow> string \<Rightarrow> user \<Rightarrow> 'a cat_db_scheme \<Rightarrow> 'a cat_db_scheme res" where
  "uom_create newId name0 abbr0 u db =
     (let name = trim name0; abbr = to_upper (trim abbr0) in
      if name = [] \<or> abbr = [] then Inl (BadRequest ''Nombre y abreviatura son obligatorios'')
      else if length abbr > 20 then Inl (BadRequest ''La abreviatura no puede superar 20 caracteres'')
      else if list_ex (\<lambda>m. um_tenant m = user_tenant u \<and> um_abbr m = abbr) (uoms db)
      then Inl (BadRequest ''Ya existe una unidad con esta abreviatura en su empresa'')
      else if list_ex (\<lambda>m. um_id m = newId) (uoms db) then Inl UniqueViolation
      else Inr (db\<lparr>uoms := uoms db @ [\<lparr>um_id = newId, um_tenant = user_tenant u, um_name = name,
        um_abbr = abbr, um_decimals = False\<rparr>]\<rparr>))"

text \<open>The joined column of the items whose article has the unit.\<close>

definition has_unit :: "id \<Rightarrow> 'a cat_db_scheme \<Rightarrow> item \<Rightarrow> bool" where
  "has_unit m db it \<longleftrightarrow> map_option art_unit (find_article (it_id it) db) = Some m"

definition uom_update :: "id \<Rightarrow> string \<Rightarrow> string \<Rightarrow> user \<Rightarrow> 'a cat_db_scheme \<Rightarrow> 'a cat_db_scheme res" where
  "uom_update i name0 abbr0 u db =
     (case find_uom i (user_tenant u) db of
        None \<Rightarrow> Inl (NotFound ''Unidad no encontrada'')
      | Some m \<Rightarrow>
          let name = trim name0; abbr = to_upper (trim abbr0) in
          if name = [] \<or> abbr = [] then Inl (BadRequest ''Nombre y abreviatura son obligatorios'')
          else if list_ex (\<lambda>x. um_tenant x = user_tenant u \<and> um_abbr x = abbr \<and> um_id x \<noteq> i) (uoms db)
          then Inl (BadRequest ''Ya existe otra unidad con esta abreviatura'')
          else Inr (db\<lparr>uoms := update_rows (\<lambda>x. um_id x = i) (\<lambda>x. x\<lparr>um_name := name, um_abbr := abbr\<rparr>) (uoms db),
                 items := update_rows (has_unit i db) (\<lambda>it. it\<lparr>it_uom_abbr := abbr\<rparr>) (items db)\<rparr>))"

definition uom_remove :: "id \<Rightarrow> user \<Rightarrow> 'a cat_db_scheme \<Rightarrow> 'a cat_db_scheme res" where
  "uom_remove i u db =
     (case find_uom i (user_tenant u) db of
        None \<Rightarrow> Inl (NotFound ''Unidad no encontrada'')
      | Some m \<Rightarrow>
          if list_ex (\<lambda>it. it_tenant it = user_tenant u \<and> has_unit i db it) (items db)
          then Inl (BadRequest ''No se puede eliminar: hay articulos que usan esta unidad'')
          else if list_ex (\<lambda>a. art_unit a = i) (articles db) then Inl (InternalError ''unit_of_measure_id'')
          else Inr (db\<lparr>uoms := filter (\<lambda>x. um_id x \<noteq> i) (uoms db)\<rparr>))"

definition supplier_create :: "id \<Rightarrow> id \<Rightarrow> string \<Rightarrow> 'a cat_db_scheme \<Rightarrow> 'a cat_db_scheme" where
  "supplier_create newId tenant name db =
     (let trimmed = take 150 (trim name) in
      db\<lparr>suppliers := upsert_row (\<lambda>s. su_tenant s = tenant \<and> su_name s = trimmed) (\<lambda>s. s)
        \<lparr>su_id = newId, su_tenant = tenant, su_name = trimmed\<rparr> (suppliers db)\<rparr>)"

definition supplier_remove :: "id \<Rightarrow> id \<Rightarrow> 'a cat_db_scheme \<Rightarrow> 'a cat_db_scheme res" where
  "supplier_remove i tenant db =
     (if \<not> list_ex (\<lambda>s. su_id s = i \<and> su_tenant s = tenant) (suppliers db)
      then Inl (NotFound ''Proveedor no encontrado'')
      else Inr (db\<lparr>suppliers := filter (\<lambda>s. su_id s \<noteq> i) (suppliers db),
        articles := update_rows (\<lambda>a. art_supplier a = Some i) (\<lambda>a. a\<lparr>art_supplier := None\<rparr>) (articles db)\<rparr>))"

section \<open>Warehouses and bins\<close>

text \<open>The key of the contract is not checked by the services; the table of contracts is not modelled.\<close>

record warehouse_dto =
  wd_code :: string
  wd_contract :: id
  wd_active :: "bool option"

definition warehouse_of :: "id \<Rightarrow> user \<Rightarrow> 'a inv_db_scheme \<Rightarrow> warehouse res" where
  "warehouse_of i u db =
     (case tenant_warehouse i (user_tenant u) db of
        None \<Rightarrow> Inl (NotFound ''Bodega no encontrada'')
      | Some w \<Rightarrow>
          if userCanAccessContractId u (Some (wh_contract w)) then Inr w
          else Inl (Forbidden ''No tiene acceso al contrato de esta bodega''))"

definition warehouse_create :: "id \<Rightarrow> warehouse_dto \<Rightarrow> user \<Rightarrow> 'a cat_db_scheme \<Rightarrow> 'a cat_db_scheme res" where
  "warehouse_create newId dto u db =
     (if list_ex (\<lambda>w. wh_tenant w = user_tenant u \<and> wh_code w = wd_code dto) (warehouses db)
      then Inl (BadRequest ''Ya existe una bodega con este codigo en la empresa'')
      else if list_ex (\<lambda>w. wh_id w = newId) (warehouses db) then Inl UniqueViolation
      else Inr (db\<lparr>warehouses := warehouses db @ [\<lparr>wh_id = newId, wh_tenant = user_tenant u,
        wh_contract = wd_contract dto, wh_code = wd_code dto,
        wh_active = (case wd_active dto of None \<Rightarrow> True | Some b \<Rightarrow> b)\<rparr>]\<rparr>))"

definition warehouse_update :: "id \<Rightarrow> warehouse_dto \<Rightarrow> user \<Rightarrow> 'a cat_db_scheme \<Rightarrow> 'a cat_db_scheme res" where
  "warehouse_update i dto u db =
     and_then (warehouse_of i u db) (\<lambda>w.
       if list_ex (\<lambda>x. wh_tenant x = user_tenant u \<and> wh_code x = wd_code dto \<and> wh_id x \<noteq> i) (warehouses db)
       then Inl (BadRequest ''El codigo ya esta siendo usado por otra bodega'')
       else Inr (db\<lparr>warehouses := update_rows (\<lambda>x. wh_id x = i)
         (\<lambda>x. x\<lparr>wh_code := wd_code dto, wh_contract := wd_contract dto, wh_active := patched (wd_active dto) (wh_active x)\<rparr>)
         (warehouses db)\<rparr>))"

text \<open>The database refuses while rows that restrict it name the warehouse; bins, stock rows and
  reservations go with it, and what may be empty is set to null.\<close>

definition warehouse_in_use :: "id \<Rightarrow> 'a ops_db_scheme \<Rightarrow> bool" where
  "warehouse_in_use w db \<longleftrightarrow> list_ex (\<lambda>t. tx_wh t = w) (txs db)
     \<or> list_ex (\<lambda>t. tr_origin t = w \<or> tr_dest t = w) (transfers db)
     \<or> list_ex (\<lambda>r. rc_warehouse r = w) (receipts db) \<or> list_ex (\<lambda>r. lr_warehouse r = w) (lube_reports db)"

definition warehouse_remove :: "id \<Rightarrow> user \<Rightarrow> 'a cat_db_scheme \<Rightarrow> 'a cat_db_scheme res" where
  "warehouse_remove i u db =
     and_then (warehouse_of i u db) (\<lambda>w.
       if warehouse_in_use i db
       then Inl (BadRequest ''No se puede eliminar la bodega porque ya contiene stock o transacciones registradas'')
       else Inr (db\<lparr>warehouses := filter (\<lambda>x. wh_id x \<noteq> i) (warehouses db),
         bins := filter (\<lambda>b. bn_wh b \<noteq> i) (bins db),
         stocks := filter (\<lambda>s. st_wh s \<noteq> i) (stocks db),
         stock_bins := filter (\<lambda>p. fst (fst p) \<noteq> i) (stock_bins db),
         reservations := filter (\<lambda>r. sr_warehouse r \<noteq> i) (reservations db),
         work_orders := update_rows (\<lambda>o1. wo_warehouse o1 = Some i) (\<lambda>o1. o1\<lparr>wo_warehouse := None\<rparr>) (work_orders db),
         items := update_rows (\<lambda>it. it_policy_wh it = Some i) (\<lambda>it. it\<lparr>it_policy_wh := None\<rparr>) (items db)\<rparr>))"

definition find_bin :: "id \<Rightarrow> id \<Rightarrow> 'a cat_db_scheme \<Rightarrow> warehouse_bin res" where
  "find_bin w b db =
     (case find_row (\<lambda>x. bn_id x = b \<and> bn_wh x = w) (bins db) of
        None \<Rightarrow> Inl (NotFound ''Ubicacion no encontrada'') | Some x \<Rightarrow> Inr x)"

definition bin_create ::
    "id \<Rightarrow> id \<Rightarrow> string \<Rightarrow> string option \<Rightarrow> user \<Rightarrow> 'a cat_db_scheme \<Rightarrow> 'a cat_db_scheme res" where
  "bin_create newId w code label u db =
     and_then (warehouse_of w u db) (\<lambda>_.
       if list_ex (\<lambda>b. bn_wh b = w \<and> bn_code b = trim code) (bins db)
       then Inl (BadRequest ''Ya existe una ubicacion con este codigo en la bodega'')
       else if list_ex (\<lambda>b. bn_id b = newId) (bins db) then Inl UniqueViolation
       else Inr (db\<lparr>bins := bins db @ [\<lparr>bn_id = newId, bn_wh = w, bn_code = trim code,
         bn_label = or_null (map_option trim label)\<rparr>]\<rparr>))"

definition bin_update ::
    "id \<Rightarrow> id \<Rightarrow> string \<Rightarrow> string option \<Rightarrow> user \<Rightarrow> 'a cat_db_scheme \<Rightarrow> 'a cat_db_scheme res" where
  "bin_update w b code label u db =
     and_then (warehouse_of w u db) (\<lambda>_. and_then (find_bin w b db) (\<lambda>_.
       if list_ex (\<lambda>x. bn_wh x = w \<and> bn_code x = trim code \<and> bn_id x \<noteq> b) (bins db)
       then Inl (BadRequest ''El codigo ya esta siendo usado por otra ubicacion'')
       else Inr (db\<lparr>bins := update_rows (\<lambda>x. bn_id x = b)
         (\<lambda>x. x\<lparr>bn_code := trim code, bn_label := or_null (map_option trim label)\<rparr>) (bins db)\<rparr>)))"

definition bin_remove :: "id \<Rightarrow> id \<Rightarrow> user \<Rightarrow> 'a cat_db_scheme \<Rightarrow> 'a cat_db_scheme res" where
  "bin_remove w b u db =
     and_then (warehouse_of w u db) (\<lambda>_. and_then (find_bin w b db) (\<lambda>_.
       if list_ex (\<lambda>p. snd p = b) (stock_bins db)
       then Inl (BadRequest ''No se puede eliminar: la ubicacion tiene registros de stock asignados'')
       else Inr (db\<lparr>bins := filter (\<lambda>x. bn_id x \<noteq> b) (bins db)\<rparr>)))"

section \<open>Vendors\<close>

definition vendor_rut_taken :: "id \<Rightarrow> id \<Rightarrow> string option \<Rightarrow> 'a cat_db_scheme \<Rightarrow> bool" where
  "vendor_rut_taken i tenant rut db \<longleftrightarrow>
     rut \<noteq> None \<and> list_ex (\<lambda>v. vn_id v \<noteq> i \<and> vn_tenant v = tenant \<and> vn_rut v = rut) (vendors db)"

definition vendor_create ::
    "id \<Rightarrow> string \<Rightarrow> string \<Rightarrow> string option \<Rightarrow> id \<Rightarrow> 'a cat_db_scheme \<Rightarrow> 'a cat_db_scheme res" where
  "vendor_create newId code name rut tenant db =
     (if list_ex (\<lambda>v. vn_id v = newId \<or> vn_tenant v = tenant \<and> vn_code v = code) (vendors db)
         \<or> vendor_rut_taken newId tenant rut db
      then Inl (Conflict ''Ya existe un proveedor con ese codigo o RUT'')
      else Inr (db\<lparr>vendors := vendors db @ [\<lparr>vn_id = newId, vn_tenant = tenant, vn_code = code, vn_name = name,
        vn_rut = rut, vn_active = True\<rparr>]\<rparr>))"

definition find_vendor :: "id \<Rightarrow> id \<Rightarrow> 'a cat_db_scheme \<Rightarrow> vendor res" where
  "find_vendor i tenant db =
     (case find_row (\<lambda>v. vn_id v = i \<and> vn_tenant v = tenant) (vendors db) of
        None \<Rightarrow> Inl (NotFound ''Proveedor no encontrado'') | Some v \<Rightarrow> Inr v)"

definition vendor_update ::
    "id \<Rightarrow> string option \<Rightarrow> string option option \<Rightarrow> bool option \<Rightarrow> id \<Rightarrow> 'a cat_db_scheme \<Rightarrow> 'a cat_db_scheme res" where
  "vendor_update i name rut active tenant db =
     and_then (find_vendor i tenant db) (\<lambda>v.
       if vendor_rut_taken i tenant (patched rut (vn_rut v)) db
       then Inl (Conflict ''Ya existe un proveedor con ese RUT'')
       else Inr (db\<lparr>vendors := update_rows (\<lambda>x. vn_id x = i) (\<lambda>x. x\<lparr>vn_name := patched name (vn_name x),
         vn_rut := patched rut (vn_rut x), vn_active := patched active (vn_active x)\<rparr>) (vendors db)\<rparr>))"

definition vendor_remove :: "id \<Rightarrow> id \<Rightarrow> 'a cat_db_scheme \<Rightarrow> 'a cat_db_scheme res" where
  "vendor_remove i tenant db =
     and_then (find_vendor i tenant db) (\<lambda>_.
       Inr (db\<lparr>vendors := update_rows (\<lambda>x. vn_id x = i) (\<lambda>x. x\<lparr>vn_active := False\<rparr>) (vendors db)\<rparr>))"

end
