(* ===== verification/Articles.thy ===== *)
theory Articles
  imports Catalogue
begin

text \<open>
  The articles: \<open>create\<close>, \<open>quickCreate\<close>, \<open>update\<close> and \<open>remove\<close> of
  \<open>features/inventory-items/inventory-items.service.ts\<close>, with the codes the system assigns to them.
\<close>

section \<open>Codes\<close>

text \<open>\<open>UUID_PARAM_RE\<close>.\<close>

definition isInventoryItemUuidParam :: "string \<Rightarrow> bool" where
  "isInventoryItemUuidParam v =
     (let s = trim v in
      is_uuid s \<and> s ! 14 \<in> set ''12345678'' \<and> lower_char (s ! 19) \<in> set ''89ab'')"

definition resolveInventoryItemRecordId :: "string \<Rightarrow> id \<Rightarrow> 'a inv_db_scheme \<Rightarrow> id res" where
  "resolveInventoryItemRecordId idOrCode tenant db =
     (let raw = trim idOrCode in
      if raw = [] then Inl (BadRequest ''Identificador de articulo requerido'')
      else if isInventoryItemUuidParam raw then Inr raw
      else case find_row (\<lambda>it. it_tenant it = tenant \<and> it_inventory_code it = Some raw) (items db) of
        None \<Rightarrow> Inl (NotFound ''Articulo no encontrado'')
      | Some it \<Rightarrow> Inr (it_id it))"

definition article_of :: "string \<Rightarrow> user \<Rightarrow> 'a cat_db_scheme \<Rightarrow> (item \<times> article) res" where
  "article_of idOrCode u db =
     and_then (resolveInventoryItemRecordId idOrCode (user_tenant u) db) (\<lambda>i.
       case (find_item i (user_tenant u) db, find_article i db) of
         (Some it, Some a) \<Rightarrow> Inr (it, a)
       | _ \<Rightarrow> Inl (NotFound ''Articulo no encontrado''))"

definition INV_SKU_DOC_TYPE :: string where "INV_SKU_DOC_TYPE = ''INV_SKU''"
definition INV_SKU_PREFIX :: string where "INV_SKU_PREFIX = ''IN''"

text \<open>A prefix, whatever its case, and one to eight digits: the number they stand for.\<close>

definition numbered :: "string \<Rightarrow> string \<Rightarrow> nat option" where
  "numbered prefix t =
     (let k = length prefix; digits = drop k t in
      if to_upper (take k t) = prefix \<and> 1 \<le> length digits \<and> length digits \<le> 8 \<and> list_all is_digit digits
      then Some (digits_value digits) else None)"

definition number_or_zero :: "nat option \<Rightarrow> nat" where
  "number_or_zero n = (case n of None \<Rightarrow> 0 | Some k \<Rightarrow> k)"

definition sku_number :: "string option \<Rightarrow> nat" where
  "sku_number code =
     (let t = trim_opt code in max (number_or_zero (numbered ''IN'' t)) (number_or_zero (numbered ''INV-'' t)))"

definition computeInventorySkuNumericFloor :: "string option list \<Rightarrow> nat" where
  "computeInventorySkuNumericFloor codes = fold (\<lambda>c m. max m (sku_number c)) codes 0"

definition sku_floor :: "id \<Rightarrow> 'a inv_db_scheme \<Rightarrow> nat" where
  "sku_floor tenant db =
     computeInventorySkuNumericFloor (map it_inventory_code
       (filter (\<lambda>it. it_tenant it = tenant \<and> it_inventory_code it \<noteq> None) (items db)))"

definition peekNextInventorySku :: "id \<Rightarrow> 'a inv_db_scheme \<Rightarrow> string" where
  "peekNextInventorySku tenant db =
     (let synced = max (sku_floor tenant db) (last_number tenant INV_SKU_DOC_TYPE db)
      in INV_SKU_PREFIX @ pad_start 4 (CHR ''0'') (nat_digits (synced + 1)))"

definition ensureInventorySkuCounterFloor :: "id \<Rightarrow> 'a inv_db_scheme \<Rightarrow> 'a inv_db_scheme" where
  "ensureInventorySkuCounterFloor tenant db =
     (let floor = sku_floor tenant db in
      if floor = 0 then db
      else if counter_of tenant INV_SKU_DOC_TYPE db = None \<or> last_number tenant INV_SKU_DOC_TYPE db < floor
      then db\<lparr>counters := upsert_row (\<lambda>c. ct_tenant c = tenant \<and> ct_type c = INV_SKU_DOC_TYPE)
        (\<lambda>c. c\<lparr>ct_last := floor, ct_prefix := INV_SKU_PREFIX\<rparr>)
        \<lparr>ct_tenant = tenant, ct_type = INV_SKU_DOC_TYPE, ct_prefix = INV_SKU_PREFIX, ct_last = floor\<rparr> (counters db)\<rparr>
      else db)"

definition next_sku :: "id \<Rightarrow> 'a inv_db_scheme \<Rightarrow> string \<times> 'a inv_db_scheme" where
  "next_sku tenant db =
     getNextCorrelative tenant INV_SKU_DOC_TYPE INV_SKU_PREFIX (Some 4) (Some []) (ensureInventorySkuCounterFloor tenant db)"

section \<open>Checks of an article\<close>

definition assertLeafCategory :: "id \<Rightarrow> id \<Rightarrow> 'a cat_db_scheme \<Rightarrow> unit res" where
  "assertLeafCategory i tenant db =
     (case find_category i tenant db of
        None \<Rightarrow> Inl (BadRequest ''La categoria no existe o no pertenece a su empresa'')
      | Some c \<Rightarrow>
          (case or_null (ca_parent c) of
             None \<Rightarrow> Inl (BadRequest ''Debe seleccionar una subcategoria'')
           | Some p \<Rightarrow>
               (case find_category p tenant db of
                  None \<Rightarrow> Inl (BadRequest ''La familia de la subcategoria no existe o no pertenece a su empresa'')
                | Some f \<Rightarrow>
                    if or_null (ca_parent f) \<noteq> None
                    then Inl (BadRequest ''Solo se permiten dos niveles: familia y subcategoria'')
                    else Inr ())))"

definition assertUnitOfMeasure :: "id \<Rightarrow> id \<Rightarrow> 'a cat_db_scheme \<Rightarrow> unit_of_measure res" where
  "assertUnitOfMeasure i tenant db =
     (case find_uom i tenant db of None \<Rightarrow> Inl (BadRequest ''Unidad de medida no valida'') | Some m \<Rightarrow> Inr m)"

definition part_number_free :: "string option \<Rightarrow> id \<Rightarrow> (item \<Rightarrow> bool) \<Rightarrow> 'a inv_db_scheme \<Rightarrow> unit res" where
  "part_number_free pn tenant others db =
     (if pn \<noteq> None \<and> list_ex (\<lambda>it. it_tenant it = tenant \<and> it_part_number it = pn \<and> others it) (items db)
      then Inl (BadRequest ''Ya existe un articulo con este Numero de Parte'') else Inr ())"

record item_dto =
  nd_code :: "string option"
  nd_part :: "string option"
  nd_supplier :: "id option"
  nd_name :: string
  nd_description :: "string option"
  nd_category :: string
  nd_unit :: string
  nd_brand :: "string option"
  nd_compat :: "string option"
  nd_serialized :: "bool option"
  nd_inventory :: "bool option"
  nd_asset :: "bool option"
  nd_consumable :: "bool option"
  nd_warehouse :: "string option"
  nd_min :: "qty option"
  nd_max :: "qty option"

text \<open>
  The thresholds kept for the first stock row. \<open>create\<close> asks for both where a warehouse is named;
  \<open>quickCreate\<close> takes zero for an absent one.
\<close>

definition initial_policy ::
    "bool \<Rightarrow> item_dto \<Rightarrow> id \<Rightarrow> 'a inv_db_scheme \<Rightarrow> (id \<times> qty \<times> qty) option res" where
  "initial_policy required dto tenant db =
     (let w = trim_opt (nd_warehouse dto); lo = or_zero (nd_min dto); hi = or_zero (nd_max dto) in
      if w = [] then Inr None
      else if required \<and> (nd_min dto = None \<or> nd_max dto = None)
      then Inl (BadRequest ''Si indica una bodega inicial, debe enviar stock minimo y stock maximo'')
      else if lo < 0 then Inl (BadRequest ''El stock minimo debe ser un numero mayor o igual a cero'')
      else if hi < 0 then Inl (BadRequest ''El stock maximo debe ser un numero mayor o igual a cero'')
      else if hi > 0 \<and> hi < lo then Inl (BadRequest ''El stock maximo no puede ser menor que el stock minimo'')
      else case tenant_warehouse w tenant db of
        None \<Rightarrow> Inl (BadRequest ''La bodega seleccionada no existe o no pertenece a su empresa'')
      | Some x \<Rightarrow> Inr (Some (wh_id x, lo, hi)))"

text \<open>The insertion with the keys of the two tables that stand for the row.\<close>

definition insert_article :: "item \<Rightarrow> article \<Rightarrow> 'a cat_db_scheme \<Rightarrow> 'a cat_db_scheme res" where
  "insert_article it a db =
     (if list_ex (\<lambda>x. it_id x = it_id it \<or> it_tenant x = it_tenant it \<and> it_inventory_code x = it_inventory_code it)
           (items db)
         \<or> list_ex (\<lambda>x. art_item x = art_item a) (articles db)
      then Inl UniqueViolation
      else if art_supplier a \<noteq> None \<and> \<not> list_ex (\<lambda>s. Some (su_id s) = art_supplier a) (suppliers db)
      then Inl (InternalError ''supplier_id'')
      else Inr (db\<lparr>items := items db @ [it], articles := articles db @ [a]\<rparr>))"

definition flag :: "bool option \<Rightarrow> bool \<Rightarrow> bool" where
  "flag x d = (case x of None \<Rightarrow> d | Some b \<Rightarrow> b)"

definition new_item ::
    "id \<Rightarrow> id \<Rightarrow> string option \<Rightarrow> string \<Rightarrow> unit_of_measure \<Rightarrow> (id \<times> qty \<times> qty) option \<Rightarrow> bool \<Rightarrow> item" where
  "new_item newId tenant pn code m policy inventory =
     \<lparr>it_id = newId, it_tenant = tenant, it_part_number = pn, it_inventory_code = Some code,
      it_is_inventory = inventory, it_uom_abbr = um_abbr m, it_uom_decimals = um_decimals m,
      it_policy_wh = map_option fst policy, it_policy_min = map_option (fst \<circ> snd) policy,
      it_policy_max = map_option (snd \<circ> snd) policy\<rparr>"

section \<open>Operations\<close>

definition item_create :: "id \<Rightarrow> item_dto \<Rightarrow> user \<Rightarrow> 'a cat_db_scheme \<Rightarrow> 'a cat_db_scheme res" where
  "item_create newId dto u db =
     (let t = user_tenant u; pn = or_null (Some (trim_opt (nd_part dto))) in
      if trim (nd_category dto) = []
      then Inl (BadRequest ''Debe seleccionar familia y subcategoria para el articulo'')
      else if trim (nd_unit dto) = [] then Inl (BadRequest ''Debe indicar la unidad de medida'')
      else and_then (assertLeafCategory (nd_category dto) t db) (\<lambda>_.
        and_then (assertUnitOfMeasure (nd_unit dto) t db) (\<lambda>m.
        and_then (part_number_free pn t (\<lambda>_. True) db) (\<lambda>_.
        if trim_opt (nd_code dto) \<noteq> []
        then Inl (BadRequest ''El codigo de inventario lo asigna el sistema'')
        else
          let (code, db1) = next_sku t db in
          and_then (initial_policy True dto t db1) (\<lambda>policy.
          and_then (insert_article (new_item newId t pn code m policy (flag (nd_inventory dto) True))
              \<lparr>art_item = newId, art_qr = ''INV:'' @ newId, art_name = nd_name dto, art_description = nd_description dto,
               art_category = nd_category dto, art_unit = nd_unit dto, art_brand = nd_brand dto,
               art_compat = or_null (Some (trim_opt (nd_compat dto))), art_supplier = nd_supplier dto,
               art_serialized = flag (nd_serialized dto) False, art_asset = flag (nd_asset dto) False,
               art_consumable = flag (nd_consumable dto) True\<rparr> db1)
            (\<lambda>db2. Inr (audit_log \<lparr>lg_tenant = t, lg_user = user_id u, lg_entity = ''INVENTORY_ITEM'',
               lg_entity_id = newId, lg_action = ''CREATE'', lg_old = [],
               lg_new = [(''inventoryCode'', JStr code), (''name'', JStr (nd_name dto)),
                 (''categoryId'', JStr (nd_category dto)), (''unitOfMeasureId'', JStr (nd_unit dto)),
                 (''partNumber'', case pn of None \<Rightarrow> JNull | Some s \<Rightarrow> JStr s),
                 (''isSerialized'', JBool (flag (nd_serialized dto) False)),
                 (''isInventory'', JBool (flag (nd_inventory dto) True)),
                 (''isAsset'', JBool (flag (nd_asset dto) False)),
                 (''isConsumable'', JBool (flag (nd_consumable dto) True))]\<rparr> db2)))))))"

definition quickCreate :: "id \<Rightarrow> item_dto \<Rightarrow> user \<Rightarrow> 'a cat_db_scheme \<Rightarrow> 'a cat_db_scheme res" where
  "quickCreate newId dto u db =
     (let t = user_tenant u; name = trim (nd_name dto); requested = trim_opt (nd_part dto);
          pn = or_null (Some requested); brand = or_null (Some (trim_opt (nd_brand dto)))
      in if trim (nd_category dto) = []
         then Inl (BadRequest ''Seleccione familia y subcategoria antes de crear el articulo'')
         else if trim (nd_unit dto) = [] then Inl (BadRequest ''Seleccione la unidad de medida'')
         else if name = [] then Inl (BadRequest ''El nombre del articulo es obligatorio'')
         else if length name > 150 then Inl (BadRequest ''El nombre no puede superar 150 caracteres'')
         else if length requested > 50 then Inl (BadRequest ''El Numero de Parte no puede superar 50 caracteres'')
         else if trim_opt (nd_code dto) \<noteq> []
         then Inl (BadRequest ''El codigo de inventario lo asigna el sistema'')
         else if length (case brand of None \<Rightarrow> [] | Some b \<Rightarrow> b) > 50
         then Inl (BadRequest ''La marca no puede superar 50 caracteres'')
         else and_then (part_number_free pn t (\<lambda>_. True) db) (\<lambda>_.
           and_then (assertLeafCategory (nd_category dto) t db) (\<lambda>_.
           and_then (assertUnitOfMeasure (nd_unit dto) t db) (\<lambda>m.
             let (code, db1) = next_sku t db in
             and_then (initial_policy False dto t db1) (\<lambda>policy.
               insert_article (new_item newId t pn code m policy (flag (nd_inventory dto) True))
                 \<lparr>art_item = newId, art_qr = ''INV:'' @ newId, art_name = name,
                  art_description = or_null (Some (trim_opt (nd_description dto))),
                  art_category = nd_category dto, art_unit = nd_unit dto, art_brand = brand,
                  art_compat = or_null (Some (trim_opt (nd_compat dto))), art_supplier = None,
                  art_serialized = flag (nd_serialized dto) False, art_asset = flag (nd_asset dto) False,
                  art_consumable = flag (nd_consumable dto) True\<rparr> db1)))))"

text \<open>Of the nullable columns \<open>Some None\<close> is a \<open>null\<close> of the request.\<close>

record item_patch =
  ip_code :: "string option option"
  ip_part :: "string option option"
  ip_supplier :: "id option option"
  ip_name :: "string option"
  ip_description :: "string option option"
  ip_category :: "string option"
  ip_unit :: "string option"
  ip_brand :: "string option option"
  ip_compat :: "string option option"
  ip_serialized :: "bool option"
  ip_inventory :: "bool option"
  ip_asset :: "bool option"
  ip_consumable :: "bool option"

definition item_update :: "string \<Rightarrow> item_patch \<Rightarrow> user \<Rightarrow> 'a cat_db_scheme \<Rightarrow> 'a cat_db_scheme res" where
  "item_update idOrCode p u db =
     and_then (article_of idOrCode u db) (\<lambda>(it, a).
       let t = user_tenant u; i = it_id it;
           category = patched (ip_category p) (art_category a); un = patched (ip_unit p) (art_unit a);
           pn = or_null (Some (trim_opt (patched (ip_part p) (it_part_number it))));
           supplier = patched (ip_supplier p) (art_supplier a)
       in if (case ip_code p of None \<Rightarrow> False | Some c \<Rightarrow> trim_opt c \<noteq> trim_opt (it_inventory_code it))
          then Inl (BadRequest ''El codigo de inventario no se puede modificar'')
          else if trim category = []
          then Inl (BadRequest ''Debe seleccionar familia y subcategoria para el articulo'')
          else if trim un = [] then Inl (BadRequest ''Debe indicar la unidad de medida'')
          else and_then (assertLeafCategory category t db) (\<lambda>_.
            and_then (assertUnitOfMeasure un t db) (\<lambda>m.
            and_then (part_number_free pn t (\<lambda>x. it_id x \<noteq> i) db) (\<lambda>_.
              if supplier \<noteq> None \<and> \<not> list_ex (\<lambda>s. Some (su_id s) = supplier) (suppliers db)
              then Inl (InternalError ''supplier_id'')
              else Inr (db\<lparr>
                items := update_rows (\<lambda>x. it_id x = i) (\<lambda>x. x\<lparr>it_part_number := pn,
                  it_is_inventory := patched (ip_inventory p) (it_is_inventory it),
                  it_uom_abbr := um_abbr m, it_uom_decimals := um_decimals m\<rparr>) (items db),
                articles := update_rows (\<lambda>x. art_item x = i) (\<lambda>x. x\<lparr>art_name := patched (ip_name p) (art_name a),
                  art_description := patched (ip_description p) (art_description a),
                  art_category := category, art_unit := un, art_brand := patched (ip_brand p) (art_brand a),
                  art_supplier := supplier, art_compat := or_null (Some (trim_opt (patched (ip_compat p) (art_compat a)))),
                  art_serialized := patched (ip_serialized p) (art_serialized a),
                  art_asset := patched (ip_asset p) (art_asset a),
                  art_consumable := patched (ip_consumable p) (art_consumable a)\<rparr>) (articles db)\<rparr>)))))"

text \<open>The database refuses while rows that restrict it name the article; stock rows and reservations
  go with it, and the lines that may be without an article lose it.\<close>

definition item_in_use :: "id \<Rightarrow> 'a ops_db_scheme \<Rightarrow> bool" where
  "item_in_use i db \<longleftrightarrow> list_ex (\<lambda>t. tx_item t = i) (txs db)
     \<or> list_ex (\<lambda>t. list_ex (\<lambda>l. tl_item l = i) (tr_lines t)) (transfers db)
     \<or> list_ex (\<lambda>r. list_ex (\<lambda>l. ll_item l = i) (lr_lines r)) (lube_reports db)"

definition drop_references :: "id \<Rightarrow> 'a ops_db_scheme \<Rightarrow> 'a ops_db_scheme" where
  "drop_references i db =
     db\<lparr>work_orders := map (\<lambda>w. w\<lparr>wo_parts := update_rows (\<lambda>p. wp_item p = Some i) (\<lambda>p. p\<lparr>wp_item := None\<rparr>) (wo_parts w),
          wo_fluids := update_rows (\<lambda>f. wf_item f = Some i) (\<lambda>f. f\<lparr>wf_item := None\<rparr>) (wo_fluids w)\<rparr>) (work_orders db),
        requisitions := map (\<lambda>r. r\<lparr>rq_items := update_rows (\<lambda>l. rl_inventory_item l = Some i)
          (\<lambda>l. l\<lparr>rl_inventory_item := None\<rparr>) (rq_items r)\<rparr>) (requisitions db),
        orders := map (\<lambda>o1. o1\<lparr>po_items := update_rows (\<lambda>l. oi_inventory_item l = Some i)
          (\<lambda>l. l\<lparr>oi_inventory_item := None\<rparr>) (po_items o1)\<rparr>) (orders db)\<rparr>"

definition item_remove :: "string \<Rightarrow> user \<Rightarrow> 'a cat_db_scheme \<Rightarrow> 'a cat_db_scheme res" where
  "item_remove idOrCode u db =
     and_then (article_of idOrCode u db) (\<lambda>(it, a).
       let i = it_id it in
       if item_in_use i db
       then Inl (BadRequest ''No se puede eliminar el articulo porque ya tiene historial de stock'')
       else Inr (drop_references i (db\<lparr>items := filter (\<lambda>x. it_id x \<noteq> i) (items db),
         articles := filter (\<lambda>x. art_item x \<noteq> i) (articles db),
         stocks := filter (\<lambda>s. st_item s \<noteq> i) (stocks db),
         stock_bins := filter (\<lambda>q. snd (fst q) \<noteq> i) (stock_bins db),
         reservations := filter (\<lambda>r. sr_item r \<noteq> i) (reservations db)\<rparr>)))"

end
