(* ===== verification/Stock_Import.thy ===== *)
theory Stock_Import
  imports Articles Fleet_Import Inventory_System
begin

text \<open>
  The Excel of the inventory: its rows as \<open>features/inventory-items/inventory-master-excel.generator.ts\<close>
  writes them and the import that adjusts the stock (\<open>validateInventoryMasterImport\<close> and
  \<open>commitInventoryMasterImport\<close> of \<open>inventory-items.service.ts\<close>), with the readers of
  \<open>common/excel/baselogic-master-import.util.ts\<close>. The file itself, which a library writes and reads, is
  the list of its rows; a row has the text of its text cells and the cells of its number columns. Texts
  of errors, warnings, the columns nobody reads back (names of warehouses, contracts, costs) and the
  other sheets are left out.
\<close>

section \<open>Cells\<close>

datatype excel_cell = Blank | Written string | Number qty

text \<open>A run of blanks is one space.\<close>

function squeeze :: "string \<Rightarrow> string" where
  "squeeze [] = []"
| "squeeze (c # cs) = (if is_space c then CHR '' '' # squeeze (dropWhile is_space cs) else c # squeeze cs)"
  by pat_completeness auto
termination squeeze
  by (relation "measure length") (auto simp: length_dropWhile_le le_imp_less_Suc)

definition normalizeImportText :: "string \<Rightarrow> string" where
  "normalizeImportText s = trim (squeeze (trim s))"

text \<open>\<open>Number\<close> of a text of digits, points and minus signs; \<open>None\<close> is \<open>NaN\<close>.\<close>

definition js_number :: "string \<Rightarrow> qty option" where
  "js_number s =
     (let negative = s \<noteq> [] \<and> hd s = CHR ''-''; body = (if negative then tl s else s);
          whole = takeWhile is_digit body; after = dropWhile is_digit body; decimals = drop 1 after
      in if s = [] then Some 0
         else if whole = [] \<and> decimals = [] then None
         else if after \<noteq> [] \<and> hd after \<noteq> CHR ''.'' \<or> \<not> list_all is_digit decimals then None
         else let v = of_nat (digits_value (whole @ decimals)) / 10 ^ length decimals
              in Some (if negative then - v else v))"

text \<open>\<open>replace\<close> with a text changes the first occurrence only.\<close>

fun replace_first :: "char \<Rightarrow> char \<Rightarrow> string \<Rightarrow> string" where
  "replace_first a b [] = []"
| "replace_first a b (c # cs) = (if c = a then b # cs else c # replace_first a b cs)"

definition parseImportNumber :: "excel_cell \<Rightarrow> qty option" where
  "parseImportNumber x =
     (case x of
        Blank \<Rightarrow> None
      | Number q \<Rightarrow> Some q
      | Written s \<Rightarrow>
          (let t = replace_first (CHR '','') (CHR ''.'') (filter (\<lambda>c. c \<noteq> CHR ''.'') (normalizeImportText s)) in
           if t = [] then None
           else js_number (filter (\<lambda>c. is_digit c \<or> c = CHR ''.'' \<or> c = CHR ''-'') t)))"

definition has_text :: "excel_cell \<Rightarrow> bool" where
  "has_text x = (case x of Blank \<Rightarrow> False | Number q \<Rightarrow> True | Written s \<Rightarrow> normalizeImportText s \<noteq> [])"

record excel_row =
  xr_number :: nat
  xr_texts :: "(string \<times> string) list"
  xr_cells :: "(string \<times> excel_cell) list"

definition getImportString :: "excel_row \<Rightarrow> string \<Rightarrow> string" where
  "getImportString r h = (case map_of (xr_texts r) h of None \<Rightarrow> [] | Some s \<Rightarrow> normalizeImportText s)"

definition getImportNullableString :: "excel_row \<Rightarrow> string \<Rightarrow> string option" where
  "getImportNullableString r h = or_null (Some (getImportString r h))"

definition number_cell :: "excel_row \<Rightarrow> string \<Rightarrow> excel_cell" where
  "number_cell r h = (case map_of (xr_cells r) h of None \<Rightarrow> Blank | Some x \<Rightarrow> x)"

section \<open>The rows of the export\<close>

definition opt_text :: "string option \<Rightarrow> string" where
  "opt_text x = (case x of None \<Rightarrow> [] | Some s \<Rightarrow> s)"

definition opt_cell :: "qty option \<Rightarrow> excel_cell" where
  "opt_cell x = (case x of None \<Rightarrow> Blank | Some q \<Rightarrow> Number q)"

definition boolLabel :: "bool \<Rightarrow> string" where
  "boolLabel b = (if b then ''SI'' else ''NO'')"

definition warehouseContractScopeWhere :: "user \<Rightarrow> warehouse \<Rightarrow> bool" where
  "warehouseContractScopeWhere u w \<longleftrightarrow>
     wh_tenant w = user_tenant u \<and> filter_matches (buildPurchaseContractScopeFilter (Some u) None) (wh_contract w)"

text \<open>The article with the rows the queries include: its family and subcategory, unit and supplier.\<close>

record article_view =
  av_item :: item
  av_article :: article
  av_family :: string
  av_sub :: string
  av_unit_name :: string
  av_supplier :: "string option"

definition view_of :: "'a cat_db_scheme \<Rightarrow> item \<Rightarrow> article_view option" where
  "view_of db it =
     (case find_article (it_id it) db of
        None \<Rightarrow> None
      | Some a \<Rightarrow>
          (case (find_row (\<lambda>c. ca_id c = art_category a) (categories db), find_row (\<lambda>m. um_id m = art_unit a) (uoms db)) of
             (Some c, Some m) \<Rightarrow>
               (let parent = Option.bind (ca_parent c) (\<lambda>p. find_row (\<lambda>f. ca_id f = p) (categories db)) in
                Some \<lparr>av_item = it, av_article = a,
                  av_family = (case parent of None \<Rightarrow> ca_name c | Some f \<Rightarrow> ca_name f),
                  av_sub = (case parent of None \<Rightarrow> [] | Some f \<Rightarrow> ca_name c), av_unit_name = um_name m,
                  av_supplier = Option.bind (art_supplier a) (\<lambda>s. map_option su_name (find_row (\<lambda>x. su_id x = s) (suppliers db)))\<rparr>)
           | _ \<Rightarrow> None))"

definition tenant_views :: "id \<Rightarrow> 'a cat_db_scheme \<Rightarrow> article_view list" where
  "tenant_views tenant db = List.map_filter (view_of db) (filter (\<lambda>it. it_tenant it = tenant) (items db))"

definition bin_code_of :: "'a cat_db_scheme \<Rightarrow> item_stock \<Rightarrow> string option" where
  "bin_code_of db s = Option.bind (map_of (stock_bins db) (st_wh s, st_item s))
     (\<lambda>b. map_option bn_code (find_row (\<lambda>x. bn_id x = b) (bins db)))"

definition common_texts :: "article_view \<Rightarrow> (string \<times> string) list" where
  "common_texts v =
     (let it = av_item v; a = av_article v in
      [(''ID articulo'', it_id it), (''Codigo inventario'', opt_text (it_inventory_code it)),
       (''Numero parte'', opt_text (it_part_number it)), (''Nombre'', art_name a),
       (''Descripcion'', opt_text (art_description a)), (''Familia'', av_family v), (''Subcategoria'', av_sub v),
       (''Unidad'', it_uom_abbr it), (''Unidad nombre'', av_unit_name v),
       (''Permite decimales'', boolLabel (it_uom_decimals it)), (''Marca'', opt_text (art_brand a)),
       (''Compatibilidad'', opt_text (art_compat a)), (''Proveedor habitual'', opt_text (av_supplier v)),
       (''Inventariable'', boolLabel (it_is_inventory it)), (''Consumible'', boolLabel (art_consumable a)),
       (''Activo'', boolLabel (art_asset a)), (''Serializado'', boolLabel (art_serialized a)),
       (''QR payload'', art_qr a)])"

definition policy_cells :: "article_view \<Rightarrow> (string \<times> excel_cell) list" where
  "policy_cells v = [(''Politica minimo'', opt_cell (it_policy_min (av_item v))),
     (''Politica maximo'', opt_cell (it_policy_max (av_item v)))]"

text \<open>The rows of an article: one for each stock row in scope, or one without a warehouse.\<close>

definition item_rows :: "user \<Rightarrow> 'a cat_db_scheme \<Rightarrow> article_view \<Rightarrow> item_stock option list" where
  "item_rows u db v =
     (let rows = filter (\<lambda>s. st_item s = it_id (av_item v)
            \<and> list_ex (\<lambda>w. wh_id w = st_wh s \<and> warehouseContractScopeWhere u w) (warehouses db)) (stocks db)
      in if rows = [] then [None] else map Some rows)"

definition export_row :: "'a cat_db_scheme \<Rightarrow> nat \<Rightarrow> article_view \<times> item_stock option \<Rightarrow> excel_row" where
  "export_row db k vs =
     (let (v, so) = vs in
      case so of
        None \<Rightarrow> \<lparr>xr_number = k, xr_texts = common_texts v, xr_cells = (''Stock'', Number 0) # policy_cells v\<rparr>
      | Some s \<Rightarrow> \<lparr>xr_number = k,
          xr_texts = common_texts v @
            [(''Bodega codigo'', opt_text (map_option wh_code (find_row (\<lambda>w. wh_id w = st_wh s) (warehouses db)))),
             (''Ubicacion stock'', opt_text (st_location s)), (''Bin codigo'', opt_text (bin_code_of db s))],
          xr_cells = [(''Stock'', Number (st_qty s)), (''Stock minimo'', Number (st_min s)),
             (''Stock maximo'', Number (st_max s))] @ policy_cells v\<rparr>)"

definition export_plan :: "user \<Rightarrow> 'a cat_db_scheme \<Rightarrow> (article_view \<times> item_stock option) list" where
  "export_plan u db = concat (map (\<lambda>v. map (Pair v) (item_rows u db v)) (tenant_views (user_tenant u) db))"

text \<open>The rows of the sheet, numbered from the first data row.\<close>

definition getInventoryMasterExcelBuffer :: "user \<Rightarrow> 'a cat_db_scheme \<Rightarrow> excel_row list" where
  "getInventoryMasterExcelBuffer u db =
     (let plan = export_plan u db in map (\<lambda>(k, vs). export_row db (k + 6) vs) (zip [0 ..< length plan] plan))"

section \<open>Validation\<close>

datatype row_error =
    OutOfScope | NoWarehouse | NoArticle | OtherIdentity | Structural string | BadBoolean string
  | BadNumber string | Negative string | MaxBelowMin | WholeNumbers | StockWithoutWarehouse | DuplicateRow

text \<open>The key of a part number keeps what is not a letter with an accent.\<close>

definition inventoryImportPartNumberKey :: "string \<Rightarrow> string" where
  "inventoryImportPartNumberKey s =
     concat (map (\<lambda>c. if (of_char c :: nat) \<in> {230, 240, 248, 254} then [char_of ((of_char c :: nat) - 32)] else base_letter c)
       (normalizeImportText s))"

definition find_view :: "user \<Rightarrow> excel_row \<Rightarrow> 'a cat_db_scheme \<Rightarrow> article_view option" where
  "find_view u r db =
     (let views = tenant_views (user_tenant u) db; last_with = (\<lambda>p. find_row (p \<circ> av_item) (rev views)) in
      or_else (case getImportNullableString r ''ID articulo'' of
          None \<Rightarrow> None | Some i \<Rightarrow> last_with (\<lambda>it. it_id it = i))
        (or_else (case getImportNullableString r ''Codigo inventario'' of
            None \<Rightarrow> None
          | Some c \<Rightarrow> last_with (\<lambda>it. map_option normalizeImportKey (or_null (it_inventory_code it)) = Some (normalizeImportKey c)))
          (case getImportNullableString r ''Numero parte'' of
             None \<Rightarrow> None
           | Some p \<Rightarrow> last_with (\<lambda>it. map_option inventoryImportPartNumberKey (or_null (it_part_number it))
                 = Some (inventoryImportPartNumberKey p)))))"

definition warehouseByCode :: "(warehouse \<Rightarrow> bool) \<Rightarrow> excel_row \<Rightarrow> 'a cat_db_scheme \<Rightarrow> warehouse option" where
  "warehouseByCode seen r db =
     Option.bind (getImportNullableString r ''Bodega codigo'') (\<lambda>c.
       map_get wh_code (filter seen (warehouses db)) (normalizeImportKey c))"

definition structuralCompare :: "string \<Rightarrow> string \<Rightarrow> string \<Rightarrow> row_error list" where
  "structuralCompare field was now =
     (if normalizeImportText was \<noteq> normalizeImportText now then [Structural field] else [])"

definition structuralBooleanCompare :: "string \<Rightarrow> bool \<Rightarrow> excel_row \<Rightarrow> row_error list" where
  "structuralBooleanCompare field was r =
     (let raw = getImportString r field; parsed = parseImportBoolean raw in
      if raw \<noteq> [] \<and> parsed = None then [BadBoolean field]
      else structuralCompare field (boolLabel was)
        (if raw \<noteq> [] then boolLabel (case parsed of None \<Rightarrow> was | Some b \<Rightarrow> b) else []))"

definition structural_errors :: "excel_row \<Rightarrow> article_view \<Rightarrow> row_error list" where
  "structural_errors r v =
     (let it = av_item v; a = av_article v;
          same = (\<lambda>field was. structuralCompare field was (getImportString r field));
          policy = (\<lambda>field was. if was \<noteq> parseImportNumber (number_cell r field) then [Structural field] else [])
      in (if getImportString r ''ID articulo'' \<noteq> [] then same ''ID articulo'' (it_id it) else [])
       @ (if getImportString r ''Codigo inventario'' \<noteq> []
          then same ''Codigo inventario'' (opt_text (it_inventory_code it)) else [])
       @ (if getImportString r ''Numero parte'' \<noteq> [] \<or> or_null (it_part_number it) \<noteq> None
          then same ''Numero parte'' (opt_text (it_part_number it)) else [])
       @ same ''Nombre'' (art_name a) @ same ''Descripcion'' (opt_text (art_description a))
       @ same ''Familia'' (av_family v) @ same ''Subcategoria'' (av_sub v)
       @ same ''Unidad'' (it_uom_abbr it) @ same ''Unidad nombre'' (av_unit_name v)
       @ same ''Permite decimales'' (boolLabel (it_uom_decimals it))
       @ same ''Marca'' (opt_text (art_brand a)) @ same ''Compatibilidad'' (opt_text (art_compat a))
       @ same ''Proveedor habitual'' (opt_text (av_supplier v))
       @ structuralBooleanCompare ''Inventariable'' (it_is_inventory it) r
       @ structuralBooleanCompare ''Consumible'' (art_consumable a) r
       @ structuralBooleanCompare ''Activo'' (art_asset a) r
       @ structuralBooleanCompare ''Serializado'' (art_serialized a) r
       @ same ''QR payload'' (art_qr a)
       @ policy ''Politica minimo'' (it_policy_min it) @ policy ''Politica maximo'' (it_policy_max it))"

definition isIntegerQuantityAllowed :: "qty \<Rightarrow> bool" where
  "isIntegerQuantityAllowed q \<longleftrightarrow> \<bar>q - of_int (js_round q)\<bar> < 1 / 1000000000"

definition importNumberRequired :: "excel_row \<Rightarrow> string \<Rightarrow> row_error list \<times> qty option" where
  "importNumberRequired r field =
     (let parsed = parseImportNumber (number_cell r field) in
      (if parsed = None then [BadNumber field] else [], parsed))"

definition importNonNegativeNumber :: "excel_row \<Rightarrow> string \<Rightarrow> row_error list \<times> qty option" where
  "importNonNegativeNumber r field =
     (case (if has_text (number_cell r field) then parseImportNumber (number_cell r field) else Some 0) of
        None \<Rightarrow> ([BadNumber field], None)
      | Some q \<Rightarrow> if q < 0 then ([Negative field], None) else ([], Some q))"

text \<open>The three numbers of a row and what is wrong with them; without a warehouse they are only parsed.\<close>

definition row_numbers :: "excel_row \<Rightarrow> bool \<Rightarrow> row_error list \<times> qty option \<times> qty option \<times> qty option" where
  "row_numbers r placed =
     (if placed
      then let (e1, q) = importNumberRequired r ''Stock''; (e2, lo) = importNonNegativeNumber r ''Stock minimo'';
               (e3, hi) = importNonNegativeNumber r ''Stock maximo''
           in (e1 @ e2 @ e3, q, lo, hi)
      else ([], parseImportNumber (number_cell r ''Stock''), parseImportNumber (number_cell r ''Stock minimo''),
            parseImportNumber (number_cell r ''Stock maximo'')))"

definition number_errors :: "excel_row \<Rightarrow> bool \<Rightarrow> bool \<Rightarrow> row_error list" where
  "number_errors r placed decimals =
     (let (errors, q, lo, hi) = row_numbers r placed in
      errors
      @ (if placed \<and> q \<noteq> None \<and> the q < 0 then [Negative ''Stock''] else [])
      @ (if placed \<and> hi \<noteq> None \<and> lo \<noteq> None \<and> the hi > 0 \<and> the hi < the lo then [MaxBelowMin] else [])
      @ (if placed \<and> \<not> decimals \<and> list_ex (\<lambda>n. n \<noteq> None \<and> \<not> isIntegerQuantityAllowed (the n)) [q, lo, hi]
         then [WholeNumbers] else [])
      @ (if getImportNullableString r ''Bodega codigo'' = None
            \<and> list_ex (\<lambda>f. \<bar>or_zero (parseImportNumber (number_cell r f))\<bar> > 1 / 1000000000)
                 [''Stock'', ''Stock minimo'', ''Stock maximo'']
         then [StockWithoutWarehouse] else []))"

definition existingStock :: "excel_row \<Rightarrow> article_view \<Rightarrow> 'a cat_db_scheme \<Rightarrow> item_stock option" where
  "existingStock r v db =
     Option.bind (getImportNullableString r ''Bodega codigo'') (\<lambda>c.
       find_row (\<lambda>s. st_item s = it_id (av_item v)
         \<and> map_option (normalizeImportKey \<circ> wh_code) (find_row (\<lambda>w. wh_id w = st_wh s) (warehouses db))
             = Some (normalizeImportKey c)) (stocks db))"

definition stock_row_changes :: "excel_row \<Rightarrow> article_view \<Rightarrow> bool \<Rightarrow> 'a cat_db_scheme \<Rightarrow> string list" where
  "stock_row_changes r v placed db =
     (let (_, q, lo, hi) = row_numbers r placed in
      case existingStock r v db of
        Some s \<Rightarrow>
          (if st_qty s \<noteq> or_zero q then [''stock.quantity''] else [])
          @ (if st_min s \<noteq> or_zero lo then [''stock.minStock''] else [])
          @ (if st_max s \<noteq> or_zero hi then [''stock.maxStock''] else [])
          @ (if st_location s \<noteq> getImportNullableString r ''Ubicacion stock'' then [''stock.location''] else [])
          @ (if bin_code_of db s \<noteq> getImportNullableString r ''Bin codigo'' then [''stock.bin''] else [])
      | None \<Rightarrow> if getImportNullableString r ''Bodega codigo'' \<noteq> None then [''stock''] else [])"

definition find_bin_by_key :: "id \<Rightarrow> string \<Rightarrow> 'a cat_db_scheme \<Rightarrow> warehouse_bin option" where
  "find_bin_by_key w code db =
     find_row (\<lambda>b. bn_wh b = w \<and> normalizeImportKey (bn_code b) = normalizeImportKey code) (bins db)"

record preview_row =
  pv_row :: nat
  pv_key :: string
  pv_action :: import_action
  pv_errors :: "row_error list"
  pv_changes :: "string list"
  pv_new_bin :: bool

definition preview_of :: "user \<Rightarrow> 'a cat_db_scheme \<Rightarrow> excel_row \<Rightarrow> preview_row" where
  "preview_of u db r =
     (let code = getImportNullableString r ''Bodega codigo''; wid = getImportNullableString r ''ID articulo'';
          warehouse = warehouseByCode (warehouseContractScopeWhere u) r db;
          inTenant = warehouseByCode (\<lambda>w. wh_tenant w = user_tenant u) r db;
          existing = find_view u r db; placed = (warehouse \<noteq> None);
          errors = (if code \<noteq> None \<and> inTenant \<noteq> None \<and> \<not> placed then [OutOfScope]
                    else if code \<noteq> None \<and> \<not> placed then [NoWarehouse] else [])
            @ (case existing of
                 None \<Rightarrow> [NoArticle]
               | Some v \<Rightarrow> (if wid \<noteq> None \<and> Some (it_id (av_item v)) \<noteq> wid then [OtherIdentity] else [])
                   @ structural_errors r v @ number_errors r placed (it_uom_decimals (av_item v)));
          changes = (case existing of None \<Rightarrow> [] | Some v \<Rightarrow> stock_row_changes r v placed db);
          name = (case existing of
              Some v \<Rightarrow> it_id (av_item v)
            | None \<Rightarrow> opt_text (or_else wid (or_else (getImportNullableString r ''Codigo inventario'')
                (or_else (getImportNullableString r ''Numero parte'') (Some (getImportString r ''Nombre''))))))
      in \<lparr>pv_row = xr_number r, pv_key = name @ '':'' @ (case code of None \<Rightarrow> ''NO_WAREHOUSE'' | Some c \<Rightarrow> c),
          pv_action = (if errors \<noteq> [] then ACTION_ERROR else if existing = None then ACTION_CREATE
            else if changes \<noteq> [] then ACTION_UPDATE else ACTION_NO_CHANGE),
          pv_errors = errors, pv_changes = changes,
          pv_new_bin = (case (warehouse, getImportNullableString r ''Bin codigo'') of
            (Some w, Some b) \<Rightarrow> find_bin_by_key (wh_id w) b db = None | _ \<Rightarrow> False)\<rparr>)"

definition validateInventoryMasterImport :: "user \<Rightarrow> 'a cat_db_scheme \<Rightarrow> excel_row list \<Rightarrow> preview_row list" where
  "validateInventoryMasterImport u db rows =
     (let previews = map (preview_of u db) rows;
          repeated = (\<lambda>k. 1 < length (filter (\<lambda>p. pv_key p = k) previews))
      in map (\<lambda>p. if repeated (pv_key p) then p\<lparr>pv_errors := pv_errors p @ [DuplicateRow], pv_action := ACTION_ERROR\<rparr> else p)
           previews)"

section \<open>The commit\<close>

definition normalizeWarehouseBinCode :: "string \<Rightarrow> string" where
  "normalizeWarehouseBinCode code = take 50 (normalizeImportKey code)"

record stock_counts =
  sc_updated :: nat
  sc_unchanged :: nat
  sc_adjusted :: nat

text \<open>The bin of a row, created where there is none with its key.\<close>

definition import_bin ::
    "(string \<Rightarrow> id) \<Rightarrow> bool \<Rightarrow> id \<Rightarrow> string option \<Rightarrow> 'a cat_db_scheme \<Rightarrow> id option \<times> 'a cat_db_scheme" where
  "import_bin newId autoCreate w code db =
     (case code of
        None \<Rightarrow> (None, db)
      | Some c \<Rightarrow>
          (case find_bin_by_key w c db of
             Some b \<Rightarrow> (Some (bn_id b), db)
           | None \<Rightarrow>
               let n = normalizeWarehouseBinCode c in
               if \<not> autoCreate \<or> n = [] then (None, db)
               else let bs = upsert_row (\<lambda>b. bn_wh b = w \<and> bn_code b = n) (\<lambda>b. b\<lparr>bn_label := Some (take 100 c)\<rparr>)
                      \<lparr>bn_id = newId n, bn_wh = w, bn_code = n, bn_label = Some (take 100 c)\<rparr> (bins db)
                    in (map_option bn_id (find_row (\<lambda>b. bn_wh b = w \<and> bn_code b = n) bs), db\<lparr>bins := bs\<rparr>)))"

definition set_stock_bin :: "id \<Rightarrow> id \<Rightarrow> id option \<Rightarrow> 'a cat_db_scheme \<Rightarrow> 'a cat_db_scheme" where
  "set_stock_bin w i b db =
     db\<lparr>stock_bins := filter (\<lambda>p. fst p \<noteq> (w, i)) (stock_bins db) @ (case b of None \<Rightarrow> [] | Some x \<Rightarrow> [((w, i), x)])\<rparr>"

definition sheet_row :: "id \<Rightarrow> id \<Rightarrow> excel_row \<Rightarrow> import_row" where
  "sheet_row w i r =
     \<lparr>im_wh = w, im_item = i, im_qty = parseImportNumber (number_cell r ''Stock''),
      im_min = parseImportNumber (number_cell r ''Stock minimo''),
      im_max = parseImportNumber (number_cell r ''Stock maximo''),
      im_location = getImportNullableString r ''Ubicacion stock''\<rparr>"

definition commit_row ::
    "(string \<Rightarrow> id) \<Rightarrow> bool \<Rightarrow> user \<Rightarrow> 'a cat_db_scheme \<Rightarrow> excel_row \<times> preview_row
       \<Rightarrow> stock_counts \<times> 'a cat_db_scheme \<Rightarrow> (stock_counts \<times> 'a cat_db_scheme) res" where
  "commit_row newId autoCreate u db0 rp cd =
     (let (r, p) = rp; (n, db) = cd; skipped = Inr (n\<lparr>sc_unchanged := sc_unchanged n + 1\<rparr>, db) in
      if pv_action p = ACTION_ERROR then Inr (n, db)
      else if pv_action p = ACTION_NO_CHANGE then skipped
      else case (find_view u r db0, warehouseByCode (warehouseContractScopeWhere u) r db0) of
        (Some v, Some w) \<Rightarrow>
          if \<not> userCanAccessContractId u (Some (wh_contract w))
          then Inl (Forbidden ''No tiene permisos para ajustar stock en esta bodega.'')
          else
            let i = it_id (av_item v);
                (b, db1) = import_bin newId autoCreate (wh_id w) (getImportNullableString r ''Bin codigo'') db;
                row = sheet_row (wh_id w) i r;
                moved = \<bar>stock_qty (wh_id w) i db1 - or_zero (im_qty row)\<bar> > 1 / 1000000000
            in Inr (n\<lparr>sc_updated := sc_updated n + 1, sc_adjusted := sc_adjusted n + (if moved then 1 else 0)\<rparr>,
                 set_stock_bin (wh_id w) i b (import_stock_row (acting_user_id u) row db1))
      | _ \<Rightarrow> skipped)"

definition commitInventoryMasterImport ::
    "(string \<Rightarrow> id) \<Rightarrow> bool \<Rightarrow> bool \<Rightarrow> excel_row list \<Rightarrow> user \<Rightarrow> 'a cat_db_scheme
       \<Rightarrow> (stock_counts \<times> 'a cat_db_scheme) res" where
  "commitInventoryMasterImport newId allowStock autoCreate rows u db =
     (if acting_user_id u = [] then Inl (BadRequest ''Usuario no identificado para auditoria de stock.'')
      else let previews = validateInventoryMasterImport u db rows in
        if list_ex (\<lambda>p. pv_errors p \<noteq> []) previews
        then Inl (BadRequest ''La importacion tiene errores bloqueantes.'')
        else if \<not> autoCreate \<and> list_ex pv_new_bin previews
        then Inl (BadRequest ''La importacion requiere crear bins o proveedores faltantes.'')
        else if \<not> allowStock \<and> list_ex (\<lambda>p. pv_action p = ACTION_UPDATE) previews
        then Inl (BadRequest ''La importacion contiene ajustes de stock, pero allowStockAdjustments=false.'')
        else foldl (\<lambda>m rp. and_then m (commit_row newId autoCreate u db rp))
          (Inr (\<lparr>sc_updated = 0, sc_unchanged = 0, sc_adjusted = 0\<rparr>, db)) (zip rows previews))"

end
