(* ===== verification/Article_Codes.thy ===== *)
theory Article_Codes
  imports Articles
begin

section \<open>Codes that the system assigns\<close>

lemma char_of_digit: "k < 10 \<Longrightarrow> (of_char (char_of (48 + k)) :: nat) = 48 + k"
proof -
  assume "k < (10 :: nat)"
  then have "(48 + k) mod 256 = 48 + k" by simp
  then show ?thesis by (simp only: of_char_of)
qed

lemma digits_all: "list_all is_digit (nat_digits n)"
proof (induction n rule: nat_digits.induct)
  case (1 n)
  have d: "is_digit (char_of (48 + k))" if "k < (10 :: nat)" for k
    using char_of_digit[OF that] that by (simp add: is_digit_def)
  show ?case
    using 1 d[of n] d[of "n mod 10"] by (subst nat_digits.simps) simp
qed

lemma digits_length: "0 < k \<Longrightarrow> n < 10 ^ k \<Longrightarrow> length (nat_digits n) \<le> k"
proof (induction k arbitrary: n)
  case (Suc k)
  show ?case
  proof (cases "n < 10")
    case False
    then have "0 < k" using Suc.prems(2) by (cases k) auto
    moreover have "n div 10 < 10 ^ k" using Suc.prems(2) by (simp add: less_mult_imp_div_less mult.commute)
    ultimately have "length (nat_digits (n div 10)) \<le> k" using Suc.IH by blast
    then show ?thesis using False by (subst nat_digits.simps) simp
  qed (subst nat_digits.simps, simp)
qed simp

lemma digits_nonempty: "nat_digits n \<noteq> []"
  by (subst nat_digits.simps) simp

text \<open>A code is read back as its number.\<close>

definition sku_text :: "nat \<Rightarrow> string" where
  "sku_text n = ''IN'' @ pad_start 4 (CHR ''0'') (nat_digits n)"

lemma digit_no_space: "is_digit c \<Longrightarrow> \<not> is_space c"
  by (auto simp: is_digit_def is_space_def)

lemma padded_digits:
  "list_all is_digit (pad_start 4 (CHR ''0'') (nat_digits n))" "pad_start 4 (CHR ''0'') (nat_digits n) \<noteq> []"
  "n < 10 ^ 8 \<Longrightarrow> length (pad_start 4 (CHR ''0'') (nat_digits n)) \<le> 8"
  using digits_all[of n] digits_nonempty[of n] digits_length[of 8 n]
  by (auto simp: pad_start_def list_all_iff is_digit_def)

lemma trim_sku: "trim (sku_text n) = sku_text n"
proof -
  let ?d = "pad_start 4 (CHR ''0'') (nat_digits n)"
  have d: "\<not> is_space c" if "c \<in> set ?d" for c
    using padded_digits(1)[of n] that digit_no_space by (auto simp: list_all_iff)
  have I: "\<not> is_space (CHR ''I'')" by (simp add: is_space_def)
  obtain c cs where rev: "rev ?d = c # cs" using padded_digits(2)[of n] by (cases "rev ?d") auto
  then have "c \<in> set ?d" by (metis list.set_intros(1) set_rev)
  then show ?thesis using d I rev by (simp add: sku_text_def trim_def)
qed

lemma sku_number_text: "n < 10 ^ 8 \<Longrightarrow> n \<le> sku_number (Some (sku_text n))"
  using trim_sku[of n] padded_digits[of n]
  by (simp add: sku_number_def trim_opt_def numbered_def sku_text_def number_or_zero_def Let_def to_upper_def
      upper_char_def digits_value_pad_start digits_value_nat_digits Suc_le_eq)

lemma floor_fold: "m \<le> fold (\<lambda>c m. max m (sku_number c)) codes m
    \<and> (c \<in> set codes \<longrightarrow> sku_number c \<le> fold (\<lambda>c m. max m (sku_number c)) codes m)"
proof (induction codes arbitrary: m)
  case (Cons d codes)
  show ?case using Cons[of "max m (sku_number d)"] by (auto intro: order_trans)
qed simp

lemma floor_above:
  "it \<in> set (items db) \<Longrightarrow> it_tenant it = t \<Longrightarrow> it_inventory_code it = Some c \<Longrightarrow> sku_number (Some c) \<le> sku_floor t db"
  using floor_fold[where m = 0 and c = "Some c" and codes = "map it_inventory_code (filter (\<lambda>it. it_tenant it = t \<and> it_inventory_code it \<noteq> None) (items db))"]
  by (force simp: sku_floor_def computeInventorySkuNumericFloor_def)

lemma ensured_number:
  "last_number t INV_SKU_DOC_TYPE (ensureInventorySkuCounterFloor t db) = max (sku_floor t db) (last_number t INV_SKU_DOC_TYPE db)"
  by (auto simp: ensureInventorySkuCounterFloor_def last_number_def counter_of_def Let_def find_row_upsert_same
      max_def split: option.splits)

lemma next_sku_code: "fst (next_sku t db) = peekNextInventorySku t db"
  by (simp add: next_sku_def fst_getNextCorrelative ensured_number peekNextInventorySku_def correlative_text_def
      Let_def INV_SKU_PREFIX_def)

lemma next_sku_frame [simp]:
  "items (snd (next_sku t db)) = items db"
  by (simp add: next_sku_def ensureInventorySkuCounterFloor_def getNextCorrelative_def Let_def)

lemma peek_is_new:
  assumes "sku_floor t db < 99999999" and "last_number t INV_SKU_DOC_TYPE db < 99999999"
    and "it \<in> set (items db)" and "it_tenant it = t"
  shows "it_inventory_code it \<noteq> Some (peekNextInventorySku t db)"
proof
  let ?n = "Suc (max (sku_floor t db) (last_number t INV_SKU_DOC_TYPE db))"
  assume "it_inventory_code it = Some (peekNextInventorySku t db)"
  moreover have "peekNextInventorySku t db = sku_text ?n"
    by (simp add: peekNextInventorySku_def sku_text_def INV_SKU_PREFIX_def)
  ultimately have "sku_number (Some (sku_text ?n)) \<le> sku_floor t db" using floor_above assms(3,4) by metis
  moreover have "?n \<le> sku_number (Some (sku_text ?n))" by (rule sku_number_text) (use assms(1,2) in simp)
  ultimately show False by simp
qed

section \<open>Creation\<close>

text \<open>The tables of the master data.\<close>

definition same_masters :: "'a cat_db_scheme \<Rightarrow> 'a cat_db_scheme \<Rightarrow> bool" where
  "same_masters db db' \<longleftrightarrow> categories db' = categories db \<and> uoms db' = uoms db \<and> suppliers db' = suppliers db
     \<and> bins db' = bins db \<and> articles db' = articles db \<and> stock_bins db' = stock_bins db \<and> vendors db' = vendors db
     \<and> warehouses db' = warehouses db \<and> items db' = items db"

lemma next_sku_same: "same_masters db (snd (next_sku t db))"
  by (simp add: same_masters_def next_sku_def ensureInventorySkuCounterFloor_def getNextCorrelative_def Let_def)

lemma audit_same: "same_masters db (audit_log e db)"
  by (simp add: same_masters_def audit_log_def)

lemma same_masters_trans: "same_masters a b \<Longrightarrow> same_masters b c \<Longrightarrow> same_masters a c"
  by (simp add: same_masters_def)

text \<open>Both ways to create an article end in one insertion.\<close>

definition created :: "id \<Rightarrow> user \<Rightarrow> 'a cat_db_scheme \<Rightarrow> 'a cat_db_scheme \<Rightarrow> bool" where
  "created newId u db db' \<longleftrightarrow> (\<exists>m policy a pn tracked d.
     assertLeafCategory (art_category a) (user_tenant u) db = Inr ()
     \<and> find_uom (art_unit a) (user_tenant u) db = Some m
     \<and> part_number_free pn (user_tenant u) (\<lambda>_. True) db = Inr () \<and> art_item a = newId
     \<and> insert_article (new_item newId (user_tenant u) pn (peekNextInventorySku (user_tenant u) db) m policy tracked) a
         (snd (next_sku (user_tenant u) db)) = Inr d
     \<and> same_masters d db')"

lemma assert_uom_iff: "assertUnitOfMeasure i t db = Inr m \<longleftrightarrow> find_uom i t db = Some m"
  by (auto simp: assertUnitOfMeasure_def split: option.splits)

lemma createdI:
  assumes "assertLeafCategory (art_category a) (user_tenant u) db = Inr ()" "find_uom (art_unit a) (user_tenant u) db = Some m"
    "part_number_free pn (user_tenant u) (\<lambda>_. True) db = Inr ()" "art_item a = newId"
    "next_sku (user_tenant u) db = (code, db1)"
    "insert_article (new_item newId (user_tenant u) pn code m policy tracked) a db1 = Inr d" "same_masters d db'"
  shows "created newId u db db'"
  unfolding created_def using assms next_sku_code[of "user_tenant u" db] by fastforce

lemma item_create_created:
  assumes "item_create newId dto u db = Inr db'"
  shows "created newId u db db'"
proof -
  obtain code db1 where sku: "next_sku (user_tenant u) db = (code, db1)" by fastforce
  show ?thesis
    using assms
    by (auto simp: item_create_def Let_def sku and_then_eq_Inr assert_uom_iff intro!: createdI[OF _ _ _ _ sku]
        intro: audit_same split: if_splits)
qed

lemma quickCreate_created:
  assumes "quickCreate newId dto u db = Inr db'"
  shows "created newId u db db'"
proof -
  obtain code db1 where sku: "next_sku (user_tenant u) db = (code, db1)" by fastforce
  have refl: "same_masters db' db'" by (simp add: same_masters_def)
  show ?thesis
    using assms
    by (auto simp: quickCreate_def Let_def sku and_then_eq_Inr assert_uom_iff intro!: createdI[OF _ _ _ _ sku _ refl]
        split: if_splits)
qed

end
