(* ===== verification/Catalogue_Invariant.thy ===== *)
theory Catalogue_Invariant
  imports Article_Codes
begin

section \<open>Rows with keys\<close>

text \<open>A unique column whose empty values do not count.\<close>

definition unique_by :: "('r \<Rightarrow> 'k option) \<Rightarrow> 'r list \<Rightarrow> bool" where
  "unique_by k rows \<longleftrightarrow> distinct (filter (\<lambda>x. x \<noteq> None) (map k rows))"

lemma unique_by_Nil [simp]: "unique_by k []"
  by (simp add: unique_by_def)

lemma unique_by_append:
  "unique_by k (xs @ [x]) \<longleftrightarrow> unique_by k xs \<and> (k x = None \<or> k x \<notin> k ` set xs)"
  by (auto simp: unique_by_def)

lemma unique_by_Cons:
  "unique_by k (x # xs) \<longleftrightarrow> unique_by k xs \<and> (k x = None \<or> k x \<notin> k ` set xs)"
  by (auto simp: unique_by_def)

lemma unique_by_filter: "unique_by k xs \<Longrightarrow> unique_by k (filter p xs)"
  by (induction xs) (auto simp: unique_by_Cons)

lemma unique_by_map: "(\<And>x. x \<in> set xs \<Longrightarrow> k (f x) = k x) \<Longrightarrow> unique_by k (map f xs) = unique_by k xs"
  by (induction xs) (auto simp: unique_by_Cons image_iff)

lemma unique_by_update_same:
  "(\<And>x. k (f x) = k x) \<Longrightarrow> unique_by k (update_rows p f xs) = unique_by k xs"
  by (simp add: update_rows_def unique_by_map)

text \<open>One row, found by its key, gets a value that no other row has.\<close>

lemma unique_by_update_row:
  assumes "unique_by k xs" and "distinct (map d xs)"
    and "\<And>x y. x \<in> set xs \<Longrightarrow> y \<in> set xs \<Longrightarrow> d x = i \<Longrightarrow> d y \<noteq> i \<Longrightarrow> k (f x) = None \<or> k (f x) \<noteq> k y"
  shows "unique_by k (update_rows (\<lambda>x. d x = i) f xs)"
  using assms
proof (induction xs)
  case (Cons x xs)
  have IH: "unique_by k (update_rows (\<lambda>x. d x = i) f xs)"
    using Cons.prems by (intro Cons.IH) (auto simp: unique_by_Cons)
  show ?case
  proof (cases "d x = i")
    case True
    then have other: "d y \<noteq> i" if "y \<in> set xs" for y using Cons.prems(2) that True by (metis distinct.simps(2) image_eqI list.set_map list.simps(9))
    then have "update_rows (\<lambda>x. d x = i) f xs = xs" by (simp add: update_rows_def map_idI)
    moreover have "k (f x) = None \<or> k (f x) \<noteq> k y" if "y \<in> set xs" for y
      using True that other by (intro Cons.prems(3)) auto
    then have "k (f x) = None \<or> k (f x) \<notin> k ` set xs" by (metis imageE)
    ultimately show ?thesis using True IH by (auto simp: unique_by_Cons)
  next
    case False
    have "k x = None \<or> k x \<notin> k ` set (update_rows (\<lambda>x. d x = i) f xs)"
      using Cons.prems(1) Cons.prems(3)[of _ x] False by (fastforce simp: unique_by_Cons set_update_rows)
    then show ?thesis using False IH by (simp add: unique_by_Cons)
  qed
qed simp

lemma row_unique: "distinct (map k xs) \<Longrightarrow> x \<in> set xs \<Longrightarrow> y \<in> set xs \<Longrightarrow> k x = k y \<Longrightarrow> x = y"
  by (simp add: distinct_map inj_on_def)

lemma list_all2_filter_key:
  "list_all2 R xs ys \<Longrightarrow> (\<And>x y. R x y \<Longrightarrow> p x \<longleftrightarrow> q y) \<Longrightarrow> list_all2 R (filter p xs) (filter q ys)"
  by (induction rule: list_all2_induct) auto

lemma list_ex_update_rows: "list_ex q (update_rows p f xs) = list_ex (\<lambda>x. if p x then q (f x) else q x) xs"
  by (induction xs) auto

lemma list_all_update_rows: "list_all q (update_rows p f xs) = list_all (\<lambda>x. if p x then q (f x) else q x) xs"
  by (induction xs) auto

section \<open>The invariant\<close>

text \<open>Families and their subcategories, nothing deeper.\<close>

definition two_levels :: "category list \<Rightarrow> bool" where
  "two_levels cs \<longleftrightarrow> distinct (map ca_id cs)
     \<and> list_all (\<lambda>c. case ca_parent c of None \<Rightarrow> True
         | Some p \<Rightarrow> p \<noteq> [] \<and> list_ex (\<lambda>f. ca_id f = p \<and> ca_tenant f = ca_tenant c \<and> ca_parent f = None) cs) cs"

text \<open>An article is a row of both tables, in a subcategory and with a unit of its company, and what the
  movements read of the unit is what the unit says.\<close>

definition described :: "category list \<Rightarrow> unit_of_measure list \<Rightarrow> inventory_supplier list \<Rightarrow> item \<Rightarrow> article \<Rightarrow> bool" where
  "described cs ms ss it a \<longleftrightarrow> it_id it = art_item a
     \<and> list_ex (\<lambda>c. ca_id c = art_category a \<and> ca_tenant c = it_tenant it \<and> ca_parent c \<noteq> None) cs
     \<and> list_ex (\<lambda>m. um_id m = art_unit a \<and> um_tenant m = it_tenant it \<and> um_abbr m = it_uom_abbr it
          \<and> um_decimals m = it_uom_decimals it) ms
     \<and> (art_supplier a = None \<or> list_ex (\<lambda>s. Some (su_id s) = art_supplier a) ss)"

definition code_key :: "item \<Rightarrow> (id \<times> string) option" where
  "code_key it = map_option (Pair (it_tenant it)) (it_inventory_code it)"

definition part_key :: "item \<Rightarrow> (id \<times> string) option" where
  "part_key it = map_option (Pair (it_tenant it)) (it_part_number it)"

lemma part_key_Some: "part_key x = Some (t, s) \<longleftrightarrow> it_tenant x = t \<and> it_part_number x = Some s"
  by (auto simp: part_key_def)

lemma part_key_image: "Some (t, s) \<in> part_key ` set xs \<longleftrightarrow> (\<exists>x \<in> set xs. it_tenant x = t \<and> it_part_number x = Some s)"
  unfolding part_key_Some[symmetric] by force

lemma code_key_Some: "code_key x = Some (t, s) \<longleftrightarrow> it_tenant x = t \<and> it_inventory_code x = Some s"
  by (auto simp: code_key_def)

lemma code_key_image: "Some (t, s) \<in> code_key ` set xs \<longleftrightarrow> (\<exists>x \<in> set xs. it_tenant x = t \<and> it_inventory_code x = Some s)"
  unfolding code_key_Some[symmetric] by force

definition articles_ok :: "'a cat_db_scheme \<Rightarrow> bool" where
  "articles_ok db \<longleftrightarrow> list_all2 (described (categories db) (uoms db) (suppliers db)) (items db) (articles db)
     \<and> distinct (map it_id (items db)) \<and> unique_by code_key (items db) \<and> unique_by part_key (items db)"

definition uom_key :: "unit_of_measure \<Rightarrow> (id \<times> string) option" where
  "uom_key m = Some (um_tenant m, um_abbr m)"

definition units_ok :: "'a cat_db_scheme \<Rightarrow> bool" where
  "units_ok db \<longleftrightarrow> distinct (map um_id (uoms db)) \<and> unique_by uom_key (uoms db)"

text \<open>The places: bins of warehouses that exist, no code twice, and the stock kept in bins that exist.\<close>

definition wh_key :: "warehouse \<Rightarrow> (id \<times> string) option" where
  "wh_key w = Some (wh_tenant w, wh_code w)"

definition bin_key :: "warehouse_bin \<Rightarrow> (id \<times> string) option" where
  "bin_key b = Some (bn_wh b, bn_code b)"

definition places_ok :: "'a cat_db_scheme \<Rightarrow> bool" where
  "places_ok db \<longleftrightarrow> distinct (map wh_id (warehouses db)) \<and> unique_by wh_key (warehouses db)
     \<and> list_all (\<lambda>b. bn_wh b \<in> set (map wh_id (warehouses db))) (bins db)
     \<and> distinct (map bn_id (bins db)) \<and> unique_by bin_key (bins db)
     \<and> list_all (\<lambda>p. list_ex (\<lambda>b. bn_id b = snd p \<and> bn_wh b = fst (fst p)) (bins db)) (stock_bins db)"

definition catalogue_ok :: "'a cat_db_scheme \<Rightarrow> bool" where
  "catalogue_ok db \<longleftrightarrow> two_levels (categories db) \<and> articles_ok db \<and> units_ok db \<and> places_ok db"

inductive catalogue_step :: "'a cat_db_scheme \<Rightarrow> 'a cat_db_scheme \<Rightarrow> bool" where
  "category_create i cdto u db = Inr db' \<Longrightarrow> catalogue_step db db'"
| "category_update i cdto u db = Inr db' \<Longrightarrow> catalogue_step db db'"
| "category_remove i u db = Inr db' \<Longrightarrow> catalogue_step db db'"
| "i \<notin> ca_id ` set (categories db) \<Longrightarrow> catalogue_step db (ensureSystemsFamilyForTenant i t db)"
| "uom_create i nm abbr u db = Inr db' \<Longrightarrow> catalogue_step db db'"
| "inj newId \<Longrightarrow> range newId \<inter> um_id ` set (uoms db) = {} \<Longrightarrow>
     catalogue_step db (ensureDefaultUnitsOfMeasureForTenant newId t db)"
| "uom_update i nm abbr u db = Inr db' \<Longrightarrow> catalogue_step db db'"
| "uom_remove i u db = Inr db' \<Longrightarrow> catalogue_step db db'"
| "supplier_remove i t db = Inr db' \<Longrightarrow> catalogue_step db db'"
| "catalogue_step db (supplier_create i t nm db)"
| "item_create i idto u db = Inr db' \<Longrightarrow> catalogue_step db db'"
| "quickCreate i idto u db = Inr db' \<Longrightarrow> catalogue_step db db'"
| "item_update code ip u db = Inr db' \<Longrightarrow> catalogue_step db db'"
| "item_remove code u db = Inr db' \<Longrightarrow> catalogue_step db db'"
| "warehouse_create i wdto u db = Inr db' \<Longrightarrow> catalogue_step db db'"
| "warehouse_update i wdto u db = Inr db' \<Longrightarrow> catalogue_step db db'"
| "warehouse_remove i u db = Inr db' \<Longrightarrow> catalogue_step db db'"
| "bin_create i w bcode label u db = Inr db' \<Longrightarrow> catalogue_step db db'"
| "bin_update w b bcode label u db = Inr db' \<Longrightarrow> catalogue_step db db'"
| "bin_remove w b u db = Inr db' \<Longrightarrow> catalogue_step db db'"

section \<open>Categories\<close>

lemma two_levels_append:
  assumes "two_levels cs" and "ca_id c \<notin> ca_id ` set cs"
    and "case ca_parent c of None \<Rightarrow> True
      | Some p \<Rightarrow> p \<noteq> [] \<and> list_ex (\<lambda>f. ca_id f = p \<and> ca_tenant f = ca_tenant c \<and> ca_parent f = None) cs"
  shows "two_levels (cs @ [c])"
  using assms by (fastforce simp: two_levels_def list_all_iff list_ex_iff split: option.splits)

lemma two_levels_parent:
  assumes "two_levels cs" and "c \<in> set cs"
  shows "or_null (ca_parent c) = ca_parent c"
  using assms by (force simp: two_levels_def list_all_iff or_null_def split: option.splits)

lemma two_levels_map:
  assumes "\<And>c. ca_id (g c) = ca_id c \<and> ca_tenant (g c) = ca_tenant c \<and> ca_parent (g c) = ca_parent c"
  shows "two_levels (map g cs) = two_levels cs"
  by (simp add: two_levels_def list_all_iff list_ex_iff assms comp_def split: option.split)

lemma two_levels_rename:
  assumes "two_levels cs" and "\<And>c. ca_id (f c) = ca_id c \<and> ca_tenant (f c) = ca_tenant c \<and> ca_parent (f c) = ca_parent c"
  shows "two_levels (update_rows p f cs)"
  using assms by (simp add: update_rows_def two_levels_map)

lemma two_levels_filter:
  assumes "two_levels cs" and "\<not> list_ex (\<lambda>c. ca_parent c = Some i) cs"
  shows "two_levels (filter (\<lambda>c. ca_id c \<noteq> i) cs)"
  using assms by (fastforce simp: two_levels_def list_all_iff list_ex_iff distinct_map_filter split: option.splits)

lemma or_null_SomeD: "or_null x = Some s \<Longrightarrow> x = Some s \<and> s \<noteq> []"
  by (auto simp: or_null_def split: option.splits if_splits)

lemma find_category_SomeD:
  "find_category i t db = Some c \<Longrightarrow> c \<in> set (categories db) \<and> ca_id c = i \<and> ca_tenant c = t"
  using find_row_SomeD by (fastforce simp: find_category_def)

lemma add_category_levels:
  assumes "add_category c db = Inr db'" and "two_levels (categories db)"
    and "case ca_parent c of None \<Rightarrow> True
      | Some p \<Rightarrow> p \<noteq> [] \<and> list_ex (\<lambda>f. ca_id f = p \<and> ca_tenant f = ca_tenant c \<and> ca_parent f = None) (categories db)"
  shows "two_levels (categories db')"
proof -
  have "ca_id c \<notin> ca_id ` set (categories db)" "db' = db\<lparr>categories := categories db @ [c]\<rparr>"
    using assms(1) by (force simp: add_category_def list_ex_iff split: if_splits)+
  then show ?thesis using two_levels_append[OF assms(2) _ assms(3)] by simp
qed

lemma category_create_levels:
  assumes "category_create i dto u db = Inr db'" and "two_levels (categories db)"
  shows "two_levels (categories db')"
proof -
  have root: "list_ex (\<lambda>g. ca_id g = ca_id f \<and> ca_tenant g = t \<and> ca_parent g = None) (categories db) \<and> ca_id f \<noteq> []"
    if "find_category p t db = Some f" "or_null (ca_parent f) = None" "or_null (cd_parent dto) = Some p" for p t f
    unfolding list_ex_iff
    using that two_levels_parent[OF assms(2)] find_category_SomeD[OF that(1)] or_null_SomeD[OF that(3)] by metis
  show ?thesis
    using assms
    by (auto simp: category_create_def Let_def dest: root split: if_splits option.splits
        elim!: add_category_levels)
qed

lemma category_update_levels:
  assumes "category_update i dto u db = Inr db'" and "two_levels (categories db)"
  shows "two_levels (categories db')"
  using assms by (auto simp: category_update_def Let_def split: if_splits option.splits intro!: two_levels_rename)

lemma category_remove_levels:
  assumes "category_remove i u db = Inr db'" and "two_levels (categories db)"
  shows "two_levels (categories db')"
  using assms by (auto simp: category_remove_def split: if_splits option.splits intro!: two_levels_filter)

section \<open>Articles\<close>

text \<open>What the tables of the articles need of the others: rows may come, and those that go are not used.\<close>

lemma described_mono:
  assumes "described cs ms ss it a"
    and "\<And>c. c \<in> set cs \<Longrightarrow> ca_id c = art_category a \<Longrightarrow>
      \<exists>d \<in> set cs'. ca_id d = ca_id c \<and> ca_tenant d = ca_tenant c \<and> ca_parent d = ca_parent c"
    and "\<And>m. m \<in> set ms \<Longrightarrow> um_id m = art_unit a \<Longrightarrow> m \<in> set ms'"
    and "\<And>s. s \<in> set ss \<Longrightarrow> Some (su_id s) = art_supplier a \<Longrightarrow> s \<in> set ss'"
  shows "described cs' ms' ss' it a"
  using assms unfolding described_def list_ex_iff by metis

lemma articles_ok_frame:
  assumes "articles_ok db" and "items db' = items db" "articles db' = articles db"
    and "\<And>it a. it \<in> set (items db) \<Longrightarrow> a \<in> set (articles db) \<Longrightarrow>
      described (categories db) (uoms db) (suppliers db) it a \<Longrightarrow> described (categories db') (uoms db') (suppliers db') it a"
  shows "articles_ok db'"
  using assms by (auto simp: articles_ok_def intro: list.rel_mono_strong)

lemma articles_categories:
  assumes "articles_ok db" and "items db' = items db" "articles db' = articles db" "uoms db' = uoms db" "suppliers db' = suppliers db"
    and "\<And>c a. c \<in> set (categories db) \<Longrightarrow> a \<in> set (articles db) \<Longrightarrow> ca_id c = art_category a \<Longrightarrow>
      \<exists>d \<in> set (categories db'). ca_id d = ca_id c \<and> ca_tenant d = ca_tenant c \<and> ca_parent d = ca_parent c"
  shows "articles_ok db'"
  by (rule articles_ok_frame[OF assms(1-3)]) (erule described_mono, use assms in auto)

lemma articles_same: "articles_ok db \<Longrightarrow> items db' = items db \<Longrightarrow> articles db' = articles db \<Longrightarrow> uoms db' = uoms db
    \<Longrightarrow> suppliers db' = suppliers db \<Longrightarrow> categories db' = categories db \<Longrightarrow> articles_ok db'"
  by (simp add: articles_ok_def)

lemma category_create_articles:
  "category_create i dto u db = Inr db' \<Longrightarrow> articles_ok db \<Longrightarrow> articles_ok db'"
  by (auto simp: category_create_def add_category_def Let_def split: if_splits option.splits elim!: articles_categories)

lemma renamed_category:
  assumes "c \<in> set cs" and "\<And>c. ca_id (f c) = ca_id c \<and> ca_tenant (f c) = ca_tenant c \<and> ca_parent (f c) = ca_parent c"
    and "ca_id c = i"
  shows "\<exists>d \<in> set (update_rows p f cs). ca_id d = i \<and> ca_tenant d = ca_tenant c \<and> ca_parent d = ca_parent c"
  using assms by (intro bexI[of _ "if p c then f c else c"]) (auto simp: update_rows_def)

lemma category_update_articles:
  "category_update i dto u db = Inr db' \<Longrightarrow> articles_ok db \<Longrightarrow> articles_ok db'"
  by (auto simp: category_update_def Let_def split: if_splits option.splits elim!: articles_categories
      intro!: renamed_category)

lemma category_remove_articles:
  "category_remove i u db = Inr db' \<Longrightarrow> articles_ok db \<Longrightarrow> articles_ok db'"
  by (auto simp: category_remove_def list_ex_iff split: if_splits option.splits elim!: articles_categories)

lemma supplier_create_articles: "articles_ok db \<Longrightarrow> articles_ok (supplier_create i t nm db)"
  by (rule articles_ok_frame, assumption)
    (auto simp: supplier_create_def Let_def upsert_row_def update_rows_def elim!: described_mono)

lemma supplier_remove_articles:
  assumes "supplier_remove i t db = Inr db'" and "articles_ok db"
  shows "articles_ok db'"
proof -
  let ?f = "\<lambda>a. if art_supplier a = Some i then a\<lparr>art_supplier := None\<rparr> else a"
  have db': "db' = db\<lparr>suppliers := filter (\<lambda>s. su_id s \<noteq> i) (suppliers db), articles := map ?f (articles db)\<rparr>"
    using assms(1) by (simp add: supplier_remove_def update_rows_def split: if_splits)
  have d: "described cs ms (filter (\<lambda>s. su_id s \<noteq> i) ss) it (?f a)" if "described cs ms ss it a" for cs ms ss it a
    using that by (auto simp: described_def list_ex_iff)
  have "list_all2 (described (categories db) (uoms db) (filter (\<lambda>s. su_id s \<noteq> i) (suppliers db)))
      (items db) (map ?f (articles db))"
    unfolding list_all2_map2 by (rule list_all2_mono[OF _ d]) (use assms(2)[unfolded articles_ok_def] in blast)
  then show ?thesis using assms(2) by (simp add: articles_ok_def db')
qed

lemma uom_create_articles:
  "uom_create i nm abbr u db = Inr db' \<Longrightarrow> articles_ok db \<Longrightarrow> articles_ok db'"
  by (rule articles_ok_frame, assumption) (auto simp: uom_create_def Let_def split: if_splits elim!: described_mono)

lemma uom_remove_articles:
  "uom_remove i u db = Inr db' \<Longrightarrow> articles_ok db \<Longrightarrow> articles_ok db'"
  by (rule articles_ok_frame, assumption)
    (auto simp: uom_remove_def list_ex_iff split: if_splits option.splits elim!: described_mono)

text \<open>The row of an item and that of its article.\<close>

lemma articles_ok_keys: "articles_ok db \<Longrightarrow> map art_item (articles db) = map it_id (items db)"
  unfolding articles_ok_def
  by (auto simp: described_def list_all2_conv_all_nth intro!: nth_equalityI)

lemma find_article_row:
  assumes "articles_ok db" and "a \<in> set (articles db)"
  shows "find_article (art_item a) db = Some a"
  using assms find_row_unique[of art_item "articles db" a]
  by (simp add: find_article_def articles_ok_keys) (simp add: articles_ok_def)

lemma uom_update_articles:
  assumes "uom_update i nm abbr u db = Inr db'" and "articles_ok db"
  shows "articles_ok db'"
proof -
  obtain ab where db': "uoms db' = update_rows (\<lambda>x. um_id x = i) (\<lambda>x. x\<lparr>um_name := trim nm, um_abbr := ab\<rparr>) (uoms db)"
      "items db' = update_rows (has_unit i db) (\<lambda>it. it\<lparr>it_uom_abbr := ab\<rparr>) (items db)"
      "categories db' = categories db" "suppliers db' = suppliers db" "articles db' = articles db"
    using assms(1) by (auto simp: uom_update_def Let_def split: if_splits option.splits)
  have d: "described (categories db) (uoms db') (suppliers db) (if has_unit i db it then it\<lparr>it_uom_abbr := ab\<rparr> else it) a"
    if "a \<in> set (articles db)" "described (categories db) (uoms db) (suppliers db) it a" for it a
  proof -
    have "has_unit i db it \<longleftrightarrow> art_unit a = i"
      using that find_article_row[OF assms(2)] by (fastforce simp: has_unit_def described_def)
    then show ?thesis using that(2)
      by (cases "art_unit a = i") (simp_all add: described_def db' list_ex_update_rows, (force simp: list_ex_iff)+)
  qed
  have old: "list_all2 (described (categories db) (uoms db) (suppliers db)) (items db) (articles db)"
    using assms(2) by (simp add: articles_ok_def)
  have "list_all2 (described (categories db) (uoms db') (suppliers db)) (items db') (articles db)"
    unfolding db'(2) update_rows_def list_all2_map1 by (rule list.rel_mono_strong[OF old]) (rule d)
  moreover have "map it_id (items db') = map it_id (items db)" by (simp add: db' update_rows_def comp_def if_distrib)
  moreover have "unique_by code_key (items db')" "unique_by part_key (items db')"
    using assms(2) by (simp_all add: db' unique_by_update_same code_key_def part_key_def articles_ok_def)
  ultimately show ?thesis using assms(2) by (simp add: articles_ok_def db'(3-5))
qed

text \<open>The two ways to add an article, through what they have in common.\<close>

lemma leaf_category:
  assumes "assertLeafCategory i t db = Inr ()"
  shows "list_ex (\<lambda>c. ca_id c = i \<and> ca_tenant c = t \<and> ca_parent c \<noteq> None) (categories db)"
  using assms find_category_SomeD[of i t db]
  by (fastforce simp: assertLeafCategory_def list_ex_iff or_null_def split: option.splits if_splits)

lemma unit_row:
  "find_uom i t db = Some m \<Longrightarrow> m \<in> set (uoms db) \<and> um_id m = i \<and> um_tenant m = t"
  using find_row_SomeD by (fastforce simp: find_uom_def)

lemma part_is_free:
  assumes "part_number_free pn t q db = Inr ()" and "it \<in> set (items db)" "it_tenant it = t" "q it"
  shows "pn = None \<or> it_part_number it \<noteq> pn"
  using assms by (auto simp: part_number_free_def list_ex_iff split: if_splits)

lemma created_articles:
  assumes "created newId u db db'" and "articles_ok db"
  shows "articles_ok db'"
proof -
  obtain m policy a pn tracked d where
      leaf: "assertLeafCategory (art_category a) (user_tenant u) db = Inr ()"
    and unit: "find_uom (art_unit a) (user_tenant u) db = Some m"
    and free: "part_number_free pn (user_tenant u) (\<lambda>_. True) db = Inr ()" and a: "art_item a = newId"
    and ins: "insert_article (new_item newId (user_tenant u) pn (peekNextInventorySku (user_tenant u) db) m policy tracked) a
         (snd (next_sku (user_tenant u) db)) = Inr d" and same: "same_masters d db'"
    using assms(1) unfolding created_def by blast
  define it where "it = new_item newId (user_tenant u) pn (peekNextInventorySku (user_tenant u) db) m policy tracked"
  define db1 where "db1 = snd (next_sku (user_tenant u) db)"
  have s1: "items db1 = items db" "articles db1 = articles db" "suppliers db1 = suppliers db"
      "categories db1 = categories db" "uoms db1 = uoms db"
    using next_sku_same[of db "user_tenant u"] by (simp_all add: same_masters_def db1_def)
  have d: "d = db1\<lparr>items := items db @ [it], articles := articles db @ [a]\<rparr>"
    and new: "it_id it \<notin> it_id ` set (items db)"
      "\<And>x. x \<in> set (items db) \<Longrightarrow> it_tenant x = it_tenant it \<Longrightarrow> it_inventory_code x \<noteq> it_inventory_code it"
    and sup: "art_supplier a = None \<or> list_ex (\<lambda>s. Some (su_id s) = art_supplier a) (suppliers db)"
    using ins[folded it_def db1_def] by (auto simp: insert_article_def list_ex_iff s1 split: if_splits)
  have it: "it_tenant it = user_tenant u" "it_part_number it = pn" "it_id it = newId"
      "it_uom_abbr it = um_abbr m" "it_uom_decimals it = um_decimals m"
    by (simp_all add: it_def new_item_def)
  have both: "described (categories db) (uoms db) (suppliers db) it a"
    using leaf_category[OF leaf] unit_row[OF unit] a sup it by (auto simp: described_def list_ex_iff)
  have "part_key it = None \<or> part_key it \<notin> part_key ` set (items db)"
    using part_is_free[OF free] it
    by (cases pn) (simp add: part_key_def, auto simp: part_key_image part_key_def[of it])
  moreover
  have code: "code_key it = Some (user_tenant u, peekNextInventorySku (user_tenant u) db)"
    by (simp add: code_key_Some it_def new_item_def)
  have "code_key it \<notin> code_key ` set (items db)"
    unfolding code unfolding code_key_image using new(2) by (auto simp: it_def new_item_def)
  moreover have "list_all2 (described (categories db) (uoms db) (suppliers db)) (items db @ [it]) (articles db @ [a])"
    using assms(2) both by (intro list_all2_appendI) (simp_all add: articles_ok_def)
  ultimately have "articles_ok d"
    using assms(2) new(1) by (simp add: articles_ok_def d s1 unique_by_append)
  then show ?thesis using same by (simp add: articles_same same_masters_def)
qed

lemma article_rows:
  assumes "article_of code u db = Inr (it, a)" and "articles_ok db"
  shows "it \<in> set (items db)" "it_tenant it = user_tenant u" "a \<in> set (articles db)" "art_item a = it_id it"
    and "\<And>x. x \<in> set (items db) \<Longrightarrow> it_id x = it_id it \<Longrightarrow> x = it"
proof -
  obtain i where i: "find_item i (user_tenant u) db = Some it" "find_article i db = Some a"
    using assms(1) by (auto simp: article_of_def and_then_eq_Inr split: option.splits)
  show it: "it \<in> set (items db)" "it_tenant it = user_tenant u"
    using find_row_SomeD[OF i(1)[unfolded find_item_def]] by auto
  show "a \<in> set (articles db)" "art_item a = it_id it"
    using find_row_SomeD[OF i(1)[unfolded find_item_def]] find_row_SomeD[OF i(2)[unfolded find_article_def]] by auto
  show "x = it" if "x \<in> set (items db)" "it_id x = it_id it" for x
    using row_unique[of it_id "items db" x it] that it(1) assms(2) by (simp add: articles_ok_def)
qed

lemma item_update_articles:
  assumes "item_update code p u db = Inr db'" and "articles_ok db"
  shows "articles_ok db'"
proof -
  obtain it a where ia: "article_of code u db = Inr (it, a)"
    using assms(1) by (auto simp: item_update_def and_then_eq_Inr)
  note r = article_rows[OF ia assms(2)]
  obtain category un pn supplier m f g where
      leaf: "assertLeafCategory category (user_tenant u) db = Inr ()"
    and unit: "find_uom un (user_tenant u) db = Some m"
    and free: "part_number_free pn (user_tenant u) (\<lambda>x. it_id x \<noteq> it_id it) db = Inr ()"
    and sup: "supplier = None \<or> list_ex (\<lambda>s. Some (su_id s) = supplier) (suppliers db)"
    and db': "db' = db\<lparr>items := update_rows (\<lambda>x. it_id x = it_id it) f (items db),
       articles := update_rows (\<lambda>x. art_item x = it_id it) g (articles db)\<rparr>"
    and f: "\<And>x. it_id (f x) = it_id x \<and> it_tenant (f x) = it_tenant x \<and> it_inventory_code (f x) = it_inventory_code x
       \<and> it_part_number (f x) = pn \<and> it_uom_abbr (f x) = um_abbr m \<and> it_uom_decimals (f x) = um_decimals m"
    and g: "\<And>x. art_item (g x) = art_item x \<and> art_category (g x) = category \<and> art_unit (g x) = un \<and> art_supplier (g x) = supplier"
    using assms(1) ia by (fastforce simp: item_update_def and_then_eq_Inr Let_def assert_uom_iff split: if_splits)
  have old: "list_all2 (described (categories db) (uoms db) (suppliers db)) (items db) (articles db)"
    using assms(2) by (simp add: articles_ok_def)
  have new: "described (categories db) (uoms db) (suppliers db) (f it) (g y)" if "art_item y = it_id it" for y
    using that leaf_category[OF leaf] unit_row[OF unit] sup r(2) f g by (auto simp: described_def) (auto simp: list_ex_iff)
  have "described (categories db) (uoms db) (suppliers db)
      (if it_id x = it_id it then f x else x) (if art_item y = it_id it then g y else y)"
    if "x \<in> set (items db)" "described (categories db) (uoms db) (suppliers db) x y" for x y
    using that r(5)[OF that(1)] new[of y] by (cases "it_id x = it_id it") (auto simp: described_def[of _ _ _ x])
  then have "list_all2 (described (categories db) (uoms db) (suppliers db)) (items db') (articles db')"
    by (simp add: db' update_rows_def list_all2_map1 list_all2_map2 list.rel_mono_strong[OF old])
  moreover have "map it_id (items db') = map it_id (items db)" by (simp add: db' update_rows_def comp_def if_distrib f)
  moreover have "unique_by code_key (items db')"
    using assms(2) by (simp add: db' unique_by_update_same code_key_def f articles_ok_def)
  moreover have own: "part_key (f x) = None \<or> part_key (f x) \<noteq> part_key y"
    if "x \<in> set (items db)" "y \<in> set (items db)" "it_id x = it_id it" "it_id y \<noteq> it_id it" for x y
    using part_is_free[OF free that(2)] r(2) r(5)[OF that(1,3)] f that(4)
    by (auto simp: part_key_def map_option_case split: option.splits)
  have "unique_by part_key (items db')"
    unfolding db' using assms(2) by (simp, intro unique_by_update_row) (simp_all add: articles_ok_def own)
  ultimately show ?thesis using assms(2) by (simp add: articles_ok_def db')
qed

lemma item_remove_articles:
  assumes "item_remove code u db = Inr db'" and "articles_ok db"
  shows "articles_ok db'"
proof -
  obtain i where db': "items db' = filter (\<lambda>x. it_id x \<noteq> i) (items db)" "articles db' = filter (\<lambda>x. art_item x \<noteq> i) (articles db)"
      "categories db' = categories db" "uoms db' = uoms db" "suppliers db' = suppliers db"
    using assms(1) by (auto simp: item_remove_def drop_references_def and_then_eq_Inr Let_def split: if_splits)
  then show ?thesis using assms(2)
    by (auto simp: articles_ok_def distinct_map_filter unique_by_filter described_def intro: list_all2_filter_key)
qed

section \<open>Units\<close>

lemma units_same: "units_ok db \<Longrightarrow> uoms db' = uoms db \<Longrightarrow> units_ok db'"
  by (simp add: units_ok_def)

lemma uom_create_units: "uom_create i nm abbr u db = Inr db' \<Longrightarrow> units_ok db \<Longrightarrow> units_ok db'"
  by (force simp: uom_create_def Let_def units_ok_def unique_by_append uom_key_def list_ex_iff split: if_splits)

lemma uom_remove_units: "uom_remove i u db = Inr db' \<Longrightarrow> units_ok db \<Longrightarrow> units_ok db'"
  by (auto simp: uom_remove_def units_ok_def unique_by_filter distinct_map_filter split: if_splits option.splits)

lemma uom_update_units:
  assumes "uom_update i nm abbr u db = Inr db'" and "units_ok db"
  shows "units_ok db'"
proof -
  obtain m ab where m: "find_uom i (user_tenant u) db = Some m"
    and free: "\<And>x. x \<in> set (uoms db) \<Longrightarrow> um_tenant x = user_tenant u \<Longrightarrow> um_id x \<noteq> i \<Longrightarrow> um_abbr x \<noteq> ab"
    and db': "uoms db' = update_rows (\<lambda>x. um_id x = i) (\<lambda>x. x\<lparr>um_name := trim nm, um_abbr := ab\<rparr>) (uoms db)"
    using assms(1) by (fastforce simp: uom_update_def Let_def list_ex_iff split: if_splits option.splits)
  have "um_tenant x = user_tenant u" if "x \<in> set (uoms db)" "um_id x = i" for x
    using that unit_row[OF m] row_unique[of um_id "uoms db" x m] assms(2) by (simp add: units_ok_def)
  then have "unique_by uom_key (uoms db')"
    using assms(2) free by (auto simp: db' units_ok_def uom_key_def intro!: unique_by_update_row)
  moreover have "map um_id (uoms db') = map um_id (uoms db)" by (simp add: db' update_rows_def comp_def if_distrib)
  ultimately show ?thesis using assms(2) by (simp add: units_ok_def)
qed

text \<open>The units every company gets.\<close>

definition add_default :: "(string \<Rightarrow> id) \<Rightarrow> id \<Rightarrow> string \<times> string \<Rightarrow> 'a cat_db_scheme \<Rightarrow> 'a cat_db_scheme" where
  "add_default newId tenant d db = db\<lparr>uoms := upsert_row (\<lambda>m. um_tenant m = tenant \<and> um_abbr m = snd d) (\<lambda>m. m)
     \<lparr>um_id = newId (snd d), um_tenant = tenant, um_name = fst d, um_abbr = snd d, um_decimals = False\<rparr> (uoms db)\<rparr>"

lemma default_units_eq:
  "ensureDefaultUnitsOfMeasureForTenant newId tenant db = fold (add_default newId tenant) DEFAULT_UOMS db"
  by (simp add: ensureDefaultUnitsOfMeasureForTenant_def add_default_def[abs_def] case_prod_beta' cong: fold_cong)

lemma update_rows_id [simp]: "update_rows p (\<lambda>x. x) xs = xs"
  by (simp add: update_rows_def)

lemma add_default_cases:
  "add_default newId t d db = db \<or> add_default newId t d db = db\<lparr>uoms := uoms db @ [\<lparr>um_id = newId (snd d),
     um_tenant = t, um_name = fst d, um_abbr = snd d, um_decimals = False\<rparr>]\<rparr>
       \<and> (\<forall>m \<in> set (uoms db). um_tenant m = t \<longrightarrow> um_abbr m \<noteq> snd d)"
  by (auto simp: add_default_def upsert_row_def find_row_None_iff)

lemma add_default_units:
  assumes "units_ok db" and "newId (snd d) \<notin> um_id ` set (uoms db)"
  shows "units_ok (add_default newId t d db)"
  using add_default_cases[of newId t d db] assms
  by (elim disjE) (auto simp: units_ok_def unique_by_append uom_key_def)

lemma add_default_articles: "articles_ok db \<Longrightarrow> articles_ok (add_default newId t d db)"
  using add_default_cases[of newId t d db]
  by (elim disjE) (auto elim!: articles_ok_frame[of db] described_mono)

lemma add_default_frame [simp]:
  "categories (add_default newId t d db) = categories db" "warehouses (add_default newId t d db) = warehouses db"
  "bins (add_default newId t d db) = bins db" "stock_bins (add_default newId t d db) = stock_bins db"
  by (simp_all add: add_default_def)

lemma default_units_ok:
  assumes "inj newId" and "distinct (map snd ds)" and "\<forall>d \<in> set ds. newId (snd d) \<notin> um_id ` set (uoms db)"
    and "units_ok db" "articles_ok db"
  shows "units_ok (fold (add_default newId t) ds db) \<and> articles_ok (fold (add_default newId t) ds db)
    \<and> categories (fold (add_default newId t) ds db) = categories db
    \<and> warehouses (fold (add_default newId t) ds db) = warehouses db
    \<and> bins (fold (add_default newId t) ds db) = bins db \<and> stock_bins (fold (add_default newId t) ds db) = stock_bins db"
  using assms(2-)
proof (induction ds arbitrary: db)
  case (Cons d ds)
  have "newId (snd e) \<notin> um_id ` set (uoms (add_default newId t d db))" if "e \<in> set ds" for e
  proof -
    have "snd e \<noteq> snd d" using Cons.prems(1) that by (metis distinct.simps(2) image_eqI list.set_map list.simps(9))
    moreover have "newId (snd e) \<notin> um_id ` set (uoms db)" using Cons.prems(2) that by simp
    ultimately show ?thesis
      using add_default_cases[of newId t d db] by (elim disjE) (simp_all add: inj_eq[OF assms(1)])
  qed
  then have fresh: "\<forall>e \<in> set ds. newId (snd e) \<notin> um_id ` set (uoms (add_default newId t d db))" by blast
  have "units_ok (add_default newId t d db)" "articles_ok (add_default newId t d db)" "distinct (map snd ds)"
    using Cons.prems by (simp_all add: add_default_units add_default_articles)
  from Cons.IH[OF this(3) fresh this(1,2)] show ?case by simp
qed simp

section \<open>Places\<close>

lemma places_same: "places_ok db \<Longrightarrow> warehouses db' = warehouses db \<Longrightarrow> bins db' = bins db
    \<Longrightarrow> stock_bins db' = stock_bins db \<Longrightarrow> places_ok db'"
  by (simp add: places_ok_def)

lemma warehouse_create_places:
  assumes "warehouse_create i dto u db = Inr db'" and "places_ok db"
  shows "places_ok db'"
proof -
  obtain w where "db\<lparr>warehouses := warehouses db @ [w]\<rparr> = db'"
      "i \<notin> wh_id ` set (warehouses db)" "wh_key w \<notin> wh_key ` set (warehouses db)" "wh_id w = i"
    using assms(1) by (simp add: warehouse_create_def split: if_splits) (erule that, auto simp: list_ex_iff wh_key_def)
  then show ?thesis using assms(2) by (fastforce simp: places_ok_def unique_by_append list_all_iff)
qed

lemma warehouse_row:
  assumes "warehouse_of i u db = Inr w"
  shows "w \<in> set (warehouses db) \<and> wh_id w = i \<and> wh_tenant w = user_tenant u \<and> userCanAccessContractId u (Some (wh_contract w))"
proof -
  have "tenant_warehouse i (user_tenant u) db = Some w" "userCanAccessContractId u (Some (wh_contract w))"
    using assms by (auto simp: warehouse_of_def split: option.splits if_splits)
  then show ?thesis using find_row_SomeD by (fastforce simp: tenant_warehouse_def)
qed

lemma warehouse_update_places:
  assumes "warehouse_update i dto u db = Inr db'" and "places_ok db"
  shows "places_ok db'"
proof -
  define f :: "warehouse \<Rightarrow> warehouse" where "f = (\<lambda>x. x\<lparr>wh_code := wd_code dto, wh_contract := wd_contract dto,
    wh_active := patched (wd_active dto) (wh_active x)\<rparr>)"
  have f: "wh_id (f x) = wh_id x \<and> wh_tenant (f x) = wh_tenant x \<and> wh_code (f x) = wd_code dto" for x
    by (simp add: f_def)
  obtain w where w: "warehouse_of i u db = Inr w"
    and free: "\<And>x. x \<in> set (warehouses db) \<Longrightarrow> wh_tenant x = user_tenant u \<Longrightarrow> wh_id x \<noteq> i \<Longrightarrow> wh_code x \<noteq> wd_code dto"
    and db': "db' = db\<lparr>warehouses := update_rows (\<lambda>x. wh_id x = i) f (warehouses db)\<rparr>"
    using assms(1) by (fastforce simp: warehouse_update_def and_then_eq_Inr list_ex_iff f_def split: if_splits)
  have d: "distinct (map wh_id (warehouses db))" using assms(2) by (simp add: places_ok_def)
  have tn: "wh_tenant x = user_tenant u" if "x \<in> set (warehouses db)" "wh_id x = i" for x
    using that warehouse_row[OF w] row_unique[OF d, of x w] by simp
  have "wh_key (f x) \<noteq> wh_key y" if "x \<in> set (warehouses db)" "y \<in> set (warehouses db)" "wh_id x = i" "wh_id y \<noteq> i" for x y
    using free[OF that(2) _ that(4)] f[of x] tn[OF that(1,3)] by (auto simp: wh_key_def)
  then have "unique_by wh_key (warehouses db')"
    unfolding db' using assms(2) d by (simp, intro unique_by_update_row) (simp_all add: places_ok_def)
  moreover have "map wh_id (warehouses db') = map wh_id (warehouses db)"
    by (simp add: db' update_rows_def comp_def if_distrib f)
  ultimately show ?thesis using assms(2) by (simp add: places_ok_def db' del: set_map list.set_map)
qed

lemma warehouse_remove_places:
  assumes "warehouse_remove i u db = Inr db'" and "places_ok db"
  shows "places_ok db'"
  using assms
  by (auto simp: warehouse_remove_def and_then_eq_Inr places_ok_def distinct_map_filter unique_by_filter list_all_iff
      list_ex_iff split: if_splits) fastforce+

lemma bin_create_places:
  assumes "bin_create i w code label u db = Inr db'" and "places_ok db"
  shows "places_ok db'"
proof -
  obtain x where x: "warehouse_of w u db = Inr x" using assms(1) by (auto simp: bin_create_def and_then_eq_Inr)
  obtain b where "db\<lparr>bins := bins db @ [b]\<rparr> = db'"
      "i \<notin> bn_id ` set (bins db)" "bin_key b \<notin> bin_key ` set (bins db)" "bn_id b = i" "bn_wh b = w"
    using assms(1) by (simp add: bin_create_def x split: if_splits) (erule that, auto simp: list_ex_iff bin_key_def)
  moreover have "w \<in> wh_id ` set (warehouses db)" using warehouse_row[OF x] by blast
  moreover have "list_all (\<lambda>p. list_ex (\<lambda>b. bn_id b = snd p \<and> bn_wh b = fst (fst p)) (bins db @ [b])) (stock_bins db)"
    using assms(2) by (auto simp: places_ok_def list_all_iff)
  ultimately show ?thesis
    using assms(2) by (elim ssubst[where P = places_ok, OF sym]) (simp add: places_ok_def unique_by_append)
qed

lemma bin_row: "find_bin w b db = Inr x \<Longrightarrow> x \<in> set (bins db) \<and> bn_id x = b \<and> bn_wh x = w"
  using find_row_SomeD by (fastforce simp: find_bin_def split: option.splits)

lemma bin_update_places:
  assumes "bin_update w b code label u db = Inr db'" and "places_ok db"
  shows "places_ok db'"
proof -
  define f :: "warehouse_bin \<Rightarrow> warehouse_bin" where "f = (\<lambda>x. x\<lparr>bn_code := trim code, bn_label := or_null (map_option trim label)\<rparr>)"
  have f: "bn_id (f x) = bn_id x \<and> bn_wh (f x) = bn_wh x \<and> bn_code (f x) = trim code" for x
    by (simp add: f_def)
  obtain r where r: "find_bin w b db = Inr r"
    and free: "\<And>x. x \<in> set (bins db) \<Longrightarrow> bn_wh x = w \<Longrightarrow> bn_id x \<noteq> b \<Longrightarrow> bn_code x \<noteq> trim code"
    and db': "db' = db\<lparr>bins := update_rows (\<lambda>x. bn_id x = b) f (bins db)\<rparr>"
    using assms(1) by (fastforce simp: bin_update_def and_then_eq_Inr list_ex_iff f_def split: if_splits)
  have d: "distinct (map bn_id (bins db))" using assms(2) by (simp add: places_ok_def)
  have tn: "bn_wh x = w" if "x \<in> set (bins db)" "bn_id x = b" for x
    using that bin_row[OF r] row_unique[OF d, of x r] by simp
  have "bin_key (f x) \<noteq> bin_key y" if "x \<in> set (bins db)" "y \<in> set (bins db)" "bn_id x = b" "bn_id y \<noteq> b" for x y
    using free[OF that(2) _ that(4)] f[of x] tn[OF that(1,3)] by (auto simp: bin_key_def)
  then have "unique_by bin_key (bins db')"
    unfolding db' using assms(2) d by (simp, intro unique_by_update_row) (simp_all add: places_ok_def)
  moreover have "map bn_id (bins db') = map bn_id (bins db)"
    by (simp add: db' update_rows_def comp_def if_distrib f)
  moreover have "list_all q (bins db') = list_all q (bins db)" if "\<And>x. q (f x) = q x" for q
    using that by (simp add: db' list_all_update_rows if_distrib cong: if_cong)
  moreover have "list_ex q (bins db') = list_ex q (bins db)" if "\<And>x. q (f x) = q x" for q
    using that by (simp add: db' list_ex_update_rows if_distrib cong: if_cong)
  ultimately show ?thesis using assms(2) by (simp add: places_ok_def db' f)
qed

lemma bin_remove_places:
  assumes "bin_remove w b u db = Inr db'" and "places_ok db"
  shows "places_ok db'"
  using assms
  by (auto simp: bin_remove_def and_then_eq_Inr places_ok_def distinct_map_filter unique_by_filter list_all_iff
      list_ex_iff split: if_splits) fastforce+

section \<open>Every step keeps the invariant\<close>

lemma category_frames:
  "category_create i cdto u db = Inr db' \<Longrightarrow> uoms db' = uoms db \<and> warehouses db' = warehouses db \<and> bins db' = bins db \<and> stock_bins db' = stock_bins db"
  "category_update i cdto u db = Inr db' \<Longrightarrow> uoms db' = uoms db \<and> warehouses db' = warehouses db \<and> bins db' = bins db \<and> stock_bins db' = stock_bins db"
  "category_remove i u db = Inr db' \<Longrightarrow> uoms db' = uoms db \<and> warehouses db' = warehouses db \<and> bins db' = bins db \<and> stock_bins db' = stock_bins db"
  by (auto simp: category_create_def add_category_def category_update_def category_remove_def Let_def
      split: if_splits option.splits)

lemma unit_frames:
  "uom_create i nm abbr u db = Inr db' \<Longrightarrow> categories db' = categories db \<and> warehouses db' = warehouses db \<and> bins db' = bins db \<and> stock_bins db' = stock_bins db"
  "uom_update i nm abbr u db = Inr db' \<Longrightarrow> categories db' = categories db \<and> warehouses db' = warehouses db \<and> bins db' = bins db \<and> stock_bins db' = stock_bins db"
  "uom_remove i u db = Inr db' \<Longrightarrow> categories db' = categories db \<and> warehouses db' = warehouses db \<and> bins db' = bins db \<and> stock_bins db' = stock_bins db"
  by (auto simp: uom_create_def uom_update_def uom_remove_def Let_def split: if_splits option.splits)

lemma article_frames:
  "supplier_remove i t db = Inr db' \<Longrightarrow> categories db' = categories db \<and> uoms db' = uoms db \<and> warehouses db' = warehouses db \<and> bins db' = bins db \<and> stock_bins db' = stock_bins db"
  "categories (supplier_create i t nm db) = categories db \<and> uoms (supplier_create i t nm db) = uoms db
    \<and> warehouses (supplier_create i t nm db) = warehouses db \<and> bins (supplier_create i t nm db) = bins db
    \<and> stock_bins (supplier_create i t nm db) = stock_bins db"
  "item_update code ip u db = Inr db' \<Longrightarrow> categories db' = categories db \<and> uoms db' = uoms db \<and> warehouses db' = warehouses db \<and> bins db' = bins db \<and> stock_bins db' = stock_bins db"
  by (auto simp: supplier_remove_def supplier_create_def item_update_def and_then_eq_Inr Let_def split: if_splits)

lemma created_frame:
  "created i u db db' \<Longrightarrow> categories db' = categories db \<and> uoms db' = uoms db \<and> warehouses db' = warehouses db \<and> bins db' = bins db \<and> stock_bins db' = stock_bins db"
  using next_sku_same[of db "user_tenant u"]
  by (auto simp: created_def same_masters_def insert_article_def split: if_splits)

lemma item_remove_frame:
  "item_remove code u db = Inr db' \<Longrightarrow> categories db' = categories db \<and> uoms db' = uoms db"
  by (auto simp: item_remove_def drop_references_def and_then_eq_Inr Let_def split: if_splits)

lemma item_remove_places:
  assumes "item_remove code u db = Inr db'" and "places_ok db"
  shows "places_ok db'"
proof -
  obtain p where "warehouses db' = warehouses db" "bins db' = bins db" "stock_bins db' = filter p (stock_bins db)"
    using assms(1) by (auto simp: item_remove_def drop_references_def and_then_eq_Inr Let_def split: if_splits)
  then show ?thesis using assms(2) by (auto simp: places_ok_def list_all_iff simp del: split_paired_All)
qed

lemma place_frames:
  "warehouse_create i wdto u db = Inr db' \<Longrightarrow> categories db' = categories db \<and> uoms db' = uoms db \<and> suppliers db' = suppliers db \<and> items db' = items db \<and> articles db' = articles db"
  "warehouse_update i wdto u db = Inr db' \<Longrightarrow> categories db' = categories db \<and> uoms db' = uoms db \<and> suppliers db' = suppliers db \<and> items db' = items db \<and> articles db' = articles db"
  "bin_create i w bcode label u db = Inr db' \<Longrightarrow> categories db' = categories db \<and> uoms db' = uoms db \<and> suppliers db' = suppliers db \<and> items db' = items db \<and> articles db' = articles db"
  "bin_update w b bcode label u db = Inr db' \<Longrightarrow> categories db' = categories db \<and> uoms db' = uoms db \<and> suppliers db' = suppliers db \<and> items db' = items db \<and> articles db' = articles db"
  "bin_remove w b u db = Inr db' \<Longrightarrow> categories db' = categories db \<and> uoms db' = uoms db \<and> suppliers db' = suppliers db \<and> items db' = items db \<and> articles db' = articles db"
  by (auto simp: warehouse_create_def warehouse_update_def bin_create_def bin_update_def bin_remove_def and_then_eq_Inr
      split: if_splits)

lemma warehouse_remove_frame:
  "warehouse_remove i u db = Inr db' \<Longrightarrow> categories db' = categories db \<and> uoms db' = uoms db"
  by (auto simp: warehouse_remove_def and_then_eq_Inr split: if_splits)

lemma warehouse_remove_articles:
  assumes "warehouse_remove i u db = Inr db'" and "articles_ok db"
  shows "articles_ok db'"
proof -
  let ?f = "\<lambda>it :: item. if it_policy_wh it = Some i then it\<lparr>it_policy_wh := None\<rparr> else it"
  have db': "items db' = map ?f (items db)" "articles db' = articles db" "categories db' = categories db"
      "uoms db' = uoms db" "suppliers db' = suppliers db"
    using assms(1) by (auto simp: warehouse_remove_def and_then_eq_Inr update_rows_def split: if_splits)
  have d: "described cs ms ss (?f it) a = described cs ms ss it a" for cs ms ss it a by (simp add: described_def)
  have "it_id \<circ> ?f = it_id" by (simp add: fun_eq_iff)
  then show ?thesis
    using assms(2) by (simp add: articles_ok_def db' list_all2_map1 d unique_by_map code_key_def part_key_def)
qed

lemma catalogue_okI:
  assumes "catalogue_ok db" and "two_levels (categories db) \<Longrightarrow> two_levels (categories db')"
    and "articles_ok db \<Longrightarrow> articles_ok db'" and "units_ok db \<Longrightarrow> units_ok db'" and "places_ok db \<Longrightarrow> places_ok db'"
  shows "catalogue_ok db'"
  using assms by (simp add: catalogue_ok_def)

lemma systems_family_ok:
  assumes "i \<notin> ca_id ` set (categories db)" and "catalogue_ok db"
  shows "catalogue_ok (ensureSystemsFamilyForTenant i t db)"
proof (cases "ensureSystemsFamilyForTenant i t db = db")
  case False
  then obtain c where new: "ensureSystemsFamilyForTenant i t db = db\<lparr>categories := categories db @ [c]\<rparr>"
    and c: "ca_id c = i" "ca_parent c = None"
    by (simp add: ensureSystemsFamilyForTenant_def split: if_splits)
  show ?thesis
    unfolding new using assms c
    by (intro catalogue_okI[OF assms(2)])
      (auto intro: units_same places_same two_levels_append elim!: articles_categories)
qed (use assms in simp)

lemma default_units_step:
  assumes "inj newId" and "range newId \<inter> um_id ` set (uoms db) = {}" and "catalogue_ok db"
  shows "catalogue_ok (ensureDefaultUnitsOfMeasureForTenant newId t db)"
proof -
  have "distinct (map snd DEFAULT_UOMS)" by (simp add: DEFAULT_UOMS_def)
  moreover have "\<forall>d \<in> set DEFAULT_UOMS. newId (snd d) \<notin> um_id ` set (uoms db)" using assms(2) by blast
  ultimately show ?thesis
    unfolding default_units_eq using default_units_ok[OF assms(1), of DEFAULT_UOMS db t] assms(3)
    by (simp add: catalogue_ok_def places_ok_def)
qed

lemma created_ok:
  assumes "created i u db db'" and "catalogue_ok db"
  shows "catalogue_ok db'"
  using created_frame[OF assms(1)] created_articles[OF assms(1)]
  by (intro catalogue_okI[OF assms(2)]) (auto intro: units_same places_same)

lemma category_steps_ok:
  "catalogue_ok db \<Longrightarrow> category_create i cdto u db = Inr db' \<Longrightarrow> catalogue_ok db'"
  "catalogue_ok db \<Longrightarrow> category_update i cdto u db = Inr db' \<Longrightarrow> catalogue_ok db'"
  "catalogue_ok db \<Longrightarrow> category_remove i u db = Inr db' \<Longrightarrow> catalogue_ok db'"
  by (auto intro: catalogue_okI category_create_levels category_create_articles category_update_levels
      category_update_articles category_remove_levels category_remove_articles units_same places_same dest: category_frames)

lemma unit_steps_ok:
  "catalogue_ok db \<Longrightarrow> uom_create i nm abbr u db = Inr db' \<Longrightarrow> catalogue_ok db'"
  "catalogue_ok db \<Longrightarrow> uom_update i nm abbr u db = Inr db' \<Longrightarrow> catalogue_ok db'"
  "catalogue_ok db \<Longrightarrow> uom_remove i u db = Inr db' \<Longrightarrow> catalogue_ok db'"
  by (auto intro!: catalogue_okI[of db db'] dest: unit_frames intro: uom_create_articles uom_update_articles uom_remove_articles
      uom_create_units uom_update_units uom_remove_units places_same)

lemma article_steps_ok:
  "catalogue_ok db \<Longrightarrow> supplier_remove i t db = Inr db' \<Longrightarrow> catalogue_ok db'"
  "catalogue_ok db \<Longrightarrow> catalogue_ok (supplier_create i t nm db)"
  "catalogue_ok db \<Longrightarrow> item_update code ip u db = Inr db' \<Longrightarrow> catalogue_ok db'"
  "catalogue_ok db \<Longrightarrow> item_remove code u db = Inr db' \<Longrightarrow> catalogue_ok db'"
  using article_frames(2)[of i t nm db]
  by (auto intro!: catalogue_okI[of db] intro: supplier_remove_articles supplier_create_articles item_update_articles
      item_remove_articles item_remove_places units_same places_same dest: article_frames(1,3) item_remove_frame)

lemma place_steps_ok:
  "catalogue_ok db \<Longrightarrow> warehouse_create i wdto u db = Inr db' \<Longrightarrow> catalogue_ok db'"
  "catalogue_ok db \<Longrightarrow> warehouse_update i wdto u db = Inr db' \<Longrightarrow> catalogue_ok db'"
  "catalogue_ok db \<Longrightarrow> warehouse_remove i u db = Inr db' \<Longrightarrow> catalogue_ok db'"
  "catalogue_ok db \<Longrightarrow> bin_create i w bcode label u db = Inr db' \<Longrightarrow> catalogue_ok db'"
  "catalogue_ok db \<Longrightarrow> bin_update w b bcode label u db = Inr db' \<Longrightarrow> catalogue_ok db'"
  "catalogue_ok db \<Longrightarrow> bin_remove w b u db = Inr db' \<Longrightarrow> catalogue_ok db'"
  by (auto intro!: catalogue_okI[of db] intro: warehouse_create_places warehouse_update_places warehouse_remove_places
      bin_create_places bin_update_places bin_remove_places warehouse_remove_articles units_same articles_same
      dest: place_frames warehouse_remove_frame)

lemma catalogue_step_ok:
  assumes "catalogue_step db db'" and "catalogue_ok db"
  shows "catalogue_ok db'"
  using assms
  by (induction rule: catalogue_step.induct)
    (blast intro: category_steps_ok unit_steps_ok article_steps_ok place_steps_ok systems_family_ok default_units_step
      created_ok item_create_created quickCreate_created)+

end
