(* ===== verification/Catalogue_Properties.thy ===== *)
theory Catalogue_Properties
  imports Catalogue_Invariant Inventory_System
begin

text \<open>
  What the master data of the inventory is: its shape in every state, the codes of new articles, and
  what the removal of articles and warehouses leaves of the stock.
\<close>

section \<open>The shape of the master data\<close>


definition new_company :: cat_db where
  "new_company = bill_db.extend (ops_db.extend small_ops (bill_db.fields [] [])) (cat_db.fields [] [] [] [] [] [] [])"

definition category_form :: "string \<Rightarrow> string option \<Rightarrow> category_dto" where
  "category_form nm parent = \<lparr>cd_name = nm, cd_parent = parent, cd_description = None\<rparr>"

definition article_form :: "string \<Rightarrow> string \<Rightarrow> item_dto" where
  "article_form nm part = \<lparr>nd_code = None, nd_part = Some part, nd_supplier = None, nd_name = nm, nd_description = None,
     nd_category = ''s1'', nd_unit = ''m1'', nd_brand = None, nd_compat = None, nd_serialized = None, nd_inventory = None,
     nd_asset = None, nd_consumable = None, nd_warehouse = Some ''w1'', nd_min = Some 1, nd_max = Some 5\<rparr>"

definition masters :: "cat_db res" where
  "masters =
     and_then (warehouse_create ''w1'' \<lparr>wd_code = ''B1'', wd_contract = ''c1'', wd_active = None\<rparr> plain_user new_company) (\<lambda>d1.
     and_then (category_create ''f1'' (category_form '' Filtros '' None) plain_user d1) (\<lambda>d2.
     and_then (category_create ''s1'' (category_form ''Aceite'' (Some ''f1'')) plain_user d2) (\<lambda>d3.
     uom_create ''m1'' ''Litros'' ''lt'' plain_user d3)))"

definition one_article :: "cat_db res" where
  "one_article = and_then masters (item_create ''i1'' (article_form ''Filtro'' ''P1'') plain_user)"

definition two_articles :: "cat_db res" where
  "two_articles = and_then one_article (quickCreate ''i2'' (article_form ''Aceite'' ''P2'') plain_user)"

definition article_left :: "cat_db res" where
  "article_left = and_then two_articles (item_remove ''IN0001'' plain_user)"

definition renamed_unit :: "cat_db res" where
  "renamed_unit = and_then article_left (uom_update ''m1'' ''Litros'' ''l'' plain_user)"

lemma renamed_unit_ends:
  "(case renamed_unit of Inl _ \<Rightarrow> False | Inr db \<Rightarrow>
     map it_inventory_code (items db) = [Some ''IN0002''] \<and> map it_uom_abbr (items db) = [''L''])"
  by code_simp

lemma catalogue_more:
  "catalogue_step\<^sup>*\<^sup>* d0 d \<Longrightarrow> catalogue_step d d' \<Longrightarrow> catalogue_step\<^sup>*\<^sup>* d0 d'"
  by (rule rtranclp.rtrancl_into_rtrancl)

lemma masters_reached: "masters = Inr db \<Longrightarrow> catalogue_step\<^sup>*\<^sup>* new_company db"
  unfolding masters_def and_then_eq_Inr
  by (elim exE conjE) (meson catalogue_step.intros rtranclp.rtrancl_refl catalogue_more)

lemma two_articles_reached: "two_articles = Inr db \<Longrightarrow> catalogue_step\<^sup>*\<^sup>* new_company db"
  unfolding two_articles_def one_article_def and_then_eq_Inr
  by (elim exE conjE) (meson catalogue_step.intros masters_reached catalogue_more)

lemma renamed_unit_reached: "renamed_unit = Inr db \<Longrightarrow> catalogue_step\<^sup>*\<^sup>* new_company db"
  unfolding renamed_unit_def article_left_def and_then_eq_Inr
  by (elim exE conjE) (meson catalogue_step.intros two_articles_reached catalogue_more)

lemma new_company_simps [simp]:
  "categories new_company = []" "uoms new_company = []" "suppliers new_company = []" "bins new_company = []"
  "articles new_company = []" "stock_bins new_company = []" "items new_company = []" "warehouses new_company = []"
  "stocks new_company = []" "txs new_company = []"
  by (simp_all add: new_company_def bill_db.defs ops_db.defs cat_db.defs small_ops_def)

lemma new_company_ok: "catalogue_ok new_company"
  by (simp add: catalogue_ok_def two_levels_def articles_ok_def units_ok_def places_ok_def)


section \<open>The codes of new articles\<close>

lemma insert_article_ok:
  assumes "newId \<notin> it_id ` set (items db)" "newId \<notin> art_item ` set (articles db)"
    and "\<And>x. x \<in> set (items db) \<Longrightarrow> it_tenant x = t \<Longrightarrow> it_inventory_code x \<noteq> Some code"
    and "art_item a = newId"
  shows "insert_article (new_item newId t pn code m policy tracked) a db \<noteq> Inl UniqueViolation"
proof -
  have "\<not> list_ex (\<lambda>x. it_id x = newId \<or> it_tenant x = t \<and> it_inventory_code x = Some code) (items db)"
    using assms(1,3) by (auto simp: list_ex_iff)
  moreover have "\<not> list_ex (\<lambda>x. art_item x = newId) (articles db)" using assms(2) by (auto simp: list_ex_iff)
  ultimately show ?thesis using assms(4) by (simp add: insert_article_def new_item_def)
qed

lemma created_code:
  assumes "created newId u db db'"
  shows "\<exists>it. items db' = items db @ [it] \<and> it_id it = newId \<and> it_tenant it = user_tenant u
    \<and> it_inventory_code it = Some (peekNextInventorySku (user_tenant u) db)"
  using assms next_sku_same[of db "user_tenant u"]
  by (auto simp: created_def insert_article_def same_masters_def new_item_def split: if_splits)

lemma checks_are_not_violations:
  "assertLeafCategory i t db \<noteq> Inl UniqueViolation" "assertUnitOfMeasure i t db \<noteq> Inl UniqueViolation"
  "part_number_free pn t q db \<noteq> Inl UniqueViolation" "initial_policy required dto t db \<noteq> Inl UniqueViolation"
  by (auto simp: assertLeafCategory_def assertUnitOfMeasure_def part_number_free_def initial_policy_def Let_def
      split: option.splits)

text \<open>
  The code of a new article is the one that was previewed, and it is new: while the numbers of a
  company stay below eight nines, both ways to create an article give it the code
  \<open>peekNextInventorySku\<close> shows in that state, which no article of the company has, so the unique index
  on codes never refuses a new article.
\<close>
theorem new_article_gets_the_previewed_code:
  assumes "sku_floor (user_tenant u) db < 99999999" and "last_number (user_tenant u) INV_SKU_DOC_TYPE db < 99999999"
    and "newId \<notin> it_id ` set (items db)" and "newId \<notin> art_item ` set (articles db)"
    and "op = item_create newId dto u db \<or> op = quickCreate newId dto u db"
  shows "op \<noteq> Inl UniqueViolation
    \<and> (op = Inr db' \<longrightarrow> (\<exists>it. items db' = items db @ [it] \<and> it_id it = newId \<and> it_tenant it = user_tenant u
         \<and> it_inventory_code it = Some (peekNextInventorySku (user_tenant u) db)
         \<and> (\<forall>x \<in> set (items db). it_tenant x = user_tenant u \<longrightarrow> it_inventory_code x \<noteq> it_inventory_code it)))"
proof (intro conjI impI)
  note new = peek_is_new[OF assms(1,2)]
  obtain code db1 where sku: "next_sku (user_tenant u) db = (code, db1)" by fastforce
  have same: "items db1 = items db" "articles db1 = articles db" "code = peekNextInventorySku (user_tenant u) db"
    using next_sku_same[of db "user_tenant u"] next_sku_code[of "user_tenant u" db] sku by (simp_all add: same_masters_def)
  have ok: "insert_article (new_item newId (user_tenant u) pn code m policy tracked) a db1 \<noteq> Inl UniqueViolation"
    if "art_item a = newId" for pn m policy tracked and a :: article
    using that assms(3,4) new by (intro insert_article_ok) (auto simp: same)
  have "item_create newId dto u db \<noteq> Inl UniqueViolation" "quickCreate newId dto u db \<noteq> Inl UniqueViolation"
    by (auto simp: item_create_def quickCreate_def Let_def sku and_then_eq_Inl ok checks_are_not_violations split: if_splits)
  then show "op \<noteq> Inl UniqueViolation" using assms(5) by auto
  show "\<exists>it. items db' = items db @ [it] \<and> it_id it = newId \<and> it_tenant it = user_tenant u
      \<and> it_inventory_code it = Some (peekNextInventorySku (user_tenant u) db)
      \<and> (\<forall>x \<in> set (items db). it_tenant x = user_tenant u \<longrightarrow> it_inventory_code x \<noteq> it_inventory_code it)"
    if "op = Inr db'"
  proof -
    have "created newId u db db'" using assms(5) that item_create_created quickCreate_created by metis
    then show ?thesis using created_code new by metis
  qed
qed

lemma two_articles_ends:
  "(case one_article of Inl _ \<Rightarrow> False | Inr db \<Rightarrow> sku_floor ''t'' db = 1 \<and> last_number ''t'' INV_SKU_DOC_TYPE db = 1
     \<and> map it_id (items db) = [''i1''] \<and> map art_item (articles db) = [''i1''] \<and> peekNextInventorySku ''t'' db = ''IN0002'')"
  "(case two_articles of Inl _ \<Rightarrow> False | Inr _ \<Rightarrow> True)"
  by code_simp+

lemma new_article_gets_the_previewed_code_witness:
  "\<exists>db db' it. one_article = Inr db \<and> two_articles = Inr db' \<and> items db' = items db @ [it] \<and> it_inventory_code it = Some ''IN0002''"
proof -
  obtain db where db: "one_article = Inr db" "sku_floor ''t'' db = 1" "last_number ''t'' INV_SKU_DOC_TYPE db = 1"
      "map it_id (items db) = [''i1'']" "map art_item (articles db) = [''i1'']" "peekNextInventorySku ''t'' db = ''IN0002''"
    using two_articles_ends(1) by (auto split: sum.splits)
  obtain db' where db': "two_articles = Inr db'" using two_articles_ends(2) by (auto split: sum.splits)
  have run: "quickCreate ''i2'' (article_form ''Aceite'' ''P2'') plain_user db = Inr db'"
    using db' unfolding two_articles_def db(1) and_then_Inr .
  have "it_id ` set (items db) = {''i1''}" "art_item ` set (articles db) = {''i1''}"
    using db(4,5) by (metis empty_set list.set_map list.simps(15))+
  then show ?thesis
    using new_article_gets_the_previewed_code[where u = plain_user and db = db and db' = db' and newId = "''i2''"
        and op = "Inr db'" and dto = "article_form ''Aceite'' ''P2''"] db db' run by auto
qed

section \<open>Removal and the stock\<close>

lemma find_row_filter: "(\<And>x. q x \<Longrightarrow> p x) \<Longrightarrow> find_row q (filter p xs) = find_row q xs"
  by (induction xs) auto

lemma item_remove_stock:
  assumes "item_remove code u db = Inr db'"
  obtains i where "list_all (\<lambda>t. tx_item t \<noteq> i) (txs db)" "txs db' = txs db"
    "stocks db' = filter (\<lambda>s. st_item s \<noteq> i) (stocks db)"
  using assms
  by (auto simp: item_remove_def item_in_use_def drop_references_def and_then_eq_Inr Let_def list_all_iff list_ex_iff
      split: if_splits)

lemma warehouse_remove_stock:
  assumes "warehouse_remove i u db = Inr db'"
  shows "list_all (\<lambda>t. tx_wh t \<noteq> i) (txs db)" "txs db' = txs db" "stocks db' = filter (\<lambda>s. st_wh s \<noteq> i) (stocks db)"
  using assms
  by (auto simp: warehouse_remove_def warehouse_in_use_def and_then_eq_Inr list_all_iff list_ex_iff split: if_splits)

lemma dropped_rows:
  assumes "stocks db' = filter p (stocks db)"
    and "\<And>s. st_wh s = w \<and> st_item s = i \<Longrightarrow> p s = b" and "\<not> b \<Longrightarrow> stock_qty w i db = 0"
  shows "stock_qty w i db' = stock_qty w i db"
proof (cases b)
  case True
  then have "find_stock w i db' = find_stock w i db"
    using assms(1,2) by (simp add: find_stock_def find_row_filter)
  then show ?thesis by (simp add: stock_qty_def)
next
  case False
  then have "find_stock w i db' = None"
    using assms(1,2) by (auto simp: find_stock_def find_row_None_iff)
  then show ?thesis using False assms(3) by (simp add: stock_qty_def)
qed

text \<open>
  C34. Removing an article or a warehouse loses no goods: in every state that the operations on stock
  (all but the Excel import) reach from an empty inventory, what the system lets remove has no movements and so no balance, although
  its stock rows go with it. Every balance and the movements stay as they were.
\<close>
theorem removal_loses_no_goods:
  assumes "stock_step\<^sup>*\<^sup>* db0 db" and "stocks db0 = []" and "txs db0 = []"
    and "item_remove code u db = Inr db' \<or> warehouse_remove place u db = Inr db'"
  shows "stock_qty w i db' = stock_qty w i db \<and> txs db' = txs db"
proof -
  note balance = explained_balance[OF assms(1-3), THEN conjunct1]
  from assms(4) show ?thesis
  proof
    assume "item_remove code u db = Inr db'"
    then obtain j where j: "list_all (\<lambda>t. tx_item t \<noteq> j) (txs db)" "txs db' = txs db"
        "stocks db' = filter (\<lambda>s. st_item s \<noteq> j) (stocks db)" by (rule item_remove_stock)
    have "stock_qty w i db = 0" if "i = j"
      unfolding balance using j(1) that by (intro sum_rows_none) (auto simp: list_all_iff)
    then show ?thesis using dropped_rows[OF j(3), of w i "i \<noteq> j"] j(2) by blast
  next
    assume r: "warehouse_remove place u db = Inr db'"
    have "stock_qty w i db = 0" if "w = place"
      unfolding balance using warehouse_remove_stock(1)[OF r] that by (intro sum_rows_none) (auto simp: list_all_iff)
    then show ?thesis
      using dropped_rows[OF warehouse_remove_stock(3)[OF r], of w i "w \<noteq> place"] warehouse_remove_stock(2)[OF r] by blast
  qed
qed

definition oil_arrives :: transaction_dto where
  "oil_arrives = \<lparr>pd_wh = ''w1'', pd_item = ''i2'', pd_type = IN, pd_qty = 3, pd_cost = None, pd_ref = None, pd_ref_type = None\<rparr>"

definition oil_in_stock :: "cat_db res" where
  "oil_in_stock = and_then two_articles (performTransaction (\<lambda>q. q) oil_arrives plain_user)"

definition only_oil_left :: "cat_db res" where
  "only_oil_left = and_then oil_in_stock (item_remove ''IN0001'' plain_user)"

lemma only_oil_left_ends:
  "(case two_articles of Inl _ \<Rightarrow> False | Inr db \<Rightarrow> stocks db = [] \<and> txs db = [])"
  "(case oil_in_stock of Inl _ \<Rightarrow> False | Inr db \<Rightarrow> stock_qty ''w1'' ''i2'' db = 3)"
  "(case only_oil_left of Inl _ \<Rightarrow> False | Inr db \<Rightarrow> map it_id (items db) = [''i2''])"
  by code_simp+

lemma removal_loses_no_goods_witness:
  "\<exists>db. only_oil_left = Inr db \<and> map it_id (items db) = [''i2''] \<and> stock_qty ''w1'' ''i2'' db = 3"
proof -
  obtain d0 where d0: "two_articles = Inr d0" "stocks d0 = []" "txs d0 = []"
    using only_oil_left_ends(1) by (auto split: sum.splits)
  obtain d1 where d1: "oil_in_stock = Inr d1" "stock_qty ''w1'' ''i2'' d1 = 3"
    using only_oil_left_ends(2) by (auto split: sum.splits)
  obtain d2 where d2: "only_oil_left = Inr d2" "map it_id (items d2) = [''i2'']"
    using only_oil_left_ends(3) by (auto split: sum.splits)
  have "performTransaction (\<lambda>q. q) oil_arrives plain_user d0 = Inr d1"
    using d1(1) unfolding oil_in_stock_def d0(1) and_then_Inr .
  then have "stock_step d0 d1" by (rule stock_step.moved)
  then have run: "stock_step\<^sup>*\<^sup>* d0 d1" by (rule r_into_rtranclp)
  have "item_remove ''IN0001'' plain_user d1 = Inr d2"
    using d2(1) unfolding only_oil_left_def d1(1) and_then_Inr .
  then have "stock_qty ''w1'' ''i2'' d2 = stock_qty ''w1'' ''i2'' d1"
    using removal_loses_no_goods[OF run d0(2,3)] by blast
  then show ?thesis using d1(2) d2 by (intro exI[of _ d2]) simp
qed

end
