(* ===== verification/Import_Round_Trip.thy ===== *)
theory Import_Round_Trip
  imports Stock_Import Catalogue_Properties
begin

text \<open>
  Importing the file the system exports changes nothing.
\<close>

section \<open>Texts\<close>

text \<open>A text that \<open>normalizeImportText\<close> leaves as it is: single spaces, none at its ends.\<close>

fun single_spaced :: "string \<Rightarrow> bool" where
  "single_spaced (a # b # cs) \<longleftrightarrow> (is_space a \<longrightarrow> a = CHR '' '' \<and> \<not> is_space b) \<and> single_spaced (b # cs)"
| "single_spaced [a] \<longleftrightarrow> (is_space a \<longrightarrow> a = CHR '' '')"
| "single_spaced [] \<longleftrightarrow> True"

lemma single_spaced_Cons:
  "single_spaced (a # cs) \<longleftrightarrow> (is_space a \<longrightarrow> a = CHR '' '' \<and> (cs = [] \<or> \<not> is_space (hd cs))) \<and> single_spaced cs"
  by (cases cs) auto

lemma squeeze_hd: "squeeze cs \<noteq> [] \<Longrightarrow> is_space (hd (squeeze cs)) = is_space (hd cs)"
  by (cases cs) (auto simp: is_space_def)

lemma squeeze_Nil [simp]: "squeeze cs = [] \<longleftrightarrow> cs = []"
  by (cases cs) auto

lemma single_spaced_squeeze: "single_spaced (squeeze s)"
proof (induction s rule: squeeze.induct)
  case (2 c cs)
  show ?case
  proof (cases "is_space c")
    case True
    have "cs' = [] \<or> \<not> is_space (hd cs')" if "cs' = dropWhile is_space cs" for cs'
      using that hd_dropWhile by blast
    then show ?thesis using 2(1)[OF True] True squeeze_hd[of "dropWhile is_space cs"] by (auto simp: single_spaced_Cons)
  qed (use 2(2) in \<open>simp add: single_spaced_Cons\<close>)
qed simp

lemma squeeze_single: "single_spaced s \<Longrightarrow> squeeze s = s"
proof (induction s)
  case (Cons c cs)
  have "dropWhile is_space cs = cs" if "is_space c"
    using Cons.prems that by (cases cs) (auto simp: single_spaced_Cons)
  then show ?case using Cons by (auto simp: single_spaced_Cons)
qed simp

lemma single_spaced_append: "single_spaced (xs @ ys) \<Longrightarrow> single_spaced xs \<and> single_spaced ys"
  by (induction xs) (auto simp: single_spaced_Cons neq_Nil_conv)

lemma trim_part: "\<exists>xs ys. s = xs @ trim s @ ys"
proof -
  obtain xs where xs: "s = xs @ dropWhile is_space s" by (metis takeWhile_dropWhile_id)
  obtain ys where ys: "rev (dropWhile is_space s) = ys @ rev (trim s)"
    by (metis trim_def rev_rev_ident takeWhile_dropWhile_id)
  then have "dropWhile is_space s = trim s @ rev ys" by (metis rev_append rev_rev_ident)
  then show ?thesis using xs by metis
qed

lemma normalizeImportText_idem [simp]: "normalizeImportText (normalizeImportText s) = normalizeImportText s"
proof -
  let ?t = "normalizeImportText s"
  have "single_spaced ?t"
    using single_spaced_squeeze[of "trim s"] trim_part[of "squeeze (trim s)"] single_spaced_append
    unfolding normalizeImportText_def by metis
  moreover have "trim ?t = ?t" by (simp add: normalizeImportText_def)
  ultimately show ?thesis using squeeze_single by (simp add: normalizeImportText_def[of ?t])
qed

lemma space_no_key: "is_space c \<Longrightarrow> filter key_char (base_letter c) = []"
  by (auto simp: is_space_def base_letter_def key_char_def)

lemma key_dropWhile: "normalizeImportKey (dropWhile is_space s) = normalizeImportKey s"
  by (induction s) (auto simp: normalizeImportKey_def space_no_key)

lemma key_append: "normalizeImportKey (xs @ ys) = normalizeImportKey xs @ normalizeImportKey ys"
  by (simp add: normalizeImportKey_def)

lemma spaces_no_key: "list_all is_space s \<Longrightarrow> normalizeImportKey s = []"
  by (induction s) (auto simp: normalizeImportKey_def space_no_key)

lemma key_trim: "normalizeImportKey (trim s) = normalizeImportKey s"
proof -
  let ?d = "dropWhile is_space s"
  have "?d = trim s @ rev (takeWhile is_space (rev ?d))"
    by (metis trim_def rev_append rev_rev_ident takeWhile_dropWhile_id)
  moreover have "normalizeImportKey (rev (takeWhile is_space (rev ?d))) = []"
    by (rule spaces_no_key) (auto simp: list_all_iff dest: set_takeWhileD)
  ultimately have "normalizeImportKey ?d = normalizeImportKey (trim s)" by (metis append_Nil2 key_append)
  then show ?thesis by (simp add: key_dropWhile)
qed

lemma key_Cons: "normalizeImportKey (c # cs) = filter key_char (base_letter c) @ normalizeImportKey cs"
  by (simp add: normalizeImportKey_def)

lemma key_squeeze: "normalizeImportKey (squeeze s) = normalizeImportKey s"
proof (induction s rule: squeeze.induct)
  case (2 c cs)
  have "filter key_char (base_letter (CHR '' '')) = []" by (rule space_no_key) (simp add: is_space_def)
  then show ?case using 2 by (auto simp: key_Cons space_no_key key_dropWhile)
qed simp

lemma key_normalized [simp]: "normalizeImportKey (normalizeImportText s) = normalizeImportKey s"
  by (simp add: normalizeImportText_def key_trim key_squeeze)

lemma label_simps [simp]:
  "normalizeImportText (boolLabel b) = boolLabel b" "parseImportBoolean (boolLabel b) = Some b" "boolLabel b \<noteq> []"
  by (simp_all add: boolLabel_def normalizeImportText_def trim_def is_space_def parseImportBoolean_def
      normalizeImportKey_def base_letter_def key_char_def)

section \<open>What can be exported and imported again\<close>

definition clean :: "string option \<Rightarrow> bool" where
  "clean x \<longleftrightarrow> x = or_null (Some (normalizeImportText (opt_text x)))"

text \<open>Numbers the import accepts.\<close>

definition importable_stock :: "bool \<Rightarrow> item_stock \<Rightarrow> bool" where
  "importable_stock decimals s \<longleftrightarrow> 0 \<le> st_qty s \<and> 0 \<le> st_min s \<and> 0 \<le> st_max s \<and> (st_max s = 0 \<or> st_min s \<le> st_max s)
     \<and> (decimals \<or> list_all isIntegerQuantityAllowed [st_qty s, st_min s, st_max s]) \<and> clean (st_location s)"

text \<open>Ids without colons or blanks, warehouse codes that differ in letters or digits.\<close>

definition ids_tidy :: "id \<Rightarrow> 'a cat_db_scheme \<Rightarrow> bool" where
  "ids_tidy tenant db \<longleftrightarrow> list_all (\<lambda>it. it_tenant it = tenant \<longrightarrow> it_id it \<noteq> [] \<and> normalizeImportText (it_id it) = it_id it
     \<and> CHR '':'' \<notin> set (it_id it)) (items db)"

definition codes_tidy :: "id \<Rightarrow> 'a cat_db_scheme \<Rightarrow> bool" where
  "codes_tidy tenant db \<longleftrightarrow> (let ws = filter (\<lambda>w. wh_tenant w = tenant) (warehouses db) in
     distinct (map (\<lambda>w. normalizeImportKey (wh_code w)) ws) \<and> list_all (\<lambda>w. normalizeImportText (wh_code w) \<noteq> []) ws)"

text \<open>Each stock row once, with numbers the import accepts, of a warehouse of the company.\<close>

definition stocks_tidy :: "id \<Rightarrow> 'a cat_db_scheme \<Rightarrow> bool" where
  "stocks_tidy tenant db \<longleftrightarrow> distinct (map (\<lambda>s. (st_wh s, st_item s)) (stocks db))
     \<and> list_all (\<lambda>s. list_all (\<lambda>it. it_tenant it = tenant \<and> it_id it = st_item s \<longrightarrow>
           importable_stock (it_uom_decimals it) s \<and> list_ex (\<lambda>w. wh_id w = st_wh s \<and> wh_tenant w = tenant) (warehouses db))
         (items db)) (stocks db)
     \<and> list_all (\<lambda>b. clean (Some (bn_code b))) (bins db)"

definition tidy :: "id \<Rightarrow> 'a cat_db_scheme \<Rightarrow> bool" where
  "tidy tenant db \<longleftrightarrow> ids_tidy tenant db \<and> codes_tidy tenant db \<and> stocks_tidy tenant db"

section \<open>The articles of the company\<close>

lemma view_item: "view_of db it = Some v \<Longrightarrow> av_item v = it"
  by (auto simp: view_of_def Let_def split: option.splits)

lemma map_filter_set: "v \<in> set (List.map_filter f xs) \<longleftrightarrow> (\<exists>x \<in> set xs. f x = Some v)"
  by (induction xs) (auto simp: List.map_filter_simps split: option.splits)

lemma view_in:
  assumes "v \<in> set (tenant_views t db)"
  shows "av_item v \<in> set (items db)" "it_tenant (av_item v) = t"
  using assms view_item by (fastforce simp: tenant_views_def map_filter_set)+

lemma map_filter_distinct:
  assumes "\<And>x v. f x = Some v \<Longrightarrow> k v = g x" and "distinct (map g xs)"
  shows "distinct (map k (List.map_filter f xs))"
proof -
  have "k ` set (List.map_filter f xs) \<subseteq> g ` set xs" for xs using assms(1) by (force simp: List.map_filter_def)
  then show ?thesis using assms
    by (induction xs) (auto simp: List.map_filter_simps split: option.splits)
qed

lemma views_distinct:
  assumes "distinct (map it_id (items db))"
  shows "distinct (map (\<lambda>v. it_id (av_item v)) (tenant_views t db))"
  unfolding tenant_views_def
  by (rule map_filter_distinct[where g = it_id]) (use assms view_item in \<open>auto simp: distinct_map_filter\<close>)

section \<open>The cells of an exported row\<close>

lemma exported_texts:
  assumes "xr_texts r = common_texts v @ extra"
  shows "getImportString r ''ID articulo'' = normalizeImportText (it_id (av_item v))"
    "getImportString r ''Codigo inventario'' = normalizeImportText (opt_text (it_inventory_code (av_item v)))"
    "getImportString r ''Numero parte'' = normalizeImportText (opt_text (it_part_number (av_item v)))"
    "getImportString r ''Nombre'' = normalizeImportText (art_name (av_article v))"
    "getImportString r ''Descripcion'' = normalizeImportText (opt_text (art_description (av_article v)))"
    "getImportString r ''Familia'' = normalizeImportText (av_family v)"
    "getImportString r ''Subcategoria'' = normalizeImportText (av_sub v)"
    "getImportString r ''Unidad'' = normalizeImportText (it_uom_abbr (av_item v))"
    "getImportString r ''Unidad nombre'' = normalizeImportText (av_unit_name v)"
    "getImportString r ''Permite decimales'' = boolLabel (it_uom_decimals (av_item v))"
    "getImportString r ''Marca'' = normalizeImportText (opt_text (art_brand (av_article v)))"
    "getImportString r ''Compatibilidad'' = normalizeImportText (opt_text (art_compat (av_article v)))"
    "getImportString r ''Proveedor habitual'' = normalizeImportText (opt_text (av_supplier v))"
    "getImportString r ''Inventariable'' = boolLabel (it_is_inventory (av_item v))"
    "getImportString r ''Consumible'' = boolLabel (art_consumable (av_article v))"
    "getImportString r ''Activo'' = boolLabel (art_asset (av_article v))"
    "getImportString r ''Serializado'' = boolLabel (art_serialized (av_article v))"
    "getImportString r ''QR payload'' = normalizeImportText (art_qr (av_article v))"
  by (simp_all add: getImportString_def assms common_texts_def Let_def)

lemma policy_read:
  assumes "parseImportNumber (number_cell r ''Politica minimo'') = it_policy_min (av_item v)"
    and "parseImportNumber (number_cell r ''Politica maximo'') = it_policy_max (av_item v)"
    and "xr_texts r = common_texts v @ extra"
  shows "structural_errors r v = []"
  using assms(1,2)
  by (simp add: structural_errors_def Let_def structuralCompare_def structuralBooleanCompare_def exported_texts[OF assms(3)])

lemma opt_cell_read [simp]: "parseImportNumber (opt_cell x) = x"
  by (cases x) (simp_all add: opt_cell_def parseImportNumber_def)

lemma number_read [simp]: "parseImportNumber (Number q) = Some q" "parseImportNumber Blank = None"
  "has_text (Number q)" "\<not> has_text Blank"
  by (simp_all add: parseImportNumber_def has_text_def)

lemma exported_structure:
  assumes "r = export_row db k (v, so)"
  shows "structural_errors r v = []"
proof -
  obtain extra where "xr_texts r = common_texts v @ extra" by (cases so) (auto simp: assms export_row_def)
  moreover have "parseImportNumber (number_cell r ''Politica minimo'') = it_policy_min (av_item v)"
    "parseImportNumber (number_cell r ''Politica maximo'') = it_policy_max (av_item v)"
    by (cases so; simp add: assms export_row_def number_cell_def policy_cells_def)+
  ultimately show ?thesis using policy_read by blast
qed

section \<open>The rows and their warehouses\<close>

text \<open>What the rows of the export are.\<close>

lemma plan_cases:
  assumes "(v, so) \<in> set (export_plan u db)"
  shows "v \<in> set (tenant_views (user_tenant u) db)"
    and "so = Some s \<Longrightarrow> s \<in> set (stocks db) \<and> st_item s = it_id (av_item v)
      \<and> (\<exists>w \<in> set (warehouses db). wh_id w = st_wh s \<and> warehouseContractScopeWhere u w)"
  using assms by (auto simp: export_plan_def item_rows_def Let_def list_ex_iff split: if_splits)

lemma plan_row:
  assumes "r \<in> set (getInventoryMasterExcelBuffer u db)"
  obtains k v so where "(v, so) \<in> set (export_plan u db)" "r = export_row db k (v, so)"
  using assms by (auto simp: getInventoryMasterExcelBuffer_def Let_def dest!: set_zip_rightD intro: that)

text \<open>The code of the warehouse of a stock row finds that warehouse.\<close>

lemma code_finds:
  assumes "codes_tidy t db" and "w \<in> set (warehouses db)" "wh_tenant w = t" "seen w"
    and "\<And>x. seen x \<Longrightarrow> wh_tenant x = t"
  shows "map_get wh_code (filter seen (warehouses db)) (normalizeImportKey (wh_code w)) = Some w"
proof -
  let ?ws = "filter seen (warehouses db)"
  have "?ws = filter seen (filter (\<lambda>w. wh_tenant w = t) (warehouses db))" using assms(5) by (auto intro!: filter_cong)
  moreover have "distinct (map (\<lambda>w. normalizeImportKey (wh_code w)) (filter seen (filter (\<lambda>w. wh_tenant w = t) (warehouses db))))"
    by (rule distinct_map_filter) (use assms(1) in \<open>simp add: codes_tidy_def Let_def\<close>)
  ultimately have "distinct (map (\<lambda>w. normalizeImportKey (wh_code w)) (rev ?ws))"
    by (simp add: rev_map[symmetric])
  from find_row_unique[OF this, of w] show ?thesis using assms(2,4) by (simp add: map_get_def)
qed

lemma exported_warehouse:
  assumes "w \<in> set (warehouses db)" "wh_id w = st_wh s" and "distinct (map wh_id (warehouses db))"
    and "codes_tidy (user_tenant u) db" and "warehouseContractScopeWhere u w"
  shows "find_row (\<lambda>x. wh_id x = st_wh s) (warehouses db) = Some w"
    and "getImportNullableString (export_row db k (v, Some s)) ''Bodega codigo'' = Some (normalizeImportText (wh_code w))"
    and "warehouseByCode (warehouseContractScopeWhere u) (export_row db k (v, Some s)) db = Some w"
    and "warehouseByCode (\<lambda>x. wh_tenant x = user_tenant u) (export_row db k (v, Some s)) db = Some w"
proof -
  have t: "wh_tenant w = user_tenant u" using assms(5) by (simp add: warehouseContractScopeWhere_def)
  show f: "find_row (\<lambda>x. wh_id x = st_wh s) (warehouses db) = Some w"
    using find_row_unique[OF assms(3,1)] assms(2) by simp
  have "normalizeImportText (wh_code w) \<noteq> []" using assms(1,4) t by (auto simp: codes_tidy_def Let_def list_all_iff)
  then show code: "getImportNullableString (export_row db k (v, Some s)) ''Bodega codigo'' = Some (normalizeImportText (wh_code w))"
    by (simp add: getImportNullableString_def getImportString_def export_row_def common_texts_def Let_def f opt_text_def or_null_def)
  show "warehouseByCode (warehouseContractScopeWhere u) (export_row db k (v, Some s)) db = Some w"
    "warehouseByCode (\<lambda>x. wh_tenant x = user_tenant u) (export_row db k (v, Some s)) db = Some w"
    using code_finds[OF assms(4,1) t, of "warehouseContractScopeWhere u"]
      code_finds[OF assms(4,1) t, of "\<lambda>x. wh_tenant x = user_tenant u"] assms(5) t
    by (simp_all add: warehouseByCode_def code) (simp add: warehouseContractScopeWhere_def)
qed

lemma row_finds_article:
  assumes "v \<in> set (tenant_views (user_tenant u) db)" and "distinct (map it_id (items db))" and "ids_tidy (user_tenant u) db"
  shows "find_view u (export_row db k (v, so)) db = Some v"
    "getImportNullableString (export_row db k (v, so)) ''ID articulo'' = Some (it_id (av_item v))"
proof -
  have i: "it_id (av_item v) \<noteq> []" "normalizeImportText (it_id (av_item v)) = it_id (av_item v)"
    using view_in[OF assms(1)] assms(3) by (auto simp: ids_tidy_def list_all_iff)
  then show g: "getImportNullableString (export_row db k (v, so)) ''ID articulo'' = Some (it_id (av_item v))"
    by (cases so) (simp_all add: getImportNullableString_def getImportString_def export_row_def common_texts_def Let_def or_null_def)
  have "distinct (map (\<lambda>v. it_id (av_item v)) (rev (tenant_views (user_tenant u) db)))"
    using views_distinct[OF assms(2)] by (simp add: rev_map[symmetric])
  from find_row_unique[OF this, of v] show "find_view u (export_row db k (v, so)) db = Some v"
    using assms(1) by (simp add: find_view_def g Let_def comp_def or_else_def)
qed

section \<open>The preview of an exported row\<close>

lemma find_row_only:
  assumes "x \<in> set xs" "p x" and "\<And>y. y \<in> set xs \<Longrightarrow> p y \<Longrightarrow> y = x"
  shows "find_row p xs = Some x"
proof (cases "find_row p xs")
  case None
  then show ?thesis using assms(1,2) unfolding find_row_None_iff by blast
next
  case (Some y)
  then show ?thesis using find_row_SomeD[OF Some] assms(3) by blast
qed

lemma normalize_Nil [simp]: "normalizeImportText [] = []"
  by (simp only: normalizeImportText_def trim_def squeeze.simps dropWhile.simps rev.simps)

lemma clean_None [simp]: "clean None"
  unfolding clean_def opt_text_def option.case normalize_Nil by (simp add: or_null_def)

lemma exported_stock_row:
  assumes "s \<in> set (stocks db)" "st_item s = it_id (av_item v)" "v \<in> set (tenant_views (user_tenant u) db)"
    and "w \<in> set (warehouses db)" "wh_id w = st_wh s" "warehouseContractScopeWhere u w"
    and "distinct (map wh_id (warehouses db))" "tidy (user_tenant u) db"
  shows "existingStock (export_row db k (v, Some s)) v db = Some s"
proof -
  note wh = exported_warehouse[OF assms(4,5,7) _ assms(6)]
  have c: "codes_tidy (user_tenant u) db" and st: "stocks_tidy (user_tenant u) db" using assms(8) by (simp_all add: tidy_def)
  have t: "wh_tenant w = user_tenant u" using assms(6) by (simp add: warehouseContractScopeWhere_def)
  have one: "y = s" if y: "y \<in> set (stocks db)" "st_item y = it_id (av_item v)"
    "map_option (normalizeImportKey \<circ> wh_code) (find_row (\<lambda>x. wh_id x = st_wh y) (warehouses db)) = Some (normalizeImportKey (wh_code w))" for y
  proof -
    obtain x where x: "x \<in> set (warehouses db)" "wh_id x = st_wh y" "wh_tenant x = user_tenant u"
      using st view_in[OF assms(3)] y(1,2) by (fastforce simp: stocks_tidy_def list_all_iff list_ex_iff)
    then have "find_row (\<lambda>x. wh_id x = st_wh y) (warehouses db) = Some x"
      using find_row_unique[OF assms(7), of x] by simp
    with y(3) have "normalizeImportKey (wh_code x) = normalizeImportKey (wh_code w)" by simp
    then have "x = w"
      using c x assms(4) t
        row_unique[of "\<lambda>w. normalizeImportKey (wh_code w)" "filter (\<lambda>w. wh_tenant w = user_tenant u) (warehouses db)" x w]
      by (simp add: codes_tidy_def Let_def)
    then have same: "(st_wh y, st_item y) = (st_wh s, st_item s)" using x(2) assms(2,5) y(2) by simp
    have "distinct (map (\<lambda>s. (st_wh s, st_item s)) (stocks db))" using st by (simp add: stocks_tidy_def)
    then show ?thesis by (rule row_unique[OF _ y(1) assms(1) same])
  qed
  show ?thesis
    unfolding existingStock_def wh(2)[OF c] Option.bind.simps key_normalized
  proof (rule find_row_only)
    show "st_item s = it_id (av_item v) \<and> map_option (normalizeImportKey \<circ> wh_code)
        (find_row (\<lambda>w. wh_id w = st_wh s) (warehouses db)) = Some (normalizeImportKey (wh_code w))"
      using assms(2) wh(1)[OF c] by simp
  qed (use assms(1) one in blast)+
qed

lemma exported_numbers:
  assumes "importable_stock decimals s" and "r = export_row db k (v, Some s)"
  shows "row_numbers r True = ([], Some (st_qty s), Some (st_min s), Some (st_max s))"
  using assms
  by (simp add: importable_stock_def row_numbers_def importNumberRequired_def importNonNegativeNumber_def export_row_def
      number_cell_def Let_def)

lemma exported_number_errors:
  assumes "importable_stock decimals s" and "r = export_row db k (v, Some s)" and "getImportNullableString r ''Bodega codigo'' \<noteq> None"
  shows "number_errors r True decimals = []"
  using assms(1,3) exported_numbers[OF assms(1,2)] by (auto simp: number_errors_def importable_stock_def)

lemma exported_place:
  assumes "clean (st_location s)" and "list_all (\<lambda>b. clean (Some (bn_code b))) (bins db)"
  shows "getImportNullableString (export_row db k (v, Some s)) ''Ubicacion stock'' = st_location s"
    and "getImportNullableString (export_row db k (v, Some s)) ''Bin codigo'' = bin_code_of db s"
proof -
  have "clean (bin_code_of db s)"
  proof (cases "bin_code_of db s")
    case (Some c)
    then obtain i x where x: "find_row (\<lambda>x. bn_id x = i) (bins db) = Some x" "bn_code x = c"
      by (auto simp: bin_code_of_def split: Option.bind_splits)
    then show ?thesis using assms(2) find_row_SomeD[OF x(1)] Some by (auto simp: list_all_iff)
  qed simp
  then show "getImportNullableString (export_row db k (v, Some s)) ''Bin codigo'' = bin_code_of db s"
    by (simp add: getImportNullableString_def getImportString_def export_row_def common_texts_def Let_def clean_def)
  show "getImportNullableString (export_row db k (v, Some s)) ''Ubicacion stock'' = st_location s"
    using assms(1) by (simp add: getImportNullableString_def getImportString_def export_row_def common_texts_def Let_def clean_def)
qed

lemma exported_bin:
  assumes "places_ok db" and "bin_code_of db s = Some b"
  shows "find_bin_by_key (st_wh s) b db \<noteq> None"
proof -
  obtain i x where i: "map_of (stock_bins db) (st_wh s, st_item s) = Some i" "find_row (\<lambda>x. bn_id x = i) (bins db) = Some x" "bn_code x = b"
    using assms(2) by (auto simp: bin_code_of_def split: Option.bind_splits)
  obtain y where y: "y \<in> set (bins db)" "bn_id y = i" "bn_wh y = st_wh s"
    using assms(1) map_of_SomeD[OF i(1)] by (fastforce simp: places_ok_def list_all_iff list_ex_iff)
  have "x = y"
    using find_row_SomeD[OF i(2)] y assms(1) row_unique[of bn_id "bins db" x y] by (simp add: places_ok_def)
  then show ?thesis using y i(3) by (auto simp: find_bin_by_key_def find_row_None_iff)
qed

definition exported_key :: "'a cat_db_scheme \<Rightarrow> article_view \<times> item_stock option \<Rightarrow> string" where
  "exported_key db vs = it_id (av_item (fst vs)) @ CHR '':'' #
     (case snd vs of None \<Rightarrow> ''NO_WAREHOUSE''
      | Some s \<Rightarrow> normalizeImportText (opt_text (map_option wh_code (find_row (\<lambda>w. wh_id w = st_wh s) (warehouses db)))))"

lemma exported_preview_stock:
  assumes "(v, Some s) \<in> set (export_plan u db)" and "catalogue_ok db" "tidy (user_tenant u) db"
  shows "preview_of u db (export_row db k (v, Some s)) = \<lparr>pv_row = k, pv_key = exported_key db (v, Some s),
    pv_action = ACTION_NO_CHANGE, pv_errors = [], pv_changes = [], pv_new_bin = False\<rparr>"
proof -
  let ?r = "export_row db k (v, Some s)"
  have ok: "distinct (map it_id (items db))" "distinct (map wh_id (warehouses db))" "places_ok db"
    "ids_tidy (user_tenant u) db" "codes_tidy (user_tenant u) db" "stocks_tidy (user_tenant u) db"
    using assms(2,3) by (simp_all add: catalogue_ok_def articles_ok_def places_ok_def tidy_def)
  have v: "v \<in> set (tenant_views (user_tenant u) db)" using plan_cases(1)[OF assms(1)] .
  obtain w where s: "s \<in> set (stocks db)" "st_item s = it_id (av_item v)"
    and w: "w \<in> set (warehouses db)" "wh_id w = st_wh s" "warehouseContractScopeWhere u w"
    using plan_cases(2)[OF assms(1) refl] by blast
  have num: "importable_stock (it_uom_decimals (av_item v)) s" and bins: "list_all (\<lambda>b. clean (Some (bn_code b))) (bins db)"
    using ok(6) s view_in[OF v] by (auto simp: stocks_tidy_def list_all_iff)
  then have loc: "clean (st_location s)" by (simp add: importable_stock_def)
  note wh = exported_warehouse[OF w(1,2) ok(2,5) w(3)]
  note art = row_finds_article[OF v ok(1,4)]
  have ex: "existingStock ?r v db = Some s" by (rule exported_stock_row[OF s v w ok(2) assms(3)])
  have "stock_row_changes ?r v True db = []"
    by (simp add: stock_row_changes_def Let_def ex or_zero_def exported_numbers[OF num refl] exported_place[OF loc bins])
  moreover have "number_errors ?r True (it_uom_decimals (av_item v)) = []"
    by (rule exported_number_errors[OF num refl]) (simp add: wh(2))
  moreover have "\<not> (case bin_code_of db s of None \<Rightarrow> False | Some b \<Rightarrow> find_bin_by_key (wh_id w) b db = None)"
    using exported_bin[OF ok(3)] w(2) by (simp split: option.split)
  ultimately show ?thesis
    using exported_structure[OF refl, of db k v "Some s"] wh art exported_place(2)[OF loc bins]
    by (simp add: preview_of_def Let_def exported_key_def opt_text_def) (simp add: export_row_def)
qed

lemma exported_preview_bare:
  assumes "(v, None) \<in> set (export_plan u db)" and "catalogue_ok db" "tidy (user_tenant u) db"
  shows "preview_of u db (export_row db k (v, None)) = \<lparr>pv_row = k, pv_key = exported_key db (v, None),
    pv_action = ACTION_NO_CHANGE, pv_errors = [], pv_changes = [], pv_new_bin = False\<rparr>"
proof -
  let ?r = "export_row db k (v, None)"
  have ok: "distinct (map it_id (items db))" "ids_tidy (user_tenant u) db"
    using assms(2,3) by (simp_all add: catalogue_ok_def articles_ok_def tidy_def)
  note art = row_finds_article[OF plan_cases(1)[OF assms(1)] ok]
  have code: "getImportNullableString ?r ''Bodega codigo'' = None" "getImportNullableString ?r ''Bin codigo'' = None"
    by (simp_all add: getImportNullableString_def getImportString_def export_row_def common_texts_def Let_def or_null_def)
  have cells: "number_cell ?r ''Stock'' = Number 0" "number_cell ?r ''Stock minimo'' = Blank" "number_cell ?r ''Stock maximo'' = Blank"
    by (simp_all add: number_cell_def export_row_def policy_cells_def)
  show ?thesis
    using exported_structure[OF refl, of db k v None] art
    by (simp add: preview_of_def Let_def exported_key_def warehouseByCode_def code number_errors_def row_numbers_def cells
        stock_row_changes_def existingStock_def or_zero_def) (simp add: export_row_def)
qed

section \<open>No row twice\<close>

lemma split_at_colon:
  "xs @ c # ys = xs' @ c # ys' \<Longrightarrow> c \<notin> set xs \<Longrightarrow> c \<notin> set xs' \<Longrightarrow> xs = xs' \<and> ys = ys'"
  by (induction xs arbitrary: xs') (auto simp: Cons_eq_append_conv)

lemma plan_distinct:
  assumes "distinct (map it_id (items db))" and "distinct (map (\<lambda>s. (st_wh s, st_item s)) (stocks db))"
  shows "distinct (export_plan u db)"
proof -
  have "distinct vs \<Longrightarrow> (\<And>v. distinct (g v)) \<Longrightarrow> distinct (concat (map (\<lambda>v. map (Pair v) (g v)) vs))"
    for vs :: "article_view list" and g :: "article_view \<Rightarrow> item_stock option list"
    by (induction vs) (auto simp: distinct_map inj_on_def)
  moreover have "distinct (item_rows u db v)" for v
    using assms(2) by (auto simp: item_rows_def Let_def distinct_map inj_on_def)
  moreover have "distinct (tenant_views (user_tenant u) db)"
    using views_distinct[OF assms(1)] by (simp add: distinct_map)
  ultimately show ?thesis unfolding export_plan_def by blast
qed

lemma plan_iff: "(v, so) \<in> set (export_plan u db) \<longleftrightarrow> v \<in> set (tenant_views (user_tenant u) db) \<and> so \<in> set (item_rows u db v)"
  by (auto simp: export_plan_def)

lemma plan_not_both: "(v, None) \<in> set (export_plan u db) \<Longrightarrow> (v, Some s) \<notin> set (export_plan u db)"
  by (auto simp: plan_iff item_rows_def Let_def split: if_splits)

text \<open>Two rows of one article have warehouses with different codes.\<close>

lemma plan_codes:
  assumes "(v, Some s) \<in> set (export_plan u db)" "(v, Some y) \<in> set (export_plan u db)"
    and "exported_key db (v, Some s) = exported_key db (v, Some y)"
    and "catalogue_ok db" "tidy (user_tenant u) db"
  shows "s = y"
proof -
  have ok: "distinct (map wh_id (warehouses db))" "codes_tidy (user_tenant u) db" "distinct (map (\<lambda>s. (st_wh s, st_item s)) (stocks db))"
    using assms(4,5) by (simp_all add: catalogue_ok_def places_ok_def tidy_def stocks_tidy_def)
  note a = plan_cases(2)[OF assms(1) refl] and b = plan_cases(2)[OF assms(2) refl]
  obtain w x where w: "w \<in> set (warehouses db)" "wh_id w = st_wh s" "warehouseContractScopeWhere u w"
    and x: "x \<in> set (warehouses db)" "wh_id x = st_wh y" "warehouseContractScopeWhere u x" using a b by blast
  have "normalizeImportText (wh_code w) = normalizeImportText (wh_code x)"
    using assms(3) exported_warehouse(1)[OF w(1,2) ok(1,2) w(3)] exported_warehouse(1)[OF x(1,2) ok(1,2) x(3)]
    by (simp add: exported_key_def opt_text_def)
  then have k: "normalizeImportKey (wh_code w) = normalizeImportKey (wh_code x)" by (metis key_normalized)
  have "distinct (map (\<lambda>w. normalizeImportKey (wh_code w)) (filter (\<lambda>w. wh_tenant w = user_tenant u) (warehouses db)))"
    using ok(2) by (simp add: codes_tidy_def Let_def)
  from row_unique[OF this _ _ k] have "w = x" using w x by (simp add: warehouseContractScopeWhere_def)
  then have "(st_wh s, st_item s) = (st_wh y, st_item y)" using w(2) x(2) a b by simp
  then show ?thesis using row_unique[OF ok(3)] a b by blast
qed

lemma exported_keys:
  assumes "catalogue_ok db" and "tidy (user_tenant u) db"
  shows "distinct (map (exported_key db) (export_plan u db))"
proof -
  have ok: "distinct (map it_id (items db))" "distinct (map wh_id (warehouses db))"
    "ids_tidy (user_tenant u) db" "codes_tidy (user_tenant u) db" "stocks_tidy (user_tenant u) db"
    using assms by (simp_all add: catalogue_ok_def articles_ok_def places_ok_def tidy_def)
  have cells: "distinct (map (\<lambda>s. (st_wh s, st_item s)) (stocks db))" using ok(5) by (simp add: stocks_tidy_def)
  have "x = y" if x: "x \<in> set (export_plan u db)" and y: "y \<in> set (export_plan u db)" and k: "exported_key db x = exported_key db y" for x y
  proof -
    obtain v so v' so' where p: "x = (v, so)" "y = (v', so')" by (cases x; cases y)
    note vs = plan_cases(1)[OF x[unfolded p]] plan_cases(1)[OF y[unfolded p]]
    have colon: "CHR '':'' \<notin> set (it_id (av_item v))" "CHR '':'' \<notin> set (it_id (av_item v'))"
      using view_in[OF vs(1)] view_in[OF vs(2)] ok(3) by (auto simp: ids_tidy_def list_all_iff)
    have i: "it_id (av_item v) = it_id (av_item v')" and c: "exported_key db (v, so) = exported_key db (v', so')"
      using split_at_colon[OF k[unfolded p exported_key_def fst_conv] colon] k p by (simp_all del: append.simps)
    have v: "v = v'" using row_unique[OF views_distinct[OF ok(1)] vs] i by simp
    show ?thesis
    proof (cases so)
      case None
      then show ?thesis using plan_not_both x y p v by (cases so') auto
    next
      case (Some s)
      then obtain s' where "so' = Some s'" using plan_not_both x y p v by (cases so') auto
      then show ?thesis using plan_codes[OF _ _ _ assms] x y c p v Some by blast
    qed
  qed
  then show ?thesis using plan_distinct[OF ok(1) cells] by (simp add: distinct_map inj_on_def)
qed

section \<open>The round trip\<close>

lemma skip_all:
  assumes "\<forall>p \<in> set ps. pv_action p = ACTION_NO_CHANGE" and "length rs = length ps"
  shows "foldl (\<lambda>m rp. and_then m (commit_row newId autoCreate u db0 rp)) (Inr (n, db)) (zip rs ps)
    = Inr (n\<lparr>sc_unchanged := sc_unchanged n + length ps\<rparr>, db)"
  using assms(2,1)
proof (induction rs ps arbitrary: n rule: list_induct2)
  case (Cons r rs p ps)
  then show ?case by (simp add: commit_row_def)
qed simp

lemma map_second: "length ks = length xs \<Longrightarrow> map (\<lambda>(k, x). g x) (zip ks xs) = map g xs"
  by (induction ks xs rule: list_induct2) auto

lemma not_repeated: "distinct ks \<Longrightarrow> \<not> 1 < length (filter (\<lambda>x. x = k) ks)"
  by (induction ks) (auto simp: filter_empty_conv)

lemma all_unchanged:
  assumes "catalogue_ok db" and "tidy (user_tenant u) db"
    and "ps = validateInventoryMasterImport u db (getInventoryMasterExcelBuffer u db)"
  shows "length ps = length (getInventoryMasterExcelBuffer u db)"
    and "\<forall>p \<in> set ps. pv_action p = ACTION_NO_CHANGE \<and> pv_errors p = [] \<and> \<not> pv_new_bin p"
proof -
  let ?rows = "getInventoryMasterExcelBuffer u db" and ?ps = "map (preview_of u db) (getInventoryMasterExcelBuffer u db)"
  have one: "preview_of u db (export_row db k vs) = \<lparr>pv_row = k, pv_key = exported_key db vs,
      pv_action = ACTION_NO_CHANGE, pv_errors = [], pv_changes = [], pv_new_bin = False\<rparr>" if "vs \<in> set (export_plan u db)" for k vs
  proof -
    obtain v so where vs: "vs = (v, so)" by (rule prod.exhaust)
    show ?thesis
      using that exported_preview_stock[OF _ assms(1,2)] exported_preview_bare[OF _ assms(1,2)] unfolding vs
      by (induction so) blast+
  qed
  have "map pv_key ?ps = map (\<lambda>(k, vs). exported_key db vs) (zip [0 ..< length (export_plan u db)] (export_plan u db))"
    unfolding getInventoryMasterExcelBuffer_def Let_def list.map_comp
    by (rule map_cong[OF refl]) (auto simp: one dest!: set_zip_rightD)
  also have "\<dots> = map (exported_key db) (export_plan u db)" by (rule map_second) simp
  finally have "distinct (map pv_key ?ps)" using exported_keys[OF assms(1,2)] by simp
  then have "\<not> 1 < length (filter (\<lambda>p. pv_key p = k) ?ps)" for k
    using not_repeated[of "map pv_key ?ps" k] by (simp add: filter_map comp_def)
  then have ps: "ps = ?ps" by (simp add: assms(3) validateInventoryMasterImport_def Let_def)
  show "length ps = length ?rows" by (simp add: ps)
  show "\<forall>p \<in> set ps. pv_action p = ACTION_NO_CHANGE \<and> pv_errors p = [] \<and> \<not> pv_new_bin p"
  proof
    fix p assume "p \<in> set ps"
    then obtain r where r: "r \<in> set ?rows" "p = preview_of u db r" unfolding ps by auto
    obtain k v so where vs: "(v, so) \<in> set (export_plan u db)" "r = export_row db k (v, so)" by (rule plan_row[OF r(1)])
    show "pv_action p = ACTION_NO_CHANGE \<and> pv_errors p = [] \<and> \<not> pv_new_bin p"
      unfolding r(2) vs(2) one[OF vs(1)] by simp
  qed
qed

text \<open>
  Exporting the inventory and importing the file again changes nothing: where the master data has
  its shape, the codes of the company's warehouses differ in letters or digits, and the stock in reach
  has numbers the import accepts (none below zero, whole where the unit asks for it) and texts without
  stray blanks, every row of the file that \<open>getInventoryMasterExcelBuffer\<close> writes is previewed without
  error and without change, and the commit leaves the whole database as it was.
\<close>
theorem import_of_an_export_changes_nothing:
  assumes "catalogue_ok db" and "tidy (user_tenant u) db" and "acting_user_id u \<noteq> []"
  shows "commitInventoryMasterImport newId allowStock autoCreate (getInventoryMasterExcelBuffer u db) u db
    = Inr (\<lparr>sc_updated = 0, sc_unchanged = length (getInventoryMasterExcelBuffer u db), sc_adjusted = 0\<rparr>, db)"
proof -
  define ps where "ps = validateInventoryMasterImport u db (getInventoryMasterExcelBuffer u db)"
  note p = all_unchanged[OF assms(1,2) ps_def]
  have "\<not> list_ex (\<lambda>p. pv_errors p \<noteq> []) ps" "\<not> list_ex pv_new_bin ps" "\<not> list_ex (\<lambda>p. pv_action p = ACTION_UPDATE) ps"
    using p(2) by (auto simp: list_ex_iff)
  moreover have "foldl (\<lambda>m rp. and_then m (commit_row newId autoCreate u db rp))
      (Inr (\<lparr>sc_updated = 0, sc_unchanged = 0, sc_adjusted = 0\<rparr>, db)) (zip (getInventoryMasterExcelBuffer u db) ps)
    = Inr (\<lparr>sc_updated = 0, sc_unchanged = 0, sc_adjusted = 0\<rparr>\<lparr>sc_unchanged := 0 + length ps\<rparr>, db)"
    using skip_all[of ps _ newId autoCreate u db "\<lparr>sc_updated = 0, sc_unchanged = 0, sc_adjusted = 0\<rparr>" db] p by simp
  ultimately show ?thesis
    using assms(3) p(1) by (simp add: commitInventoryMasterImport_def ps_def[symmetric] Let_def)
qed

lemma oil_tidy:
  "(case oil_in_stock of Inl _ \<Rightarrow> False | Inr db \<Rightarrow> tidy ''t'' db)"
  "(case oil_in_stock of Inl _ \<Rightarrow> False | Inr db \<Rightarrow> catalogue_ok db)"
  "(case oil_in_stock of Inl _ \<Rightarrow> False | Inr db \<Rightarrow> length (getInventoryMasterExcelBuffer plain_user db) = 2)"
  by code_simp+

lemma import_of_an_export_changes_nothing_witness:
  "\<exists>db. oil_in_stock = Inr db \<and> stock_qty ''w1'' ''i2'' db = 3
     \<and> commitInventoryMasterImport id True True (getInventoryMasterExcelBuffer plain_user db) plain_user db
       = Inr (\<lparr>sc_updated = 0, sc_unchanged = 2, sc_adjusted = 0\<rparr>, db)"
proof -
  obtain db where o: "oil_in_stock = Inr db" using oil_tidy(1) by (auto split: sum.splits)
  have db: "tidy ''t'' db" "catalogue_ok db" "length (getInventoryMasterExcelBuffer plain_user db) = 2"
    "stock_qty ''w1'' ''i2'' db = 3"
    using oil_tidy[unfolded o sum.case] only_oil_left_ends(2)[unfolded o sum.case] by auto
  have "tidy (user_tenant plain_user) db" "acting_user_id plain_user \<noteq> []" using db(1) by simp_all
  from import_of_an_export_changes_nothing[OF db(2) this, of id True True] db o show ?thesis by (intro exI[of _ db]) simp
qed

end
