(* ===== verification/Import_Safety.thy ===== *)
theory Import_Safety
  imports Import_Round_Trip
begin

text \<open>
  What an import of stock can change.
\<close>

section \<open>One row\<close>

definition same_catalogue :: "'a cat_db_scheme \<Rightarrow> 'a cat_db_scheme \<Rightarrow> bool" where
  "same_catalogue db db' \<longleftrightarrow> items db' = items db \<and> articles db' = articles db \<and> categories db' = categories db
     \<and> uoms db' = uoms db \<and> suppliers db' = suppliers db \<and> warehouses db' = warehouses db \<and> vendors db' = vendors db"

text \<open>The row that gives a position its new quantity.\<close>

definition row_sets :: "user \<Rightarrow> 'a cat_db_scheme \<Rightarrow> id \<Rightarrow> id \<Rightarrow> qty \<Rightarrow> excel_row \<Rightarrow> bool" where
  "row_sets u db w i q r \<longleftrightarrow> (\<exists>v x. find_view u r db = Some v \<and> it_id (av_item v) = i
     \<and> warehouseByCode (warehouseContractScopeWhere u) r db = Some x \<and> wh_id x = w \<and> userCanAccessContractId u (Some (wh_contract x))
     \<and> or_zero (parseImportNumber (number_cell r ''Stock'')) = q)"

lemma import_bin_frame:
  assumes "import_bin newId autoCreate w c db = (b, db')"
  shows "same_catalogue db db'" "stocks db' = stocks db" "txs db' = txs db" "transfers db' = transfers db"
  using assms by (auto simp: import_bin_def same_catalogue_def Let_def split: option.splits if_splits)

lemma set_stock_bin_frame [simp]:
  "same_catalogue db (set_stock_bin w i b db') = same_catalogue db db'" "stocks (set_stock_bin w i b db) = stocks db"
  "txs (set_stock_bin w i b db) = txs db" "transfers (set_stock_bin w i b db) = transfers db"
  by (simp_all add: set_stock_bin_def same_catalogue_def)

lemma import_stock_row_frame:
  "same_catalogue db (import_stock_row userId row db') = same_catalogue db db'"
  by (simp add: import_stock_row_def Let_def same_catalogue_def upsert_stock_def add_tx_def)

lemma import_stock_row_transfers [simp]: "transfers (import_stock_row userId row db) = transfers db"
  by (simp add: import_stock_row_def Let_def upsert_stock_def add_tx_def)

lemma import_stock_row_sets:
  "stock_qty w i (import_stock_row userId row db) = (if (w, i) = (im_wh row, im_item row) then or_zero (im_qty row) else stock_qty w i db)"
  by (simp add: import_stock_row_def Let_def stock_qty_upsert)

lemma import_stock_row_posts:
  "\<exists>ts. txs (import_stock_row userId row db) = txs db @ ts
     \<and> list_all (\<lambda>t. tx_type t = ADJUST \<and> tx_user t = userId \<and> tx_qty t = tx_new t - tx_prev t \<and> \<not> tx_pending t) ts"
  by (simp add: import_stock_row_def Let_def upsert_stock_def add_tx_def)

definition adjusts :: "id \<Rightarrow> 'a cat_db_scheme \<Rightarrow> 'a cat_db_scheme \<Rightarrow> bool" where
  "adjusts userId db db' \<longleftrightarrow> transfers db' = transfers db \<and> (\<exists>ts. txs db' = txs db @ ts
     \<and> list_all (\<lambda>t. tx_type t = ADJUST \<and> tx_user t = userId \<and> tx_qty t = tx_new t - tx_prev t \<and> \<not> tx_pending t) ts)"

lemma adjusts_trans: "adjusts i a b \<Longrightarrow> adjusts i b c \<Longrightarrow> adjusts i a c"
  by (fastforce simp: adjusts_def)

lemma commit_row_effect:
  assumes "commit_row newId autoCreate u db0 (r, p) (n, db) = Inr (n', db')"
  shows "same_catalogue db db'" "adjusts (acting_user_id u) db db'"
    and "stock_qty w i db' = stock_qty w i db \<or> pv_action p \<noteq> ACTION_ERROR \<and> row_sets u db0 w i (stock_qty w i db') r"
proof -
  consider (same) "db' = db" | (written) v x b db1 where
      "find_view u r db0 = Some v" "warehouseByCode (warehouseContractScopeWhere u) r db0 = Some x"
      "userCanAccessContractId u (Some (wh_contract x))" "pv_action p \<noteq> ACTION_ERROR"
      "import_bin newId autoCreate (wh_id x) (getImportNullableString r ''Bin codigo'') db = (b, db1)"
      "db' = set_stock_bin (wh_id x) (it_id (av_item v)) b (import_stock_row (acting_user_id u) (sheet_row (wh_id x) (it_id (av_item v)) r) db1)"
    using assms by (auto simp: commit_row_def Let_def split: if_splits option.splits prod.splits)
  then have "same_catalogue db db' \<and> adjusts (acting_user_id u) db db'
    \<and> (stock_qty w i db' = stock_qty w i db \<or> pv_action p \<noteq> ACTION_ERROR \<and> row_sets u db0 w i (stock_qty w i db') r)"
  proof cases
    case same
    then show ?thesis by (simp add: same_catalogue_def adjusts_def)
  next
    case written
    note b = import_bin_frame[OF written(5)]
    let ?row = "sheet_row (wh_id x) (it_id (av_item v)) r"
    have "stock_qty w i db' = (if (w, i) = (im_wh ?row, im_item ?row) then or_zero (im_qty ?row) else stock_qty w i db1)"
      unfolding written(6) by (simp add: stock_qty_def find_stock_def import_stock_row_sets[unfolded stock_qty_def find_stock_def])
    then show ?thesis
      using written b import_stock_row_posts[of "acting_user_id u" ?row db1]
      by (auto simp: import_stock_row_frame adjusts_def row_sets_def stock_qty_cong[OF b(2)] sheet_row_def)
  qed
  then show "same_catalogue db db'" "adjusts (acting_user_id u) db db'"
    "stock_qty w i db' = stock_qty w i db \<or> pv_action p \<noteq> ACTION_ERROR \<and> row_sets u db0 w i (stock_qty w i db') r" by blast+
qed

section \<open>The whole file\<close>

lemma and_then_loop_Inl: "foldl (\<lambda>m x. and_then m (f x)) (Inl e) xs = Inl e"
  by (induction xs) simp_all

lemma commit_loop_effect:
  assumes "foldl (\<lambda>m rp. and_then m (commit_row newId autoCreate u db0 rp)) (Inr (n, db)) rps = Inr (n', db')"
  shows "same_catalogue db db' \<and> adjusts (acting_user_id u) db db'
    \<and> (stock_qty w i db' = stock_qty w i db
       \<or> (\<exists>r p. (r, p) \<in> set rps \<and> pv_action p \<noteq> ACTION_ERROR \<and> row_sets u db0 w i (stock_qty w i db') r))"
  using assms
proof (induction rps arbitrary: n db)
  case Nil
  then show ?case by (simp add: same_catalogue_def adjusts_def)
next
  case (Cons rp rps)
  obtain r p where rp: "rp = (r, p)" by (rule prod.exhaust)
  have "\<exists>m d. commit_row newId autoCreate u db0 (r, p) (n, db) = Inr (m, d)"
    using Cons.prems rp by (cases "commit_row newId autoCreate u db0 (r, p) (n, db)") (auto simp: and_then_loop_Inl)
  then obtain m d where row: "commit_row newId autoCreate u db0 (r, p) (n, db) = Inr (m, d)" by blast
  then have "foldl (\<lambda>m rp. and_then m (commit_row newId autoCreate u db0 rp)) (Inr (m, d)) rps = Inr (n', db')"
    using Cons.prems rp by simp
  note rest = Cons.IH[OF this] and first = commit_row_effect[OF row]
  have "same_catalogue db db'" using rest first(1) by (simp add: same_catalogue_def)
  moreover have "adjusts (acting_user_id u) db db'" using rest first(2) adjusts_trans by blast
  moreover have "stock_qty w i db' = stock_qty w i db
       \<or> (\<exists>r p. (r, p) \<in> set (rp # rps) \<and> pv_action p \<noteq> ACTION_ERROR \<and> row_sets u db0 w i (stock_qty w i db') r)"
    using rest first(3)[of w i] rp by (metis list.set_intros)
  ultimately show ?case by blast
qed

lemma accepted_quantity:
  assumes "pv_errors (preview_of u db r) = []" and "row_sets u db w i q r"
  shows "0 \<le> q"
proof -
  obtain v x where v: "find_view u r db = Some v" and x: "warehouseByCode (warehouseContractScopeWhere u) r db = Some x"
    and q: "or_zero (parseImportNumber (number_cell r ''Stock'')) = q" using assms(2) unfolding row_sets_def by blast
  have "number_errors r True (it_uom_decimals (av_item v)) = []"
    using assms(1) by (simp add: preview_of_def Let_def v x)
  then show ?thesis
    using q by (auto simp: number_errors_def row_numbers_def importNumberRequired_def Let_def or_zero_def not_less
        split: prod.splits if_splits)
qed

lemma validated_pairs:
  assumes "(r, p) \<in> set (zip rows (validateInventoryMasterImport u db rows))" and "pv_errors p = []"
  shows "r \<in> set rows \<and> pv_errors (preview_of u db r) = []"
proof -
  obtain g where g: "validateInventoryMasterImport u db rows = map (\<lambda>r. g (preview_of u db r)) rows"
    "\<And>p. pv_errors (g p) = [] \<Longrightarrow> pv_errors p = []"
    by (rule that[of "\<lambda>p. if 1 < length (filter (\<lambda>x. pv_key x = pv_key p) (map (preview_of u db) rows))
          then p\<lparr>pv_errors := pv_errors p @ [DuplicateRow], pv_action := ACTION_ERROR\<rparr> else p"])
      (auto simp: validateInventoryMasterImport_def Let_def split: if_splits)
  have "r \<in> set rows \<and> p = g (preview_of u db r)" using assms(1) unfolding g(1) by (auto simp: zip_map2 zip_same_conv_map)
  then show ?thesis using g(2) assms(2) by blast
qed

lemma import_sets_stock_effect:
  assumes "commitInventoryMasterImport newId allowStock autoCreate rows u db = Inr (n, db')"
  shows "same_catalogue db db' \<and> adjusts (acting_user_id u) db db'
    \<and> (stock_qty w i db' = stock_qty w i db
       \<or> 0 \<le> stock_qty w i db' \<and> (\<exists>r. r \<in> set rows \<and> row_sets u db w i (stock_qty w i db') r))"
proof -
  let ?ps = "validateInventoryMasterImport u db rows"
  have ok: "pv_errors p = []" if "p \<in> set ?ps" for p
    using assms that by (auto simp: commitInventoryMasterImport_def Let_def list_ex_iff split: if_splits)
  have "foldl (\<lambda>m rp. and_then m (commit_row newId autoCreate u db rp))
      (Inr (\<lparr>sc_updated = 0, sc_unchanged = 0, sc_adjusted = 0\<rparr>, db)) (zip rows ?ps) = Inr (n, db')"
    using assms by (simp add: commitInventoryMasterImport_def Let_def split: if_splits)
  note e = commit_loop_effect[OF this, of w i]
  moreover have "0 \<le> stock_qty w i db' \<and> r \<in> set rows"
    if "(r, p) \<in> set (zip rows ?ps)" "row_sets u db w i (stock_qty w i db') r" for r p
    using validated_pairs[OF that(1) ok[OF set_zip_rightD[OF that(1)]]] accepted_quantity[OF _ that(2)] by blast
  ultimately show ?thesis by blast
qed

text \<open>
  C19. An import changes nothing but stock within reach: whatever the file says, a commit that succeeds
  leaves articles, categories, units, suppliers and warehouses as they were and only adds ADJUST
  movements of the user that post the difference; and every balance it changes becomes the number of a
  row of the file for that article and a warehouse whose contract the user may reach, never below zero.
\<close>
theorem import_sets_stock_in_reach:
  assumes "commitInventoryMasterImport newId allowStock autoCreate rows u db = Inr (n, db')"
  shows "same_catalogue db db' \<and> adjusts (acting_user_id u) db db'
    \<and> (stock_qty w i db' = stock_qty w i db
       \<or> 0 \<le> stock_qty w i db' \<and> (\<exists>r. r \<in> set rows \<and> row_sets u db w i (stock_qty w i db') r))"
  by (rule import_sets_stock_effect[OF assms])

text \<open>A workbook of one row: twelve litres of the oil in the warehouse.\<close>

definition oil_row :: excel_row where
  "oil_row = \<lparr>xr_number = 6,
     xr_texts = [(''Codigo inventario'', ''IN0002''), (''Numero parte'', ''P2''), (''Nombre'', ''Aceite''),
       (''Familia'', ''Filtros''), (''Subcategoria'', ''Aceite''), (''Unidad'', ''LT''), (''Unidad nombre'', ''Litros''),
       (''Permite decimales'', ''NO''), (''Inventariable'', ''SI''), (''Consumible'', ''SI''), (''Activo'', ''NO''),
       (''Serializado'', ''NO''), (''QR payload'', ''INV:i2''), (''Bodega codigo'', ''B1'')],
     xr_cells = [(''Stock'', Number 12)]\<rparr>"

definition import_counted :: "cat_db \<Rightarrow> (stock_counts \<times> cat_db) res" where
  "import_counted db = commitInventoryMasterImport id True True [oil_row] plain_user db"

definition imported :: "(stock_counts \<times> cat_db) res" where
  "imported = and_then oil_in_stock import_counted"

text \<open>Its preview, and the row after it.\<close>

definition oil_preview :: preview_row where
  "oil_preview = \<lparr>pv_row = 6, pv_key = ''i2:B1'', pv_action = ACTION_UPDATE, pv_errors = [],
     pv_changes = [''stock.quantity'', ''stock.minStock'', ''stock.maxStock''], pv_new_bin = False\<rparr>"

definition oil_row_committed :: "cat_db \<Rightarrow> (stock_counts \<times> cat_db) res" where
  "oil_row_committed db = commit_row id True plain_user db (oil_row, oil_preview)
     (\<lparr>sc_updated = 0, sc_unchanged = 0, sc_adjusted = 0\<rparr>, db)"

lemma oil_previewed: "(case oil_in_stock of Inl _ \<Rightarrow> False | Inr db \<Rightarrow> validateInventoryMasterImport plain_user db [oil_row] = [oil_preview])"
  by code_simp

lemma oil_row_ends:
  "(case and_then oil_in_stock oil_row_committed of Inl _ \<Rightarrow> False
     | Inr (n, db) \<Rightarrow> sc_adjusted n = 1 \<and> stock_qty ''w1'' ''i2'' db = 12 \<and> length (txs db) = 2)"
  by code_simp

lemma imported_ends:
  "(case imported of Inl _ \<Rightarrow> False | Inr (n, db) \<Rightarrow> sc_adjusted n = 1 \<and> stock_qty ''w1'' ''i2'' db = 12 \<and> length (txs db) = 2)"
proof -
  obtain db where o: "oil_in_stock = Inr db" using oil_previewed by (auto split: sum.splits)
  have "acting_user_id plain_user \<noteq> []" by simp
  then have "import_counted db = oil_row_committed db"
    using oil_previewed
    by (simp add: import_counted_def commitInventoryMasterImport_def o oil_row_committed_def Let_def)
       (simp add: oil_preview_def)
  then show ?thesis using oil_row_ends by (simp add: imported_def o)
qed

lemma import_sets_stock_in_reach_witness:
  "\<exists>db n db'. oil_in_stock = Inr db \<and> commitInventoryMasterImport id True True [oil_row] plain_user db = Inr (n, db')
     \<and> stock_qty ''w1'' ''i2'' db' = 12 \<and> same_catalogue db db' \<and> adjusts ''u1'' db db'"
proof -
  obtain n db' where i: "imported = Inr (n, db')" "stock_qty ''w1'' ''i2'' db' = 12"
    using imported_ends by (auto split: sum.splits prod.splits)
  from i(1) obtain db where o: "oil_in_stock = Inr db" and c: "commitInventoryMasterImport id True True [oil_row] plain_user db = Inr (n, db')"
    unfolding imported_def and_then_eq_Inr import_counted_def by blast
  have "acting_user_id plain_user = ''u1''" by simp
  with import_sets_stock_in_reach[OF c] o c i(2) show ?thesis by metis
qed

end
