(* ===== verification/Inventory_Flags.thy ===== *)
theory Inventory_Flags
  imports Import_Safety
begin

text \<open>
  The flags of regularisation over the operations of the inventory and the Excel import of stock.
\<close>

section \<open>The import and the flags\<close>

text \<open>An import writes no balance that waits for regularisation.\<close>

definition spares_pending :: "'a inv_db_scheme \<Rightarrow> 'a inv_db_scheme \<Rightarrow> bool" where
  "spares_pending db db' \<longleftrightarrow> (\<forall>w i. has_pending w i db \<longrightarrow> stock_qty w i db' = stock_qty w i db)"

lemma adjusts_pending: "adjusts userId db db' \<Longrightarrow> has_pending w i db' = has_pending w i db"
  by (auto simp: adjusts_def has_pending_def list_ex_iff list_all_iff)

lemma import_flags:
  assumes run: "commitInventoryMasterImport newId allowStock autoCreate rows u db = Inr (n, db')"
    and spares: "spares_pending db db'" and ok: "flags_ok db" "lines_positive db"
  shows "flags_ok db' \<and> lines_positive db'"
proof
  note e = import_sets_stock_effect[OF run]
  show "lines_positive db'" using ok(2) e[THEN conjunct2, THEN conjunct1] lines_positive_cong by (auto simp: adjusts_def)
  show "flags_ok db'"
    unfolding flags_ok_def
  proof (intro allI conjI impI)
    fix w i
    have p: "has_pending w i db' = has_pending w i db" using e adjusts_pending by blast
    have q: "stock_qty w i db' = stock_qty w i db \<or> 0 \<le> stock_qty w i db'" using e[of w i] by blast
    show "has_pending w i db'" if "isStockQtyNegative (stock_qty w i db')"
      using that p q ok(1) by (auto simp: flags_ok_def negative_iff)
    show "stock_qty w i db' < 0" if "has_pending w i db'"
      using that p ok(1) spares by (auto simp: flags_ok_def spares_pending_def)
  qed
qed

text \<open>Every operation of the inventory, and the imports that spare the balances waiting for regularisation.\<close>

inductive flagged_step :: "'a cat_db_scheme \<Rightarrow> 'a cat_db_scheme \<Rightarrow> bool" where
  operated: "stock_step db db' \<Longrightarrow> flagged_step db db'"
| workbook: "commitInventoryMasterImport newId allowStock autoCreate rows u db = Inr (n, db') \<Longrightarrow>
    spares_pending db db' \<Longrightarrow> flagged_step db db'"

lemma flagged_step_flags:
  assumes "flagged_step db db'" and "flags_ok db" and "lines_positive db"
  shows "flags_ok db' \<and> lines_positive db'"
  using assms(1)
proof cases
  case operated
  then show ?thesis using assms(2,3) by (rule stock_step_flags)
next
  case (workbook newId allowStock autoCreate rows u n)
  then show ?thesis using assms(2,3) by (rule import_flags)
qed

section \<open>The property\<close>

text \<open>
  C21. The flags of regularisation are exact. Take any state that the operations of the inventory and
  the Excel imports of stock reach from an inventory without movements, where no import writes a
  balance that waits for regularisation. There a balance below zero beyond the tolerance has a
  transaction waiting for regularisation, and a balance with such a transaction is below zero. (An
  import that does write such a balance leaves its flag standing.)
\<close>

theorem flags_mark_negative_balances:
  assumes "flagged_step\<^sup>*\<^sup>* db db'" and "stocks db = []" and "txs db = []" and "transfers db = []"
  shows "(isStockQtyNegative (stock_qty w i db') \<longrightarrow> has_pending w i db')
    \<and> (has_pending w i db' \<longrightarrow> stock_qty w i db' < 0)"
proof -
  have "flags_ok db' \<and> lines_positive db'"
    using assms(1)
  proof (induction rule: rtranclp_induct)
    case base
    then show ?case using empty_inventory(2)[OF assms(2,3)] assms(4) by (simp add: lines_positive_def)
  next
    case (step b c)
    then show ?case using flagged_step_flags by blast
  qed
  then show ?thesis by (simp add: flags_ok_def)
qed

text \<open>Three litres taken from an empty tank and brought back, then twelve counted by a workbook.\<close>

definition oil_leaves :: transaction_dto where
  "oil_leaves = oil_arrives\<lparr>pd_type := OUT\<rparr>"

definition tank_below_zero :: "cat_db res" where
  "tank_below_zero = and_then two_articles (performTransaction (\<lambda>q. q) oil_leaves plain_user)"

lemma tank_facts:
  "(case two_articles of Inl _ \<Rightarrow> False | Inr db \<Rightarrow> stocks db = [] \<and> txs db = [] \<and> transfers db = [])"
  "(case tank_below_zero of Inl _ \<Rightarrow> False | Inr db \<Rightarrow> stock_qty ''w1'' ''i2'' db = - 3)"
  "(case oil_in_stock of Inl _ \<Rightarrow> False | Inr db \<Rightarrow> list_all (\<lambda>t. \<not> tx_pending t) (txs db))"
  by code_simp+

lemma flags_mark_negative_balances_witness:
  "\<exists>d n db e. tank_below_zero = Inr d \<and> has_pending ''w1'' ''i2'' d
     \<and> imported = Inr (n, db) \<and> two_articles = Inr e \<and> flagged_step\<^sup>*\<^sup>* e db
     \<and> stock_qty ''w1'' ''i2'' db = 12 \<and> \<not> has_pending ''w1'' ''i2'' db"
proof -
  obtain e where e: "two_articles = Inr e" "stocks e = []" "txs e = []" "transfers e = []"
    using tank_facts(1) by (auto split: sum.splits)
  obtain d where d: "tank_below_zero = Inr d" "stock_qty ''w1'' ''i2'' d = - 3"
    using tank_facts(2) by (auto split: sum.splits)
  obtain o' where oil: "oil_in_stock = Inr o'" "list_all (\<lambda>t. \<not> tx_pending t) (txs o')"
    using tank_facts(3) by (auto split: sum.splits)
  obtain n db where i: "imported = Inr (n, db)" "stock_qty ''w1'' ''i2'' db = 12"
    using imported_ends by (auto split: sum.splits prod.splits)
  have "flagged_step e d"
    using d(1) by (intro operated stock_step.moved) (simp add: tank_below_zero_def e)
  then have below: "has_pending ''w1'' ''i2'' d"
    using flags_mark_negative_balances[OF r_into_rtranclp e(2-4), of d "''w1''" "''i2''"] d(2) by (simp add: negative_iff)
  have "flagged_step e o'"
    using oil(1) by (intro operated stock_step.moved) (simp add: oil_in_stock_def e)
  moreover have "flagged_step o' db"
  proof (rule workbook)
    show "commitInventoryMasterImport id True True [oil_row] plain_user o' = Inr (n, db)"
      using i(1) by (simp add: imported_def oil(1) import_counted_def)
    show "spares_pending o' db" using oil(2) by (auto simp: spares_pending_def has_pending_def list_ex_iff list_all_iff)
  qed
  ultimately have reach: "flagged_step\<^sup>*\<^sup>* e db" by (blast intro: rtranclp.intros)
  from flags_mark_negative_balances[OF this e(2-4), of "''w1''" "''i2''"] i(2)
  have "\<not> has_pending ''w1'' ''i2'' db" by simp
  with e d i below reach show ?thesis by blast
qed

end
