(* ===== verification/Spec2Isabelle.thy ===== *)
theory Spec2Isabelle
  imports Inventory_System Order_Properties Fleet_Properties Fleet_Meters Procurement_Properties Invoice_Properties
    Admin_Properties Inventory_Flags
begin

text \<open>
  The backend of an asset-management ERP for maintenance and inventory (NestJS services over a
  PostgreSQL schema with Prisma, under \<open>backend/\<close>; the browser front end is under \<open>frontend/\<close>).
  A tenant has contracts; warehouses and equipments belong to contracts, and a user works on some of
  them. Three parts meet on the same tables: the inventory (stock movements, transfers, receipts,
  adjustments), the purchases (requisitions, quotations, orders and their signatures, invoices) that
  end in a receipt, and the equipments (meters, faults, shift reports, work orders, lubricant
  dispatches) that draw on the stock. Before them stands signing in: accounts, roles and sessions,
  which make the user of a request out of its token.

  How it is modelled. A service method is a HOL function from its request, its user and the tables to an
  error or the new tables (\<open>res\<close>: \<open>Inl\<close> an HTTP exception or a violated
  constraint, \<open>Inr\<close> a value). A transaction that throws returns no tables, so it is rolled
  back. The tables are one record that grows from module to module: \<open>core_db\<close> (counters,
  log), \<open>inv_db\<close> (inventory), \<open>purch_db\<close> (purchases), \<open>ops_db\<close>
  (equipments), \<open>bill_db\<close> (invoices), \<open>cat_db\<close> (master data); every operation works on any extension of the record it
  needs. The accounts have tables of their own, \<open>auth_db\<close>, which no other modelled service
  writes; there the operations that write before they throw return the tables beside their outcome. A
  table is the list of its rows in the order of their creation. Numbers are exact rationals and the
  tolerances of the code are kept; roundings to a number of decimals are arguments (\<open>rnd4\<close>,
  \<open>rounding\<close>). Instants are integers of milliseconds. New ids, the current time and the
  current year are arguments. The order of concurrent transactions is the order of the steps: the
  transactions are serializable; the reads that a service makes before its transaction are run on the
  state of the transaction, but for the confirmation of a receipt, where the two are separate.

  The theories, by the code they model (paths under \<open>backend/src\<close>):

  \<^item> \<open>Prelude\<close>: results, loops, rows of a table, texts of the JavaScript library.
  \<^item> \<open>Access\<close>: \<open>common/contract-scope.util.ts\<close>, \<open>features/auth/permissions.util.ts\<close>,
    \<open>guards/permissions.guard.ts\<close>, \<open>features/purchases/purchase-contract-access.util.ts\<close>; C1.
  \<^item> \<open>Accounts\<close>: the tables of the accounts and what \<open>features/auth\<close> shares: captcha, sessions, audit and
    lock, second factors. \<open>Login\<close>: \<open>features/auth/auth.service.ts\<close> and \<open>strategies/jwt.strategy.ts\<close>.
    \<open>User_Admin\<close>: \<open>features/users/users.service.ts\<close>, \<open>features/tenant-roles\<close>,
    \<open>features/security-admin/security-admin.service.ts\<close>.
  \<^item> \<open>Identity_System\<close>: these operations as one step relation and the locale \<open>account_service\<close> (the
    tables keep their shape, an ended session stays ended). \<open>Identity_Properties\<close>,
    \<open>Admin_Properties\<close>: the properties of signing in and of the administration of users.
  \<^item> \<open>Shared\<close>: \<open>common/sequence/sequence.service.ts\<close>, \<open>common/audit/audit.service.ts\<close>; C4.
  \<^item> \<open>Ledger\<close>: the abstract specification of stock movements (a balance per warehouse and item and a
    book that only grows) and the locales \<open>stock_mover\<close>, \<open>exact_mover\<close>: what a service owes to it.
  \<^item> \<open>Inventory\<close>, \<open>Stock_Service\<close>, \<open>Transfers\<close>, \<open>Adjustment\<close>: the stock helpers of
    \<open>common/inventory\<close> and the services of \<open>features/inventory-stock\<close>, \<open>inventory-transfer\<close> and
    \<open>inventory-adjustment\<close>, each an interpretation of a ledger locale on the abstraction \<open>inv_abs\<close>.
  \<^item> \<open>Purchasing\<close>, \<open>Receipts\<close>, \<open>Receipt_Properties\<close>:
    \<open>features/purchases/warehouse-receipts.service.ts\<close> and its helpers.
  \<^item> \<open>Inventory_System\<close>: all of these as steps on the same tables; what holds in every reachable state.
  \<^item> \<open>Procurement\<close>: what the purchase services share: settings and approval policies
    (\<open>features/purchases/purchase-settings.service.ts\<close>), the status of quotations and requisitions.
    \<open>Requisitions\<close>: \<open>purchase-requisitions.service.ts\<close>. \<open>Sourcing\<close> and \<open>Approvals\<close>:
    \<open>purchase-orders.service.ts\<close>, the orders made from awards and their life until they are closed.
  \<^item> \<open>Procurement_Frames\<close>, \<open>Order_Signatures\<close>, \<open>Procurement_System\<close>, \<open>Order_Amounts\<close>: what each purchase operation
    leaves alone, the locale \<open>signing_service\<close> (the signatures of an order are one per level and
    per user, in order) and its interpretations, ending in one step relation with its reachable
    states, and the tie between the amount of an order, the thresholds of the settings and the number of
    its signatures. \<open>Procurement_Properties\<close>: the properties of orders and signatures, and their fixtures.
  \<^item> \<open>Invoices\<close>, \<open>Invoice_Properties\<close>: \<open>purchase-invoices.service.ts\<close>,
    \<open>purchase-credit-notes.service.ts\<close> and the closing of a reconciled requisition.
  \<^item> \<open>Catalogue\<close>, \<open>Articles\<close>, \<open>Article_Codes\<close>: the master data of the inventory
    (\<open>features/inventory-items/inventory-items.service.ts\<close>, \<open>item-categories.service.ts\<close>,
    \<open>inventory-suppliers.service.ts\<close>, \<open>features/units-of-measure\<close>, \<open>features/warehouses\<close>,
    \<open>features/vendors\<close>) and the codes of new articles. \<open>Catalogue_Invariant\<close>, \<open>Catalogue_Properties\<close>: the
    shape of these tables over all their operations, and what a removal leaves of the stock.
  \<^item> \<open>Stock_Import\<close>: the Excel export of the inventory, the parsing of its cells
    (\<open>common/excel/baselogic-master-import.util.ts\<close>), the validation and the commit of the import.
    \<open>Import_Round_Trip\<close>: an import of an export changes nothing. \<open>Import_Safety\<close>: what an import can change.
    \<open>Inventory_Flags\<close>: the flags of regularisation over the operations of the inventory and the import.
  \<^item> \<open>Operations\<close>: the tables of the equipment side and the code its services share
    (\<open>features/equipments/operational-blockers.ts\<close>, \<open>equipment-meter-sync.ts\<close>,
    \<open>meter-jump-limits.util.ts\<close>, \<open>equipment-operational-orchestrator.service.ts\<close>).
  \<^item> \<open>Fleet\<close>: \<open>features/equipments/equipments.service.ts\<close> (creation, change, removal, bulk capture),
    \<open>features/meter-adjustments\<close>. \<open>Fleet_Import\<close>: the Excel import of the fleet in the same service.
  \<^item> \<open>Fault_Reports\<close>: \<open>features/fault-reports/fault-reports.service.ts\<close>.
  \<^item> \<open>Availability\<close>: \<open>features/equipment-availability\<close>, the ledger of availability events and the
    shift reports; \<open>Shift_Board\<close>: its read side.
  \<^item> \<open>Work_Orders\<close>: \<open>features/work-orders/work-orders.service.ts\<close>; \<open>Lube_Reports\<close>:
    \<open>features/lube-reports/lube-reports.service.ts\<close>.
  \<^item> \<open>Equipment_Services\<close>, \<open>Report_Services\<close>, \<open>Order_Services\<close>: the locales \<open>equipment_service\<close> (keys and
    meters stay in order, a return to service is free of causes) and \<open>careful_service\<close> (no active
    fault without its stop appears), interpreted on every operation of the equipment side.
  \<^item> \<open>Equipment_System\<close>: those operations as one step relation, its reachable states and a history
    that serves as fixture. \<open>Order_Properties\<close>, \<open>Fleet_Properties\<close>, \<open>Import_Properties\<close>: the
    properties of the closing of orders, of the reports and captures, and of the fleet import.
    \<open>Fleet_Meters\<close>: the meters over those operations and the import together.

  What the properties show. C5 to C7, C9 to C15, C17 and C20 to C22 are about the inventory: every
  successful movement is one exact entry of the ledger; transfers neither create nor lose goods; a
  confirmation of a receipt moves what is new and is not repeated; what the receipts register stays
  within the order, as long as no adjustment of a receipt intervenes (C14); and, over all states that
  the operations of the inventory reach, the book accounts for every balance, the regularisation flags
  mark the negative balances (C21, also with Excel imports that spare the flagged ones), and returns
  stay within dispatches and issues. C19, C34 and C39 are about its master data: an import of stock
  writes only what its rows say and the user may reach, a removal loses no goods, and the tables keep
  their shape. C3, C8, C18, C28, C37 and C40 are about the purchases: an order is released only with the
  signatures its amount requires, one per level and per user (C3), and the signers of its levels, where
  the policies provide them, do release it (C37); a split orders each awarded line once (C8); the
  three-way match is decided by three amounts (C18) and every invoice keeps the shape of its status
  (C40); the loop of the payment calendar ends with one row per day (C28). C24 to C27, C29 and C30 are
  about the equipments: the timeline of events stays linked wherever an event is registered; the log of
  a meter is a chain that ends at the meter (C25, also with Excel imports that name every equipment
  once); apart from the Excel import an equipment returns to service only where nothing blocks it
  (C26), and without reopened orders as well a high fault keeps it stopped (C27); the closing of an
  order refines the ledger. C1 is about the contracts that a list shows, and C2, C16, C23, C31 to C33,
  C35, C36 and C38 about signing in: a session that a login issues presupposes every check (C35), a
  renewed password ends all sessions (C33), the accounts keep their shape (C36), an administrator
  changes only what belongs to his tenant (C2), and the first step of the login refuses a locked account
  (C16), while the step that takes the code of the second factor does not look at the lock.

  Some properties state a behaviour that the code shows and should not: lists that take any contract of
  the query (C1), an average cost outside its range from a negative stock (C7), a lock that whoever knows
  an address can renew (C16), an editor of users who makes himself administrator of the platform (C23), a
  token of the first step that serves as a session (C31), a second factor that locks its user out
  (C32), an activation without a token that opens an account (C38), a stale confirmation among the
  receipts (C15) and a cost that is hidden from the record as well as from the user (C30). Further such
  lemmas stand in \<open>Access\<close>, \<open>Adjustment\<close>, \<open>Equipment_System\<close>, \<open>Fleet_Meters\<close>, \<open>Fleet_Properties\<close>,
  \<open>Identity_Properties\<close>, \<open>Import_Properties\<close>, \<open>Inventory_System\<close>, \<open>Invoice_Properties\<close>,
  \<open>Order_Properties\<close>, \<open>Procurement_Properties\<close> and \<open>Stock_Service\<close>.

  Bounds. No definition uses fuel: the loops of the modelled code run over a list of the request or of
  a table, so the recursion is structural and every operation returns; the loop over the days of the
  payment calendar ends by a measure, the time left to its last day.

  What the step relations leave out is said at each: \<open>receipt_step\<close> has no adjustments of receipts;
  \<open>stock_step\<close> has no Excel import of stock, \<open>flagged_step\<close> adds it; \<open>careful_step\<close> and \<open>ops_step\<close> have no
  Excel import of the fleet, \<open>fleet_step\<close> adds it.

  Not modelled: the front end; controllers, modules and the declarative validation of requests; mails,
  push notifications and files (their calls have no effect on the tables modelled); lists, statistics, PDF
  output and the layout of workbooks; the purges of whole tables by the platform
  (\<open>features/platform-data-admin\<close>), so no reachable state is one after a purge; catalogs of equipment
  types, maintenance kits, sites and the configuration of tenants; what bcrypt, SHA-256, the one-time
  codes, the signature of tokens and the service that locates an address compute, which are the fields
  of \<open>gear\<close> or the records that a verification returns. Foreign keys are modelled where a removal meets
  them in its own module: the removal of a user does not look at the rows of other modules that restrict
  it, and a movement does not check that the keys of its item and user exist. Columns and texts that
  no rule reads are left out of the records. A search condition, the table of active users and what the
  storage returns for a file are arguments.
\<close>

end
